(* ===== verification/Prelude.thy ===== *)
theory Prelude
  imports Main "HOL-Library.Sublist"
begin

text \<open>
  Shared vocabulary of the development: results of fallible Rust code, saturating
  64-bit arithmetic, Rust string tests on UTF-8 bytes, and the relational tables the
  service keeps in SQLite. A table is the list of its rows in insertion (rowid) order;
  a query is a filter, an \<open>UPDATE ... WHERE\<close> maps the selected rows, an
  \<open>INSERT\<close> appends a row after the uniqueness constraint of the table is checked.
\<close>

named_theorems handler_defs \<open>definitions of the request handlers\<close>
named_theorems guard_defs \<open>definitions of the guards the handlers call\<close>
named_theorems table_simps \<open>how a table operation changes what a query returns\<close>

section \<open>Results\<close>

text \<open>\<open>Result<T, E>\<close> is \<open>'e + 'a\<close>; \<open>and_then\<close> is what the \<open>?\<close> operator does.\<close>

fun and_then :: "'e + 'a \<Rightarrow> ('a \<Rightarrow> 'e + 'b) \<Rightarrow> 'e + 'b" where
  "and_then (Inl e) f = Inl e"
| "and_then (Inr x) f = f x"

definition ensure :: "bool \<Rightarrow> 'e \<Rightarrow> 'e + unit" where
  "ensure b e = (if b then Inr () else Inl e)"

fun ok_or :: "'e \<Rightarrow> 'a option \<Rightarrow> 'e + 'a" where
  "ok_or e None = Inl e"
| "ok_or e (Some x) = Inr x"

fun is_ok :: "'e + 'a \<Rightarrow> bool" where
  "is_ok (Inl e) = False"
| "is_ok (Inr x) = True"

lemma and_then_Inr_iff [simp]:
  "and_then r f = Inr y \<longleftrightarrow> (\<exists>x. r = Inr x \<and> f x = Inr y)"
  by (cases r) auto

lemma and_then_Inl_iff:
  "and_then r f = Inl e \<longleftrightarrow> r = Inl e \<or> (\<exists>x. r = Inr x \<and> f x = Inl e)"
  by (cases r) auto

lemma ensure_Inr [simp]: "ensure b e = Inr u \<longleftrightarrow> b"
  by (simp add: ensure_def)

lemma ensure_Inl [simp]: "ensure b e = Inl e' \<longleftrightarrow> \<not> b \<and> e' = e"
  by (auto simp: ensure_def)

lemma ok_or_Inr [simp]: "ok_or e v = Inr x \<longleftrightarrow> v = Some x"
  by (cases v) auto

lemma ok_or_Inl [simp]: "ok_or e v = Inl e' \<longleftrightarrow> v = None \<and> e' = e"
  by (cases v) auto

lemma is_ok_iff: "is_ok r \<longleftrightarrow> (\<exists>x. r = Inr x)"
  by (cases r) auto

lemma and_then_cong [fundef_cong]:
  "s = r \<Longrightarrow> (\<And>x. r = Inr x \<Longrightarrow> g x = f x) \<Longrightarrow> and_then s g = and_then r f"
  by (cases r) auto

text \<open>A loop that runs a fallible check on every element and stops at the first refusal.\<close>

fun check_all :: "('a \<Rightarrow> 'e + unit) \<Rightarrow> 'a list \<Rightarrow> 'e + unit" where
  "check_all f [] = Inr ()"
| "check_all f (x # xs) = and_then (f x) (\<lambda>_. check_all f xs)"

lemma check_all_Inr [simp]: "check_all f xs = Inr u \<longleftrightarrow> (\<forall>x \<in> set xs. f x = Inr ())"
  by (induction xs) auto

text \<open>A loop that threads a state through fallible steps.\<close>

fun fold_res :: "('a \<Rightarrow> 's \<Rightarrow> 'e + 's) \<Rightarrow> 'a list \<Rightarrow> 's \<Rightarrow> 'e + 's" where
  "fold_res f [] s = Inr s"
| "fold_res f (x # xs) s = and_then (f x s) (fold_res f xs)"

lemma fold_res_invariant:
  assumes "fold_res f xs s = Inr t" and "P s"
    and "\<And>x s t. x \<in> set xs \<Longrightarrow> P s \<Longrightarrow> f x s = Inr t \<Longrightarrow> P t"
  shows "P t"
  using assms by (induction xs arbitrary: s) auto

section \<open>64-bit integers\<close>

definition i64_max :: int where "i64_max = 9223372036854775807"
definition i64_min :: int where "i64_min = - 9223372036854775808"

definition sat64 :: "int \<Rightarrow> int" where
  "sat64 x = max i64_min (min i64_max x)"

definition saturating_add :: "int \<Rightarrow> int \<Rightarrow> int" where
  "saturating_add a b = sat64 (a + b)"

definition saturating_mul :: "int \<Rightarrow> int \<Rightarrow> int" where
  "saturating_mul a b = sat64 (a * b)"

definition clamp64 :: "int \<Rightarrow> int \<Rightarrow> int \<Rightarrow> int" where
  "clamp64 lo hi x = max lo (min hi x)"

text \<open>Rust's \<open>/\<close> on integers truncates towards zero.\<close>

definition rust_div :: "int \<Rightarrow> int \<Rightarrow> int" where
  "rust_div x y = (let q = \<bar>x\<bar> div \<bar>y\<bar> in if (x < 0) = (y < 0) then q else - q)"

lemma sat64_range: "i64_min \<le> sat64 x" "sat64 x \<le> i64_max"
  by (auto simp: sat64_def i64_min_def i64_max_def)

lemma sat64_id: "i64_min \<le> x \<Longrightarrow> x \<le> i64_max \<Longrightarrow> sat64 x = x"
  by (simp add: sat64_def)

lemma sat64_mono: "x \<le> y \<Longrightarrow> sat64 x \<le> sat64 y"
  by (auto simp: sat64_def)

lemma sat64_le: "i64_min \<le> x \<Longrightarrow> sat64 x \<le> x"
  by (auto simp: sat64_def)

lemma rust_div_nonneg: "0 \<le> x \<Longrightarrow> 0 < y \<Longrightarrow> rust_div x y = x div y"
  by (simp add: rust_div_def)

section \<open>Strings as UTF-8 bytes\<close>

definition starts_with :: "string \<Rightarrow> string \<Rightarrow> bool" where
  "starts_with s p \<longleftrightarrow> prefix p s"

definition ends_with :: "string \<Rightarrow> string \<Rightarrow> bool" where
  "ends_with s p \<longleftrightarrow> suffix p s"

definition contains :: "string \<Rightarrow> string \<Rightarrow> bool" where
  "contains s p \<longleftrightarrow> sublist p s"

definition ascii_ws :: "char \<Rightarrow> bool" where
  "ascii_ws c \<longleftrightarrow> (let n = (of_char c :: nat) in n = 32 \<or> (9 \<le> n \<and> n \<le> 13))"

text \<open>
  \<open>s.trim().is_empty()\<close>: every code point of \<open>s\<close> has the Unicode property
  White\_Space. The two- and three-byte sequences are U+0085, U+00A0, U+1680,
  U+2000 to U+200A, U+2028, U+2029, U+202F, U+205F and U+3000.
\<close>

definition ws2 :: "nat \<Rightarrow> nat \<Rightarrow> bool" where
  "ws2 a b \<longleftrightarrow> a = 194 \<and> (b = 133 \<or> b = 160)"

definition ws3 :: "nat \<Rightarrow> nat \<Rightarrow> nat \<Rightarrow> bool" where
  "ws3 a b c \<longleftrightarrow>
     (a = 225 \<and> b = 154 \<and> c = 128)
   \<or> (a = 226 \<and> b = 128 \<and> ((128 \<le> c \<and> c \<le> 138) \<or> c = 168 \<or> c = 169 \<or> c = 175))
   \<or> (a = 226 \<and> b = 129 \<and> c = 159)
   \<or> (a = 227 \<and> b = 128 \<and> c = 128)"

fun blank :: "string \<Rightarrow> bool" where
  "blank [] = True"
| "blank [a] = ascii_ws a"
| "blank [a, b] = (if ascii_ws a then blank [b] else ws2 (of_char a) (of_char b))"
| "blank (a # b # c # s) =
     (if ascii_ws a then blank (b # c # s)
      else if ws2 (of_char a) (of_char b) then blank (c # s)
      else ws3 (of_char a) (of_char b) (of_char c) \<and> blank s)"

definition ascii_graphic :: "char \<Rightarrow> bool" where
  "ascii_graphic c \<longleftrightarrow> (let n = (of_char c :: nat) in 33 \<le> n \<and> n \<le> 126)"

definition ascii_control :: "char \<Rightarrow> bool" where
  "ascii_control c \<longleftrightarrow> (let n = (of_char c :: nat) in n \<le> 31 \<or> n = 127)"

text \<open>\<open>u8::is_ascii_whitespace\<close> is space, tab, line feed, form feed, carriage return.\<close>

definition ascii_whitespace :: "char \<Rightarrow> bool" where
  "ascii_whitespace c \<longleftrightarrow> (let n = (of_char c :: nat) in n = 32 \<or> n = 9 \<or> n = 10 \<or> n = 12 \<or> n = 13)"

definition ascii_digit :: "char \<Rightarrow> bool" where
  "ascii_digit c \<longleftrightarrow> (let n = (of_char c :: nat) in 48 \<le> n \<and> n \<le> 57)"

definition ascii_lower_hex :: "char \<Rightarrow> bool" where
  "ascii_lower_hex c \<longleftrightarrow> (let n = (of_char c :: nat) in (48 \<le> n \<and> n \<le> 57) \<or> (97 \<le> n \<and> n \<le> 102))"

definition ascii_alnum :: "char \<Rightarrow> bool" where
  "ascii_alnum c \<longleftrightarrow> (let n = (of_char c :: nat) in
     (48 \<le> n \<and> n \<le> 57) \<or> (65 \<le> n \<and> n \<le> 90) \<or> (97 \<le> n \<and> n \<le> 122))"

definition nul :: char where "nul = CHR 0x00"

section \<open>Options as SQL NULLs\<close>

definition is_some_and :: "'a option \<Rightarrow> ('a \<Rightarrow> bool) \<Rightarrow> bool" where
  "is_some_and v P = (case v of None \<Rightarrow> False | Some x \<Rightarrow> P x)"

definition is_none_or :: "'a option \<Rightarrow> ('a \<Rightarrow> bool) \<Rightarrow> bool" where
  "is_none_or v P = (case v of None \<Rightarrow> True | Some x \<Rightarrow> P x)"

definition unwrap_or :: "'a option \<Rightarrow> 'a \<Rightarrow> 'a" where
  "unwrap_or v d = (case v of None \<Rightarrow> d | Some x \<Rightarrow> x)"

lemma is_some_and_simps [simp]:
  "is_some_and None P = False" "is_some_and (Some x) P = P x"
  by (simp_all add: is_some_and_def)

lemma is_none_or_simps [simp]:
  "is_none_or None P = True" "is_none_or (Some x) P = P x"
  by (simp_all add: is_none_or_def)

lemma unwrap_or_simps [simp]: "unwrap_or None d = d" "unwrap_or (Some x) d = x"
  by (simp_all add: unwrap_or_def)

section \<open>Tables\<close>

definition rows :: "('r \<Rightarrow> bool) \<Rightarrow> 'r list \<Rightarrow> 'r list" where
  "rows P t = filter P t"

definition count_where :: "('r \<Rightarrow> bool) \<Rightarrow> 'r list \<Rightarrow> int" where
  "count_where P t = int (length (filter P t))"

definition exists_where :: "('r \<Rightarrow> bool) \<Rightarrow> 'r list \<Rightarrow> bool" where
  "exists_where P t \<longleftrightarrow> list_ex P t"

definition fetch :: "('r \<Rightarrow> bool) \<Rightarrow> 'r list \<Rightarrow> 'r option" where
  "fetch P t = find P t"

definition update_where :: "('r \<Rightarrow> bool) \<Rightarrow> ('r \<Rightarrow> 'r) \<Rightarrow> 'r list \<Rightarrow> 'r list" where
  "update_where P f t = map (\<lambda>r. if P r then f r else r) t"

definition insert_row :: "'r \<Rightarrow> 'r list \<Rightarrow> 'r list" where
  "insert_row r t = t @ [r]"

definition delete_where :: "('r \<Rightarrow> bool) \<Rightarrow> 'r list \<Rightarrow> 'r list" where
  "delete_where P t = filter (\<lambda>r. \<not> P r) t"

text \<open>An \<open>INSERT\<close> into a table whose rows \<open>same\<close> forbids to agree.\<close>

definition insert_unique :: "'e \<Rightarrow> ('r \<Rightarrow> 'r \<Rightarrow> bool) \<Rightarrow> 'r \<Rightarrow> 'r list \<Rightarrow> 'e + 'r list" where
  "insert_unique e same r t = (if list_ex (same r) t then Inl e else Inr (insert_row r t))"

definition insert_or_ignore :: "('r \<Rightarrow> 'r \<Rightarrow> bool) \<Rightarrow> 'r \<Rightarrow> 'r list \<Rightarrow> 'r list" where
  "insert_or_ignore same r t = (if list_ex (same r) t then t else insert_row r t)"

lemma count_where_pos [table_simps]: "0 < count_where P t \<longleftrightarrow> (\<exists>r \<in> set t. P r)"
  by (auto simp: count_where_def filter_empty_conv)

lemma count_where_zero [table_simps]: "count_where P t = 0 \<longleftrightarrow> (\<forall>r \<in> set t. \<not> P r)"
  by (auto simp: count_where_def filter_empty_conv)

lemma count_where_nonneg [simp]: "0 \<le> count_where P t"
  by (simp add: count_where_def)

lemma count_where_Nil [simp]: "count_where P [] = 0"
  by (simp add: count_where_def)

lemma count_where_Cons [simp]:
  "count_where P (r # t) = (if P r then 1 else 0) + count_where P t"
  by (simp add: count_where_def)

lemma count_where_insert_row [simp]:
  "count_where P (insert_row r t) = count_where P t + (if P r then 1 else 0)"
  by (simp add: count_where_def insert_row_def)

lemma exists_where_iff [table_simps]: "exists_where P t \<longleftrightarrow> (\<exists>r \<in> set t. P r)"
  by (auto simp: exists_where_def list_ex_iff)

lemma set_update_where [table_simps]:
  "set (update_where P f t) = (\<lambda>r. if P r then f r else r) ` set t"
  by (simp add: update_where_def)

lemma update_where_row:
  "r \<in> set (update_where P f t) \<Longrightarrow> \<exists>s \<in> set t. r = (if P s then f s else s)"
  by (auto simp: set_update_where)

lemma set_insert_row [simp]: "set (insert_row r t) = insert r (set t)"
  by (auto simp: insert_row_def)

lemma set_delete_where [simp]: "set (delete_where P t) = {r \<in> set t. \<not> P r}"
  by (auto simp: delete_where_def)

lemma set_insert_or_ignore:
  "set (insert_or_ignore same r t) \<subseteq> insert r (set t)"
  "set t \<subseteq> set (insert_or_ignore same r t)"
  by (auto simp: insert_or_ignore_def)

lemma insert_unique_Inr [simp]:
  "insert_unique e same r t = Inr t' \<longleftrightarrow> (\<forall>s \<in> set t. \<not> same r s) \<and> t' = insert_row r t"
  by (auto simp: insert_unique_def list_ex_iff)

lemma fetch_SomeD: "fetch P t = Some r \<Longrightarrow> r \<in> set t \<and> P r"
  by (auto simp: fetch_def find_Some_iff)

lemma fetch_None_iff: "fetch P t = None \<longleftrightarrow> (\<forall>r \<in> set t. \<not> P r)"
  by (auto simp: fetch_def find_None_iff)

lemma fetch_exists: "r \<in> set t \<Longrightarrow> P r \<Longrightarrow> \<exists>s. fetch P t = Some s"
  using fetch_None_iff [of P t] by (cases "fetch P t") auto

lemma fetch_insert_row:
  "fetch P (insert_row r t) =
     (case fetch P t of Some s \<Rightarrow> Some s | None \<Rightarrow> if P r then Some r else None)"
  by (induction t) (auto simp: fetch_def insert_row_def)

lemma fetch_append_first:
  "\<forall>s \<in> set xs. \<not> P s \<Longrightarrow> P r \<Longrightarrow> fetch P (xs @ r # ys) = Some r"
  by (induction xs) (auto simp: fetch_def)

lemma fetch_update_where_frame:
  assumes "\<And>r. r \<in> set t \<Longrightarrow> P (if Q r then f r else r) = P r"
    and "\<And>r. r \<in> set t \<Longrightarrow> P r \<Longrightarrow> \<not> Q r"
  shows "fetch P (update_where Q f t) = fetch P t"
  using assms by (induction t) (auto simp: fetch_def update_where_def)

subsection \<open>Keyed tables\<close>

text \<open>
  What a handler relies on when it reads a row by primary key: keys are distinct, a lookup
  after an insert of a new key returns that row, a keyed update changes that row only.
\<close>

definition unique_by :: "('r \<Rightarrow> 'k) \<Rightarrow> 'r list \<Rightarrow> bool" where
  "unique_by key t \<longleftrightarrow> distinct (map key t)"

lemma unique_by_Nil [simp]: "unique_by key []"
  by (simp add: unique_by_def)

lemma fetch_unique:
  assumes "unique_by key t" and "r \<in> set t" and "key r = k"
  shows "fetch (\<lambda>r. key r = k) t = Some r"
  using assms unfolding unique_by_def
proof (induction t)
  case (Cons s t)
  then show ?case by (auto simp: fetch_def)
qed simp

lemma fetch_key_conj_unique:
  assumes "unique_by key t" and "r \<in> set t" and "key r = k" and "P r"
  shows "fetch (\<lambda>r. P r \<and> key r = k) t = Some r"
  using assms unfolding unique_by_def
proof (induction t)
  case (Cons s t)
  then show ?case by (auto simp: fetch_def)
qed simp

lemma unique_row:
  assumes "unique_by key t" and "r \<in> set t" and "s \<in> set t" and "key r = key s"
  shows "r = s"
proof -
  from assms(1) have "inj_on key (set t)" by (simp add: unique_by_def distinct_map)
  with assms(2-4) show ?thesis by (simp add: inj_on_def)
qed

lemma unique_by_insert [simp]:
  "unique_by key (insert_row r t) \<longleftrightarrow> unique_by key t \<and> (\<forall>s \<in> set t. key s \<noteq> key r)"
proof -
  have "key r \<notin> key ` set t \<longleftrightarrow> (\<forall>s \<in> set t. key s \<noteq> key r)"
    by (metis imageE imageI)
  then show ?thesis by (simp add: unique_by_def insert_row_def)
qed

lemma unique_by_update [intro]:
  assumes "unique_by key t" and "\<And>r. key (f r) = key r"
  shows "unique_by key (update_where P f t)"
proof -
  have "map key (update_where P f t) = map key t"
    using assms(2) by (auto simp: update_where_def)
  with assms(1) show ?thesis by (simp add: unique_by_def)
qed

lemma unique_by_delete [intro]: "unique_by key t \<Longrightarrow> unique_by key (delete_where P t)"
  by (auto simp: unique_by_def delete_where_def distinct_map intro: inj_on_subset)

lemma fetch_insert_new:
  "\<forall>s \<in> set t. \<not> P s \<Longrightarrow> P r \<Longrightarrow> fetch P (insert_row r t) = Some r"
  by (simp add: fetch_insert_row fetch_None_iff [THEN iffD2])

lemma fetch_insert_other: "\<not> P r \<Longrightarrow> fetch P (insert_row r t) = fetch P t"
  by (auto simp: fetch_insert_row split: option.splits)

lemma fetch_key_update:
  assumes "\<And>r. key (f r) = key r"
  shows "fetch (\<lambda>r. key r = k) (update_where P f t)
       = map_option (\<lambda>r. if P r then f r else r) (fetch (\<lambda>r. key r = k) t)"
  using assms by (induction t) (auto simp: fetch_def update_where_def)

lemma fetch_update_stable:
  assumes "\<And>r. Q (f r) = Q r"
  shows "fetch Q (update_where P f t) = map_option (\<lambda>r. if P r then f r else r) (fetch Q t)"
  using assms by (induction t) (auto simp: fetch_def update_where_def)

lemma count_update_stable:
  assumes "\<And>r. r \<in> set t \<Longrightarrow> P r \<Longrightarrow> Q (f r) = Q r"
  shows "count_where Q (update_where P f t) = count_where Q t"
  using assms by (induction t) (auto simp: count_where_def update_where_def)

lemma map_update_stable:
  assumes "\<And>r. r \<in> set t \<Longrightarrow> P r \<Longrightarrow> g (f r) = g r"
  shows "map g (update_where P f t) = map g t"
  using assms by (auto simp: update_where_def)

end
