(* ===== verification/App_Error.thy ===== *)
theory App_Error
  imports Prelude
begin

text \<open>
  The refusals of the service (\<^verbatim>\<open>server/src/error.rs\<close>). An \<open>app_error\<close> keeps the HTTP
  status, the machine-readable code and the gate that \<open>human_gate\<close> puts into the details;
  the prose messages are fixed per call site and are left out. \<open>unique_violation\<close> is what
  the conversion from \<open>sqlx::Error\<close> answers to a violated uniqueness constraint, and
  \<open>row_not_found\<close> what it answers to \<open>fetch_one\<close> without a row.
\<close>

datatype status_code =
    BAD_REQUEST | UNAUTHORIZED | FORBIDDEN | NOT_FOUND | CONFLICT
  | TOO_MANY_REQUESTS | SERVICE_UNAVAILABLE | INTERNAL_SERVER_ERROR

record app_error =
  status :: status_code
  code :: string
  gate :: "string option"

type_synonym 'a res = "app_error + 'a"

definition app_error_new :: "status_code \<Rightarrow> string \<Rightarrow> app_error" where
  "app_error_new s c = \<lparr>status = s, code = c, gate = None\<rparr>"

definition bad_request :: app_error where
  "bad_request = app_error_new BAD_REQUEST ''invalid_request''"

definition conflict :: "string \<Rightarrow> app_error" where
  "conflict c = app_error_new CONFLICT c"

definition forbidden :: app_error where
  "forbidden = app_error_new FORBIDDEN ''operation_not_permitted''"

definition human_gate :: "string \<Rightarrow> app_error" where
  "human_gate g = forbidden\<lparr>gate := Some g\<rparr>"

definition not_found :: app_error where
  "not_found = app_error_new NOT_FOUND ''record_not_found''"

definition auth_required :: app_error where
  "auth_required = app_error_new UNAUTHORIZED ''authentication_required''"

definition internal :: app_error where
  "internal = app_error_new INTERNAL_SERVER_ERROR ''internal_error''"

definition rate_limited :: app_error where
  "rate_limited = app_error_new TOO_MANY_REQUESTS ''rate_limited''"

datatype sqlx_error = RowNotFound | Unique_violation | Busy | PoolTimedOut | Other_sqlx

fun from_sqlx :: "sqlx_error \<Rightarrow> app_error" where
  "from_sqlx RowNotFound = not_found"
| "from_sqlx Unique_violation = conflict ''record_conflict''"
| "from_sqlx Busy = app_error_new SERVICE_UNAVAILABLE ''temporarily_unavailable''"
| "from_sqlx PoolTimedOut = app_error_new SERVICE_UNAVAILABLE ''temporarily_unavailable''"
| "from_sqlx Other_sqlx = internal"

abbreviation unique_violation :: app_error where
  "unique_violation \<equiv> from_sqlx Unique_violation"

abbreviation row_not_found :: app_error where
  "row_not_found \<equiv> from_sqlx RowNotFound"

text \<open>The \<open>retryable\<close> flag and the retry-after header of the rendered response.\<close>

definition retryable :: "app_error \<Rightarrow> bool" where
  "retryable e \<longleftrightarrow> status e = TOO_MANY_REQUESTS \<or> status e = SERVICE_UNAVAILABLE"

definition retry_after :: "app_error \<Rightarrow> nat option" where
  "retry_after e = (if status e = TOO_MANY_REQUESTS then Some 60 else None)"

lemma conflict_inject [simp]: "conflict c = conflict c' \<longleftrightarrow> c = c'"
  by (simp add: conflict_def app_error_new_def)

lemma status_simps [simp]:
  "status bad_request = BAD_REQUEST" "status (conflict c) = CONFLICT"
  "status forbidden = FORBIDDEN" "status (human_gate g) = FORBIDDEN"
  "status not_found = NOT_FOUND" "status auth_required = UNAUTHORIZED"
  "status internal = INTERNAL_SERVER_ERROR" "status rate_limited = TOO_MANY_REQUESTS"
  by (simp_all add: bad_request_def conflict_def forbidden_def human_gate_def not_found_def
      auth_required_def internal_def rate_limited_def app_error_new_def)

lemma gate_simps [simp]: "gate (human_gate g) = Some g" "gate (conflict c) = None"
  by (simp_all add: human_gate_def conflict_def app_error_new_def)

lemma code_conflict [simp]: "code (conflict c) = c"
  by (simp add: conflict_def app_error_new_def)

lemma error_distinct [simp]:
  "conflict c \<noteq> bad_request" "conflict c \<noteq> forbidden" "conflict c \<noteq> human_gate g"
  "conflict c \<noteq> not_found" "conflict c \<noteq> auth_required" "bad_request \<noteq> conflict c"
  "forbidden \<noteq> conflict c" "human_gate g \<noteq> conflict c" "not_found \<noteq> conflict c"
  "auth_required \<noteq> conflict c" "not_found \<noteq> forbidden" "forbidden \<noteq> not_found"
  by (simp_all add: conflict_def bad_request_def forbidden_def human_gate_def not_found_def
      auth_required_def app_error_new_def)

text \<open>\<open>bounded\<close>: the length, emptiness and NUL checks every handler runs on its texts.\<close>

definition bounded :: "string \<Rightarrow> nat \<Rightarrow> bool \<Rightarrow> unit res" where
  "bounded value limit required =
     ensure (\<not> (length value > limit \<or> (required \<and> blank value) \<or> nul \<in> set value)) bad_request"

definition criteria :: "string list \<Rightarrow> unit res" where
  "criteria values =
     (if values = [] \<or> length values > 100 then Inl bad_request
      else check_all (\<lambda>v. bounded v 2048 True) values)"

end
