(* ===== verification/Schema.thy ===== *)
theory Schema
  imports App_Error
begin

text \<open>
  The tables of the service as row records (\<^verbatim>\<open>server/migrations\<close> and the row structs of
  \<^verbatim>\<open>server/src/coordination.rs\<close>). A column with a \<open>CHECK ... IN\<close> list is a datatype with
  those spellings, a nullable column is an option, a JSON column holds the value that was
  encoded into it. The tables are grouped by record extension: access, coordination,
  jobs, completion workflow, integrator.
\<close>

section \<open>Column types\<close>

datatype principal_kind = Human | Agent
datatype credential_class = Interactive | Supervised | Integrator
datatype credential_access = Write | Read
datatype review_mode = RM_none | RM_agent | RM_human | RM_both | RM_either
datatype recovery_mode = Recovery_agent | Recovery_manual
datatype integration_owner = Owner_agent | Owner_integrator
datatype task_kind = Code | General
datatype lifecycle = Planned | Open | Done | Canceled | Superseded
datatype origin = Origin_human | Origin_agent | Origin_service
datatype attempt_state = Active | Released | Blocked | Expired | Attempt_canceled | Submitted
datatype attempt_mode = Work | Recovery
datatype phase = Phase_review | Phase_integration | Phase_revision_needed | Phase_done
datatype activity_kind = Agent_review | Human_review | Either_review | Integration
datatype activity_state =
  Act_queued | Act_active | Act_completed | Act_canceled | Act_recovery_required
datatype reservation_state = Held | Hold_released | Hold_resolved
datatype job_state = Registered | Running | Succeeded | Failed | Unknown | Not_started
datatype disposition = Allow | Deny | Defer
datatype publication_state = Published | Not_published | Uncertain
datatype review_decision = Approved | Changes_requested
datatype clock_status = Clock_ready | Clock_reconciliation
datatype coordination_state = Coordination_ready | Restore_reconciliation

text \<open>What \<open>Task::status\<close> answers.\<close>

datatype work_status =
    Lifecycle_status lifecycle | In_progress | Blocked_status | Recovery_required
  | Waiting_review | Waiting_integration | Ready | Validating | Integrating

section \<open>Rows\<close>

record principal =
  pr_id :: string
  pr_name :: string
  pr_kind :: principal_kind
  pr_role :: string
  pr_disabled_at :: "int option"

record credential =
  cr_id :: string
  cr_principal :: string
  cr_token_hash :: string
  cr_revoked_at :: "int option"
  cr_expires_at :: "int option"
  cr_class :: string
  cr_access :: string

record browser_session =
  bs_id :: string
  bs_principal :: string
  bs_token_hash :: string
  bs_expires_at :: int
  bs_revoked_at :: "int option"

record agent_session =
  as_id :: string
  as_principal :: string
  as_credential :: string
  as_workstation :: string
  as_proof_hash :: string
  as_closed_at :: "int option"
  as_subagent_identity :: "string option"
  as_parent_session :: "string option"

record subagent_identity =
  si_id :: string
  si_project :: string
  si_principal :: string

record project =
  pj_id :: string
  pj_name :: string
  pj_repository_url :: string
  pj_target_branch :: string
  pj_policy_revision :: int
  pj_review_mode :: review_mode
  pj_recovery_mode :: recovery_mode
  pj_lease_seconds :: int
  pj_rules :: string
  pj_agent_rule_editing :: bool
  pj_automatic_integration :: bool
  pj_allow_subagent_reviews :: bool
  pj_integration_owner :: integration_owner
  pj_max_attempt_seconds :: int
  pj_allow_relayed_human_answers :: bool
  pj_created_at :: int
  pj_archived_at :: "int option"

record policy_revision =
  pv_project :: string
  pv_revision :: int
  pv_data :: project
  pv_actor :: string
  pv_created_at :: int
  pv_provenance :: string

record task =
  tk_id :: string
  tk_project :: string
  tk_title :: string
  tk_description :: string
  tk_acceptance :: "string list"
  tk_kind :: task_kind
  tk_priority :: int
  tk_lifecycle :: lifecycle
  tk_revision :: int
  tk_generation :: int
  tk_current_attempt :: "string option"
  tk_blocked_reason :: "string option"
  tk_created_at :: int
  tk_ready_since :: int
  tk_archived_at :: "int option"
  tk_deleted_at :: "int option"
  tk_origin :: origin
  tk_admission_class :: "string option"
  tk_budget_exempt :: "string option"
  tk_budget_admitted_at :: "int option"
  tk_budget_held_at :: "int option"
  tk_human_delivered :: bool

record attempt =
  at_id :: string
  at_project :: string
  at_task :: string
  at_owner :: string
  at_session :: string
  at_credential :: "string option"
  at_generation :: int
  at_state :: attempt_state
  at_mode :: attempt_mode
  at_expires_at :: int
  at_last_heartbeat_at :: int
  at_last_progress_at :: int
  at_created_at :: int
  at_ended_at :: "int option"
  at_outcome :: "string option"
  at_task_revision :: "int option"
  at_policy_revision :: "int option"

record checkpoint =
  cp_id :: string
  cp_project :: string
  cp_attempt :: string
  cp_summary :: string
  cp_current_action :: string
  cp_next_step :: string
  cp_blockers :: "string list"
  cp_created_at :: int
  cp_revision :: "string option"

record task_dependency =
  td_project :: string
  td_task :: string
  td_prerequisite :: string

record objective_child =
  oc_project :: string
  oc_objective :: string
  oc_child :: string
  oc_required :: bool

record instruction_ack =
  ia_session :: string
  ia_project :: string
  ia_policy_revision :: int
  ia_instruction_version :: string
  ia_created_at :: int

record checkout =
  co_attempt :: string
  co_project :: string
  co_workstation :: string
  co_identity :: string
  co_path :: string
  co_branch :: string
  co_base_revision :: string
  co_created_at :: int

record task_contributor =
  tc_task :: string
  tc_principal :: string
  tc_session :: string
  tc_first_at :: int

record definition_grant =
  dg_id :: string
  dg_project :: string
  dg_target_kind :: string
  dg_principal :: "string option"
  dg_role :: "string option"
  dg_created_by :: string
  dg_created_at :: int
  dg_revoked_by :: "string option"
  dg_revoked_at :: "int option"
  dg_revision :: int

record decision =
  dc_id :: string
  dc_project :: string
  dc_question :: string
  dc_options :: "string list"
  dc_rationale :: string
  dc_required_actor :: string
  dc_generation :: int
  dc_created_by :: string
  dc_created_at :: int
  dc_recommendation :: "string option"
  dc_reversible :: bool

record decision_cycle =
  dy_decision :: string
  dy_generation :: int
  dy_policy_revision :: int
  dy_environment :: string
  dy_conditions :: string
  dy_expires_at :: "int option"
  dy_rationale :: string
  dy_opened_by :: string
  dy_created_at :: int

record decision_task =
  dt_decision :: string
  dt_generation :: int
  dt_project :: string
  dt_task :: string
  dt_task_revision :: int

text \<open>\<open>da_relay\<close>: the prompt, the response, who enabled relaying and at which policy revision.\<close>

record decision_answer =
  da_decision :: string
  da_generation :: int
  da_disposition :: disposition
  da_answer :: string
  da_rationale :: string
  da_actor :: string
  da_session :: "string option"
  da_conditions_confirmed :: bool
  da_created_at :: int
  da_relay :: "(string \<times> string \<times> string \<times> int) option"
  da_timed_out :: bool

record resource_row =
  rs_id :: string
  rs_key :: string
  rs_capacity :: int
  rs_description :: string
  rs_created_by :: string
  rs_created_at :: int

text \<open>
  The \<open>released_\<dots>\<close> and \<open>resolved_\<dots>\<close> columns of a reservation are written together with its state, so
  one group of columns holds both; \<open>rv_state\<close> says which it is.
\<close>

record reservation =
  rv_id :: string
  rv_project :: string
  rv_attempt :: string
  rv_generation :: int
  rv_state :: reservation_state
  rv_created_by :: string
  rv_created_at :: int
  rv_closed_at :: "int option"
  rv_closed_by :: "string option"
  rv_reason :: "string option"
  rv_evidence :: "string option"

record reservation_item =
  ri_reservation :: string
  ri_resource :: string
  ri_units :: int

record job =
  jb_id :: string
  jb_producer :: string
  jb_project :: string
  jb_task :: string
  jb_attempt :: string
  jb_generation :: int
  jb_runner :: string
  jb_workstation :: string
  jb_label :: string
  jb_source_revision :: string
  jb_source_tree :: string
  jb_reservation :: string
  jb_state :: job_state
  jb_last_sequence :: int
  jb_last_observed_at :: "int option"
  jb_pid :: "int option"
  jb_process_started_at :: "string option"
  jb_exit_code :: "int option"
  jb_inputs_unchanged :: "bool option"
  jb_summary :: string
  jb_reconciled_at :: "int option"
  jb_reconciled_by :: "string option"
  jb_reconciliation :: "(string \<times> string) option"
  jb_created_at :: int
  jb_check :: "(string \<times> string \<times> string) option"

record reporter =
  rp_id :: string
  rp_job :: string
  rp_principal :: string
  rp_credential :: string
  rp_session :: string
  rp_proof_hash :: string
  rp_expires_at :: int
  rp_renew_until :: int
  rp_created_at :: int

record job_observation =
  ob_reporter :: string
  ob_sequence :: int
  ob_request_hash :: string
  ob_producer :: string
  ob_state :: job_state
  ob_pid :: "int option"
  ob_process_started_at :: "string option"
  ob_exit_code :: "int option"
  ob_inputs_unchanged :: "bool option"
  ob_summary :: string
  ob_observed_at :: int

text \<open>One entry of the required-check roster.\<close>

record required_check =
  rc_identity :: string
  rc_version :: string
  rc_environment :: string

record workflow_policy =
  wp_project :: string
  wp_revision :: int
  wp_key :: string
  wp_required_checks :: "required_check list"
  wp_updated_by :: string
  wp_updated_at :: int

record workflow_policy_revision =
  wr_project :: string
  wr_revision :: int
  wr_key :: string
  wr_required_checks :: "required_check list"
  wr_actor :: string
  wr_created_at :: int

text \<open>\<open>sb_amendment\<close> is the stored \<open>AcAmendmentInput\<close>: old and new criteria and the rationale.\<close>

record submission =
  sb_id :: string
  sb_project :: string
  sb_task :: string
  sb_attempt :: string
  sb_kind :: task_kind
  sb_task_revision :: int
  sb_project_policy :: int
  sb_workflow_policy :: int
  sb_summary :: string
  sb_evidence :: "(string \<times> string) list"
  sb_handoff :: string
  sb_key :: "string option"
  sb_repository :: "string option"
  sb_target_branch :: "string option"
  sb_base_revision :: "string option"
  sb_candidate_revision :: "string option"
  sb_candidate_tree :: "string option"
  sb_candidate_ref :: "string option"
  sb_created_by :: string
  sb_session :: string
  sb_created_at :: int
  sb_superseded_at :: "int option"
  sb_task_digest :: "string option"
  sb_amendment :: "(string list \<times> string list \<times> string) option"

record workflow_subject =
  ws_project :: string
  ws_task :: string
  ws_current_submission :: string
  ws_phase :: phase
  ws_updated_at :: int

text \<open>The revisions a cancel involves (\<open>cancel_context\<close>) and why an activity was canceled.\<close>

record cancel_details =
  cc_target_branch :: "string option"
  cc_base_revision :: "string option"
  cc_candidate_revision :: "string option"
  cc_target_revision :: "string option"
  cc_moved_by :: "string option"
  cc_evidence :: "string option"

record cancel_reason =
  cn_code :: string
  cn_detail :: string
  cn_context :: cancel_details

record workflow_activity =
  wa_id :: string
  wa_project :: string
  wa_subject_task :: string
  wa_submission :: string
  wa_activity_task :: string
  wa_kind :: activity_kind
  wa_slot :: int
  wa_state :: activity_state
  wa_created_at :: int
  wa_completed_at :: "int option"
  wa_canceled_at :: "int option"
  wa_cancel :: "cancel_reason option"

record review_row =
  rw_activity :: string
  rw_submission :: string
  rw_attempt :: string
  rw_reviewer :: string
  rw_session :: string
  rw_decision :: review_decision
  rw_summary :: string
  rw_created_at :: int
  rw_amendment :: "string option"
  rw_independence :: "string option"
  rw_invalidated_at :: "int option"

record review_finding =
  rf_id :: string
  rf_activity :: string
  rf_severity :: string
  rf_remedy :: string
  rf_evidence :: string
  rf_created_at :: int

record integration_authorization =
  iz_activity :: string
  iz_submission :: string
  iz_project_policy :: int
  iz_workflow_policy :: int
  iz_actor :: string
  iz_summary :: string
  iz_created_at :: int
  iz_invalidated_at :: "int option"
  iz_revision :: int

record integration_hold =
  ih_id :: string
  ih_activity :: string
  ih_repository :: string
  ih_target_branch :: string
  ih_held :: bool
  ih_acquired_by :: string
  ih_acquired_at :: int
  ih_released_by :: "string option"
  ih_released_at :: "int option"
  ih_reason :: "string option"

record publication_intent =
  pi_activity :: string
  pi_submission :: string
  pi_attempt :: string
  pi_observed_revision :: string
  pi_observed_tree :: string
  pi_result_revision :: string
  pi_result_tree :: string
  pi_created_by :: string
  pi_created_at :: int
  pi_roster_revision :: "int option"

record integration_result =
  ir_activity :: string
  ir_submission :: string
  ir_attempt :: string
  ir_publication_state :: publication_state
  ir_observed_revision :: string
  ir_result_revision :: string
  ir_result_tree :: string
  ir_check_jobs :: "string list"
  ir_summary :: string
  ir_reported_by :: string
  ir_created_at :: int

record publication_reconciliation =
  pb_activity :: string
  pb_submission :: string
  pb_disposition :: string
  pb_observed_revision :: string
  pb_observed_tree :: string
  pb_evidence :: string
  pb_actor :: string
  pb_created_at :: int

record integrator_result =
  ig_id :: string
  ig_project :: string
  ig_submission :: string
  ig_t0 :: string
  ig_r :: string
  ig_landing_range :: "string list"
  ig_contributor_tasks :: "string list option"
  ig_created_at :: int
  ig_authority_issued_at :: "int option"

record integrator_observation =
  io_result :: string
  io_disposition :: string

record integrator_receipt =
  ic_result :: string
  ic_check_name :: string
  ic_run_id :: int
  ic_run_attempt :: int
  ic_conclusion :: string

text \<open>The members of \<open>details_json\<close> the service reads are columns here.\<close>

record integrator_report =
  ip_id :: string
  ip_project :: string
  ip_kind :: string
  ip_result :: "string option"
  ip_verdict :: "string option"
  ip_run_id :: "int option"
  ip_run_attempt :: "int option"
  ip_resolved_at :: "int option"
  ip_resolved_by :: "string option"
  ip_note :: "string option"

record integrator_revise =
  iv_submission :: string
  iv_serialized_after :: "string option"

record revise_request =
  iq_submission :: string
  iq_result :: string
  iq_requested_by :: string
  iq_reason :: string
  iq_reason_code :: string
  iq_evidence :: "string option"
  iq_requested_at :: int

text \<open>\<open>tr_rejection\<close>: the rejecting activity, the reviewer, the rationale and the time.\<close>

record task_revert =
  tr_task :: string
  tr_project :: string
  tr_original_task :: string
  tr_result :: string
  tr_mechanical :: bool
  tr_review_required :: bool
  tr_rejection :: "(string \<times> string \<times> string \<times> int) option"

record artifact =
  af_id :: string
  af_project :: string
  af_finalized :: bool
  af_pinned :: bool
  af_retention_until :: "int option"

record submission_artifact =
  sa_project :: string
  sa_submission :: string
  sa_artifact :: string
  sa_linked_at :: int

record knowledge_scope =
  ks_tasks :: "string list"
  ks_components :: "string list"
  ks_environments :: "string list"
  ks_versions :: "string list"

record knowledge_provenance =
  kp_summary :: string
  kp_source_uri :: "string option"
  kp_source_task :: "string option"
  kp_source_submission :: "string option"

text \<open>The columns a knowledge record shares with its revisions.\<close>

record knowledge_content =
  kc_kind :: string
  kc_status :: string
  kc_title :: string
  kc_body :: string
  kc_scope :: knowledge_scope
  kc_tags :: "string list"
  kc_applicability :: string
  kc_provenance :: knowledge_provenance
  kc_superseded_by :: "string option"

record knowledge_row =
  kr_id :: string
  kr_project :: string
  kr_collection :: string
  kr_revision :: int
  kr_content :: knowledge_content
  kr_created_by :: string
  kr_created_at :: int
  kr_updated_at :: int

record knowledge_revision =
  kv_knowledge :: string
  kv_revision :: int
  kv_content :: knowledge_content
  kv_actor :: string
  kv_created_at :: int

record knowledge_feedback =
  kf_id :: string
  kf_knowledge :: string
  kf_revision :: int
  kf_actor :: string
  kf_useful :: bool
  kf_comment :: string
  kf_created_at :: int

record submission_knowledge =
  sk_project :: string
  sk_submission :: string
  sk_knowledge :: string
  sk_revision :: int

text \<open>
  \<open>struct Task\<close>: the columns of \<open>tasks\<close> and what the view \<open>visible\<close> of \<open>task_sql!\<close> adds.
  The purely informative \<open>processing\<close> column is left out.
\<close>

record task_view =
  tv_task :: task
  tv_attempt_state :: "attempt_state option"
  tv_attempt_expires :: "int option"
  tv_owner_authorized :: bool
  tv_last_progress_at :: "int option"
  tv_workflow_phase :: "phase option"
  tv_workflow_activity_kind :: "activity_kind option"
  tv_objective_id :: "string option"
  tv_parent_objective :: "(string \<times> bool) option"
  tv_decisions_ready :: bool
  tv_objective_children_ready :: bool
  tv_dependencies_ready :: bool
  tv_workflow_status :: "work_status option"

text \<open>
  What \<open>activity_value\<close> answers: the activity's row, its linked task's current attempt with its two
  liveness flags, the derived status, and the rows of the tables that hang on it. An authorization
  is reported with the readiness of the clock.
\<close>

record activity_view =
  av_activity :: workflow_activity
  av_status :: activity_state
  av_attempt :: "attempt option"
  av_valid_by_time :: bool
  av_owner_authorized :: bool
  av_review :: "review_row option"
  av_findings :: "review_finding list"
  av_authorization :: "integration_authorization option"
  av_clock_ready :: bool
  av_intent :: "publication_intent option"
  av_result :: "integration_result option"
  av_reconciliation :: "publication_reconciliation option"
  av_hold :: "integration_hold option"

text \<open>\<open>submission_value\<close>: the row, its lessons as they were linked, its artifacts.\<close>

record submission_view =
  sv_submission :: submission
  sv_lesson_ids :: "string list"
  sv_lessons :: "knowledge_revision list"
  sv_artifact_ids :: "string list"

text \<open>
  \<open>workflow_snapshot\<close> of a task with a submission. \<open>vw_blocked\<close>: the judged fields changed after the
  submission. \<open>vw_revise\<close> is the revise record a reopen adds.
\<close>

record workflow_view =
  vw_submission :: submission_view
  vw_activities :: "activity_view list"
  vw_truncated :: bool
  vw_blocked :: bool
  vw_phase :: phase
  vw_work_status :: work_status
  vw_revise :: "(string \<times> string option) option"

record decision_view =
  vd_decision :: decision
  vd_cycle :: decision_cycle
  vd_answer :: "decision_answer option"
  vd_tasks :: "(string \<times> int \<times> int) list"
  vd_status :: string
  vd_history :: "(decision_cycle \<times> decision_answer option) list"

text \<open>
  A JSON value of a response, an event or a receipt. A serialised row is a leaf; a
  rendered timestamp keeps its milliseconds.
\<close>

datatype json =
    JNull | JBool bool | JInt int | JStr string | JTime int
  | JArr "json list" | JObj "(string \<times> json) list"
  | JProject project | JTask task_view work_status "string list" | JAttempt attempt
  | JCheckpoint checkpoint "string list"
  | JJob job | JReservation reservation "reservation_item list" | JResource resource_row int
  | JObservation job_observation
  | JActivity activity_view | JWorkflow workflow_view
  | JKnowledge knowledge_row | JDecision decision_view

text \<open>
  The saved data of a task revision: the snapshot of \<open>save_task_revision\<close> with the prerequisites, or
  the definition of an internal workflow task (title, description, criteria). \<open>tn_repaired\<close> is
  the \<open>snapshot_repair\<close> mark.
\<close>

datatype revision_data =
    Snapshot task_view "string list"
  | Definition string string "string list"

record task_revision =
  tn_project :: string
  tn_task :: string
  tn_revision :: int
  tn_data :: revision_data
  tn_repaired :: bool
  tn_grant :: "string option"
  tn_actor :: string
  tn_created_at :: int

record event =
  ev_project :: "string option"
  ev_actor :: string
  ev_kind :: string
  ev_record :: string
  ev_data :: json
  ev_created_at :: int
  ev_class :: "credential_class option"

record mutation_receipt =
  mr_principal :: string
  mr_operation :: string
  mr_key :: string
  mr_fingerprint :: string
  mr_result :: json
  mr_created_at :: int
  mr_epoch :: string
  mr_compacted_at :: "int option"

record clock_incident =
  ci_id :: string
  ci_observed :: int
  ci_high_water :: int
  ci_detected_at :: int
  ci_recovered_at :: "int option"
  ci_recovery_reason :: "string option"
  ci_recovered_by :: "string option"
  ci_recovery_kind :: "string option"

record clock_event =
  ce_incident :: string
  ce_kind :: string
  ce_initiator :: string
  ce_actor :: "string option"
  ce_observed :: int
  ce_high_water :: int
  ce_reason :: string
  ce_created_at :: int

record clock_state =
  ck_last_safe :: int
  ck_status :: clock_status
  ck_incident :: "string option"
  ck_observed :: "int option"
  ck_detected_at :: "int option"

section \<open>Tables\<close>

record access_tables =
  principals :: "principal list"
  credentials :: "credential list"
  browser_sessions :: "browser_session list"
  agent_sessions :: "agent_session list"
  subagent_identities :: "subagent_identity list"
  events :: "event list"
  receipts :: "mutation_receipt list"
  authority_epoch :: string
  coord_state :: coordination_state
  clock :: clock_state
  clock_incidents :: "clock_incident list"
  clock_events :: "clock_event list"

record coordination_tables = access_tables +
  projects :: "project list"
  policy_revisions :: "policy_revision list"
  tasks :: "task list"
  task_revisions :: "task_revision list"
  task_dependencies :: "task_dependency list"
  attempts :: "attempt list"
  checkpoints :: "checkpoint list"
  acknowledgments :: "instruction_ack list"
  checkouts :: "checkout list"
  contributors :: "task_contributor list"
  definition_grants :: "definition_grant list"
  revision_grants :: "(string \<times> string \<times> int \<times> string) list"
  objectives :: "(string \<times> string) list"
  objective_children :: "objective_child list"
  decisions :: "decision list"
  decision_cycles :: "decision_cycle list"
  decision_tasks :: "decision_task list"
  decision_answers :: "decision_answer list"

record job_tables = coordination_tables +
  resources :: "resource_row list"
  reservations :: "reservation list"
  reservation_items :: "reservation_item list"
  jobs :: "job list"
  reporters :: "reporter list"
  job_observations :: "job_observation list"

record db = job_tables +
  submissions :: "submission list"
  workflow_policies :: "workflow_policy list"
  workflow_policy_revisions :: "workflow_policy_revision list"
  workflow_subjects :: "workflow_subject list"
  workflow_activities :: "workflow_activity list"
  review_decisions :: "review_row list"
  review_findings :: "review_finding list"
  integration_authorizations :: "integration_authorization list"
  integration_holds :: "integration_hold list"
  publication_intents :: "publication_intent list"
  integration_results :: "integration_result list"
  publication_reconciliations :: "publication_reconciliation list"
  integrator_results :: "integrator_result list"
  integrator_observations :: "integrator_observation list"
  integrator_receipts :: "integrator_receipt list"
  integrator_reports :: "integrator_report list"
  integrator_revises :: "integrator_revise list"
  revise_requests :: "revise_request list"
  task_reverts :: "task_revert list"
  artifacts :: "artifact list"
  submission_artifacts :: "submission_artifact list"
  knowledge_records :: "knowledge_row list"
  knowledge_revisions :: "knowledge_revision list"
  knowledge_feedbacks :: "knowledge_feedback list"
  submission_knowledge_links :: "submission_knowledge list"

end
