(* ===== verification/Task_View.thy ===== *)
theory Task_View
  imports Schema "HOL-Library.List_Lexorder" "HOL-Library.Char_ord" "HOL-Library.Product_Lexorder"
begin

text \<open>
  How the service reads a task: the view \<open>visible\<close> behind \<open>task_sql!\<close>, the derived work
  status (\<open>Task::status\<close>), the unmet preconditions of \<open>Task::value\<close>, the workflow status of a
  submitted task, and the guards that read the scoped decisions, jobs and workflow tables
  (\<^verbatim>\<open>coordination.rs\<close>, \<^verbatim>\<open>knowledge.rs\<close>, \<^verbatim>\<open>jobs.rs\<close>, \<^verbatim>\<open>workflow.rs\<close>, \<^verbatim>\<open>autonomy.rs\<close>).
\<close>

section \<open>Lease holders\<close>

text \<open>The \<open>owner_authorized\<close> column: the attempt's owner still holds a live credential and session.\<close>

definition browser_live :: "db \<Rightarrow> int \<Rightarrow> string \<Rightarrow> bool" where
  "browser_live d now s =
     (case fetch (\<lambda>b. bs_id b = s) (browser_sessions d) of
        None \<Rightarrow> False
      | Some b \<Rightarrow> bs_revoked_at b = None \<and> bs_expires_at b > now)"

definition credential_live :: "db \<Rightarrow> int \<Rightarrow> string \<Rightarrow> bool" where
  "credential_live d now c =
     (case fetch (\<lambda>x. cr_id x = c) (credentials d) of
        None \<Rightarrow> False
      | Some x \<Rightarrow> cr_revoked_at x = None \<and> is_none_or (cr_expires_at x) (\<lambda>e. e > now))"

definition agent_session_live :: "db \<Rightarrow> string \<Rightarrow> string \<Rightarrow> bool" where
  "agent_session_live d s c =
     (case fetch (\<lambda>x. as_id x = s \<and> as_credential x = c) (agent_sessions d) of
        None \<Rightarrow> False
      | Some x \<Rightarrow> as_closed_at x = None)"

definition owner_authorized :: "db \<Rightarrow> int \<Rightarrow> attempt \<Rightarrow> bool" where
  "owner_authorized d now a =
     (case fetch (\<lambda>p. pr_id p = at_owner a) (principals d) of
        None \<Rightarrow> False
      | Some p \<Rightarrow> pr_disabled_at p = None \<and>
          (case at_credential a of
             None \<Rightarrow> browser_live d now (at_session a)
           | Some c \<Rightarrow> credential_live d now c \<and> agent_session_live d (at_session a) c))"

section \<open>Scoped decisions\<close>

definition current_cycle :: "db \<Rightarrow> decision \<Rightarrow> decision_cycle option" where
  "current_cycle d dec =
     fetch (\<lambda>c. dy_decision c = dc_id dec \<and> dy_generation c = dc_generation dec) (decision_cycles d)"

definition current_answer :: "db \<Rightarrow> decision \<Rightarrow> decision_answer option" where
  "current_answer d dec =
     fetch (\<lambda>a. da_decision a = dc_id dec \<and> da_generation a = dc_generation dec) (decision_answers d)"

definition current_scope :: "db \<Rightarrow> decision \<Rightarrow> decision_task list" where
  "current_scope d dec =
     rows (\<lambda>s. dt_decision s = dc_id dec \<and> dt_generation s = dc_generation dec) (decision_tasks d)"

text \<open>\<open>da.decision_id IS NULL OR da.disposition!='allow' OR da.conditions_confirmed=0 OR expired\<close>\<close>

definition answer_open :: "db \<Rightarrow> int \<Rightarrow> decision \<Rightarrow> decision_cycle \<Rightarrow> bool" where
  "answer_open d now dec c \<longleftrightarrow>
     (case current_answer d dec of
        None \<Rightarrow> True
      | Some a \<Rightarrow> da_disposition a \<noteq> Allow \<or> \<not> da_conditions_confirmed a)
     \<or> is_some_and (dy_expires_at c) (\<lambda>e. e \<le> now)"

text \<open>The subject of the activity that \<open>t\<close> is the linked task of, if it is one.\<close>

definition activity_subject :: "db \<Rightarrow> string \<Rightarrow> string option" where
  "activity_subject d t =
     map_option wa_subject_task (fetch (\<lambda>w. wa_activity_task w = t) (workflow_activities d))"

definition decision_blocks :: "db \<Rightarrow> int \<Rightarrow> task \<Rightarrow> decision \<Rightarrow> bool" where
  "decision_blocks d now t dec =
     (dc_project dec = tk_project t
      \<and> list_ex (\<lambda>s. dt_task s = tk_id t \<or> activity_subject d (tk_id t) = Some (dt_task s)) (current_scope d dec)
      \<and> (case (current_cycle d dec, fetch (\<lambda>p. pj_id p = dc_project dec) (projects d)) of
           (Some c, Some p) \<Rightarrow>
             dy_policy_revision c \<noteq> pj_policy_revision p
             \<or> list_ex (\<lambda>s. list_ex (\<lambda>u. tk_project u = dt_project s \<and> tk_id u = dt_task s
                  \<and> dt_task_revision s \<noteq> tk_revision u) (tasks d)) (current_scope d dec)
             \<or> answer_open d now dec c
         | _ \<Rightarrow> False))"

definition decisions_ready :: "db \<Rightarrow> int \<Rightarrow> task \<Rightarrow> bool" where
  "decisions_ready d now t \<longleftrightarrow> \<not> list_ex (decision_blocks d now t) (decisions d)"

text \<open>
  \<open>pending_decision_ids\<close> with a task: the judged fields and the rules text decide whether
  the scope changed, not the revision numbers.
\<close>

definition rules_changed :: "db \<Rightarrow> decision_cycle \<Rightarrow> project \<Rightarrow> bool" where
  "rules_changed d c p =
     (case fetch (\<lambda>v. pv_project v = pj_id p \<and> pv_revision v = dy_policy_revision c) (policy_revisions d) of
        Some v \<Rightarrow> pj_rules (pv_data v) \<noteq> pj_rules p
      | None \<Rightarrow> dy_policy_revision c \<noteq> pj_policy_revision p)"

definition judged_fields :: "task \<Rightarrow> string \<times> string \<times> string list \<times> task_kind" where
  "judged_fields t = (tk_title t, tk_description t, tk_acceptance t, tk_kind t)"

fun revision_judged :: "revision_data \<Rightarrow> string \<times> string \<times> string list \<times> task_kind" where
  "revision_judged (Snapshot v deps) = judged_fields (tv_task v)"
| "revision_judged (Definition t desc acs) = (t, desc, acs, General)"

definition scope_task_changed :: "db \<Rightarrow> decision_task \<Rightarrow> bool" where
  "scope_task_changed d s =
     list_ex (\<lambda>u. tk_project u = dt_project s \<and> tk_id u = dt_task s \<and> dt_task_revision s \<noteq> tk_revision u
       \<and> (case fetch (\<lambda>n. tn_task n = dt_task s \<and> tn_revision n = dt_task_revision s) (task_revisions d) of
            None \<Rightarrow> True
          | Some n \<Rightarrow> revision_judged (tn_data n) \<noteq> judged_fields u)) (tasks d)"

definition decision_pending :: "db \<Rightarrow> string \<Rightarrow> string \<Rightarrow> int \<Rightarrow> decision \<Rightarrow> bool" where
  "decision_pending d p task now dec =
     (dc_project dec = p
      \<and> list_ex (\<lambda>s. dt_task s = task) (current_scope d dec)
      \<and> (case (current_cycle d dec, fetch (\<lambda>x. pj_id x = dc_project dec) (projects d)) of
           (Some c, Some pj) \<Rightarrow> rules_changed d c pj
             \<or> list_ex (scope_task_changed d) (current_scope d dec) \<or> answer_open d now dec c
         | _ \<Rightarrow> False))"

definition pending_decision_ids :: "db \<Rightarrow> string \<Rightarrow> string \<Rightarrow> int \<Rightarrow> nat \<Rightarrow> string list" where
  "pending_decision_ids d p task now limit =
     take (max 1 (min 200 limit))
       (map dc_id (sort_key (\<lambda>x. (dc_created_at x, dc_id x)) (rows (decision_pending d p task now) (decisions d))))"

definition ensure_decisions_resolved :: "db \<Rightarrow> string \<Rightarrow> string \<Rightarrow> int \<Rightarrow> unit res" where
  "ensure_decisions_resolved d p task now =
     ensure (pending_decision_ids d p task now 21 = []) (conflict ''decision_required'')"

section \<open>The view of a task\<close>

definition last_progress :: "db \<Rightarrow> string \<Rightarrow> int option" where
  "last_progress d t =
     (let times = map cp_created_at (rows (\<lambda>c. exists_where (\<lambda>a. at_id a = cp_attempt c \<and> at_task a = t) (attempts d)) (checkpoints d))
      in if times = [] then None else Some (Max (set times)))"

definition dependencies_ready :: "db \<Rightarrow> string \<Rightarrow> bool" where
  "dependencies_ready d t \<longleftrightarrow>
     \<not> exists_where (\<lambda>e. td_task e = t \<and>
         exists_where (\<lambda>u. tk_id u = td_prerequisite e \<and> tk_lifecycle u \<noteq> Done) (tasks d)) (task_dependencies d)"

definition objective_children_ready :: "db \<Rightarrow> string \<Rightarrow> bool" where
  "objective_children_ready d t \<longleftrightarrow>
     \<not> exists_where (\<lambda>c. oc_objective c = t \<and> oc_required c \<and>
         exists_where (\<lambda>u. tk_project u = oc_project c \<and> tk_id u = oc_child c \<and> tk_lifecycle u \<noteq> Done) (tasks d))
       (objective_children d)"

definition current_attempt :: "db \<Rightarrow> task \<Rightarrow> attempt option" where
  "current_attempt d t =
     (case tk_current_attempt t of None \<Rightarrow> None | Some i \<Rightarrow> fetch (\<lambda>a. at_id a = i) (attempts d))"

definition view_of :: "db \<Rightarrow> int \<Rightarrow> task \<Rightarrow> task_view" where
  "view_of d now t = (let a = current_attempt d t in
     \<lparr>tv_task = t,
      tv_attempt_state = map_option at_state a,
      tv_attempt_expires = map_option at_expires_at a,
      tv_owner_authorized = is_some_and a (owner_authorized d now),
      tv_last_progress_at = last_progress d (tk_id t),
      tv_workflow_phase = map_option ws_phase (fetch (\<lambda>w. ws_task w = tk_id t) (workflow_subjects d)),
      tv_workflow_activity_kind = map_option wa_kind (fetch (\<lambda>w. wa_activity_task w = tk_id t) (workflow_activities d)),
      tv_objective_id = map_option snd (fetch (\<lambda>ob. snd ob = tk_id t) (objectives d)),
      tv_parent_objective = map_option (\<lambda>c. (oc_objective c, oc_required c)) (fetch (\<lambda>c. oc_child c = tk_id t) (objective_children d)),
      tv_decisions_ready = decisions_ready d now t,
      tv_objective_children_ready = objective_children_ready d (tk_id t),
      tv_dependencies_ready = dependencies_ready d (tk_id t),
      tv_workflow_status = None\<rparr>)"

definition visible :: "db \<Rightarrow> int \<Rightarrow> string \<Rightarrow> task_view list" where
  "visible d now p = map (view_of d now) (rows (\<lambda>t. tk_project t = p \<and> tk_deleted_at t = None) (tasks d))"

section \<open>Work status\<close>

text \<open>\<open>Task::status\<close>\<close>

definition live_attempt :: "task_view \<Rightarrow> int \<Rightarrow> bool" where
  "live_attempt v now \<longleftrightarrow> tv_attempt_state v = Some Active
     \<and> is_some_and (tv_attempt_expires v) (\<lambda>e. e > now) \<and> tv_owner_authorized v"

definition task_status :: "task_view \<Rightarrow> int \<Rightarrow> work_status" where
  "task_status v now =
     (if tk_lifecycle (tv_task v) \<noteq> Open then Lifecycle_status (tk_lifecycle (tv_task v))
      else if tk_current_attempt (tv_task v) \<noteq> None then
        (if live_attempt v now
         then (if tv_decisions_ready v \<and> tv_objective_children_ready v then In_progress else Blocked_status)
         else Recovery_required)
      else if \<not> tv_decisions_ready v then Blocked_status
      else if \<not> tv_objective_children_ready v then Blocked_status
      else (case tv_workflow_status v of Some s \<Rightarrow> s
       | None \<Rightarrow>
        (case tv_workflow_phase v of
           Some Phase_review \<Rightarrow> Waiting_review
         | Some Phase_integration \<Rightarrow> Waiting_integration
         | _ \<Rightarrow>
           if tv_workflow_activity_kind v \<noteq> None then Waiting_review
           else if tk_blocked_reason (tv_task v) \<noteq> None \<or> \<not> tv_dependencies_ready v then Blocked_status
           else Ready)))"

text \<open>The codes of the \<open>preconditions\<close> array of \<open>Task::value\<close>, in order.\<close>

definition task_preconditions :: "task_view \<Rightarrow> int \<Rightarrow> string list" where
  "task_preconditions v now =
     (if tk_lifecycle (tv_task v) \<noteq> Open then [''task_not_open''] else [])
   @ (if tk_archived_at (tv_task v) \<noteq> None then [''task_archived''] else [])
   @ (if tk_blocked_reason (tv_task v) \<noteq> None then [''task_blocked''] else [])
   @ (if \<not> tv_dependencies_ready v then [''dependencies_incomplete''] else [])
   @ (if \<not> tv_objective_children_ready v then [''required_objective_children_incomplete''] else [])
   @ (if \<not> tv_decisions_ready v then [''scoped_decisions_pending''] else [])
   @ (if tk_current_attempt (tv_task v) \<noteq> None
      then [if live_attempt v now then ''active_owner'' else ''recovery_inspection_required''] else [])
   @ (if tv_workflow_activity_kind v \<noteq> None
        \<or> tv_workflow_phase v = Some Phase_review \<or> tv_workflow_phase v = Some Phase_integration
      then [''workflow_activity_required''] else [])"

definition task_value :: "task_view \<Rightarrow> int \<Rightarrow> json" where
  "task_value v now = JTask v (task_status v now) (task_preconditions v now)"

section \<open>Workflow status of a submitted task\<close>

fun kind_rank :: "activity_kind \<Rightarrow> int" where
  "kind_rank Agent_review = 0"
| "kind_rank Either_review = 1"
| "kind_rank Human_review = 2"
| "kind_rank Integration = 3"

text \<open>
  \<open>activity_value\<close>: the derived state of an activity and whether its lease is valid by
  time. A current attempt without a row is ruled out by the foreign key of \<open>tasks\<close>; decoding
  it would fail, which is the \<open>internal\<close> branch.
\<close>

definition activity_lease :: "db \<Rightarrow> int \<Rightarrow> workflow_activity \<Rightarrow> (activity_state \<times> bool) res" where
  "activity_lease d now w =
     and_then (ok_or not_found (fetch (\<lambda>t. tk_id t = wa_activity_task w) (tasks d))) (\<lambda>t.
     (case tk_current_attempt t of
        None \<Rightarrow> Inr (wa_state w, False)
      | Some i \<Rightarrow> and_then (ok_or internal (fetch (\<lambda>a. at_id a = i) (attempts d))) (\<lambda>a.
          let timely = at_expires_at a > now in
          Inr (if wa_state w = Act_active \<and> \<not> (timely \<and> owner_authorized d now a)
               then Act_recovery_required else wa_state w, timely))))"

fun map_res :: "('a \<Rightarrow> 'e + 'b) \<Rightarrow> 'a list \<Rightarrow> 'e + 'b list" where
  "map_res f [] = Inr []"
| "map_res f (x # xs) = and_then (f x) (\<lambda>y. and_then (map_res f xs) (\<lambda>ys. Inr (y # ys)))"

definition submission_activities :: "db \<Rightarrow> string \<Rightarrow> string \<Rightarrow> workflow_activity list" where
  "submission_activities d p sub =
     take 100 (sort_key (\<lambda>w. (kind_rank (wa_kind w), - wa_slot w, wa_id w))
       (rows (\<lambda>w. wa_project w = p \<and> wa_submission w = sub) (workflow_activities d)))"

text \<open>\<open>max_by_key\<close> on the slot keeps the last of equal maxima.\<close>

fun max_by_slot :: "(workflow_activity \<times> 'b) list \<Rightarrow> (workflow_activity \<times> 'b) option" where
  "max_by_slot [] = None"
| "max_by_slot (x # xs) = (case max_by_slot xs of
      None \<Rightarrow> Some x
    | Some y \<Rightarrow> if wa_slot (fst y) \<ge> wa_slot (fst x) then Some y else Some x)"

text \<open>The \<open>work_status\<close> of \<open>workflow_snapshot\<close>; \<open>None\<close> where the snapshot has no such key.\<close>

definition workflow_work_status :: "db \<Rightarrow> string \<Rightarrow> string \<Rightarrow> int \<Rightarrow> work_status option res" where
  "workflow_work_status d p task_id now =
     (let mapped = map_option wa_subject_task
            (fetch (\<lambda>w. wa_project w = p \<and> wa_activity_task w = task_id) (workflow_activities d));
          subject_id = unwrap_or mapped task_id
      in case fetch (\<lambda>s. ws_project s = p \<and> ws_task s = subject_id) (workflow_subjects d) of
        None \<Rightarrow> Inr None
      | Some subject \<Rightarrow>
          (let acts = submission_activities d p (ws_current_submission subject) in
           and_then (map_res (activity_lease d now) acts) (\<lambda>leases.
           and_then (ok_or not_found (fetch (\<lambda>s. sb_id s = ws_current_submission subject) (submissions d))) (\<lambda>_.
             let integration = max_by_slot (filter (\<lambda>x. wa_kind (fst x) = Integration) (zip acts leases)) in
             Inr (Some (case ws_phase subject of
               Phase_review \<Rightarrow> Waiting_review
             | Phase_revision_needed \<Rightarrow> Ready
             | Phase_done \<Rightarrow> Lifecycle_status Done
             | Phase_integration \<Rightarrow>
                (case integration of
                   None \<Rightarrow> Waiting_integration
                 | Some (w, st, timely) \<Rightarrow>
                    (let pub = map_option ir_publication_state
                           (fetch (\<lambda>r. ir_activity r = wa_id w) (integration_results d)) in
                     if st = Act_recovery_required \<or> pub = Some Uncertain then Recovery_required
                     else if pub = Some Published then Validating
                     else if timely then Integrating
                     else Waiting_integration))))))))"

text \<open>\<open>enrich_workflow_status\<close> and \<open>task\<close>\<close>

definition enrich_workflow_status :: "db \<Rightarrow> string \<Rightarrow> int \<Rightarrow> task_view \<Rightarrow> task_view res" where
  "enrich_workflow_status d p now v =
     (if tk_lifecycle (tv_task v) = Open \<and> tk_current_attempt (tv_task v) = None
         \<and> (tv_workflow_phase v = Some Phase_review \<or> tv_workflow_phase v = Some Phase_integration)
      then and_then (workflow_work_status d p (tk_id (tv_task v)) now) (\<lambda>s. Inr (v\<lparr>tv_workflow_status := s\<rparr>))
      else Inr v)"

definition task_get :: "db \<Rightarrow> string \<Rightarrow> string \<Rightarrow> int \<Rightarrow> task_view res" where
  "task_get d p i now =
     and_then (ok_or not_found (fetch (\<lambda>v. tk_id (tv_task v) = i) (visible d now p)))
       (enrich_workflow_status d p now)"

definition project_get :: "db \<Rightarrow> string \<Rightarrow> project res" where
  "project_get d i = ok_or not_found (fetch (\<lambda>p. pj_id p = i) (projects d))"

definition active_project :: "db \<Rightarrow> string \<Rightarrow> project res" where
  "active_project d i = and_then (project_get d i) (\<lambda>p.
     if pj_archived_at p \<noteq> None then Inl (conflict ''project_archived'') else Inr p)"

section \<open>Guards over the workflow, job and revert tables\<close>

definition activity_task_of :: "db \<Rightarrow> string \<Rightarrow> string \<Rightarrow> bool" where
  "activity_task_of d p t \<longleftrightarrow>
     count_where (\<lambda>w. wa_project w = p \<and> wa_activity_task w = t) (workflow_activities d) > 0"

definition subject_phase :: "db \<Rightarrow> string \<Rightarrow> string \<Rightarrow> phase option" where
  "subject_phase d p t =
     map_option ws_phase (fetch (\<lambda>s. ws_project s = p \<and> ws_task s = t) (workflow_subjects d))"

definition in_workflow :: "db \<Rightarrow> string \<Rightarrow> string \<Rightarrow> bool" where
  "in_workflow d p t \<longleftrightarrow> is_some_and (subject_phase d p t) (\<lambda>f. f \<noteq> Phase_revision_needed)"

definition guard_normal_claim :: "db \<Rightarrow> string \<Rightarrow> string \<Rightarrow> unit res" where
  "guard_normal_claim d p t =
     (if activity_task_of d p t then Inl (conflict ''workflow_claim_required'')
      else if in_workflow d p t then Inl (conflict ''submission_current'') else Inr ())"

definition guard_subject_mutation :: "db \<Rightarrow> string \<Rightarrow> string \<Rightarrow> unit res" where
  "guard_subject_mutation d p t =
     (if activity_task_of d p t then Inl (conflict ''workflow_managed_task'')
      else if in_workflow d p t then Inl (conflict ''submission_current'') else Inr ())"

definition guard_release_or_recovery :: "db \<Rightarrow> string \<Rightarrow> string \<Rightarrow> unit res" where
  "guard_release_or_recovery d p t =
     (if activity_task_of d p t then Inl (conflict ''workflow_release_required'')
      else if in_workflow d p t then Inl (conflict ''workflow_authority_required'') else Inr ())"

definition unfinished_job :: "job_state \<Rightarrow> bool" where
  "unfinished_job s \<longleftrightarrow> s \<noteq> Succeeded \<and> s \<noteq> Failed \<and> s \<noteq> Not_started"

definition held_reservations :: "db \<Rightarrow> string \<Rightarrow> string \<Rightarrow> int" where
  "held_reservations d p t = count_where (\<lambda>r. rv_state r = Held \<and>
     exists_where (\<lambda>a. at_id a = rv_attempt r \<and> at_project a = p \<and> at_task a = t) (attempts d)) (reservations d)"

definition nonterminal_jobs :: "db \<Rightarrow> string \<Rightarrow> string \<Rightarrow> int" where
  "nonterminal_jobs d p t = count_where (\<lambda>j. jb_project j = p \<and> jb_task j = t
     \<and> unfinished_job (jb_state j) \<and> jb_reconciled_at j = None) (jobs d)"

definition ensure_attempt_quiescent :: "db \<Rightarrow> string \<Rightarrow> string \<Rightarrow> unit res" where
  "ensure_attempt_quiescent d p t =
     (if held_reservations d p t > 0 \<or> nonterminal_jobs d p t > 0
      then Inl (conflict ''attempt_evidence_unresolved'') else Inr ())"

definition is_mechanical :: "db \<Rightarrow> string \<Rightarrow> bool" where
  "is_mechanical d t \<longleftrightarrow> count_where (\<lambda>r. tr_task r = t \<and> tr_mechanical r) (task_reverts d) > 0"

definition ensure_not_mechanical :: "db \<Rightarrow> string \<Rightarrow> unit res" where
  "ensure_not_mechanical d t =
     (if is_mechanical d t then Inl (conflict ''revert_awaits_integrator'') else Inr ())"

definition record_contributor :: "string \<Rightarrow> string \<Rightarrow> string \<Rightarrow> int \<Rightarrow> db \<Rightarrow> db" where
  "record_contributor t actor session now d =
     d\<lparr>contributors := insert_or_ignore
        (\<lambda>a b. tc_task a = tc_task b \<and> tc_principal a = tc_principal b \<and> tc_session a = tc_session b)
        \<lparr>tc_task = t, tc_principal = actor, tc_session = session, tc_first_at = now\<rparr> (contributors d)\<rparr>"

section \<open>The revise limit\<close>

definition day_ms :: int where "day_ms = 86400000"
definition revise_limit :: int where "revise_limit = 3"
definition serialized_revise_cap :: int where "serialized_revise_cap = 6"

definition agent_revise_event :: "db \<Rightarrow> string \<Rightarrow> int \<Rightarrow> event \<Rightarrow> bool" where
  "agent_revise_event d t now e \<longleftrightarrow>
     ev_kind e = ''submission.reopened''
     \<and> exists_where (\<lambda>p. pr_id p = ev_actor e \<and> pr_kind p = Agent) (principals d)
     \<and> exists_where (\<lambda>s. sb_id s = ev_record e \<and> sb_task s = t) (submissions d)
     \<and> ev_created_at e > now - day_ms"

definition agent_revise_count :: "db \<Rightarrow> string \<Rightarrow> int \<Rightarrow> int" where
  "agent_revise_count d t now = count_where (agent_revise_event d t now) (events d)"

definition park_revise_count :: "db \<Rightarrow> string \<Rightarrow> int \<Rightarrow> int" where
  "park_revise_count d t now = count_where (\<lambda>e. agent_revise_event d t now e
     \<and> \<not> exists_where (\<lambda>r. iv_submission r = ev_record e \<and> iv_serialized_after r \<noteq> None) (integrator_revises d))
     (events d)"

definition revise_limit_reached :: "db \<Rightarrow> string \<Rightarrow> int \<Rightarrow> bool" where
  "revise_limit_reached d t now \<longleftrightarrow>
     park_revise_count d t now \<ge> revise_limit \<or> agent_revise_count d t now \<ge> serialized_revise_cap"

end
