(* ===== verification/Clock.thy ===== *)
theory Clock
  imports Task_View
begin

text \<open>
  Service time (\<^verbatim>\<open>server/src/state.rs\<close>): the in-memory \<open>ClockRuntime\<close>, the durable high-water
  mark of \<open>clock_state\<close>, the sampling every write transaction starts with, the rollback incident
  that expires every lease, and its reconciliation. The wall clock and the monotonic clock are
  arguments (\<open>wall\<close> and \<open>tick\<close>, in milliseconds); a fresh UUID is an argument too. The
  runtime is read twice while a sample awaits SQLite, so a sample takes the two states it saw.
\<close>

record clock_runtime =
  rt_high_water :: int
  rt_anchor_time :: int
  rt_anchor :: int
  rt_initialized :: bool
  rt_incident_active :: bool

record clock_sample =
  cs_now :: int
  cs_incident_active :: bool
  cs_incident_detected :: bool

definition material_clock_rollback_ms :: int where "material_clock_rollback_ms = 5000"

text \<open>\<open>anchor.elapsed()\<close>, zero when the clock opts out of monotonic time.\<close>

definition elapsed :: "bool \<Rightarrow> int \<Rightarrow> clock_runtime \<Rightarrow> int" where
  "elapsed use_mono tick rt = (if use_mono then min i64_max (max 0 (tick - rt_anchor rt)) else 0)"

definition expected_time :: "bool \<Rightarrow> int \<Rightarrow> clock_runtime \<Rightarrow> int" where
  "expected_time use_mono tick rt = saturating_add (rt_anchor_time rt) (elapsed use_mono tick rt)"

definition raw_now :: "int \<Rightarrow> int" where "raw_now wall = max wall 0"

text \<open>\<open>AppState::now\<close>\<close>

definition app_now :: "bool \<Rightarrow> int \<Rightarrow> int \<Rightarrow> clock_runtime \<Rightarrow> int \<times> clock_runtime" where
  "app_now use_mono wall tick rt =
     (let raw = raw_now wall in
      if \<not> rt_initialized rt then
        (raw, rt\<lparr>rt_high_water := raw, rt_anchor_time := raw, rt_anchor := tick, rt_initialized := True\<rparr>)
      else
        (let expected = expected_time use_mono tick rt;
             high = max (max (rt_high_water rt) expected) raw;
             rt' = rt\<lparr>rt_high_water := high\<rparr>
         in (high, if raw > expected then rt'\<lparr>rt_anchor_time := raw, rt_anchor := tick\<rparr> else rt')))"

text \<open>The start-up runtime of \<open>open_internal\<close>.\<close>

definition open_runtime :: "db \<Rightarrow> int \<Rightarrow> clock_runtime" where
  "open_runtime d tick =
     \<lparr>rt_high_water = ck_last_safe (clock d), rt_anchor_time = ck_last_safe (clock d), rt_anchor = tick,
      rt_initialized = True, rt_incident_active = (ck_status (clock d) = Clock_reconciliation)\<rparr>"

section \<open>Sampling\<close>

definition rollback_message :: string where
  "rollback_message = ''The wall clock moved behind the durable service-time high-water mark.''"

definition rollback_outcome :: string where
  "rollback_outcome = ''Authority expired after a material service-clock rollback.''"

definition expire_on_rollback :: "int \<Rightarrow> attempt \<Rightarrow> attempt" where
  "expire_on_rollback now a = a\<lparr>at_state := Expired,
     at_ended_at := Some (unwrap_or (at_ended_at a) now),
     at_outcome := Some (unwrap_or (at_outcome a) rollback_outcome)\<rparr>"

text \<open>What a newly detected rollback writes.\<close>

definition record_rollback :: "string \<Rightarrow> int \<Rightarrow> int \<Rightarrow> db \<Rightarrow> db" where
  "record_rollback uuid raw now d = d\<lparr>
     clock_incidents := insert_row \<lparr>ci_id = uuid, ci_observed = raw, ci_high_water = now, ci_detected_at = now,
        ci_recovered_at = None, ci_recovery_reason = None, ci_recovered_by = None, ci_recovery_kind = None\<rparr>
        (clock_incidents d),
     clock_events := insert_row \<lparr>ce_incident = uuid, ce_kind = ''rollback_detected'', ce_initiator = ''service'',
        ce_actor = None, ce_observed = raw, ce_high_water = now, ce_reason = rollback_message, ce_created_at = now\<rparr>
        (clock_events d),
     clock := (clock d)\<lparr>ck_last_safe := now, ck_status := Clock_reconciliation, ck_incident := Some uuid,
        ck_observed := Some raw, ck_detected_at := Some now\<rparr>,
     attempts := update_where (\<lambda>a. at_state a = Active) (expire_on_rollback now) (attempts d),
     reporters := update_where (\<lambda>_. True)
        (\<lambda>r. r\<lparr>rp_expires_at := min (rp_expires_at r) now, rp_renew_until := min (rp_renew_until r) now\<rparr>) (reporters d)\<rparr>"

record time_source =
  ts_use_mono :: bool
  ts_wall :: int
  ts_mono :: int
  ts_mono_after :: int
  ts_uuid :: string

definition clock_expected :: "time_source \<Rightarrow> clock_runtime \<Rightarrow> db \<Rightarrow> int" where
  "clock_expected ts rt d =
     (if rt_initialized rt then max (expected_time (ts_use_mono ts) (ts_mono ts) rt) (ck_last_safe (clock d))
      else ck_last_safe (clock d))"

definition clock_active :: "db \<Rightarrow> bool" where
  "clock_active d \<longleftrightarrow> ck_status (clock d) = Clock_reconciliation"

definition clock_rollback :: "time_source \<Rightarrow> clock_runtime \<Rightarrow> db \<Rightarrow> bool" where
  "clock_rollback ts rt d \<longleftrightarrow> \<not> clock_active d
     \<and> saturating_add (raw_now (ts_wall ts)) material_clock_rollback_ms < clock_expected ts rt d"

definition safe_now :: "time_source \<Rightarrow> clock_runtime \<Rightarrow> db \<Rightarrow> int" where
  "safe_now ts rt d =
     max (max (clock_expected ts rt d) (raw_now (ts_wall ts))) (max (ck_last_safe (clock d)) (rt_high_water rt))"

text \<open>The SQLite part of \<open>sample_clock\<close>.\<close>

definition sample_tables :: "time_source \<Rightarrow> clock_runtime \<Rightarrow> db \<Rightarrow> db" where
  "sample_tables ts rt d =
     (if clock_rollback ts rt d then record_rollback (ts_uuid ts) (raw_now (ts_wall ts)) (safe_now ts rt d) d
      else if safe_now ts rt d > ck_last_safe (clock d)
           then d\<lparr>clock := (clock d)\<lparr>ck_last_safe := safe_now ts rt d\<rparr>\<rparr>
           else d)"

text \<open>The runtime part, on the runtime as it is when the second lock is taken.\<close>

definition sample_runtime :: "time_source \<Rightarrow> int \<Rightarrow> bool \<Rightarrow> clock_runtime \<Rightarrow> int \<times> clock_runtime" where
  "sample_runtime ts safe incident rt =
     (let raw = raw_now (ts_wall ts);
          live_expected = expected_time (ts_use_mono ts) (ts_mono_after ts) rt;
          live_high = max (rt_high_water rt) live_expected;
          now = max safe live_high;
          rt' = (if safe > live_high then rt\<lparr>rt_anchor_time := safe, rt_anchor := ts_mono_after ts\<rparr>
                 else if raw > live_expected \<and> raw \<ge> live_high
                      then rt\<lparr>rt_anchor_time := raw, rt_anchor := ts_mono_after ts\<rparr>
                 else rt)
      in (now, rt'\<lparr>rt_high_water := now, rt_initialized := True, rt_incident_active := incident\<rparr>))"

definition sample_clock ::
  "time_source \<Rightarrow> clock_runtime \<Rightarrow> clock_runtime \<Rightarrow> db \<Rightarrow> clock_sample \<times> db \<times> clock_runtime" where
  "sample_clock ts rt rt_after d =
     (let incident = clock_active d \<or> clock_rollback ts rt d;
          (now, rt') = sample_runtime ts (safe_now ts rt d) incident rt_after
      in (\<lparr>cs_now = now, cs_incident_active = incident, cs_incident_detected = clock_rollback ts rt d\<rparr>,
          sample_tables ts rt d, rt'))"

section \<open>Reconciliation\<close>

text \<open>
  \<open>reconcile_clock_in_tx\<close>. The trim test compares the trimmed reason with the reason;
  \<open>control_free\<close> is the test on control characters (the C0 and C1 ranges and DEL)
  except newline and tab.
\<close>

fun control_free :: "string \<Rightarrow> bool" where
  "control_free [] = True"
| "control_free (a # s) =
     (let n = (of_char a :: nat) in
      (n = 9 \<or> n = 10 \<or> \<not> (n \<le> 31 \<or> n = 127))
      \<and> \<not> (n = 194 \<and> (case s of [] \<Rightarrow> False | b # _ \<Rightarrow> (let m = (of_char b :: nat) in 128 \<le> m \<and> m \<le> 159)))
      \<and> control_free s)"

text \<open>A nonempty text without leading or trailing white space: no blank prefix or suffix.\<close>

definition trimmed :: "string \<Rightarrow> bool" where
  "trimmed s \<longleftrightarrow> \<not> list_ex (\<lambda>n. 0 < n \<and> (blank (take n s) \<or> blank (drop (length s - n) s))) [0..<Suc (length s)]"

definition reconcile_clock :: "int \<Rightarrow> int \<Rightarrow> string \<Rightarrow> string \<Rightarrow> string \<Rightarrow> string option \<Rightarrow>
    db \<Rightarrow> clock_runtime \<Rightarrow> (db \<times> clock_runtime \<times> int) res" where
  "reconcile_clock wall tick incident_id reason initiator actor d rt =
     (let raw = raw_now wall; c = clock d in
      if \<not> trimmed reason \<or> reason = [] \<or> length reason > 2000 \<or> \<not> control_free reason then Inl bad_request
      else if initiator \<noteq> ''authenticated_admin'' \<and> initiator \<noteq> ''host_operator'' then Inl internal
      else if (initiator = ''authenticated_admin'' \<and> actor = None) \<or> (initiator = ''host_operator'' \<and> actor \<noteq> None)
        then Inl internal
      else if ck_status c \<noteq> Clock_reconciliation then Inl (conflict ''clock_not_paused'')
      else if ck_incident c \<noteq> Some incident_id then Inl (conflict ''clock_incident_changed'')
      else if raw < ck_last_safe c then Inl (conflict ''clock_still_untrusted'')
      else (let now = max raw (ck_last_safe c) in
        Inr (d\<lparr>clock_incidents := update_where (\<lambda>i. ci_id i = incident_id \<and> ci_recovered_at i = None)
                  (\<lambda>i. i\<lparr>ci_recovered_at := Some now, ci_recovery_reason := Some reason,
                         ci_recovered_by := actor, ci_recovery_kind := Some initiator\<rparr>) (clock_incidents d),
               clock_events := insert_row \<lparr>ce_incident = incident_id, ce_kind = ''clock_reconciled'',
                  ce_initiator = initiator, ce_actor = actor, ce_observed = raw, ce_high_water = ck_last_safe c,
                  ce_reason = reason, ce_created_at = now\<rparr> (clock_events d),
               clock := c\<lparr>ck_last_safe := now, ck_status := Clock_ready, ck_observed := Some raw\<rparr>\<rparr>,
             rt\<lparr>rt_high_water := now, rt_anchor_time := now, rt_anchor := tick, rt_initialized := True,
                rt_incident_active := False\<rparr>, now)))"

section \<open>Laws\<close>

lemma safe_now_lower:
  "ck_last_safe (clock d) \<le> safe_now ts rt d" "rt_high_water rt \<le> safe_now ts rt d"
  "raw_now (ts_wall ts) \<le> safe_now ts rt d"
  by (auto simp: safe_now_def)

lemma sample_tables_last_safe:
  "ck_last_safe (clock (sample_tables ts rt d)) = safe_now ts rt d"
  using safe_now_lower(1) [of d ts rt] by (auto simp: sample_tables_def record_rollback_def)

lemma sample_tables_status:
  "clock_active (sample_tables ts rt d) \<longleftrightarrow> clock_active d \<or> clock_rollback ts rt d"
  by (auto simp: sample_tables_def record_rollback_def clock_active_def)

lemma sample_runtime_high_water:
  assumes "sample_runtime ts safe incident rt = (now, rt')"
  shows "rt_high_water rt' = now" "safe \<le> now" "rt_high_water rt \<le> now"
  using assms by (auto simp: sample_runtime_def Let_def split: if_splits)

lemma app_now_high_water:
  assumes "app_now use_mono wall tick rt = (now, rt')" and "rt_initialized rt"
  shows "rt_high_water rt' = now" "rt_high_water rt \<le> now"
  using assms by (auto simp: app_now_def Let_def split: if_splits)

text \<open>Everything the sample leaves alone when it detects no rollback.\<close>

lemma sample_tables_quiet:
  assumes "\<not> clock_rollback ts rt d"
  shows "sample_tables ts rt d = d\<lparr>clock := (clock d)\<lparr>ck_last_safe := safe_now ts rt d\<rparr>\<rparr>"
  using assms safe_now_lower(1) [of d ts rt] by (auto simp: sample_tables_def)

lemma sample_tables_frame [simp]:
  "tasks (sample_tables ts rt d) = tasks d"
  "projects (sample_tables ts rt d) = projects d"
  "receipts (sample_tables ts rt d) = receipts d"
  "events (sample_tables ts rt d) = events d"
  "principals (sample_tables ts rt d) = principals d"
  "credentials (sample_tables ts rt d) = credentials d"
  "agent_sessions (sample_tables ts rt d) = agent_sessions d"
  "browser_sessions (sample_tables ts rt d) = browser_sessions d"
  "authority_epoch (sample_tables ts rt d) = authority_epoch d"
  "coord_state (sample_tables ts rt d) = coord_state d"
  "task_dependencies (sample_tables ts rt d) = task_dependencies d"
  "reservations (sample_tables ts rt d) = reservations d"
  "reservation_items (sample_tables ts rt d) = reservation_items d"
  "resources (sample_tables ts rt d) = resources d"
  "jobs (sample_tables ts rt d) = jobs d"
  by (simp_all add: sample_tables_def record_rollback_def)

lemma sample_tables_attempts:
  "attempts (sample_tables ts rt d) =
     (if clock_rollback ts rt d
      then update_where (\<lambda>a. at_state a = Active) (expire_on_rollback (safe_now ts rt d)) (attempts d)
      else attempts d)"
  by (simp add: sample_tables_def record_rollback_def)

lemma rollback_no_active:
  "clock_rollback ts rt d \<Longrightarrow> \<forall>a \<in> set (attempts (sample_tables ts rt d)). at_state a \<noteq> Active"
  by (auto simp: sample_tables_attempts table_simps expire_on_rollback_def)

end
