(* ===== verification/Access.thy ===== *)
theory Access
  imports Clock
begin

text \<open>
  Who is calling: the actor of a request, the credential attributes that scope it
  (\<^verbatim>\<open>credential_attributes.rs\<close>), and the verification of a bearer, browser or reporter
  credential against the tables (\<^verbatim>\<open>auth.rs\<close>, \<^verbatim>\<open>jobs.rs\<close>). SHA-256 is a parameter wherever a
  secret is hashed; verification compares stored hashes only.
\<close>

record credential_attributes =
  ca_class :: credential_class
  ca_access :: credential_access

record actor =
  ac_id :: string
  ac_name :: string
  ac_kind :: principal_kind
  ac_role :: string
  ac_credential :: "string option"
  ac_session :: "string option"
  ac_attributes :: "credential_attributes option"

definition from_columns :: "string \<Rightarrow> string \<Rightarrow> credential_attributes" where
  "from_columns class access =
     \<lparr>ca_class = (if class = ''supervised'' then Supervised
                  else if class = ''integrator'' then Integrator else Interactive),
      ca_access = (if access = ''write'' then Write else Read)\<rparr>"

fun class_as_str :: "credential_class \<Rightarrow> string" where
  "class_as_str Interactive = ''interactive''"
| "class_as_str Supervised = ''supervised''"
| "class_as_str Integrator = ''integrator''"

fun access_as_str :: "credential_access \<Rightarrow> string" where
  "access_as_str Write = ''write''"
| "access_as_str Read = ''read''"

section \<open>Scope of a credential\<close>

definition allowed_for_read_access :: "string \<Rightarrow> bool" where
  "allowed_for_read_access op \<longleftrightarrow>
     op = ''POST /api/v1/sessions''
     \<or> (starts_with op ''POST /api/v1/sessions/''
        \<and> (ends_with op ''/close'' \<or> ends_with op ''/instruction-acknowledgments''))"

definition is_read_only :: "actor \<Rightarrow> bool" where
  "is_read_only a = is_some_and (ac_attributes a) (\<lambda>x. ca_access x = Read)"

definition require_write_access :: "actor \<Rightarrow> string \<Rightarrow> unit res" where
  "require_write_access a op =
     (if is_read_only a \<and> \<not> allowed_for_read_access op then Inl forbidden else Inr ())"

definition require_subagent_access :: "actor \<Rightarrow> unit res" where
  "require_subagent_access a = (if is_read_only a then Inl forbidden else Inr ())"

definition report_resolution :: "string \<Rightarrow> bool" where
  "report_resolution op \<longleftrightarrow> contains op ''/integrator/reports/'' \<and> ends_with op ''/resolve''"

definition integrator_operation :: "string \<Rightarrow> bool" where
  "integrator_operation op \<longleftrightarrow>
     starts_with op ''POST /api/v1/projects/'' \<and> contains op ''/integrator/'' \<and> \<not> report_resolution op"

definition is_integrator :: "actor \<Rightarrow> bool" where
  "is_integrator a = is_some_and (ac_attributes a) (\<lambda>x. ca_class x = Integrator)"

definition is_supervisor :: "actor \<Rightarrow> bool" where
  "is_supervisor a = is_some_and (ac_attributes a) (\<lambda>x. ca_class x = Supervised \<or> ca_access x = Read)"

definition require_class_scope :: "actor \<Rightarrow> string \<Rightarrow> unit res" where
  "require_class_scope a op =
     (case (is_integrator a, integrator_operation op) of
        (True, False) \<Rightarrow> Inl forbidden
      | (False, True) \<Rightarrow> Inl forbidden
      | _ \<Rightarrow> Inr ())"

definition event_class :: "actor \<Rightarrow> credential_class option" where
  "event_class a = map_option ca_class (ac_attributes a)"

section \<open>Verification\<close>

datatype auth =
    Bearer string "(string \<times> string) option" bool
  | Browser string

definition live_principal :: "principal_kind \<Rightarrow> string option \<Rightarrow> db \<Rightarrow> string \<Rightarrow> principal option" where
  "live_principal kind role d i =
     fetch (\<lambda>p. pr_id p = i \<and> pr_disabled_at p = None \<and> pr_kind p = kind
                \<and> is_none_or role (\<lambda>r. pr_role p = r)) (principals d)"

definition verify_bearer :: "db \<Rightarrow> int \<Rightarrow> string \<Rightarrow> actor res" where
  "verify_bearer d now token_hash =
     and_then (ok_or auth_required (fetch (\<lambda>c. cr_token_hash c = token_hash \<and> cr_revoked_at c = None
                 \<and> is_none_or (cr_expires_at c) (\<lambda>e. e > now)) (credentials d))) (\<lambda>c.
     and_then (ok_or auth_required (live_principal Agent (Some ''agent'') d (cr_principal c))) (\<lambda>p.
       Inr \<lparr>ac_id = pr_id p, ac_name = pr_name p, ac_kind = pr_kind p, ac_role = pr_role p,
            ac_credential = Some (cr_id c), ac_session = None,
            ac_attributes = Some (from_columns (cr_class c) (cr_access c))\<rparr>))"

definition verify_session :: "db \<Rightarrow> actor \<Rightarrow> string \<Rightarrow> string \<Rightarrow> bool \<Rightarrow> actor res" where
  "verify_session d a i proof_hash allow_closed =
     and_then (ok_or auth_required (fetch (\<lambda>s. as_id s = i \<and> as_principal s = ac_id a
                 \<and> Some (as_credential s) = ac_credential a) (agent_sessions d))) (\<lambda>s.
       if as_proof_hash s \<noteq> proof_hash \<or> (\<not> allow_closed \<and> as_closed_at s \<noteq> None) then Inl auth_required
       else Inr (a\<lparr>ac_session := Some i\<rparr>))"

fun verify :: "db \<Rightarrow> int \<Rightarrow> auth \<Rightarrow> actor res" where
  "verify d now (Bearer token_hash session allow_closed) =
     and_then (verify_bearer d now token_hash) (\<lambda>a.
       case session of None \<Rightarrow> Inr a
       | Some (i, proof_hash) \<Rightarrow> verify_session d a i proof_hash allow_closed)"
| "verify d now (Browser token_hash) =
     and_then (ok_or auth_required (fetch (\<lambda>b. bs_token_hash b = token_hash \<and> bs_revoked_at b = None
                 \<and> bs_expires_at b > now) (browser_sessions d))) (\<lambda>b.
     and_then (ok_or auth_required (live_principal Human None d (bs_principal b))) (\<lambda>p.
       Inr \<lparr>ac_id = pr_id p, ac_name = pr_name p, ac_kind = pr_kind p, ac_role = pr_role p,
            ac_credential = None, ac_session = Some (bs_id b), ac_attributes = None\<rparr>))"

text \<open>\<open>ReporterAuth::verify\<close>\<close>

definition verify_reporter :: "db \<Rightarrow> int \<Rightarrow> string \<Rightarrow> string \<Rightarrow> actor res" where
  "verify_reporter d now i proof_hash =
     and_then (ok_or auth_required (fetch (\<lambda>r. rp_id r = i \<and> rp_expires_at r > now) (reporters d))) (\<lambda>r.
     and_then (ok_or auth_required (fetch (\<lambda>c. cr_id c = rp_credential r \<and> cr_principal c = rp_principal r
                 \<and> cr_revoked_at c = None \<and> is_none_or (cr_expires_at c) (\<lambda>e. e > now)) (credentials d))) (\<lambda>c.
     and_then (ok_or auth_required (live_principal Agent (Some ''agent'') d (rp_principal r))) (\<lambda>p.
       if rp_proof_hash r \<noteq> proof_hash then Inl auth_required
       else Inr \<lparr>ac_id = pr_id p, ac_name = pr_name p, ac_kind = pr_kind p, ac_role = pr_role p,
            ac_credential = Some (cr_id c), ac_session = Some (rp_session r), ac_attributes = None\<rparr>)))"

definition session_of :: "actor \<Rightarrow> string res" where
  "session_of a = ok_or forbidden (ac_session a)"

text \<open>\<open>auth::admin\<close>\<close>

definition admin :: "actor \<Rightarrow> unit res" where
  "admin a = (if ac_kind a \<noteq> Human \<or> ac_role a \<noteq> ''admin'' then Inl forbidden else Inr ())"

definition admin_or_operator :: "actor \<Rightarrow> unit res" where
  "admin_or_operator a = (if ac_kind a \<noteq> Human then Inl (human_gate ''project_administration'') else Inr ())"

section \<open>Laws\<close>

lemma from_columns_fail_closed:
  "ca_access (from_columns class access) = Write \<longleftrightarrow> access = ''write''"
  by (simp add: from_columns_def)

lemma from_columns_round_trip:
  "from_columns (class_as_str c) (access_as_str a) = \<lparr>ca_class = c, ca_access = a\<rparr>"
  by (cases c; cases a) (simp_all add: from_columns_def)

lemma live_principal_SomeD:
  "live_principal kind role d i = Some p \<Longrightarrow>
     p \<in> set (principals d) \<and> pr_id p = i \<and> pr_disabled_at p = None \<and> pr_kind p = kind"
  by (auto simp: live_principal_def dest: fetch_SomeD)

lemma verify_bearer_kind: "verify_bearer d now h = Inr a \<Longrightarrow> ac_kind a = Agent \<and> ac_credential a \<noteq> None"
  by (auto simp: verify_bearer_def dest: live_principal_SomeD)

lemma verify_kind_cases:
  assumes "verify d now au = Inr a"
  shows "(ac_kind a = Agent \<and> ac_credential a \<noteq> None) \<or> (ac_kind a = Human \<and> ac_credential a = None \<and> ac_session a \<noteq> None)"
  using assms
  by (cases au)
     (auto simp: verify_session_def split: option.splits prod.splits if_splits
       dest!: live_principal_SomeD verify_bearer_kind)

text \<open>A verified bearer is exactly what the lease columns call an authorized owner.\<close>

lemma verify_authorizes:
  assumes v: "verify d now (Bearer h (Some (s, ph)) False) = Inr a"
    and u1: "unique_by pr_id (principals d)" and u2: "unique_by cr_id (credentials d)"
    and u3: "unique_by as_id (agent_sessions d)"
    and own: "at_owner t = ac_id a" "at_session t = s" "at_credential t = ac_credential a"
  shows "owner_authorized d now t"
proof -
  from v obtain b c p x where b: "verify_bearer d now h = Inr b"
    and c: "c \<in> set (credentials d)" "cr_revoked_at c = None" "is_none_or (cr_expires_at c) (\<lambda>e. e > now)"
    and p: "p \<in> set (principals d)" "pr_id p = cr_principal c" "pr_disabled_at p = None"
    and bb: "ac_id b = pr_id p" "ac_credential b = Some (cr_id c)"
    and x: "x \<in> set (agent_sessions d)" "as_id x = s" "as_credential x = cr_id c" "as_closed_at x = None"
    and ab: "a = b\<lparr>ac_session := Some s\<rparr>"
    by (fastforce simp: verify_session_def verify_bearer_def split: if_splits
        dest: fetch_SomeD live_principal_SomeD)
  have "fetch (\<lambda>q. pr_id q = at_owner t) (principals d) = Some p"
    using u1 p(1) own(1) ab bb(1) by (intro fetch_unique) auto
  moreover have "fetch (\<lambda>q. cr_id q = cr_id c) (credentials d) = Some c"
    using u2 c(1) by (intro fetch_unique) auto
  moreover have "fetch (\<lambda>q. as_id q = s \<and> as_credential q = cr_id c) (agent_sessions d) = Some x"
    using fetch_key_conj_unique [OF u3 x(1) x(2), of "\<lambda>q. as_credential q = cr_id c"] x(3)
    by (simp add: conj_commute)
  ultimately show ?thesis
    using p(3) c x(4) own(2,3) ab bb(2)
    by (simp add: owner_authorized_def credential_live_def agent_session_live_def)
qed

end
