(* ===== verification/Mutation.thy ===== *)
theory Mutation
  imports Access
begin

text \<open>
  The write transaction (\<^verbatim>\<open>server/src/mutation.rs\<close>). \<open>begin\<close> samples the clock under the
  writer lock, rechecks the caller, the scope of its credential and the pauses after a restore
  or a clock incident, and looks the idempotency key up; \<open>finish\<close> stores the receipt and the event
  and commits. A handler body returns \<open>Committed\<close> when it reached \<open>finish\<close> and \<open>Answered\<close> when it
  returned a response without committing (a replay); every error rolls the transaction back.
  The digest of the serialised request is a parameter: \<open>fp\<close> stands for
  \<open>digest(serde_json::to_string(..))\<close> and \<open>sha\<close> for \<open>digest\<close>.
\<close>

datatype fingerprint_input =
    FP string "string option" "string option"
  | FP_v2 string string "string option" "string option"
  | FP_admin string string
  | FP_admin_v2 string string string
  | FP_reporter string string
  | FP_reporter_v2 string string string

record request =
  rq_operation :: string
  rq_keys :: "string list"
  rq_body :: string
  rq_proof :: "string option"

record mutation =
  m_db :: db
  m_actor :: actor
  m_now :: int
  m_replay :: "json option"
  m_operation :: string
  m_key :: string
  m_fingerprint :: string
  m_epoch :: string

datatype outcome = Committed json db | Answered json

definition mutation_key :: "string list \<Rightarrow> string res" where
  "mutation_key headers =
     (case headers of
        [k] \<Rightarrow> if k \<noteq> [] \<and> length k \<le> 128 \<and> list_all ascii_graphic k then Inr k else Inl bad_request
      | _ \<Rightarrow> Inl bad_request)"

section \<open>Pauses\<close>

definition allowed_during_restore :: "string \<Rightarrow> bool" where
  "allowed_during_restore op \<longleftrightarrow>
     op = ''POST /api/v1/auth/logout''
   \<or> op = ''POST /api/v1/auth/password''
   \<or> op = ''POST /api/v1/sessions''
   \<or> (starts_with op ''POST /api/v1/sessions/''
      \<and> (ends_with op ''/close'' \<or> ends_with op ''/instruction-acknowledgments''))
   \<or> op = ''POST /api/v1/admin/operators''
   \<or> starts_with op ''POST /api/v1/admin/operators/''
   \<or> starts_with op ''POST /api/v1/browser-sessions/''
   \<or> starts_with op ''POST /api/v1/admin/credentials/''
   \<or> (starts_with op ''POST /api/v1/admin/agents/'' \<and> ends_with op ''/credentials'')
   \<or> starts_with op ''POST /api/v1/admin/restore/''
   \<or> (starts_with op ''POST /api/v1/projects/''
      \<and> ((contains op ''/reservations/'' \<and> ends_with op ''/resolve'')
         \<or> (contains op ''/workflow-activities/''
            \<and> (ends_with op ''/publication-reconciliation''
               \<or> ends_with op ''/agent-publication-reconciliation''))))"

definition allowed_during_clock_reconciliation :: "string \<Rightarrow> bool" where
  "allowed_during_clock_reconciliation op \<longleftrightarrow>
     op = ''POST /api/v1/auth/logout''
   \<or> (starts_with op ''POST /api/v1/sessions/'' \<and> ends_with op ''/close'')
   \<or> starts_with op ''POST /api/v1/browser-sessions/''
   \<or> op = ''POST /api/v1/admin/clock/reconcile''
   \<or> starts_with op ''POST /api/v1/admin/restore/''
   \<or> (starts_with op ''POST /api/v1/projects/''
      \<and> ((contains op ''/attempts/'' \<and> (ends_with op ''/checkpoints'' \<or> ends_with op ''/release''))
         \<or> (contains op ''/workflow-activities/''
            \<and> (ends_with op ''/release'' \<or> ends_with op ''/integration-result''
               \<or> ends_with op ''/publication-reconciliation''
               \<or> ends_with op ''/agent-publication-reconciliation''))
         \<or> (contains op ''/reservations/'' \<and> (ends_with op ''/release'' \<or> ends_with op ''/resolve''))))
   \<or> (starts_with op ''POST /api/v1/reporters/'' \<and> ends_with op ''/observations'')"

definition clock_reconciliation_error :: app_error where
  "clock_reconciliation_error = conflict ''clock_reconciliation_required''"

definition authority :: "db \<Rightarrow> string \<Rightarrow> bool \<Rightarrow> string res" where
  "authority d op clock_incident_active =
     (if coord_state d = Restore_reconciliation \<and> \<not> allowed_during_restore op
        then Inl (conflict ''restore_reconciliation_required'')
      else if clock_incident_active \<and> \<not> allowed_during_clock_reconciliation op
        then Inl clock_reconciliation_error
      else Inr (authority_epoch d))"

section \<open>Receipts\<close>

definition replay_window_ms :: int where "replay_window_ms = 30 * 86400000"

definition receipt_matches :: "string \<Rightarrow> string \<Rightarrow> string \<Rightarrow> mutation_receipt \<Rightarrow> bool" where
  "receipt_matches principal_id op key r \<longleftrightarrow>
     mr_principal r = principal_id \<and> mr_operation r = op \<and> mr_key r = key"

definition load_receipt :: "db \<Rightarrow> int \<Rightarrow> actor \<Rightarrow> string \<Rightarrow> string \<Rightarrow> string \<Rightarrow> string \<Rightarrow> mutation res" where
  "load_receipt d now a op key fingerprint epoch =
     and_then
       (case fetch (receipt_matches (ac_id a) op key) (receipts d) of
          None \<Rightarrow> Inr None
        | Some r \<Rightarrow>
            if mr_epoch r \<noteq> epoch then Inl (conflict ''request_from_previous_restore'')
            else if mr_fingerprint r \<noteq> fingerprint then Inl (conflict ''idempotency_conflict'')
            else if mr_compacted_at r \<noteq> None then Inl (conflict ''idempotency_receipt_expired'')
            else if now - mr_created_at r > replay_window_ms then Inl (conflict ''idempotency_receipt_expired'')
            else Inr (Some (mr_result r)))
       (\<lambda>replay. Inr \<lparr>m_db = d, m_actor = a, m_now = now, m_replay = replay, m_operation = op, m_key = key,
                      m_fingerprint = fingerprint, m_epoch = epoch\<rparr>)"

definition receipt_of :: "mutation \<Rightarrow> json \<Rightarrow> mutation_receipt" where
  "receipt_of m data = \<lparr>mr_principal = ac_id (m_actor m), mr_operation = m_operation m, mr_key = m_key m,
     mr_fingerprint = m_fingerprint m, mr_result = data, mr_created_at = m_now m, mr_epoch = m_epoch m,
     mr_compacted_at = None\<rparr>"

definition event_of :: "mutation \<Rightarrow> json \<Rightarrow> string option \<Rightarrow> string \<Rightarrow> string \<Rightarrow> event" where
  "event_of m data project kind rec = \<lparr>ev_project = project, ev_actor = ac_id (m_actor m), ev_kind = kind,
     ev_record = rec, ev_data = data, ev_created_at = m_now m, ev_class = event_class (m_actor m)\<rparr>"

text \<open>\<open>d\<close> is the transaction's state when the handler calls \<open>finish\<close>.\<close>

definition finish_with_event_data ::
  "mutation \<Rightarrow> db \<Rightarrow> json \<Rightarrow> json \<Rightarrow> string option \<Rightarrow> string \<Rightarrow> string \<Rightarrow> outcome res" where
  "finish_with_event_data m d data event_data project kind rec =
     and_then (insert_unique unique_violation
         (\<lambda>a b. receipt_matches (mr_principal a) (mr_operation a) (mr_key a) b) (receipt_of m data) (receipts d)) (\<lambda>rs.
       Inr (Committed data (d\<lparr>receipts := rs, events := insert_row (event_of m event_data project kind rec) (events d)\<rparr>)))"

definition finish :: "mutation \<Rightarrow> db \<Rightarrow> json \<Rightarrow> string option \<Rightarrow> string \<Rightarrow> string \<Rightarrow> outcome res" where
  "finish m d data project kind rec = finish_with_event_data m d data (JObj []) project kind rec"

section \<open>Beginning a transaction\<close>

record server =
  srv_db :: db
  srv_rt :: clock_runtime

definition fingerprint_of :: "string \<Rightarrow> string \<Rightarrow> string option \<Rightarrow> string option \<Rightarrow> fingerprint_input" where
  "fingerprint_of epoch body session proof =
     (if epoch = ''initial'' then FP body session proof else FP_v2 epoch body session proof)"

text \<open>The checks of \<open>begin\<close> after the clock was sampled.\<close>

definition begin_checks :: "(fingerprint_input \<Rightarrow> string) \<Rightarrow> (string \<Rightarrow> string) \<Rightarrow> auth \<Rightarrow> request \<Rightarrow>
    string \<Rightarrow> clock_sample \<Rightarrow> db \<Rightarrow> mutation res" where
  "begin_checks fp sha au rq key cs d =
     (let now = cs_now cs; op = rq_operation rq in
      and_then (verify d now au) (\<lambda>a.
      and_then (require_write_access a op) (\<lambda>_.
      and_then (require_class_scope a op) (\<lambda>_.
      and_then (authority d op (cs_incident_active cs)) (\<lambda>epoch.
        load_receipt d now a op key
          (fp (fingerprint_of epoch (rq_body rq) (ac_session a) (map_option sha (rq_proof rq)))) epoch)))))"

definition begin_human_admin_checks :: "(fingerprint_input \<Rightarrow> string) \<Rightarrow> auth \<Rightarrow> request \<Rightarrow>
    string \<Rightarrow> clock_sample \<Rightarrow> db \<Rightarrow> mutation res" where
  "begin_human_admin_checks fp au rq key cs d =
     (let now = cs_now cs; op = ''POST /api/v1/admin/operators'' in
      and_then (verify d now au) (\<lambda>a.
      and_then (if ac_kind a = Human \<and> ac_role a = ''admin'' then Inr () else Inl forbidden) (\<lambda>_.
      and_then (authority d op (cs_incident_active cs)) (\<lambda>epoch.
        load_receipt d now a op key
          (fp (if epoch = ''initial'' then FP_admin (rq_body rq) (ac_id a)
               else FP_admin_v2 epoch (rq_body rq) (ac_id a))) epoch))))"

definition begin_reporter_checks :: "(fingerprint_input \<Rightarrow> string) \<Rightarrow> string \<Rightarrow> string \<Rightarrow> request \<Rightarrow>
    string \<Rightarrow> clock_sample \<Rightarrow> db \<Rightarrow> mutation res" where
  "begin_reporter_checks fp reporter proof_hash rq key cs d =
     (let now = cs_now cs; op = rq_operation rq in
      and_then (verify_reporter d now reporter proof_hash) (\<lambda>a.
      and_then (authority d op (cs_incident_active cs)) (\<lambda>epoch.
        load_receipt d now a op key
          (fp (if epoch = ''initial'' then FP_reporter reporter (rq_body rq)
               else FP_reporter_v2 epoch reporter (rq_body rq))) epoch)))"

text \<open>
  \<open>begin\<close>, \<open>begin_human_admin_account_creation\<close> and \<open>begin_reporter\<close> share their frame: one
  key header, one clock sample in the transaction, and a clock-only commit when the sample
  detects a rollback.
\<close>

definition mutation_begin ::
  "(string \<Rightarrow> clock_sample \<Rightarrow> db \<Rightarrow> mutation res) \<Rightarrow> request \<Rightarrow> time_source \<Rightarrow> clock_runtime \<Rightarrow>
    server \<Rightarrow> mutation res \<times> server" where
  "mutation_begin checks rq ts rt_after srv =
     (case mutation_key (rq_keys rq) of
        Inl e \<Rightarrow> (Inl e, srv)
      | Inr key \<Rightarrow>
          (let (cs, d, rt) = sample_clock ts (srv_rt srv) rt_after (srv_db srv) in
           if cs_incident_detected cs then (Inl clock_reconciliation_error, \<lparr>srv_db = d, srv_rt = rt\<rparr>)
           else (checks key cs d, srv\<lparr>srv_rt := rt\<rparr>)))"

text \<open>Running a handler: the commit happens only where the body reached \<open>finish\<close>.\<close>

definition run_mutation :: "mutation res \<times> server \<Rightarrow> (mutation \<Rightarrow> outcome res) \<Rightarrow> json res \<times> server" where
  "run_mutation b body =
     (case b of
        (Inl e, srv) \<Rightarrow> (Inl e, srv)
      | (Inr m, srv) \<Rightarrow>
          (case body m of
             Inl e \<Rightarrow> (Inl e, srv)
           | Inr (Answered v) \<Rightarrow> (Inr v, srv)
           | Inr (Committed v d) \<Rightarrow> (Inr v, srv\<lparr>srv_db := d\<rparr>)))"

text \<open>
  A mutating request: the digests, the caller, the headers and the body text, the clocks, and the
  runtime as the second lock of the sample finds it. \<open>handle\<close> is the frame every handler of the
  service has: payload validation, \<open>Mutation::begin\<close>, then the handler's own body.
\<close>

record call =
  cl_fp :: "fingerprint_input \<Rightarrow> string"
  cl_sha :: "string \<Rightarrow> string"
  cl_auth :: auth
  cl_keys :: "string list"
  cl_body :: string
  cl_proof :: "string option"
  cl_time :: time_source
  cl_rt_after :: clock_runtime

definition request_of :: "call \<Rightarrow> string \<Rightarrow> request" where
  "request_of c op = \<lparr>rq_operation = op, rq_keys = cl_keys c, rq_body = cl_body c, rq_proof = cl_proof c\<rparr>"

definition handle :: "call \<Rightarrow> string \<Rightarrow> unit res \<Rightarrow> (mutation \<Rightarrow> outcome res) \<Rightarrow> server \<Rightarrow> json res \<times> server" where
  "handle c op validated body srv =
     (case validated of
        Inl e \<Rightarrow> (Inl e, srv)
      | Inr _ \<Rightarrow> run_mutation
          (mutation_begin (begin_checks (cl_fp c) (cl_sha c) (cl_auth c) (request_of c op)) (request_of c op)
             (cl_time c) (cl_rt_after c) srv) body)"

text \<open>
  The reporter handlers: \<open>require_reporter\<close> and the payload are checked first, then \<open>begin_reporter\<close>
  verifies the reporter's own proof (\<open>cl_auth\<close> and \<open>cl_proof\<close> play no part).
\<close>

definition handle_reporter :: "call \<Rightarrow> string \<Rightarrow> string \<Rightarrow> string \<Rightarrow> unit res \<Rightarrow> (mutation \<Rightarrow> outcome res) \<Rightarrow>
    server \<Rightarrow> json res \<times> server" where
  "handle_reporter c reporter proof_hash op validated body srv =
     (case validated of
        Inl e \<Rightarrow> (Inl e, srv)
      | Inr _ \<Rightarrow> run_mutation
          (mutation_begin (begin_reporter_checks (cl_fp c) reporter proof_hash (request_of c op)) (request_of c op)
             (cl_time c) (cl_rt_after c) srv) body)"

section \<open>Laws of the receipts\<close>

lemma load_receipt_fields:
  "load_receipt d now a op key f epoch = Inr m \<Longrightarrow>
     m_db m = d \<and> m_actor m = a \<and> m_now m = now \<and> m_operation m = op \<and> m_key m = key
     \<and> m_fingerprint m = f \<and> m_epoch m = epoch"
  by (auto simp: load_receipt_def)

lemma begin_checks_fields:
  assumes "begin_checks fp sha au rq key cs d = Inr m"
  shows "m_db m = d" "m_now m = cs_now cs" "m_operation m = rq_operation rq" "m_key m = key"
    "verify d (cs_now cs) au = Inr (m_actor m)"
  using assms by (auto simp: begin_checks_def Let_def dest!: load_receipt_fields)

lemma begin_checks_guards:
  assumes "begin_checks fp sha au rq key cs d = Inr m"
  shows "is_read_only (m_actor m) \<Longrightarrow> allowed_for_read_access (rq_operation rq)"
    "is_integrator (m_actor m) = integrator_operation (rq_operation rq)"
    "cs_incident_active cs \<Longrightarrow> allowed_during_clock_reconciliation (rq_operation rq)"
    "coord_state d = Restore_reconciliation \<Longrightarrow> allowed_during_restore (rq_operation rq)"
  using assms
  by (auto simp: begin_checks_def Let_def require_write_access_def require_class_scope_def authority_def
      split: if_splits bool.splits dest!: load_receipt_fields)

lemma receipt_matches_of [simp]:
  "receipt_matches (mr_principal (receipt_of m v)) (mr_operation (receipt_of m v)) (mr_key (receipt_of m v)) r
     = receipt_matches (ac_id (m_actor m)) (m_operation m) (m_key m) r"
  by (simp add: receipt_of_def)

lemma finish_Inr:
  assumes "finish_with_event_data m d data ed p k r = Inr out"
  shows "out = Committed data (d\<lparr>receipts := insert_row (receipt_of m data) (receipts d),
           events := insert_row (event_of m ed p k r) (events d)\<rparr>)"
    "\<forall>s \<in> set (receipts d). \<not> receipt_matches (ac_id (m_actor m)) (m_operation m) (m_key m) s"
  using assms by (auto simp: finish_with_event_data_def)

text \<open>A request without a receipt can always be finished: the uniqueness constraint is never hit.\<close>

lemma load_receipt_fresh:
  assumes "load_receipt d now a op key f epoch = Inr m" and "m_replay m = None"
  shows "\<forall>s \<in> set (receipts d). \<not> receipt_matches (ac_id a) op key s"
  using assms by (auto simp: load_receipt_def fetch_None_iff split: option.splits if_splits)

lemma finish_commits:
  assumes "\<forall>s \<in> set (receipts d). \<not> receipt_matches (ac_id (m_actor m)) (m_operation m) (m_key m) s"
  shows "finish_with_event_data m d data ed p k r =
     Inr (Committed data (d\<lparr>receipts := insert_row (receipt_of m data) (receipts d),
           events := insert_row (event_of m ed p k r) (events d)\<rparr>))"
  using assms by (auto simp: finish_with_event_data_def insert_unique_def list_ex_iff)

text \<open>Once stored, a receipt answers the same request again, whatever else was appended since.\<close>

lemma load_receipt_after_finish:
  assumes fin: "finish_with_event_data m d data ed p k r = Inr (Committed data d1)"
    and ext: "receipts d2 = receipts d1 @ later"
    and same: "ac_id a = ac_id (m_actor m)" "op = m_operation m" "key = m_key m"
      "f = m_fingerprint m" "epoch = m_epoch m"
    and window: "now - m_now m \<le> replay_window_ms"
  shows "\<exists>m2. load_receipt d2 now a op key f epoch = Inr m2 \<and> m_replay m2 = Some data"
proof -
  let ?P = "receipt_matches (ac_id (m_actor m)) (m_operation m) (m_key m)"
  have none: "\<forall>s \<in> set (receipts d). \<not> ?P s" by (rule finish_Inr(2) [OF fin])
  have recs: "receipts d2 = receipts d @ receipt_of m data # later"
    using finish_Inr(1) [OF fin] ext by (simp add: insert_row_def)
  have hit: "?P (receipt_of m data)" by (simp add: receipt_of_def receipt_matches_def)
  have "fetch ?P (receipts d2) = Some (receipt_of m data)"
    unfolding recs using none hit by (rule fetch_append_first)
  then show ?thesis
    using same window by (simp add: load_receipt_def receipt_of_def)
qed

section \<open>The contract of a handler\<close>

text \<open>
  Every mutating handler promises its caller: a request with a stored receipt never commits
  anything, and a request without one either changes nothing or appends exactly its own
  receipt and audit events, the last one by the verified actor; no earlier event is changed.
\<close>

locale replay_safe =
  fixes body :: "mutation \<Rightarrow> outcome res"
  assumes replay_no_commit: "m_replay m = Some v \<Longrightarrow> body m \<noteq> Inr (Committed w d)"
    and commit_receipt: "body m = Inr (Committed w d) \<Longrightarrow>
      \<exists>d0 ed p k r. receipts d0 = receipts (m_db m) \<and> prefix (events (m_db m)) (events d0)
        \<and> finish_with_event_data m d0 w ed p k r = Inr (Committed w d)"
begin

lemma commit_appends:
  assumes "body m = Inr (Committed w d)"
  shows "receipts d = receipts (m_db m) @ [receipt_of m w]"
    "\<exists>es e. events d = events (m_db m) @ es @ [e] \<and> ev_actor e = ac_id (m_actor m) \<and> ev_created_at e = m_now m"
  using commit_receipt [OF assms]
  by (auto simp: insert_row_def event_of_def prefix_def dest!: finish_Inr(1))

text \<open>
  Exactly once: after a commit, a retry of the same request inside the replay window, under any
  state that only appended receipts, loads the stored answer and commits nothing.
\<close>

lemma exactly_once:
  assumes run: "body m = Inr (Committed w d1)"
    and ext: "receipts d2 = receipts d1 @ later"
    and same: "ac_id a = ac_id (m_actor m)" "op = m_operation m" "key = m_key m"
      "f = m_fingerprint m" "epoch = m_epoch m"
    and window: "now - m_now m \<le> replay_window_ms"
  shows "\<exists>m2. load_receipt d2 now a op key f epoch = Inr m2 \<and> m_replay m2 = Some w
           \<and> (\<forall>v d. body m2 \<noteq> Inr (Committed v d))"
proof -
  from commit_receipt [OF run] obtain d0 ed p k r where
    fin: "finish_with_event_data m d0 w ed p k r = Inr (Committed w d1)" by blast
  from load_receipt_after_finish [OF fin ext same window]
  obtain m2 where "load_receipt d2 now a op key f epoch = Inr m2" "m_replay m2 = Some w" by blast
  with replay_no_commit show ?thesis by blast
qed

lemma replay_keeps_db:
  assumes "m_replay m = Some v"
  shows "srv_db (snd (run_mutation (Inr m, srv) body)) = srv_db srv"
  using replay_no_commit [OF assms]
  by (auto simp: run_mutation_def split: sum.splits outcome.splits)

end

lemma run_mutation_db:
  assumes "run_mutation (mutation_begin checks rq ts rt_after srv) body = (res, srv')"
  shows "srv_db srv' = srv_db srv
    \<or> (srv_db srv' = sample_tables ts (srv_rt srv) (srv_db srv) \<and> clock_rollback ts (srv_rt srv) (srv_db srv))
    \<or> (\<exists>m w. body m = Inr (Committed w (srv_db srv')) \<and> \<not> clock_rollback ts (srv_rt srv) (srv_db srv)
        \<and> (\<exists>key cs. checks key cs (sample_tables ts (srv_rt srv) (srv_db srv)) = Inr m))"
  using assms
  by (auto simp: run_mutation_def mutation_begin_def sample_clock_def Let_def
      split: sum.splits prod.splits outcome.splits if_splits) blast+

end
