(* ===== verification/Dependencies.thy ===== *)
theory Dependencies
  imports Mutation
begin

text \<open>
  Dependencies between tasks (\<^verbatim>\<open>server/src/coordination.rs\<close>): the recursive query behind
  \<open>dependency_cycles\<close> as a worklist, and \<open>set_dependencies\<close>. The worklist terminates because every
  visited task leaves the finite set of unvisited ones; it computes reachability; and a graph that
  was acyclic stays acyclic.
\<close>

section \<open>Operations\<close>

text \<open>The edges both recursive arms of \<open>ancestors\<close> follow: dependencies and objective children.\<close>

definition edges :: "db \<Rightarrow> (string \<times> string) list" where
  "edges d = map (\<lambda>e. (td_task e, td_prerequisite e)) (task_dependencies d)
           @ map (\<lambda>c. (oc_objective c, oc_child c)) (objective_children d)"

definition successors :: "('a \<times> 'a) list \<Rightarrow> 'a \<Rightarrow> 'a list" where
  "successors es x = map snd (filter (\<lambda>e. fst e = x) es)"

function ancestors :: "('a \<times> 'a) list \<Rightarrow> 'a list \<Rightarrow> 'a list \<Rightarrow> 'a list" where
  "ancestors es seen [] = seen"
| "ancestors es seen (x # todo) =
     (if x \<in> set seen then ancestors es seen todo
      else ancestors es (x # seen) (successors es x @ todo))"
  by pat_completeness auto

text \<open>What is left to visit; it shrinks whenever a task is visited.\<close>

definition unvisited :: "('a \<times> 'a) list \<Rightarrow> 'a list \<Rightarrow> 'a list \<Rightarrow> 'a set" where
  "unvisited es seen todo = (snd ` set es \<union> set todo) - set seen"

lemma successors_in: "set (successors es x) \<subseteq> snd ` set es"
  by (auto simp: successors_def)

lemma set_successors: "set (successors es x) = {y. (x, y) \<in> set es}"
  by (force simp: successors_def)

termination ancestors
proof (relation "measures [\<lambda>(es, seen, todo). card (unvisited es seen todo), \<lambda>(es, seen, todo). length todo]")
  show "wf (measures [\<lambda>(es, seen, todo). card (unvisited es seen todo), \<lambda>(es, seen, todo). length todo])"
    by (rule wf_measures)
next
  fix es :: "('a \<times> 'a) list" and seen todo :: "'a list" and x
  assume "x \<in> set seen"
  then have "unvisited es seen todo = unvisited es seen (x # todo)" by (auto simp: unvisited_def)
  then show "((es, seen, todo), (es, seen, x # todo))
      \<in> measures [\<lambda>(es, seen, todo). card (unvisited es seen todo), \<lambda>(es, seen, todo). length todo]"
    by simp
next
  fix es :: "('a \<times> 'a) list" and seen todo :: "'a list" and x
  assume "x \<notin> set seen"
  then have "unvisited es (x # seen) (successors es x @ todo) \<subset> unvisited es seen (x # todo)"
    using successors_in [of es x] by (auto simp: unvisited_def)
  then have "card (unvisited es (x # seen) (successors es x @ todo)) < card (unvisited es seen (x # todo))"
    by (rule psubset_card_mono [rotated]) (simp add: unvisited_def)
  then show "((es, x # seen, successors es x @ todo), (es, seen, x # todo))
      \<in> measures [\<lambda>(es, seen, todo). card (unvisited es seen todo), \<lambda>(es, seen, todo). length todo]"
    by simp
qed

definition dependency_cycles :: "db \<Rightarrow> string \<Rightarrow> string \<Rightarrow> bool" where
  "dependency_cycles d task prerequisite \<longleftrightarrow> task \<in> set (ancestors (edges d) [] [prerequisite])"

fun check_dependencies :: "db \<Rightarrow> string \<Rightarrow> string \<Rightarrow> string list \<Rightarrow> string list \<Rightarrow> unit res" where
  "check_dependencies d p i seen [] = Inr ()"
| "check_dependencies d p i seen (x # xs) =
     (if x = i \<or> x \<in> set seen then Inl bad_request
      else if count_where (\<lambda>t. tk_project t = p \<and> tk_id t = x) (tasks d) = 0 then Inl bad_request
      else if dependency_cycles d i x then Inl (conflict ''dependency_cycle'')
      else check_dependencies d p i (x # seen) xs)"

text \<open>The accepted prerequisites are distinct, so no insert meets the primary key.\<close>

definition replace_dependencies :: "string \<Rightarrow> string \<Rightarrow> string list \<Rightarrow> db \<Rightarrow> db" where
  "replace_dependencies p i deps d = d\<lparr>task_dependencies :=
     delete_where (\<lambda>e. td_task e = i) (task_dependencies d)
     @ map (\<lambda>x. \<lparr>td_project = p, td_task = i, td_prerequisite = x\<rparr>) deps\<rparr>"

definition set_dependencies :: "string \<Rightarrow> string \<Rightarrow> string list \<Rightarrow> db \<Rightarrow> db res" where
  "set_dependencies p i deps d =
     (if length deps > 100 then Inl bad_request
      else and_then (check_dependencies d p i [] deps) (\<lambda>_. Inr (replace_dependencies p i deps d)))"

section \<open>The worklist computes reachability\<close>

lemma ancestors_sound:
  "set (ancestors es seen todo) \<subseteq> set seen \<union> (set es)\<^sup>* `` set todo"
proof (induction es seen todo rule: ancestors.induct)
  case (2 es seen x todo)
  show ?case
  proof (cases "x \<in> set seen")
    case False
    have "(set es)\<^sup>* `` set (successors es x) \<subseteq> (set es)\<^sup>* `` {x}"
      by (auto simp: set_successors intro: converse_rtrancl_into_rtrancl)
    with 2(2) [OF False] False show ?thesis by (auto simp: Image_Un)
  qed (use 2(1) in auto)
qed simp

lemma ancestors_complete:
  assumes "\<And>a b. a \<in> set seen \<Longrightarrow> (a, b) \<in> set es \<Longrightarrow> b \<in> set seen \<union> set todo"
  shows "set seen \<union> set todo \<subseteq> set (ancestors es seen todo)
    \<and> (\<forall>a b. a \<in> set (ancestors es seen todo) \<longrightarrow> (a, b) \<in> set es \<longrightarrow> b \<in> set (ancestors es seen todo))"
  using assms
proof (induction es seen todo rule: ancestors.induct)
  case (1 es seen)
  then show ?case by auto
next
  case (2 es seen x todo)
  show ?case
  proof (cases "x \<in> set seen")
    case True
    with 2(1) [OF True] 2(3) show ?thesis by auto
  next
    case False
    have "set (x # seen) \<union> set (successors es x @ todo) \<subseteq> set (ancestors es (x # seen) (successors es x @ todo))
      \<and> (\<forall>a b. a \<in> set (ancestors es (x # seen) (successors es x @ todo)) \<longrightarrow> (a, b) \<in> set es
           \<longrightarrow> b \<in> set (ancestors es (x # seen) (successors es x @ todo)))"
      by (rule 2(2) [OF False]) (use 2(3) in \<open>auto simp: set_successors\<close>)
    with False show ?thesis by auto
  qed
qed

lemma ancestors_reachable: "set (ancestors es [] [p]) = {y. (p, y) \<in> (set es)\<^sup>*}"
proof
  show "set (ancestors es [] [p]) \<subseteq> {y. (p, y) \<in> (set es)\<^sup>*}"
    using ancestors_sound [of es "[]" "[p]"] by auto
next
  have c: "p \<in> set (ancestors es [] [p])"
    "\<And>a b. a \<in> set (ancestors es [] [p]) \<Longrightarrow> (a, b) \<in> set es \<Longrightarrow> b \<in> set (ancestors es [] [p])"
    using ancestors_complete [of "[]" es "[p]"] by auto
  have "(p, y) \<in> (set es)\<^sup>* \<Longrightarrow> y \<in> set (ancestors es [] [p])" for y
    by (induction rule: rtrancl_induct) (use c in blast)+
  then show "{y. (p, y) \<in> (set es)\<^sup>*} \<subseteq> set (ancestors es [] [p])" by blast
qed

lemma dependency_cycles_reach:
  "dependency_cycles d task prerequisite \<longleftrightarrow> (prerequisite, task) \<in> (set (edges d))\<^sup>*"
  by (simp only: dependency_cycles_def ancestors_reachable mem_Collect_eq)

section \<open>The recursion of the query\<close>

text \<open>
  One round of the recursive query, as the database runs it: a row is taken from the queue, dropped when
  the result has it (\<open>UNION\<close>), and joined with the edges otherwise.
\<close>

fun query_step :: "('a \<times> 'a) list \<Rightarrow> 'a list \<times> 'a list \<Rightarrow> 'a list \<times> 'a list" where
  "query_step es (seen, []) = (seen, [])"
| "query_step es (seen, x # todo) =
     (if x \<in> set seen then (seen, todo) else (x # seen, successors es x @ todo))"

definition pending :: "('a \<times> 'a) list \<Rightarrow> 'a list \<Rightarrow> nat" where
  "pending es seen = length (filter (\<lambda>e. fst e \<notin> set seen) es)"

lemma pending_visit: "x \<notin> set seen \<Longrightarrow> pending es (x # seen) + length (successors es x) = pending es seen"
  by (induction es) (auto simp: pending_def successors_def)

lemma query_steps:
  "\<exists>n \<le> length todo + pending es seen. (query_step es ^^ n) (seen, todo) = (ancestors es seen todo, [])"
proof (induction es seen todo rule: ancestors.induct)
  case (1 es seen)
  then show ?case by (intro exI [of _ 0]) simp
next
  case (2 es seen x todo)
  define next_round where "next_round = query_step es (seen, x # todo)"
  have "\<exists>n. Suc n \<le> length (x # todo) + pending es seen
      \<and> (query_step es ^^ n) next_round = (ancestors es seen (x # todo), [])"
  proof (cases "x \<in> set seen")
    case True
    with 2(1) [OF True] show ?thesis by (auto simp: next_round_def)
  next
    case False
    with 2(2) [OF False] obtain n where "n \<le> length (successors es x @ todo) + pending es (x # seen)"
      "(query_step es ^^ n) (x # seen, successors es x @ todo) = (ancestors es (x # seen) (successors es x @ todo), [])"
      by blast
    with False pending_visit [OF False, of es] show ?thesis by (intro exI [of _ n]) (simp add: next_round_def)
  qed
  then obtain n where "Suc n \<le> length (x # todo) + pending es seen"
    "(query_step es ^^ n) next_round = (ancestors es seen (x # todo), [])" by blast
  moreover have "(query_step es ^^ Suc n) (seen, x # todo) = (query_step es ^^ n) next_round"
    unfolding next_round_def by (simp only: funpow_Suc_right o_apply)
  ultimately show ?case by (intro exI [of _ "Suc n"]) simp
qed

section \<open>Acyclic graphs stay acyclic\<close>

lemma star_unreached:
  assumes "(x, y) \<in> (R \<union> {a} \<times> X)\<^sup>*" and "(x, a) \<notin> R\<^sup>*"
  shows "(x, y) \<in> R\<^sup>*"
  using assms(1)
proof (induction rule: rtrancl_induct)
  case (step y z)
  then show ?case using assms(2) by (auto intro: rtrancl_into_rtrancl)
qed simp

lemma acyclic_fan:
  assumes "acyclic R" and "\<And>x. x \<in> set xs \<Longrightarrow> (x, a) \<notin> R\<^sup>*"
  shows "acyclic (R \<union> {a} \<times> set xs)"
  using assms(2)
proof (induction xs)
  case Nil
  with assms(1) show ?case by simp
next
  case (Cons x xs)
  have "(x, a) \<notin> (R \<union> {a} \<times> set xs)\<^sup>*"
    using star_unreached [of x a R a "set xs"] Cons.prems [of x] by auto
  moreover have "R \<union> {a} \<times> set (x # xs) = insert (a, x) (R \<union> {a} \<times> set xs)" by auto
  ultimately show ?case using Cons by (simp only: acyclic_insert) simp
qed

lemma check_dependencies_Inr:
  assumes "check_dependencies d p i seen xs = Inr u"
  shows "distinct xs \<and> set xs \<inter> set seen = {} \<and> (\<forall>x \<in> set xs. x \<noteq> i \<and> (x, i) \<notin> (set (edges d))\<^sup>*
      \<and> (\<exists>t \<in> set (tasks d). tk_project t = p \<and> tk_id t = x))"
  using assms
proof (induction xs arbitrary: seen)
  case (Cons x xs)
  then have ok: "check_dependencies d p i (x # seen) xs = Inr u" "x \<noteq> i" "x \<notin> set seen"
    "(x, i) \<notin> (set (edges d))\<^sup>*" "\<exists>t \<in> set (tasks d). tk_project t = p \<and> tk_id t = x"
    by (auto simp: dependency_cycles_reach table_simps split: if_splits)
  from Cons.IH [OF ok(1)] ok(2-) show ?case by auto
qed simp

lemma edges_replace:
  "set (edges (replace_dependencies p i deps d)) \<subseteq> set (edges d) \<union> {i} \<times> set deps"
  by (auto simp: edges_def replace_dependencies_def)

lemma set_dependencies_Inr:
  assumes "set_dependencies p i deps d = Inr d'"
  shows "d' = replace_dependencies p i deps d" "length deps \<le> 100"
    "check_dependencies d p i [] deps = Inr ()"
  using assms by (auto simp: set_dependencies_def split: if_splits)

lemma set_dependencies_acyclic:
  assumes "set_dependencies p i deps d = Inr d'" and "acyclic (set (edges d))"
  shows "acyclic (set (edges d'))"
proof -
  have "acyclic (set (edges d) \<union> {i} \<times> set deps)"
    by (rule acyclic_fan [OF assms(2)])
       (use check_dependencies_Inr [OF set_dependencies_Inr(3) [OF assms(1)]] in blast)
  then show ?thesis
    using edges_replace [of p i deps d] unfolding set_dependencies_Inr(1) [OF assms(1)]
    by (rule acyclic_subset)
qed

lemma set_dependencies_frame:
  assumes "set_dependencies p i deps d = Inr d'"
  shows "d' = d\<lparr>task_dependencies := task_dependencies d'\<rparr>"
  using set_dependencies_Inr(1) [OF assms] by (simp add: replace_dependencies_def)

end
