(* ===== verification/Admission.thy ===== *)
theory Admission
  imports Mutation
begin

text \<open>
  Admission control (\<^verbatim>\<open>server/src/admission.rs\<close>): where a task came from, which fix classes an
  agent may claim and on which evidence, and the weekly budget of agent-created tasks per project.
  The laws say which instant \<open>week_start\<close> is, when a task is held, and that recording an
  admission keeps every week of every project within the budget.
\<close>

record config =
  cf_weekly_budget :: int
  cf_canary_principals :: "string list"
  cf_fix_class_principals :: "string list"

record admission_evidence =
  ae_result :: "string option"
  ae_check_name :: "string option"
  ae_report :: "string option"

definition DEFAULT_WEEKLY_BUDGET :: int where "DEFAULT_WEEKLY_BUDGET = 14"
definition MAX_WEEKLY_BUDGET :: int where "MAX_WEEKLY_BUDGET = 10000"

definition CLASSES :: "string list" where
  "CLASSES = [''revert'', ''fix_target'', ''deflake'', ''refusal_fix'']"

definition CANARY_CLASS :: string where "CANARY_CLASS = ''canary''"

definition week_ms :: int where "week_ms = 7 * day_ms"

definition of_principal :: "principal_kind \<Rightarrow> origin" where
  "of_principal k = (if k = Agent then Origin_agent else Origin_human)"

text \<open>\<open>div_euclid\<close> and \<open>rem_euclid\<close> by a positive divisor are \<open>div\<close> and \<open>mod\<close>.\<close>

definition week_start :: "int \<Rightarrow> int" where
  "week_start now = (let days = now div day_ms in (days - (days + 3) mod 7) * day_ms)"

definition validate_class :: "string option \<Rightarrow> unit res" where
  "validate_class c =
     (case c of
        Some k \<Rightarrow> if k \<noteq> CANARY_CLASS \<and> k \<notin> set CLASSES then Inl bad_request else Inr ()
      | None \<Rightarrow> Inr ())"

definition landed_dispositions :: "string list" where
  "landed_dispositions = [''published'', ''already_contained'', ''published_after_reopen'']"

definition passed_conclusions :: "string list" where
  "passed_conclusions = [''success'', ''neutral'', ''skipped'']"

definition evidence_count :: "db \<Rightarrow> string \<Rightarrow> string \<Rightarrow> admission_evidence \<Rightarrow> int" where
  "evidence_count d p class ev =
     (case (ae_result ev, ae_check_name ev, ae_report ev) of
        (Some r, check, None) \<Rightarrow>
          if class = ''revert'' \<and> check = None then
            count_where (\<lambda>x. ig_id x = r \<and> ig_project x = p \<and>
              exists_where (\<lambda>ob. io_result ob = ig_id x \<and> io_disposition ob \<in> set landed_dispositions)
                (integrator_observations d)) (integrator_results d)
          else if class = ''fix_target'' then
            count_where (\<lambda>x. ig_id x = r \<and> ig_project x = p \<and>
              exists_where (\<lambda>f. ic_result f = ig_id x \<and> ic_conclusion f \<notin> set passed_conclusions
                \<and> is_none_or check (\<lambda>n. ic_check_name f = n)) (integrator_receipts d)) (integrator_results d)
          else 0
      | (None, None, Some rep) \<Rightarrow>
          if class = ''fix_target'' \<or> class = ''deflake'' then
            count_where (\<lambda>x. ip_id x = rep \<and> ip_project x = p
              \<and> ip_kind x = (if class = ''deflake'' then ''flaky'' else ''fix_target'')) (integrator_reports d)
          else 0
      | _ \<Rightarrow> 0)"

definition verify_evidence :: "db \<Rightarrow> string \<Rightarrow> string \<Rightarrow> admission_evidence option \<Rightarrow> unit res" where
  "verify_evidence d p class evidence =
     (case evidence of
        None \<Rightarrow> Inl forbidden
      | Some ev \<Rightarrow> if evidence_count d p class ev = 0 then Inl forbidden else Inr ())"

record admission =
  ad_origin :: origin
  ad_class :: "string option"
  ad_exempt :: bool
  ad_held :: bool
  ad_consumed :: bool
  ad_admitted_this_week :: int
  ad_limit :: int
  ad_week_start :: int

definition admission_lifecycle :: "admission \<Rightarrow> bool \<Rightarrow> lifecycle" where
  "admission_lifecycle a requested_planned = (if requested_planned \<or> ad_held a then Planned else Open)"

fun origin_as_str :: "origin \<Rightarrow> string" where
  "origin_as_str Origin_human = ''human''"
| "origin_as_str Origin_agent = ''agent''"
| "origin_as_str Origin_service = ''service''"

text \<open>The \<open>admission\<close> object of the response; the prose \<open>reason\<close> of a held task is left out.\<close>

definition admission_value :: "admission \<Rightarrow> json" where
  "admission_value a = JObj
     ([(''origin'', JStr (origin_as_str (ad_origin a))),
       (''admission_class'', case ad_class a of Some c \<Rightarrow> JStr c
          | None \<Rightarrow> if ad_exempt a then JStr CANARY_CLASS else JNull),
       (''held'', JBool (ad_held a)),
       (''weekly_budget'', JObj [(''limit'', JInt (ad_limit a)),
          (''admitted_this_week'', JInt (ad_admitted_this_week a)),
          (''week_start'', JTime (ad_week_start a))])])"

definition admitted_at :: "string \<Rightarrow> int \<Rightarrow> task \<Rightarrow> bool" where
  "admitted_at p start t \<longleftrightarrow> tk_project t = p
     \<and> is_some_and (tk_budget_admitted_at t) (\<lambda>x. x \<ge> start \<and> x < start + week_ms)"

definition admitted_in_week :: "db \<Rightarrow> string \<Rightarrow> int \<Rightarrow> int" where
  "admitted_in_week d p start = count_where (admitted_at p start) (tasks d)"

definition admit :: "config \<Rightarrow> mutation \<Rightarrow> db \<Rightarrow> string \<Rightarrow> bool \<Rightarrow> string option \<Rightarrow>
    admission_evidence option \<Rightarrow> admission res" where
  "admit cfg m d p requested_planned class evidence =
     (let limit = cf_weekly_budget cfg;
          orig = of_principal (ac_kind (m_actor m));
          exempt = (class = Some CANARY_CLASS) in
      if exempt \<and> \<not> (orig = Origin_agent \<and> ac_name (m_actor m) \<in> set (cf_canary_principals cfg))
      then Inl forbidden
      else (let class = (if exempt then None else class) in
        and_then (case class of
            Some c \<Rightarrow> if orig = Origin_agent \<and> ac_name (m_actor m) \<notin> set (cf_fix_class_principals cfg)
                      then verify_evidence d p c evidence else Inr ()
          | None \<Rightarrow> Inr ()) (\<lambda>_.
        let start = week_start (m_now m);
            budgeted = (orig = Origin_agent \<and> class = None \<and> \<not> exempt);
            admitted = (if budgeted then admitted_in_week d p start else 0);
            within = admitted < limit in
        Inr \<lparr>ad_origin = orig, ad_class = class, ad_exempt = exempt,
             ad_held = (budgeted \<and> \<not> requested_planned \<and> \<not> within),
             ad_consumed = (budgeted \<and> \<not> requested_planned \<and> within),
             ad_admitted_this_week = admitted + (if budgeted \<and> \<not> requested_planned \<and> within then 1 else 0),
             ad_limit = limit, ad_week_start = start\<rparr>)))"

definition record_admission :: "mutation \<Rightarrow> string \<Rightarrow> admission \<Rightarrow> db \<Rightarrow> db" where
  "record_admission m i a d = d\<lparr>tasks := update_where (\<lambda>t. tk_id t = i)
     (\<lambda>t. t\<lparr>tk_origin := ad_origin a, tk_admission_class := ad_class a,
            tk_budget_exempt := (if ad_exempt a then Some CANARY_CLASS else None),
            tk_budget_admitted_at := (if ad_consumed a then Some (m_now m) else None),
            tk_budget_held_at := (if ad_held a then Some (m_now m) else None)\<rparr>) (tasks d)\<rparr>"

definition record_service :: "string \<Rightarrow> string option \<Rightarrow> db \<Rightarrow> db" where
  "record_service i class d = d\<lparr>tasks := update_where (\<lambda>t. tk_id t = i)
     (\<lambda>t. t\<lparr>tk_origin := Origin_service, tk_admission_class := class\<rparr>) (tasks d)\<rparr>"

section \<open>The week\<close>

text \<open>A UTC Monday 00:00: day 0 of the epoch is a Thursday, so Mondays are the days 4 mod 7.\<close>

definition is_monday :: "int \<Rightarrow> bool" where
  "is_monday x \<longleftrightarrow> x mod week_ms = 4 * day_ms"

lemma week_start_eq:
  "week_start now = (now div day_ms - (now div day_ms + 3) mod 7) * day_ms"
  by (simp add: week_start_def Let_def)

lemma week_start_holds: "week_start now \<le> now \<and> now < week_start now + week_ms"
proof -
  define n where "n = now div day_ms"
  define r where "r = (n + 3) mod 7"
  have r: "0 \<le> r" "r < 7" by (simp_all add: r_def)
  have "n * day_ms \<le> now" "now < n * day_ms + day_ms"
    using div_mult_mod_eq [of now day_ms] pos_mod_bound [of day_ms now] pos_mod_sign [of day_ms now]
    by (simp_all add: day_ms_def n_def)
  moreover have "week_start now = (n - r) * day_ms" by (simp add: week_start_eq n_def r_def)
  ultimately show ?thesis using r by (simp add: week_ms_def day_ms_def)
qed

lemma week_start_monday: "is_monday (week_start now)"
proof -
  define n where "n = now div day_ms"
  define q where "q = (n + 3) div 7"
  have "n - (n + 3) mod 7 = 7 * q - 3"
    using div_mult_mod_eq [of "n + 3" 7] unfolding q_def by linarith
  then have "week_start now = (7 * q - 3) * day_ms" by (simp add: week_start_eq n_def)
  then have "week_start now = 4 * day_ms + (q - 1) * week_ms" by (simp add: week_ms_def day_ms_def)
  then show ?thesis
    by (simp only: is_monday_def mod_mult_self1) (simp add: week_ms_def day_ms_def)
qed

lemma mondays_apart:
  assumes "is_monday a" and "is_monday b" and "a \<le> x" and "x < a + week_ms" and "b \<le> x" and "x < b + week_ms"
  shows "a = b"
proof -
  have "a = a div week_ms * week_ms + 4 * day_ms" "b = b div week_ms * week_ms + 4 * day_ms"
    using assms(1,2) div_mult_mod_eq [of a week_ms] div_mult_mod_eq [of b week_ms]
    by (simp_all add: is_monday_def)
  moreover have "\<bar>a - b\<bar> < week_ms" using assms(3-6) by linarith
  ultimately have "\<bar>(a div week_ms - b div week_ms) * week_ms\<bar> < week_ms"
    by (simp add: left_diff_distrib)
  then have "a div week_ms = b div week_ms"
    by (simp add: week_ms_def day_ms_def)
  then show ?thesis using assms(1,2) div_mult_mod_eq [of a week_ms] div_mult_mod_eq [of b week_ms]
    by (simp add: is_monday_def)
qed

section \<open>Admission\<close>

lemma admit_Inr:
  assumes "admit cfg m d p planned class evidence = Inr a"
  shows "ad_limit a = cf_weekly_budget cfg" "ad_week_start a = week_start (m_now m)"
    "ad_consumed a \<Longrightarrow> admitted_in_week d p (week_start (m_now m)) < cf_weekly_budget cfg"
    "ad_held a \<Longrightarrow> admitted_in_week d p (week_start (m_now m)) \<ge> cf_weekly_budget cfg"
    "ad_held a \<or> ad_consumed a \<longleftrightarrow> ac_kind (m_actor m) = Agent \<and> class = None \<and> \<not> planned"
    "\<not> (ad_held a \<and> ad_consumed a)"
  using assms by (auto simp: admit_def Let_def of_principal_def split: if_splits option.splits)

lemma evidence_count_nonneg: "0 \<le> evidence_count d p class ev"
  by (auto simp: evidence_count_def split: option.splits)

text \<open>A fix class of an undesignated agent always names a record of the service.\<close>

lemma admit_class_backed:
  assumes "admit cfg m d p planned (Some c) evidence = Inr a" and "c \<noteq> CANARY_CLASS"
    and "ac_kind (m_actor m) = Agent" and "ac_name (m_actor m) \<notin> set (cf_fix_class_principals cfg)"
  shows "\<exists>ev. evidence = Some ev \<and> evidence_count d p c ev > 0"
proof -
  from assms have "verify_evidence d p c evidence = Inr ()"
    by (auto simp: admit_def Let_def of_principal_def split: if_splits)
  then show ?thesis
    using evidence_count_nonneg
    by (fastforce simp: verify_evidence_def less_le split: option.splits if_splits)
qed

lemma refusal_fix_unbacked: "evidence_count d p ''refusal_fix'' ev = 0"
  by (auto simp: evidence_count_def split: option.splits)

section \<open>The budget invariant\<close>

definition within_budget :: "int \<Rightarrow> db \<Rightarrow> bool" where
  "within_budget limit d \<longleftrightarrow> (\<forall>p start. is_monday start \<longrightarrow> admitted_in_week d p start \<le> limit)"

text \<open>What of a task the budget reads.\<close>

definition budget_key :: "task \<Rightarrow> string \<times> int option" where
  "budget_key t = (tk_project t, tk_budget_admitted_at t)"

lemma admitted_in_week_map:
  "admitted_in_week d p start = count_where (\<lambda>k. fst k = p \<and> is_some_and (snd k)
      (\<lambda>x. x \<ge> start \<and> x < start + week_ms)) (map budget_key (tasks d))"
  by (simp add: admitted_in_week_def count_where_def admitted_at_def [abs_def] budget_key_def filter_map o_def)

lemma within_budget_frame:
  assumes "within_budget limit d" and "map budget_key (tasks d') = map budget_key (tasks d)"
  shows "within_budget limit d'"
  using assms by (simp add: within_budget_def admitted_in_week_map)

text \<open>New tasks without an admission leave the budget alone.\<close>

definition budget_kept :: "db \<Rightarrow> db \<Rightarrow> bool" where
  "budget_kept d d' \<longleftrightarrow> (\<exists>ks. map budget_key (tasks d') = map budget_key (tasks d) @ ks \<and> (\<forall>k \<in> set ks. snd k = None))"

lemma budget_kept_same: "map budget_key (tasks d') = map budget_key (tasks d) \<Longrightarrow> budget_kept d d'"
  unfolding budget_kept_def by (intro exI [of _ "[]"]) simp

lemma budget_kept_refl [simp]: "budget_kept d d"
  by (simp add: budget_kept_same)

lemma budget_kept_trans: "budget_kept a b \<Longrightarrow> budget_kept b c \<Longrightarrow> budget_kept a c"
  unfolding budget_kept_def by (elim exE conjE) (rule_tac x = "ks @ ksa" in exI, auto)

lemma within_budget_kept:
  assumes "within_budget limit d" and "budget_kept d d'"
  shows "within_budget limit d'"
proof -
  from assms(2) obtain ks where ks: "map budget_key (tasks d') = map budget_key (tasks d) @ ks" "\<forall>k \<in> set ks. snd k = None"
    by (auto simp: budget_kept_def)
  have "admitted_in_week d' q start = admitted_in_week d q start" for q start
    using ks(2) by (simp only: admitted_in_week_map ks(1)) (simp add: count_where_def filter_empty_conv)
  with assms(1) show ?thesis by (simp add: within_budget_def)
qed

lemma within_budget_insert:
  assumes inv: "within_budget limit d"
    and new: "map budget_key (tasks d') = map budget_key (tasks d) @ [(p, at)]"
    and room: "\<And>x. at = Some x \<Longrightarrow> admitted_in_week d p (week_start x) < limit"
  shows "within_budget limit d'"
  unfolding within_budget_def
proof (intro allI impI)
  fix q start assume mon: "is_monday start"
  let ?Q = "\<lambda>k :: string \<times> int option. fst k = q \<and> is_some_and (snd k) (\<lambda>x. x \<ge> start \<and> x < start + week_ms)"
  have split: "admitted_in_week d' q start = admitted_in_week d q start + (if ?Q (p, at) then 1 else 0)"
    by (simp only: admitted_in_week_map new) (simp add: count_where_def)
  show "admitted_in_week d' q start \<le> limit"
  proof (cases "?Q (p, at)")
    case True
    then obtain x where x: "at = Some x" "start \<le> x" "x < start + week_ms" and q: "q = p"
      by (cases at) auto
    have "start = week_start x"
      using mondays_apart [OF mon week_start_monday [of x]] x(2,3) week_start_holds [of x] by simp
    with room [OF x(1)] split True q show ?thesis by simp
  next
    case False
    with split have "admitted_in_week d' q start = admitted_in_week d q start" by presburger
    with inv mon show ?thesis by (simp add: within_budget_def)
  qed
qed

end
