(* ===== verification/Independence.thy ===== *)
theory Independence
  imports Mutation
begin

text \<open>
  Who may judge whose work (\<^verbatim>\<open>server/src/workflow.rs\<close>, \<^verbatim>\<open>revert_rules.rs\<close>, \<^verbatim>\<open>reverts.rs\<close>): recorded
  contributors, the launch a session belongs to (the root of its \<open>parent_session_id\<close> chain, walked
  at most \<open>LAUNCH_WALK_CAP\<close> steps), and the checks a reviewer or an agent that cancels a revert
  must pass. The recursive queries are walks along the parent links; the laws relate them to the
  parent relation and show that an unresolved launch is refused.
\<close>

definition LAUNCH_WALK_CAP :: nat where "LAUNCH_WALK_CAP = 64"

section \<open>Contributors\<close>

definition reviewing_identity :: "db \<Rightarrow> string \<Rightarrow> string \<Rightarrow> string \<Rightarrow> string option" where
  "reviewing_identity d p who session =
     (case fetch (\<lambda>s. as_id s = session \<and> as_principal s = who) (agent_sessions d) of
        None \<Rightarrow> None
      | Some s \<Rightarrow> (case as_subagent_identity s of
          None \<Rightarrow> None
        | Some i \<Rightarrow>
            if exists_where (\<lambda>x. si_id x = i \<and> si_project x = p) (subagent_identities d)
               \<and> exists_where (\<lambda>x. pj_id x = p \<and> pj_allow_subagent_reviews x) (projects d)
            then Some i else None))"

definition contributed :: "db \<Rightarrow> string \<Rightarrow> string \<Rightarrow> string \<Rightarrow> string \<Rightarrow> bool" where
  "contributed d p task who session \<longleftrightarrow>
     (case reviewing_identity d p who session of
        Some i \<Rightarrow> count_where (\<lambda>c. tc_task c = task
          \<and> (exists_where (\<lambda>s. as_id s = tc_session c \<and> as_subagent_identity s = Some i) (agent_sessions d)
             \<or> tc_session c = session)) (contributors d) > 0
      | None \<Rightarrow> count_where (\<lambda>c. tc_task c = task \<and> (tc_principal c = who \<or> tc_session c = session))
          (contributors d) > 0)"

definition stacked_contributor_tasks :: "db \<Rightarrow> string \<Rightarrow> string list" where
  "stacked_contributor_tasks d task =
     remdups (concat (map (\<lambda>r.
       if exists_where (\<lambda>w. ws_current_submission w = ig_submission r \<and> ws_task w = task) (workflow_subjects d)
       then unwrap_or (ig_contributor_tasks r) [] else []) (integrator_results d)))"

definition independent_reviewer_tasks :: "db \<Rightarrow> string \<Rightarrow> string \<Rightarrow> string \<Rightarrow> string \<Rightarrow> string list res" where
  "independent_reviewer_tasks d p task who session =
     (let candidates = stacked_contributor_tasks d task @ [task] in
      and_then (check_all (\<lambda>t. if contributed d p t who session
         then Inl (conflict ''reviewer_not_independent'') else Inr ()) candidates) (\<lambda>_. Inr candidates))"

section \<open>Launches\<close>

text \<open>
  The rows of the recursive table \<open>up\<close> from one start row: each row is the session, its
  recorded parent and the number of steps still allowed (\<open>depth\<close> counts up to the cap where
  this counts down to zero).
\<close>

fun up :: "db \<Rightarrow> nat \<Rightarrow> string \<Rightarrow> string option \<Rightarrow> (string \<times> string option \<times> nat) list" where
  "up d n i par = (i, par, n) #
     (case (n, par) of
        (Suc k, Some q) \<Rightarrow>
          (case fetch (\<lambda>s. as_id s = q) (agent_sessions d) of
             None \<Rightarrow> []
           | Some s \<Rightarrow> up d k (as_id s) (as_parent_session s))
      | _ \<Rightarrow> [])"

declare up.simps [simp del]

definition launch_root :: "db \<Rightarrow> string \<Rightarrow> string option" where
  "launch_root d session =
     (case fetch (\<lambda>s. as_id s = session) (agent_sessions d) of
        None \<Rightarrow> Some session
      | Some s \<Rightarrow>
          (case last (up d LAUNCH_WALK_CAP (as_id s) (as_parent_session s)) of
             (root, None, _) \<Rightarrow> Some root
           | (_, Some _, _) \<Rightarrow> None))"

definition parent_of :: "db \<Rightarrow> string \<Rightarrow> string option" where
  "parent_of d i = (case fetch (\<lambda>s. as_id s = i) (agent_sessions d) of
     None \<Rightarrow> None | Some s \<Rightarrow> as_parent_session s)"

definition launch_contributed :: "db \<Rightarrow> string \<Rightarrow> string \<Rightarrow> bool" where
  "launch_contributed d task launch \<longleftrightarrow>
     list_ex (\<lambda>c. tc_task c = task \<and>
       list_ex (\<lambda>(i, par, left). (par = None \<and> i = launch) \<or> (left = 0 \<and> par \<noteq> None))
         (up d LAUNCH_WALK_CAP (tc_session c) (parent_of d (tc_session c)))) (contributors d)"

definition launch_shared :: "db \<Rightarrow> string list \<Rightarrow> string \<Rightarrow> bool" where
  "launch_shared d ts session \<longleftrightarrow>
     (case launch_root d session of
        None \<Rightarrow> True
      | Some launch \<Rightarrow> list_ex (\<lambda>t. launch_contributed d t launch) ts)"

definition shares_launch :: "db \<Rightarrow> string \<Rightarrow> string \<Rightarrow> bool" where
  "shares_launch d task session \<longleftrightarrow> launch_shared d [task] session"

definition ensure_distinct_launch :: "db \<Rightarrow> string list \<Rightarrow> string \<Rightarrow> unit res" where
  "ensure_distinct_launch d ts session =
     (if launch_shared d ts session then Inl (conflict ''reviewer_shares_launch'') else Inr ())"

definition ensure_independent_reviewer ::
  "db \<Rightarrow> string \<Rightarrow> string \<Rightarrow> string \<Rightarrow> string \<Rightarrow> string option \<Rightarrow> unit res" where
  "ensure_independent_reviewer d p task who session independence =
     and_then (independent_reviewer_tasks d p task who session) (\<lambda>ts.
       if independence = Some ''distinct_launch'' then ensure_distinct_launch d ts session else Inr ())"

definition valid_independence :: "string option \<Rightarrow> unit res" where
  "valid_independence i =
     (case i of
        Some v \<Rightarrow> if v \<in> set [''distinct_launch'', ''distinct_host'', ''distinct_vendor'']
                  then Inr () else Inl bad_request
      | None \<Rightarrow> Inr ())"

section \<open>Leaving a revert\<close>

text \<open>\<open>reverted_tasks\<close>: the union of three queries, as a set of task ids without order.\<close>

definition result_of :: "db \<Rightarrow> task_revert \<Rightarrow> integrator_result list" where
  "result_of d tr = rows (\<lambda>r. ig_id r = tr_result tr) (integrator_results d)"

definition touches_range :: "db \<Rightarrow> integrator_result \<Rightarrow> submission \<Rightarrow> bool" where
  "touches_range d r s \<longleftrightarrow> sb_id s = ig_submission r
     \<or> is_some_and (sb_candidate_revision s) (\<lambda>c. c \<in> set (ig_landing_range r))
     \<or> exists_where (\<lambda>x. ig_project x = sb_project s \<and> ig_submission x = sb_id s
          \<and> list_ex (\<lambda>c. c \<in> set (ig_landing_range r)) (ig_landing_range x)) (integrator_results d)"

definition reverted_tasks :: "db \<Rightarrow> string \<Rightarrow> string \<Rightarrow> string list" where
  "reverted_tasks d p task =
     (let trs = rows (\<lambda>tr. tr_project tr = p \<and> tr_task tr = task) (task_reverts d) in
      remdups (map tr_original_task trs
        @ concat (map (\<lambda>tr. concat (map (\<lambda>r. map sb_task
             (rows (\<lambda>s. sb_project s = tr_project tr \<and> touches_range d r s) (submissions d))) (result_of d tr))) trs)
        @ concat (map (\<lambda>tr. concat (map (\<lambda>r. unwrap_or (ig_contributor_tasks r) []) (result_of d tr))) trs)))"

definition ensure_independent_revert_exit :: "db \<Rightarrow> actor \<Rightarrow> string \<Rightarrow> string \<Rightarrow> string \<Rightarrow> unit res" where
  "ensure_independent_revert_exit d a p task action =
     (if ac_kind a = Human \<or> (action \<noteq> ''cancel'' \<and> action \<noteq> ''archive'') then Inr ()
      else (let session = unwrap_or (ac_session a) [] in
        check_all (\<lambda>t. if contributed d p t (ac_id a) session \<or> shares_launch d t session
           then Inl (conflict ''revert_author_conflict'') else Inr ()) (reverted_tasks d p task)))"

definition open_task :: "task \<Rightarrow> bool" where
  "open_task t \<longleftrightarrow> (tk_lifecycle t = Planned \<or> tk_lifecycle t = Open) \<and> tk_archived_at t = None"

definition ensure_restorable :: "db \<Rightarrow> string \<Rightarrow> unit res" where
  "ensure_restorable d task =
     (if exists_where (\<lambda>tr. tr_task tr = task \<and>
           exists_where (\<lambda>ot. tr_result ot = tr_result tr \<and> tr_task ot \<noteq> tr_task tr \<and>
             exists_where (\<lambda>t. tk_id t = tr_task ot \<and> open_task t) (tasks d)) (task_reverts d)) (task_reverts d)
      then Inl (conflict ''revert_exists'') else Inr ())"

section \<open>Laws of the launch walk\<close>

text \<open>The recorded parent links; a parent is a registered session (a foreign key).\<close>

definition parent_rel :: "db \<Rightarrow> (string \<times> string) set" where
  "parent_rel d = {(i, q). parent_of d i = Some q}"

definition parents_registered :: "db \<Rightarrow> bool" where
  "parents_registered d \<longleftrightarrow> (\<forall>s \<in> set (agent_sessions d). \<forall>q.
     as_parent_session s = Some q \<longrightarrow> (\<exists>r \<in> set (agent_sessions d). as_id r = q))"

lemma up_nonempty [simp]: "up d n i par \<noteq> []"
  by (subst up.simps) simp

lemma up_last_row:
  assumes "par = parent_of d i"
  shows "case last (up d n i par) of (r, q, k) \<Rightarrow> (i, r) \<in> (parent_rel d)\<^sup>* \<and> q = parent_of d r"
  using assms
proof (induction n arbitrary: i par)
  case 0
  then show ?case by (simp add: up.simps)
next
  case (Suc n)
  show ?case
  proof (cases par)
    case None
    with Suc.prems show ?thesis by (simp add: up.simps)
  next
    case (Some q)
    show ?thesis
    proof (cases "fetch (\<lambda>s. as_id s = q) (agent_sessions d)")
      case None
      with Some Suc.prems show ?thesis by (simp add: up.simps)
    next
      case (Some s)
      then have s: "as_id s = q" and ps: "as_parent_session s = parent_of d q"
        by (auto simp: parent_of_def dest: fetch_SomeD)
      have l: "last (up d (Suc n) i par) = last (up d n q (parent_of d q))"
        using \<open>par = Some q\<close> Some s ps by (subst up.simps) simp
      have "(i, q) \<in> parent_rel d" using \<open>par = Some q\<close> Suc.prems by (simp add: parent_rel_def)
      then show ?thesis
        unfolding l using Suc.IH [of "parent_of d q" q]
        by (auto split: prod.splits intro: converse_rtrancl_into_rtrancl)
    qed
  qed
qed

text \<open>A resolved launch is the root of the session's parent chain.\<close>

lemma launch_root_is_root:
  assumes "launch_root d s = Some r"
  shows "(s, r) \<in> (parent_rel d)\<^sup>*" "parent_of d r = None"
proof -
  have "(s, r) \<in> (parent_rel d)\<^sup>* \<and> parent_of d r = None"
  proof (cases "fetch (\<lambda>x. as_id x = s) (agent_sessions d)")
    case None
    with assms show ?thesis by (simp add: launch_root_def parent_of_def)
  next
    case (Some x)
    then have "as_id x = s" "as_parent_session x = parent_of d s"
      by (auto simp: parent_of_def dest: fetch_SomeD)
    with Some assms up_last_row [of "parent_of d s" d s LAUNCH_WALK_CAP] show ?thesis
      by (auto simp: launch_root_def split: prod.splits option.splits)
  qed
  then show "(s, r) \<in> (parent_rel d)\<^sup>*" "parent_of d r = None" by auto
qed

lemma parent_rel_root_unique:
  assumes "(s, r) \<in> (parent_rel d)\<^sup>*" and "(s, r') \<in> (parent_rel d)\<^sup>*"
    and "parent_of d r = None" and "parent_of d r' = None"
  shows "r = r'"
  using assms(1,2)
proof (induction rule: converse_rtrancl_induct)
  case base
  with assms(3) show ?case by (auto simp: parent_rel_def elim: converse_rtranclE)
next
  case (step y z)
  from step.prems step.hyps(1) assms(4) have "(z, r') \<in> (parent_rel d)\<^sup>*"
    by (auto simp: parent_rel_def elim: converse_rtranclE)
  then show ?case by (rule step.IH)
qed

text \<open>
  The walk from a session ends at a root or runs out of steps. A dangling parent would end it
  early, which the foreign key rules out.
\<close>

lemma up_exhausted_or_root:
  assumes reg: "parents_registered d" and par: "par = parent_of d i"
  shows "list_ex (\<lambda>(j, q, k). q = None \<or> (k = 0 \<and> q \<noteq> None)) (up d n i par)"
  using par
proof (induction n arbitrary: i par)
  case 0
  then show ?case by (cases "parent_of d i") (simp_all add: up.simps)
next
  case (Suc n)
  show ?case
  proof (cases par)
    case None
    then show ?thesis by (simp add: up.simps)
  next
    case (Some q)
    with Suc.prems obtain x where x: "x \<in> set (agent_sessions d)" "as_parent_session x = Some q"
      by (auto simp: parent_of_def split: option.splits dest: fetch_SomeD)
    with reg obtain r where "r \<in> set (agent_sessions d)" "as_id r = q"
      unfolding parents_registered_def by blast
    then obtain s where s: "fetch (\<lambda>s. as_id s = q) (agent_sessions d) = Some s"
      using fetch_exists [of r "agent_sessions d" "\<lambda>s. as_id s = q"] by blast
    then have "as_id s = q" "as_parent_session s = parent_of d q"
      by (auto simp: parent_of_def dest: fetch_SomeD)
    with Some s Suc.IH [of "parent_of d q" q] show ?thesis by (subst up.simps) simp
  qed
qed

lemma up_rows_reachable:
  assumes "par = parent_of d i" and "(j, q, k) \<in> set (up d n i par)"
  shows "(i, j) \<in> (parent_rel d)\<^sup>* \<and> q = parent_of d j"
  using assms
proof (induction n arbitrary: i par)
  case 0
  then show ?case by (simp add: up.simps)
next
  case (Suc n)
  show ?case
  proof (cases "(j, q, k) = (i, par, Suc n)")
    case True
    with Suc.prems(1) show ?thesis by simp
  next
    case False
    with Suc.prems obtain r s where r: "par = Some r"
      and s: "fetch (\<lambda>s. as_id s = r) (agent_sessions d) = Some s"
      and tl: "(j, q, k) \<in> set (up d n (as_id s) (as_parent_session s))"
      using up.simps [of d "Suc n" i par] by (fastforce split: option.splits)
    then have "as_id s = r" "as_parent_session s = parent_of d r"
      by (auto simp: parent_of_def dest: fetch_SomeD)
    with Suc.IH [of "parent_of d r" r] tl have "(r, j) \<in> (parent_rel d)\<^sup>* \<and> q = parent_of d j" by simp
    moreover have "(i, r) \<in> parent_rel d" using r Suc.prems(1) by (simp add: parent_rel_def)
    ultimately show ?thesis by (auto intro: converse_rtrancl_into_rtrancl)
  qed
qed

text \<open>A contributor session under the same root makes the launch shared, at any nesting depth.\<close>

lemma shared_root_detected:
  assumes reg: "parents_registered d"
    and c: "c \<in> set (contributors d)" "tc_task c \<in> set ts"
    and root: "(s, r) \<in> (parent_rel d)\<^sup>*" "(tc_session c, r) \<in> (parent_rel d)\<^sup>*" "parent_of d r = None"
  shows "launch_shared d ts s"
proof (cases "launch_root d s")
  case None
  then show ?thesis by (simp add: launch_shared_def)
next
  case (Some l)
  with launch_root_is_root [OF Some] root(1,3) have l: "l = r" by (metis parent_rel_root_unique)
  let ?u = "up d LAUNCH_WALK_CAP (tc_session c) (parent_of d (tc_session c))"
  from up_exhausted_or_root [OF reg refl, of LAUNCH_WALK_CAP "tc_session c"]
  obtain j q k where row: "(j, q, k) \<in> set ?u" "q = None \<or> (k = 0 \<and> q \<noteq> None)"
    by (auto simp: list_ex_iff)
  have "q = None \<Longrightarrow> j = r"
    using up_rows_reachable [OF refl row(1)] root(2,3) by (metis parent_rel_root_unique)
  then have "list_ex (\<lambda>(i, par, left). (par = None \<and> i = l) \<or> (left = 0 \<and> par \<noteq> None)) ?u"
    using row l by (auto simp: list_ex_iff)
  then have "launch_contributed d (tc_task c) l"
    using c(1) unfolding launch_contributed_def by (subst list_ex_iff) blast
  with Some c(2) show ?thesis by (auto simp: launch_shared_def list_ex_iff)
qed

lemma independent_reviewer_clean:
  assumes "ensure_independent_reviewer d p task who session ind = Inr ()"
  shows "\<not> contributed d p task who session"
    "t \<in> set (stacked_contributor_tasks d task) \<Longrightarrow> \<not> contributed d p t who session"
    "ind = Some ''distinct_launch'' \<Longrightarrow> \<not> launch_shared d (stacked_contributor_tasks d task @ [task]) session"
  using assms
  by (auto simp: ensure_independent_reviewer_def independent_reviewer_tasks_def ensure_distinct_launch_def
      Let_def split: if_splits)

end
