(* ===== verification/Task_Write.thy ===== *)
theory Task_Write
  imports Dependencies Admission Independence
begin

text \<open>
  What the task handlers share: the replay test, the keyed update of a task row, the stored task
  revision (\<open>save_task_revision\<close>) and the readiness stamp of dependents (\<open>workflow::ready_dependents\<close>),
  with the laws that let a handler's proof skip over them.
\<close>

definition replay_or :: "mutation \<Rightarrow> outcome res \<Rightarrow> outcome res" where
  "replay_or m body = (case m_replay m of Some v \<Rightarrow> Inr (Answered v) | None \<Rightarrow> body)"

definition update_task :: "string \<Rightarrow> (task \<Rightarrow> task) \<Rightarrow> db \<Rightarrow> db" where
  "update_task i f d = d\<lparr>tasks := update_where (\<lambda>t. tk_id t = i) f (tasks d)\<rparr>"

definition dependencies_of :: "db \<Rightarrow> string \<Rightarrow> string list" where
  "dependencies_of d i = sort (map td_prerequisite (rows (\<lambda>e. td_task e = i) (task_dependencies d)))"

definition same_revision :: "task_revision \<Rightarrow> task_revision \<Rightarrow> bool" where
  "same_revision a b \<longleftrightarrow> tn_task a = tn_task b \<and> tn_revision a = tn_revision b"

definition revision_value :: "task_view \<Rightarrow> int \<Rightarrow> string list \<Rightarrow> (string \<times> json) list" where
  "revision_value v now deps = [(''task'', task_value v now), (''depends_on'', JArr (map JStr deps))]"

definition save_task_revision :: "mutation \<Rightarrow> string \<Rightarrow> string \<Rightarrow> db \<Rightarrow> ((string \<times> json) list \<times> db) res" where
  "save_task_revision m p i d =
     and_then (task_get d p i (m_now m)) (\<lambda>v.
       let deps = dependencies_of d i in
       and_then (insert_unique unique_violation same_revision
           \<lparr>tn_project = p, tn_task = i, tn_revision = tk_revision (tv_task v), tn_data = Snapshot v deps,
            tn_repaired = False, tn_grant = None, tn_actor = ac_id (m_actor m), tn_created_at = m_now m\<rparr>
           (task_revisions d)) (\<lambda>rs.
         Inr (revision_value v (m_now m) deps, d\<lparr>task_revisions := rs\<rparr>)))"

definition ready_dependents :: "string \<Rightarrow> int \<Rightarrow> db \<Rightarrow> db" where
  "ready_dependents i now d =
     d\<lparr>tasks := update_where (\<lambda>t.
          exists_where (\<lambda>c. oc_child c = i \<and> oc_required c \<and> oc_objective c = tk_id t
             \<and> objective_children_ready d (oc_objective c)) (objective_children d))
        (\<lambda>t. t\<lparr>tk_ready_since := now\<rparr>)
        (update_where (\<lambda>t.
          exists_where (\<lambda>e. td_prerequisite e = i \<and> td_task e = tk_id t \<and> dependencies_ready d (td_task e))
            (task_dependencies d))
        (\<lambda>t. t\<lparr>tk_ready_since := now\<rparr>) (tasks d))\<rparr>"

section \<open>Laws\<close>

lemma replay_or_commit [simp]:
  "replay_or m b = Inr (Committed w d) \<longleftrightarrow> m_replay m = None \<and> b = Inr (Committed w d)"
  by (simp add: replay_or_def split: option.splits)

lemma replay_safeI:
  assumes "\<And>m w d. body m = Inr (Committed w d) \<Longrightarrow> m_replay m = None
      \<and> (\<exists>d0 ed p k r. receipts d0 = receipts (m_db m) \<and> prefix (events (m_db m)) (events d0)
            \<and> finish_with_event_data m d0 w ed p k r = Inr (Committed w d))"
  shows "replay_safe body"
  by unfold_locales (use assms in fastforce)+

lemma finish_committed [simp]:
  "finish_with_event_data m d data ed p k r = Inr (Committed w d') \<longleftrightarrow>
     w = data \<and> d' = d\<lparr>receipts := insert_row (receipt_of m data) (receipts d),
                       events := insert_row (event_of m ed p k r) (events d)\<rparr>
     \<and> (\<forall>s \<in> set (receipts d). \<not> receipt_matches (ac_id (m_actor m)) (m_operation m) (m_key m) s)"
  by (auto simp: finish_with_event_data_def)

lemma update_task_frame [simp]:
  "receipts (update_task i f d) = receipts d" "events (update_task i f d) = events d"
  "clock (update_task i f d) = clock d" "attempts (update_task i f d) = attempts d" "projects (update_task i f d) = projects d"
  "task_dependencies (update_task i f d) = task_dependencies d"
  "objective_children (update_task i f d) = objective_children d"
  "task_revisions (update_task i f d) = task_revisions d"
  "edges (update_task i f d) = edges d"
  "reservations (update_task i f d) = reservations d" "jobs (update_task i f d) = jobs d"
  "reservation_items (update_task i f d) = reservation_items d" "resources (update_task i f d) = resources d"
  by (simp_all add: update_task_def edges_def)

lemma tasks_update_task: "tasks (update_task i f d) = update_where (\<lambda>t. tk_id t = i) f (tasks d)"
  by (simp add: update_task_def)

lemma save_task_revision_Inr:
  assumes "save_task_revision m p i d = Inr (v, d')"
  shows "\<exists>rs. d' = d\<lparr>task_revisions := rs\<rparr>"
  using assms by (auto simp: save_task_revision_def Let_def)

lemma save_task_revision_frame:
  assumes "save_task_revision m p i d = Inr (v, d')"
  shows "receipts d' = receipts d" "events d' = events d" "tasks d' = tasks d" "attempts d' = attempts d"
    "projects d' = projects d" "edges d' = edges d" "reservations d' = reservations d"
    "reservation_items d' = reservation_items d" "resources d' = resources d" "jobs d' = jobs d"
    "task_dependencies d' = task_dependencies d" "checkpoints d' = checkpoints d"
  using save_task_revision_Inr [OF assms] by (auto simp: edges_def)

text \<open>A stored revision is the row the task view had, and the pair (task, revision) is new.\<close>

lemma save_task_revision_stores:
  assumes "save_task_revision m p i d = Inr (v, d')"
  shows "\<exists>view. task_get d p i (m_now m) = Inr view
    \<and> (\<forall>n \<in> set (task_revisions d). \<not> (tn_task n = i \<and> tn_revision n = tk_revision (tv_task view)))
    \<and> (\<exists>n. task_revisions d' = task_revisions d @ [n] \<and> tn_task n = i
         \<and> tn_revision n = tk_revision (tv_task view) \<and> tn_data n = Snapshot view (dependencies_of d i)
         \<and> tn_actor n = ac_id (m_actor m))"
  using assms by (fastforce simp: save_task_revision_def Let_def insert_row_def same_revision_def)

lemma ready_dependents_frame [simp]:
  "clock (ready_dependents i now d) = clock d" "receipts (ready_dependents i now d) = receipts d" "events (ready_dependents i now d) = events d"
  "attempts (ready_dependents i now d) = attempts d" "edges (ready_dependents i now d) = edges d"
  "projects (ready_dependents i now d) = projects d"
  "reservations (ready_dependents i now d) = reservations d"
  "reservation_items (ready_dependents i now d) = reservation_items d"
  "resources (ready_dependents i now d) = resources d"
  by (simp_all add: ready_dependents_def edges_def)

lemma ready_dependents_map:
  assumes "\<And>t. g (t\<lparr>tk_ready_since := now\<rparr>) = g t"
  shows "map g (tasks (ready_dependents i now d)) = map g (tasks d)"
  using assms by (simp add: ready_dependents_def map_update_stable)

lemma update_task_map:
  assumes "\<And>t. g (f t) = g t"
  shows "map g (tasks (update_task i f d)) = map g (tasks d)"
  using assms by (simp add: update_task_def map_update_stable)

lemma record_admission_frame [simp]:
  "clock (record_admission m i a d) = clock d" "receipts (record_admission m i a d) = receipts d" "events (record_admission m i a d) = events d"
  "attempts (record_admission m i a d) = attempts d" "edges (record_admission m i a d) = edges d"
  "projects (record_admission m i a d) = projects d"
  "objective_children (record_admission m i a d) = objective_children d"
  by (simp_all add: record_admission_def edges_def)

lemma set_dependencies_fields:
  assumes "set_dependencies p i deps d = Inr d'"
  shows "receipts d' = receipts d" "events d' = events d" "tasks d' = tasks d" "attempts d' = attempts d"
    "projects d' = projects d" "reservations d' = reservations d"
    "reservation_items d' = reservation_items d" "resources d' = resources d" "jobs d' = jobs d"
    "task_revisions d' = task_revisions d"
  by (subst set_dependencies_frame [OF assms], simp)+

section \<open>Committing bodies\<close>

text \<open>
  \<open>commits R m r\<close>: if the body's result \<open>r\<close> is a commit, the request was no replay and the state handed
  to \<open>finish\<close> stands in relation \<open>R\<close> to the state the transaction began with. The rules follow
  the shape of a handler, so a proof about a handler reduces to its last state.
\<close>

definition commits :: "(db \<Rightarrow> db \<Rightarrow> bool) \<Rightarrow> mutation \<Rightarrow> outcome res \<Rightarrow> bool" where
  "commits R m r \<longleftrightarrow> (\<forall>w d. r = Inr (Committed w d) \<longrightarrow> m_replay m = None
     \<and> (\<exists>d0 ed p k i. R (m_db m) d0 \<and> finish_with_event_data m d0 w ed p k i = Inr (Committed w d)))"

named_theorems commits_intros \<open>structural rules of \<open>commits\<close>\<close>

lemma commits_Inl [commits_intros]: "commits R m (Inl e)"
  by (simp add: commits_def)

lemma commits_answered [commits_intros]: "commits R m (Inr (Answered v))"
  by (simp add: commits_def)

lemma commits_and_then [commits_intros]:
  "(\<And>x. r = Inr x \<Longrightarrow> commits R m (f x)) \<Longrightarrow> commits R m (and_then r f)"
  by (cases r) (simp_all add: commits_def)

lemma commits_if [commits_intros]:
  "(b \<Longrightarrow> commits R m x) \<Longrightarrow> (\<not> b \<Longrightarrow> commits R m y) \<Longrightarrow> commits R m (if b then x else y)"
  by simp

lemma commits_prod [commits_intros]:
  "(\<And>a b. x = (a, b) \<Longrightarrow> commits R m (f a b)) \<Longrightarrow> commits R m (case x of (a, b) \<Rightarrow> f a b)"
  by (cases x) simp

lemma commits_option [commits_intros]:
  "(v = None \<Longrightarrow> commits R m x) \<Longrightarrow> (\<And>y. v = Some y \<Longrightarrow> commits R m (f y))
     \<Longrightarrow> commits R m (case v of None \<Rightarrow> x | Some y \<Rightarrow> f y)"
  by (cases v) simp_all

lemma commits_let [commits_intros]: "(\<And>y. y = x \<Longrightarrow> commits R m (f y)) \<Longrightarrow> commits R m (let y = x in f y)"
  by simp

lemma commits_replay_or [commits_intros]:
  "(m_replay m = None \<Longrightarrow> commits R m b) \<Longrightarrow> commits R m (replay_or m b)"
  by (auto simp: commits_def)

lemma commits_finish_with [commits_intros]:
  "m_replay m = None \<Longrightarrow> R (m_db m) d0 \<Longrightarrow> commits R m (finish_with_event_data m d0 w ed p k i)"
  unfolding commits_def by (metis finish_committed)

lemma commits_finish [commits_intros]:
  "m_replay m = None \<Longrightarrow> R (m_db m) d0 \<Longrightarrow> commits R m (finish m d0 w p k i)"
  unfolding finish_def by (rule commits_finish_with)

text \<open>Nothing but the handler's own \<open>finish\<close> writes receipts, events are only appended, and
  the durable service time never goes back.\<close>

definition audited :: "db \<Rightarrow> db \<Rightarrow> bool" where
  "audited d d0 \<longleftrightarrow> receipts d0 = receipts d \<and> prefix (events d) (events d0)
     \<and> ck_last_safe (clock d) \<le> ck_last_safe (clock d0)"

lemma commits_replay_safe:
  assumes "\<And>m. commits (R m) m (body m)" and "\<And>m d d0. R m d d0 \<Longrightarrow> audited d d0"
  shows "replay_safe body"
  by (rule replay_safeI) (use assms in \<open>fastforce simp: commits_def audited_def\<close>)

text \<open>A law of the state that reads neither receipts nor events survives \<open>finish\<close>.\<close>

lemma commits_preserves:
  assumes "commits R m r" and "r = Inr (Committed w d)"
    and "\<And>d0. R (m_db m) d0 \<Longrightarrow> P d0" and "\<And>d0 rs es. P d0 \<Longrightarrow> P (d0\<lparr>receipts := rs, events := es\<rparr>)"
  shows "P d"
proof -
  from assms(1,2) obtain d0 rs es where "R (m_db m) d0" "d = d0\<lparr>receipts := rs, events := es\<rparr>"
    unfolding commits_def by auto
  with assms(3,4) show ?thesis by blast
qed

lemma commits_mono:
  "commits R m r \<Longrightarrow> (\<And>d0. R (m_db m) d0 \<Longrightarrow> S (m_db m) d0) \<Longrightarrow> commits S m r"
  unfolding commits_def by blast

section \<open>Quiet changes\<close>

text \<open>The lease and budget columns of a task.\<close>

definition task_key :: "task \<Rightarrow> string \<times> string \<times> int \<times> string option \<times> int option" where
  "task_key t = (tk_id t, tk_project t, tk_generation t, tk_current_attempt t, tk_budget_admitted_at t)"

text \<open>A task is closed when it is done, canceled or superseded. No operation opens a closed task again.\<close>

definition closed :: "task \<Rightarrow> bool" where
  "closed t \<longleftrightarrow> tk_lifecycle t \<noteq> Planned \<and> tk_lifecycle t \<noteq> Open"

definition stays_closed :: "task list \<Rightarrow> task list \<Rightarrow> bool" where
  "stays_closed ts us \<longleftrightarrow> (\<forall>t \<in> set ts. closed t \<longrightarrow> (\<exists>u \<in> set us. tk_id u = tk_id t \<and> closed u))"

lemma stays_closed_refl [simp]: "stays_closed ts ts"
  by (auto simp: stays_closed_def)

lemma stays_closed_trans: "stays_closed ts us \<Longrightarrow> stays_closed us vs \<Longrightarrow> stays_closed ts vs"
  unfolding stays_closed_def by metis

lemma stays_closed_append: "stays_closed ts us \<Longrightarrow> stays_closed ts (us @ vs)"
  by (auto simp: stays_closed_def)

lemma stays_closed_update:
  assumes "\<And>t. t \<in> set ts \<Longrightarrow> P t \<Longrightarrow> tk_id (f t) = tk_id t \<and> (closed t \<longrightarrow> closed (f t))"
  shows "stays_closed ts (update_where P f ts)"
  unfolding stays_closed_def
proof (intro ballI impI)
  fix t assume "t \<in> set ts" "closed t"
  with assms show "\<exists>u \<in> set (update_where P f ts). tk_id u = tk_id t \<and> closed u"
    by (intro bexI [of _ "if P t then f t else t"]) (auto simp: table_simps)
qed

text \<open>A change that leaves attempts, reservations, jobs and the keys of all tasks alone and opens no
  closed task.\<close>

definition quiet :: "db \<Rightarrow> db \<Rightarrow> bool" where
  "quiet d d' \<longleftrightarrow> map task_key (tasks d') = map task_key (tasks d)
     \<and> (unique_by tk_id (tasks d) \<longrightarrow> stays_closed (tasks d) (tasks d')) \<and> attempts d' = attempts d
     \<and> reservations d' = reservations d \<and> reservation_items d' = reservation_items d
     \<and> resources d' = resources d \<and> jobs d' = jobs d \<and> reporters d' = reporters d"

lemma quiet_refl [simp]: "quiet d d"
  by (simp add: quiet_def)

lemma unique_by_key: "unique_by tk_id ts \<longleftrightarrow> distinct (map fst (map task_key ts))"
  by (simp add: unique_by_def task_key_def o_def)

lemma quiet_trans: "quiet a b \<Longrightarrow> quiet b c \<Longrightarrow> quiet a c"
  by (auto simp: quiet_def unique_by_key intro: stays_closed_trans)

lemma quiet_receipts [simp]: "quiet a (d\<lparr>receipts := rs, events := es\<rparr>) = quiet a d"
  by (simp add: quiet_def)

lemma quiet_revisions [simp]: "quiet a (d\<lparr>task_revisions := rs\<rparr>) = quiet a d"
  by (simp add: quiet_def)

lemma quiet_dependencies [simp]: "quiet a (d\<lparr>task_dependencies := rs\<rparr>) = quiet a d"
  by (simp add: quiet_def)

lemma quiet_update_task:
  assumes "\<And>t. task_key (f t) = task_key t"
    and "\<And>t. unique_by tk_id (tasks d) \<Longrightarrow> t \<in> set (tasks d) \<Longrightarrow> tk_id t = i \<Longrightarrow> closed t \<Longrightarrow> closed (f t)"
  shows "quiet d (update_task i f d)"
proof -
  have "tk_id (f t) = tk_id t" for t using assms(1) [of t] by (simp add: task_key_def)
  then show ?thesis
    using assms by (auto simp: quiet_def update_task_def map_update_stable intro!: stays_closed_update)
qed

lemma closed_ready [simp]: "closed (t\<lparr>tk_ready_since := now\<rparr>) = closed t"
  by (simp add: closed_def)

lemma quiet_ready_dependents: "quiet d (ready_dependents i now d)"
  by (auto simp: quiet_def ready_dependents_def map_update_stable task_key_def
      intro!: stays_closed_trans [OF stays_closed_update stays_closed_update])

lemma audited_refl [simp]: "audited d d"
  by (simp add: audited_def)

text \<open>What every handler promises that touches neither leases nor jobs; dependencies stay acyclic.\<close>

definition settles :: "db \<Rightarrow> db \<Rightarrow> bool" where
  "settles d d0 \<longleftrightarrow> audited d d0 \<and> quiet d d0 \<and> (acyclic (set (edges d)) \<longrightarrow> acyclic (set (edges d0)))"

named_theorems settles_intros \<open>steps that keep \<open>settles\<close>\<close>

lemma settles_refl [settles_intros]: "settles d d"
  by (simp add: settles_def)

lemma settles_audited: "settles d d0 \<Longrightarrow> audited d d0"
  by (simp add: settles_def)

lemma settles_save [settles_intros]:
  "save_task_revision m p i d = Inr (v, d') \<Longrightarrow> settles a d \<Longrightarrow> settles a d'"
  by (auto dest!: save_task_revision_Inr simp: settles_def audited_def edges_def)

lemma settles_set_dependencies [settles_intros]:
  "set_dependencies p i deps d = Inr d' \<Longrightarrow> settles a d \<Longrightarrow> settles a d'"
  using set_dependencies_acyclic [of p i deps d d']
  by (auto dest!: set_dependencies_Inr(1) simp: replace_dependencies_def settles_def audited_def)

lemma settles_trans: "settles a b \<Longrightarrow> settles b c \<Longrightarrow> settles a c"
  by (auto simp: settles_def audited_def elim: quiet_trans)

lemma settles_update_row:
  assumes "\<And>t. task_key (f t) = task_key t"
    and "\<And>t. unique_by tk_id (tasks d) \<Longrightarrow> t \<in> set (tasks d) \<Longrightarrow> tk_id t = i \<Longrightarrow> closed t \<Longrightarrow> closed (f t)"
    and "settles a d"
  shows "settles a (update_task i f d)"
proof (rule settles_trans [OF assms(3)])
  show "settles d (update_task i f d)"
    using quiet_update_task [of f d i] assms(1,2) by (simp add: settles_def audited_def)
qed

lemma settles_update_task:
  "(\<And>t. task_key (f t) = task_key t) \<Longrightarrow> (\<And>t. closed t \<Longrightarrow> closed (f t)) \<Longrightarrow> settles a d \<Longrightarrow> settles a (update_task i f d)"
  by (rule settles_update_row)

lemma settles_ready [settles_intros]: "settles a d \<Longrightarrow> settles a (ready_dependents i now d)"
  by (erule settles_trans) (simp add: settles_def audited_def quiet_ready_dependents)

lemma quiet_budget: "quiet d d' \<Longrightarrow> within_budget limit d \<Longrightarrow> within_budget limit d'"
proof (rule within_budget_frame)
  assume "quiet d d'"
  then have "map (\<lambda>(i, p, g, c, b). (p, b)) (map task_key (tasks d'))
           = map (\<lambda>(i, p, g, c, b). (p, b)) (map task_key (tasks d))" by (simp add: quiet_def)
  then show "map budget_key (tasks d') = map budget_key (tasks d)"
    by (simp add: task_key_def budget_key_def [abs_def] o_def)
qed

end
