(* ===== verification/Tasks.thy ===== *)
theory Tasks
  imports Task_Write
begin

text \<open>
  Task definitions (\<^verbatim>\<open>server/src/coordination.rs\<close>): creation under admission control, editing, the
  delegation of editing to agents, unblocking, the four lifecycle actions, the human-delivery
  mark and completion outside the coordinator. Each handler is its payload validation
  (\<open>validate_\<dots>\<close>) and its body inside the write transaction; fresh identifiers are arguments.
\<close>

section \<open>Inputs\<close>

record task_input =
  ti_title :: string
  ti_description :: string
  ti_acceptance :: "string list"
  ti_kind :: string
  ti_priority :: int
  ti_depends_on :: "string list"
  ti_planned :: bool
  ti_human_delivered :: bool
  ti_admission_class :: "string option"
  ti_admission_evidence :: "admission_evidence option"

record task_edit =
  te_expected_revision :: int
  te_title :: string
  te_description :: string
  te_acceptance :: "string list"
  te_priority :: int
  te_depends_on :: "string list"
  te_planned :: bool
  te_kind :: "string option"

record lifecycle_input =
  li_expected_revision :: int
  li_reason :: string
  li_replacement :: "string option"

record external_completion =
  xc_expected_revision :: int
  xc_delivered_revision :: string
  xc_target_branch :: string
  xc_reason :: string
  xc_checks :: "(string \<times> string) list"

record human_delivery_input =
  hd_expected_revision :: int
  hd_human_delivered :: bool
  hd_reason :: string

record grant_input =
  gi_target_kind :: string
  gi_principal :: "string option"
  gi_role :: "string option"

text \<open>The kind column of a validated payload.\<close>

definition kind_names :: "string list" where "kind_names = [''code'', ''general'']"

definition parse_kind :: "string \<Rightarrow> task_kind" where
  "parse_kind k = (if k = ''code'' then Code else General)"

fun kind_as_str :: "task_kind \<Rightarrow> string" where
  "kind_as_str Code = ''code''"
| "kind_as_str General = ''general''"

definition task_path :: "string \<Rightarrow> string \<Rightarrow> string" where
  "task_path p i = ''/api/v1/projects/'' @ p @ ''/tasks/'' @ i"

section \<open>Creation\<close>

definition validate_create_task :: "task_input \<Rightarrow> unit res" where
  "validate_create_task ti =
     and_then (bounded (ti_title ti) 300 True) (\<lambda>_.
     and_then (bounded (ti_description ti) 32768 False) (\<lambda>_.
     and_then (criteria (ti_acceptance ti)) (\<lambda>_.
     if ti_kind ti \<notin> set kind_names \<or> \<not> (0 \<le> ti_priority ti \<and> ti_priority ti \<le> 3) then Inl bad_request
     else validate_class (ti_admission_class ti))))"

text \<open>The inserted row; columns the statement leaves out take their defaults.\<close>

definition new_task :: "mutation \<Rightarrow> string \<Rightarrow> string \<Rightarrow> task_input \<Rightarrow> lifecycle \<Rightarrow> task" where
  "new_task m p i ti lc =
     \<lparr>tk_id = i, tk_project = p, tk_title = ti_title ti, tk_description = ti_description ti,
      tk_acceptance = ti_acceptance ti, tk_kind = parse_kind (ti_kind ti), tk_priority = ti_priority ti,
      tk_lifecycle = lc, tk_revision = 1, tk_generation = 0, tk_current_attempt = None,
      tk_blocked_reason = None, tk_created_at = m_now m, tk_ready_since = m_now m, tk_archived_at = None,
      tk_deleted_at = None, tk_origin = Origin_human, tk_admission_class = None, tk_budget_exempt = None,
      tk_budget_admitted_at = None, tk_budget_held_at = None, tk_human_delivered = ti_human_delivered ti\<rparr>"

definition insert_task :: "task \<Rightarrow> db \<Rightarrow> db res" where
  "insert_task t d = and_then (insert_unique unique_violation (\<lambda>a b. tk_id a = tk_id b) t (tasks d))
     (\<lambda>ts. Inr (d\<lparr>tasks := ts\<rparr>))"

definition create_task :: "config \<Rightarrow> string \<Rightarrow> string \<Rightarrow> task_input \<Rightarrow> mutation \<Rightarrow> outcome res" where
  "create_task cfg uuid p ti m =
     (let d = m_db m in
      and_then (project_get d p) (\<lambda>_.
      replay_or m (
      and_then (active_project d p) (\<lambda>_.
      and_then (admit cfg m d p (ti_planned ti) (ti_admission_class ti) (ti_admission_evidence ti)) (\<lambda>ad.
      and_then (insert_task (new_task m p uuid ti (admission_lifecycle ad (ti_planned ti))) d) (\<lambda>d1.
      and_then (set_dependencies p uuid (ti_depends_on ti) (record_admission m uuid ad d1)) (\<lambda>d2.
      and_then (save_task_revision m p uuid d2) (\<lambda>(value, d3).
        finish m d3 (JObj (value @ [(''admission'', admission_value ad)])) (Some p) ''task.created'' uuid))))))))"

section \<open>Definition grants\<close>

definition validate_grant :: "grant_input \<Rightarrow> unit res" where
  "validate_grant gi =
     (if gi_target_kind gi = ''principal'' \<and> gi_principal gi \<noteq> None \<and> gi_role gi = None then Inr ()
      else if gi_target_kind gi = ''role'' \<and> gi_principal gi = None \<and> gi_role gi = Some ''agent'' then Inr ()
      else Inl bad_request)"

definition create_task_definition_grant :: "string \<Rightarrow> string \<Rightarrow> grant_input \<Rightarrow> mutation \<Rightarrow> outcome res" where
  "create_task_definition_grant uuid p gi m =
     (let d = m_db m in
      and_then (admin (m_actor m)) (\<lambda>_.
      and_then (project_get d p) (\<lambda>_.
      replay_or m (
      if is_some_and (gi_principal gi) (\<lambda>who. count_where (\<lambda>x. pr_id x = who \<and> pr_kind x = Agent
           \<and> pr_role x = ''agent'' \<and> pr_disabled_at x = None) (principals d) = 0) then Inl bad_request
      else if count_where (\<lambda>g. dg_project g = p \<and> dg_target_kind g = gi_target_kind gi
           \<and> dg_principal g = gi_principal gi \<and> dg_role g = gi_role gi \<and> dg_revoked_at g = None)
           (definition_grants d) \<noteq> 0 then Inl (conflict ''grant_exists'')
      else and_then (insert_unique unique_violation (\<lambda>a b. dg_id a = dg_id b)
          \<lparr>dg_id = uuid, dg_project = p, dg_target_kind = gi_target_kind gi, dg_principal = gi_principal gi,
           dg_role = gi_role gi, dg_created_by = ac_id (m_actor m), dg_created_at = m_now m,
           dg_revoked_by = None, dg_revoked_at = None, dg_revision = 1\<rparr> (definition_grants d)) (\<lambda>gs.
        finish m (d\<lparr>definition_grants := gs\<rparr>)
          (JObj [(''id'', JStr uuid), (''revision'', JInt 1)]) (Some p) ''task_definition_grant.created'' uuid)))))"

definition validate_revoke :: "int \<Rightarrow> unit res" where
  "validate_revoke expected = (if expected \<le> 0 then Inl bad_request else Inr ())"

definition revoke_task_definition_grant :: "string \<Rightarrow> string \<Rightarrow> int \<Rightarrow> mutation \<Rightarrow> outcome res" where
  "revoke_task_definition_grant p i expected m =
     (let d = m_db m in
      and_then (admin (m_actor m)) (\<lambda>_.
      and_then (project_get d p) (\<lambda>_.
      replay_or m (
      and_then (ok_or not_found (fetch (\<lambda>g. dg_project g = p \<and> dg_id g = i) (definition_grants d))) (\<lambda>g.
        if dg_revision g \<noteq> expected then Inl (conflict ''revision_conflict'')
        else if dg_revoked_at g \<noteq> None then Inl (conflict ''grant_revoked'')
        else finish m (d\<lparr>definition_grants := update_where (\<lambda>x. dg_id x = i)
               (\<lambda>x. x\<lparr>dg_revoked_by := Some (ac_id (m_actor m)), dg_revoked_at := Some (m_now m),
                      dg_revision := dg_revision x + 1\<rparr>) (definition_grants d)\<rparr>)
             (JObj [(''id'', JStr i), (''revoked_at'', JTime (m_now m)), (''revision'', JInt (expected + 1))])
             (Some p) ''task_definition_grant.revoked'' i)))))"

section \<open>Editing\<close>

definition validate_edit_task :: "task_edit \<Rightarrow> unit res" where
  "validate_edit_task te =
     and_then (bounded (te_title te) 300 True) (\<lambda>_.
     and_then (bounded (te_description te) 32768 False) (\<lambda>_.
     and_then (criteria (te_acceptance te)) (\<lambda>_.
     if \<not> (0 \<le> te_priority te \<and> te_priority te \<le> 3) then Inl bad_request
     else if is_some_and (te_kind te) (\<lambda>k. k \<notin> set kind_names) then Inl bad_request else Inr ())))"

text \<open>\<open>ORDER BY target_kind,id LIMIT 1\<close> over the caller's live grants.\<close>

definition agent_grant :: "db \<Rightarrow> string \<Rightarrow> actor \<Rightarrow> string option" where
  "agent_grant d p a =
     (case sort_key (\<lambda>g. (dg_target_kind g, dg_id g))
        (rows (\<lambda>g. dg_project g = p \<and> dg_revoked_at g = None
           \<and> ((dg_target_kind g = ''principal'' \<and> dg_principal g = Some (ac_id a))
              \<or> (dg_target_kind g = ''role'' \<and> dg_role g = Some (ac_role a)))) (definition_grants d)) of
        [] \<Rightarrow> None | g # _ \<Rightarrow> Some (dg_id g))"

definition definition_changed :: "db \<Rightarrow> task \<Rightarrow> task_kind \<Rightarrow> task_edit \<Rightarrow> bool" where
  "definition_changed d t kind te \<longleftrightarrow>
     kind \<noteq> tk_kind t \<or> tk_title t \<noteq> te_title te \<or> tk_acceptance t \<noteq> te_acceptance te
     \<or> tk_description t \<noteq> te_description te \<or> dependencies_of d (tk_id t) \<noteq> sort (te_depends_on te)
     \<or> tk_priority t \<noteq> te_priority te \<or> (tk_lifecycle t = Planned) \<noteq> te_planned te"

text \<open>The agent branch of \<open>edit_task\<close>: what delegation permits; the answer is the grant used.\<close>

definition agent_edit_gate :: "mutation \<Rightarrow> string \<Rightarrow> task \<Rightarrow> task_kind \<Rightarrow> task_edit \<Rightarrow> string option res" where
  "agent_edit_gate m p t kind te =
     (let d = m_db m; a = m_actor m in
      if ac_kind a \<noteq> Agent then Inr None
      else and_then (session_of a) (\<lambda>_.
        case agent_grant d p a of
          None \<Rightarrow> Inl (human_gate ''task_definition_grant'')
        | Some g \<Rightarrow>
            if tk_budget_held_at t \<noteq> None \<and> tk_lifecycle t = Planned \<and> \<not> te_planned te
            then Inl (human_gate ''admission_budget'')
            else if definition_changed d t kind te
                 \<and> count_where (\<lambda>c. tc_task c = tk_id t \<and> tc_principal c = ac_id a) (contributors d) > 0
            then Inl (human_gate ''self_related_definition_change'')
            else Inr (Some g)))"

definition apply_edit :: "task_kind \<Rightarrow> task_edit \<Rightarrow> task \<Rightarrow> task" where
  "apply_edit kind te t = t\<lparr>tk_title := te_title te, tk_description := te_description te,
     tk_acceptance := te_acceptance te, tk_priority := te_priority te,
     tk_lifecycle := (if te_planned te then Planned else Open), tk_kind := kind,
     tk_revision := tk_revision t + 1\<rparr>"

definition clear_hold :: "task_edit \<Rightarrow> task \<Rightarrow> task" where
  "clear_hold te t = (if te_planned te then t else t\<lparr>tk_budget_held_at := None\<rparr>)"

text \<open>The grant of an agent edit is written into the stored revision and linked to it.\<close>

definition link_grant :: "string \<Rightarrow> string \<Rightarrow> int \<Rightarrow> string option \<Rightarrow> db \<Rightarrow> db res" where
  "link_grant p i at_rev g d =
     (case g of
        None \<Rightarrow> Inr d
      | Some gid \<Rightarrow>
          and_then (insert_unique unique_violation (\<lambda>a b. fst (snd a) = fst (snd b) \<and> fst (snd (snd a)) = fst (snd (snd b)))
              (p, i, at_rev, gid) (revision_grants d)) (\<lambda>rg.
            Inr (d\<lparr>task_revisions := update_where (\<lambda>n. tn_task n = i \<and> tn_revision n = at_rev)
                     (\<lambda>n. n\<lparr>tn_grant := Some gid\<rparr>) (task_revisions d),
                   revision_grants := rg\<rparr>)))"

definition edit_task :: "string \<Rightarrow> string \<Rightarrow> task_edit \<Rightarrow> mutation \<Rightarrow> outcome res" where
  "edit_task p i te m =
     (let d = m_db m in
      replay_or m (
      and_then (task_get d p i (m_now m)) (\<lambda>v.
      let t = tv_task v; kind = (case te_kind te of None \<Rightarrow> tk_kind t | Some k \<Rightarrow> parse_kind k) in
      if kind \<noteq> tk_kind t \<and> (tv_objective_id v \<noteq> None \<or> exists_where (\<lambda>r. tr_task r = i) (task_reverts d))
        then Inl (conflict ''task_kind_fixed'')
      else if kind \<noteq> tk_kind t \<and> count_where (\<lambda>s. sb_project s = p \<and> sb_task s = i
             \<and> exists_where (\<lambda>a. at_id a = sb_attempt s \<and> at_generation a = tk_generation t) (attempts d))
             (submissions d) > 0
        then Inl (conflict ''task_kind_workflow_protected'')
      else and_then (guard_subject_mutation d p i) (\<lambda>_.
        if tk_revision t \<noteq> te_expected_revision te then Inl (conflict ''revision_conflict'')
        else if tk_current_attempt t \<noteq> None \<or> \<not> (tk_lifecycle t = Open \<or> tk_lifecycle t = Planned)
          then Inl (conflict ''task_not_editable'')
        else and_then (agent_edit_gate m p t kind te) (\<lambda>g.
        and_then (set_dependencies p i (te_depends_on te) d) (\<lambda>d1.
        and_then (save_task_revision m p i (update_task i (clear_hold te) (update_task i (apply_edit kind te) d1))) (\<lambda>(value, d2).
        and_then (link_grant p i (tk_revision t + 1) g d2) (\<lambda>d3.
          finish_with_event_data m d3
            (JObj (value @ (case g of None \<Rightarrow> [] | Some gid \<Rightarrow> [(''task_definition_grant_id'', JStr gid)])))
            (JObj [(''actor_id'', JStr (ac_id (m_actor m))), (''old_kind'', JStr (kind_as_str (tk_kind t))),
                   (''new_kind'', JStr (kind_as_str kind)), (''previous_revision'', JInt (tk_revision t)),
                   (''revision'', JInt (tk_revision t + 1))])
            (Some p) ''task.edited'' i))))))))"

section \<open>Unblocking\<close>

definition ensure_lifecycle_actor :: "db \<Rightarrow> actor \<Rightarrow> string \<Rightarrow> string \<Rightarrow> unit res" where
  "ensure_lifecycle_actor d a p action =
     (if ac_kind a = Human then Inr ()
      else and_then (project_get d p) (\<lambda>proj.
        if \<not> (if action = ''cancel'' then pj_agent_rule_editing proj
              else if action = ''unblock'' then pj_recovery_mode proj = Recovery_agent else False)
        then Inl (human_gate (''task_'' @ action))
        else and_then (session_of a) (\<lambda>_. Inr ())))"

definition ensure_task_lifecycle_actor :: "db \<Rightarrow> actor \<Rightarrow> string \<Rightarrow> string \<Rightarrow> string \<Rightarrow> unit res" where
  "ensure_task_lifecycle_actor d a p i action =
     (if ac_kind a \<noteq> Human
         \<and> is_some_and (fetch (\<lambda>t. tk_project t = p \<and> tk_id t = i) (tasks d))
             (\<lambda>t. tk_origin t = Origin_agent \<or> tk_origin t = Origin_service)
      then and_then (session_of a) (\<lambda>_. Inr ())
      else ensure_lifecycle_actor d a p action)"

definition unblock_task :: "string \<Rightarrow> string \<Rightarrow> int \<Rightarrow> string \<Rightarrow> mutation \<Rightarrow> outcome res" where
  "unblock_task p i expected_revision reason m =
     (let d = m_db m in
      and_then (ensure_lifecycle_actor d (m_actor m) p ''unblock'') (\<lambda>_.
      replay_or m (
      and_then (task_get d p i (m_now m)) (\<lambda>v.
      and_then (guard_subject_mutation d p i) (\<lambda>_.
      and_then (ensure_not_mechanical d i) (\<lambda>_.
      let t = tv_task v in
      if tk_revision t \<noteq> expected_revision then Inl (conflict ''revision_conflict'')
      else if tk_current_attempt t \<noteq> None \<or> tk_lifecycle t \<noteq> Open then Inl (conflict ''task_not_editable'')
      else and_then (ensure_attempt_quiescent d p i) (\<lambda>_.
        and_then (save_task_revision m p i (update_task i (\<lambda>t. t\<lparr>tk_blocked_reason := None,
            tk_revision := tk_revision t + 1, tk_ready_since := m_now m\<rparr>) d)) (\<lambda>(value, d1).
          finish m d1 (JObj [(''task'', JObj value), (''resolution'', JStr reason)]) (Some p) ''task.unblocked'' i))))))))"

section \<open>Lifecycle\<close>

definition ensure_replacement :: "db \<Rightarrow> string \<Rightarrow> string \<Rightarrow> string option \<Rightarrow> unit res" where
  "ensure_replacement d p i replacement =
     (case replacement of
        None \<Rightarrow> Inr ()
      | Some r \<Rightarrow>
          if r = i then Inl bad_request
          else if count_where (\<lambda>t. tk_project t = p \<and> tk_id t = r \<and> tk_deleted_at t = None \<and> tk_archived_at t = None
                 \<and> (tk_lifecycle t = Open \<or> tk_lifecycle t = Planned \<or> tk_lifecycle t = Done)) (tasks d) = 0
          then Inl bad_request else Inr ())"

definition has_retained_history :: "db \<Rightarrow> string \<Rightarrow> bool" where
  "has_retained_history d i \<longleftrightarrow>
     count_where (\<lambda>a. at_task a = i) (attempts d)
     + count_where (\<lambda>e. td_task e = i \<or> td_prerequisite e = i) (task_dependencies d)
     + count_where (\<lambda>c. oc_child c = i \<or> oc_objective c = i) (objective_children d)
     + count_where (\<lambda>w. ws_task w = i) (workflow_subjects d) > 0"

definition live_activity :: "activity_state \<Rightarrow> bool" where
  "live_activity s \<longleftrightarrow> s = Act_queued \<or> s = Act_active \<or> s = Act_recovery_required"

definition workflow_protected :: "db \<Rightarrow> string \<Rightarrow> bool" where
  "workflow_protected d i \<longleftrightarrow>
     count_where (\<lambda>w. wa_subject_task w = i \<and> live_activity (wa_state w)) (workflow_activities d)
     + count_where (\<lambda>w. ws_task w = i \<and> (ws_phase w = Phase_review \<or> ws_phase w = Phase_integration)) (workflow_subjects d)
     + count_where (\<lambda>w. wa_activity_task w = i) (workflow_activities d) > 0"

text \<open>
  The match on the action: the changed row, the event kind and whether a canceled task was
  deleted or archived. A delete of a task in another lifecycle falls through to the last arm.
\<close>

definition lifecycle_update :: "db \<Rightarrow> int \<Rightarrow> string \<Rightarrow> lifecycle_input \<Rightarrow> string \<Rightarrow> task \<Rightarrow>
    ((task \<Rightarrow> task) \<times> string \<times> string) res" where
  "lifecycle_update d now i li action t =
     (if action = ''archive'' \<and> tk_archived_at t = None then
        Inr (\<lambda>r. r\<lparr>tk_archived_at := Some now, tk_revision := tk_revision r + 1\<rparr>, ''task.archived'', [])
      else if action = ''restore'' \<and> tk_archived_at t \<noteq> None then
        Inr (\<lambda>r. r\<lparr>tk_archived_at := None, tk_revision := tk_revision r + 1\<rparr>, ''task.restored'', [])
      else if action = ''cancel'' \<and> (tk_lifecycle t = Open \<or> tk_lifecycle t = Planned) then
        (if li_replacement li = None \<and> \<not> has_retained_history d i then
           Inr (\<lambda>r. r\<lparr>tk_lifecycle := Canceled, tk_deleted_at := Some now, tk_revision := tk_revision r + 1\<rparr>,
                ''task.canceled'', ''deleted'')
         else
           Inr (\<lambda>r. r\<lparr>tk_lifecycle := Canceled, tk_archived_at := Some now, tk_revision := tk_revision r + 1\<rparr>,
                ''task.canceled'', ''archived''))
      else if action = ''delete'' \<and> (tk_lifecycle t = Planned \<or> tk_lifecycle t = Canceled) then
        (if has_retained_history d i then Inl (conflict ''task_history_protected'')
         else Inr (\<lambda>r. r\<lparr>tk_deleted_at := Some now, tk_revision := tk_revision r + 1\<rparr>, ''task.deleted'', []))
      else if action \<in> set [''archive'', ''restore'', ''cancel''] then Inl (conflict ''task_lifecycle_invalid'')
      else Inl bad_request)"

fun lifecycle_as_str :: "lifecycle \<Rightarrow> string" where
  "lifecycle_as_str Planned = ''planned''"
| "lifecycle_as_str Open = ''open''"
| "lifecycle_as_str Done = ''done''"
| "lifecycle_as_str Canceled = ''canceled''"
| "lifecycle_as_str Superseded = ''superseded''"

definition opt_str :: "string option \<Rightarrow> json" where
  "opt_str v = (case v of None \<Rightarrow> JNull | Some s \<Rightarrow> JStr s)"

definition lifecycle_result :: "string \<Rightarrow> string \<Rightarrow> lifecycle_input \<Rightarrow> task \<Rightarrow> string \<Rightarrow> json" where
  "lifecycle_result i action li t into = JObj
     [(''id'', JStr i),
      (''lifecycle'', JStr (if action = ''cancel'' then ''canceled'' else lifecycle_as_str (tk_lifecycle t))),
      (''archived'', JBool (action = ''archive'' \<or> into = ''archived'')),
      (''deleted'', JBool (action = ''delete'' \<or> into = ''deleted'')),
      (''reason'', JStr (li_reason li)), (''replacement_task_id'', opt_str (li_replacement li))]"

definition lifecycle_event :: "mutation \<Rightarrow> lifecycle_input \<Rightarrow> json" where
  "lifecycle_event m li = JObj
     ([(''reason'', JStr (li_reason li)), (''actor_id'', JStr (ac_id (m_actor m)))]
      @ (case li_replacement li of None \<Rightarrow> [] | Some r \<Rightarrow> [(''replacement_task_id'', JStr r)]))"

definition lifecycle_change :: "string \<Rightarrow> string \<Rightarrow> lifecycle_input \<Rightarrow> string \<Rightarrow> mutation \<Rightarrow> outcome res" where
  "lifecycle_change p i li action m =
     (let d = m_db m in
      and_then (ensure_task_lifecycle_actor d (m_actor m) p i action) (\<lambda>_.
      and_then (ensure_independent_revert_exit d (m_actor m) p i action) (\<lambda>_.
      replay_or m (
      if action \<noteq> ''cancel'' \<and> li_replacement li \<noteq> None then Inl bad_request
      else and_then (ensure_replacement d p i (li_replacement li)) (\<lambda>_.
      and_then (ok_or not_found (fetch (\<lambda>t. tk_project t = p \<and> tk_id t = i) (tasks d))) (\<lambda>t.
      if tk_deleted_at t \<noteq> None then Inl not_found
      else if tk_archived_at t \<noteq> None \<and> action \<noteq> ''restore'' then Inl (conflict ''task_archived'')
      else if tk_revision t \<noteq> li_expected_revision li then Inl (conflict ''task_revision_changed'')
      else and_then (if action = ''restore'' \<and> tk_archived_at t \<noteq> None then ensure_restorable d i else Inr ()) (\<lambda>_.
      if tk_current_attempt t \<noteq> None then Inl (conflict ''task_attempt_protected'')
      else if workflow_protected d i then Inl (conflict ''task_workflow_protected'')
      else and_then (lifecycle_update d (m_now m) i li action t) (\<lambda>(change, event, into).
      let d1 = update_task i change d in
      and_then (if action \<noteq> ''delete'' \<and> into \<noteq> ''deleted''
                then and_then (save_task_revision m p i d1) (\<lambda>(_, d2). Inr d2) else Inr d1) (\<lambda>d2.
        finish_with_event_data m d2 (lifecycle_result i action li t into) (lifecycle_event m li)
          (Some p) event i)))))))))"

section \<open>Completion outside the coordinator\<close>

text \<open>\<open>workflow::revision\<close>\<close>

definition ascii_hex :: "char \<Rightarrow> bool" where
  "ascii_hex c \<longleftrightarrow> (let n = (of_char c :: nat) in ascii_lower_hex c \<or> (65 \<le> n \<and> n \<le> 70))"

definition valid_revision :: "string \<Rightarrow> unit res" where
  "valid_revision v = (if (length v \<noteq> 40 \<and> length v \<noteq> 64) \<or> \<not> list_all ascii_hex v then Inl bad_request else Inr ())"

definition validate_external :: "external_completion \<Rightarrow> unit res" where
  "validate_external xc =
     and_then (valid_revision (xc_delivered_revision xc)) (\<lambda>_.
     and_then (bounded (xc_target_branch xc) 255 True) (\<lambda>_.
     and_then (bounded (xc_reason xc) 4096 True) (\<lambda>_.
     if xc_checks xc = [] \<or> length (xc_checks xc) > 100 then Inl bad_request
     else check_all (\<lambda>(identity, conclusion).
       and_then (bounded identity 255 True) (\<lambda>_.
         if conclusion \<noteq> ''success'' then Inl bad_request else Inr ())) (xc_checks xc))))"

definition required_checks :: "db \<Rightarrow> string \<Rightarrow> string list" where
  "required_checks d p = (case fetch (\<lambda>w. wp_project w = p) (workflow_policies d) of
     None \<Rightarrow> [] | Some w \<Rightarrow> map rc_identity (wp_required_checks w))"

definition complete_subject :: "string \<Rightarrow> int \<Rightarrow> db \<Rightarrow> db" where
  "complete_subject i now d = d\<lparr>workflow_subjects := update_where
     (\<lambda>w. ws_task w = i \<and> ws_phase w = Phase_revision_needed) (\<lambda>w. w\<lparr>ws_phase := Phase_done, ws_updated_at := now\<rparr>) (workflow_subjects d)\<rparr>"

definition complete_task_externally :: "string \<Rightarrow> string \<Rightarrow> external_completion \<Rightarrow> mutation \<Rightarrow> outcome res" where
  "complete_task_externally p i xc m =
     (let d = m_db m in
      if ac_kind (m_actor m) \<noteq> Human then Inl (human_gate ''task_external_completion'')
      else replay_or m (
      and_then (project_get d p) (\<lambda>proj.
      if xc_target_branch xc \<noteq> pj_target_branch proj then Inl (conflict ''target_branch_mismatch'')
      else and_then (check_all (\<lambda>identity. if identity \<in> fst ` set (xc_checks xc) then Inr ()
             else Inl (conflict ''required_check_missing'')) (required_checks d p)) (\<lambda>_.
      and_then (ok_or not_found (fetch (\<lambda>t. tk_project t = p \<and> tk_id t = i \<and> tk_deleted_at t = None) (tasks d))) (\<lambda>t.
      if tk_archived_at t \<noteq> None then Inl (conflict ''task_archived'')
      else if tk_revision t \<noteq> xc_expected_revision xc then Inl (conflict ''task_revision_changed'')
      else if tk_lifecycle t \<noteq> Open then Inl (conflict ''task_lifecycle_invalid'')
      else if tk_current_attempt t \<noteq> None then Inl (conflict ''task_attempt_protected'')
      else if workflow_protected d i then Inl (conflict ''task_workflow_protected'')
      else let d1 = update_task i (\<lambda>r. r\<lparr>tk_lifecycle := Done, tk_blocked_reason := None,
                 tk_revision := tk_revision r + 1\<rparr>) d;
               d2 = ready_dependents i (m_now m) (complete_subject i (m_now m) d1) in
           and_then (save_task_revision m p i d2) (\<lambda>(_, d3).
           finish_with_event_data m d3
             (JObj [(''id'', JStr i), (''lifecycle'', JStr ''done''), (''completed_externally'', JBool True),
                    (''delivered_revision'', JStr (xc_delivered_revision xc)),
                    (''target_branch'', JStr (xc_target_branch xc)),
                    (''checks'', JArr (map (\<lambda>(a, b). JArr [JStr a, JStr b]) (xc_checks xc))),
                    (''reason'', JStr (xc_reason xc))])
             (JObj [(''reason'', JStr (xc_reason xc)), (''actor_id'', JStr (ac_id (m_actor m))),
                    (''delivered_revision'', JStr (xc_delivered_revision xc)),
                    (''target_branch'', JStr (xc_target_branch xc)),
                    (''checks'', JArr (map (\<lambda>(a, b). JArr [JStr a, JStr b]) (xc_checks xc)))])
             (Some p) ''task.completed_externally'' i))))))"

section \<open>The human-delivery mark\<close>

definition set_human_delivery :: "string \<Rightarrow> string \<Rightarrow> human_delivery_input \<Rightarrow> mutation \<Rightarrow> outcome res" where
  "set_human_delivery p i inp m =
     (let d = m_db m in
      and_then (if ac_kind (m_actor m) \<noteq> Human then and_then (session_of (m_actor m)) (\<lambda>_.
           if is_supervisor (m_actor m) \<or> \<not> hd_human_delivered inp then Inl (human_gate ''human_delivery'') else Inr ())
         else Inr ()) (\<lambda>_.
      replay_or m (
      and_then (task_get d p i (m_now m)) (\<lambda>v.
      let t = tv_task v in
      if tk_revision t \<noteq> hd_expected_revision inp then Inl (conflict ''revision_conflict'')
      else if tk_archived_at t \<noteq> None \<or> \<not> (tk_lifecycle t = Open \<or> tk_lifecycle t = Planned)
        then Inl (conflict ''task_not_editable'')
      else let d1 = update_task i (\<lambda>r. r\<lparr>tk_human_delivered := hd_human_delivered inp\<rparr>) d in
        and_then (task_get d1 p i (m_now m)) (\<lambda>v1.
          finish m d1 (JObj [(''task'', task_value v1 (m_now m)), (''human_delivered'', JBool (hd_human_delivered inp)),
              (''reason'', JStr (hd_reason inp))]) (Some p) ''task.human_delivery_set'' i)))))"

section \<open>Laws\<close>

lemma settles_link [settles_intros]:
  "link_grant p i r g d = Inr d' \<Longrightarrow> settles a d \<Longrightarrow> settles a d'"
  by (auto simp: link_grant_def settles_def quiet_def audited_def edges_def split: option.splits)

lemma settles_complete [settles_intros]: "settles a d \<Longrightarrow> settles a (complete_subject i now d)"
  by (simp add: complete_subject_def settles_def quiet_def audited_def edges_def)

lemma settles_clear_hold [settles_intros]:
  "settles a d \<Longrightarrow> settles a (update_task i (clear_hold te) d)"
  by (rule settles_update_task) (simp_all add: clear_hold_def task_key_def closed_def)

text \<open>An edit of an open or planned task; its lifecycle may move between the two.\<close>

lemma settles_edit:
  assumes "settles a d" and "t \<in> set (tasks d)" "tk_id t = i" "\<not> closed t"
  shows "settles a (update_task i (apply_edit kind te) d)"
proof (rule settles_update_row [OF _ _ assms(1)])
  show "task_key (apply_edit kind te u) = task_key u" for u by (simp add: apply_edit_def task_key_def)
  show "closed (apply_edit kind te u)"
    if "unique_by tk_id (tasks d)" "u \<in> set (tasks d)" "tk_id u = i" "closed u" for u
    using that assms(2-4) unique_row [of tk_id "tasks d" u t] by auto
qed

lemma task_get_in: "task_get d p i now = Inr v \<Longrightarrow> tv_task v \<in> set (tasks d) \<and> tk_id (tv_task v) = i"
  by (auto simp: task_get_def enrich_workflow_status_def visible_def rows_def view_of_def Let_def
      split: if_splits dest!: fetch_SomeD)

lemma lifecycle_update_closed:
  "lifecycle_update d now i li action t = Inr (change, ev, into) \<Longrightarrow> closed r \<Longrightarrow> closed (change r)"
  by (auto simp: lifecycle_update_def closed_def split: if_splits)

lemma settles_grants [settles_intros]: "settles a d \<Longrightarrow> settles a (d\<lparr>definition_grants := gs\<rparr>)"
  by (simp add: settles_def quiet_def audited_def edges_def)

lemma lifecycle_update_key:
  "lifecycle_update d now i li action t = Inr (change, ev, into) \<Longrightarrow> task_key (change r) = task_key r"
  by (auto simp: lifecycle_update_def task_key_def split: if_splits)

lemma settles_task_columns [settles_intros]:
  "settles a d \<Longrightarrow> settles a (update_task i (\<lambda>t. t\<lparr>tk_blocked_reason := None,
     tk_revision := tk_revision t + 1, tk_ready_since := now\<rparr>) d)"
  "settles a d \<Longrightarrow> settles a (update_task i (\<lambda>t. t\<lparr>tk_lifecycle := Done, tk_blocked_reason := None,
     tk_revision := tk_revision t + 1\<rparr>) d)"
  "settles a d \<Longrightarrow> settles a (update_task i (\<lambda>t. t\<lparr>tk_human_delivered := b\<rparr>) d)"
  by (auto intro!: settles_update_task simp: task_key_def closed_def)

lemma edit_step:
  assumes v: "task_get d p i now = Inr v"
    and c: "\<not> (tk_current_attempt (tv_task v) \<noteq> None \<or> \<not> (tk_lifecycle (tv_task v) = Open \<or> tk_lifecycle (tv_task v) = Planned))"
    and d1: "set_dependencies p i deps d = Inr d1"
    and d2: "save_task_revision m p i (update_task i (clear_hold te) (update_task i (apply_edit kind te) d1)) = Inr (vals, d2)"
    and d3: "link_grant p i r g d2 = Inr d3"
  shows "settles d d3"
proof -
  have "settles d (update_task i (apply_edit kind te) d1)"
    using task_get_in [OF v] c set_dependencies_fields(3) [OF d1]
    by (intro settles_edit [where t = "tv_task v"] settles_set_dependencies [OF d1] settles_refl) (auto simp: closed_def)
  with d2 d3 show ?thesis by (blast intro: settles_link settles_save settles_clear_hold)
qed

lemma edit_task_commits: "commits settles m (edit_task p i te m)"
  unfolding edit_task_def Let_def
  by (intro commits_intros; hypsubst?; (assumption | rule edit_step; assumption))

lemma unblock_task_commits: "commits settles m (unblock_task p i r reason m)"
  unfolding unblock_task_def Let_def
  by (intro commits_intros; hypsubst?; blast intro: settles_intros)

lemma complete_task_externally_commits: "commits settles m (complete_task_externally p i xc m)"
  unfolding complete_task_externally_def Let_def
  by (intro commits_intros; hypsubst?; blast intro: settles_intros)

lemma set_human_delivery_commits: "commits settles m (set_human_delivery p i inp m)"
  unfolding set_human_delivery_def Let_def
  by (intro commits_intros; hypsubst?; blast intro: settles_intros)

lemma create_task_definition_grant_commits: "commits settles m (create_task_definition_grant uuid p gi m)"
  unfolding create_task_definition_grant_def Let_def
  by (intro commits_intros; hypsubst?; blast intro: settles_intros)

lemma revoke_task_definition_grant_commits: "commits settles m (revoke_task_definition_grant p i expected m)"
  unfolding revoke_task_definition_grant_def Let_def
  by (intro commits_intros; hypsubst?; blast intro: settles_intros)

lemma settles_lifecycle:
  assumes "lifecycle_update d now i li action t = Inr (change, ev, into)"
    and "(if b then and_then (save_task_revision m p i (update_task i change d)) (\<lambda>(_, d2). Inr d2)
          else Inr (update_task i change d)) = Inr d'"
  shows "settles d d'"
proof -
  have "settles d (update_task i change d)"
    using lifecycle_update_key [OF assms(1)] lifecycle_update_closed [OF assms(1)]
    by (intro settles_update_task settles_refl) simp_all
  with assms(2) show ?thesis by (auto split: if_splits intro: settles_save)
qed

lemma lifecycle_change_commits: "commits settles m (lifecycle_change p i li action m)"
  unfolding lifecycle_change_def Let_def
  by (intro commits_intros; hypsubst?; blast intro: settles_lifecycle)

subsection \<open>Creation\<close>

text \<open>What a creation does to the state: one new task row with the given key columns.\<close>

definition creates :: "string \<times> string \<times> int \<times> string option \<times> int option \<Rightarrow> db \<Rightarrow> db \<Rightarrow> bool" where
  "creates k d d0 \<longleftrightarrow> audited d d0
     \<and> map task_key (tasks d0) = map task_key (tasks d) @ [k] \<and> fst k \<notin> tk_id ` set (tasks d)
     \<and> (unique_by tk_id (tasks d) \<longrightarrow> stays_closed (tasks d) (tasks d0))
     \<and> attempts d0 = attempts d \<and> reservations d0 = reservations d
     \<and> reservation_items d0 = reservation_items d \<and> resources d0 = resources d \<and> jobs d0 = jobs d
     \<and> reporters d0 = reporters d \<and> (acyclic (set (edges d)) \<longrightarrow> acyclic (set (edges d0)))"

lemma creates_unique: "creates k a d \<Longrightarrow> unique_by tk_id (tasks a) \<Longrightarrow> unique_by tk_id (tasks d)"
  by (auto simp: creates_def unique_by_key task_key_def)

lemma creates_settles: "creates k a d \<Longrightarrow> settles d d' \<Longrightarrow> creates k a d'"
  using creates_unique [of k a d]
  by (auto simp: creates_def settles_def quiet_def audited_def intro: stays_closed_trans)

lemma creates_insert:
  assumes "insert_task (new_task m p i ti lc) d = Inr d1"
  shows "creates (i, p, 0, None, if ad_consumed ad then Some (m_now m) else None) d (record_admission m i ad d1)"
proof -
  from assms have d1: "d1 = d\<lparr>tasks := insert_row (new_task m p i ti lc) (tasks d)\<rparr>"
    and fresh: "\<forall>t \<in> set (tasks d). tk_id t \<noteq> i"
    by (auto simp: insert_task_def new_task_def)
  have old: "map task_key (update_where (\<lambda>t. tk_id t = i) f (tasks d)) = map task_key (tasks d)" for f
    using fresh by (intro map_update_stable) auto
  have kept: "stays_closed (tasks d) (map (\<lambda>r. if tk_id r = i then f r else r) (tasks d) @ us)" for f us
    using fresh by (auto simp: stays_closed_def)
  show ?thesis
    using fresh old kept
    by (auto simp: creates_def d1 record_admission_def audited_def edges_def insert_row_def
        update_where_def new_task_def task_key_def)
qed

lemma creates_chain:
  assumes "insert_task (new_task m p i ti lc) d = Inr d1"
    and "set_dependencies p i deps (record_admission m i ad d1) = Inr d2"
    and "save_task_revision m p i d2 = Inr (v, d3)"
  shows "creates (i, p, 0, None, if ad_consumed ad then Some (m_now m) else None) d d3"
  using creates_settles [OF creates_insert [OF assms(1)]
      settles_save [OF assms(3) settles_set_dependencies [OF assms(2) settles_refl]]] .

lemma create_task_commits:
  "commits (\<lambda>d d0. \<exists>ad. admit cfg m d p (ti_planned ti) (ti_admission_class ti) (ti_admission_evidence ti) = Inr ad
      \<and> creates (uuid, p, 0, None, if ad_consumed ad then Some (m_now m) else None) d d0)
     m (create_task cfg uuid p ti m)"
  unfolding create_task_def Let_def
  by (intro commits_intros; hypsubst?;
      (assumption | intro exI conjI, assumption, rule creates_chain; assumption))

lemma create_task_admitted:
  assumes "create_task cfg uuid p ti m = Inr (Committed w d)"
  shows "\<exists>ad. admit cfg m (m_db m) p (ti_planned ti) (ti_admission_class ti) (ti_admission_evidence ti) = Inr ad
      \<and> map task_key (tasks d) = map task_key (tasks (m_db m))
          @ [(uuid, p, 0, None, if ad_consumed ad then Some (m_now m) else None)]"
  using create_task_commits assms by (rule commits_preserves) (auto simp: creates_def)

lemma creates_within_budget:
  assumes ok: "within_budget (cf_weekly_budget cfg) (m_db m)"
    and ad: "admit cfg m (m_db m) p planned cls ev = Inr ad"
    and keys: "map task_key (tasks d) = map task_key (tasks (m_db m))
          @ [(uuid, p, 0, None, if ad_consumed ad then Some (m_now m) else None)]"
  shows "within_budget (cf_weekly_budget cfg) d"
proof -
  have budget: "map budget_key ts = map (\<lambda>(i, p, g, c, b). (p, b)) (map task_key ts)" for ts
    by (simp add: budget_key_def [abs_def] task_key_def o_def)
  show ?thesis
  proof (rule within_budget_insert [OF ok])
    show "map budget_key (tasks d) = map budget_key (tasks (m_db m))
        @ [(p, if ad_consumed ad then Some (m_now m) else None)]"
      unfolding budget keys by simp
  next
    fix x assume "(if ad_consumed ad then Some (m_now m) else None) = Some x"
    then have "ad_consumed ad" "x = m_now m" by (auto split: if_splits)
    with admit_Inr(3) [OF ad] show "admitted_in_week (m_db m) p (week_start x) < cf_weekly_budget cfg" by simp
  qed
qed

section \<open>Contracts\<close>

interpretation creation: replay_safe "create_task cfg uuid p ti" for cfg uuid p ti
  by (rule commits_replay_safe [OF create_task_commits]) (auto simp: creates_def)

interpretation edition: replay_safe "edit_task p i te" for p i te
  by (rule commits_replay_safe [OF edit_task_commits settles_audited])

interpretation unblocking: replay_safe "unblock_task p i r reason" for p i r reason
  by (rule commits_replay_safe [OF unblock_task_commits settles_audited])

interpretation lifecycle_action: replay_safe "lifecycle_change p i li action" for p i li action
  by (rule commits_replay_safe [OF lifecycle_change_commits settles_audited])

interpretation external_completion: replay_safe "complete_task_externally p i xc" for p i xc
  by (rule commits_replay_safe [OF complete_task_externally_commits settles_audited])

interpretation human_delivery: replay_safe "set_human_delivery p i inp" for p i inp
  by (rule commits_replay_safe [OF set_human_delivery_commits settles_audited])

interpretation grant_creation: replay_safe "create_task_definition_grant uuid p gi" for uuid p gi
  by (rule commits_replay_safe [OF create_task_definition_grant_commits settles_audited])

interpretation grant_revocation: replay_safe "revoke_task_definition_grant p i expected" for p i expected
  by (rule commits_replay_safe [OF revoke_task_definition_grant_commits settles_audited])

end
