(* ===== verification/Recovery_Evidence.thy ===== *)
theory Recovery_Evidence
  imports Task_Write
begin

text \<open>
  Evidence for resuming an expired attempt (\<^verbatim>\<open>server/src/recovery_evidence.rs\<close>): a checkpoint may
  record the commit of the work in progress; the recoverer of an attempt whose latest checkpoint
  recorded one must present exactly that commit, any other recoverer attests its own inspection.
\<close>

record recovery_input =
  ry_generation :: int
  ry_disposition :: string
  ry_summary :: string
  ry_saved_work_checked :: bool
  ry_running_jobs_checked :: bool
  ry_fetched_revision :: "string option"

datatype evidence = Verified | Attested

fun evidence_label :: "evidence \<Rightarrow> string" where
  "evidence_label Verified = ''service_verified''"
| "evidence_label Attested = ''local_attestation''"

definition validate_revision :: "string option \<Rightarrow> unit res" where
  "validate_revision v =
     (if is_some_and v (\<lambda>s. length s \<noteq> 40 \<or> \<not> list_all ascii_lower_hex s) then Inl bad_request else Inr ())"

text \<open>\<open>ORDER BY generation DESC LIMIT 1\<close>\<close>

definition last_row :: "'r list \<Rightarrow> 'r option" where
  "last_row rs = (if rs = [] then None else Some (last rs))"

definition predecessor :: "db \<Rightarrow> attempt \<Rightarrow> attempt option" where
  "predecessor d a = last_row (sort_key at_generation (rows (\<lambda>b. at_project b = at_project a
     \<and> at_task b = at_task a \<and> at_generation b < at_generation a) (attempts d)))"

text \<open>
  \<open>ORDER BY created_at DESC,rowid DESC LIMIT 1\<close>: rows are kept in rowid order and the sort is stable.
\<close>

definition latest_revision :: "db \<Rightarrow> string \<Rightarrow> string option" where
  "latest_revision d i =
     (case last_row (sort_key cp_created_at (rows (\<lambda>c. cp_attempt c = i) (checkpoints d))) of
        None \<Rightarrow> None | Some c \<Rightarrow> cp_revision c)"

definition verify_recovery :: "attempt \<Rightarrow> attempt \<Rightarrow> string \<Rightarrow> string option \<Rightarrow> evidence res" where
  "verify_recovery prior recovery recorded fetched =
     (if at_state prior \<noteq> Expired \<or> at_generation recovery \<le> at_generation prior
      then Inl (conflict ''recovery_evidence_unverified'')
      else case fetched of
        None \<Rightarrow> Inl (conflict ''recovery_revision_required'')
      | Some f \<Rightarrow> if f \<noteq> recorded then Inl (conflict ''recovery_revision_mismatch'') else Inr Verified)"

definition attested :: "recovery_input \<Rightarrow> evidence res" where
  "attested ry = (if \<not> ry_saved_work_checked ry \<or> \<not> ry_running_jobs_checked ry then Inl bad_request else Inr Attested)"

definition establish :: "db \<Rightarrow> attempt \<Rightarrow> recovery_input \<Rightarrow> evidence res" where
  "establish d recovery ry =
     (case predecessor d recovery of
        None \<Rightarrow> attested ry
      | Some prior \<Rightarrow>
          (case latest_revision d (at_id prior) of
             Some recorded \<Rightarrow> verify_recovery prior recovery recorded (ry_fetched_revision ry)
           | None \<Rightarrow> attested ry))"

section \<open>Laws\<close>

lemma sorted_map_last_le:
  assumes "sorted (map f xs)" and "x \<in> set xs"
  shows "f x \<le> f (last xs)"
  using assms by (induction xs) auto

lemma last_row_sorted:
  assumes "last_row (sort_key f rs) = Some r"
  shows "r \<in> set rs" "\<forall>s \<in> set rs. f s \<le> f r"
proof -
  from assms have ne: "sort_key f rs \<noteq> []" and r: "r = last (sort_key f rs)"
    by (auto simp: last_row_def split: if_splits)
  show "r \<in> set rs" using last_in_set [OF ne] r by simp
  have "sorted (map f (sort_key f rs))" by simp
  then show "\<forall>s \<in> set rs. f s \<le> f r"
    using ne r by (metis set_sort sorted_map_last_le)
qed

lemma predecessor_Some:
  assumes "predecessor d a = Some b"
  shows "b \<in> set (attempts d)" "at_task b = at_task a" "at_generation b < at_generation a"
    "\<forall>c \<in> set (attempts d). at_project c = at_project a \<and> at_task c = at_task a \<and> at_generation c < at_generation a
       \<longrightarrow> at_generation c \<le> at_generation b"
  using last_row_sorted [OF assms [unfolded predecessor_def]] by (auto simp: rows_def)

text \<open>Verified evidence pins the recorded commit of an expired, older attempt.\<close>

lemma establish_verified:
  assumes "establish d a ry = Inr Verified"
  shows "\<exists>b rec. predecessor d a = Some b \<and> at_state b = Expired \<and> at_generation b < at_generation a
    \<and> latest_revision d (at_id b) = Some rec \<and> ry_fetched_revision ry = Some rec"
  using assms by (auto simp: establish_def verify_recovery_def attested_def split: option.splits if_splits)

lemma establish_attested:
  assumes "establish d a ry = Inr Attested"
  shows "ry_saved_work_checked ry \<and> ry_running_jobs_checked ry
    \<and> (\<forall>b. predecessor d a = Some b \<longrightarrow> latest_revision d (at_id b) = None)"
  using assms by (auto simp: establish_def verify_recovery_def attested_def split: option.splits if_splits)

end
