(* ===== verification/Leases.thy ===== *)
theory Leases
  imports Recovery_Evidence
begin

text \<open>
  Ownership of tasks (\<^verbatim>\<open>server/src/coordination.rs\<close>): acknowledging the instructions, claiming a
  task for work or recovery, renewing, checkpointing, releasing, resolving a recovery and
  registering a checkout. An attempt is a lease: it is bounded by the project's lease and maximum
  attempt durations, and every owner operation rechecks it (\<open>owned\<close>). The digest of the judged
  task fields is the parameter \<open>dig\<close>.
\<close>

definition INSTRUCTION_VERSION :: string where "INSTRUCTION_VERSION = ''12''"
definition REQUIRED_SECTION :: string where "REQUIRED_SECTION = ''coordination-v8''"
definition CLAIM_PAGE :: nat where "CLAIM_PAGE = 20"

record claim_input =
  cm_task :: "string option"
  cm_expected_revision :: "int option"
  cm_mode :: string
  cm_policy_revision :: int
  cm_instruction_version :: string

record checkpoint_input =
  ci_generation :: int
  ci_summary :: string
  ci_current_action :: string
  ci_next_step :: string
  ci_blockers :: "string list"
  ci_contributors :: "string list"
  ci_revision :: "string option"

record acknowledgment =
  ak_project :: string
  ak_policy_revision :: int
  ak_instruction_version :: string
  ak_sections :: "string list"

record checkout_input =
  ko_generation :: int
  ko_workstation :: string
  ko_identity :: string
  ko_path :: string
  ko_branch :: string
  ko_base_revision :: string
  ko_clean :: bool

fun status_as_str :: "work_status \<Rightarrow> string" where
  "status_as_str (Lifecycle_status Planned) = ''planned''"
| "status_as_str (Lifecycle_status Open) = ''open''"
| "status_as_str (Lifecycle_status Done) = ''done''"
| "status_as_str (Lifecycle_status Canceled) = ''canceled''"
| "status_as_str (Lifecycle_status Superseded) = ''superseded''"
| "status_as_str In_progress = ''in_progress''"
| "status_as_str Blocked_status = ''blocked''"
| "status_as_str Recovery_required = ''recovery_required''"
| "status_as_str Waiting_review = ''waiting_review''"
| "status_as_str Waiting_integration = ''waiting_integration''"
| "status_as_str Ready = ''ready''"
| "status_as_str Validating = ''validating''"
| "status_as_str Integrating = ''integrating''"

section \<open>Stored answers\<close>

fun json_get :: "string \<Rightarrow> json \<Rightarrow> json option" where
  "json_get k (JObj kvs) = map_of kvs k"
| "json_get k (JAttempt a) = (if k = ''id'' then Some (JStr (at_id a)) else None)"
| "json_get k _ = None"

text \<open>\<open>v[k] = x\<close> on an object; the stored answers of the lease handlers are objects.\<close>

fun json_put :: "string \<Rightarrow> json \<Rightarrow> json \<Rightarrow> json" where
  "json_put k x (JObj kvs) = JObj (filter (\<lambda>e. fst e \<noteq> k) kvs @ [(k, x)])"
| "json_put k x v = JObj [(k, x)]"

definition claimed_attempt_id :: "json \<Rightarrow> string option" where
  "claimed_attempt_id v =
     (case json_get ''claim'' v of
        None \<Rightarrow> None
      | Some c \<Rightarrow> (case json_get ''attempt'' c of
          None \<Rightarrow> None
        | Some a \<Rightarrow> (case json_get ''id'' a of Some (JStr i) \<Rightarrow> Some i | _ \<Rightarrow> None)))"

section \<open>Ownership\<close>

definition attempt_get :: "db \<Rightarrow> string \<Rightarrow> string \<Rightarrow> attempt res" where
  "attempt_get d p i = ok_or not_found (fetch (\<lambda>a. at_project a = p \<and> at_id a = i) (attempts d))"

definition owned :: "mutation \<Rightarrow> string \<Rightarrow> string \<Rightarrow> int \<Rightarrow> attempt res" where
  "owned m p i gen =
     (let d = m_db m; actor = m_actor m in
      and_then (attempt_get d p i) (\<lambda>a.
      if at_owner a \<noteq> ac_id actor \<or> Some (at_session a) \<noteq> ac_session actor \<or> at_credential a \<noteq> ac_credential actor
        then Inl forbidden
      else if at_generation a \<noteq> gen \<or> at_state a \<noteq> Active \<or> at_expires_at a \<le> m_now m
        then Inl (conflict ''lease_expired'')
      else and_then (task_get d p (at_task a) (m_now m)) (\<lambda>v.
        if tk_current_attempt (tv_task v) \<noteq> Some i \<or> tk_generation (tv_task v) \<noteq> gen \<or> \<not> tv_owner_authorized v
          then Inl (conflict ''lease_expired'')
        else Inr a)))"

definition attempt_limit :: "int \<Rightarrow> int \<Rightarrow> int" where
  "attempt_limit max_attempt_seconds created_at =
     (if max_attempt_seconds = 0 then i64_max
      else saturating_add created_at (saturating_mul max_attempt_seconds 1000))"

definition capped_renewal :: "int \<Rightarrow> int \<Rightarrow> attempt \<Rightarrow> int res" where
  "capped_renewal extension max_attempt_seconds a =
     (let limit = attempt_limit max_attempt_seconds (at_created_at a) in
      if at_expires_at a \<ge> limit then Inl (conflict ''attempt_duration_exceeded'')
      else Inr (min extension limit))"

definition renewed_expiry :: "project \<Rightarrow> attempt \<Rightarrow> int \<Rightarrow> int res" where
  "renewed_expiry proj a now = capped_renewal (now + pj_lease_seconds proj * 1000) (pj_max_attempt_seconds proj) a"

definition update_attempt :: "string \<Rightarrow> (attempt \<Rightarrow> attempt) \<Rightarrow> db \<Rightarrow> db" where
  "update_attempt i f d = d\<lparr>attempts := update_where (\<lambda>a. at_id a = i) f (attempts d)\<rparr>"

section \<open>Instructions\<close>

definition acknowledge :: "string \<Rightarrow> acknowledgment \<Rightarrow> mutation \<Rightarrow> outcome res" where
  "acknowledge session ak m =
     (let d = m_db m in
      if ac_kind (m_actor m) \<noteq> Agent \<or> ac_session (m_actor m) \<noteq> Some session then Inl forbidden
      else replay_or m (
      and_then (project_get d (ak_project ak)) (\<lambda>proj.
      if pj_archived_at proj \<noteq> None then Inl (conflict ''project_archived'')
      else if pj_policy_revision proj \<noteq> ak_policy_revision ak \<or> ak_instruction_version ak \<noteq> INSTRUCTION_VERSION
           \<or> ak_sections ak \<noteq> [REQUIRED_SECTION] then Inl (conflict ''policy_changed'')
      else
        let row = \<lparr>ia_session = session, ia_project = ak_project ak, ia_policy_revision = ak_policy_revision ak,
               ia_instruction_version = ak_instruction_version ak, ia_created_at = m_now m\<rparr>;
            same = (\<lambda>r. ia_session r = session \<and> ia_project r = ak_project ak) in
        finish m (d\<lparr>acknowledgments := (if exists_where same (acknowledgments d)
              then update_where same (\<lambda>_. row) (acknowledgments d) else insert_row row (acknowledgments d))\<rparr>)
          (JObj [(''acknowledged'', JBool True), (''policy_revision'', JInt (ak_policy_revision ak))])
          (Some (ak_project ak)) ''instructions.acknowledged'' session)))"

definition instructions_acknowledged :: "db \<Rightarrow> string \<Rightarrow> string \<Rightarrow> bool" where
  "instructions_acknowledged d session p \<longleftrightarrow>
     count_where (\<lambda>k. ia_session k = session \<and> ia_project k = p \<and> ia_instruction_version k = INSTRUCTION_VERSION
       \<and> exists_where (\<lambda>proj. pj_id proj = p
           \<and> (ia_policy_revision k = pj_policy_revision proj
              \<or> exists_where (\<lambda>v. pv_project v = p \<and> pv_revision v = ia_policy_revision k
                   \<and> pj_rules (pv_data v) = pj_rules proj) (policy_revisions d))) (projects d))
       (acknowledgments d) > 0"

section \<open>Choosing a task\<close>

definition claim_candidate :: "string \<Rightarrow> int \<Rightarrow> task_view \<Rightarrow> bool" where
  "claim_candidate mode now v \<longleftrightarrow>
     tk_archived_at (tv_task v) = None \<and> tk_lifecycle (tv_task v) = Open \<and> tv_workflow_activity_kind v = None
     \<and> (tv_workflow_phase v = None \<or> tv_workflow_phase v = Some Phase_revision_needed)
     \<and> tk_blocked_reason (tv_task v) = None \<and> tv_dependencies_ready v
     \<and> ((mode = ''work'' \<and> tv_objective_children_ready v \<and> tv_decisions_ready v \<and> tk_current_attempt (tv_task v) = None)
        \<or> (mode = ''recovery'' \<and> tk_current_attempt (tv_task v) \<noteq> None
           \<and> (is_some_and (tv_attempt_state v) (\<lambda>s. s \<noteq> Active) \<or> is_some_and (tv_attempt_expires v) (\<lambda>e. e \<le> now)
              \<or> \<not> tv_owner_authorized v)))"

definition claim_order :: "task_view \<Rightarrow> int \<times> int \<times> string" where
  "claim_order v = (tk_priority (tv_task v), tk_ready_since (tv_task v), tk_id (tv_task v))"

definition claim_queue :: "db \<Rightarrow> string \<Rightarrow> string \<Rightarrow> int \<Rightarrow> task_view list" where
  "claim_queue d p mode now = sort_key claim_order (rows (claim_candidate mode now) (visible d now p))"

text \<open>The tests of the loop of \<open>first_unparked\<close>.\<close>

definition unparked :: "db \<Rightarrow> actor \<Rightarrow> int \<Rightarrow> task_view \<Rightarrow> bool" where
  "unparked d a now v \<longleftrightarrow>
     (if is_mechanical d (tk_id (tv_task v)) then False
      else if tk_human_delivered (tv_task v) \<and> is_supervisor a then False
      else (tk_current_attempt (tv_task v) \<noteq> None \<or> ac_kind a \<noteq> Agent)
           \<or> \<not> revise_limit_reached d (tk_id (tv_task v)) now)"

fun first_unparked :: "db \<Rightarrow> actor \<Rightarrow> int \<Rightarrow> task_view list \<Rightarrow> task_view option" where
  "first_unparked d a now [] = None"
| "first_unparked d a now (v # vs) = (if unparked d a now v then Some v else first_unparked d a now vs)"

text \<open>\<open>LIMIT CLAIM_PAGE OFFSET page * CLAIM_PAGE\<close>\<close>

definition page_of :: "'a list \<Rightarrow> nat \<Rightarrow> 'a list" where
  "page_of xs page = take CLAIM_PAGE (drop (page * CLAIM_PAGE) xs)"

function next_page :: "db \<Rightarrow> actor \<Rightarrow> int \<Rightarrow> task_view list \<Rightarrow> nat \<Rightarrow> task_view option" where
  "next_page d a now queue page =
     (let candidates = page_of queue page in
      if candidates = [] then None
      else case first_unparked d a now candidates of
        Some v \<Rightarrow> Some v
      | None \<Rightarrow> next_page d a now queue (Suc page))"
  by pat_completeness auto

termination next_page
  by (relation "measure (\<lambda>(d, a, now, queue, page). length queue - page * CLAIM_PAGE)")
     (auto simp: page_of_def CLAIM_PAGE_def)

declare next_page.simps [simp del]

definition next_eligible :: "db \<Rightarrow> actor \<Rightarrow> string \<Rightarrow> string \<Rightarrow> int \<Rightarrow> task_view option" where
  "next_eligible d a p mode now = next_page d a now (claim_queue d p mode now) 0"

definition ensure_not_parked :: "db \<Rightarrow> actor \<Rightarrow> string \<Rightarrow> int \<Rightarrow> unit res" where
  "ensure_not_parked d a i now =
     (if ac_kind a = Agent \<and> revise_limit_reached d i now then Inl (conflict ''revise_limit_reached'') else Inr ())"

section \<open>Claiming\<close>

definition validate_claim :: "claim_input \<Rightarrow> unit res" where
  "validate_claim cm =
     (if cm_mode cm \<notin> set [''work'', ''recovery''] then Inl bad_request
      else if (cm_task cm \<noteq> None) \<noteq> (cm_expected_revision cm \<noteq> None) then Inl bad_request else Inr ())"

text \<open>The answer to a repeated claim reports the authority the attempt still has.\<close>

definition claim_replay :: "mutation \<Rightarrow> string \<Rightarrow> json \<Rightarrow> outcome res" where
  "claim_replay m p v =
     (let d = m_db m; now = m_now m in
      and_then (case claimed_attempt_id v of
          None \<Rightarrow> Inr v
        | Some i \<Rightarrow>
            and_then (attempt_get d p i) (\<lambda>a.
            and_then (task_get d p (at_task a) now) (\<lambda>t.
              let valid = (at_state a = Active \<and> at_expires_at a > now \<and> tv_owner_authorized t
                     \<and> (at_mode a = Recovery \<or> (tv_decisions_ready t \<and> tv_objective_children_ready t))
                     \<and> tk_current_attempt (tv_task t) = Some i);
                  remaining = (if valid then at_expires_at a - now else 0) in
              Inr (json_put ''renew_after_seconds'' (JInt (min 60 (rust_div remaining 3000)))
                (json_put ''current_authority'' (JObj [(''valid'', JBool valid), (''attempt'', JAttempt a),
                   (''task_status'', JStr (status_as_str (task_status t now))), (''lease_remaining_ms'', JInt remaining)]) v)))))
        (\<lambda>v'. Inr (Answered (json_put ''replayed'' (JBool True) v'))))"

definition human_delivery_required :: app_error where
  "human_delivery_required = \<lparr>status = FORBIDDEN, code = ''human_delivery_required'', gate = Some ''human_delivery''\<rparr>"

text \<open>The checks on the chosen task.\<close>

definition claim_checks :: "mutation \<Rightarrow> string \<Rightarrow> claim_input \<Rightarrow> task_view \<Rightarrow> unit res" where
  "claim_checks m p cm v =
     (let d = m_db m; t = tv_task v; now = m_now m in
      if tk_archived_at t \<noteq> None then Inl (conflict ''task_archived'')
      else if tk_human_delivered t \<and> is_supervisor (m_actor m) then Inl human_delivery_required
      else and_then (guard_normal_claim d p (tk_id t)) (\<lambda>_.
      and_then (ensure_not_mechanical d (tk_id t)) (\<lambda>_.
      and_then (if cm_mode cm = ''work'' then
          and_then (ensure_decisions_resolved d p (tk_id t) now) (\<lambda>_. ensure_not_parked d (m_actor m) (tk_id t) now)
        else Inr ()) (\<lambda>_.
      if is_some_and (cm_expected_revision cm) (\<lambda>r. r \<noteq> tk_revision t) then Inl (conflict ''revision_conflict'')
      else if task_status v now \<noteq> (if cm_mode cm = ''work'' then Ready else Recovery_required)
        then Inl (conflict ''claim_conflict'')
      else Inr ()))))"

definition recovery_began :: string where
  "recovery_began = ''Ownership expired or was revoked; recovery began.''"

definition expire_previous :: "int \<Rightarrow> string option \<Rightarrow> db \<Rightarrow> db" where
  "expire_previous now previous d =
     (case previous of
        None \<Rightarrow> d
      | Some i \<Rightarrow> d\<lparr>attempts := update_where (\<lambda>a. at_id a = i \<and> at_state a = Active)
          (\<lambda>a. a\<lparr>at_state := Expired, at_ended_at := Some now, at_outcome := Some recovery_began\<rparr>) (attempts d)\<rparr>)"

text \<open>The unique indexes of \<open>attempts\<close>: the id, (task, generation), and one active attempt per task.\<close>

definition attempt_clash :: "attempt \<Rightarrow> attempt \<Rightarrow> bool" where
  "attempt_clash a b \<longleftrightarrow> at_id a = at_id b \<or> (at_task a = at_task b \<and> at_generation a = at_generation b)
     \<or> (at_task a = at_task b \<and> at_state a = Active \<and> at_state b = Active)"

definition insert_attempt :: "attempt \<Rightarrow> db \<Rightarrow> db res" where
  "insert_attempt a d = and_then (insert_unique unique_violation attempt_clash a (attempts d))
     (\<lambda>as. Inr (d\<lparr>attempts := as\<rparr>))"

definition new_attempt :: "mutation \<Rightarrow> string \<Rightarrow> project \<Rightarrow> string \<Rightarrow> string \<Rightarrow> string \<Rightarrow> task \<Rightarrow> attempt" where
  "new_attempt m p proj uuid session mode t =
     \<lparr>at_id = uuid, at_project = p, at_task = tk_id t, at_owner = ac_id (m_actor m), at_session = session,
      at_credential = ac_credential (m_actor m), at_generation = tk_generation t + 1, at_state = Active,
      at_mode = (if mode = ''recovery'' then Recovery else Work),
      at_expires_at = min (m_now m + pj_lease_seconds proj * 1000) (attempt_limit (pj_max_attempt_seconds proj) (m_now m)),
      at_last_heartbeat_at = m_now m, at_last_progress_at = m_now m, at_created_at = m_now m, at_ended_at = None,
      at_outcome = None, at_task_revision = Some (tk_revision t), at_policy_revision = Some (pj_policy_revision proj)\<rparr>"

definition grant_claim :: "string \<Rightarrow> string \<Rightarrow> claim_input \<Rightarrow> mutation \<Rightarrow> project \<Rightarrow> string \<Rightarrow> task_view \<Rightarrow> outcome res" where
  "grant_claim uuid p cm m proj session v =
     (let t = tv_task v; now = m_now m; a = new_attempt m p proj uuid session (cm_mode cm) t in
      and_then (insert_attempt a (expire_previous now (tk_current_attempt t) (m_db m))) (\<lambda>d1.
      let d2 = record_contributor (tk_id t) (ac_id (m_actor m)) session now
             (update_task (tk_id t) (\<lambda>r. r\<lparr>tk_current_attempt := Some uuid, tk_generation := tk_generation t + 1\<rparr>) d1) in
      and_then (attempt_get d2 p uuid) (\<lambda>stored.
      and_then (task_get d2 p (tk_id t) now) (\<lambda>updated.
        let remaining = at_expires_at a - now in
        finish m d2 (JObj [(''claim'', JObj [(''task'', task_value updated now), (''attempt'', JAttempt stored),
             (''lease_remaining_ms'', JInt remaining)]),
             (''renew_after_seconds'', JInt (clamp64 1 60 (rust_div remaining 3000)))])
          (Some p) ''attempt.claimed'' uuid))))"

definition claim :: "string \<Rightarrow> string \<Rightarrow> claim_input \<Rightarrow> mutation \<Rightarrow> outcome res" where
  "claim uuid p cm m =
     (let d = m_db m; actor = m_actor m; now = m_now m in
      and_then (session_of actor) (\<lambda>session.
      and_then (project_get d p) (\<lambda>proj.
      case m_replay m of
        Some v \<Rightarrow> claim_replay m p v
      | None \<Rightarrow>
        if pj_archived_at proj \<noteq> None then Inl (conflict ''project_archived'')
        else if pj_policy_revision proj \<noteq> cm_policy_revision cm \<or> cm_instruction_version cm \<noteq> INSTRUCTION_VERSION
          then Inl (conflict ''policy_changed'')
        else if ac_kind actor = Agent \<and> \<not> instructions_acknowledged d session p
          then Inl (conflict ''instructions_required'')
        else if cm_mode cm = ''recovery'' \<and> pj_recovery_mode proj = Recovery_manual \<and> ac_kind actor \<noteq> Human
          then Inl (human_gate ''manual_recovery'')
        else and_then (case cm_task cm of
            Some i \<Rightarrow> and_then (task_get d p i now) (\<lambda>v. Inr (Some v))
          | None \<Rightarrow> Inr (next_eligible d actor p (cm_mode cm) now)) (\<lambda>chosen.
          case chosen of
            None \<Rightarrow> finish m d (JObj [(''claim'', JNull), (''retry_after_seconds'', JInt 30)]) (Some p) ''claim.empty'' p
          | Some v \<Rightarrow> and_then (claim_checks m p cm v) (\<lambda>_. grant_claim uuid p cm m proj session v)))))"

section \<open>Renewal\<close>

definition renew :: "string \<Rightarrow> string \<Rightarrow> int \<Rightarrow> mutation \<Rightarrow> outcome res" where
  "renew p i gen m =
     (let d = m_db m; now = m_now m in
      and_then (owned m p i gen) (\<lambda>current.
      case m_replay m of
        Some v \<Rightarrow>
          let left = max 0 (at_expires_at current - now) in
          Inr (Answered (json_put ''replayed'' (JBool True)
            (json_put ''renew_after_seconds'' (JInt (min 60 (rust_div left 3000)))
            (json_put ''lease_remaining_ms'' (JInt left) (json_put ''attempt'' (JAttempt current) v)))))
      | None \<Rightarrow>
          and_then (project_get d p) (\<lambda>proj.
          and_then (renewed_expiry proj current now) (\<lambda>expires.
          let d1 = update_attempt i (\<lambda>a. a\<lparr>at_expires_at := expires, at_last_heartbeat_at := now\<rparr>) d in
          and_then (attempt_get d1 p i) (\<lambda>a.
            let remaining = expires - now in
            finish m d1 (JObj [(''attempt'', JAttempt a), (''lease_remaining_ms'', JInt remaining),
                (''renew_after_seconds'', JInt (clamp64 1 60 (rust_div remaining 3000)))])
              (Some p) ''attempt.renewed'' i)))))"

section \<open>Checkpoints\<close>

definition registered_contributor :: "db \<Rightarrow> string \<Rightarrow> string \<Rightarrow> string \<Rightarrow> bool" where
  "registered_contributor d p who session \<longleftrightarrow>
     count_where (\<lambda>s. as_id s = session \<and> as_principal s = who
       \<and> exists_where (\<lambda>x. as_subagent_identity s = Some (si_id x) \<and> si_project x = p) (subagent_identities d))
       (agent_sessions d) > 0"

fun add_contributors :: "mutation \<Rightarrow> string \<Rightarrow> string \<Rightarrow> string list \<Rightarrow> db \<Rightarrow> db res" where
  "add_contributors m p task [] d = Inr d"
| "add_contributors m p task (s # ss) d =
     and_then (bounded s 128 True) (\<lambda>_.
     if \<not> registered_contributor d p (ac_id (m_actor m)) s then Inl bad_request
     else add_contributors m p task ss (record_contributor task (ac_id (m_actor m)) s (m_now m) d))"

definition add_checkpoint :: "string \<Rightarrow> mutation \<Rightarrow> string \<Rightarrow> string \<Rightarrow> checkpoint_input \<Rightarrow> db \<Rightarrow> (json \<times> db) res" where
  "add_checkpoint uuid m p i ci d =
     (if length (ci_contributors ci) > 50 then Inl bad_request
      else and_then (attempt_get d p i) (\<lambda>a.
      and_then (add_contributors m p (at_task a) (ci_contributors ci) d) (\<lambda>d1.
      let row = \<lparr>cp_id = uuid, cp_project = p, cp_attempt = i, cp_summary = ci_summary ci,
            cp_current_action = ci_current_action ci, cp_next_step = ci_next_step ci, cp_blockers = ci_blockers ci,
            cp_created_at = m_now m, cp_revision = ci_revision ci\<rparr> in
      and_then (insert_unique unique_violation (\<lambda>a b. cp_id a = cp_id b) row (checkpoints d1)) (\<lambda>cs.
        Inr (JCheckpoint row (ci_contributors ci),
             update_attempt i (\<lambda>a. a\<lparr>at_last_progress_at := m_now m\<rparr>) (d1\<lparr>checkpoints := cs\<rparr>))))))"

definition validate_checkpoint :: "checkpoint_input \<Rightarrow> unit res" where
  "validate_checkpoint ci =
     and_then (bounded (ci_summary ci) 8192 True) (\<lambda>_.
     and_then (bounded (ci_current_action ci) 4096 False) (\<lambda>_.
     and_then (bounded (ci_next_step ci) 4096 False) (\<lambda>_.
     if length (ci_blockers ci) > 50 then Inl bad_request
     else and_then (check_all (\<lambda>b. bounded b 2048 True) (ci_blockers ci)) (\<lambda>_. validate_revision (ci_revision ci)))))"

definition checkpoint :: "string \<Rightarrow> string \<Rightarrow> string \<Rightarrow> checkpoint_input \<Rightarrow> mutation \<Rightarrow> outcome res" where
  "checkpoint uuid p i ci m =
     and_then (owned m p i (ci_generation ci)) (\<lambda>_.
     replay_or m (
     and_then (add_checkpoint uuid m p i ci (m_db m)) (\<lambda>(value, d1).
       finish m d1 value (Some p) ''attempt.checkpointed'' i)))"

section \<open>Release and recovery\<close>

definition release :: "string \<Rightarrow> string \<Rightarrow> string \<Rightarrow> int \<Rightarrow> string \<Rightarrow> bool \<Rightarrow> mutation \<Rightarrow> outcome res" where
  "release uuid p i gen summary blocked m =
     (let d = m_db m; now = m_now m in
      replay_or m (
      and_then (owned m p i gen) (\<lambda>a.
      and_then (guard_release_or_recovery d p (at_task a)) (\<lambda>_.
      and_then (if blocked then Inr () else ensure_attempt_quiescent d p (at_task a)) (\<lambda>_.
      if at_mode a = Recovery \<and> \<not> blocked then Inl (conflict ''recovery_unresolved'')
      else and_then (add_checkpoint uuid m p i \<lparr>ci_generation = gen, ci_summary = summary, ci_current_action = [],
             ci_next_step = [], ci_blockers = (if blocked then [summary] else []), ci_contributors = [],
             ci_revision = None\<rparr> d) (\<lambda>(_, d1).
      let d2 = update_task (at_task a) (\<lambda>t. t\<lparr>tk_current_attempt := None,
                 tk_blocked_reason := (if blocked then Some summary else None), tk_ready_since := now\<rparr>)
               (update_attempt i (\<lambda>x. x\<lparr>at_state := (if blocked then Blocked else Released), at_ended_at := Some now,
                 at_outcome := Some summary\<rparr>) d1) in
      and_then (task_get d2 p (at_task a) now) (\<lambda>v.
        finish m d2 (JObj [(''task'', task_value v now), (''released'', JBool True)]) (Some p) ''attempt.released'' i)))))))"

definition validate_recovery :: "recovery_input \<Rightarrow> unit res" where
  "validate_recovery ry =
     and_then (bounded (ry_summary ry) 8192 True) (\<lambda>_.
     if ry_disposition ry \<notin> set [''resume'', ''restart''] then Inl bad_request
     else validate_revision (ry_fetched_revision ry))"

definition recovery_resolution :: "string \<Rightarrow> string \<Rightarrow> string \<Rightarrow> recovery_input \<Rightarrow> mutation \<Rightarrow> outcome res" where
  "recovery_resolution uuid p i ry m =
     (let d = m_db m in
      and_then (owned m p i (ry_generation ry)) (\<lambda>a.
      and_then (guard_release_or_recovery d p (at_task a)) (\<lambda>_.
      and_then (ensure_decisions_resolved d p (at_task a) (m_now m)) (\<lambda>_.
      replay_or m (
      if at_mode a \<noteq> Recovery then Inl (conflict ''not_recovering'')
      else and_then (ensure_attempt_quiescent d p (at_task a)) (\<lambda>_.
      and_then (establish d a ry) (\<lambda>ev.
      and_then (add_checkpoint uuid m p i \<lparr>ci_generation = ry_generation ry, ci_summary = ry_summary ry,
          ci_current_action = ''Recovery disposition: '' @ ry_disposition ry,
          ci_next_step = ''Prepare an isolated checkout before continuing.'', ci_blockers = [],
          ci_contributors = [], ci_revision = None\<rparr> d) (\<lambda>(_, d1).
      let d2 = update_attempt i (\<lambda>x. x\<lparr>at_mode := Work\<rparr>) d1 in
      and_then (attempt_get d2 p i) (\<lambda>updated.
        finish m d2 (JObj [(''attempt'', JAttempt updated), (''disposition'', JStr (ry_disposition ry)),
            (''evidence'', JStr (evidence_label ev))]) (Some p) ''recovery.resolved'' i)))))))))"

section \<open>Checkouts\<close>

text \<open>
  The rows \<open>activity_context\<close> joins, the digest it computes and the roster the activity validates
  checks against: the one of its publication intent, else the current one (0 for general
  work). \<open>pins_current\<close> reads them.
\<close>

record activity_context =
  cx_activity :: workflow_activity
  cx_subject :: workflow_subject
  cx_submission :: submission
  cx_project :: project
  cx_digest :: string
  cx_roster :: int

definition roster_revision :: "db \<Rightarrow> workflow_activity \<Rightarrow> submission \<Rightarrow> int" where
  "roster_revision d w s =
     (if sb_kind s \<noteq> Code then 0
      else case fetch (\<lambda>x. pi_activity x = wa_id w) (publication_intents d) of
        Some x \<Rightarrow> unwrap_or (pi_roster_revision x) (sb_workflow_policy s)
      | None \<Rightarrow> (case fetch (\<lambda>x. wp_project x = wa_project w) (workflow_policies d) of
            Some x \<Rightarrow> wp_revision x
          | None \<Rightarrow> sb_workflow_policy s))"

definition activity_context_get ::
  "(string \<times> string \<times> string list \<times> task_kind \<Rightarrow> string) \<Rightarrow> db \<Rightarrow> string \<Rightarrow> string \<Rightarrow> activity_context res" where
  "activity_context_get dig d p i =
     and_then (ok_or not_found (fetch (\<lambda>w. wa_project w = p \<and> wa_id w = i) (workflow_activities d))) (\<lambda>w.
     and_then (ok_or not_found (fetch (\<lambda>s. ws_task s = wa_subject_task w) (workflow_subjects d))) (\<lambda>ws.
     and_then (ok_or not_found (fetch (\<lambda>s. sb_id s = wa_submission w) (submissions d))) (\<lambda>sb.
     and_then (ok_or not_found (fetch (\<lambda>x. pj_id x = wa_project w) (projects d))) (\<lambda>proj.
     and_then (ok_or not_found (fetch (\<lambda>t. tk_id t = wa_subject_task w) (tasks d))) (\<lambda>t.
       Inr \<lparr>cx_activity = w, cx_subject = ws, cx_submission = sb, cx_project = proj,
            cx_digest = dig (judged_fields t), cx_roster = roster_revision d w sb\<rparr>)))))"

definition pins_current :: "activity_context \<Rightarrow> bool" where
  "pins_current cx \<longleftrightarrow> wa_submission (cx_activity cx) = ws_current_submission (cx_subject cx)
     \<and> sb_superseded_at (cx_submission cx) = None
     \<and> is_none_or (sb_task_digest (cx_submission cx)) (\<lambda>x. x = cx_digest cx)"

definition guard_activity_work ::
  "(string \<times> string \<times> string list \<times> task_kind \<Rightarrow> string) \<Rightarrow> db \<Rightarrow> string \<Rightarrow> string \<Rightarrow> int \<Rightarrow> unit res" where
  "guard_activity_work dig d p i now =
     and_then (ensure_decisions_resolved d p i now) (\<lambda>_.
     case fetch (\<lambda>w. wa_project w = p \<and> wa_activity_task w = i
            \<and> exists_where (\<lambda>t. tk_id t = wa_activity_task w) (tasks d)) (workflow_activities d) of
       None \<Rightarrow> Inr ()
     | Some w \<Rightarrow>
         let current = (case fetch (\<lambda>t. tk_id t = wa_activity_task w) (tasks d) of
               None \<Rightarrow> None | Some t \<Rightarrow> tk_current_attempt t);
             expires = (case current of None \<Rightarrow> None
               | Some x \<Rightarrow> map_option at_expires_at (fetch (\<lambda>a. at_id a = x) (attempts d))) in
         and_then (ensure_decisions_resolved d p (wa_subject_task w) now) (\<lambda>_.
         and_then (activity_context_get dig d p (wa_id w)) (\<lambda>cx.
         if wa_state w \<noteq> Act_active \<or> \<not> pins_current cx \<or> current = None \<or> is_none_or expires (\<lambda>e. e \<le> now)
           then Inl (conflict ''workflow_authority_lost'')
         else if count_where (\<lambda>r. ir_activity r = wa_id w) (integration_results d) > 0
           then Inl (conflict ''integration_result_recorded'')
         else Inr ())))"

definition validate_checkout :: "checkout_input \<Rightarrow> unit res" where
  "validate_checkout ko =
     and_then (check_all (\<lambda>v. bounded v 4096 True)
       [ko_workstation ko, ko_identity ko, ko_path ko, ko_branch ko, ko_base_revision ko]) (\<lambda>_.
     if \<not> ko_clean ko then Inl (conflict ''dirty_checkout'') else Inr ())"

definition register_checkout ::
  "(string \<times> string \<times> string list \<times> task_kind \<Rightarrow> string) \<Rightarrow> string \<Rightarrow> string \<Rightarrow> checkout_input \<Rightarrow> mutation \<Rightarrow> outcome res" where
  "register_checkout dig p i ko m =
     and_then (owned m p i (ko_generation ko)) (\<lambda>a.
     and_then (guard_activity_work dig (m_db m) p (at_task a) (m_now m)) (\<lambda>_.
     let d = record_contributor (at_task a) (ac_id (m_actor m)) (at_session a) (m_now m) (m_db m) in
     replay_or m (
     if at_mode a = Recovery then Inl (conflict ''recovery_unresolved'')
     else and_then (ensure_attempt_quiescent d p (at_task a)) (\<lambda>_.
     and_then (if ac_kind (m_actor m) = Agent then
         and_then (ok_or row_not_found (fetch (\<lambda>s. as_id s = at_session a) (agent_sessions d))) (\<lambda>s.
           if as_workstation s \<noteq> ko_workstation ko then Inl forbidden else Inr ())
       else Inr ()) (\<lambda>_.
     if count_where (\<lambda>c. co_workstation c = ko_workstation ko \<and> co_identity c = ko_identity ko \<and> co_attempt c \<noteq> i
          \<and> exists_where (\<lambda>x. at_id x = co_attempt c \<and> (at_state x = Active \<or> at_state x = Expired)) (attempts d))
          (checkouts d) > 0 then Inl (conflict ''checkout_in_use'')
     else if count_where (\<lambda>c. co_attempt c = i) (checkouts d) > 0 then Inl (conflict ''checkout_registered'')
     else and_then (insert_unique unique_violation (\<lambda>a b. co_attempt a = co_attempt b)
         \<lparr>co_attempt = i, co_project = p, co_workstation = ko_workstation ko, co_identity = ko_identity ko,
          co_path = ko_path ko, co_branch = ko_branch ko, co_base_revision = ko_base_revision ko,
          co_created_at = m_now m\<rparr> (checkouts d)) (\<lambda>cs.
       finish m (d\<lparr>checkouts := cs\<rparr>) (JObj [(''attempt_id'', JStr i), (''path'', JStr (ko_path ko))])
         (Some p) ''checkout.registered'' i))))))"

end
