(* ===== verification/Lease_Invariant.thy ===== *)
theory Lease_Invariant
  imports Tasks Leases
begin

text \<open>
  The invariant of ownership: every attempt belongs to its task and never has a higher generation
  than it, each generation of a task was granted to exactly one attempt, a task has at most one
  active attempt, which has the task's generation and is its current one while the task is open, and
  a current attempt exists. It gives exclusive ownership and fencing;
  every lease, task and workflow handler and the clock keep it.
\<close>

section \<open>The invariant\<close>

text \<open>An active attempt is its task's current one, unless the task was closed under it.\<close>

definition attempt_ok :: "attempt \<Rightarrow> task \<Rightarrow> bool" where
  "attempt_ok a t \<longleftrightarrow> tk_id t = at_task a \<and> tk_project t = at_project a \<and> at_generation a \<le> tk_generation t
     \<and> 0 < at_generation a \<and> (at_state a = Active \<longrightarrow> at_generation a = tk_generation t
          \<and> (tk_current_attempt t = Some (at_id a) \<or> tk_current_attempt t = None \<and> closed t))"

text \<open>The generation of a task counts its grants: a positive one belongs to an attempt.\<close>

definition granted_ok :: "attempt list \<Rightarrow> task \<Rightarrow> bool" where
  "granted_ok as t \<longleftrightarrow> 0 \<le> tk_generation t
     \<and> (0 < tk_generation t \<longrightarrow> (\<exists>a \<in> set as. at_task a = tk_id t \<and> at_generation a = tk_generation t))"

definition current_ok :: "attempt list \<Rightarrow> task \<Rightarrow> bool" where
  "current_ok as t \<longleftrightarrow> (\<forall>i. tk_current_attempt t = Some i \<longrightarrow>
     (\<exists>a \<in> set as. at_id a = i \<and> at_task a = tk_id t \<and> at_generation a = tk_generation t))"

definition one_active :: "attempt list \<Rightarrow> bool" where
  "one_active as \<longleftrightarrow> (\<forall>a \<in> set as. \<forall>b \<in> set as. at_state a = Active \<longrightarrow> at_state b = Active \<longrightarrow> at_task a = at_task b \<longrightarrow> a = b)"

definition leases_ok :: "db \<Rightarrow> bool" where
  "leases_ok d \<longleftrightarrow> unique_by tk_id (tasks d) \<and> unique_by at_id (attempts d)
     \<and> unique_by (\<lambda>a. (at_task a, at_generation a)) (attempts d) \<and> one_active (attempts d)
     \<and> (\<forall>a \<in> set (attempts d). \<exists>t \<in> set (tasks d). attempt_ok a t)
     \<and> (\<forall>t \<in> set (tasks d). current_ok (attempts d) t \<and> granted_ok (attempts d) t)"

text \<open>Exclusive ownership: a task has at most one active attempt, and an open task names it.\<close>

lemma attempt_task:
  assumes "leases_ok d" and "a \<in> set (attempts d)" and "t \<in> set (tasks d)" and "tk_id t = at_task a"
  shows "attempt_ok a t"
proof -
  from assms(1,2) obtain u where u: "u \<in> set (tasks d)" "attempt_ok a u" by (auto simp: leases_ok_def)
  then have "u = t"
    using assms(1,3,4) unique_row [of tk_id "tasks d" u t] by (auto simp: leases_ok_def attempt_ok_def)
  with u(2) show ?thesis by simp
qed

lemma active_current:
  assumes "leases_ok d" and "a \<in> set (attempts d)" and "at_state a = Active"
    and "t \<in> set (tasks d)" and "tk_id t = at_task a" and "\<not> closed t \<or> tk_current_attempt t \<noteq> None"
  shows "tk_current_attempt t = Some (at_id a) \<and> tk_generation t = at_generation a"
  using attempt_task [OF assms(1,2,4,5)] assms(3,6) by (auto simp: attempt_ok_def)

lemma active_exclusive:
  assumes "leases_ok d" and "a \<in> set (attempts d)" "at_state a = Active"
    and "b \<in> set (attempts d)" "at_state b = Active" and "at_task a = at_task b"
  shows "a = b"
  using assms by (auto simp: leases_ok_def one_active_def)

section \<open>Changes that keep it\<close>

lemma key_image:
  assumes "map task_key xs = map task_key ys" and "t \<in> set xs"
  shows "\<exists>u \<in> set ys. task_key u = task_key t"
proof -
  from assms(1) have "task_key ` set xs = task_key ` set ys" by (metis list.set_map)
  with assms(2) show ?thesis by (metis image_eqI imageE)
qed

lemma attempt_ok_key: "task_key u = task_key t \<Longrightarrow> closed t \<longrightarrow> closed u \<Longrightarrow> attempt_ok a t \<Longrightarrow> attempt_ok a u"
  by (auto simp: task_key_def attempt_ok_def)

lemma current_ok_key: "task_key u = task_key t \<Longrightarrow> current_ok as u = current_ok as t"
  by (auto simp: task_key_def current_ok_def)

lemma granted_ok_key: "task_key u = task_key t \<Longrightarrow> granted_ok as u = granted_ok as t"
  by (auto simp: task_key_def granted_ok_def)

lemma stays_closed_row:
  assumes "stays_closed ts us" and "unique_by tk_id us" and "t \<in> set ts" "closed t" and "u \<in> set us" "tk_id u = tk_id t"
  shows "closed u"
proof -
  from assms(1,3,4) obtain v where "v \<in> set us" "tk_id v = tk_id t" "closed v" by (auto simp: stays_closed_def)
  with assms(2,5,6) unique_row [of tk_id us v u] show ?thesis by simp
qed

lemma leases_ok_keys:
  assumes ok: "leases_ok d" and keys: "map task_key (tasks d') = map task_key (tasks d)"
    and cl: "stays_closed (tasks d) (tasks d')" and as: "attempts d' = attempts d"
  shows "leases_ok d'"
proof -
  have un: "unique_by tk_id (tasks d')" using ok keys by (simp add: leases_ok_def unique_by_key)
  have "\<exists>u \<in> set (tasks d'). attempt_ok a u" if a: "a \<in> set (attempts d)" for a
  proof -
    from ok a obtain t where t: "t \<in> set (tasks d)" "attempt_ok a t" by (auto simp: leases_ok_def)
    from key_image [OF keys [symmetric] t(1)] obtain u where u: "u \<in> set (tasks d')" "task_key u = task_key t" by blast
    moreover from u(2) have "tk_id u = tk_id t" by (simp add: task_key_def)
    with stays_closed_row [OF cl un t(1) _ u(1)] have "closed t \<longrightarrow> closed u" by blast
    ultimately show ?thesis using t(2) attempt_ok_key by blast
  qed
  moreover have "current_ok (attempts d) t \<and> granted_ok (attempts d) t" if "t \<in> set (tasks d')" for t
    using ok key_image [OF keys that] current_ok_key granted_ok_key unfolding leases_ok_def by metis
  ultimately show ?thesis using ok un as by (simp add: leases_ok_def)
qed

lemma leases_ok_quiet: "leases_ok d \<Longrightarrow> quiet d d' \<Longrightarrow> leases_ok d'"
  by (rule leases_ok_keys) (auto simp: quiet_def leases_ok_def)

lemma leases_ok_receipts: "leases_ok d \<Longrightarrow> leases_ok (d\<lparr>receipts := rs, events := es\<rparr>)"
  by (simp add: leases_ok_def)

lemma leases_ok_insert_task:
  assumes ok: "leases_ok d" and fresh: "tk_id t \<notin> tk_id ` set (tasks d)" and cur: "tk_current_attempt t = None" "tk_generation t = 0"
  shows "leases_ok (d\<lparr>tasks := insert_row t (tasks d)\<rparr>)"
proof -
  have "\<forall>s \<in> set (tasks d). tk_id s \<noteq> tk_id t" using fresh by (metis imageI)
  then have "unique_by tk_id (insert_row t (tasks d))" using ok by (simp add: leases_ok_def)
  moreover have "current_ok (attempts d) t \<and> granted_ok (attempts d) t" using cur by (simp add: current_ok_def granted_ok_def)
  ultimately show ?thesis using ok by (auto simp: leases_ok_def)
qed

lemma leases_ok_creates:
  assumes ok: "leases_ok d" and c: "creates (i, p, 0, None, b) d d'"
  shows "leases_ok d'"
proof -
  from c have keys: "map task_key (tasks d') = map task_key (tasks d) @ [(i, p, 0, None, b)]"
    and fresh: "i \<notin> tk_id ` set (tasks d)" and att: "attempts d' = attempts d"
    by (auto simp: creates_def)
  then obtain ts t where ts: "tasks d' = ts @ [t]" "map task_key ts = map task_key (tasks d)"
    and t: "task_key t = (i, p, 0, None, b)"
    by (auto simp: map_eq_append_conv)
  have kept: "stays_closed (tasks d) ts"
    unfolding stays_closed_def
  proof (intro ballI impI)
    fix u assume u: "u \<in> set (tasks d)" "closed u"
    with ok c obtain v where v: "v \<in> set (tasks d')" "tk_id v = tk_id u" "closed v"
      by (auto simp: creates_def leases_ok_def stays_closed_def)
    moreover have "tk_id t \<noteq> tk_id u" using fresh t u(1) by (auto simp: task_key_def)
    ultimately show "\<exists>w \<in> set ts. tk_id w = tk_id u \<and> closed w" using ts(1) by auto
  qed
  have e: "leases_ok (d\<lparr>tasks := ts\<rparr>)" by (rule leases_ok_keys [OF ok]) (simp_all add: ts(2) kept)
  have "tk_id ` set ts = tk_id ` set (tasks d)"
  proof -
    have "fst ` set (map task_key ts) = fst ` set (map task_key (tasks d))" by (simp only: ts(2))
    then show ?thesis by (simp add: image_image task_key_def)
  qed
  with fresh t have "leases_ok (d\<lparr>tasks := ts\<rparr>\<lparr>tasks := insert_row t (tasks (d\<lparr>tasks := ts\<rparr>))\<rparr>)"
    by (intro leases_ok_insert_task [OF e]) (auto simp: task_key_def)
  then show ?thesis using ts(1) att by (simp add: leases_ok_def insert_row_def)
qed

text \<open>Attempts whose identity columns stay and that are not made active.\<close>

lemma leases_ok_attempts:
  assumes ok: "leases_ok d"
    and keep: "\<And>a. a \<in> set (attempts d) \<Longrightarrow> P a \<Longrightarrow> at_id (f a) = at_id a \<and> at_task (f a) = at_task a \<and> at_project (f a) = at_project a
                   \<and> at_generation (f a) = at_generation a \<and> (at_state (f a) = Active \<longrightarrow> at_state a = Active)"
  shows "leases_ok (d\<lparr>attempts := update_where P f (attempts d)\<rparr>)"
proof -
  let ?as = "update_where P f (attempts d)"
  have row: "\<exists>b \<in> set (attempts d). a = (if P b then f b else b) \<and> at_id a = at_id b \<and> at_task a = at_task b
      \<and> at_project a = at_project b \<and> at_generation a = at_generation b \<and> (at_state a = Active \<longrightarrow> at_state b = Active)"
    if "a \<in> set ?as" for a
    using that keep by (auto simp: table_simps)
  have "map at_id ?as = map at_id (attempts d)" using keep by (intro map_update_stable) auto
  then have "unique_by at_id ?as" using ok by (simp add: leases_ok_def unique_by_def)
  moreover have "map (\<lambda>a. (at_task a, at_generation a)) ?as = map (\<lambda>a. (at_task a, at_generation a)) (attempts d)"
    using keep by (intro map_update_stable) auto
  then have "unique_by (\<lambda>a. (at_task a, at_generation a)) ?as" using ok by (simp add: leases_ok_def unique_by_def)
  moreover have "granted_ok ?as t" if t: "t \<in> set (tasks d)" for t
    unfolding granted_ok_def
  proof (intro conjI impI)
    from ok t show "0 \<le> tk_generation t" by (simp add: leases_ok_def granted_ok_def)
    assume "0 < tk_generation t"
    with ok t obtain a where "a \<in> set (attempts d)" "at_task a = tk_id t" "at_generation a = tk_generation t"
      unfolding leases_ok_def granted_ok_def by blast
    with keep [of a] show "\<exists>a \<in> set ?as. at_task a = tk_id t \<and> at_generation a = tk_generation t"
      by (intro bexI [of _ "if P a then f a else a"]) (auto simp: table_simps)
  qed
  moreover have "one_active ?as"
    unfolding one_active_def
  proof (intro ballI impI)
    fix x y assume "x \<in> set ?as" "y \<in> set ?as" and act: "at_state x = Active" "at_state y = Active" "at_task x = at_task y"
    with row obtain a b where "a \<in> set (attempts d)" "x = (if P a then f a else a)" "at_task x = at_task a" "at_state a = Active"
      "b \<in> set (attempts d)" "y = (if P b then f b else b)" "at_task y = at_task b" "at_state b = Active" by metis
    with act(3) active_exclusive [OF ok, of a b] show "x = y" by simp
  qed
  moreover have "\<exists>t \<in> set (tasks d). attempt_ok a t" if "a \<in> set ?as" for a
  proof -
    from row [OF that] obtain b where b: "b \<in> set (attempts d)" "at_id a = at_id b" "at_task a = at_task b"
      "at_project a = at_project b" "at_generation a = at_generation b" "at_state a = Active \<longrightarrow> at_state b = Active" by blast
    with ok obtain t where "t \<in> set (tasks d)" "attempt_ok b t" by (auto simp: leases_ok_def)
    with b show ?thesis by (auto simp: attempt_ok_def)
  qed
  moreover have "current_ok ?as t" if t: "t \<in> set (tasks d)" for t
    unfolding current_ok_def
  proof (intro allI impI)
    fix i assume "tk_current_attempt t = Some i"
    with ok t obtain a where "a \<in> set (attempts d)" "at_id a = i" "at_task a = tk_id t" "at_generation a = tk_generation t"
      unfolding leases_ok_def current_ok_def by blast
    with keep [of a] show "\<exists>a \<in> set ?as. at_id a = i \<and> at_task a = tk_id t \<and> at_generation a = tk_generation t"
      by (intro bexI [of _ "if P a then f a else a"]) (auto simp: table_simps)
  qed
  ultimately show ?thesis using ok by (simp add: leases_ok_def)
qed

text \<open>
  Task rows may be closed, and their current attempt cleared where no attempt of theirs is active
  or the row is closed.
\<close>

definition task_change :: "attempt list \<Rightarrow> task \<Rightarrow> task \<Rightarrow> bool" where
  "task_change as t u \<longleftrightarrow> tk_id u = tk_id t \<and> tk_project u = tk_project t \<and> tk_generation u = tk_generation t
     \<and> (closed t \<longrightarrow> closed u) \<and> (tk_current_attempt u = tk_current_attempt t
        \<or> tk_current_attempt u = None \<and> (closed u \<or> (\<forall>a \<in> set as. at_task a = tk_id t \<longrightarrow> at_state a \<noteq> Active)))"

lemma leases_ok_tasks:
  assumes ok: "leases_ok d" and ch: "\<And>t. t \<in> set (tasks d) \<Longrightarrow> P t \<Longrightarrow> task_change (attempts d) t (g t)"
  shows "leases_ok (d\<lparr>tasks := update_where P g (tasks d)\<rparr>)"
proof -
  let ?ts = "update_where P g (tasks d)"
  have row: "task_change (attempts d) t (if P t then g t else t)" if "t \<in> set (tasks d)" for t
    using ch that by (auto simp: task_change_def)
  have "map tk_id ?ts = map tk_id (tasks d)" using ch by (intro map_update_stable) (auto simp: task_change_def)
  then have "unique_by tk_id ?ts" using ok by (simp add: leases_ok_def unique_by_def)
  moreover have "\<exists>u \<in> set ?ts. attempt_ok a u" if a: "a \<in> set (attempts d)" for a
  proof -
    from ok a obtain t where t: "t \<in> set (tasks d)" "attempt_ok a t" by (auto simp: leases_ok_def)
    with a row [OF t(1)] have "attempt_ok a (if P t then g t else t)" by (auto simp: attempt_ok_def task_change_def)
    with t(1) show ?thesis by (intro bexI [of _ "if P t then g t else t"]) (auto simp: table_simps)
  qed
  moreover have "current_ok (attempts d) u \<and> granted_ok (attempts d) u" if u: "u \<in> set ?ts" for u
  proof -
    from u obtain t where t: "t \<in> set (tasks d)" "u = (if P t then g t else t)" by (auto simp: table_simps)
    with row [OF t(1)] have "tk_id u = tk_id t" "tk_generation u = tk_generation t"
      "tk_current_attempt u = tk_current_attempt t \<or> tk_current_attempt u = None" by (auto simp: task_change_def)
    with ok t(1) show ?thesis unfolding leases_ok_def current_ok_def granted_ok_def by auto
  qed
  ultimately show ?thesis using ok by (simp add: leases_ok_def)
qed

lemma leases_ok_sample: "leases_ok d \<Longrightarrow> leases_ok (sample_tables ts rt d)"
proof -
  assume ok: "leases_ok d"
  have "leases_ok (d\<lparr>attempts := attempts (sample_tables ts rt d)\<rparr>)"
  proof (cases "clock_rollback ts rt d")
    case True
    then show ?thesis
      unfolding sample_tables_attempts if_P [OF True]
      by (intro leases_ok_attempts [OF ok]) (simp add: expire_on_rollback_def)
  qed (simp add: sample_tables_attempts ok)
  then show ?thesis by (simp add: leases_ok_def)
qed

text \<open>Granting a task: its unique indexes admit the new attempt, which the task then names.\<close>

lemma leases_ok_grant:
  assumes ok: "leases_ok d" and t: "t \<in> set (tasks d)"
    and n: "at_task n = tk_id t" "at_project n = tk_project t" "at_generation n = tk_generation t + 1" "at_state n = Active"
    and free: "\<forall>a \<in> set (attempts d). \<not> attempt_clash n a"
  shows "leases_ok (d\<lparr>attempts := insert_row n (attempts d), tasks := update_where (\<lambda>r. tk_id r = tk_id t)
           (\<lambda>r. r\<lparr>tk_current_attempt := Some (at_id n), tk_generation := tk_generation t + 1\<rparr>) (tasks d)\<rparr>)"
    (is "leases_ok ?d")
proof -
  let ?up = "\<lambda>r. if tk_id r = tk_id t then r\<lparr>tk_current_attempt := Some (at_id n), tk_generation := tk_generation t + 1\<rparr> else r"
  have ts: "set (tasks ?d) = ?up ` set (tasks d)" by (simp add: table_simps)
  have same: "r = t" if "r \<in> set (tasks d)" "tk_id r = tk_id t" for r
    using ok that t by (auto simp: leases_ok_def dest: unique_row)
  have idle: "at_state a \<noteq> Active" if "a \<in> set (attempts d)" "at_task a = tk_id t" for a
    using free that n by (auto simp: attempt_clash_def)
  have "unique_by at_id (attempts ?d)" "unique_by tk_id (tasks ?d)"
    using ok free by (auto simp: leases_ok_def attempt_clash_def)
  moreover have "unique_by (\<lambda>a. (at_task a, at_generation a)) (attempts ?d)"
    using ok free by (auto simp: leases_ok_def attempt_clash_def)
  moreover have "granted_ok (attempts ?d) u" if u: "u \<in> set (tasks ?d)" for u
  proof -
    from u ts obtain r where r: "r \<in> set (tasks d)" "u = ?up r" by blast
    with ok t n show ?thesis by (auto simp: granted_ok_def leases_ok_def)
  qed
  moreover have "one_active (attempts ?d)"
    using ok idle n by (auto simp: leases_ok_def one_active_def)
  moreover have "\<exists>u \<in> set (tasks ?d). attempt_ok a u" if a: "a \<in> set (attempts ?d)" for a
  proof (cases "a = n")
    case True
    moreover have "0 \<le> tk_generation t" using ok t by (simp add: leases_ok_def granted_ok_def)
    ultimately show ?thesis using t n unfolding ts by (intro bexI [of _ "?up t"]) (auto simp: attempt_ok_def)
  next
    case False
    with a have a': "a \<in> set (attempts d)" by simp
    with ok obtain u where u: "u \<in> set (tasks d)" "attempt_ok a u" by (auto simp: leases_ok_def)
    have "attempt_ok a (?up u)"
      using u(2) idle [OF a'] same [OF u(1)] by (auto simp: attempt_ok_def closed_def)
    with u(1) show ?thesis unfolding ts by blast
  qed
  moreover have "current_ok (attempts ?d) u" if u: "u \<in> set (tasks ?d)" for u
  proof -
    from u ts obtain r where r: "r \<in> set (tasks d)" "u = ?up r" by blast
    with ok n show ?thesis by (auto simp: current_ok_def leases_ok_def)
  qed
  ultimately show ?thesis unfolding leases_ok_def by blast
qed

section \<open>What an owner operation may rely on\<close>

lemma visible_row:
  "v \<in> set (visible d now p) \<Longrightarrow> tv_task v \<in> set (tasks d) \<and> tk_project (tv_task v) = p
     \<and> v = view_of d now (tv_task v)"
  by (auto simp: visible_def rows_def view_of_def Let_def)

lemma view_of_authorized:
  "v = view_of d now t \<Longrightarrow> tv_owner_authorized v = is_some_and (current_attempt d t) (owner_authorized d now)"
  by (simp add: view_of_def Let_def)

lemma enrich_task: "enrich_workflow_status d p now v = Inr w \<Longrightarrow> tv_task w = tv_task v
     \<and> tv_owner_authorized w = tv_owner_authorized v \<and> tv_attempt_state w = tv_attempt_state v
     \<and> tv_attempt_expires w = tv_attempt_expires v"
  by (auto simp: enrich_workflow_status_def split: if_splits)

lemma task_get_row:
  assumes "task_get d p i now = Inr v"
  shows "tv_task v \<in> set (tasks d)" "tk_id (tv_task v) = i" "tk_project (tv_task v) = p"
    "tv_owner_authorized v = is_some_and (current_attempt d (tv_task v)) (owner_authorized d now)"
proof -
  from assms obtain w where w: "fetch (\<lambda>v. tk_id (tv_task v) = i) (visible d now p) = Some w"
    "enrich_workflow_status d p now w = Inr v" by (auto simp: task_get_def)
  from fetch_SomeD [OF w(1)] have "w \<in> set (visible d now p)" "tk_id (tv_task w) = i" by auto
  with visible_row [of w d now p] enrich_task [OF w(2)] view_of_authorized [of w d now "tv_task w"]
  show "tv_task v \<in> set (tasks d)" "tk_id (tv_task v) = i" "tk_project (tv_task v) = p"
    "tv_owner_authorized v = is_some_and (current_attempt d (tv_task v)) (owner_authorized d now)"
    by auto
qed

lemma owned_Inr:
  assumes "owned m p i gen = Inr a"
  shows "a \<in> set (attempts (m_db m))" "at_id a = i" "at_project a = p" "at_generation a = gen"
    "at_state a = Active" "m_now m < at_expires_at a" "at_owner a = ac_id (m_actor m)"
    "Some (at_session a) = ac_session (m_actor m)" "at_credential a = ac_credential (m_actor m)"
    "\<exists>t \<in> set (tasks (m_db m)). tk_id t = at_task a \<and> tk_project t = p \<and> tk_current_attempt t = Some i \<and> tk_generation t = gen"
proof -
  from assms obtain v where f: "fetch (\<lambda>a. at_project a = p \<and> at_id a = i) (attempts (m_db m)) = Some a"
    and v: "task_get (m_db m) p (at_task a) (m_now m) = Inr v"
    and c: "tk_current_attempt (tv_task v) = Some i" "tk_generation (tv_task v) = gen"
    and g: "at_generation a = gen" "at_state a = Active" "m_now m < at_expires_at a" "at_owner a = ac_id (m_actor m)"
      "Some (at_session a) = ac_session (m_actor m)" "at_credential a = ac_credential (m_actor m)"
    by (auto simp: owned_def attempt_get_def Let_def split: if_splits)
  from fetch_SomeD [OF f] show "a \<in> set (attempts (m_db m))" "at_id a = i" "at_project a = p" by auto
  from g show "at_generation a = gen" "at_state a = Active" "m_now m < at_expires_at a" "at_owner a = ac_id (m_actor m)"
      "Some (at_session a) = ac_session (m_actor m)" "at_credential a = ac_credential (m_actor m)" by auto
  from task_get_row [OF v] c
  show "\<exists>t \<in> set (tasks (m_db m)). tk_id t = at_task a \<and> tk_project t = p \<and> tk_current_attempt t = Some i \<and> tk_generation t = gen"
    by auto
qed

section \<open>Paging\<close>

lemma first_unparked_find: "first_unparked d a now vs = find (unparked d a now) vs"
  by (induction vs) auto

lemma find_append: "find P (xs @ ys) = (case find P xs of Some x \<Rightarrow> Some x | None \<Rightarrow> find P ys)"
  by (induction xs) auto

lemma drop_page: "drop (page * CLAIM_PAGE) xs = page_of xs page @ drop (Suc page * CLAIM_PAGE) xs"
  unfolding page_of_def by (metis add.commute append_take_drop_id drop_drop mult_Suc)

lemma page_empty: "page_of xs page = [] \<longleftrightarrow> drop (page * CLAIM_PAGE) xs = []"
  by (simp add: page_of_def CLAIM_PAGE_def)

text \<open>The pages together are the whole queue: nothing is skipped and the first match wins.\<close>

lemma next_page_find: "next_page d a now queue page = find (unparked d a now) (drop (page * CLAIM_PAGE) queue)"
proof (induction d a now queue page rule: next_page.induct)
  case (1 d a now queue page)
  show ?case
  proof (cases "page_of queue page = []")
    case True
    then show ?thesis using page_empty [of queue page] by (simp add: next_page.simps)
  next
    case False
    have "find (unparked d a now) (drop (page * CLAIM_PAGE) queue)
        = (case first_unparked d a now (page_of queue page) of Some v \<Rightarrow> Some v
           | None \<Rightarrow> find (unparked d a now) (drop (Suc page * CLAIM_PAGE) queue))"
      unfolding drop_page [of page queue] find_append first_unparked_find by simp
    also have "\<dots> = next_page d a now queue page"
      using False 1 [OF refl False] by (subst next_page.simps) (simp split: option.splits)
    finally show ?thesis ..
  qed
qed

lemma next_eligible_find:
  "next_eligible d a p mode now = find (unparked d a now) (claim_queue d p mode now)"
  by (simp add: next_eligible_def next_page_find)

lemma next_eligible_row:
  assumes "next_eligible d a p mode now = Some v"
  shows "v \<in> set (visible d now p)" "claim_candidate mode now v" "unparked d a now v"
proof -
  from assms have "fetch (unparked d a now) (claim_queue d p mode now) = Some v"
    by (simp add: next_eligible_find fetch_def)
  from fetch_SomeD [OF this] show "v \<in> set (visible d now p)" "claim_candidate mode now v" "unparked d a now v"
    by (auto simp: claim_queue_def rows_def)
qed

end
