(* ===== verification/Lease_Handlers.thy ===== *)
theory Lease_Handlers
  imports Lease_Invariant
begin

text \<open>
  Every lease handler keeps the ownership invariant, the dependency graph, the admission
  columns and the job tables, and honours the contract of a write transaction; the deadlines it
  writes stay within the project's limits.
\<close>

section \<open>Leases move forward\<close>

text \<open>An attempt keeps its identity for ever and, once it ended, its state; generations only grow.\<close>

definition attempt_forward :: "attempt \<Rightarrow> attempt \<Rightarrow> bool" where
  "attempt_forward a b \<longleftrightarrow> at_id b = at_id a \<and> at_task b = at_task a \<and> at_project b = at_project a
     \<and> at_owner b = at_owner a \<and> at_session b = at_session a \<and> at_credential b = at_credential a
     \<and> at_generation b = at_generation a \<and> at_created_at b = at_created_at a
     \<and> (at_state a \<noteq> Active \<longrightarrow> at_state b = at_state a)"

definition task_forward :: "task \<Rightarrow> task \<Rightarrow> bool" where
  "task_forward t u \<longleftrightarrow> tk_id u = tk_id t \<and> tk_generation t \<le> tk_generation u \<and> (closed t \<longrightarrow> closed u)"

definition leases_forward :: "db \<Rightarrow> db \<Rightarrow> bool" where
  "leases_forward d d' \<longleftrightarrow> (\<forall>a \<in> set (attempts d). \<exists>b \<in> set (attempts d'). attempt_forward a b)
     \<and> (\<forall>t \<in> set (tasks d). \<exists>u \<in> set (tasks d'). task_forward t u)"

lemma attempt_forward_refl [simp]: "attempt_forward a a"
  by (simp add: attempt_forward_def)

lemma attempt_forward_trans: "attempt_forward a b \<Longrightarrow> attempt_forward b c \<Longrightarrow> attempt_forward a c"
  by (auto simp: attempt_forward_def)

lemma task_forward_refl [simp]: "task_forward t t"
  by (simp add: task_forward_def)

lemma task_forward_trans: "task_forward a b \<Longrightarrow> task_forward b c \<Longrightarrow> task_forward a c"
  by (auto simp: task_forward_def)

lemma attempt_kept: "a \<in> set as \<Longrightarrow> \<exists>b \<in> set as. attempt_forward a b"
  by (rule bexI [of _ a]) simp_all

lemma task_kept: "t \<in> set ts \<Longrightarrow> \<exists>u \<in> set ts. task_forward t u"
  by (rule bexI [of _ t]) simp_all

lemma leases_forward_refl [simp]: "leases_forward d d"
  by (simp add: leases_forward_def attempt_kept task_kept)

lemma leases_forward_trans: "leases_forward a b \<Longrightarrow> leases_forward b c \<Longrightarrow> leases_forward a c"
  unfolding leases_forward_def by (meson attempt_forward_trans task_forward_trans)

lemma leases_forward_keys:
  assumes keys: "map task_key (tasks d') = map task_key (tasks d) @ ks" and cl: "stays_closed (tasks d) (tasks d')"
    and un: "unique_by tk_id (tasks d')" and as: "attempts d' = attempts d"
  shows "leases_forward d d'"
proof -
  have "\<exists>u \<in> set (tasks d'). task_forward t u" if t: "t \<in> set (tasks d)" for t
  proof -
    from t have "task_key t \<in> task_key ` set (tasks d')" using arg_cong [OF keys, of set] by auto
    then obtain u where u: "u \<in> set (tasks d')" "task_key t = task_key u" by blast
    then have "tk_id u = tk_id t" "tk_generation u = tk_generation t" by (simp_all add: task_key_def)
    with stays_closed_row [OF cl un t _ u(1)] u(1) show ?thesis by (auto simp: task_forward_def)
  qed
  with as show ?thesis by (simp add: leases_forward_def attempt_kept)
qed

lemma leases_forward_attempts:
  assumes "\<And>a. a \<in> set (attempts d) \<Longrightarrow> P a \<Longrightarrow> attempt_forward a (f a)"
  shows "leases_forward d (d\<lparr>attempts := update_where P f (attempts d)\<rparr>)"
  unfolding leases_forward_def
proof (intro conjI ballI)
  fix a assume "a \<in> set (attempts d)"
  with assms show "\<exists>b \<in> set (attempts (d\<lparr>attempts := update_where P f (attempts d)\<rparr>)). attempt_forward a b"
    by (intro bexI [of _ "if P a then f a else a"]) (auto simp: table_simps)
qed (simp add: task_kept)

lemma leases_forward_tasks:
  assumes "\<And>t. t \<in> set (tasks d) \<Longrightarrow> P t \<Longrightarrow> task_forward t (g t)"
  shows "leases_forward d (d\<lparr>tasks := update_where P g (tasks d)\<rparr>)"
  unfolding leases_forward_def
proof (intro conjI ballI)
  fix t assume "t \<in> set (tasks d)"
  with assms show "\<exists>u \<in> set (tasks (d\<lparr>tasks := update_where P g (tasks d)\<rparr>)). task_forward t u"
    by (intro bexI [of _ "if P t then g t else t"]) (auto simp: table_simps)
qed (simp add: attempt_kept)

section \<open>Steps\<close>

definition lease_step :: "db \<Rightarrow> db \<Rightarrow> bool" where
  "lease_step d d0 \<longleftrightarrow> audited d d0 \<and> (leases_ok d \<longrightarrow> leases_ok d0 \<and> leases_forward d d0)
     \<and> budget_kept d d0 \<and> edges d0 = edges d
     \<and> reservations d0 = reservations d \<and> reservation_items d0 = reservation_items d
     \<and> resources d0 = resources d \<and> jobs d0 = jobs d \<and> reporters d0 = reporters d"

lemma lease_step_refl: "lease_step d d"
  by (simp add: lease_step_def)

lemma lease_step_audited: "lease_step d d0 \<Longrightarrow> audited d d0"
  by (simp add: lease_step_def)

lemma lease_step_trans: "lease_step a b \<Longrightarrow> lease_step b c \<Longrightarrow> lease_step a c"
  unfolding lease_step_def audited_def by (blast intro: leases_forward_trans budget_kept_trans prefix_order.trans order_trans trans)

lemma lease_step_frame:
  "lease_step a (record_contributor t w s n d) = lease_step a d"
  "lease_step a (d\<lparr>checkpoints := cs\<rparr>) = lease_step a d"
  "lease_step a (d\<lparr>checkouts := ks\<rparr>) = lease_step a d"
  "lease_step a (d\<lparr>acknowledgments := ack\<rparr>) = lease_step a d"
  by (simp_all add: lease_step_def record_contributor_def audited_def leases_ok_def leases_forward_def edges_def budget_kept_def)

text \<open>The steps of a handler: attempts that move forward, task rows that change within the rules of
  \<open>task_change\<close>, a new task without a budget, a grant, an appended event.\<close>

lemma lease_stepI:
  assumes "lease_step a d" and "audited d d'" and "budget_kept d d'"
    and "leases_ok a \<Longrightarrow> leases_ok d \<Longrightarrow> leases_ok d' \<and> leases_forward d d'"
    and "edges d' = edges d" "reservations d' = reservations d" "reservation_items d' = reservation_items d"
      "resources d' = resources d" "jobs d' = jobs d" "reporters d' = reporters d"
  shows "lease_step a d'"
  using assms unfolding lease_step_def audited_def
  by (auto intro: leases_forward_trans budget_kept_trans)

lemma lease_step_attempts:
  assumes "lease_step a d"
    and fw: "\<And>x. leases_ok a \<Longrightarrow> leases_ok d \<Longrightarrow> x \<in> set (attempts d) \<Longrightarrow> P x \<Longrightarrow> attempt_forward x (f x)"
  shows "lease_step a (d\<lparr>attempts := update_where P f (attempts d)\<rparr>)"
proof (rule lease_stepI [OF assms(1)])
  assume ok: "leases_ok a" "leases_ok d"
  show "leases_ok (d\<lparr>attempts := update_where P f (attempts d)\<rparr>) \<and> leases_forward d (d\<lparr>attempts := update_where P f (attempts d)\<rparr>)"
  proof
    show "leases_ok (d\<lparr>attempts := update_where P f (attempts d)\<rparr>)"
    proof (rule leases_ok_attempts [OF ok(2)])
      fix x assume "x \<in> set (attempts d)" "P x"
      from fw [OF ok this] show "at_id (f x) = at_id x \<and> at_task (f x) = at_task x \<and> at_project (f x) = at_project x
          \<and> at_generation (f x) = at_generation x \<and> (at_state (f x) = Active \<longrightarrow> at_state x = Active)"
        by (auto simp: attempt_forward_def)
    qed
  qed (rule leases_forward_attempts, rule fw [OF ok])
qed (simp_all add: audited_def edges_def budget_kept_same)

lemma lease_step_tasks:
  assumes "lease_step a d"
    and ch: "\<And>t. leases_ok a \<Longrightarrow> leases_ok d \<Longrightarrow> t \<in> set (tasks d) \<Longrightarrow> P t \<Longrightarrow> task_change (attempts d) t (g t)"
    and bk: "\<And>t. budget_key (g t) = budget_key t"
  shows "lease_step a (d\<lparr>tasks := update_where P g (tasks d)\<rparr>)"
proof (rule lease_stepI [OF assms(1)])
  assume ok: "leases_ok a" "leases_ok d"
  show "leases_ok (d\<lparr>tasks := update_where P g (tasks d)\<rparr>) \<and> leases_forward d (d\<lparr>tasks := update_where P g (tasks d)\<rparr>)"
  proof
    show "leases_ok (d\<lparr>tasks := update_where P g (tasks d)\<rparr>)"
      by (rule leases_ok_tasks [OF ok(2)]) (rule ch [OF ok])
    show "leases_forward d (d\<lparr>tasks := update_where P g (tasks d)\<rparr>)"
      by (rule leases_forward_tasks) (use ch [OF ok] in \<open>auto simp: task_change_def task_forward_def\<close>)
  qed
qed (simp_all add: audited_def edges_def budget_kept_same map_update_stable bk)

lemma lease_step_insert_task:
  assumes "lease_step a d" and "\<forall>s \<in> set (tasks d). tk_id s \<noteq> tk_id t"
    and "tk_current_attempt t = None" "tk_generation t = 0" "tk_budget_admitted_at t = None"
  shows "lease_step a (d\<lparr>tasks := insert_row t (tasks d)\<rparr>)"
proof -
  have "leases_ok d \<Longrightarrow> leases_ok (d\<lparr>tasks := insert_row t (tasks d)\<rparr>)"
    using assms(2-4) by (intro leases_ok_insert_task) auto
  moreover have "leases_forward d (d\<lparr>tasks := insert_row t (tasks d)\<rparr>)"
    by (auto simp: leases_forward_def attempt_kept intro: task_forward_refl)
  moreover have "budget_kept d (d\<lparr>tasks := insert_row t (tasks d)\<rparr>)"
    using assms(5) by (auto simp: budget_kept_def insert_row_def budget_key_def)
  ultimately have "lease_step d (d\<lparr>tasks := insert_row t (tasks d)\<rparr>)"
    by (simp add: lease_step_def audited_def edges_def)
  with assms(1) show ?thesis by (rule lease_step_trans)
qed

lemma lease_step_grant:
  assumes st: "lease_step a d" and ins: "insert_attempt n d = Inr d1"
    and n: "at_generation n = gen + 1" "at_state n = Active"
    and t: "leases_ok a \<Longrightarrow> leases_ok d \<Longrightarrow> \<exists>t \<in> set (tasks d). tk_id t = at_task n \<and> tk_project t = at_project n \<and> tk_generation t = gen"
  shows "lease_step a (update_task (at_task n)
           (\<lambda>r. r\<lparr>tk_current_attempt := Some (at_id n), tk_generation := gen + 1\<rparr>) d1)"
    (is "lease_step a ?e")
proof -
  from ins have d1: "d1 = d\<lparr>attempts := insert_row n (attempts d)\<rparr>"
    and free: "\<forall>b \<in> set (attempts d). \<not> attempt_clash n b" by (auto simp: insert_attempt_def)
  have e: "?e = d\<lparr>attempts := insert_row n (attempts d), tasks := update_where (\<lambda>r. tk_id r = at_task n)
      (\<lambda>r. r\<lparr>tk_current_attempt := Some (at_id n), tk_generation := gen + 1\<rparr>) (tasks d)\<rparr>"
    by (simp add: d1 update_task_def)
  have "leases_ok ?e \<and> leases_forward d ?e" if ok: "leases_ok a" "leases_ok d"
  proof
    from t [OF ok] obtain u where u: "u \<in> set (tasks d)" "tk_id u = at_task n" "tk_project u = at_project n" "tk_generation u = gen"
      by blast
    with leases_ok_grant [OF ok(2) u(1), of n] n free show "leases_ok ?e" by (simp add: e)
    have "task_forward r (r\<lparr>tk_current_attempt := Some (at_id n), tk_generation := gen + 1\<rparr>)"
      if "r \<in> set (tasks d)" "tk_id r = at_task n" for r
      using that u ok(2) unique_row [of tk_id "tasks d" r u] by (auto simp: leases_ok_def task_forward_def closed_def)
    then have "leases_forward d (d\<lparr>tasks := tasks ?e\<rparr>)"
      unfolding e by simp (rule leases_forward_tasks)
    then show "leases_forward d ?e" unfolding e by (auto simp: leases_forward_def)
  qed
  then show ?thesis
    by (intro lease_stepI [OF st]) (simp_all add: e audited_def edges_def budget_kept_same map_update_stable budget_key_def)
qed

lemma lease_step_event: "lease_step a d \<Longrightarrow> lease_step a (d\<lparr>events := insert_row e (events d)\<rparr>)"
  by (auto simp: lease_step_def audited_def leases_ok_def leases_forward_def edges_def budget_kept_def insert_row_def
      intro: prefix_order.trans)

text \<open>A change of a task row that keeps its lease columns, or that closes it.\<close>

lemma lease_step_update_task:
  assumes "lease_step a d" and "\<And>t. task_key (f t) = task_key t" and "\<And>t. closed t \<Longrightarrow> closed (f t)"
  shows "lease_step a (update_task i f d)"
  unfolding update_task_def
proof (rule lease_step_tasks [OF assms(1)])
  show "task_change (attempts d) t (f t)" for t
    using assms(2,3) [of t] by (simp add: task_change_def task_key_def)
  show "budget_key (f t) = budget_key t" for t
    using assms(2) [of t] by (simp add: budget_key_def task_key_def)
qed

lemma lease_step_update_attempt:
  assumes "lease_step a d"
    and "\<And>x. leases_ok a \<Longrightarrow> leases_ok d \<Longrightarrow> x \<in> set (attempts d) \<Longrightarrow> at_id x = i \<Longrightarrow> attempt_forward x (f x)"
  shows "lease_step a (update_attempt i f d)"
  unfolding update_attempt_def by (rule lease_step_attempts) (use assms in auto)

lemma add_contributors_step:
  "add_contributors m p t ss d = Inr d' \<Longrightarrow> lease_step a d' = lease_step a d
     \<and> attempts d' = attempts d \<and> tasks d' = tasks d"
proof (induction ss arbitrary: d)
  case (Cons s ss)
  let ?e = "record_contributor t (ac_id (m_actor m)) s (m_now m) d"
  from Cons.prems have "add_contributors m p t ss ?e = Inr d'" by (auto split: if_splits)
  from Cons.IH [OF this] show ?case by (simp add: lease_step_frame) (simp add: record_contributor_def)
qed simp

text \<open>A checkpoint only stamps the progress of its attempt.\<close>

lemma add_checkpoint_step:
  assumes "add_checkpoint uuid m p i ci d = Inr (v, d')"
  shows "lease_step a d \<Longrightarrow> lease_step a d'"
    "attempts d' = update_where (\<lambda>x. at_id x = i) (\<lambda>x. x\<lparr>at_last_progress_at := m_now m\<rparr>) (attempts d)"
    "tasks d' = tasks d"
proof -
  from assms obtain d1 cs t where c: "add_contributors m p t (ci_contributors ci) d = Inr d1"
    and d': "d' = update_attempt i (\<lambda>x. x\<lparr>at_last_progress_at := m_now m\<rparr>) (d1\<lparr>checkpoints := cs\<rparr>)"
    by (auto simp: add_checkpoint_def Let_def split: if_splits)
  show "attempts d' = update_where (\<lambda>x. at_id x = i) (\<lambda>x. x\<lparr>at_last_progress_at := m_now m\<rparr>) (attempts d)"
    "tasks d' = tasks d"
    using add_contributors_step [OF c] by (simp_all add: d' update_attempt_def)
  assume "lease_step a d"
  with add_contributors_step [OF c] have "lease_step a (d1\<lparr>checkpoints := cs\<rparr>)"
    by (simp add: lease_step_frame)
  then show "lease_step a d'" unfolding d' by (rule lease_step_update_attempt) (simp add: attempt_forward_def)
qed

section \<open>Handlers\<close>

lemma acknowledge_commits: "commits lease_step m (acknowledge s ak m)"
  unfolding acknowledge_def Let_def
  by (intro commits_intros; (assumption | simp add: lease_step_frame lease_step_refl))

lemma checkpoint_commits: "commits lease_step m (checkpoint uuid p i ci m)"
  unfolding checkpoint_def
  by (intro commits_intros; hypsubst?;
      (assumption | erule add_checkpoint_step(1), rule lease_step_refl))

lemma renew_commits: "commits lease_step m (renew p i gen m)"
  unfolding renew_def Let_def
  by (intro commits_intros; (assumption | rule lease_step_update_attempt [OF lease_step_refl]; simp add: attempt_forward_def))

lemma recovery_resolution_commits: "commits lease_step m (recovery_resolution uuid p i ry m)"
  unfolding recovery_resolution_def Let_def
  by (intro commits_intros; hypsubst?;
      (assumption | rule lease_step_update_attempt, erule add_checkpoint_step(1), rule lease_step_refl, simp add: attempt_forward_def))

lemma register_checkout_commits: "commits lease_step m (register_checkout dig p i ko m)"
  unfolding register_checkout_def Let_def
  by (intro commits_intros; (assumption | simp add: lease_step_frame lease_step_refl))

lemma owned_stays_active:
  assumes ok: "leases_ok (m_db m)" and own: "owned m p i gen = Inr a"
    and as: "attempts d1 = update_where (\<lambda>x. at_id x = i) (\<lambda>x. x\<lparr>at_last_progress_at := now\<rparr>) (attempts (m_db m))"
    and x: "x \<in> set (attempts d1)" "at_id x = i"
  shows "at_state x = Active"
proof -
  from update_where_row [OF x(1) [unfolded as]] obtain b where b: "b \<in> set (attempts (m_db m))"
    "x = (if at_id b = i then b\<lparr>at_last_progress_at := now\<rparr> else b)" by blast
  with x(2) have "at_id b = i" by (auto split: if_splits)
  with b(1) owned_Inr(1,2) [OF own] ok have "b = a" by (auto simp: leases_ok_def dest: unique_row)
  with b(2) owned_Inr(5) [OF own] show ?thesis by simp
qed

text \<open>Ending the attempt a task names and clearing it.\<close>

lemma lease_step_end:
  assumes st: "lease_step a d"
    and act: "\<And>x. leases_ok a \<Longrightarrow> leases_ok d \<Longrightarrow> x \<in> set (attempts d) \<Longrightarrow> at_id x = i \<Longrightarrow> at_state x = Active"
    and f: "\<And>x. at_state x = Active \<Longrightarrow> attempt_forward x (f x) \<and> at_state (f x) \<noteq> Active"
    and t: "\<And>t. leases_ok a \<Longrightarrow> leases_ok d \<Longrightarrow> t \<in> set (tasks d) \<Longrightarrow> tk_id t = k \<Longrightarrow> tk_current_attempt t = Some i"
    and g: "\<And>t. tk_id (g t) = tk_id t \<and> tk_project (g t) = tk_project t \<and> tk_generation (g t) = tk_generation t
        \<and> tk_current_attempt (g t) = None \<and> tk_budget_admitted_at (g t) = tk_budget_admitted_at t \<and> (closed t \<longrightarrow> closed (g t))"
  shows "lease_step a (update_task k g (update_attempt i f d))"
  unfolding update_task_def
proof (rule lease_step_tasks)
  show s1: "lease_step a (update_attempt i f d)" using st act f by (intro lease_step_update_attempt) auto
  show "budget_key (g u) = budget_key u" for u using g [of u] by (simp add: budget_key_def)
  fix u assume ok: "leases_ok a" "leases_ok (update_attempt i f d)" and u: "u \<in> set (tasks (update_attempt i f d))" "tk_id u = k"
  have d: "leases_ok d" using st ok(1) by (simp add: lease_step_def)
  have "at_state x \<noteq> Active" if x: "x \<in> set (attempts (update_attempt i f d))" "at_task x = tk_id u" for x
  proof
    assume act': "at_state x = Active"
    from x(1) obtain y where y: "y \<in> set (attempts d)" "x = (if at_id y = i then f y else y)"
      by (auto simp: update_attempt_def table_simps)
    from t [OF ok(1) d _ u(2)] u(1) have cur: "tk_current_attempt u = Some i" by (simp add: update_attempt_def)
    from active_current [OF ok(2) x(1) act' u(1)] x(2) cur have "at_id x = i" by simp
    with y f [of y] act [OF ok(1) d y(1)] act' show False by (auto simp: attempt_forward_def split: if_splits)
  qed
  with g [of u] show "task_change (attempts (update_attempt i f d)) u (g u)" by (simp add: task_change_def)
qed

lemma current_row:
  assumes ok: "leases_ok d" and "t \<in> set (tasks d)" "tk_id t = k"
    and "\<exists>u \<in> set (tasks d). tk_id u = k \<and> tk_project u = p \<and> tk_current_attempt u = Some i \<and> tk_generation u = gen"
  shows "tk_current_attempt t = Some i \<and> tk_project t = p \<and> tk_generation t = gen"
proof -
  from assms(4) obtain u where u: "u \<in> set (tasks d)" "tk_id u = k" "tk_project u = p" "tk_current_attempt u = Some i" "tk_generation u = gen"
    by blast
  with assms(1-3) have "t = u" by (intro unique_row [of tk_id "tasks d"]) (simp_all add: leases_ok_def)
  with u show ?thesis by simp
qed

text \<open>Release ends the current attempt, whatever the checkpoint wrote before.\<close>

lemma release_step:
  assumes own: "owned m p i gen = Inr a"
    and cp: "add_checkpoint uuid m p i ci (m_db m) = Inr (v, d1)"
  shows "lease_step (m_db m) (update_task (at_task a) (\<lambda>t. t\<lparr>tk_current_attempt := None, tk_blocked_reason := br, tk_ready_since := now\<rparr>)
     (update_attempt i (\<lambda>x. x\<lparr>at_state := (if blocked then Blocked else Released), at_ended_at := Some now, at_outcome := Some s\<rparr>) d1))"
proof (rule lease_step_end)
  show "lease_step (m_db m) d1" by (rule add_checkpoint_step(1) [OF cp lease_step_refl])
next
  fix x assume "leases_ok (m_db m)" "x \<in> set (attempts d1)" "at_id x = i"
  then show "at_state x = Active"
    by (rule owned_stays_active [OF _ own add_checkpoint_step(2) [OF cp]])
next
  fix t assume "leases_ok (m_db m)" "t \<in> set (tasks d1)" "tk_id t = at_task a"
  then show "tk_current_attempt t = Some i"
    using current_row [OF _ _ _ owned_Inr(10) [OF own]] add_checkpoint_step(3) [OF cp] by simp
qed (simp_all add: attempt_forward_def closed_def)

lemma release_commits: "commits lease_step m (release uuid p i gen summary blocked m)"
  unfolding release_def Let_def
  by (intro commits_intros; hypsubst?; (assumption | rule release_step; assumption))

lemma expire_previous_step: "lease_step a d \<Longrightarrow> lease_step a (expire_previous now previous d)"
  unfolding expire_previous_def
  by (cases previous) (auto intro: lease_step_attempts simp: attempt_forward_def)

lemma grant_step:
  assumes t: "tv_task v \<in> set (tasks (m_db m))" "tk_project (tv_task v) = p"
    and ins: "insert_attempt (new_attempt m p proj uuid session mode (tv_task v))
                (expire_previous now (tk_current_attempt (tv_task v)) (m_db m)) = Inr d1"
  shows "lease_step (m_db m) (record_contributor c w s n (update_task (tk_id (tv_task v))
     (\<lambda>r. r\<lparr>tk_current_attempt := Some uuid, tk_generation := tk_generation (tv_task v) + 1\<rparr>) d1))"
proof -
  let ?a = "new_attempt m p proj uuid session mode (tv_task v)"
  let ?e = "expire_previous now (tk_current_attempt (tv_task v)) (m_db m)"
  have "tasks ?e = tasks (m_db m)" by (simp add: expire_previous_def split: option.splits)
  then have "\<exists>r \<in> set (tasks ?e). tk_id r = at_task ?a \<and> tk_project r = at_project ?a \<and> tk_generation r = tk_generation (tv_task v)"
    using t by (auto simp: new_attempt_def)
  with lease_step_grant [OF expire_previous_step [OF lease_step_refl] ins, of "tk_generation (tv_task v)"]
  show ?thesis by (simp add: lease_step_frame new_attempt_def)
qed

lemma grant_claim_commits:
  assumes "tv_task v \<in> set (tasks (m_db m))" "tk_project (tv_task v) = p" "m_replay m = None"
  shows "commits lease_step m (grant_claim uuid p cm m proj session v)"
  unfolding grant_claim_def Let_def
  by (intro commits_intros assms(3); rule grant_step [OF assms(1,2)]; assumption)

lemma claim_replay_commits: "commits R m (claim_replay m p v)"
  unfolding claim_replay_def Let_def by (intro commits_intros)

lemma chosen_row:
  assumes "(case cm_task cm of Some i \<Rightarrow> and_then (task_get d p i now) (\<lambda>v. Inr (Some v))
          | None \<Rightarrow> Inr (next_eligible d a p (cm_mode cm) now)) = Inr (Some v)"
  shows "tv_task v \<in> set (tasks d)" "tk_project (tv_task v) = p"
  using assms next_eligible_row(1) [of d a p "cm_mode cm" now v] visible_row [of v d now p] task_get_row [of d p _ now v]
  by (auto split: option.splits)

lemma claim_commits: "commits lease_step m (claim uuid p cm m)"
  unfolding claim_def Let_def
  by (intro commits_intros claim_replay_commits; hypsubst?;
      (assumption | rule lease_step_refl | rule grant_claim_commits; (assumption | erule chosen_row)))

section \<open>Deadlines\<close>

lemma attempt_limit_le:
  assumes "0 \<le> created" and "0 < secs"
  shows "attempt_limit secs created \<le> created + secs * 1000"
proof -
  have "sat64 (secs * 1000) \<le> secs * 1000" using assms(2) by (intro sat64_le) (simp add: i64_min_def)
  moreover have "0 \<le> sat64 (secs * 1000)" using assms(2) by (simp add: sat64_def i64_min_def i64_max_def)
  then have "sat64 (created + sat64 (secs * 1000)) \<le> created + sat64 (secs * 1000)"
    using assms(1) by (intro sat64_le) (simp add: i64_min_def)
  ultimately show ?thesis using assms by (simp add: attempt_limit_def saturating_add_def saturating_mul_def)
qed

lemma capped_renewal_Inr:
  assumes "capped_renewal ext secs a = Inr e"
  shows "e \<le> ext" "e \<le> attempt_limit secs (at_created_at a)" "at_expires_at a < attempt_limit secs (at_created_at a)"
  using assms by (auto simp: capped_renewal_def Let_def split: if_splits)

lemma new_attempt_deadline:
  "at_expires_at (new_attempt m p proj uuid s mode t) \<le> attempt_limit (pj_max_attempt_seconds proj) (at_created_at (new_attempt m p proj uuid s mode t))"
  "at_expires_at (new_attempt m p proj uuid s mode t) \<le> m_now m + pj_lease_seconds proj * 1000"
  by (simp_all add: new_attempt_def)

section \<open>Contracts\<close>

interpretation acknowledgement: replay_safe "acknowledge s ak" for s ak
  by (rule commits_replay_safe [OF acknowledge_commits lease_step_audited])

interpretation claiming: replay_safe "claim uuid p cm" for uuid p cm
  by (rule commits_replay_safe [OF claim_commits lease_step_audited])

interpretation renewal: replay_safe "renew p i gen" for p i gen
  by (rule commits_replay_safe [OF renew_commits lease_step_audited])

interpretation checkpointing: replay_safe "checkpoint uuid p i ci" for uuid p i ci
  by (rule commits_replay_safe [OF checkpoint_commits lease_step_audited])

interpretation releasing: replay_safe "release uuid p i gen summary blocked" for uuid p i gen summary blocked
  by (rule commits_replay_safe [OF release_commits lease_step_audited])

interpretation recovery: replay_safe "recovery_resolution uuid p i ry" for uuid p i ry
  by (rule commits_replay_safe [OF recovery_resolution_commits lease_step_audited])

interpretation checkout: replay_safe "register_checkout dig p i ko" for dig p i ko
  by (rule commits_replay_safe [OF register_checkout_commits lease_step_audited])

end
