(* ===== verification/Jobs.thy ===== *)
theory Jobs
  imports Lease_Handlers
begin

text \<open>
  Resources, reservations, producers and their reporters (\<^verbatim>\<open>server/src/jobs.rs\<close>). \<open>is_uuid\<close> and
  \<open>hex_bytes\<close> (the number of bytes a hexadecimal text decodes to) stand for the parsers of the
  \<open>uuid\<close> and \<open>hex\<close> packages, \<open>sha\<close> for the digest of a secret, \<open>hash\<close> for the digest of a serialised
  observation. The state token of a rendered job is left out.
\<close>

definition REPORTER_LIFETIME_MS :: int where "REPORTER_LIFETIME_MS = 7 * 86400000"

record resource_input =
  xi_key :: string
  xi_capacity :: int
  xi_description :: string

record resource_update =
  xu_key :: "string option"
  xu_capacity :: "int option"
  xu_description :: "string option"

record job_input =
  ji_generation :: int
  ji_job :: string
  ji_producer :: string
  ji_runner :: string
  ji_workstation :: string
  ji_label :: string
  ji_source_revision :: string
  ji_source_tree :: string
  ji_check_identity :: "string option"
  ji_check_version :: "string option"
  ji_check_environment :: "string option"
  ji_reservation :: string
  ji_reporter :: string
  ji_reporter_proof :: string
  ji_renew_for_seconds :: int

record observation_input =
  oi_sequence :: int
  oi_producer :: string
  oi_state :: string
  oi_pid :: "int option"
  oi_process_started_at :: "string option"
  oi_exit_code :: "int option"
  oi_inputs_unchanged :: "bool option"
  oi_summary :: string

section \<open>Resources\<close>

definition valid_uuid :: "(string \<Rightarrow> bool) \<Rightarrow> string \<Rightarrow> unit res" where
  "valid_uuid is_uuid v = (if is_uuid v then Inr () else Inl bad_request)"

text \<open>
  The allowed bytes exclude every white space, so a key of allowed bytes is trimmed; a key that is
  not trimmed has a byte outside them.
\<close>

definition key_byte :: "char \<Rightarrow> bool" where
  "key_byte c \<longleftrightarrow> (let n = (of_char c :: nat) in (97 \<le> n \<and> n \<le> 122) \<or> ascii_digit c)
     \<or> c \<in> {CHR ''-'', CHR ''_'', CHR ''.'', CHR '':'', CHR ''/''}"

definition resource_key :: "string \<Rightarrow> unit res" where
  "resource_key v = and_then (bounded v 255 True) (\<lambda>_.
     if \<not> trimmed v \<or> \<not> list_all key_byte v then Inl bad_request else Inr ())"

definition held :: "db \<Rightarrow> string \<Rightarrow> bool" where
  "held d i \<longleftrightarrow> exists_where (\<lambda>r. rv_id r = i \<and> rv_state r = Held) (reservations d)"

definition held_units :: "db \<Rightarrow> string \<Rightarrow> int" where
  "held_units d r = sum_list (map ri_units (rows (\<lambda>x. ri_resource x = r \<and> held d (ri_reservation x)) (reservation_items d)))"

definition validate_create_resource :: "resource_input \<Rightarrow> unit res" where
  "validate_create_resource xi =
     and_then (resource_key (xi_key xi)) (\<lambda>_.
     and_then (bounded (xi_description xi) 4096 False) (\<lambda>_.
     if \<not> (1 \<le> xi_capacity xi \<and> xi_capacity xi \<le> 1000) then Inl bad_request else Inr ()))"

definition create_resource :: "string \<Rightarrow> resource_input \<Rightarrow> mutation \<Rightarrow> outcome res" where
  "create_resource uuid xi m =
     (let d = m_db m in
      if ac_kind (m_actor m) \<noteq> Human then Inl (human_gate ''resource_create'')
      else replay_or m (
      if count_where (\<lambda>x. rs_key x = xi_key xi) (resources d) > 0 then Inl (conflict ''resource_exists'')
      else let row = \<lparr>rs_id = uuid, rs_key = xi_key xi, rs_capacity = xi_capacity xi,
             rs_description = xi_description xi, rs_created_by = ac_id (m_actor m), rs_created_at = m_now m\<rparr> in
        and_then (insert_unique unique_violation (\<lambda>a b. rs_id a = rs_id b \<or> rs_key a = rs_key b) row (resources d)) (\<lambda>xs.
          finish m (d\<lparr>resources := xs\<rparr>) (JResource row 0) None ''resource.created'' uuid)))"

definition validate_update_resource :: "(string \<Rightarrow> bool) \<Rightarrow> string \<Rightarrow> resource_update \<Rightarrow> unit res" where
  "validate_update_resource is_uuid r xu =
     and_then (valid_uuid is_uuid r) (\<lambda>_.
     if xu_key xu = None \<and> xu_capacity xu = None \<and> xu_description xu = None then Inl bad_request
     else and_then (case xu_key xu of None \<Rightarrow> Inr () | Some k \<Rightarrow> resource_key k) (\<lambda>_.
     and_then (case xu_description xu of None \<Rightarrow> Inr () | Some t \<Rightarrow> bounded t 4096 False) (\<lambda>_.
     if is_some_and (xu_capacity xu) (\<lambda>c. \<not> (1 \<le> c \<and> c \<le> 1000)) then Inl bad_request else Inr ())))"

definition apply_resource_update :: "resource_update \<Rightarrow> resource_row \<Rightarrow> resource_row" where
  "apply_resource_update xu x = x\<lparr>rs_key := unwrap_or (xu_key xu) (rs_key x),
     rs_capacity := unwrap_or (xu_capacity xu) (rs_capacity x),
     rs_description := unwrap_or (xu_description xu) (rs_description x)\<rparr>"

definition update_resource :: "string \<Rightarrow> resource_update \<Rightarrow> mutation \<Rightarrow> outcome res" where
  "update_resource r xu m =
     (let d = m_db m in
      if ac_kind (m_actor m) \<noteq> Human then Inl (human_gate ''resource_update'')
      else replay_or m (
      and_then (ok_or not_found (fetch (\<lambda>x. rs_id x = r) (resources d))) (\<lambda>current.
      if is_some_and (xu_capacity xu) (\<lambda>c. c < held_units d r) then Inl (conflict ''resource_capacity_below_holds'')
      else if is_some_and (xu_key xu) (\<lambda>k. count_where (\<lambda>x. rs_key x = k \<and> rs_id x \<noteq> r) (resources d) > 0)
        then Inl (conflict ''resource_exists'')
      else let d1 = d\<lparr>resources := update_where (\<lambda>x. rs_id x = r) (apply_resource_update xu) (resources d)\<rparr> in
        and_then (ok_or row_not_found (fetch (\<lambda>x. rs_id x = r) (resources d1))) (\<lambda>x.
          finish m d1 (JResource x (held_units d1 r)) None ''resource.updated'' r))))"

definition delete_resource :: "string \<Rightarrow> mutation \<Rightarrow> outcome res" where
  "delete_resource r m =
     (let d = m_db m in
      if ac_kind (m_actor m) \<noteq> Human then Inl (human_gate ''resource_delete'')
      else replay_or m (
      and_then (ok_or not_found (fetch (\<lambda>x. rs_id x = r) (resources d))) (\<lambda>current.
      if count_where (\<lambda>x. ri_resource x = r) (reservation_items d) > 0 then Inl (conflict ''resource_in_use'')
      else finish m (d\<lparr>resources := delete_where (\<lambda>x. rs_id x = r) (resources d)\<rparr>)
        (JObj [(''id'', JStr r), (''key'', JStr (rs_key current)), (''deleted'', JBool True)]) None ''resource.deleted'' r)))"

section \<open>Reservations\<close>

text \<open>The derived state of a rendered reservation; a \<open>LEFT JOIN\<close> without a row reads as NULL.\<close>

definition parent_live :: "db \<Rightarrow> int \<Rightarrow> attempt \<Rightarrow> bool" where
  "parent_live d now a \<longleftrightarrow>
     is_none_or (fetch (\<lambda>p. pr_id p = at_owner a) (principals d)) (\<lambda>p. pr_disabled_at p = None)
     \<and> (case at_credential a of
          Some c \<Rightarrow> is_none_or (fetch (\<lambda>x. cr_id x = c) (credentials d))
                      (\<lambda>x. cr_revoked_at x = None \<and> is_none_or (cr_expires_at x) (\<lambda>e. e > now))
                    \<and> is_none_or (fetch (\<lambda>s. as_id s = at_session a \<and> as_credential s = c) (agent_sessions d))
                      (\<lambda>s. as_closed_at s = None)
        | None \<Rightarrow> is_some_and (fetch (\<lambda>b. bs_id b = at_session a) (browser_sessions d))
                      (\<lambda>b. bs_revoked_at b = None \<and> bs_expires_at b > now))"

definition reservation_status :: "db \<Rightarrow> int \<Rightarrow> reservation \<Rightarrow> attempt \<Rightarrow> task \<Rightarrow> string" where
  "reservation_status d now r a t =
     (if rv_state r = Hold_released then ''released''
      else if rv_state r = Hold_resolved then ''resolved''
      else if at_state a = Active \<and> at_expires_at a > now \<and> tk_current_attempt t = Some (rv_attempt r) \<and> parent_live d now a
        then ''held'' else ''recovery_required'')"

definition reservation_value :: "db \<Rightarrow> string \<Rightarrow> string \<Rightarrow> int \<Rightarrow> json res" where
  "reservation_value d p i now =
     and_then (ok_or not_found (fetch (\<lambda>r. rv_project r = p \<and> rv_id r = i) (reservations d))) (\<lambda>r.
     and_then (ok_or not_found (fetch (\<lambda>a. at_id a = rv_attempt r) (attempts d))) (\<lambda>a.
     and_then (ok_or not_found (fetch (\<lambda>t. tk_id t = at_task a) (tasks d))) (\<lambda>t.
       Inr (JObj [(''task_id'', JStr (at_task a)), (''state'', JStr (reservation_status d now r a t)),
          (''reservation'', JReservation r (rows (\<lambda>x. ri_reservation x = i
             \<and> exists_where (\<lambda>y. rs_id y = ri_resource x) (resources d)) (reservation_items d)))]))))"

fun check_items :: "(string \<Rightarrow> bool) \<Rightarrow> string list \<Rightarrow> (string \<times> int) list \<Rightarrow> unit res" where
  "check_items is_uuid seen [] = Inr ()"
| "check_items is_uuid seen ((r, units) # xs) =
     and_then (valid_uuid is_uuid r) (\<lambda>_.
     if \<not> (1 \<le> units \<and> units \<le> 1000) \<or> r \<in> set seen then Inl bad_request
     else check_items is_uuid (r # seen) xs)"

definition validate_reservation :: "(string \<Rightarrow> bool) \<Rightarrow> (string \<times> int) list \<Rightarrow> unit res" where
  "validate_reservation is_uuid items =
     (if items = [] \<or> length items > 100 then Inl bad_request else check_items is_uuid [] items)"

definition item_available :: "db \<Rightarrow> string \<times> int \<Rightarrow> unit res" where
  "item_available d x =
     and_then (ok_or not_found (fetch (\<lambda>y. rs_id y = fst x) (resources d))) (\<lambda>y.
       if held_units d (fst x) + snd x > rs_capacity y then Inl (conflict ''resource_unavailable'') else Inr ())"

definition insert_reservation :: "string \<Rightarrow> string \<Rightarrow> string \<Rightarrow> int \<Rightarrow> mutation \<Rightarrow> (string \<times> int) list \<Rightarrow> db \<Rightarrow> db res" where
  "insert_reservation uuid p attempt gen m items d =
     and_then (insert_unique unique_violation (\<lambda>a b. rv_id a = rv_id b
           \<or> (rv_attempt a = rv_attempt b \<and> rv_state a = Held \<and> rv_state b = Held))
         \<lparr>rv_id = uuid, rv_project = p, rv_attempt = attempt, rv_generation = gen, rv_state = Held,
          rv_created_by = ac_id (m_actor m), rv_created_at = m_now m, rv_closed_at = None, rv_closed_by = None,
          rv_reason = None, rv_evidence = None\<rparr> (reservations d)) (\<lambda>rs.
     and_then (fold_res (\<lambda>x t. insert_unique unique_violation
           (\<lambda>a b. ri_reservation a = ri_reservation b \<and> ri_resource a = ri_resource b)
           \<lparr>ri_reservation = uuid, ri_resource = fst x, ri_units = snd x\<rparr> t) items (reservation_items d)) (\<lambda>ri.
       Inr (d\<lparr>reservations := rs, reservation_items := ri\<rparr>)))"

definition create_reservation ::
  "(string \<times> string \<times> string list \<times> task_kind \<Rightarrow> string) \<Rightarrow> string \<Rightarrow> string \<Rightarrow> string \<Rightarrow> int \<Rightarrow> (string \<times> int) list \<Rightarrow>
    mutation \<Rightarrow> outcome res" where
  "create_reservation dig uuid p attempt gen items m =
     (let d = m_db m in
      and_then (owned m p attempt gen) (\<lambda>a.
      and_then (guard_activity_work dig d p (at_task a) (m_now m)) (\<lambda>_.
      if at_mode a \<noteq> Work then Inl (conflict ''recovery_unresolved'')
      else replay_or m (
      if count_where (\<lambda>r. rv_attempt r = attempt \<and> rv_state r = Held) (reservations d) > 0
        then Inl (conflict ''reservation_exists'')
      else and_then (check_all (item_available d) items) (\<lambda>_.
      and_then (insert_reservation uuid p attempt gen m items d) (\<lambda>d1.
      and_then (reservation_value d1 p uuid (m_now m)) (\<lambda>value.
        finish m d1 value (Some p) ''reservation.created'' uuid)))))))"

definition close_reservation :: "string \<Rightarrow> mutation \<Rightarrow> reservation_state \<Rightarrow> string \<Rightarrow> string option \<Rightarrow> db \<Rightarrow> db" where
  "close_reservation i m st reason ev d = d\<lparr>reservations := update_where (\<lambda>r. rv_id r = i)
     (\<lambda>r. r\<lparr>rv_state := st, rv_closed_at := Some (m_now m), rv_closed_by := Some (ac_id (m_actor m)),
            rv_reason := Some reason, rv_evidence := ev\<rparr>) (reservations d)\<rparr>"

definition live_job :: "job \<Rightarrow> bool" where
  "live_job j \<longleftrightarrow> unfinished_job (jb_state j) \<and> jb_reconciled_at j = None"

definition release_reservation :: "string \<Rightarrow> string \<Rightarrow> int \<Rightarrow> string \<Rightarrow> mutation \<Rightarrow> outcome res" where
  "release_reservation p i gen reason m =
     (let d = m_db m in
      and_then (ok_or not_found (fetch (\<lambda>r. rv_project r = p \<and> rv_id r = i) (reservations d))) (\<lambda>r.
      and_then (ok_or not_found (fetch (\<lambda>a. at_id a = rv_attempt r) (attempts d))) (\<lambda>original.
      and_then (ok_or not_found (fetch (\<lambda>t. tk_id t = at_task original) (tasks d))) (\<lambda>t.
      and_then (ok_or (conflict ''lease_expired'') (tk_current_attempt t)) (\<lambda>current_id.
      and_then (owned m p current_id gen) (\<lambda>current.
      if at_id current \<noteq> rv_attempt r \<and> (at_mode current \<noteq> Recovery \<or> at_task current \<noteq> at_task original)
        then Inl forbidden
      else replay_or m (
      if rv_state r \<noteq> Held then Inl (conflict ''reservation_not_held'')
      else if count_where (\<lambda>j. jb_reservation j = i \<and> live_job j) (jobs d) > 0
        then Inl (conflict ''jobs_still_running'')
      else let d1 = close_reservation i m Hold_released reason None d in
        and_then (reservation_value d1 p i (m_now m)) (\<lambda>value.
          finish m d1 value (Some p) ''reservation.released'' i))))))))"

definition reconcile_jobs :: "string \<Rightarrow> mutation \<Rightarrow> string \<Rightarrow> string \<Rightarrow> db \<Rightarrow> db" where
  "reconcile_jobs i m reason ev d = d\<lparr>jobs := update_where (\<lambda>j. jb_reservation j = i \<and> live_job j)
     (\<lambda>j. j\<lparr>jb_reconciled_at := Some (m_now m), jb_reconciled_by := Some (ac_id (m_actor m)),
            jb_reconciliation := Some (reason, ev)\<rparr>) (jobs d)\<rparr>"

definition resolve_reservation :: "string \<Rightarrow> string \<Rightarrow> string \<Rightarrow> string \<Rightarrow> mutation \<Rightarrow> outcome res" where
  "resolve_reservation p i reason ev m =
     (let d = m_db m in
      if ac_kind (m_actor m) \<noteq> Human then Inl (human_gate ''reservation_resolve'')
      else replay_or m (
      and_then (ok_or not_found (fetch (\<lambda>r. rv_project r = p \<and> rv_id r = i) (reservations d))) (\<lambda>r.
      if rv_state r \<noteq> Held then Inl (conflict ''reservation_not_held'')
      else let d1 = close_reservation i m Hold_resolved reason (Some ev) (reconcile_jobs i m reason ev d) in
        and_then (reservation_value d1 p i (m_now m)) (\<lambda>value.
          finish m d1 value (Some p) ''reservation.resolved'' i))))"

section \<open>Producers\<close>

definition full_object_id :: "string \<Rightarrow> bool" where
  "full_object_id v \<longleftrightarrow> (length v = 40 \<or> length v = 64) \<and> list_all ascii_hex v"

definition validate_job :: "(string \<Rightarrow> bool) \<Rightarrow> (string \<Rightarrow> nat option) \<Rightarrow> job_input \<Rightarrow> unit res" where
  "validate_job is_uuid hex_bytes ji =
     and_then (check_all (valid_uuid is_uuid) [ji_job ji, ji_producer ji, ji_runner ji, ji_reservation ji, ji_reporter ji]) (\<lambda>_.
     if ji_workstation ji = [] \<or> length (ji_workstation ji) > 128
        \<or> \<not> list_all (\<lambda>c. ascii_alnum c \<or> c \<in> {CHR ''-'', CHR ''_'', CHR ''.''}) (ji_workstation ji) then Inl bad_request
     else and_then (bounded (ji_label ji) 255 True) (\<lambda>_.
     and_then (bounded (ji_source_revision ji) 255 True) (\<lambda>_.
     and_then (bounded (ji_source_tree ji) 255 True) (\<lambda>_.
     and_then (case (ji_check_identity ji, ji_check_version ji, ji_check_environment ji) of
         (Some identity, Some version, Some environment) \<Rightarrow>
           and_then (check_all (\<lambda>v. bounded v 255 True) [identity, version, environment]) (\<lambda>_.
           if full_object_id (ji_source_revision ji) \<and> full_object_id (ji_source_tree ji) then Inr () else Inl bad_request)
       | (None, None, None) \<Rightarrow> Inr ()
       | _ \<Rightarrow> Inl bad_request) (\<lambda>_.
     and_then (ok_or bad_request (hex_bytes (ji_reporter_proof ji))) (\<lambda>n.
     if n \<noteq> 32 \<or> \<not> list_all ascii_hex (ji_reporter_proof ji)
        \<or> \<not> (0 \<le> ji_renew_for_seconds ji \<and> ji_renew_for_seconds ji \<le> 3600) then Inl bad_request else Inr ()))))))"

definition job_reporter :: "db \<Rightarrow> job \<Rightarrow> reporter option" where
  "job_reporter d j = fetch (\<lambda>r. rp_job r = jb_id j) (reporters d)"

definition terminal :: "job_state \<Rightarrow> bool" where
  "terminal st \<longleftrightarrow> st = Succeeded \<or> st = Failed \<or> st = Not_started"

definition job_value :: "job \<Rightarrow> reporter \<Rightarrow> int \<Rightarrow> json" where
  "job_value j r now = JObj
     [(''job'', JJob j),
      (''observation_freshness'', JStr (case jb_last_observed_at j of None \<Rightarrow> ''unobserved''
          | Some v \<Rightarrow> if now - v \<le> 90000 then ''fresh'' else ''stale'')),
      (''observation_age_ms'', case jb_last_observed_at j of None \<Rightarrow> JNull | Some v \<Rightarrow> JInt (max 0 (now - v))),
      (''terminal'', JBool (terminal (jb_state j))),
      (''reporter'', JObj [(''id'', JStr (rp_id r)), (''expires_at'', JTime (rp_expires_at r)),
         (''renew_until'', JTime (rp_renew_until r))])]"

definition job_get :: "db \<Rightarrow> string \<Rightarrow> string \<Rightarrow> int \<Rightarrow> json res" where
  "job_get d p i now =
     and_then (ok_or not_found (fetch (\<lambda>j. jb_project j = p \<and> jb_id j = i) (jobs d))) (\<lambda>j.
     and_then (ok_or not_found (job_reporter d j)) (\<lambda>r. Inr (job_value j r now)))"

definition new_job :: "mutation \<Rightarrow> string \<Rightarrow> string \<Rightarrow> attempt \<Rightarrow> job_input \<Rightarrow> job" where
  "new_job m p attempt a ji =
     \<lparr>jb_id = ji_job ji, jb_producer = ji_producer ji, jb_project = p, jb_task = at_task a, jb_attempt = attempt,
      jb_generation = ji_generation ji, jb_runner = ji_runner ji, jb_workstation = ji_workstation ji,
      jb_label = ji_label ji, jb_source_revision = ji_source_revision ji, jb_source_tree = ji_source_tree ji,
      jb_reservation = ji_reservation ji, jb_state = Registered, jb_last_sequence = 0, jb_last_observed_at = None,
      jb_pid = None, jb_process_started_at = None, jb_exit_code = None, jb_inputs_unchanged = None, jb_summary = [],
      jb_reconciled_at = None, jb_reconciled_by = None, jb_reconciliation = None, jb_created_at = m_now m,
      jb_check = (case (ji_check_identity ji, ji_check_version ji, ji_check_environment ji) of
         (Some x, Some y, Some z) \<Rightarrow> Some (x, y, z) | _ \<Rightarrow> None)\<rparr>"

definition register_job ::
  "(string \<times> string \<times> string list \<times> task_kind \<Rightarrow> string) \<Rightarrow> (string \<Rightarrow> string) \<Rightarrow> string \<Rightarrow> string \<Rightarrow> job_input \<Rightarrow>
    mutation \<Rightarrow> outcome res" where
  "register_job dig sha p attempt ji m =
     (let d = m_db m; now = m_now m in
      and_then (owned m p attempt (ji_generation ji)) (\<lambda>a.
      and_then (guard_activity_work dig d p (at_task a) now) (\<lambda>_.
      if at_mode a \<noteq> Work \<or> ac_kind (m_actor m) \<noteq> Agent then Inl forbidden
      else replay_or m (
      and_then (ok_or (conflict ''checkout_required'')
          (fetch (\<lambda>c. co_project c = p \<and> co_attempt c = attempt) (checkouts d))) (\<lambda>co.
      and_then (ok_or row_not_found (fetch (\<lambda>s. as_id s = at_session a) (agent_sessions d))) (\<lambda>s.
      if co_workstation co \<noteq> ji_workstation ji \<or> as_workstation s \<noteq> ji_workstation ji then Inl forbidden
      else if count_where (\<lambda>r. rv_project r = p \<and> rv_id r = ji_reservation ji \<and> rv_attempt r = attempt
           \<and> rv_generation r = ji_generation ji \<and> rv_state r = Held) (reservations d) = 0
        then Inl (conflict ''reservation_required'')
      else if count_where (\<lambda>j. jb_id j = ji_job ji \<or> jb_producer j = ji_producer ji) (jobs d) > 0
           \<or> count_where (\<lambda>r. rp_id r = ji_reporter ji) (reporters d) > 0
        then Inl (conflict ''producer_registered'')
      else and_then (ok_or forbidden (at_credential a)) (\<lambda>credential.
      and_then (insert_unique unique_violation (\<lambda>x y. jb_id x = jb_id y \<or> jb_producer x = jb_producer y)
          (new_job m p attempt a ji) (jobs d)) (\<lambda>js.
      and_then (insert_unique unique_violation (\<lambda>x y. rp_id x = rp_id y \<or> rp_job x = rp_job y)
          \<lparr>rp_id = ji_reporter ji, rp_job = ji_job ji, rp_principal = ac_id (m_actor m), rp_credential = credential,
           rp_session = at_session a, rp_proof_hash = sha (ji_reporter_proof ji),
           rp_expires_at = now + REPORTER_LIFETIME_MS, rp_renew_until = now + ji_renew_for_seconds ji * 1000,
           rp_created_at = now\<rparr> (reporters d)) (\<lambda>rps.
      let d1 = d\<lparr>jobs := js, reporters := rps\<rparr> in
      and_then (job_get d1 p (ji_job ji) now) (\<lambda>value.
        finish m d1 (JObj [(''job'', value),
            (''reporter'', JObj [(''id'', JStr (ji_reporter ji)), (''expires_at'', JTime (now + REPORTER_LIFETIME_MS)),
               (''renew_until'', JTime (now + ji_renew_for_seconds ji * 1000))]),
            (''renew_after_seconds'', JInt (if ji_renew_for_seconds ji = 0 then 0
               else clamp64 1 60 (rust_div (ji_renew_for_seconds ji) 3)))])
          (Some p) ''job.registered'' (ji_job ji)))))))))))"

section \<open>Reporters\<close>

text \<open>The joined row of \<open>reporter_job\<close>: the reporter, its job and the job's attempt.\<close>

definition reporter_job :: "db \<Rightarrow> string \<Rightarrow> (reporter \<times> job \<times> attempt) res" where
  "reporter_job d i =
     and_then (ok_or not_found (fetch (\<lambda>r. rp_id r = i) (reporters d))) (\<lambda>r.
     and_then (ok_or not_found (fetch (\<lambda>j. jb_id j = rp_job r) (jobs d))) (\<lambda>j.
     and_then (ok_or not_found (fetch (\<lambda>a. at_id a = jb_attempt j) (attempts d))) (\<lambda>a. Inr (r, j, a))))"

text \<open>The join shared by \<open>reporter_can_renew\<close> and \<open>reporter_can_launch\<close>.\<close>

definition reporter_owner_rows :: "db \<Rightarrow> int \<Rightarrow> reporter \<Rightarrow> job \<Rightarrow> int" where
  "reporter_owner_rows d now r j =
     count_where (\<lambda>a. at_id a = jb_attempt j \<and> at_project a = jb_project j \<and> at_generation a = jb_generation j
       \<and> at_state a = Active \<and> at_expires_at a > now \<and> at_owner a = rp_principal r
       \<and> at_credential a = Some (rp_credential r) \<and> at_session a = rp_session r \<and> at_mode a = Work
       \<and> exists_where (\<lambda>t. tk_id t = at_task a \<and> tk_current_attempt t = Some (at_id a)
            \<and> tk_generation t = at_generation a) (tasks d)
       \<and> exists_where (\<lambda>v. rv_id v = jb_reservation j \<and> rv_attempt v = at_id a \<and> rv_state v = Held) (reservations d)
       \<and> exists_where (\<lambda>s. as_id s = at_session a \<and> at_credential a = Some (as_credential s) \<and> as_closed_at s = None)
            (agent_sessions d)) (attempts d)"

definition reporter_can_renew :: "db \<Rightarrow> int \<Rightarrow> reporter \<Rightarrow> job \<Rightarrow> bool" where
  "reporter_can_renew d now r j \<longleftrightarrow>
     (if rp_renew_until r \<le> now then False
      else live_job j \<and> reporter_owner_rows d now r j = 1)"

definition reporter_can_launch ::
  "(string \<times> string \<times> string list \<times> task_kind \<Rightarrow> string) \<Rightarrow> db \<Rightarrow> int \<Rightarrow> reporter \<Rightarrow> job \<Rightarrow> bool" where
  "reporter_can_launch dig d now r j \<longleftrightarrow>
     (if \<not> is_ok (guard_activity_work dig d (jb_project j) (jb_task j) now) then False
      else if jb_state j \<noteq> Registered then False
      else reporter_owner_rows d now r j = 1)"

section \<open>Observations\<close>

definition job_state_of :: "string \<Rightarrow> job_state option" where
  "job_state_of st =
     (if st = ''registered'' then Some Registered else if st = ''running'' then Some Running
      else if st = ''succeeded'' then Some Succeeded else if st = ''failed'' then Some Failed
      else if st = ''unknown'' then Some Unknown else if st = ''not_started'' then Some Not_started else None)"

definition validate_observation :: "(string \<Rightarrow> bool) \<Rightarrow> observation_input \<Rightarrow> unit res" where
  "validate_observation is_uuid oi =
     (if oi_sequence oi \<le> 0 \<or> job_state_of (oi_state oi) = None \<or> is_some_and (oi_pid oi) (\<lambda>p. p \<le> 0)
      then Inl bad_request
      else and_then (valid_uuid is_uuid (oi_producer oi)) (\<lambda>_.
      and_then (bounded (oi_summary oi) 8192 False) (\<lambda>_.
      and_then (case oi_process_started_at oi of None \<Rightarrow> Inr () | Some v \<Rightarrow> bounded v 128 True) (\<lambda>_.
      case job_state_of (oi_state oi) of
        Some Succeeded \<Rightarrow> if oi_exit_code oi \<noteq> Some 0 \<or> oi_inputs_unchanged oi = None then Inl bad_request else Inr ()
      | Some Failed \<Rightarrow> if oi_exit_code oi = None \<or> oi_inputs_unchanged oi = None then Inl bad_request else Inr ()
      | Some Not_started \<Rightarrow> if blank (oi_summary oi) \<or> oi_pid oi \<noteq> None \<or> oi_process_started_at oi \<noteq> None
            \<or> oi_exit_code oi \<noteq> None then Inl bad_request else Inr ()
      | _ \<Rightarrow> if oi_exit_code oi \<noteq> None then Inl bad_request else Inr ()))))"

definition new_observation :: "mutation \<Rightarrow> string \<Rightarrow> string \<Rightarrow> job_state \<Rightarrow> observation_input \<Rightarrow> job_observation" where
  "new_observation m reporter h st oi =
     \<lparr>ob_reporter = reporter, ob_sequence = oi_sequence oi, ob_request_hash = h, ob_producer = oi_producer oi,
      ob_state = st, ob_pid = oi_pid oi, ob_process_started_at = oi_process_started_at oi,
      ob_exit_code = oi_exit_code oi, ob_inputs_unchanged = oi_inputs_unchanged oi, ob_summary = oi_summary oi,
      ob_observed_at = m_now m\<rparr>"

definition apply_observation :: "mutation \<Rightarrow> job_state \<Rightarrow> observation_input \<Rightarrow> job \<Rightarrow> job" where
  "apply_observation m st oi j = j\<lparr>jb_state := st, jb_last_sequence := oi_sequence oi,
     jb_last_observed_at := Some (m_now m), jb_pid := oi_pid oi, jb_process_started_at := oi_process_started_at oi,
     jb_exit_code := oi_exit_code oi, jb_inputs_unchanged := oi_inputs_unchanged oi, jb_summary := oi_summary oi\<rparr>"

text \<open>A sequence number that is not new: the same observation is answered again, anything else is refused.\<close>

definition observe_again :: "string \<Rightarrow> string \<Rightarrow> observation_input \<Rightarrow> mutation \<Rightarrow> job \<Rightarrow> outcome res" where
  "observe_again reporter h oi m j =
     (let d = m_db m in
      case fetch (\<lambda>ob. ob_reporter ob = reporter \<and> ob_sequence ob = oi_sequence oi) (job_observations d) of
        Some previous \<Rightarrow>
          if ob_request_hash previous = h then
            and_then (job_get d (jb_project j) (jb_id j) (m_now m)) (\<lambda>value.
              finish m d (JObj [(''job'', value), (''observation'', JObservation previous), (''replayed'', JBool True)])
                (Some (jb_project j)) ''job.observation_replayed'' (jb_id j))
          else Inl (conflict ''observation_sequence_conflict'')
      | None \<Rightarrow> Inl (conflict ''observation_sequence_conflict''))"

definition observe :: "(observation_input \<Rightarrow> string) \<Rightarrow> string \<Rightarrow> observation_input \<Rightarrow> mutation \<Rightarrow> outcome res" where
  "observe hash reporter oi m =
     (let d = m_db m in
      replay_or m (
      and_then (reporter_job d reporter) (\<lambda>(r, j, a).
      if jb_producer j \<noteq> oi_producer oi then Inl (conflict ''producer_mismatch'')
      else if oi_sequence oi \<le> jb_last_sequence j then observe_again reporter (hash oi) oi m j
      else if terminal (jb_state j) then Inl (conflict ''job_terminal'')
      else if oi_state oi = ''not_started'' \<and> count_where (\<lambda>ob. ob_reporter ob = reporter
           \<and> (ob_state ob = Running \<or> ob_pid ob \<noteq> None \<or> ob_process_started_at ob \<noteq> None)) (job_observations d) > 0
        then Inl (conflict ''job_already_launched'')
      else if oi_state oi = ''registered'' \<and> jb_last_sequence j > 0 then Inl (conflict ''job_state_regression'')
      else and_then (ok_or bad_request (job_state_of (oi_state oi))) (\<lambda>st.
      and_then (insert_unique unique_violation
          (\<lambda>x y. ob_reporter x = ob_reporter y \<and> ob_sequence x = ob_sequence y)
          (new_observation m reporter (hash oi) st oi) (job_observations d)) (\<lambda>obs.
      let d1 = d\<lparr>job_observations := obs,
            jobs := update_where (\<lambda>x. jb_id x = jb_id j) (apply_observation m st oi) (jobs d)\<rparr> in
      and_then (job_get d1 (jb_project j) (jb_id j) (m_now m)) (\<lambda>value.
        finish m d1 (JObj [(''job'', value), (''observation'', JObservation (new_observation m reporter (hash oi) st oi))])
          (Some (jb_project j)) ''job.observed'' (jb_id j)))))))"

section \<open>Reporter renewal\<close>

definition reporter_renew :: "string \<Rightarrow> int \<Rightarrow> mutation \<Rightarrow> outcome res" where
  "reporter_renew reporter gen m =
     (let d = m_db m; now = m_now m in
      and_then (reporter_job d reporter) (\<lambda>(r, j, _).
      if jb_generation j \<noteq> gen \<or> rp_renew_until r \<le> now then Inl (conflict ''reporter_renewal_expired'')
      else if \<not> reporter_can_renew d now r j then Inl (conflict ''reporter_renewal_expired'')
      else and_then (owned m (jb_project j) (jb_attempt j) gen) (\<lambda>current.
      case m_replay m of
        Some v \<Rightarrow> Inr (Answered (json_put ''replayed'' (JBool True)
            (json_put ''lease_remaining_ms'' (JInt (max 0 (at_expires_at current - now)))
            (json_put ''attempt'' (JAttempt current) v))))
      | None \<Rightarrow>
          and_then (ok_or row_not_found (fetch (\<lambda>x. pj_id x = jb_project j) (projects d))) (\<lambda>proj.
          and_then (capped_renewal (min (now + pj_lease_seconds proj * 1000) (rp_renew_until r))
              (pj_max_attempt_seconds proj) current) (\<lambda>extension.
          let expires = max (at_expires_at current) extension;
              d1 = update_attempt (jb_attempt j) (\<lambda>a. a\<lparr>at_expires_at := expires, at_last_heartbeat_at := now\<rparr>) d in
          and_then (ok_or row_not_found (fetch (\<lambda>a. at_id a = jb_attempt j) (attempts d1))) (\<lambda>updated.
            finish m d1 (JObj [(''attempt'', JAttempt updated), (''lease_remaining_ms'', JInt (expires - now)),
                (''renew_after_seconds'', JInt (clamp64 1 60 (rust_div (expires - now) 3000)))])
              (Some (jb_project j)) ''attempt.reporter_renewed'' (jb_attempt j)))))))"

end
