(* ===== verification/Job_Invariant.thy ===== *)
theory Job_Invariant
  imports Jobs
begin

text \<open>
  Shared resources are never overcommitted, and a producer that may still run always holds its
  reservation: the invariant \<open>resources_ok\<close>, kept by every job handler. Terminal results are final
  and sequence numbers only grow (\<open>jobs_forward\<close>).
\<close>

section \<open>The invariant\<close>

definition item_ok :: "db \<Rightarrow> reservation_item \<Rightarrow> bool" where
  "item_ok d x \<longleftrightarrow> 0 \<le> ri_units x \<and> (\<exists>r \<in> set (reservations d). rv_id r = ri_reservation x)
     \<and> (\<exists>y \<in> set (resources d). rs_id y = ri_resource x)"

definition resources_ok :: "db \<Rightarrow> bool" where
  "resources_ok d \<longleftrightarrow> unique_by rs_id (resources d) \<and> unique_by rv_id (reservations d) \<and> unique_by jb_id (jobs d)
     \<and> (\<forall>x \<in> set (reservation_items d). item_ok d x)
     \<and> (\<forall>y \<in> set (resources d). held_units d (rs_id y) \<le> rs_capacity y)
     \<and> (\<forall>j \<in> set (jobs d). live_job j \<longrightarrow> held d (jb_reservation j))"

definition job_tables_same :: "db \<Rightarrow> db \<Rightarrow> bool" where
  "job_tables_same d d' \<longleftrightarrow> resources d' = resources d \<and> reservations d' = reservations d
     \<and> reservation_items d' = reservation_items d \<and> jobs d' = jobs d"

lemma resources_ok_same: "job_tables_same d d' \<Longrightarrow> resources_ok d' = resources_ok d"
  by (simp add: job_tables_same_def resources_ok_def item_ok_def held_units_def held_def)

section \<open>Held units\<close>

lemma sum_rows_mono:
  assumes "\<And>x. x \<in> set xs \<Longrightarrow> P x \<Longrightarrow> Q x" and "\<And>x. x \<in> set xs \<Longrightarrow> (0 :: int) \<le> f x"
  shows "sum_list (map f (rows P xs)) \<le> sum_list (map f (rows Q xs))"
  using assms
proof (induction xs)
  case (Cons x xs)
  then have "sum_list (map f (rows P xs)) \<le> sum_list (map f (rows Q xs))" by simp
  with Cons.prems [of x] show ?case by (auto simp: rows_def)
qed (simp add: rows_def)

lemma sum_rows_cong:
  assumes "\<And>x. x \<in> set xs \<Longrightarrow> P x = Q x"
  shows "sum_list (map f (rows P xs)) = sum_list (map f (rows Q xs))"
proof -
  have "rows P xs = rows Q xs" unfolding rows_def using assms by (simp cong: filter_cong)
  then show ?thesis by simp
qed

lemma held_close:
  assumes "st \<noteq> Held"
  shows "held (close_reservation i m st reason ev d) r \<longleftrightarrow> held d r \<and> r \<noteq> i"
  using assms by (force simp: held_def close_reservation_def table_simps)

lemma held_units_close:
  assumes "st \<noteq> Held" and "\<forall>x \<in> set (reservation_items d). 0 \<le> ri_units x"
  shows "held_units (close_reservation i m st reason ev d) r \<le> held_units d r"
proof -
  have "reservation_items (close_reservation i m st reason ev d) = reservation_items d"
    by (simp add: close_reservation_def)
  then show ?thesis
    unfolding held_units_def using assms(2)
    by (simp only:) (rule sum_rows_mono, simp_all add: held_close [OF assms(1)])
qed

lemma closed_reservations: "map rv_id (reservations (close_reservation i m st reason ev d)) = map rv_id (reservations d)"
  by (simp add: close_reservation_def map_update_stable)

text \<open>Closing a reservation keeps the invariant when none of its jobs is live.\<close>

lemma resources_ok_close:
  assumes ok: "resources_ok d" and st: "st \<noteq> Held"
    and idle: "\<forall>j \<in> set (jobs d). jb_reservation j = i \<longrightarrow> \<not> live_job j"
  shows "resources_ok (close_reservation i m st reason ev d)"
    (is "resources_ok ?d")
proof -
  have same: "resources ?d = resources d" "reservation_items ?d = reservation_items d" "jobs ?d = jobs d"
    by (simp_all add: close_reservation_def)
  have ids: "rv_id ` set (reservations ?d) = rv_id ` set (reservations d)"
    using arg_cong [OF closed_reservations, of set] by simp
  have "item_ok ?d x" if "x \<in> set (reservation_items d)" for x
  proof -
    from ok that have x: "item_ok d x" by (simp add: resources_ok_def)
    then have "ri_reservation x \<in> rv_id ` set (reservations ?d)" unfolding ids
      by (auto simp: item_ok_def intro: rev_image_eqI)
    with x show ?thesis by (auto simp: item_ok_def same)
  qed
  moreover have "held_units ?d (rs_id y) \<le> rs_capacity y" if "y \<in> set (resources d)" for y
    using ok that held_units_close [OF st, of d i m reason ev "rs_id y"]
    unfolding resources_ok_def item_ok_def by force
  moreover have "held ?d (jb_reservation j)" if "j \<in> set (jobs d)" "live_job j" for j
    using ok that idle by (auto simp: held_close [OF st] resources_ok_def)
  moreover have "unique_by rv_id (reservations ?d)"
    using ok unfolding resources_ok_def unique_by_def by (simp only: closed_reservations)
  ultimately show ?thesis using ok by (simp add: resources_ok_def same)
qed

lemma reconcile_idle: "\<forall>j \<in> set (jobs (reconcile_jobs i m reason ev d)). jb_reservation j = i \<longrightarrow> \<not> live_job j"
  unfolding reconcile_jobs_def by (auto dest!: update_where_row simp: live_job_def split: if_splits)

lemma resources_ok_reconcile: "resources_ok d \<Longrightarrow> resources_ok (reconcile_jobs i m reason ev d)"
proof -
  assume ok: "resources_ok d"
  have "unique_by jb_id (jobs (reconcile_jobs i m reason ev d))"
    using ok by (auto simp: reconcile_jobs_def resources_ok_def)
  moreover have "held d (jb_reservation j)" if "j \<in> set (jobs (reconcile_jobs i m reason ev d))" "live_job j" for j
  proof -
    from update_where_row [OF that(1) [unfolded reconcile_jobs_def, simplified]] that(2)
    have "j \<in> set (jobs d)" by (auto simp: live_job_def split: if_splits)
    with ok that(2) show ?thesis by (simp add: resources_ok_def)
  qed
  ultimately show ?thesis
    using ok by (simp add: reconcile_jobs_def resources_ok_def held_units_def held_def item_ok_def)
qed

section \<open>New reservations\<close>

lemma fold_insert_items:
  assumes "fold_res (\<lambda>x. insert_unique e same (row x)) items t = Inr t'"
  shows "t' = t @ map row items \<and> (\<forall>x \<in> set items. \<forall>s \<in> set t. \<not> same (row x) s)"
  using assms
proof (induction items arbitrary: t)
  case (Cons a items)
  then have "fold_res (\<lambda>x. insert_unique e same (row x)) items (insert_row (row a) t) = Inr t'"
    "\<forall>s \<in> set t. \<not> same (row a) s" by auto
  with Cons.IH [of "insert_row (row a) t"] show ?case by (auto simp: insert_row_def)
qed simp

lemma fold_insert_distinct:
  assumes "fold_res (\<lambda>x. insert_unique e same (row x)) items t = Inr t'"
    and "\<And>x y. key x = key y \<Longrightarrow> same (row x) (row y)"
  shows "distinct (map key items)"
  using assms(1)
proof (induction items arbitrary: t)
  case (Cons a items)
  then have tl: "fold_res (\<lambda>x. insert_unique e same (row x)) items (insert_row (row a) t) = Inr t'" by auto
  have "key a \<notin> key ` set items"
    using fold_insert_items [OF tl] assms(2) by (metis imageE insertI1 set_insert_row)
  with Cons.IH [OF tl] show ?case by simp
qed simp

lemma sum_new_items:
  assumes "distinct (map fst items)"
  shows "sum_list (map ri_units (rows (\<lambda>x. ri_resource x = r)
      (map (\<lambda>x. \<lparr>ri_reservation = u, ri_resource = fst x, ri_units = snd x\<rparr>) items)))
    = (case map_of items r of None \<Rightarrow> 0 | Some n \<Rightarrow> n)"
  using assms
proof (induction items)
  case (Cons x items)
  have "map_of items (fst x) = None" using Cons.prems by (auto simp: map_of_eq_None_iff)
  with Cons show ?case by (auto simp: rows_def split: option.splits)
qed (simp add: rows_def)

text \<open>A granted reservation adds at most the free units of each resource.\<close>

lemma resources_ok_insert:
  assumes ok: "resources_ok d"
    and avail: "check_all (item_available d) items = Inr ()"
    and ins: "insert_reservation uuid p attempt gen m items d = Inr d'"
    and units: "\<forall>x \<in> set items. 0 \<le> snd x"
  shows "resources_ok d'"
proof -
  let ?row = "\<lambda>x. \<lparr>ri_reservation = uuid, ri_resource = fst x, ri_units = snd x\<rparr>"
  define r where "r = \<lparr>rv_id = uuid, rv_project = p, rv_attempt = attempt, rv_generation = gen, rv_state = Held,
     rv_created_by = ac_id (m_actor m), rv_created_at = m_now m, rv_closed_at = None, rv_closed_by = None,
     rv_reason = None, rv_evidence = None\<rparr>"
  have r: "rv_id r = uuid" "rv_state r = Held" by (simp_all add: r_def)
  from ins obtain ri where d': "d' = d\<lparr>reservations := insert_row r (reservations d), reservation_items := ri\<rparr>"
    and fresh: "\<forall>v \<in> set (reservations d). rv_id v \<noteq> uuid"
    and f: "fold_res (\<lambda>x. insert_unique unique_violation
        (\<lambda>a b. ri_reservation a = ri_reservation b \<and> ri_resource a = ri_resource b) (?row x)) items (reservation_items d) = Inr ri"
    unfolding insert_reservation_def r_def by auto
  have ri: "ri = reservation_items d @ map ?row items" using fold_insert_items [OF f] by simp
  have dist: "distinct (map fst items)" by (rule fold_insert_distinct [OF f]) simp
  have held: "held d' i \<longleftrightarrow> held d i \<or> i = uuid" for i
    using r by (auto simp: held_def d' table_simps)
  have old: "ri_reservation x \<noteq> uuid" if "x \<in> set (reservation_items d)" for x
    using ok that fresh by (auto simp: resources_ok_def item_ok_def)
  have av: "\<exists>y. fetch (\<lambda>y. rs_id y = fst x) (resources d) = Some y \<and> held_units d (fst x) + snd x \<le> rs_capacity y"
    if "x \<in> set items" for x
    using avail that by (auto simp: item_available_def split: if_splits)
  have units_of: "held_units d' i = held_units d i + (case map_of items i of None \<Rightarrow> 0 | Some n \<Rightarrow> n)" for i
  proof -
    have "held_units d' i = sum_list (map ri_units (rows (\<lambda>x. ri_resource x = i \<and> held d' (ri_reservation x)) (reservation_items d)))
        + sum_list (map ri_units (rows (\<lambda>x. ri_resource x = i \<and> held d' (ri_reservation x)) (map ?row items)))"
      by (simp add: held_units_def d' ri rows_def)
    also have "sum_list (map ri_units (rows (\<lambda>x. ri_resource x = i \<and> held d' (ri_reservation x)) (reservation_items d))) = held_units d i"
      unfolding held_units_def by (rule sum_rows_cong) (use old held in auto)
    also have "sum_list (map ri_units (rows (\<lambda>x. ri_resource x = i \<and> held d' (ri_reservation x)) (map ?row items)))
        = sum_list (map ri_units (rows (\<lambda>x. ri_resource x = i) (map ?row items)))"
      by (rule sum_rows_cong) (auto simp: held)
    also have "\<dots> = (case map_of items i of None \<Rightarrow> 0 | Some n \<Rightarrow> n)" by (rule sum_new_items [OF dist])
    finally show ?thesis .
  qed
  have cap: "held_units d' (rs_id y) \<le> rs_capacity y" if y: "y \<in> set (resources d)" for y
  proof (cases "map_of items (rs_id y)")
    case None
    with ok y show ?thesis by (simp add: units_of resources_ok_def)
  next
    case (Some n)
    from av [OF map_of_SomeD [OF Some]] obtain z where
      z: "fetch (\<lambda>z. rs_id z = rs_id y) (resources d) = Some z" "held_units d (rs_id y) + n \<le> rs_capacity z" by auto
    have "z = y" using ok y fetch_SomeD [OF z(1)] by (auto simp: resources_ok_def dest: unique_row)
    with z(2) Some show ?thesis by (simp add: units_of)
  qed
  have "item_ok d' x" if x: "x \<in> set ri" for x
  proof (cases "x \<in> set (reservation_items d)")
    case True
    with ok show ?thesis by (auto simp: resources_ok_def item_ok_def d')
  next
    case False
    with x obtain it where it: "it \<in> set items" "x = ?row it" by (auto simp: ri)
    from av [OF it(1)] obtain y where "fetch (\<lambda>y. rs_id y = fst it) (resources d) = Some y" by blast
    from fetch_SomeD [OF this] it units r show ?thesis by (auto simp: item_ok_def d')
  qed
  with cap ok held fresh r show ?thesis
    by (auto simp: resources_ok_def d')
qed

lemma check_items_units:
  "check_items is_uuid seen items = Inr u \<Longrightarrow> \<forall>x \<in> set items. 0 \<le> snd x"
  by (induction is_uuid seen items rule: check_items.induct) (auto split: if_splits)

lemma validate_reservation_units:
  "validate_reservation is_uuid items = Inr u \<Longrightarrow> \<forall>x \<in> set items. 0 \<le> snd x"
  by (auto simp: validate_reservation_def split: if_splits dest: check_items_units)

section \<open>Resource administration\<close>

lemma held_units_resources [simp]: "held_units (d\<lparr>resources := xs\<rparr>) r = held_units d r"
  by (simp add: held_units_def held_def)

lemma unreferenced_units:
  assumes "\<forall>x \<in> set (reservation_items d). ri_resource x \<noteq> r"
  shows "held_units d r = 0"
proof -
  have "rows (\<lambda>x. ri_resource x = r \<and> held d (ri_reservation x)) (reservation_items d) = []"
    using assms by (auto simp: rows_def filter_empty_conv)
  then show ?thesis by (simp add: held_units_def)
qed

lemma resources_ok_add:
  assumes ok: "resources_ok d" and new: "\<forall>y \<in> set (resources d). rs_id y \<noteq> rs_id x" and cap: "0 \<le> rs_capacity x"
  shows "resources_ok (d\<lparr>resources := insert_row x (resources d)\<rparr>)"
proof -
  have "held_units d (rs_id x) = 0"
    by (rule unreferenced_units) (use ok new in \<open>auto simp: resources_ok_def item_ok_def\<close>)
  with ok new cap show ?thesis
    by (auto simp: resources_ok_def item_ok_def held_def)
qed

lemma resources_ok_delete:
  assumes "resources_ok d" and "\<forall>x \<in> set (reservation_items d). ri_resource x \<noteq> r"
  shows "resources_ok (d\<lparr>resources := delete_where (\<lambda>x. rs_id x = r) (resources d)\<rparr>)"
  using assms by (fastforce simp: resources_ok_def item_ok_def held_def)

lemma resources_ok_update:
  assumes ok: "resources_ok d" and cap: "is_none_or (xu_capacity xu) (\<lambda>c. held_units d r \<le> c)"
  shows "resources_ok (d\<lparr>resources := update_where (\<lambda>x. rs_id x = r) (apply_resource_update xu) (resources d)\<rparr>)"
    (is "resources_ok ?d")
proof -
  have ids: "map rs_id (resources ?d) = map rs_id (resources d)"
    by (simp add: map_update_stable apply_resource_update_def)
  then have img: "rs_id ` set (resources ?d) = rs_id ` set (resources d)" by (metis list.set_map)
  have "held_units d (rs_id y) \<le> rs_capacity y" if y: "y \<in> set (resources ?d)" for y
  proof -
    from update_where_row [OF y [simplified]] obtain x where x: "x \<in> set (resources d)"
      "y = (if rs_id x = r then apply_resource_update xu x else x)" by blast
    from ok x(1) have "held_units d (rs_id x) \<le> rs_capacity x" by (simp add: resources_ok_def)
    with x(2) cap show ?thesis
      by (cases "xu_capacity xu") (auto simp: apply_resource_update_def split: if_splits)
  qed
  moreover have "item_ok ?d x" if "x \<in> set (reservation_items d)" for x
  proof -
    from ok that have x: "item_ok d x" by (simp add: resources_ok_def)
    then have "ri_resource x \<in> rs_id ` set (resources ?d)" unfolding img
      by (auto simp: item_ok_def intro: rev_image_eqI)
    with x show ?thesis by (auto simp: item_ok_def)
  qed
  moreover have "unique_by rs_id (resources ?d)" using ok ids by (simp add: resources_ok_def unique_by_def)
  ultimately show ?thesis using ok by (simp add: resources_ok_def held_def)
qed

end
