(* ===== verification/Job_Handlers.thy ===== *)
theory Job_Handlers
  imports Job_Invariant
begin

text \<open>
  The job handlers keep the resource invariant, leave ownership, admission and dependencies
  alone, honour the contract of a write transaction, and only move jobs forward: a terminal result
  is final and sequence numbers grow.
\<close>

section \<open>Jobs move forward\<close>

definition job_forward :: "job \<Rightarrow> job \<Rightarrow> bool" where
  "job_forward j k \<longleftrightarrow> jb_id k = jb_id j \<and> jb_reservation k = jb_reservation j \<and> jb_last_sequence j \<le> jb_last_sequence k
     \<and> (terminal (jb_state j) \<longrightarrow> jb_state k = jb_state j \<and> jb_exit_code k = jb_exit_code j
          \<and> jb_inputs_unchanged k = jb_inputs_unchanged j \<and> jb_summary k = jb_summary j)
     \<and> (jb_reconciled_at j \<noteq> None \<longrightarrow> jb_reconciled_at k = jb_reconciled_at j)"

definition jobs_forward :: "db \<Rightarrow> db \<Rightarrow> bool" where
  "jobs_forward d d' \<longleftrightarrow> (\<forall>j \<in> set (jobs d). \<exists>k \<in> set (jobs d'). job_forward j k)"

lemma job_forward_refl [simp]: "job_forward j j"
  by (simp add: job_forward_def)

lemma job_forward_trans: "job_forward i j \<Longrightarrow> job_forward j k \<Longrightarrow> job_forward i k"
  by (auto simp: job_forward_def)

lemma jobs_forward_trans: "jobs_forward a b \<Longrightarrow> jobs_forward b c \<Longrightarrow> jobs_forward a c"
  unfolding jobs_forward_def using job_forward_trans by blast

lemma jobs_forward_more: "set (jobs d) \<subseteq> set (jobs d') \<Longrightarrow> jobs_forward d d'"
  unfolding jobs_forward_def using job_forward_refl by blast

lemma jobs_forward_same: "jobs d' = jobs d \<Longrightarrow> jobs_forward d d'"
  by (rule jobs_forward_more) simp

lemma jobs_forward_update:
  assumes "\<And>j. j \<in> set (jobs d) \<Longrightarrow> P j \<Longrightarrow> job_forward j (f j)" and "jobs d' = update_where P f (jobs d)"
  shows "jobs_forward d d'"
  unfolding jobs_forward_def
proof
  fix j assume j: "j \<in> set (jobs d)"
  with assms show "\<exists>k \<in> set (jobs d'). job_forward j k"
    by (intro bexI [of _ "if P j then f j else j"]) (auto simp: table_simps)
qed

section \<open>Steps\<close>

definition job_step :: "db \<Rightarrow> db \<Rightarrow> bool" where
  "job_step d d0 \<longleftrightarrow> audited d d0 \<and> (resources_ok d \<longrightarrow> resources_ok d0 \<and> jobs_forward d d0)
     \<and> (leases_ok d \<longrightarrow> leases_ok d0 \<and> leases_forward d d0) \<and> budget_kept d d0 \<and> edges d0 = edges d"

lemma job_step_audited: "job_step d d0 \<Longrightarrow> audited d d0"
  by (simp add: job_step_def)

text \<open>A change of the job tables only.\<close>

lemma job_stepI:
  assumes "receipts d0 = receipts d" "events d0 = events d" "tasks d0 = tasks d" "attempts d0 = attempts d"
    "task_dependencies d0 = task_dependencies d" "objective_children d0 = objective_children d" "clock d0 = clock d"
    and "resources_ok d \<Longrightarrow> resources_ok d0" and "resources_ok d \<Longrightarrow> jobs_forward d d0"
  shows "job_step d d0"
  using assms by (simp add: job_step_def audited_def leases_ok_def leases_forward_def attempt_kept task_kept edges_def budget_kept_same)

lemma job_step_refl: "job_step d d"
  by (rule job_stepI) (simp_all add: jobs_forward_same)

lemma lease_step_job_step:
  assumes "lease_step d d0"
  shows "job_step d d0"
proof -
  have "job_tables_same d d0" using assms by (simp add: lease_step_def job_tables_same_def)
  from resources_ok_same [OF this] assms show ?thesis
    by (simp add: job_step_def lease_step_def jobs_forward_same)
qed

section \<open>Resources and reservations\<close>

lemma create_resource_commits:
  assumes "0 \<le> xi_capacity xi"
  shows "commits job_step m (create_resource uuid xi m)"
  unfolding create_resource_def Let_def
proof (intro commits_intros; assumption?)
  fix xs
  assume ins: "insert_unique unique_violation (\<lambda>a b. rs_id a = rs_id b \<or> rs_key a = rs_key b)
     \<lparr>rs_id = uuid, rs_key = xi_key xi, rs_capacity = xi_capacity xi, rs_description = xi_description xi,
      rs_created_by = ac_id (m_actor m), rs_created_at = m_now m\<rparr> (resources (m_db m)) = Inr xs"
  show "job_step (m_db m) (m_db m\<lparr>resources := xs\<rparr>)"
    by (rule job_stepI) (use ins assms in \<open>auto simp: jobs_forward_same intro!: resources_ok_add\<close>)
qed

lemma update_resource_commits: "commits job_step m (update_resource r xu m)"
  unfolding update_resource_def Let_def
proof (intro commits_intros; assumption?)
  assume "\<not> is_some_and (xu_capacity xu) (\<lambda>c. c < held_units (m_db m) r)"
  then have "is_none_or (xu_capacity xu) (\<lambda>c. held_units (m_db m) r \<le> c)" by (cases "xu_capacity xu") auto
  then show "job_step (m_db m) (m_db m\<lparr>resources := update_where (\<lambda>x. rs_id x = r) (apply_resource_update xu) (resources (m_db m))\<rparr>)"
    by (intro job_stepI resources_ok_update) (simp_all add: jobs_forward_same)
qed

lemma delete_resource_commits: "commits job_step m (delete_resource r m)"
  unfolding delete_resource_def Let_def
proof (intro commits_intros; assumption?)
  assume "\<not> 0 < count_where (\<lambda>x. ri_resource x = r) (reservation_items (m_db m))"
  then have "\<forall>x \<in> set (reservation_items (m_db m)). ri_resource x \<noteq> r" by (simp add: table_simps)
  then show "job_step (m_db m) (m_db m\<lparr>resources := delete_where (\<lambda>x. rs_id x = r) (resources (m_db m))\<rparr>)"
    by (intro job_stepI resources_ok_delete) (simp_all add: jobs_forward_same)
qed

lemma insert_reservation_fields:
  "insert_reservation uuid p attempt gen m items d = Inr d' \<Longrightarrow>
     \<exists>rs ri. d' = d\<lparr>reservations := rs, reservation_items := ri\<rparr>"
  by (auto simp: insert_reservation_def)

lemma create_reservation_commits:
  assumes "\<forall>x \<in> set items. 0 \<le> snd x"
  shows "commits job_step m (create_reservation dig uuid p attempt gen items m)"
  unfolding create_reservation_def Let_def
proof (intro commits_intros; assumption?)
  fix u d1 assume av: "check_all (item_available (m_db m)) items = Inr u"
    and ins: "insert_reservation uuid p attempt gen m items (m_db m) = Inr d1"
  have av': "check_all (item_available (m_db m)) items = Inr ()" using av by simp
  have ok: "resources_ok (m_db m) \<Longrightarrow> resources_ok d1" by (rule resources_ok_insert [OF _ av' ins assms])
  from insert_reservation_fields [OF ins] obtain rs ri where
    d1: "d1 = m_db m\<lparr>reservations := rs, reservation_items := ri\<rparr>" by blast
  show "job_step (m_db m) d1"
    by (rule job_stepI; (erule ok)?) (simp_all add: d1 jobs_forward_same)
qed

lemma close_frame [simp]:
  "clock (close_reservation i m st reason ev d) = clock d" "receipts (close_reservation i m st reason ev d) = receipts d" "events (close_reservation i m st reason ev d) = events d"
  "tasks (close_reservation i m st reason ev d) = tasks d" "attempts (close_reservation i m st reason ev d) = attempts d"
  "task_dependencies (close_reservation i m st reason ev d) = task_dependencies d"
  "objective_children (close_reservation i m st reason ev d) = objective_children d"
  "jobs (close_reservation i m st reason ev d) = jobs d"
  by (simp_all add: close_reservation_def)

lemma release_reservation_commits: "commits job_step m (release_reservation p i gen reason m)"
  unfolding release_reservation_def Let_def
proof (intro commits_intros; assumption?)
  assume "\<not> 0 < count_where (\<lambda>j. jb_reservation j = i \<and> live_job j) (jobs (m_db m))"
  then have "\<forall>j \<in> set (jobs (m_db m)). jb_reservation j = i \<longrightarrow> \<not> live_job j" by (auto simp: table_simps)
  then show "job_step (m_db m) (close_reservation i m Hold_released reason None (m_db m))"
    by (intro job_stepI resources_ok_close) (simp_all add: jobs_forward_same)
qed

lemma resolve_reservation_commits: "commits job_step m (resolve_reservation p i reason ev m)"
  unfolding resolve_reservation_def Let_def
proof (intro commits_intros; assumption?)
  let ?e = "reconcile_jobs i m reason ev (m_db m)"
  have "jobs_forward (m_db m) ?e"
    by (rule jobs_forward_update [where P = "\<lambda>j. jb_reservation j = i \<and> live_job j"])
       (auto simp: reconcile_jobs_def job_forward_def live_job_def unfinished_job_def terminal_def)
  moreover have "resources_ok (m_db m) \<Longrightarrow> resources_ok (close_reservation i m Hold_resolved reason (Some ev) ?e)"
    by (intro resources_ok_close resources_ok_reconcile reconcile_idle) simp_all
  ultimately show "job_step (m_db m) (close_reservation i m Hold_resolved reason (Some ev) ?e)"
    by (intro job_stepI) (simp_all add: reconcile_jobs_def jobs_forward_def)
qed

section \<open>Producers\<close>

lemma resources_ok_register:
  assumes ok: "resources_ok d" and new: "\<forall>x \<in> set (jobs d). jb_id x \<noteq> jb_id j" and h: "held d (jb_reservation j)"
  shows "resources_ok (d\<lparr>jobs := insert_row j (jobs d), reporters := rps\<rparr>)"
  using assms by (auto simp: resources_ok_def item_ok_def held_units_def held_def)

lemma register_job_commits: "commits job_step m (register_job dig sha p attempt ji m)"
  unfolding register_job_def Let_def
proof (intro commits_intros; assumption?)
  fix a js rps
  let ?j = "new_job m p attempt a ji"
  assume "\<not> count_where (\<lambda>r. rv_project r = p \<and> rv_id r = ji_reservation ji \<and> rv_attempt r = attempt
       \<and> rv_generation r = ji_generation ji \<and> rv_state r = Held) (reservations (m_db m)) = 0"
    and ins: "insert_unique unique_violation (\<lambda>x y. jb_id x = jb_id y \<or> jb_producer x = jb_producer y) ?j (jobs (m_db m)) = Inr js"
  then have h: "held (m_db m) (jb_reservation ?j)" by (auto simp: held_def table_simps new_job_def)
  from ins have js: "js = insert_row ?j (jobs (m_db m))" and new: "\<forall>x \<in> set (jobs (m_db m)). jb_id x \<noteq> jb_id ?j" by auto
  show "job_step (m_db m) (m_db m\<lparr>jobs := js, reporters := rps\<rparr>)"
    unfolding js
    by (rule job_stepI; (erule resources_ok_register [OF _ new h])?)
       (auto intro!: jobs_forward_more)
qed

lemma reporter_job_row:
  assumes "reporter_job d i = Inr (r, j, a)"
  shows "j \<in> set (jobs d)" "r \<in> set (reporters d)" "rp_id r = i" "jb_id j = rp_job r"
  using assms by (auto simp: reporter_job_def dest!: fetch_SomeD)

lemma observation_step:
  assumes rj: "reporter_job d i = Inr (r, j, a)" and seq: "\<not> oi_sequence oi \<le> jb_last_sequence j"
    and nt: "\<not> terminal (jb_state j)"
  shows "job_step d (d\<lparr>job_observations := obs, jobs := update_where (\<lambda>x. jb_id x = jb_id j) (apply_observation m st oi) (jobs d)\<rparr>)"
    (is "job_step d ?d")
proof (rule job_stepI)
  assume ok: "resources_ok d"
  have same: "x = j" if "x \<in> set (jobs d)" "jb_id x = jb_id j" for x
    using ok that reporter_job_row(1) [OF rj] by (auto simp: resources_ok_def dest: unique_row)
  show "jobs_forward d ?d"
  proof (rule jobs_forward_update [where P = "\<lambda>x. jb_id x = jb_id j" and f = "apply_observation m st oi"])
    fix x assume "x \<in> set (jobs d)" "jb_id x = jb_id j"
    then have "x = j" by (rule same)
    with seq nt show "job_forward x (apply_observation m st oi x)" by (simp add: job_forward_def apply_observation_def)
  qed simp
  have "held d (jb_reservation x)" if x: "x \<in> set (jobs ?d)" "live_job x" for x
  proof -
    from update_where_row [OF x(1) [simplified]] obtain y where y: "y \<in> set (jobs d)"
      "x = (if jb_id y = jb_id j then apply_observation m st oi y else y)" by blast
    have "live_job y"
      using x(2) y same [OF y(1)] nt
      by (auto simp: live_job_def apply_observation_def unfinished_job_def terminal_def split: if_splits)
    with ok y show ?thesis by (auto simp: resources_ok_def apply_observation_def)
  qed
  moreover have "unique_by jb_id (jobs ?d)"
    using ok by (auto simp: resources_ok_def apply_observation_def)
  ultimately show "resources_ok ?d" using ok by (simp add: resources_ok_def item_ok_def held_units_def held_def)
qed simp_all

lemma observe_again_commits: "m_replay m = None \<Longrightarrow> commits job_step m (observe_again i h oi m j)"
  unfolding observe_again_def Let_def by (intro commits_intros; (assumption | rule job_step_refl))

lemma observe_commits: "commits job_step m (observe hash i oi m)"
  unfolding observe_def Let_def
  by (intro commits_intros observe_again_commits; hypsubst?; (assumption | rule observation_step; assumption))

lemma reporter_renew_commits: "commits job_step m (reporter_renew i gen m)"
  unfolding reporter_renew_def Let_def
  by (intro commits_intros;
      (assumption | rule lease_step_job_step, rule lease_step_update_attempt [OF lease_step_refl], simp add: attempt_forward_def))

section \<open>Contracts\<close>

lemma create_resource_audited: "commits audited m (create_resource uuid xi m)"
  unfolding create_resource_def Let_def by (intro commits_intros; (assumption | simp add: audited_def))

lemma create_reservation_audited: "commits audited m (create_reservation dig uuid p attempt gen items m)"
  unfolding create_reservation_def Let_def
  by (intro commits_intros; (assumption | drule insert_reservation_fields, force simp: audited_def))

interpretation resource_creation: replay_safe "create_resource uuid xi" for uuid xi
  by (rule commits_replay_safe [OF create_resource_audited])

interpretation reservation_creation: replay_safe "create_reservation dig uuid p attempt gen items" for dig uuid p attempt gen items
  by (rule commits_replay_safe [OF create_reservation_audited])

interpretation resource_update: replay_safe "update_resource r xu" for r xu
  by (rule commits_replay_safe [OF update_resource_commits job_step_audited])

interpretation resource_delete: replay_safe "delete_resource r" for r
  by (rule commits_replay_safe [OF delete_resource_commits job_step_audited])

interpretation reservation_release: replay_safe "release_reservation p i gen reason" for p i gen reason
  by (rule commits_replay_safe [OF release_reservation_commits job_step_audited])

interpretation reservation_resolution: replay_safe "resolve_reservation p i reason ev" for p i reason ev
  by (rule commits_replay_safe [OF resolve_reservation_commits job_step_audited])

interpretation registration: replay_safe "register_job dig sha p attempt ji" for dig sha p attempt ji
  by (rule commits_replay_safe [OF register_job_commits job_step_audited])

interpretation observation: replay_safe "observe hash i oi" for hash i oi
  by (rule commits_replay_safe [OF observe_commits job_step_audited])

interpretation reporter_renewal: replay_safe "reporter_renew i gen" for i gen
  by (rule commits_replay_safe [OF reporter_renew_commits job_step_audited])

end
