(* ===== verification/Projects.thy ===== *)
theory Projects
  imports Job_Handlers
begin

text \<open>
  Projects (\<^verbatim>\<open>server/src/coordination.rs\<close>): creation with the column defaults of the migrations, and
  archiving, which is refused while any work of the project is in flight.
\<close>

record project_input =
  pi_name :: string
  pi_repository_url :: string
  pi_target_branch :: string

definition validate_create_project :: "project_input \<Rightarrow> unit res" where
  "validate_create_project i =
     and_then (bounded (pi_name i) 120 True) (\<lambda>_.
     and_then (bounded (pi_repository_url i) 2048 True) (\<lambda>_.
     and_then (bounded (pi_target_branch i) 255 True) (\<lambda>_.
     if starts_with (pi_target_branch i) ''-''
        \<or> list_ex (\<lambda>b. ascii_whitespace b \<or> ascii_control b) (pi_target_branch i) then Inl bad_request else Inr ())))"

definition new_project :: "mutation \<Rightarrow> string \<Rightarrow> project_input \<Rightarrow> project" where
  "new_project m uuid i =
     \<lparr>pj_id = uuid, pj_name = pi_name i, pj_repository_url = pi_repository_url i, pj_target_branch = pi_target_branch i,
      pj_policy_revision = 1, pj_review_mode = RM_agent, pj_recovery_mode = Recovery_agent, pj_lease_seconds = 600,
      pj_rules = [], pj_agent_rule_editing = False, pj_automatic_integration = True, pj_allow_subagent_reviews = False,
      pj_integration_owner = Owner_agent, pj_max_attempt_seconds = 0, pj_allow_relayed_human_answers = False,
      pj_created_at = m_now m, pj_archived_at = None\<rparr>"

definition create_project :: "string \<Rightarrow> project_input \<Rightarrow> mutation \<Rightarrow> outcome res" where
  "create_project uuid i m =
     (let d = m_db m in
      and_then (admin_or_operator (m_actor m)) (\<lambda>_.
      replay_or m (
      if count_where (\<lambda>p. pj_name p = pi_name i) (projects d) > 0 then Inl (conflict ''project_exists'')
      else and_then (insert_unique unique_violation (\<lambda>a b. pj_id a = pj_id b \<or> pj_name a = pj_name b)
          (new_project m uuid i) (projects d)) (\<lambda>ps.
      and_then (project_get (d\<lparr>projects := ps\<rparr>) uuid) (\<lambda>value.
      and_then (insert_unique unique_violation (\<lambda>a b. pv_project a = pv_project b \<and> pv_revision a = pv_revision b)
          \<lparr>pv_project = uuid, pv_revision = 1, pv_data = value, pv_actor = ac_id (m_actor m),
           pv_created_at = m_now m, pv_provenance = []\<rparr> (policy_revisions d)) (\<lambda>vs.
        finish m (d\<lparr>projects := ps, policy_revisions := vs\<rparr>) (JProject value) (Some uuid) ''project.created'' uuid))))))"

definition project_in_flight :: "db \<Rightarrow> string \<Rightarrow> int" where
  "project_in_flight d p =
     count_where (\<lambda>t. tk_project t = p \<and> tk_deleted_at t = None \<and> tk_current_attempt t \<noteq> None) (tasks d)
     + count_where (\<lambda>w. wa_project w = p \<and> live_activity (wa_state w)) (workflow_activities d)
     + count_where (\<lambda>s. (ws_phase s = Phase_review \<or> ws_phase s = Phase_integration)
         \<and> exists_where (\<lambda>t. tk_id t = ws_task s \<and> tk_project t = p) (tasks d)) (workflow_subjects d)
     + count_where (\<lambda>h. ih_held h
         \<and> exists_where (\<lambda>w. wa_id w = ih_activity h \<and> wa_project w = p) (workflow_activities d)) (integration_holds d)"

definition project_archive_change :: "string \<Rightarrow> string \<Rightarrow> string \<Rightarrow> mutation \<Rightarrow> outcome res" where
  "project_archive_change i reason action m =
     (let d = m_db m in
      and_then (admin_or_operator (m_actor m)) (\<lambda>_.
      replay_or m (
      and_then (project_get d i) (\<lambda>current.
      and_then
        (if action = ''archive'' then
           (if pj_archived_at current \<noteq> None then Inl (conflict ''project_archived'')
            else if project_in_flight d i > 0 then Inl (conflict ''project_active'')
            else Inr (Some (m_now m)))
         else (if pj_archived_at current = None then Inl (conflict ''project_not_archived'') else Inr None)) (\<lambda>stamp.
      let d1 = d\<lparr>projects := update_where (\<lambda>p. pj_id p = i) (\<lambda>p. p\<lparr>pj_archived_at := stamp\<rparr>) (projects d)\<rparr> in
      and_then (project_get d1 i) (\<lambda>value.
        finish_with_event_data m d1 (JProject value)
          (JObj [(''reason'', JStr reason), (''actor_id'', JStr (ac_id (m_actor m)))]) (Some i)
          (if action = ''archive'' then ''project.archived'' else ''project.restored'') i))))))"

section \<open>Laws\<close>

lemma settles_projects: "settles d (d\<lparr>projects := ps, policy_revisions := vs\<rparr>)" "settles d (d\<lparr>projects := ps\<rparr>)"
  by (simp_all add: settles_def audited_def quiet_def edges_def)

lemma create_project_commits: "commits settles m (create_project uuid i m)"
  unfolding create_project_def Let_def by (intro commits_intros settles_projects; assumption)

lemma project_archive_change_commits: "commits settles m (project_archive_change i reason action m)"
  unfolding project_archive_change_def Let_def by (intro commits_intros settles_projects; assumption)

text \<open>Archiving commits only when no visible task of the project has an owner.\<close>

lemma archive_idle:
  assumes "project_archive_change i reason ''archive'' m = Inr (Committed w d)"
    and "t \<in> set (tasks d)" "tk_project t = i" "tk_deleted_at t = None"
  shows "tk_current_attempt t = None"
proof -
  from assms(1) have none: "project_in_flight (m_db m) i \<le> 0" and ts: "tasks d = tasks (m_db m)"
    by (auto simp: project_archive_change_def Let_def split: if_splits)
  have "0 \<le> count_where (\<lambda>t. tk_project t = i \<and> tk_deleted_at t = None \<and> tk_current_attempt t \<noteq> None) (tasks (m_db m))"
    by simp
  with none have "count_where (\<lambda>t. tk_project t = i \<and> tk_deleted_at t = None \<and> tk_current_attempt t \<noteq> None) (tasks (m_db m)) = 0"
    unfolding project_in_flight_def by (smt (verit) count_where_nonneg)
  with assms(2-4) ts show ?thesis by (auto simp: table_simps)
qed

interpretation project_creation: replay_safe "create_project uuid i" for uuid i
  by (rule commits_replay_safe [OF create_project_commits settles_audited])

interpretation project_archive: replay_safe "project_archive_change i reason action" for i reason action
  by (rule commits_replay_safe [OF project_archive_change_commits settles_audited])

end
