(* ===== verification/Clock_Admin.thy ===== *)
theory Clock_Admin
  imports Task_Write
begin

text \<open>
  Leaving a clock incident: the administrator's handler and the host-local command
  (\<^verbatim>\<open>server/src/operator_access.rs\<close>), and the sampling read \<open>authoritative_now\<close>
  (\<^verbatim>\<open>server/src/state.rs\<close>). Reconciliation writes the in-memory runtime as soon as its statements
  ran, before the transaction commits, so these operations return the runtime beside the outcome.
\<close>

definition valid_id :: "string \<Rightarrow> bool" where
  "valid_id v \<longleftrightarrow> v \<noteq> [] \<and> length v \<le> 128
     \<and> list_all (\<lambda>c. ascii_alnum c \<or> c \<in> {CHR ''-'', CHR ''_'', CHR ''.''}) v"

definition validate_reconcile :: "string \<Rightarrow> unit res" where
  "validate_reconcile incident = (if valid_id incident then Inr () else Inl bad_request)"

text \<open>The answer of both operations; \<open>observed\<close> and \<open>high\<close> are read before the update.\<close>

definition reconcile_value :: "clock_state \<Rightarrow> int \<Rightarrow> string \<Rightarrow> string \<Rightarrow> string option \<Rightarrow> string \<Rightarrow> json" where
  "reconcile_value c now incident reason by_whom kind = JObj
     [(''clock_state'', JObj [(''status'', JStr ''ready''), (''last_safe_time'', JTime now), (''last_safe_time_ms'', JInt now),
         (''incident_id'', JStr incident),
         (''observed_wall_time_ms'', case ck_observed c of None \<Rightarrow> JNull | Some v \<Rightarrow> JInt v)]),
      (''incident'', JObj [(''id'', JStr incident), (''high_water_time_ms'', JInt (ck_last_safe c)),
         (''recovered_at'', JTime now), (''recovery_reason'', JStr reason),
         (''recovered_by'', case by_whom of None \<Rightarrow> JNull | Some who \<Rightarrow> JStr who), (''recovery_kind'', JStr kind)])]"

definition reconcile_clock_body :: "int \<Rightarrow> int \<Rightarrow> string \<Rightarrow> string \<Rightarrow> mutation \<Rightarrow> clock_runtime \<Rightarrow>
    (outcome res \<times> clock_runtime)" where
  "reconcile_clock_body wall tick incident reason m rt =
     (let d = m_db m in
      case admin (m_actor m) of
        Inl e \<Rightarrow> (Inl e, rt)
      | Inr _ \<Rightarrow>
        (case m_replay m of
           Some v \<Rightarrow>
             (if ck_incident (clock d) \<noteq> Some incident then (Inl (conflict ''clock_incident_changed''), rt)
              else if ck_status (clock d) \<noteq> Clock_ready then (Inl clock_reconciliation_error, rt)
              else (Inr (Answered v), rt))
         | None \<Rightarrow>
             (case reconcile_clock wall tick incident reason ''authenticated_admin'' (Some (ac_id (m_actor m))) d rt of
                Inl e \<Rightarrow> (Inl e, rt)
              | Inr (d1, rt1, now) \<Rightarrow>
                  (finish m d1 (reconcile_value (clock d) now incident reason (Some (ac_id (m_actor m))) ''authenticated_admin'')
                     None ''clock_reconciled'' incident, rt1))))"

definition reconcile_clock_path :: string where
  "reconcile_clock_path = ''POST /api/v1/admin/clock/reconcile''"

definition reconcile_clock_request :: "call \<Rightarrow> int \<Rightarrow> int \<Rightarrow> string \<Rightarrow> string \<Rightarrow> server \<Rightarrow> json res \<times> server" where
  "reconcile_clock_request c wall tick incident reason srv =
     (case validate_reconcile incident of
        Inl e \<Rightarrow> (Inl e, srv)
      | Inr _ \<Rightarrow>
        (let rq = request_of c reconcile_clock_path in
         case mutation_begin (begin_checks (cl_fp c) (cl_sha c) (cl_auth c) rq) rq (cl_time c) (cl_rt_after c) srv of
           (Inl e, s) \<Rightarrow> (Inl e, s)
         | (Inr m, s) \<Rightarrow>
             (let (out, rt) = reconcile_clock_body wall tick incident reason m (srv_rt s) in
              run_mutation (Inr m, s\<lparr>srv_rt := rt\<rparr>) (\<lambda>_. out))))"

definition recover_clock :: "time_source \<Rightarrow> clock_runtime \<Rightarrow> int \<Rightarrow> int \<Rightarrow> string \<Rightarrow> server \<Rightarrow> json res \<times> server" where
  "recover_clock ts rt_after wall tick reason srv =
     (let (cs, d, rt) = sample_clock ts (srv_rt srv) rt_after (srv_db srv) in
      if cs_incident_detected cs then (Inl clock_reconciliation_error, \<lparr>srv_db = d, srv_rt = rt\<rparr>)
      else (case ck_incident (clock d) of
              None \<Rightarrow> (Inl (conflict ''clock_not_paused''), srv\<lparr>srv_rt := rt\<rparr>)
            | Some incident \<Rightarrow>
                (case reconcile_clock wall tick incident reason ''host_operator'' None d rt of
                   Inl e \<Rightarrow> (Inl e, srv\<lparr>srv_rt := rt\<rparr>)
                 | Inr (d1, rt1, now) \<Rightarrow>
                     (Inr (reconcile_value (clock d) now incident reason None ''host_operator''),
                      \<lparr>srv_db = d1, srv_rt = rt1\<rparr>))))"

text \<open>A sample taken for a read commits; a caller that shares a published sample changes nothing.\<close>

definition authoritative_now :: "time_source \<Rightarrow> clock_runtime \<Rightarrow> server \<Rightarrow> clock_sample \<times> server" where
  "authoritative_now ts rt_after srv =
     (let (cs, d, rt) = sample_clock ts (srv_rt srv) rt_after (srv_db srv) in (cs, \<lparr>srv_db = d, srv_rt = rt\<rparr>))"

section \<open>Laws\<close>

text \<open>What a reconciliation may change: the clock tables, one receipt and one event.\<close>

definition clock_only :: "db \<Rightarrow> db \<Rightarrow> bool" where
  "clock_only d d' \<longleftrightarrow> (\<exists>c ci ce. d' = d\<lparr>clock := c, clock_incidents := ci, clock_events := ce\<rparr>)"

lemma clock_only_quiet: "clock_only d d' \<Longrightarrow> ck_last_safe (clock d) \<le> ck_last_safe (clock d') \<Longrightarrow> settles d d'"
  by (auto simp: clock_only_def settles_def quiet_def audited_def edges_def)

lemma reconcile_clock_Inr:
  assumes "reconcile_clock wall tick incident reason ini who d rt = Inr (d1, rt1, now)"
  shows "clock_only d d1" "ck_last_safe (clock d) \<le> now" "ck_last_safe (clock d1) = now"
    "ck_status (clock d) = Clock_reconciliation" "ck_status (clock d1) = Clock_ready" "ck_incident (clock d) = Some incident"
    "now = raw_now wall" "rt_high_water rt1 = now" "attempts d1 = attempts d"
proof -
  have "d1 = d\<lparr>clock := clock d1, clock_incidents := clock_incidents d1, clock_events := clock_events d1\<rparr>"
    using assms by (simp add: reconcile_clock_def Let_def split: if_splits) (elim conjE; hypsubst; simp)
  then show "clock_only d d1" unfolding clock_only_def by blast
qed (use assms in \<open>(simp add: reconcile_clock_def Let_def split: if_splits; elim conjE; hypsubst?; simp)+\<close>)

text \<open>The request writes nothing but the clock and its history.\<close>

definition clock_forward :: "db \<Rightarrow> db \<Rightarrow> bool" where
  "clock_forward d d' \<longleftrightarrow> clock_only d d' \<and> ck_last_safe (clock d) \<le> ck_last_safe (clock d')"

lemma reconcile_clock_commits: "commits clock_forward m (fst (reconcile_clock_body wall tick incident reason m rt))"
proof (cases "admin (m_actor m)")
  case (Inr u)
  show ?thesis
  proof (cases "m_replay m")
    case None
    show ?thesis
    proof (cases "reconcile_clock wall tick incident reason ''authenticated_admin'' (Some (ac_id (m_actor m))) (m_db m) rt")
      fix e assume "reconcile_clock wall tick incident reason ''authenticated_admin'' (Some (ac_id (m_actor m))) (m_db m) rt = Inl e"
      with Inr None show ?thesis by (simp add: reconcile_clock_body_def Let_def commits_Inl)
    next
      fix x assume x: "reconcile_clock wall tick incident reason ''authenticated_admin'' (Some (ac_id (m_actor m))) (m_db m) rt = Inr x"
      obtain d1 rt1 now where xs: "x = (d1, rt1, now)" by (cases x)
      from reconcile_clock_Inr(1-3) [OF x [unfolded xs]] have "clock_forward (m_db m) d1" by (simp add: clock_forward_def)
      with Inr None x xs show ?thesis by (simp add: reconcile_clock_body_def Let_def commits_finish)
    qed
  next
    case (Some v)
    with Inr show ?thesis by (simp add: reconcile_clock_body_def Let_def commits_Inl commits_answered)
  qed
qed (simp add: reconcile_clock_body_def commits_Inl Let_def)

lemma reconcile_clock_settles: "commits settles m (fst (reconcile_clock_body wall tick incident reason m rt))"
  using reconcile_clock_commits by (rule commits_mono) (auto simp: clock_forward_def intro: clock_only_quiet)

interpretation clock_reconciliation: replay_safe "\<lambda>m. fst (reconcile_clock_body wall tick incident reason m rt)"
  for wall tick incident reason rt
  by (rule commits_replay_safe [OF reconcile_clock_settles settles_audited])

end
