(* ===== verification/Reviews.thy ===== *)
theory Reviews
  imports Schema "HOL-Library.Multiset"
begin

text \<open>
  Which reviews a mode requires and when approvals satisfy them (\<^verbatim>\<open>server/src/autonomy.rs\<close>). The
  greedy count of \<open>reviews_satisfied\<close> decides whether the approvals can be matched to the required
  reviews, each approval used once.
\<close>

definition required_review_kinds :: "review_mode \<Rightarrow> activity_kind list" where
  "required_review_kinds mode =
     (case mode of
        RM_agent \<Rightarrow> [Agent_review]
      | RM_human \<Rightarrow> [Human_review]
      | RM_either \<Rightarrow> [Either_review]
      | RM_both \<Rightarrow> [Agent_review, Human_review]
      | RM_none \<Rightarrow> [])"

definition count_kind :: "activity_kind \<Rightarrow> activity_kind list \<Rightarrow> nat" where
  "count_kind k ks = length (filter (\<lambda>x. x = k) ks)"

text \<open>The \<open>usize\<close> subtractions of the source never underflow on these branches.\<close>

definition reviews_satisfied :: "activity_kind list \<Rightarrow> principal_kind list \<Rightarrow> bool" where
  "reviews_satisfied required approvers =
     (let human = count_kind Human_review required;
          agent = count_kind Agent_review required;
          either = count_kind Either_review required;
          humans = length (filter (\<lambda>a. a = Human) approvers);
          agents = length approvers - humans in
      if humans < human then False
      else (let humans = humans - human;
                by_agents = min agent agents;
                agents = agents - by_agents;
                rest = agent - by_agents in
        if rest > 0 \<and> (human > 0 \<or> humans < rest) then False
        else humans - rest + agents \<ge> either))"

section \<open>Matching\<close>

text \<open>
  An approver may serve a review: a human any kind, except an agent review when a human review is
  required too; an agent the agent and either reviews.
\<close>

definition serves :: "bool \<Rightarrow> activity_kind \<Rightarrow> principal_kind \<Rightarrow> bool" where
  "serves both k a \<longleftrightarrow>
     (case k of
        Human_review \<Rightarrow> a = Human
      | Agent_review \<Rightarrow> a = Agent \<or> \<not> both
      | Either_review \<Rightarrow> True
      | Integration \<Rightarrow> True)"

text \<open>
  The specification: some of the approvals, each taken once, can be put side by side with the required
  reviews (an integration is not a review) so that each serves its review.
\<close>

definition reviews_of :: "activity_kind list \<Rightarrow> activity_kind list" where
  "reviews_of required = filter (\<lambda>k. k \<noteq> Integration) required"

definition matching :: "activity_kind list \<Rightarrow> principal_kind list \<Rightarrow> bool" where
  "matching required approvers \<longleftrightarrow>
     (\<exists>as. mset as \<subseteq># mset approvers
        \<and> list_all2 (serves (Human_review \<in> set required)) (reviews_of required) as)"

text \<open>How many humans a full assignment may use: at least the human reviews, at most those and what
  the other reviews admit.\<close>

definition humans_in :: "principal_kind list \<Rightarrow> nat" where
  "humans_in as = length (filter (\<lambda>a. a = Human) as)"

lemma count_kind_simps [simp]:
  "count_kind k [] = 0"
  "count_kind k (x # xs) = (if x = k then Suc (count_kind k xs) else count_kind k xs)"
  by (simp_all add: count_kind_def)

lemma humans_in_simps [simp]:
  "humans_in [] = 0" "humans_in (a # as) = (if a = Human then Suc (humans_in as) else humans_in as)"
  by (simp_all add: humans_in_def)

lemma humans_in_length: "humans_in as \<le> length as"
  by (simp add: humans_in_def)

definition human_range :: "bool \<Rightarrow> activity_kind list \<Rightarrow> nat \<Rightarrow> bool" where
  "human_range both ks x \<longleftrightarrow> count_kind Human_review ks \<le> x
     \<and> x \<le> count_kind Human_review ks + count_kind Either_review ks
             + (if both then 0 else count_kind Agent_review ks)"

lemma assigned_range:
  "list_all2 (serves both) ks as \<Longrightarrow> Integration \<notin> set ks \<Longrightarrow> human_range both ks (humans_in as)"
proof (induction ks as rule: list_all2_induct)
  case (Cons k ks a as)
  then show ?case
    by (cases k; cases a) (auto simp: human_range_def serves_def split: if_splits)
qed (simp add: human_range_def)

lemma assignment_exists:
  "human_range both ks x \<Longrightarrow> Integration \<notin> set ks \<Longrightarrow> \<exists>as. list_all2 (serves both) ks as \<and> humans_in as = x"
proof (induction ks arbitrary: x)
  case (Cons k ks)
  have "\<exists>a y. serves both k a \<and> human_range both ks y \<and> x = (if a = Human then Suc y else y)"
  proof (cases "human_range both ks x \<and> k \<noteq> Human_review")
    case True
    with Cons.prems show ?thesis
      by (intro exI [of _ Agent] exI [of _ x]) (cases k; simp add: serves_def)
  next
    case False
    with Cons.prems have "0 < x \<and> human_range both ks (x - 1) \<and> serves both k Human"
      by (cases k) (auto simp: human_range_def serves_def split: if_splits)
    then show ?thesis by (intro exI [of _ Human] exI [of _ "x - 1"]) simp
  qed
  then obtain a y where a: "serves both k a" "human_range both ks y" "x = (if a = Human then Suc y else y)" by blast
  from Cons.IH [OF a(2)] Cons.prems(2) obtain as where "list_all2 (serves both) ks as" "humans_in as = y" by auto
  with a show ?case by (intro exI [of _ "a # as"]) simp
qed (simp add: human_range_def split: if_splits)

lemma principals_split: "size M = count M Human + count M Agent" for M :: "principal_kind multiset"
proof (induction M)
  case (add a M)
  then show ?case by (cases a) simp_all
qed simp

lemma humans_in_count: "humans_in as = count (mset as) Human"
  by (induction as) simp_all

lemma sub_principals:
  "mset as \<subseteq># mset bs \<longleftrightarrow> humans_in as \<le> humans_in bs \<and> length as - humans_in as \<le> length bs - humans_in bs"
proof -
  have "mset as \<subseteq># mset bs \<longleftrightarrow> count (mset as) Human \<le> count (mset bs) Human \<and> count (mset as) Agent \<le> count (mset bs) Agent"
    by (auto simp: subseteq_mset_def) (metis principal_kind.exhaust)
  with principals_split [of "mset as"] principals_split [of "mset bs"] show ?thesis
    by (simp add: humans_in_count)
qed

lemma count_kind_reviews: "k \<noteq> Integration \<Longrightarrow> count_kind k (reviews_of ks) = count_kind k ks"
  by (induction ks) (auto simp: reviews_of_def)

lemma reviews_of_length:
  "length (reviews_of ks) = count_kind Human_review ks + count_kind Agent_review ks + count_kind Either_review ks"
proof (induction ks)
  case (Cons k ks)
  then show ?case by (cases k) (auto simp: reviews_of_def)
qed (simp add: reviews_of_def)

lemma human_required: "Human_review \<in> set ks \<longleftrightarrow> 0 < count_kind Human_review ks"
  by (induction ks) auto

lemma matching_range:
  "matching required bs \<longleftrightarrow> (\<exists>x. human_range (Human_review \<in> set required) (reviews_of required) x
     \<and> x \<le> humans_in bs \<and> length (reviews_of required) - x \<le> length bs - humans_in bs)"
proof -
  have no: "Integration \<notin> set (reviews_of required)" by (simp add: reviews_of_def)
  show ?thesis
  proof
    assume "matching required bs"
    then obtain as where as: "mset as \<subseteq># mset bs" "list_all2 (serves (Human_review \<in> set required)) (reviews_of required) as"
      by (auto simp: matching_def)
    with assigned_range [OF as(2) no] list_all2_lengthD [OF as(2)]
    show "\<exists>x. human_range (Human_review \<in> set required) (reviews_of required) x
       \<and> x \<le> humans_in bs \<and> length (reviews_of required) - x \<le> length bs - humans_in bs"
      by (intro exI [of _ "humans_in as"]) (simp add: sub_principals)
  next
    assume "\<exists>x. human_range (Human_review \<in> set required) (reviews_of required) x
       \<and> x \<le> humans_in bs \<and> length (reviews_of required) - x \<le> length bs - humans_in bs"
    then obtain x where x: "human_range (Human_review \<in> set required) (reviews_of required) x"
      "x \<le> humans_in bs" "length (reviews_of required) - x \<le> length bs - humans_in bs" by blast
    from assignment_exists [OF x(1) no] obtain as where
      "list_all2 (serves (Human_review \<in> set required)) (reviews_of required) as" "humans_in as = x" by blast
    with x show "matching required bs"
      unfolding matching_def by (intro exI [of _ as]) (auto simp: sub_principals dest: list_all2_lengthD)
  qed
qed

text \<open>The greedy count picks the least number of humans that can work.\<close>

lemma reviews_satisfied_range:
  "reviews_satisfied required bs \<longleftrightarrow> (\<exists>x. human_range (Human_review \<in> set required) (reviews_of required) x
     \<and> x \<le> humans_in bs \<and> length (reviews_of required) - x \<le> length bs - humans_in bs)"
proof -
  define h a e where "h = count_kind Human_review required" and "a = count_kind Agent_review required"
    and "e = count_kind Either_review required"
  define H A where "H = humans_in bs" and "A = length bs - humans_in bs"
  have len: "length (reviews_of required) = h + a + e" by (simp add: reviews_of_length h_def a_def e_def)
  have range: "human_range (Human_review \<in> set required) (reviews_of required) x \<longleftrightarrow>
      h \<le> x \<and> x \<le> h + e + (if 0 < h then 0 else a)" for x
    by (simp add: human_range_def count_kind_reviews human_required h_def a_def e_def)
  have sat: "reviews_satisfied required bs \<longleftrightarrow>
      h \<le> H \<and> \<not> (0 < a - min a A \<and> (0 < h \<or> H - h < a - min a A))
      \<and> e \<le> H - h - (a - min a A) + (A - min a A)"
    by (auto simp: reviews_satisfied_def Let_def h_def a_def e_def H_def A_def humans_in_def)
  have "(\<exists>x. (h \<le> x \<and> x \<le> h + e + (if 0 < h then 0 else a)) \<and> x \<le> H \<and> h + a + e - x \<le> A)
      \<longleftrightarrow> (let x = min H (h + e + (if 0 < h then 0 else a)) in h \<le> x \<and> h + a + e - x \<le> A)"
    unfolding Let_def by (auto intro: exI [of _ "min H (h + e + (if 0 < h then 0 else a))"])
  also have "\<dots> \<longleftrightarrow> reviews_satisfied required bs"
    unfolding sat Let_def by (auto simp: min_def)
  finally show ?thesis by (simp add: range len H_def A_def)
qed

end
