(* ===== verification/Workflow_View.thy ===== *)
theory Workflow_View
  imports Leases Reviews
begin

text \<open>
  How the completion workflow reads its state (\<^verbatim>\<open>workflow.rs\<close>, \<^verbatim>\<open>autonomy.rs\<close>): the view of an activity,
  of a submission and of a subject's workflow, the pins an operation rechecks, the approvals a
  submission has, and when an integration may be published. Prose (\<open>next_actions\<close>,
  \<open>integration_blocked\<close>, messages) is left out of the views.
\<close>

type_synonym task_digest = "string \<times> string \<times> string list \<times> task_kind \<Rightarrow> string"

section \<open>Views\<close>

text \<open>At most a hundred findings are stored per review, so the view never truncates them.\<close>

definition review_findings_of :: "db \<Rightarrow> string \<Rightarrow> review_finding list" where
  "review_findings_of d i = take 100 (sort_key (\<lambda>f. (rf_created_at f, rf_id f))
     (rows (\<lambda>f. rf_activity f = i) (review_findings d)))"

definition activity_current_attempt :: "db \<Rightarrow> workflow_activity \<Rightarrow> attempt option" where
  "activity_current_attempt d w =
     (case fetch (\<lambda>t. tk_id t = wa_activity_task w) (tasks d) of
        None \<Rightarrow> None | Some t \<Rightarrow> current_attempt d t)"

definition activity_value :: "db \<Rightarrow> string \<Rightarrow> string \<Rightarrow> int \<Rightarrow> activity_view res" where
  "activity_value d p i now =
     and_then (ok_or not_found (fetch (\<lambda>w. wa_project w = p \<and> wa_id w = i) (workflow_activities d))) (\<lambda>w.
     and_then (activity_lease d now w) (\<lambda>(derived, timely).
     let a = activity_current_attempt d w;
         rv = fetch (\<lambda>r. rw_activity r = i) (review_decisions d) in
     Inr \<lparr>av_activity = w, av_status = derived, av_attempt = a, av_valid_by_time = timely,
          av_owner_authorized = is_some_and a (owner_authorized d now), av_review = rv,
          av_findings = (if rv = None then [] else review_findings_of d i),
          av_authorization = fetch (\<lambda>z. iz_activity z = i) (integration_authorizations d),
          av_clock_ready = (ck_status (clock d) = Clock_ready),
          av_intent = fetch (\<lambda>x. pi_activity x = i) (publication_intents d),
          av_result = fetch (\<lambda>x. ir_activity x = i) (integration_results d),
          av_reconciliation = fetch (\<lambda>x. pb_activity x = i) (publication_reconciliations d),
          av_hold = fetch (\<lambda>h. ih_activity h = i) (integration_holds d)\<rparr>))"

definition submission_value :: "db \<Rightarrow> string \<Rightarrow> submission_view res" where
  "submission_value d i =
     and_then (ok_or not_found (fetch (\<lambda>s. sb_id s = i) (submissions d))) (\<lambda>s.
     let links = rows (\<lambda>k. sk_submission k = i) (submission_knowledge_links d) in
     Inr \<lparr>sv_submission = s, sv_lesson_ids = sort (map sk_knowledge links),
          sv_lessons = sort_key kv_knowledge (rows (\<lambda>v. exists_where
             (\<lambda>k. sk_knowledge k = kv_knowledge v \<and> sk_revision k = kv_revision v) links) (knowledge_revisions d)),
          sv_artifact_ids = sort (map sa_artifact (rows (\<lambda>x. sa_submission x = i) (submission_artifacts d)))\<rparr>)"

definition current_task_digest :: "task_digest \<Rightarrow> db \<Rightarrow> string \<Rightarrow> string res" where
  "current_task_digest dig d t =
     and_then (ok_or row_not_found (fetch (\<lambda>x. tk_id x = t) (tasks d))) (\<lambda>x. Inr (dig (judged_fields x)))"

definition revision_task_digest :: "task_digest \<Rightarrow> db \<Rightarrow> string \<Rightarrow> int \<Rightarrow> string option" where
  "revision_task_digest dig d t r =
     map_option (\<lambda>n. dig (revision_judged (tn_data n)))
       (fetch (\<lambda>n. tn_task n = t \<and> tn_revision n = r) (task_revisions d))"

definition digest_changed :: "task_digest \<Rightarrow> db \<Rightarrow> string \<Rightarrow> string \<Rightarrow> bool res" where
  "digest_changed dig d sub t =
     and_then (ok_or row_not_found (fetch (\<lambda>s. sb_id s = sub) (submissions d))) (\<lambda>s.
     and_then (current_task_digest dig d t) (\<lambda>current.
     Inr (is_some_and (sb_task_digest s) (\<lambda>pinned. pinned \<noteq> current))))"

text \<open>The \<open>work_status\<close> of a snapshot, from the phase and the last integration activity.\<close>

fun snapshot_status :: "phase \<Rightarrow> activity_view option \<Rightarrow> work_status" where
  "snapshot_status Phase_review _ = Waiting_review"
| "snapshot_status Phase_revision_needed _ = Ready"
| "snapshot_status Phase_done _ = Lifecycle_status Done"
| "snapshot_status Phase_integration None = Waiting_integration"
| "snapshot_status Phase_integration (Some a) =
     (let pub = map_option ir_publication_state (av_result a) in
      if av_status a = Act_recovery_required \<or> pub = Some Uncertain then Recovery_required
      else if pub = Some Published then Validating
      else if av_valid_by_time a then Integrating
      else Waiting_integration)"

definition last_integration :: "activity_view list \<Rightarrow> activity_view option" where
  "last_integration vs = map_option snd
     (max_by_slot (map (\<lambda>v. (av_activity v, v)) (filter (\<lambda>v. wa_kind (av_activity v) = Integration) vs)))"

text \<open>\<open>None\<close> for a task without a submission, whose snapshot has empty members.\<close>

definition workflow_snapshot :: "task_digest \<Rightarrow> db \<Rightarrow> string \<Rightarrow> string \<Rightarrow> int \<Rightarrow> workflow_view option res" where
  "workflow_snapshot dig d p task_id now =
     (let mapped = map_option wa_subject_task
            (fetch (\<lambda>w. wa_project w = p \<and> wa_activity_task w = task_id) (workflow_activities d));
          subject_id = unwrap_or mapped task_id
      in case fetch (\<lambda>s. ws_project s = p \<and> ws_task s = subject_id) (workflow_subjects d) of
        None \<Rightarrow> Inr None
      | Some subject \<Rightarrow>
          (let sub_id = ws_current_submission subject in
           and_then (map_res (\<lambda>w. activity_value d p (wa_id w) now) (submission_activities d p sub_id)) (\<lambda>acts.
           and_then (submission_value d sub_id) (\<lambda>sub.
           and_then (digest_changed dig d sub_id subject_id) (\<lambda>blocked.
           Inr (Some \<lparr>vw_submission = sub, vw_activities = acts,
                vw_truncated = (count_where (\<lambda>w. wa_project w = p \<and> wa_submission w = sub_id) (workflow_activities d) > 100),
                vw_blocked = blocked, vw_phase = ws_phase subject,
                vw_work_status = snapshot_status (ws_phase subject) (last_integration acts),
                vw_revise = None\<rparr>))))))"

definition workflow_value :: "workflow_view option \<Rightarrow> json" where
  "workflow_value v = (case v of
      Some x \<Rightarrow> JWorkflow x
    | None \<Rightarrow> JObj [(''submission'', JNull), (''activities'', JArr []), (''blockers'', JArr []),
                   (''integration_blocked'', JNull), (''next_actions'', JArr [])])"

section \<open>Pins\<close>

definition integration_owned_by_integrator :: app_error where
  "integration_owned_by_integrator =
     (conflict ''integration_owned_by_integrator'')\<lparr>gate := Some ''integration_owned_by_integrator''\<rparr>"

definition ensure_agent_integration :: "activity_context \<Rightarrow> unit res" where
  "ensure_agent_integration cx =
     (if wa_kind (cx_activity cx) = Integration \<and> pj_integration_owner (cx_project cx) = Owner_integrator
      then Inl integration_owned_by_integrator else Inr ())"

definition ensure_current :: "activity_context \<Rightarrow> unit res" where
  "ensure_current cx =
     (if \<not> pins_current cx \<or> ws_phase (cx_subject cx) = Phase_revision_needed
        then Inl (conflict ''workflow_policy_changed'')
      else if wa_state (cx_activity cx) = Act_completed \<or> wa_state (cx_activity cx) = Act_canceled
           \<or> wa_state (cx_activity cx) = Act_recovery_required
        then Inl (conflict ''activity_not_eligible'')
      else Inr ())"

definition ensure_activity_decisions :: "mutation \<Rightarrow> string \<Rightarrow> activity_context \<Rightarrow> unit res" where
  "ensure_activity_decisions m p cx =
     and_then (ensure_decisions_resolved (m_db m) p (wa_subject_task (cx_activity cx)) (m_now m)) (\<lambda>_.
     ensure_decisions_resolved (m_db m) p (wa_activity_task (cx_activity cx)) (m_now m))"

definition owned_activity :: "task_digest \<Rightarrow> mutation \<Rightarrow> string \<Rightarrow> string \<Rightarrow> int \<Rightarrow> activity_kind \<Rightarrow> activity_context res" where
  "owned_activity dig m p i gen kind =
     (let d = m_db m in
      and_then (activity_context_get dig d p i) (\<lambda>cx.
      and_then (ensure_agent_integration cx) (\<lambda>_.
      and_then (ensure_current cx) (\<lambda>_.
      if wa_kind (cx_activity cx) \<noteq> kind then Inl (conflict ''activity_kind_mismatch'')
      else and_then (ok_or (conflict ''ownership_lost'') (activity_current_attempt d (cx_activity cx))) (\<lambda>a.
      if at_owner a \<noteq> ac_id (m_actor m) then Inl (conflict ''ownership_lost'')
      else and_then (session_of (m_actor m)) (\<lambda>s.
      if at_session a \<noteq> s \<or> at_credential a \<noteq> ac_credential (m_actor m) \<or> at_generation a \<noteq> gen
           \<or> at_state a \<noteq> Active \<or> at_expires_at a \<le> m_now m
        then Inl (conflict ''ownership_lost'')
      else Inr cx))))))"

text \<open>The current attempt an owned activity's task names.\<close>

definition current_attempt_id :: "db \<Rightarrow> string \<Rightarrow> string res" where
  "current_attempt_id d t =
     and_then (ok_or row_not_found (fetch (\<lambda>x. tk_id x = t) (tasks d))) (\<lambda>x.
     ok_or internal (tk_current_attempt x))"

definition candidate_checkpoint_present :: "db \<Rightarrow> string \<Rightarrow> bool" where
  "candidate_checkpoint_present d sub =
     (case fetch (\<lambda>s. sb_id s = sub \<and> sb_kind s = Code) (submissions d) of
        None \<Rightarrow> False
      | Some s \<Rightarrow> is_some_and (sb_candidate_ref s) (\<lambda>r. r \<noteq> []))"

section \<open>Approvals\<close>

definition review_mode_floor :: "db \<Rightarrow> string \<Rightarrow> review_mode \<Rightarrow> review_mode" where
  "review_mode_floor d task mode =
     (if mode \<noteq> RM_none then mode
      else if is_some_and (fetch (\<lambda>r. tr_task r = task) (task_reverts d)) tr_review_required then RM_agent
      else mode)"

definition approvals_satisfied :: "db \<Rightarrow> string \<Rightarrow> bool res" where
  "approvals_satisfied d sub =
     and_then (ok_or row_not_found (fetch (\<lambda>s. sb_id s = sub) (submissions d))) (\<lambda>s.
     and_then (ok_or row_not_found (fetch (\<lambda>p. pj_id p = sb_project s) (projects d))) (\<lambda>proj.
     let subject = fetch (\<lambda>w. ws_current_submission w = sub) (workflow_subjects d);
         required = (if map_option ws_phase subject = Some Phase_review
           then required_review_kinds (review_mode_floor d (sb_task s) (pj_review_mode proj))
           else map wa_kind (rows (\<lambda>w. wa_submission w = sub \<and> wa_kind w \<noteq> Integration \<and> wa_state w = Act_completed)
                  (workflow_activities d)));
         approvers = List.map_filter (\<lambda>r. map_option pr_kind (fetch (\<lambda>x. pr_id x = rw_reviewer r) (principals d)))
           (rows (\<lambda>r. rw_submission r = sub \<and> rw_decision r = Approved \<and> rw_invalidated_at r = None) (review_decisions d)) in
     Inr (reviews_satisfied required approvers)))"

definition authorized :: "db \<Rightarrow> activity_context \<Rightarrow> bool" where
  "authorized d cx \<longleftrightarrow> count_where (\<lambda>z. iz_activity z = wa_id (cx_activity cx)
     \<and> iz_submission z = sb_id (cx_submission cx) \<and> iz_project_policy z = sb_project_policy (cx_submission cx)
     \<and> iz_workflow_policy z = sb_workflow_policy (cx_submission cx) \<and> iz_invalidated_at z = None)
     (integration_authorizations d) > 0"

text \<open>The test of claims, intents and finalization: no authorization is needed when the project integrates
  automatically.\<close>

definition ensure_authorized :: "db \<Rightarrow> activity_context \<Rightarrow> unit res" where
  "ensure_authorized d cx =
     (if \<not> pj_automatic_integration (cx_project cx) \<and> \<not> authorized d cx
      then Inl (conflict ''integration_authorization_required'') else Inr ())"

definition ensure_approved :: "db \<Rightarrow> activity_context \<Rightarrow> unit res" where
  "ensure_approved d cx =
     and_then (approvals_satisfied d (wa_submission (cx_activity cx))) (\<lambda>ok.
     if \<not> ok then Inl (conflict ''reviews_pending'') else Inr ())"

definition hold_held :: "db \<Rightarrow> string \<Rightarrow> bool" where
  "hold_held d i \<longleftrightarrow> count_where (\<lambda>h. ih_activity h = i \<and> ih_held h) (integration_holds d) > 0"

section \<open>Quiescence\<close>

definition ensure_workflow_quiescent :: "db \<Rightarrow> string \<Rightarrow> string \<Rightarrow> unit res" where
  "ensure_workflow_quiescent d p subject =
     check_all (\<lambda>w. ensure_attempt_quiescent d p (wa_activity_task w))
       (rows (\<lambda>w. wa_project w = p \<and> wa_subject_task w = subject) (workflow_activities d))"

text \<open>\<open>ensure_required_children_done\<close> of \<^verbatim>\<open>objectives.rs\<close>\<close>

definition ensure_required_children_done :: "db \<Rightarrow> string \<Rightarrow> string \<Rightarrow> unit res" where
  "ensure_required_children_done d p objective =
     (if exists_where (\<lambda>ob. ob = (p, objective)) (objectives d)
         \<and> exists_where (\<lambda>c. oc_objective c = objective \<and> oc_required c
             \<and> exists_where (\<lambda>u. tk_project u = oc_project c \<and> tk_id u = oc_child c \<and> tk_lifecycle u \<noteq> Done) (tasks d))
           (objective_children d)
      then Inl (conflict ''objective_children_incomplete'') else Inr ())"

section \<open>Publication readiness\<close>

definition roster_of :: "db \<Rightarrow> string \<Rightarrow> int \<Rightarrow> required_check list option" where
  "roster_of d p r = map_option wr_required_checks
     (fetch (\<lambda>x. wr_project x = p \<and> wr_revision x = r) (workflow_policy_revisions d))"

text \<open>A producer that counts for a required check of an intended result.\<close>

definition proves_result :: "string \<Rightarrow> string \<Rightarrow> string \<Rightarrow> string \<Rightarrow> job \<Rightarrow> bool" where
  "proves_result activity_task attempt result tree j \<longleftrightarrow> jb_task j = activity_task \<and> jb_attempt j = attempt
     \<and> jb_state j = Succeeded \<and> jb_exit_code j = Some 0 \<and> jb_inputs_unchanged j = Some True
     \<and> jb_reconciled_at j = None \<and> jb_source_revision j = result \<and> jb_source_tree j = tree"

definition check_tuple :: "required_check \<Rightarrow> string \<times> string \<times> string" where
  "check_tuple c = (rc_identity c, rc_version c, rc_environment c)"

text \<open>\<open>ORDER BY created_at DESC, id DESC LIMIT 1\<close>\<close>

definition latest_job :: "job list \<Rightarrow> job option" where
  "latest_job js = (case rev (sort_key (\<lambda>j. (jb_created_at j, jb_id j)) js) of [] \<Rightarrow> None | j # _ \<Rightarrow> Some j)"

fun qualifying_jobs :: "db \<Rightarrow> string \<Rightarrow> (job \<Rightarrow> bool) \<Rightarrow> required_check list \<Rightarrow> string list option" where
  "qualifying_jobs d p ok [] = Some []"
| "qualifying_jobs d p ok (c # cs) =
     (case latest_job (rows (\<lambda>j. jb_project j = p \<and> ok j \<and> jb_check j = Some (check_tuple c)) (jobs d)) of
        None \<Rightarrow> None
      | Some j \<Rightarrow> map_option ((#) (jb_id j)) (qualifying_jobs d p ok cs))"

definition publication_readiness :: "db \<Rightarrow> string \<Rightarrow> activity_context \<Rightarrow> string \<Rightarrow> (bool \<times> string list) res" where
  "publication_readiness d p cx attempt =
     (let i = wa_id (cx_activity cx) in
      if count_where (\<lambda>r. ir_activity r = i) (integration_results d) > 0 then Inr (False, [])
      else and_then (approvals_satisfied d (wa_submission (cx_activity cx))) (\<lambda>approved.
      if \<not> approved \<or> \<not> hold_held d i then Inr (False, [])
      else if \<not> pj_automatic_integration (cx_project cx) \<and> \<not> authorized d cx then Inr (False, [])
      else case fetch (\<lambda>x. pi_activity x = i \<and> pi_attempt x = attempt) (publication_intents d) of
        None \<Rightarrow> Inr (False, [])
      | Some x \<Rightarrow> and_then (ok_or row_not_found (roster_of d p (cx_roster cx))) (\<lambda>roster.
          case qualifying_jobs d p (proves_result (wa_activity_task (cx_activity cx)) attempt
                 (pi_result_revision x) (pi_result_tree x)) roster of
            None \<Rightarrow> Inr (False, [])
          | Some ids \<Rightarrow> Inr (ids \<noteq> [], ids))))"

end
