(* ===== verification/Knowledge.thy ===== *)
theory Knowledge
  imports Task_Write
begin

text \<open>
  Shared knowledge (\<^verbatim>\<open>server/src/knowledge.rs\<close>): the checks of a record, its creation, its correction
  as a new immutable revision, feedback on a revision, and the lessons a submission records. Lower
  casing (\<open>to_lowercase\<close>) is the parameter \<open>lower\<close>.
\<close>

record knowledge_input =
  ki_kind :: string
  ki_title :: string
  ki_body :: string
  ki_status :: string
  ki_scope :: knowledge_scope
  ki_tags :: "string list"
  ki_applicability :: string
  ki_provenance :: knowledge_provenance
  ki_collection :: string
  ki_share :: bool

record knowledge_edit =
  ke_expected_revision :: int
  ke_title :: string
  ke_body :: string
  ke_status :: string
  ke_scope :: knowledge_scope
  ke_tags :: "string list"
  ke_applicability :: string
  ke_provenance :: knowledge_provenance
  ke_superseded_by :: "string option"

record feedback_input =
  fi_expected_revision :: int
  fi_useful :: bool
  fi_comment :: string

record lesson_input =
  le_kind :: string
  le_title :: string
  le_body :: string
  le_status :: string
  le_scope :: knowledge_scope
  le_tags :: "string list"
  le_applicability :: string
  le_provenance_summary :: string
  le_source_uri :: "string option"
  le_collection :: string
  le_share :: bool

section \<open>Checks\<close>

definition knowledge_kinds :: "string list" where
  "knowledge_kinds = [''lesson'', ''fact'', ''rejected_approach'', ''checkpoint'']"

definition knowledge_statuses :: "string list" where
  "knowledge_statuses = [''observed'', ''validated'', ''deprecated'', ''superseded'']"

text \<open>Each value is checked and then has to be new under \<open>norm\<close> (a \<open>BTreeSet\<close> of normalized values).\<close>

fun unique_values :: "(string \<Rightarrow> string) \<Rightarrow> nat \<Rightarrow> string list \<Rightarrow> string list \<Rightarrow> unit res" where
  "unique_values norm limit seen [] = Inr ()"
| "unique_values norm limit seen (v # vs) =
     and_then (bounded v limit True) (\<lambda>_.
     if norm v \<in> set seen then Inl bad_request else unique_values norm limit (norm v # seen) vs)"

definition validate_tags :: "(string \<Rightarrow> string) \<Rightarrow> string list \<Rightarrow> unit res" where
  "validate_tags lower tags =
     (if length tags > 50 then Inl bad_request else unique_values lower 64 [] tags)"

definition validate_scope :: "(string \<Rightarrow> string) \<Rightarrow> knowledge_scope \<Rightarrow> unit res" where
  "validate_scope lower s =
     (if length (ks_tasks s) > 100 \<or> length (ks_components s) > 50 \<or> length (ks_environments s) > 50
         \<or> length (ks_versions s) > 50 then Inl bad_request
      else and_then (unique_values id 128 [] (ks_tasks s)) (\<lambda>_.
        check_all (unique_values lower 255 []) [ks_components s, ks_environments s, ks_versions s]))"

definition optional :: "('a \<Rightarrow> unit res) \<Rightarrow> 'a option \<Rightarrow> unit res" where
  "optional check v = (case v of None \<Rightarrow> Inr () | Some x \<Rightarrow> check x)"

definition validate_provenance :: "knowledge_provenance \<Rightarrow> unit res" where
  "validate_provenance q =
     and_then (bounded (kp_summary q) 4096 True) (\<lambda>_.
     and_then (optional (\<lambda>u. bounded u 4096 True) (kp_source_uri q)) (\<lambda>_.
     and_then (optional (\<lambda>i. bounded i 128 True) (kp_source_task q)) (\<lambda>_.
     optional (\<lambda>i. bounded i 128 True) (kp_source_submission q))))"

definition validate_knowledge :: "(string \<Rightarrow> string) \<Rightarrow> knowledge_input \<Rightarrow> unit res" where
  "validate_knowledge lower k =
     (if ki_kind k \<notin> set knowledge_kinds \<or> ki_status k \<notin> set knowledge_statuses then Inl bad_request
      else and_then (bounded (ki_title k) 255 True) (\<lambda>_.
      and_then (bounded (ki_body k) 32768 True) (\<lambda>_.
      and_then (bounded (ki_applicability k) 4096 False) (\<lambda>_.
      and_then (validate_scope lower (ki_scope k)) (\<lambda>_.
      and_then (validate_tags lower (ki_tags k)) (\<lambda>_.
      and_then (validate_provenance (ki_provenance k)) (\<lambda>_.
      if ki_collection k \<notin> set [''project'', ''shared''] \<or> (ki_collection k = ''shared'') \<noteq> ki_share k
        then Inl bad_request else Inr ())))))))"

definition require_project :: "db \<Rightarrow> string \<Rightarrow> int res" where
  "require_project d p = and_then (project_get d p) (\<lambda>x. Inr (pj_policy_revision x))"

definition task_in :: "db \<Rightarrow> string \<Rightarrow> string \<Rightarrow> bool" where
  "task_in d p i \<longleftrightarrow> count_where (\<lambda>t. tk_project t = p \<and> tk_id t = i) (tasks d) \<noteq> 0"

definition validate_knowledge_references :: "db \<Rightarrow> string \<Rightarrow> knowledge_scope \<Rightarrow> knowledge_provenance \<Rightarrow> unit res" where
  "validate_knowledge_references d p s q =
     and_then (check_all (\<lambda>i. ensure (task_in d p i) bad_request) (ks_tasks s)) (\<lambda>_.
     and_then (optional (\<lambda>i. ensure (task_in d p i) bad_request) (kp_source_task q)) (\<lambda>_.
     optional (\<lambda>i. ensure (map_option sb_task (fetch (\<lambda>b. sb_project b = p \<and> sb_id b = i) (submissions d))
         = kp_source_task q) bad_request) (kp_source_submission q)))"

section \<open>Records\<close>

definition knowledge_value :: "db \<Rightarrow> string \<Rightarrow> string \<Rightarrow> knowledge_row res" where
  "knowledge_value d p i = ok_or not_found (fetch (\<lambda>k. kr_project k = p \<and> kr_id k = i) (knowledge_records d))"

definition same_knowledge_revision :: "knowledge_revision \<Rightarrow> knowledge_revision \<Rightarrow> bool" where
  "same_knowledge_revision a b \<longleftrightarrow> kv_knowledge a = kv_knowledge b \<and> kv_revision a = kv_revision b"

definition insert_knowledge_revision :: "knowledge_revision \<Rightarrow> db \<Rightarrow> db res" where
  "insert_knowledge_revision v d =
     and_then (insert_unique unique_violation same_knowledge_revision v (knowledge_revisions d)) (\<lambda>vs.
       Inr (d\<lparr>knowledge_revisions := vs\<rparr>))"

definition input_content :: "knowledge_input \<Rightarrow> knowledge_content" where
  "input_content k = \<lparr>kc_kind = ki_kind k, kc_status = ki_status k, kc_title = ki_title k, kc_body = ki_body k,
     kc_scope = ki_scope k, kc_tags = ki_tags k, kc_applicability = ki_applicability k,
     kc_provenance = ki_provenance k, kc_superseded_by = None\<rparr>"

definition insert_knowledge_record :: "string \<Rightarrow> string \<Rightarrow> int \<Rightarrow> string \<Rightarrow> knowledge_input \<Rightarrow> db \<Rightarrow> (knowledge_row \<times> db) res" where
  "insert_knowledge_record uuid who now p k d =
     and_then (insert_unique unique_violation (\<lambda>a b. kr_id a = kr_id b)
         \<lparr>kr_id = uuid, kr_project = p, kr_collection = ki_collection k, kr_revision = 1,
          kr_content = input_content k, kr_created_by = who, kr_created_at = now, kr_updated_at = now\<rparr>
         (knowledge_records d)) (\<lambda>ks.
     and_then (insert_knowledge_revision \<lparr>kv_knowledge = uuid, kv_revision = 1, kv_content = input_content k,
         kv_actor = who, kv_created_at = now\<rparr> (d\<lparr>knowledge_records := ks\<rparr>)) (\<lambda>d1.
     and_then (knowledge_value d1 p uuid) (\<lambda>row. Inr (row, d1))))"

definition create_knowledge :: "string \<Rightarrow> string \<Rightarrow> knowledge_input \<Rightarrow> mutation \<Rightarrow> outcome res" where
  "create_knowledge uuid p k m =
     (let d = m_db m in
      and_then (require_project d p) (\<lambda>_.
      replay_or m (
      and_then (validate_knowledge_references d p (ki_scope k) (ki_provenance k)) (\<lambda>_.
      and_then (insert_knowledge_record uuid (ac_id (m_actor m)) (m_now m) p k d) (\<lambda>(row, d1).
        finish m d1 (JKnowledge row) (Some p) ''knowledge.created'' (kr_id row))))))"

section \<open>Corrections\<close>

definition validate_edit_knowledge :: "(string \<Rightarrow> string) \<Rightarrow> knowledge_edit \<Rightarrow> unit res" where
  "validate_edit_knowledge lower e =
     and_then (validate_knowledge lower \<lparr>ki_kind = ''lesson'', ki_title = ke_title e, ki_body = ke_body e,
         ki_status = ke_status e, ki_scope = ke_scope e, ki_tags = ke_tags e, ki_applicability = ke_applicability e,
         ki_provenance = ke_provenance e, ki_collection = ''project'', ki_share = False\<rparr>) (\<lambda>_.
     if ke_expected_revision e \<le> 0 then Inl bad_request else Inr ())"

text \<open>A superseded revision names an existing record, no other status names one.\<close>

definition ensure_supersession :: "db \<Rightarrow> knowledge_edit \<Rightarrow> unit res" where
  "ensure_supersession d e =
     (case ke_superseded_by e of
        Some other \<Rightarrow>
          if ke_status e \<noteq> ''superseded'' then Inl bad_request
          else if count_where (\<lambda>k. kr_id k = other) (knowledge_records d) = 0 then Inl bad_request else Inr ()
      | None \<Rightarrow> if ke_status e = ''superseded'' then Inl bad_request else Inr ())"

definition edit_content :: "string \<Rightarrow> knowledge_edit \<Rightarrow> knowledge_content" where
  "edit_content kind e = \<lparr>kc_kind = kind, kc_status = ke_status e, kc_title = ke_title e, kc_body = ke_body e,
     kc_scope = ke_scope e, kc_tags = ke_tags e, kc_applicability = ke_applicability e,
     kc_provenance = ke_provenance e, kc_superseded_by = ke_superseded_by e\<rparr>"

definition edit_knowledge :: "string \<Rightarrow> string \<Rightarrow> knowledge_edit \<Rightarrow> mutation \<Rightarrow> outcome res" where
  "edit_knowledge p i e m =
     (let d = m_db m in
      and_then (knowledge_value d p i) (\<lambda>current.
      replay_or m (
      if kr_revision current \<noteq> ke_expected_revision e then Inl (conflict ''revision_conflict'')
      else and_then (validate_knowledge_references d p (ke_scope e) (ke_provenance e)) (\<lambda>_.
      and_then (ensure_supersession d e) (\<lambda>_.
      let r = kr_revision current + 1; content = edit_content (kc_kind (kr_content current)) e in
      and_then (insert_knowledge_revision \<lparr>kv_knowledge = i, kv_revision = r, kv_content = content,
          kv_actor = ac_id (m_actor m), kv_created_at = m_now m\<rparr> d) (\<lambda>d1.
      let d2 = d1\<lparr>knowledge_records := update_where (\<lambda>k. kr_id k = i)
                 (\<lambda>k. k\<lparr>kr_revision := r, kr_content := content, kr_updated_at := m_now m\<rparr>) (knowledge_records d1)\<rparr> in
      and_then (knowledge_value d2 p i) (\<lambda>row.
        finish m d2 (JKnowledge row) (Some p) ''knowledge.revised'' i)))))))"

section \<open>Feedback\<close>

definition validate_feedback :: "feedback_input \<Rightarrow> unit res" where
  "validate_feedback f =
     and_then (bounded (fi_comment f) 2048 False) (\<lambda>_.
     if fi_expected_revision f \<le> 0 then Inl bad_request else Inr ())"

definition add_feedback :: "string \<Rightarrow> string \<Rightarrow> string \<Rightarrow> feedback_input \<Rightarrow> mutation \<Rightarrow> outcome res" where
  "add_feedback uuid p i f m =
     (let d = m_db m in
      and_then (knowledge_value d p i) (\<lambda>current.
      if kr_revision current \<noteq> fi_expected_revision f then Inl (conflict ''revision_conflict'')
      else replay_or m (
      and_then (insert_unique unique_violation (\<lambda>a b. kf_id a = kf_id b)
          \<lparr>kf_id = uuid, kf_knowledge = i, kf_revision = kr_revision current, kf_actor = ac_id (m_actor m),
           kf_useful = fi_useful f, kf_comment = fi_comment f, kf_created_at = m_now m\<rparr> (knowledge_feedbacks d)) (\<lambda>fs.
        finish m (d\<lparr>knowledge_feedbacks := fs\<rparr>)
          (JObj [(''id'', JStr uuid), (''knowledge_id'', JStr i), (''revision'', JInt (kr_revision current)),
                 (''useful'', JBool (fi_useful f)), (''comment'', JStr (fi_comment f)),
                 (''actor_id'', JStr (ac_id (m_actor m))), (''created_at'', JTime (m_now m))])
          (Some p) ''knowledge.feedback_added'' i))))"

section \<open>Lessons of a submission\<close>

definition lesson_knowledge :: "string \<Rightarrow> string \<Rightarrow> lesson_input \<Rightarrow> knowledge_input" where
  "lesson_knowledge task sub l =
     \<lparr>ki_kind = le_kind l, ki_title = le_title l, ki_body = le_body l, ki_status = le_status l, ki_scope = le_scope l,
      ki_tags = le_tags l, ki_applicability = le_applicability l,
      ki_provenance = \<lparr>kp_summary = (if blank (le_provenance_summary l)
            then ''Created with the immutable task submission.'' else le_provenance_summary l),
          kp_source_uri = le_source_uri l, kp_source_task = Some task, kp_source_submission = Some sub\<rparr>,
      ki_collection = le_collection l, ki_share = le_share l\<rparr>"

definition check_lesson :: "(string \<Rightarrow> string) \<Rightarrow> db \<Rightarrow> string \<Rightarrow> knowledge_input \<Rightarrow> unit res" where
  "check_lesson lower d p k = and_then (validate_knowledge lower k) (\<lambda>_.
     validate_knowledge_references d p (ki_scope k) (ki_provenance k))"

text \<open>The identifiers drawn are \<open>ids n\<close>, \<open>ids (n + 1)\<close>, \<dots>\<close>

fun insert_lessons :: "(nat \<Rightarrow> string) \<Rightarrow> nat \<Rightarrow> actor \<Rightarrow> int \<Rightarrow> string \<Rightarrow> knowledge_input list \<Rightarrow> db \<Rightarrow> (string list \<times> db) res" where
  "insert_lessons ids n a now p [] d = Inr ([], d)"
| "insert_lessons ids n a now p (k # ks) d =
     and_then (insert_knowledge_record (ids n) (ac_id a) now p k d) (\<lambda>(row, d1).
     and_then (insert_lessons ids (Suc n) a now p ks (d1\<lparr>events := insert_row
         \<lparr>ev_project = Some p, ev_actor = ac_id a, ev_kind = ''knowledge.created_from_submission'',
          ev_record = kr_id row, ev_data = JObj [], ev_created_at = now, ev_class = event_class a\<rparr> (events d1)\<rparr>)) (\<lambda>(is, d2).
       Inr (kr_id row # is, d2)))"

definition insert_submission_lessons ::
  "(string \<Rightarrow> string) \<Rightarrow> (nat \<Rightarrow> string) \<Rightarrow> nat \<Rightarrow> actor \<Rightarrow> int \<Rightarrow> string \<Rightarrow> string \<Rightarrow> string \<Rightarrow> lesson_input list \<Rightarrow>
    db \<Rightarrow> (string list \<times> db) res" where
  "insert_submission_lessons lower ids n a now p task sub lessons d =
     (if length lessons > 50 then Inl bad_request
      else if count_where (\<lambda>b. sb_project b = p \<and> sb_task b = task \<and> sb_id b = sub) (submissions d) \<noteq> 1
        then Inl bad_request
      else let ks = map (lesson_knowledge task sub) lessons in
        and_then (check_all (check_lesson lower d p) ks) (\<lambda>_. insert_lessons ids n a now p ks d))"

section \<open>Laws\<close>

text \<open>A change of the knowledge tables and appended events.\<close>

lemma settles_knowledge:
  "settles a (d\<lparr>knowledge_records := ks\<rparr>) = settles a d"
  "settles a (d\<lparr>knowledge_revisions := vs\<rparr>) = settles a d"
  "settles a (d\<lparr>knowledge_feedbacks := fs\<rparr>) = settles a d"
  by (simp_all add: settles_def audited_def quiet_def edges_def)

lemma insert_knowledge_revision_Inr:
  "insert_knowledge_revision v d = Inr d' \<Longrightarrow> \<exists>vs. d' = d\<lparr>knowledge_revisions := vs\<rparr>"
  by (auto simp: insert_knowledge_revision_def)

lemma insert_knowledge_record_Inr:
  "insert_knowledge_record u w now p k d = Inr (row, d') \<Longrightarrow> \<exists>ks vs. d' = d\<lparr>knowledge_records := ks, knowledge_revisions := vs\<rparr>"
  by (auto simp: insert_knowledge_record_def dest!: insert_knowledge_revision_Inr)

lemma create_knowledge_commits: "commits settles m (create_knowledge uuid p k m)"
  unfolding create_knowledge_def Let_def
  by (intro commits_intros; hypsubst?;
      (assumption | drule insert_knowledge_record_Inr, auto simp: settles_knowledge intro: settles_refl))

lemma edit_knowledge_commits: "commits settles m (edit_knowledge p i e m)"
  unfolding edit_knowledge_def Let_def
  by (intro commits_intros; hypsubst?;
      (assumption | drule insert_knowledge_revision_Inr, auto simp: settles_knowledge intro: settles_refl))

lemma add_feedback_commits: "commits settles m (add_feedback uuid p i f m)"
  unfolding add_feedback_def Let_def
  by (intro commits_intros; (assumption | simp add: settles_knowledge settles_refl))

interpretation knowledge_creation: replay_safe "create_knowledge uuid p k" for uuid p k
  by (rule commits_replay_safe [OF create_knowledge_commits settles_audited])

interpretation knowledge_edition: replay_safe "edit_knowledge p i e" for p i e
  by (rule commits_replay_safe [OF edit_knowledge_commits settles_audited])

interpretation knowledge_feedback_addition: replay_safe "add_feedback uuid p i f" for uuid p i f
  by (rule commits_replay_safe [OF add_feedback_commits settles_audited])

end
