(* ===== verification/Workflow_Write.thy ===== *)
theory Workflow_Write
  imports Workflow_View Lease_Handlers Knowledge
begin

text \<open>
  The writes the completion workflow shares (\<^verbatim>\<open>workflow.rs\<close>, \<^verbatim>\<open>revert_rules.rs\<close>, \<^verbatim>\<open>integrator_reports.rs\<close>): an
  activity with its linked task, cancellations with their reasons and events, superseding a
  submission, advancing an approved subject, amending the criteria. Each is a step that keeps
  the ownership invariant.
\<close>

section \<open>Activities\<close>

definition activity_title :: "activity_kind \<Rightarrow> string \<Rightarrow> string" where
  "activity_title k title =
     (case k of
        Agent_review \<Rightarrow> ''Agent review: '' | Human_review \<Rightarrow> ''Human review: ''
      | Either_review \<Rightarrow> ''Agent or human review: '' | Integration \<Rightarrow> ''Integrate: '') @ title"

definition activity_criterion :: "activity_kind \<Rightarrow> string" where
  "activity_criterion k = (if k = Integration then ''Publish and validate the exact integrated result''
     else ''Record a decision for the immutable submission'')"

definition activity_description :: "string \<Rightarrow> string" where
  "activity_description sub = ''Internal workflow activity for submission '' @ sub @ ''.''"

definition activity_task_row :: "string \<Rightarrow> string \<Rightarrow> string \<Rightarrow> string \<Rightarrow> activity_kind \<Rightarrow> int \<Rightarrow> task" where
  "activity_task_row p i title sub k now =
     \<lparr>tk_id = i, tk_project = p, tk_title = activity_title k title, tk_description = activity_description sub,
      tk_acceptance = [activity_criterion k], tk_kind = General, tk_priority = 0,
      tk_lifecycle = Open, tk_revision = 1, tk_generation = 0, tk_current_attempt = None,
      tk_blocked_reason = None, tk_created_at = now, tk_ready_since = now, tk_archived_at = None,
      tk_deleted_at = None, tk_origin = Origin_service, tk_admission_class = None, tk_budget_exempt = None,
      tk_budget_admitted_at = None, tk_budget_held_at = None, tk_human_delivered = False\<rparr>"

text \<open>The unique indexes of \<open>workflow_activities\<close>.\<close>

definition activity_clash :: "workflow_activity \<Rightarrow> workflow_activity \<Rightarrow> bool" where
  "activity_clash a b \<longleftrightarrow> wa_id a = wa_id b \<or> wa_activity_task a = wa_activity_task b
     \<or> (wa_submission a = wa_submission b \<and> wa_kind a = wa_kind b \<and> wa_slot a = wa_slot b)"

text \<open>\<open>ids\<close> are the identifiers of the activity and of its linked task.\<close>

definition create_activity ::
  "string \<times> string \<Rightarrow> string \<Rightarrow> string \<Rightarrow> string \<Rightarrow> string \<Rightarrow> activity_kind \<Rightarrow> int \<Rightarrow> int \<Rightarrow> db \<Rightarrow> db res" where
  "create_activity ids p subject title sub k slot now d =
     (let (i, t) = ids; row = activity_task_row p t title sub k now in
      and_then (insert_task row d) (\<lambda>d1.
      and_then (case fetch (\<lambda>s. sb_id s = sub) (submissions d1) of
          None \<Rightarrow> Inr (task_revisions d1)
        | Some s \<Rightarrow> insert_unique unique_violation same_revision
            \<lparr>tn_project = p, tn_task = t, tn_revision = 1,
             tn_data = Definition (tk_title row) (tk_description row) (tk_acceptance row), tn_repaired = False,
             tn_grant = None, tn_actor = sb_created_by s, tn_created_at = now\<rparr> (task_revisions d1)) (\<lambda>rs.
      and_then (insert_unique unique_violation activity_clash
          \<lparr>wa_id = i, wa_project = p, wa_subject_task = subject, wa_submission = sub, wa_activity_task = t,
           wa_kind = k, wa_slot = slot, wa_state = Act_queued, wa_created_at = now, wa_completed_at = None,
           wa_canceled_at = None, wa_cancel = None\<rparr> (workflow_activities d1)) (\<lambda>ws.
        Inr (d1\<lparr>task_revisions := rs, workflow_activities := ws\<rparr>)))))"

text \<open>\<open>COALESCE(max(slot),0)+1\<close>\<close>

definition next_slot :: "db \<Rightarrow> string \<Rightarrow> activity_kind \<Rightarrow> int" where
  "next_slot d sub k = (let slots = map wa_slot (rows (\<lambda>w. wa_submission w = sub \<and> wa_kind w = k) (workflow_activities d))
     in if slots = [] then 1 else Max (set slots) + 1)"

definition update_activity :: "string \<Rightarrow> (workflow_activity \<Rightarrow> workflow_activity) \<Rightarrow> db \<Rightarrow> db" where
  "update_activity i f d = d\<lparr>workflow_activities := update_where (\<lambda>w. wa_id w = i) f (workflow_activities d)\<rparr>"

definition set_phase :: "string \<Rightarrow> phase \<Rightarrow> int \<Rightarrow> db \<Rightarrow> db" where
  "set_phase t ph now d = d\<lparr>workflow_subjects := update_where (\<lambda>s. ws_task s = t)
     (\<lambda>s. s\<lparr>ws_phase := ph, ws_updated_at := now\<rparr>) (workflow_subjects d)\<rparr>"

definition supersede_row :: "string \<Rightarrow> int \<Rightarrow> db \<Rightarrow> db" where
  "supersede_row sub now d = d\<lparr>submissions := update_where (\<lambda>s. sb_id s = sub \<and> sb_superseded_at s = None)
     (\<lambda>s. s\<lparr>sb_superseded_at := Some now\<rparr>) (submissions d)\<rparr>"

definition release_holds :: "(string \<Rightarrow> bool) \<Rightarrow> string \<Rightarrow> int \<Rightarrow> string \<Rightarrow> db \<Rightarrow> db" where
  "release_holds P who now reason d = d\<lparr>integration_holds := update_where (\<lambda>h. P (ih_activity h) \<and> ih_held h)
     (\<lambda>h. h\<lparr>ih_held := False, ih_released_by := Some who, ih_released_at := Some now, ih_reason := Some reason\<rparr>)
     (integration_holds d)\<rparr>"

text \<open>The linked tasks of a submission's activities that satisfy \<open>P\<close>.\<close>

definition linked_task :: "db \<Rightarrow> string \<Rightarrow> (workflow_activity \<Rightarrow> bool) \<Rightarrow> string \<Rightarrow> bool" where
  "linked_task d sub P i \<longleftrightarrow> exists_where (\<lambda>w. wa_submission w = sub \<and> P w \<and> wa_activity_task w = i) (workflow_activities d)"

definition close_tasks :: "(string \<Rightarrow> bool) \<Rightarrow> db \<Rightarrow> db" where
  "close_tasks K d = d\<lparr>tasks := update_where (\<lambda>t. K (tk_id t))
     (\<lambda>t. t\<lparr>tk_lifecycle := Canceled, tk_blocked_reason := None\<rparr>) (tasks d)\<rparr>"

text \<open>Cancels the active current attempts of the tasks in \<open>K\<close>.\<close>

definition cancel_attempts :: "(string \<Rightarrow> bool) \<Rightarrow> int \<Rightarrow> string \<Rightarrow> db \<Rightarrow> db" where
  "cancel_attempts K now outcome d = d\<lparr>attempts := update_where
     (\<lambda>a. at_state a = Active \<and> exists_where (\<lambda>t. K (tk_id t) \<and> tk_current_attempt t = Some (at_id a)) (tasks d))
     (\<lambda>a. a\<lparr>at_state := Attempt_canceled, at_ended_at := Some now, at_outcome := Some outcome\<rparr>) (attempts d)\<rparr>"

section \<open>Cancellations\<close>

definition cancel_context :: "db \<Rightarrow> string \<Rightarrow> cancel_details res" where
  "cancel_context d sub =
     and_then (ok_or row_not_found (fetch (\<lambda>s. sb_id s = sub) (submissions d))) (\<lambda>s.
     Inr \<lparr>cc_target_branch = sb_target_branch s, cc_base_revision = sb_base_revision s,
          cc_candidate_revision = sb_candidate_revision s,
          cc_target_revision = (case rev (sort_key (\<lambda>r. (ig_created_at r, ig_id r))
               (rows (\<lambda>r. ig_submission r = sub) (integrator_results d))) of [] \<Rightarrow> None | r # _ \<Rightarrow> Some (ig_t0 r)),
          cc_moved_by = None, cc_evidence = None\<rparr>)"

definition opt_json :: "string option \<Rightarrow> json" where
  "opt_json v = (case v of None \<Rightarrow> JNull | Some s \<Rightarrow> JStr s)"

definition cancel_context_value :: "cancel_details \<Rightarrow> json" where
  "cancel_context_value c = JObj
     ([(''target_branch'', opt_json (cc_target_branch c)), (''submission_base_revision'', opt_json (cc_base_revision c)),
       (''candidate_revision'', opt_json (cc_candidate_revision c)), (''target_revision'', opt_json (cc_target_revision c))]
      @ (case cc_moved_by c of None \<Rightarrow> [] | Some i \<Rightarrow> [(''moved_by_result_id'', JStr i)])
      @ (case cc_evidence c of None \<Rightarrow> [] | Some e \<Rightarrow> [(''evidence'', JStr e)]))"

definition cancel_event :: "workflow_activity \<Rightarrow> string \<Rightarrow> cancel_reason \<Rightarrow> int \<Rightarrow> event" where
  "cancel_event w who why now =
     \<lparr>ev_project = Some (wa_project w), ev_actor = who, ev_kind = ''workflow.activity_canceled'',
      ev_record = wa_subject_task w,
      ev_data = JObj [(''activity_id'', JStr (wa_id w)), (''activity_kind'', JStr ''integration''),
        (''slot'', JInt (wa_slot w)), (''actor_id'', JStr who),
        (''reason'', JObj [(''code'', JStr (cn_code why)), (''detail'', JStr (cn_detail why)),
           (''context'', cancel_context_value (cn_context why))])],
      ev_created_at = now, ev_class = None\<rparr>"

definition cancelable :: "workflow_activity \<Rightarrow> bool" where
  "cancelable w \<longleftrightarrow> wa_state w = Act_queued \<or> wa_state w = Act_active"

fun cancel_activities :: "string list \<Rightarrow> string \<Rightarrow> cancel_reason \<Rightarrow> int \<Rightarrow> db \<Rightarrow> db" where
  "cancel_activities [] who why now d = d"
| "cancel_activities (i # is) who why now d =
     (case fetch (\<lambda>w. wa_id w = i \<and> cancelable w) (workflow_activities d) of
        None \<Rightarrow> cancel_activities is who why now d
      | Some w \<Rightarrow>
          let d1 = d\<lparr>workflow_activities := update_where (\<lambda>x. wa_id x = i \<and> cancelable x)
                 (\<lambda>x. x\<lparr>wa_state := Act_canceled, wa_canceled_at := Some now, wa_cancel := Some why\<rparr>) (workflow_activities d)\<rparr> in
          cancel_activities is who why now
            (if wa_kind w \<noteq> Integration then d1
             else d1\<lparr>events := insert_row (cancel_event w who why now) (events d1)\<rparr>))"

definition cancel_submission_activities ::
  "string \<Rightarrow> (workflow_activity \<Rightarrow> bool) \<Rightarrow> string \<Rightarrow> cancel_reason \<Rightarrow> int \<Rightarrow> db \<Rightarrow> db" where
  "cancel_submission_activities sub P who why now d =
     cancel_activities (map wa_id (filter P (sort_key (\<lambda>w. (kind_rank (wa_kind w), wa_slot w))
       (rows (\<lambda>w. wa_submission w = sub) (workflow_activities d))))) who why now d"

section \<open>Superseding a submission\<close>

record supersede =
  su_project :: string
  su_task :: string
  su_submission :: string
  su_actor :: string
  su_reason :: string
  su_code :: "string option"
  su_moved_by :: "string option"
  su_evidence :: "string option"

definition supersede_code :: "string option \<Rightarrow> string option \<Rightarrow> string" where
  "supersede_code reason_code moved_by =
     (case reason_code of
        None \<Rightarrow> ''manual''
      | Some c \<Rightarrow> if c = ''conflict'' then (if moved_by = None then ''merge_conflict'' else ''target_advanced'') else c)"

definition supersede_reason :: "db \<Rightarrow> supersede \<Rightarrow> cancel_reason res" where
  "supersede_reason d r =
     (let c = supersede_code (su_code r) (su_moved_by r) in
      and_then (cancel_context d (su_submission r)) (\<lambda>c0.
      let c1 = (case su_moved_by r of
            None \<Rightarrow> c0
          | Some i \<Rightarrow> c0\<lparr>cc_moved_by := Some i, cc_target_revision :=
              (case fetch (\<lambda>x. ig_id x = i \<and> ig_project x = su_project r) (integrator_results d) of
                 Some x \<Rightarrow> Some (ig_r x) | None \<Rightarrow> cc_target_revision c0)\<rparr>);
          c2 = (case su_evidence r of None \<Rightarrow> c1 | Some e \<Rightarrow> c1\<lparr>cc_evidence := Some e\<rparr>) in
      Inr \<lparr>cn_code = c,
           cn_detail = (if c = ''target_advanced'' then
                ''The target branch advanced past the submission's base revision; rebase onto the current target. '' @ su_reason r
              else if c = ''merge_conflict'' then
                ''The candidate conflicts with the target branch; resolve the conflict. '' @ su_reason r
              else su_reason r),
           cn_context = c2\<rparr>))"

text \<open>\<open>close_stale_rerun_reports\<close>: open reports of a refused rerun whose result was finished, or overtaken by a
  later run attempt, are resolved by the service.\<close>

definition stale_report :: "string \<Rightarrow> integrator_report \<Rightarrow> bool" where
  "stale_report p r \<longleftrightarrow> ip_project r = p \<and> ip_kind r = ''flaky'' \<and> ip_resolved_at r = None \<and> ip_result r \<noteq> None
     \<and> ip_verdict r = Some ''rerun_refused''"

definition result_finished :: "db \<Rightarrow> integrator_report \<Rightarrow> bool" where
  "result_finished d r \<longleftrightarrow> exists_where (\<lambda>g. ip_result r = Some (ig_id g)
     \<and> exists_where (\<lambda>s. sb_id s = ig_submission g
         \<and> (sb_superseded_at s \<noteq> None \<or> exists_where (\<lambda>w. ws_task w = sb_task s \<and> ws_phase w = Phase_done) (workflow_subjects d)))
       (submissions d)) (integrator_results d)"

definition rerun_recorded :: "db \<Rightarrow> integrator_report \<Rightarrow> bool" where
  "rerun_recorded d r \<longleftrightarrow> exists_where (\<lambda>c. ip_result r = Some (ic_result c) \<and> ip_run_id r = Some (ic_run_id c)
     \<and> is_some_and (ip_run_attempt r) (\<lambda>n. ic_run_attempt c > n)) (integrator_receipts d)"

definition resolve_reports :: "(integrator_report \<Rightarrow> bool) \<Rightarrow> string \<Rightarrow> string \<Rightarrow> int \<Rightarrow> db \<Rightarrow> db" where
  "resolve_reports P who note now d = d\<lparr>integrator_reports := update_where P
     (\<lambda>r. r\<lparr>ip_resolved_at := Some now, ip_resolved_by := Some who, ip_note := Some note\<rparr>) (integrator_reports d)\<rparr>"

definition close_stale_rerun_reports :: "string \<Rightarrow> string \<Rightarrow> int \<Rightarrow> db \<Rightarrow> db" where
  "close_stale_rerun_reports p who now d =
     (let d1 = resolve_reports (\<lambda>r. stale_report p r \<and> result_finished d r) who
                 ''Resolved automatically: the result was integrated or superseded.'' now d in
      resolve_reports (\<lambda>r. stale_report p r \<and> rerun_recorded d1 r) who
        ''Resolved automatically: a later rerun of the run went through.'' now d1)"

definition AWAITING_CANDIDATE :: string where
  "AWAITING_CANDIDATE = ''Waiting for the integrator to record the mechanical revert candidate.''"

definition restore_awaiting :: "string \<Rightarrow> db \<Rightarrow> db" where
  "restore_awaiting t d = update_task t (\<lambda>x. if is_mechanical d t then x\<lparr>tk_blocked_reason := Some AWAITING_CANDIDATE\<rparr> else x) d"

definition reopened_outcome :: string where
  "reopened_outcome = ''Workflow reopened: expired, revoked, stale, or revised authority.''"

definition supersede_submission :: "supersede \<Rightarrow> int \<Rightarrow> db \<Rightarrow> db res" where
  "supersede_submission r now d =
     (let p = su_project r; t = su_task r; sub = su_submission r; who = su_actor r;
          linked = linked_task d sub (\<lambda>_. True) in
      and_then (ensure_attempt_quiescent d p t) (\<lambda>_.
      and_then (ensure_workflow_quiescent d p t) (\<lambda>_.
      let d1 = cancel_attempts linked now reopened_outcome d;
          d2 = d1\<lparr>tasks := update_where (\<lambda>x. linked (tk_id x)) (\<lambda>x. x\<lparr>tk_current_attempt := None\<rparr>) (tasks d1)\<rparr>;
          d3 = set_phase t Phase_revision_needed now (supersede_row sub now d2) in
      and_then (supersede_reason d3 r) (\<lambda>why.
      let d4 = cancel_submission_activities sub cancelable who why now d3;
          d5 = close_tasks (linked_task d4 sub (\<lambda>w. wa_state w = Act_canceled)) d4;
          d6 = release_holds (\<lambda>a. exists_where (\<lambda>w. wa_id w = a \<and> wa_submission w = sub) (workflow_activities d5))
                 who now (su_reason r) d5;
          d7 = update_task t (\<lambda>x. x\<lparr>tk_blocked_reason := None, tk_ready_since := now\<rparr>) d6 in
      Inr (restore_awaiting t (close_stale_rerun_reports p who now d7))))))"

section \<open>Advancing an approved subject\<close>

definition complete_general_subject :: "string \<Rightarrow> string \<Rightarrow> int \<Rightarrow> db \<Rightarrow> db res" where
  "complete_general_subject p subject now d =
     and_then (ensure_required_children_done d p subject) (\<lambda>_.
     and_then (ensure_attempt_quiescent d p subject) (\<lambda>_.
     and_then (ensure_workflow_quiescent d p subject) (\<lambda>_.
     Inr (ready_dependents subject now (update_task subject
        (\<lambda>t. t\<lparr>tk_lifecycle := Done, tk_blocked_reason := None\<rparr>) (set_phase subject Phase_done now d))))))"

definition queued_review :: "workflow_activity \<Rightarrow> bool" where
  "queued_review w \<longleftrightarrow> wa_kind w \<noteq> Integration \<and> wa_state w = Act_queued"

definition advance_approved_subject :: "string \<Rightarrow> string \<Rightarrow> string \<Rightarrow> int \<Rightarrow> db \<Rightarrow> db res" where
  "advance_approved_subject p subject sub now d =
     and_then (ok_or row_not_found (fetch (\<lambda>s. sb_id s = sub) (submissions d))) (\<lambda>s.
     let d1 = close_tasks (linked_task d sub queued_review) d in
     and_then (cancel_context d1 sub) (\<lambda>cx.
     let why = \<lparr>cn_code = ''review_not_needed'', cn_detail = ''The required approvals were already satisfied.'',
               cn_context = cx\<rparr>;
         d2 = cancel_activities (map wa_id (rows (\<lambda>w. wa_submission w = sub \<and> queued_review w) (workflow_activities d1)))
                (sb_created_by s) why now d1 in
     if sb_kind s = General then complete_general_subject p subject now d2
     else let d3 = set_phase subject Phase_integration now d2 in
       Inr (case fetch (\<lambda>w. wa_submission w = sub \<and> wa_kind w = Integration \<and> wa_state w = Act_queued) (workflow_activities d3) of
           None \<Rightarrow> d3
         | Some w \<Rightarrow> update_task (wa_activity_task w) (\<lambda>t. t\<lparr>tk_blocked_reason := None, tk_ready_since := now\<rparr>) d3)))"

section \<open>Amended criteria\<close>

definition amendment_outcome :: "db \<Rightarrow> string \<Rightarrow> string \<Rightarrow> string option \<Rightarrow> (review_decision \<times> string list option) res" where
  "amendment_outcome d sub decision amendment =
     and_then (ok_or row_not_found (fetch (\<lambda>s. sb_id s = sub) (submissions d))) (\<lambda>s.
     let verdict = (if decision = ''approved'' then Approved else Changes_requested) in
     case sb_amendment s of
       None \<Rightarrow> if amendment = None then Inr (verdict, None) else Inl bad_request
     | Some (old, new, rationale) \<Rightarrow>
         if amendment = None \<and> verdict = Changes_requested then Inr (verdict, None)
         else if amendment = Some ''rejected'' then Inr (Changes_requested, None)
         else if amendment = Some ''accepted'' \<and> verdict = Approved then Inr (verdict, Some new)
         else Inl bad_request)"

definition apply_amendment :: "task_digest \<Rightarrow> mutation \<Rightarrow> string \<Rightarrow> string \<Rightarrow> string \<Rightarrow> string list \<Rightarrow> db \<Rightarrow> db res" where
  "apply_amendment dig m p task sub acs d =
     and_then (ok_or row_not_found (fetch (\<lambda>t. tk_id t = task) (tasks d))) (\<lambda>t.
     and_then (if tk_acceptance t = acs then Inr d
        else and_then (save_task_revision m p task (update_task task
               (\<lambda>x. x\<lparr>tk_acceptance := acs, tk_revision := tk_revision x + 1\<rparr>) d)) (\<lambda>(_, d1). Inr d1)) (\<lambda>d1.
     and_then (current_task_digest dig d1 task) (\<lambda>digest.
     Inr (d1\<lparr>submissions := update_where (\<lambda>s. sb_id s = sub) (\<lambda>s. s\<lparr>sb_task_digest := Some digest\<rparr>) (submissions d1)\<rparr>))))"

section \<open>Rejected mechanical reverts\<close>

definition reject_mechanical :: "mutation \<Rightarrow> string \<Rightarrow> string \<Rightarrow> string \<Rightarrow> string \<Rightarrow> db \<Rightarrow> db res" where
  "reject_mechanical m p task activity summary d =
     (if \<not> is_mechanical d task then Inr d
      else let d1 = d\<lparr>task_reverts := update_where (\<lambda>r. tr_task r = task)
             (\<lambda>r. r\<lparr>tr_rejection := Some (activity, ac_id (m_actor m), summary, m_now m)\<rparr>) (task_reverts d)\<rparr> in
        and_then (save_task_revision m p task (update_task task
            (\<lambda>t. t\<lparr>tk_lifecycle := Canceled, tk_blocked_reason := None, tk_revision := tk_revision t + 1\<rparr>) d1)) (\<lambda>(_, d2).
        Inr d2))"

end
