(* ===== verification/Workflow_Steps.thy ===== *)
theory Workflow_Steps
  imports Workflow_Write
begin

text \<open>
  The shared writes of the workflow as steps: each keeps the ownership invariant, closes tasks only
  for good, and touches neither jobs nor reservations nor dependencies.
\<close>

named_theorems lease_frame \<open>tables \<open>lease_step\<close> does not read\<close>

lemma lease_step_tables [lease_frame, simp]:
  "lease_step a (d\<lparr>workflow_activities := x1\<rparr>) = lease_step a d"
  "lease_step a (d\<lparr>workflow_subjects := x2\<rparr>) = lease_step a d"
  "lease_step a (d\<lparr>submissions := x3\<rparr>) = lease_step a d"
  "lease_step a (d\<lparr>integration_holds := x4\<rparr>) = lease_step a d"
  "lease_step a (d\<lparr>integrator_reports := x5\<rparr>) = lease_step a d"
  "lease_step a (d\<lparr>task_revisions := x6\<rparr>) = lease_step a d"
  "lease_step a (d\<lparr>task_reverts := x7\<rparr>) = lease_step a d"
  "lease_step a (d\<lparr>review_decisions := x8\<rparr>) = lease_step a d"
  "lease_step a (d\<lparr>review_findings := x9\<rparr>) = lease_step a d"
  "lease_step a (d\<lparr>integration_authorizations := y1\<rparr>) = lease_step a d"
  "lease_step a (d\<lparr>publication_intents := y2\<rparr>) = lease_step a d"
  "lease_step a (d\<lparr>integration_results := y3\<rparr>) = lease_step a d"
  "lease_step a (d\<lparr>publication_reconciliations := y4\<rparr>) = lease_step a d"
  "lease_step a (d\<lparr>revise_requests := y5\<rparr>) = lease_step a d"
  "lease_step a (d\<lparr>workflow_policies := y6\<rparr>) = lease_step a d"
  "lease_step a (d\<lparr>workflow_policy_revisions := y7\<rparr>) = lease_step a d"
  "lease_step a (d\<lparr>knowledge_records := y8\<rparr>) = lease_step a d"
  "lease_step a (d\<lparr>knowledge_revisions := y9\<rparr>) = lease_step a d"
  "lease_step a (d\<lparr>submission_knowledge_links := z1\<rparr>) = lease_step a d"
  "lease_step a (d\<lparr>submission_artifacts := z2\<rparr>) = lease_step a d"
  by (simp_all add: lease_step_def audited_def leases_ok_def leases_forward_def edges_def budget_kept_def)

lemma lease_step_writes [simp]:
  "lease_step a (update_activity i f d) = lease_step a d"
  "lease_step a (set_phase t ph now d) = lease_step a d"
  "lease_step a (supersede_row sub now d) = lease_step a d"
  "lease_step a (release_holds P who now reason d) = lease_step a d"
  "lease_step a (resolve_reports Q who note now d) = lease_step a d"
  "lease_step a (close_stale_rerun_reports p who now d) = lease_step a d"
  by (simp_all add: update_activity_def set_phase_def supersede_row_def release_holds_def resolve_reports_def
      close_stale_rerun_reports_def Let_def)

named_theorems lease_steps \<open>writes that are steps\<close>

lemma lease_step_save [lease_steps]:
  "save_task_revision m p i d = Inr (v, d') \<Longrightarrow> lease_step a d \<Longrightarrow> lease_step a d'"
  by (auto dest!: save_task_revision_Inr)

lemma lease_step_create_activity [lease_steps]:
  assumes "create_activity ids p subject title sub k slot now d = Inr d'" and "lease_step a d"
  shows "lease_step a d'"
proof -
  from assms(1) obtain i t where ids: "ids = (i, t)" by (cases ids)
  let ?row = "activity_task_row p t title sub k now"
  from assms(1) obtain rs ws where
    fresh: "\<forall>s \<in> set (tasks d). tk_id s \<noteq> tk_id ?row"
    and d': "d' = d\<lparr>tasks := insert_row ?row (tasks d)\<rparr>\<lparr>task_revisions := rs, workflow_activities := ws\<rparr>"
    by (fastforce simp: ids create_activity_def insert_task_def Let_def)
  have "lease_step a (d\<lparr>tasks := insert_row ?row (tasks d)\<rparr>)"
    by (rule lease_step_insert_task [OF assms(2) fresh]) (simp_all add: activity_task_row_def)
  then show ?thesis by (simp add: d')
qed

lemma lease_step_cancel_activities [lease_steps]:
  "lease_step a d \<Longrightarrow> lease_step a (cancel_activities is who why now d)"
proof (induction "is" arbitrary: d)
  case (Cons i "is")
  show ?case
  proof (cases "fetch (\<lambda>w. wa_id w = i \<and> cancelable w) (workflow_activities d)")
    case None
    then show ?thesis using Cons by simp
  next
    case (Some w)
    define d1 where "d1 = d\<lparr>workflow_activities := update_where (\<lambda>x. wa_id x = i \<and> cancelable x)
         (\<lambda>x. x\<lparr>wa_state := Act_canceled, wa_canceled_at := Some now, wa_cancel := Some why\<rparr>) (workflow_activities d)\<rparr>"
    have s: "lease_step a d1" using Cons.prems by (simp add: d1_def)
    have "lease_step a (if wa_kind w \<noteq> Integration then d1
        else d1\<lparr>events := insert_row (cancel_event w who why now) (events d1)\<rparr>)"
      using lease_step_event [OF s] s by simp
    then show ?thesis
      unfolding cancel_activities.simps Some option.case Let_def d1_def [symmetric] by (rule Cons.IH)
  qed
qed simp

lemma lease_step_cancel_submission [lease_steps]:
  "lease_step a d \<Longrightarrow> lease_step a (cancel_submission_activities sub P who why now d)"
  unfolding cancel_submission_activities_def by (rule lease_step_cancel_activities)

lemma lease_step_close_tasks [lease_steps]:
  assumes "lease_step a d"
  shows "lease_step a (close_tasks K d)"
  unfolding close_tasks_def
  by (rule lease_step_tasks [OF assms]) (auto simp: task_change_def closed_def budget_key_def)

lemma lease_step_cancel_attempts [lease_steps]:
  assumes "lease_step a d"
  shows "lease_step a (cancel_attempts K now outcome d)"
  unfolding cancel_attempts_def
  by (rule lease_step_attempts [OF assms]) (auto simp: attempt_forward_def)

text \<open>After the active current attempts of a set of tasks ended, the tasks may forget them.\<close>

lemma cancel_attempts_idle:
  assumes ok: "leases_ok (cancel_attempts K now outcome d)" and d: "leases_ok d"
    and t: "t \<in> set (tasks d)" "K (tk_id t)" "\<not> closed t"
    and a: "a \<in> set (attempts (cancel_attempts K now outcome d))" "at_task a = tk_id t"
  shows "at_state a \<noteq> Active"
proof
  assume act: "at_state a = Active"
  let ?P = "\<lambda>a. at_state a = Active \<and> exists_where (\<lambda>t. K (tk_id t) \<and> tk_current_attempt t = Some (at_id a)) (tasks d)"
  have "a \<in> set (update_where ?P (\<lambda>a. a\<lparr>at_state := Attempt_canceled, at_ended_at := Some now, at_outcome := Some outcome\<rparr>) (attempts d))"
    using a(1) by (simp add: cancel_attempts_def)
  from update_where_row [OF this] obtain b where b: "b \<in> set (attempts d)"
    "a = (if ?P b then b\<lparr>at_state := Attempt_canceled, at_ended_at := Some now, at_outcome := Some outcome\<rparr> else b)" by blast
  from act have "\<not> ?P b" by (subst (asm) b(2)) (simp split: if_splits)
  with b have b: "a \<in> set (attempts d)" "\<not> ?P a" by auto
  from active_current [OF d b(1) act t(1)] a(2) t(3) have "tk_current_attempt t = Some (at_id a)" by simp
  with t(1,2) act b(2) show False by (auto simp: table_simps)
qed

lemma lease_step_clear [lease_steps]:
  assumes st: "lease_step a d" and KJ: "\<And>i. J i \<Longrightarrow> K i"
    and g: "\<And>t. tk_id (g t) = tk_id t \<and> tk_project (g t) = tk_project t \<and> tk_generation (g t) = tk_generation t
        \<and> tk_current_attempt (g t) = None \<and> tk_budget_admitted_at (g t) = tk_budget_admitted_at t \<and> (closed t \<longrightarrow> closed (g t))"
  shows "lease_step a ((cancel_attempts K now outcome d)\<lparr>tasks := update_where (\<lambda>t. J (tk_id t)) g (tasks (cancel_attempts K now outcome d))\<rparr>)"
proof (rule lease_step_tasks [OF lease_step_cancel_attempts [OF st]])
  fix t assume ok: "leases_ok a" "leases_ok (cancel_attempts K now outcome d)"
    and t: "t \<in> set (tasks (cancel_attempts K now outcome d))" "J (tk_id t)"
  have d: "leases_ok d" using st ok(1) by (simp add: lease_step_def)
  have t': "t \<in> set (tasks d)" using t(1) by (simp add: cancel_attempts_def)
  show "task_change (attempts (cancel_attempts K now outcome d)) t (g t)"
    using g [of t] cancel_attempts_idle [OF ok(2) d t' KJ [OF t(2)]] by (auto simp: task_change_def)
next
  show "budget_key (g t) = budget_key t" for t using g [of t] by (simp add: budget_key_def)
qed

lemma lease_step_restore_awaiting [lease_steps]: "lease_step a d \<Longrightarrow> lease_step a (restore_awaiting t d)"
  unfolding restore_awaiting_def by (erule lease_step_update_task) (auto simp: task_key_def closed_def)

lemma lease_step_supersede [lease_steps]:
  assumes "supersede_submission r now d = Inr d'" and "lease_step a d"
  shows "lease_step a d'"
proof -
  let ?K = "linked_task d (su_submission r) (\<lambda>_. True)"
  let ?d2 = "(cancel_attempts ?K now reopened_outcome d)\<lparr>tasks := update_where (\<lambda>x. ?K (tk_id x))
     (\<lambda>x. x\<lparr>tk_current_attempt := None\<rparr>) (tasks (cancel_attempts ?K now reopened_outcome d))\<rparr>"
  have "lease_step a ?d2" by (rule lease_step_clear [OF assms(2)]) (simp_all add: closed_def)
  with assms(1) show ?thesis
    unfolding supersede_submission_def Let_def
    by (auto intro!: lease_step_restore_awaiting lease_step_update_task lease_step_close_tasks lease_step_cancel_submission
        simp: task_key_def closed_def)
qed

lemma lease_step_ready [lease_steps]:
  assumes "lease_step a d"
  shows "lease_step a (ready_dependents i now d)"
proof -
  have "lease_step a (d\<lparr>tasks := update_where P (\<lambda>t. t\<lparr>tk_ready_since := now\<rparr>) (tasks d)\<rparr>)" if "lease_step a d" for P d
    by (rule lease_step_tasks [OF that]) (auto simp: task_change_def closed_def budget_key_def)
  from this [OF this [OF assms]] show ?thesis unfolding ready_dependents_def by simp
qed

lemma lease_step_complete_general [lease_steps]:
  "complete_general_subject p subject now d = Inr d' \<Longrightarrow> lease_step a d \<Longrightarrow> lease_step a d'"
  unfolding complete_general_subject_def
  by (auto intro!: lease_step_ready lease_step_update_task simp: task_key_def closed_def)

lemma lease_step_advance [lease_steps]:
  assumes "advance_approved_subject p subject sub now d = Inr d'" and "lease_step a d"
  shows "lease_step a d'"
  using assms unfolding advance_approved_subject_def Let_def
  by (auto split: if_splits option.splits intro!: lease_step_update_task lease_step_cancel_activities lease_step_close_tasks
      elim!: lease_step_complete_general simp: task_key_def closed_def)

lemma lease_step_amendment [lease_steps]:
  assumes "apply_amendment dig m p task sub acs d = Inr d'" and "lease_step a d"
  shows "lease_step a d'"
proof -
  have "lease_step a (update_task task (\<lambda>x. x\<lparr>tk_acceptance := acs, tk_revision := tk_revision x + 1\<rparr>) d)"
    by (rule lease_step_update_task [OF assms(2)]) (simp_all add: task_key_def closed_def)
  with assms show ?thesis
    unfolding apply_amendment_def by (auto split: if_splits elim: lease_step_save)
qed

lemma lease_step_reject [lease_steps]:
  assumes "reject_mechanical m p task activity summary d = Inr d'" and "lease_step a d"
  shows "lease_step a d'"
proof (cases "is_mechanical d task")
  case True
  let ?d1 = "d\<lparr>task_reverts := update_where (\<lambda>r. tr_task r = task)
       (\<lambda>r. r\<lparr>tr_rejection := Some (activity, ac_id (m_actor m), summary, m_now m)\<rparr>) (task_reverts d)\<rparr>"
  have "lease_step a (update_task task (\<lambda>t. t\<lparr>tk_lifecycle := Canceled, tk_blocked_reason := None, tk_revision := tk_revision t + 1\<rparr>) ?d1)"
    by (rule lease_step_update_task) (simp_all add: task_key_def closed_def assms(2))
  with assms(1) True show ?thesis
    by (auto simp: reject_mechanical_def Let_def elim: lease_step_save)
qed (use assms in \<open>simp add: reject_mechanical_def\<close>)

section \<open>Ending the holder of a task\<close>

text \<open>\<open>i\<close> is the active current attempt of task \<open>t\<close>; what an owner operation established.\<close>

definition holder :: "db \<Rightarrow> string \<Rightarrow> string \<Rightarrow> bool" where
  "holder d i t \<longleftrightarrow> (\<exists>a \<in> set (attempts d). at_id a = i \<and> at_state a = Active)
     \<and> (\<exists>u \<in> set (tasks d). tk_id u = t \<and> tk_current_attempt u = Some i)"

lemma holder_same: "attempts d' = attempts d \<Longrightarrow> tasks d' = tasks d \<Longrightarrow> holder d' i t = holder d i t"
  by (simp add: holder_def)

lemma holder_rows:
  assumes ok: "leases_ok d" and h: "holder d i t"
  shows "\<And>x. x \<in> set (attempts d) \<Longrightarrow> at_id x = i \<Longrightarrow> at_state x = Active"
    and "\<And>u. u \<in> set (tasks d) \<Longrightarrow> tk_id u = t \<Longrightarrow> tk_current_attempt u = Some i"
proof -
  fix x assume x: "x \<in> set (attempts d)" "at_id x = i"
  from h obtain y where y: "y \<in> set (attempts d)" "at_id y = i" "at_state y = Active" by (auto simp: holder_def)
  with ok x have "x = y" by (intro unique_row [of at_id "attempts d"]) (simp_all add: leases_ok_def)
  with y show "at_state x = Active" by simp
next
  fix u assume u: "u \<in> set (tasks d)" "tk_id u = t"
  from h obtain v where v: "v \<in> set (tasks d)" "tk_id v = t" "tk_current_attempt v = Some i" by (auto simp: holder_def)
  with ok u have "u = v" by (intro unique_row [of tk_id "tasks d"]) (simp_all add: leases_ok_def)
  with v show "tk_current_attempt u = Some i" by simp
qed

lemma lease_step_holder:
  assumes "lease_step a d" and h: "holder d i t"
    and "\<And>x. at_state x = Active \<Longrightarrow> attempt_forward x (f x) \<and> at_state (f x) \<noteq> Active"
    and "\<And>u. tk_id (g u) = tk_id u \<and> tk_project (g u) = tk_project u \<and> tk_generation (g u) = tk_generation u
        \<and> tk_current_attempt (g u) = None \<and> tk_budget_admitted_at (g u) = tk_budget_admitted_at u \<and> (closed u \<longrightarrow> closed (g u))"
  shows "lease_step a (update_task t g (update_attempt i f d))"
  by (rule lease_step_end [OF assms(1) _ assms(3) _ assms(4)]) (simp_all add: holder_rows [OF _ h])

end
