(* ===== verification/Rust_Text.thy ===== *)
theory Rust_Text
  imports Prelude
begin

text \<open>
  The string operations of Rust's standard library the modelled code uses beyond plain tests: case folding,
  prefixes and suffixes, splitting, lines, trimming and searching, on UTF-8 bytes.
\<close>

section \<open>Case\<close>

definition ascii_lower :: "char \<Rightarrow> char" where
  "ascii_lower c = (let n = (of_char c :: nat) in if 65 \<le> n \<and> n \<le> 90 then char_of (n + 32) else c)"

definition to_ascii_lowercase :: "string \<Rightarrow> string" where
  "to_ascii_lowercase s = map ascii_lower s"

definition eq_ignore_ascii_case :: "string \<Rightarrow> string \<Rightarrow> bool" where
  "eq_ignore_ascii_case a b \<longleftrightarrow> to_ascii_lowercase a = to_ascii_lowercase b"

lemma ascii_lower_idem [simp]: "ascii_lower (ascii_lower c) = ascii_lower c"
proof -
  have "n + 32 < 256" if "n \<le> 90" for n :: nat using that by simp
  then show ?thesis by (simp add: ascii_lower_def Let_def of_char_of take_bit_eq_mod split: if_splits)
qed

lemma lowercase_idem [simp]: "to_ascii_lowercase (to_ascii_lowercase s) = to_ascii_lowercase s"
  by (simp add: to_ascii_lowercase_def o_def)

section \<open>Prefixes, suffixes and splitting\<close>

definition strip_prefix :: "string \<Rightarrow> string \<Rightarrow> string option" where
  "strip_prefix p s = (if prefix p s then Some (drop (length p) s) else None)"

definition strip_suffix :: "string \<Rightarrow> string \<Rightarrow> string option" where
  "strip_suffix p s = (if suffix p s then Some (take (length s - length p) s) else None)"

definition trim_end_matches :: "char \<Rightarrow> string \<Rightarrow> string" where
  "trim_end_matches c s = rev (dropWhile (\<lambda>x. x = c) (rev s))"

definition split_once :: "char \<Rightarrow> string \<Rightarrow> (string \<times> string) option" where
  "split_once c s = (if c \<in> set s then Some (takeWhile (\<lambda>x. x \<noteq> c) s, tl (dropWhile (\<lambda>x. x \<noteq> c) s)) else None)"

definition rsplit_once :: "char \<Rightarrow> string \<Rightarrow> (string \<times> string) option" where
  "rsplit_once c s = map_option (\<lambda>(a, b). (rev b, rev a)) (split_once c (rev s))"

fun split_on :: "char \<Rightarrow> string \<Rightarrow> string list" where
  "split_on c [] = [[]]"
| "split_on c (x # xs) =
     (if x = c then [] # split_on c xs
      else case split_on c xs of [] \<Rightarrow> [[x]] | y # ys \<Rightarrow> (x # y) # ys)"

fun join :: "string \<Rightarrow> string list \<Rightarrow> string" where
  "join sep [] = []"
| "join sep [s] = s"
| "join sep (s # ss) = s @ sep @ join sep ss"

lemma split_on_not_Nil [simp]: "split_on c s \<noteq> []"
  by (induction s) (auto split: list.split)

lemma join_Cons: "ss \<noteq> [] \<Longrightarrow> join sep (s # ss) = s @ sep @ join sep ss"
  by (cases ss) auto

lemma join_split: "join [c] (split_on c s) = s"
proof (induction s)
  case (Cons x xs)
  obtain y ys where s: "split_on c xs = y # ys" by (cases "split_on c xs") auto
  show ?case
  proof (cases "x = c")
    case True
    then show ?thesis using Cons by (simp add: join_Cons)
  next
    case False
    have "join [c] ((x # y) # ys) = x # join [c] (y # ys)" by (cases ys) auto
    with False s Cons show ?thesis by simp
  qed
qed simp

text \<open>\<open>lines()\<close>: a carriage return is part of the ending only before a line feed, and a final ending is optional.\<close>

definition strip_cr :: "string \<Rightarrow> string" where
  "strip_cr s = unwrap_or (strip_suffix [CHR 0x0D] s) s"

definition text_lines :: "string \<Rightarrow> string list" where
  "text_lines s = (let ps = split_on (CHR 0x0A) s in
     map strip_cr (butlast ps) @ (if last ps = [] then [] else [last ps]))"

section \<open>Trimming\<close>

fun trim_start :: "string \<Rightarrow> string" where
  "trim_start [] = []"
| "trim_start [a] = (if ascii_ws a then [] else [a])"
| "trim_start [a, b] = (if ascii_ws a then trim_start [b] else if ws2 (of_char a) (of_char b) then [] else [a, b])"
| "trim_start (a # b # c # s) =
     (if ascii_ws a then trim_start (b # c # s)
      else if ws2 (of_char a) (of_char b) then trim_start (c # s)
      else if ws3 (of_char a) (of_char b) (of_char c) then trim_start s
      else a # b # c # s)"

text \<open>The same from the other end, on the reversed bytes.\<close>

fun trim_back :: "string \<Rightarrow> string" where
  "trim_back [] = []"
| "trim_back [a] = (if ascii_ws a then [] else [a])"
| "trim_back [b, a] = (if ascii_ws b then trim_back [a] else if ws2 (of_char a) (of_char b) then [] else [b, a])"
| "trim_back (c # b # a # s) =
     (if ascii_ws c then trim_back (b # a # s)
      else if ws2 (of_char b) (of_char c) then trim_back (a # s)
      else if ws3 (of_char a) (of_char b) (of_char c) then trim_back s
      else c # b # a # s)"

definition trim_end :: "string \<Rightarrow> string" where
  "trim_end s = rev (trim_back (rev s))"

definition trim :: "string \<Rightarrow> string" where
  "trim s = trim_end (trim_start s)"

section \<open>Searching\<close>

text \<open>\<open>s[from..].find(key)\<close>, as an offset into \<open>s\<close>.\<close>

function find_from :: "string \<Rightarrow> string \<Rightarrow> nat \<Rightarrow> nat option" where
  "find_from key s i =
     (if length s < i + length key then None
      else if prefix key (drop i s) then Some i else find_from key s (Suc i))"
  by auto
termination by (relation "measure (\<lambda>(key, s, i). Suc (length s) - i)") auto

declare find_from.simps [simp del]

lemma find_from_Some:
  "find_from key s i = Some j \<Longrightarrow> i \<le> j \<and> j + length key \<le> length s \<and> prefix key (drop j s)"
  by (induction key s i rule: find_from.induct) (subst (asm) (2) find_from.simps, fastforce split: if_splits)

end
