(* ===== verification/Workflow_Policy.thy ===== *)
theory Workflow_Policy
  imports Workflow_Steps Rust_Text
begin

text \<open>
  The workflow policy of a project (\<^verbatim>\<open>workflow.rs\<close>): the roster of required checks and the canonical
  identity of the repository, inferred from the documented GitHub clone forms or bound by an
  administrator. Parsing an URL and the SHA-256 digest are the parameters \<open>url\<close> and \<open>sha\<close>.
\<close>

section \<open>Rosters\<close>

definition require_human :: "actor \<Rightarrow> string \<Rightarrow> unit res" where
  "require_human a g = (if ac_kind a \<noteq> Human then Inl (human_gate g) else Inr ())"

fun unique_checks :: "(string \<times> string \<times> string) list \<Rightarrow> required_check list \<Rightarrow> unit res" where
  "unique_checks seen [] = Inr ()"
| "unique_checks seen (c # cs) =
     and_then (bounded (rc_identity c) 255 True) (\<lambda>_.
     and_then (bounded (rc_version c) 255 True) (\<lambda>_.
     and_then (bounded (rc_environment c) 255 True) (\<lambda>_.
     if check_tuple c \<in> set seen then Inl bad_request else unique_checks (check_tuple c # seen) cs)))"

definition validate_checks :: "required_check list \<Rightarrow> unit res" where
  "validate_checks cs = (if cs = [] \<or> length cs > 100 then Inl bad_request else unique_checks [] cs)"

lemma unique_checks_distinct:
  "unique_checks seen cs = Inr u \<Longrightarrow> distinct (map check_tuple cs) \<and> set seen \<inter> check_tuple ` set cs = {}"
proof (induction cs arbitrary: seen)
  case (Cons c cs)
  then have new: "check_tuple c \<notin> set seen" and rest: "unique_checks (check_tuple c # seen) cs = Inr u"
    by (auto split: if_splits)
  from Cons.IH [OF rest] new show ?case by auto
qed simp

text \<open>A roster that passed is a set of distinct checks.\<close>

lemma validate_checks_distinct: "validate_checks cs = Inr u \<Longrightarrow> distinct (map check_tuple cs) \<and> cs \<noteq> []"
  by (auto simp: validate_checks_def dest: unique_checks_distinct split: if_splits)

section \<open>Repository identities\<close>

record parsed_url =
  ur_scheme :: string
  ur_username :: string
  ur_password :: "string option"
  ur_host :: "string option"
  ur_port :: "int option"
  ur_path :: string
  ur_query :: "string option"
  ur_fragment :: "string option"

definition identity_part :: "string \<Rightarrow> bool" where
  "identity_part s \<longleftrightarrow> s \<noteq> [] \<and> s \<noteq> ''.'' \<and> s \<noteq> ''..'' \<and> list_all (\<lambda>c. ascii_alnum c \<or> c \<in> set ''-_.'') s"

definition github_identity_path :: "string \<Rightarrow> string option" where
  "github_identity_path path =
     (let trimmed = trim_end_matches CHR ''/'' (to_ascii_lowercase path);
          bare = unwrap_or (strip_prefix ''/'' trimmed) trimmed;
          name = unwrap_or (strip_suffix ''.git'' bare) bare;
          parts = split_on CHR ''/'' name in
      if length name + length ''github.com/'' > 255 \<or> length parts \<noteq> 2 \<or> \<not> list_all identity_part parts then None
      else Some (''github.com/'' @ to_ascii_lowercase name))"

definition exact_repository_identity :: "(string \<Rightarrow> string) \<Rightarrow> string \<Rightarrow> string" where
  "exact_repository_identity sha repository = ''url-sha256:'' @ sha repository"

definition supported_url :: "parsed_url \<Rightarrow> bool" where
  "supported_url u \<longleftrightarrow> is_some_and (ur_host u) (eq_ignore_ascii_case ''github.com'') \<and> ur_port u = None
     \<and> ur_query u = None \<and> ur_fragment u = None \<and> ur_password u = None
     \<and> ((ur_scheme u = ''https'' \<and> ur_username u = []) \<or> (ur_scheme u = ''ssh'' \<and> ur_username u = ''git''))"

definition repository_identity :: "(string \<Rightarrow> parsed_url option) \<Rightarrow> (string \<Rightarrow> string) \<Rightarrow> string \<Rightarrow> string" where
  "repository_identity url sha repository =
     (let exact = exact_repository_identity sha repository in
      case (case strip_prefix ''git@'' repository of None \<Rightarrow> None | Some v \<Rightarrow> split_once CHR '':'' v) of
        Some (host, path) \<Rightarrow>
          if eq_ignore_ascii_case host ''github.com'' then unwrap_or (github_identity_path path) exact else exact
      | None \<Rightarrow> (case url repository of
            None \<Rightarrow> exact
          | Some u \<Rightarrow> if supported_url u then unwrap_or (github_identity_path (ur_path u)) exact else exact))"

section \<open>Keys\<close>

definition bound_keys :: "(string \<Rightarrow> parsed_url option) \<Rightarrow> (string \<Rightarrow> string) \<Rightarrow> db \<Rightarrow> string \<Rightarrow> string \<Rightarrow> string list" where
  "bound_keys url sha d p inferred = remdups (map wp_key (rows (\<lambda>w. wp_project w \<noteq> p
     \<and> exists_where (\<lambda>x. pj_id x = wp_project w \<and> repository_identity url sha (pj_repository_url x) = inferred) (projects d))
     (workflow_policies d)))"

definition resolve_repository_key ::
  "(string \<Rightarrow> parsed_url option) \<Rightarrow> (string \<Rightarrow> string) \<Rightarrow> db \<Rightarrow> string \<Rightarrow> string \<Rightarrow> string option \<Rightarrow> string \<Rightarrow> string res" where
  "resolve_repository_key url sha d p repository current requested =
     (let inferred = repository_identity url sha repository;
          bound = bound_keys url sha d p inferred;
          known = (case current of None \<Rightarrow> bound | Some k \<Rightarrow> List.insert k bound);
          saved = (case known of [] \<Rightarrow> None | k # _ \<Rightarrow> Some k) in
      if length known > 1 then Inl (conflict ''canonical_repository_conflict'')
      else if requested \<noteq> [] then
        (if is_some_and saved (\<lambda>k. k \<noteq> requested) \<and> current = None then Inl (conflict ''canonical_repository_conflict'')
         else if is_some_and current (\<lambda>k. k \<noteq> requested
              \<and> count_where (\<lambda>w. wp_key w = k \<and> wp_project w \<noteq> p) (workflow_policies d) > 0)
           then Inl (conflict ''canonical_binding_frozen'')
         else Inr requested)
      else Inr (unwrap_or saved inferred))"

section \<open>Replacing the policy\<close>

record workflow_policy_input =
  wi_expected_revision :: int
  wi_key :: string
  wi_required_checks :: "required_check list"

definition validate_workflow_policy :: "workflow_policy_input \<Rightarrow> unit res" where
  "validate_workflow_policy x =
     and_then (bounded (wi_key x) 255 (wi_key x \<noteq> [])) (\<lambda>_. validate_checks (wi_required_checks x))"

definition workflow_policy_get :: "db \<Rightarrow> string \<Rightarrow> workflow_policy res" where
  "workflow_policy_get d p =
     ok_or (conflict ''workflow_policy_required'') (fetch (\<lambda>w. wp_project w = p) (workflow_policies d))"

definition check_value :: "required_check \<Rightarrow> json" where
  "check_value c = JObj [(''identity'', JStr (rc_identity c)), (''version'', JStr (rc_version c)),
     (''environment'', JStr (rc_environment c))]"

definition workflow_policy_value :: "workflow_policy \<Rightarrow> json" where
  "workflow_policy_value w = JObj [(''project_id'', JStr (wp_project w)), (''revision'', JInt (wp_revision w)),
     (''canonical_repository_key'', JStr (wp_key w)), (''required_checks'', JArr (map check_value (wp_required_checks w))),
     (''updated_at'', JTime (wp_updated_at w))]"

definition save_workflow_policy :: "workflow_policy \<Rightarrow> db \<Rightarrow> db res" where
  "save_workflow_policy w d =
     (let same = (\<lambda>x. wp_project x = wp_project w);
          d1 = d\<lparr>workflow_policies := (if exists_where same (workflow_policies d)
                then update_where same (\<lambda>_. w) (workflow_policies d) else insert_row w (workflow_policies d))\<rparr> in
      and_then (insert_unique unique_violation (\<lambda>a b. wr_project a = wr_project b \<and> wr_revision a = wr_revision b)
          \<lparr>wr_project = wp_project w, wr_revision = wp_revision w, wr_key = wp_key w,
           wr_required_checks = wp_required_checks w, wr_actor = wp_updated_by w, wr_created_at = wp_updated_at w\<rparr>
          (workflow_policy_revisions d1)) (\<lambda>rs. Inr (d1\<lparr>workflow_policy_revisions := rs\<rparr>)))"

definition put_workflow_policy ::
  "(string \<Rightarrow> parsed_url option) \<Rightarrow> (string \<Rightarrow> string) \<Rightarrow> string \<Rightarrow> workflow_policy_input \<Rightarrow> mutation \<Rightarrow> outcome res" where
  "put_workflow_policy url sha p x m =
     (let d = m_db m in
      and_then (require_human (m_actor m) ''workflow_policy_edit'') (\<lambda>_.
      and_then (project_get d p) (\<lambda>proj.
      replay_or m (
      if count_where (\<lambda>h. ih_held h
           \<and> exists_where (\<lambda>w. wa_id w = ih_activity h \<and> wa_project w = p) (workflow_activities d)) (integration_holds d) > 0
        then Inl (conflict ''policy_hold_conflict'')
      else let current = fetch (\<lambda>w. wp_project w = p) (workflow_policies d);
               revision = (case current of None \<Rightarrow> 0 | Some w \<Rightarrow> wp_revision w);
               key = map_option wp_key current in
      if revision \<noteq> wi_expected_revision x then Inl (conflict ''revision_conflict'')
      else if wi_key x \<noteq> [] \<and> key \<noteq> Some (wi_key x) \<and> ac_role (m_actor m) \<noteq> ''admin'' then Inl forbidden
      else and_then (resolve_repository_key url sha d p (pj_repository_url proj) key (wi_key x)) (\<lambda>canonical.
      if is_some_and key (\<lambda>k. k \<noteq> canonical) \<and> count_where (\<lambda>s. sb_project s = p) (submissions d) > 0
        then Inl (conflict ''canonical_binding_frozen'')
      else and_then (save_workflow_policy \<lparr>wp_project = p, wp_revision = revision + 1, wp_key = canonical,
             wp_required_checks = wi_required_checks x, wp_updated_by = ac_id (m_actor m), wp_updated_at = m_now m\<rparr> d) (\<lambda>d1.
      and_then (workflow_policy_get d1 p) (\<lambda>w.
        finish m d1 (workflow_policy_value w) (Some p) ''workflow_policy.updated'' p)))))))"

lemma lease_step_save_policy: "save_workflow_policy w d = Inr d' \<Longrightarrow> lease_step a d \<Longrightarrow> lease_step a d'"
  by (auto simp: save_workflow_policy_def Let_def)

lemma put_workflow_policy_commits: "commits lease_step m (put_workflow_policy url sha p x m)"
  unfolding put_workflow_policy_def Let_def
  by (intro commits_intros; (assumption | erule lease_step_save_policy, rule lease_step_refl))

interpretation workflow_policy_update: replay_safe "put_workflow_policy url sha p x" for url sha p x
  by (rule commits_replay_safe [OF put_workflow_policy_commits lease_step_audited])

section \<open>Laws of the identity\<close>

lemma identity_case: "github_identity_path (to_ascii_lowercase s) = github_identity_path s"
  by (simp add: github_identity_path_def)

end
