(* ===== verification/Workflow_Submit.thy ===== *)
theory Workflow_Submit
  imports Workflow_Policy
begin

text \<open>
  Submitting a candidate (\<^verbatim>\<open>workflow.rs\<close>): the owner's attempt ends, an immutable submission with its
  lessons and artifacts is stored, and the activities the review mode and the task's kind
  require are queued. The identifiers drawn are \<open>ids 0\<close> (submission), \<open>ids 1\<close> to \<open>ids 8\<close> (the activities
  and their tasks) and from \<open>ids 9\<close> on (lessons).
\<close>

record submission_input =
  sn_generation :: int
  sn_task_revision :: int
  sn_project_policy :: int
  sn_workflow_policy :: int
  sn_kind :: string
  sn_summary :: string
  sn_evidence :: "(string \<times> string) list"
  sn_handoff :: string
  sn_lessons :: "lesson_input list"
  sn_artifacts :: "string list"
  sn_repository :: "string option"
  sn_base_revision :: "string option"
  sn_candidate_revision :: "string option"
  sn_candidate_tree :: "string option"
  sn_candidate_remote :: "string option"
  sn_candidate_ref :: "string option"
  sn_amendment :: "(string list \<times> string list \<times> string) option"

record subject_owned =
  os_task :: string
  os_kind :: task_kind
  os_title :: string
  os_acceptance :: "string list"
  os_task_revision :: int
  os_project_policy :: int
  os_review_mode :: review_mode

definition validate_submission :: "submission_input \<Rightarrow> unit res" where
  "validate_submission x =
     and_then (bounded (sn_summary x) 8192 True) (\<lambda>_.
     and_then (bounded (sn_handoff x) 16384 False) (\<lambda>_.
     if sn_kind x \<notin> set kind_names then Inl bad_request else Inr ()))"

section \<open>The owned subject\<close>

definition owned_subject :: "mutation \<Rightarrow> string \<Rightarrow> string \<Rightarrow> int \<Rightarrow> subject_owned res" where
  "owned_subject m p i gen =
     (let d = m_db m; lost = conflict ''ownership_lost'' in
      and_then (ok_or not_found (fetch (\<lambda>a. at_project a = p \<and> at_id a = i) (attempts d))) (\<lambda>a.
      and_then (ok_or not_found (fetch (\<lambda>t. tk_id t = at_task a \<and> tk_project t = at_project a) (tasks d))) (\<lambda>t.
      and_then (ok_or not_found (fetch (\<lambda>x. pj_id x = at_project a) (projects d))) (\<lambda>proj.
      if at_owner a \<noteq> ac_id (m_actor m) then Inl lost
      else and_then (session_of (m_actor m)) (\<lambda>s.
      if at_session a \<noteq> s \<or> at_credential a \<noteq> ac_credential (m_actor m) \<or> at_generation a \<noteq> gen
           \<or> at_state a \<noteq> Active \<or> at_expires_at a \<le> m_now m \<or> tk_current_attempt t \<noteq> Some i \<or> tk_lifecycle t \<noteq> Open
        then Inl lost
      else and_then (ensure_decisions_resolved d p (at_task a) (m_now m)) (\<lambda>_.
      case (at_task_revision a, at_policy_revision a) of
        (Some tr, Some pr) \<Rightarrow> Inr \<lparr>os_task = at_task a, os_kind = tk_kind t, os_title = tk_title t,
            os_acceptance = tk_acceptance t, os_task_revision = tr, os_project_policy = pr,
            os_review_mode = pj_review_mode proj\<rparr>
      | _ \<Rightarrow> Inl (conflict ''revision_pins_required'')))))))"

definition ensure_judged_fields_unchanged :: "task_digest \<Rightarrow> db \<Rightarrow> subject_owned \<Rightarrow> string res" where
  "ensure_judged_fields_unchanged dig d su =
     and_then (current_task_digest dig d (os_task su)) (\<lambda>current.
     and_then (ok_or row_not_found (fetch (\<lambda>t. tk_id t = os_task su) (tasks d))) (\<lambda>t.
     let changed = (case revision_task_digest dig d (os_task su) (os_task_revision su) of
           Some pinned \<Rightarrow> pinned \<noteq> current
         | None \<Rightarrow> tk_revision t \<noteq> os_task_revision su) in
     if changed then Inl (conflict ''policy_changed'') else Inr current))"

section \<open>Evidence\<close>

fun name_criteria :: "string list \<Rightarrow> string list \<Rightarrow> (string \<times> string) list \<Rightarrow> unit res" where
  "name_criteria acs seen [] = Inr ()"
| "name_criteria acs seen ((c, e) # es) =
     and_then (bounded c 2048 True) (\<lambda>_.
     and_then (bounded e 8192 True) (\<lambda>_.
     if c \<notin> set acs \<or> c \<in> set seen then Inl bad_request else name_criteria acs (c # seen) es))"

definition validate_acceptance :: "(string \<times> string) list \<Rightarrow> string list \<Rightarrow> unit res" where
  "validate_acceptance evidence acs =
     (if length evidence \<noteq> length acs then Inl bad_request else name_criteria acs [] evidence)"

definition validate_amendment :: "submission_input \<Rightarrow> string list \<Rightarrow> unit res" where
  "validate_amendment x current =
     (case sn_amendment x of
        None \<Rightarrow> validate_acceptance (sn_evidence x) current
      | Some (old, new, rationale) \<Rightarrow>
          if old \<noteq> current \<or> new = current then Inl bad_request
          else if new = [] \<or> length new > 100 then Inl bad_request
          else and_then (check_all (\<lambda>c. bounded c 2048 True) new) (\<lambda>_.
          and_then (bounded rationale 8192 True) (\<lambda>_. validate_acceptance (sn_evidence x) new)))"

definition ref_prefix :: string where "ref_prefix = ''refs/agent-coordinator/candidates/''"

definition bad_ref_part :: "string \<Rightarrow> bool" where
  "bad_ref_part s \<longleftrightarrow> s = [] \<or> starts_with s ''.'' \<or> ends_with s ''.lock'' \<or> ends_with s ''.''"

definition bad_ref_byte :: "char \<Rightarrow> bool" where
  "bad_ref_byte c \<longleftrightarrow> ascii_control c \<or> c \<in> set '' ~^:?*['' \<or> c = CHR 0x5C"

definition validate_candidate_ref :: "string \<Rightarrow> unit res" where
  "validate_candidate_ref v =
     (if length v > 240 \<or> \<not> starts_with v ref_prefix \<or> v = [] \<or> starts_with v ''/'' \<or> ends_with v ''/''
         \<or> ends_with v ''.'' \<or> contains v ''..'' \<or> contains v ''//'' \<or> contains v (''@'' @ [CHR 0x7B])
         \<or> list_ex bad_ref_part (split_on CHR ''/'' v) \<or> list_ex bad_ref_byte v
      then Inl bad_request else Inr ())"

section \<open>Code and general submissions\<close>

text \<open>Answers the canonical key and the roster revision the submission pins.\<close>

definition code_fields :: "db \<Rightarrow> string \<Rightarrow> string \<Rightarrow> project \<Rightarrow> submission_input \<Rightarrow> (string option \<times> int) res" where
  "code_fields d p attempt proj x =
     and_then (workflow_policy_get d p) (\<lambda>w.
     if sn_workflow_policy x < 1 then Inl (conflict ''workflow_policy_changed'')
     else if sn_repository x \<noteq> Some (pj_repository_url proj) then Inl (conflict ''repository_mismatch'')
     else if wp_key w = [] then Inl internal
     else if sn_candidate_remote x \<noteq> Some (wp_key w) then Inl (conflict ''candidate_remote_mismatch'')
     else and_then (ok_or bad_request (sn_candidate_ref x)) (\<lambda>r.
     and_then (validate_candidate_ref r) (\<lambda>_.
     and_then (check_all (\<lambda>v. and_then (ok_or bad_request v) valid_revision)
         [sn_base_revision x, sn_candidate_revision x, sn_candidate_tree x]) (\<lambda>_.
     and_then (ok_or (conflict ''checkout_required'')
         (fetch (\<lambda>c. co_project c = p \<and> co_attempt c = attempt) (checkouts d))) (\<lambda>co.
     if Some (co_base_revision co) \<noteq> sn_base_revision x then Inl (conflict ''base_revision_mismatch'')
     else Inr (Some (wp_key w), wp_revision w))))))"

definition general_fields :: "submission_input \<Rightarrow> (string option \<times> int) res" where
  "general_fields x =
     (if sn_workflow_policy x \<noteq> 0 \<or> sn_repository x \<noteq> None \<or> sn_base_revision x \<noteq> None
         \<or> sn_candidate_revision x \<noteq> None \<or> sn_candidate_tree x \<noteq> None \<or> sn_candidate_remote x \<noteq> None
         \<or> sn_candidate_ref x \<noteq> None then Inl bad_request else Inr (None, 0))"

record submit_context =
  sx_subject :: subject_owned
  sx_digest :: string
  sx_project :: project
  sx_key :: "string option"
  sx_roster :: int
  sx_previous :: "workflow_subject option"

definition submission_checks :: "task_digest \<Rightarrow> string \<Rightarrow> string \<Rightarrow> submission_input \<Rightarrow> mutation \<Rightarrow> submit_context res" where
  "submission_checks dig p attempt x m =
     (let d = m_db m in
      and_then (owned_subject m p attempt (sn_generation x)) (\<lambda>su.
      and_then (ensure_required_children_done d p (os_task su)) (\<lambda>_.
      if kind_as_str (os_kind su) \<noteq> sn_kind x then Inl bad_request
      else if os_task_revision su \<noteq> sn_task_revision x \<or> os_project_policy su \<noteq> sn_project_policy x
        then Inl (conflict ''pinned_revision_changed'')
      else and_then (ok_or row_not_found (fetch (\<lambda>y. pj_id y = p) (projects d))) (\<lambda>proj.
      and_then (ensure_judged_fields_unchanged dig d su) (\<lambda>digest.
      and_then (validate_amendment x (os_acceptance su)) (\<lambda>_.
      and_then (ensure_attempt_quiescent d p (os_task su)) (\<lambda>_.
      and_then (ensure_workflow_quiescent d p (os_task su)) (\<lambda>_.
      and_then (if sn_kind x = ''code'' then code_fields d p attempt proj x else general_fields x) (\<lambda>(key, roster).
      let previous = fetch (\<lambda>w. ws_project w = p \<and> ws_task w = os_task su) (workflow_subjects d) in
      if is_some_and previous (\<lambda>w. ws_phase w \<noteq> Phase_revision_needed) then Inl (conflict ''submission_current'')
      else Inr \<lparr>sx_subject = su, sx_digest = digest, sx_project = proj, sx_key = key, sx_roster = roster,
               sx_previous = previous\<rparr>)))))))))"

definition new_submission :: "string \<Rightarrow> string \<Rightarrow> string \<Rightarrow> submission_input \<Rightarrow> mutation \<Rightarrow> string \<Rightarrow> submit_context \<Rightarrow> submission" where
  "new_submission uuid p attempt x m s sx =
     (let code = sn_kind x = ''code'' in
      \<lparr>sb_id = uuid, sb_project = p, sb_task = os_task (sx_subject sx), sb_attempt = attempt,
       sb_kind = parse_kind (sn_kind x), sb_task_revision = sn_task_revision x,
       sb_project_policy = sn_project_policy x, sb_workflow_policy = sx_roster sx, sb_summary = sn_summary x,
       sb_evidence = sn_evidence x, sb_handoff = sn_handoff x, sb_key = sx_key sx,
       sb_repository = (if code then Some (pj_repository_url (sx_project sx)) else None),
       sb_target_branch = (if code then Some (pj_target_branch (sx_project sx)) else None),
       sb_base_revision = sn_base_revision x, sb_candidate_revision = sn_candidate_revision x,
       sb_candidate_tree = sn_candidate_tree x, sb_candidate_ref = sn_candidate_ref x,
       sb_created_by = ac_id (m_actor m), sb_session = s, sb_created_at = m_now m, sb_superseded_at = None,
       sb_task_digest = Some (sx_digest sx), sb_amendment = sn_amendment x\<rparr>)"

text \<open>The unique indexes of \<open>submissions\<close>: the id, the attempt, one current submission per task.\<close>

definition submission_clash :: "submission \<Rightarrow> submission \<Rightarrow> bool" where
  "submission_clash a b \<longleftrightarrow> sb_id a = sb_id b \<or> sb_attempt a = sb_attempt b
     \<or> (sb_task a = sb_task b \<and> sb_superseded_at a = None \<and> sb_superseded_at b = None)"

definition insert_submission :: "submission \<Rightarrow> db \<Rightarrow> db res" where
  "insert_submission s d = and_then (insert_unique unique_violation submission_clash s (submissions d))
     (\<lambda>ss. Inr (d\<lparr>submissions := ss\<rparr>))"

section \<open>Lessons and artifacts\<close>

definition link_lessons :: "string \<Rightarrow> string \<Rightarrow> string list \<Rightarrow> db \<Rightarrow> db res" where
  "link_lessons p sub ks d =
     and_then (fold_res (\<lambda>k. insert_unique unique_violation
          (\<lambda>a b. sk_submission a = sk_submission b \<and> sk_knowledge a = sk_knowledge b)
          \<lparr>sk_project = p, sk_submission = sub, sk_knowledge = k, sk_revision = 1\<rparr>) ks (submission_knowledge_links d))
       (\<lambda>ls. Inr (d\<lparr>submission_knowledge_links := ls\<rparr>))"

fun check_artifacts :: "(string \<Rightarrow> bool) \<Rightarrow> db \<Rightarrow> string \<Rightarrow> int \<Rightarrow> string list \<Rightarrow> string list \<Rightarrow> unit res" where
  "check_artifacts is_uuid d p now seen [] = Inr ()"
| "check_artifacts is_uuid d p now seen (i # is) =
     (if \<not> is_uuid i \<or> i \<in> set seen then Inl bad_request
      else if count_where (\<lambda>a. af_project a = p \<and> af_id a = i \<and> af_finalized a
             \<and> (af_pinned a \<or> is_some_and (af_retention_until a) (\<lambda>r. r > now))) (artifacts d) = 0
        then Inl (conflict ''submission_artifact_unavailable'')
      else check_artifacts is_uuid d p now (i # seen) is)"

definition validate_submission_artifacts :: "(string \<Rightarrow> bool) \<Rightarrow> db \<Rightarrow> string \<Rightarrow> int \<Rightarrow> string list \<Rightarrow> unit res" where
  "validate_submission_artifacts is_uuid d p now is =
     (if length is > 100 then Inl bad_request else check_artifacts is_uuid d p now [] is)"

definition link_submission_artifacts :: "string \<Rightarrow> string \<Rightarrow> int \<Rightarrow> string list \<Rightarrow> db \<Rightarrow> db res" where
  "link_submission_artifacts p sub now is d =
     and_then (fold_res (\<lambda>i. insert_unique unique_violation
          (\<lambda>a b. sa_submission a = sa_submission b \<and> sa_artifact a = sa_artifact b)
          \<lparr>sa_project = p, sa_submission = sub, sa_artifact = i, sa_linked_at = now\<rparr>) is (submission_artifacts d))
       (\<lambda>ls. Inr (d\<lparr>submission_artifacts := ls\<rparr>))"

section \<open>Opening the workflow\<close>

definition put_subject :: "workflow_subject \<Rightarrow> db \<Rightarrow> db res" where
  "put_subject w d =
     (let same = (\<lambda>x. ws_task x = ws_task w) in
      if exists_where (\<lambda>x. ws_task x \<noteq> ws_task w \<and> ws_current_submission x = ws_current_submission w) (workflow_subjects d)
        then Inl unique_violation
      else Inr (d\<lparr>workflow_subjects := (if exists_where same (workflow_subjects d)
          then update_where same (\<lambda>x. x\<lparr>ws_current_submission := ws_current_submission w, ws_phase := ws_phase w,
                 ws_updated_at := ws_updated_at w\<rparr>) (workflow_subjects d)
          else insert_row w (workflow_subjects d))\<rparr>))"

definition initial_phase :: "activity_kind list \<Rightarrow> string \<Rightarrow> phase" where
  "initial_phase reviews kind = (if reviews \<noteq> [] then Phase_review
     else if kind = ''code'' then Phase_integration else Phase_done)"

text \<open>The identifiers of an activity by its kind.\<close>

definition activity_ids :: "(nat \<Rightarrow> string) \<Rightarrow> activity_kind \<Rightarrow> string \<times> string" where
  "activity_ids ids k =
     (case k of Agent_review \<Rightarrow> (ids 1, ids 2) | Human_review \<Rightarrow> (ids 3, ids 4)
      | Either_review \<Rightarrow> (ids 5, ids 6) | Integration \<Rightarrow> (ids 7, ids 8))"

definition open_workflow :: "(nat \<Rightarrow> string) \<Rightarrow> string \<Rightarrow> subject_owned \<Rightarrow> string \<Rightarrow> string \<Rightarrow> bool \<Rightarrow> int \<Rightarrow> db \<Rightarrow> db res" where
  "open_workflow ids p su sub kind amended now d =
     (let t = os_task su;
          reviews = required_review_kinds (review_mode_floor d t (os_review_mode su));
          ph = initial_phase reviews kind in
      if amended \<and> reviews = [] then Inl (conflict ''amendment_review_required'')
      else and_then (put_subject \<lparr>ws_project = p, ws_task = t, ws_current_submission = sub, ws_phase = ph,
             ws_updated_at = now\<rparr> d) (\<lambda>d1.
      and_then (fold_res (\<lambda>k. create_activity (activity_ids ids k) p t (os_title su) sub k 1 now) reviews d1) (\<lambda>d2.
      if kind = ''code'' then
        and_then (create_activity (activity_ids ids Integration) p t (os_title su) sub Integration 1 now d2) (\<lambda>d3.
        Inr (if reviews = [] then d3
             else update_task (ids 8) (\<lambda>x. x\<lparr>tk_blocked_reason := Some ''Required reviews are pending.''\<rparr>) d3))
      else if ph = Phase_done then
        Inr (ready_dependents t now (update_task t (\<lambda>x. x\<lparr>tk_lifecycle := Done, tk_blocked_reason := None\<rparr>) d2))
      else Inr d2)))"

definition submitted_reason :: string where
  "submitted_reason = ''An immutable submission is in the completion workflow.''"

text \<open>The owner's attempt ends as submitted and the task forgets it.\<close>

definition end_as_submitted :: "string \<Rightarrow> string \<Rightarrow> string \<Rightarrow> int \<Rightarrow> (task \<Rightarrow> task) \<Rightarrow> db \<Rightarrow> db" where
  "end_as_submitted t attempt outcome now f d =
     update_task t (\<lambda>x. f (x\<lparr>tk_current_attempt := None\<rparr>))
       (update_attempt attempt (\<lambda>a. a\<lparr>at_state := Submitted, at_ended_at := Some now, at_outcome := Some outcome\<rparr>) d)"

definition submit ::
  "(string \<Rightarrow> string) \<Rightarrow> (string \<Rightarrow> bool) \<Rightarrow> task_digest \<Rightarrow> (nat \<Rightarrow> string) \<Rightarrow> string \<Rightarrow> string \<Rightarrow> submission_input \<Rightarrow>
    mutation \<Rightarrow> outcome res" where
  "submit lower is_uuid dig ids p attempt x m =
     (let d = m_db m; now = m_now m; sub = ids 0 in
      replay_or m (
      and_then (submission_checks dig p attempt x m) (\<lambda>sx.
      let t = os_task (sx_subject sx);
          d1 = (case sx_previous sx of None \<Rightarrow> d | Some w \<Rightarrow> supersede_row (ws_current_submission w) now d) in
      and_then (session_of (m_actor m)) (\<lambda>s.
      and_then (insert_submission (new_submission sub p attempt x m s sx)
          (record_contributor t (ac_id (m_actor m)) s now d1)) (\<lambda>d2.
      and_then (insert_submission_lessons lower ids 9 (m_actor m) now p t sub (sn_lessons x) d2) (\<lambda>(ks, d3).
      and_then (link_lessons p sub ks d3) (\<lambda>d4.
      and_then (validate_submission_artifacts is_uuid d4 p now (sn_artifacts x)) (\<lambda>_.
      and_then (link_submission_artifacts p sub now (sn_artifacts x) d4) (\<lambda>d5.
      let d6 = end_as_submitted t attempt (sn_summary x) now (\<lambda>y. y\<lparr>tk_blocked_reason := Some submitted_reason\<rparr>) d5 in
      and_then (open_workflow ids p (sx_subject sx) sub (sn_kind x) (sn_amendment x \<noteq> None) now d6) (\<lambda>d7.
      and_then (workflow_snapshot dig d7 p t now) (\<lambda>v.
        finish m d7 (workflow_value v) (Some p) ''submission.created'' sub)))))))))))"

section \<open>Submitting is a step\<close>

lemma owned_subject_Inr:
  assumes "owned_subject m p i gen = Inr su"
  shows "holder (m_db m) i (os_task su)"
    "\<exists>a \<in> set (attempts (m_db m)). at_id a = i \<and> at_project a = p \<and> at_task a = os_task su \<and> at_state a = Active \<and> at_generation a = gen
       \<and> at_expires_at a > m_now m \<and> at_owner a = ac_id (m_actor m) \<and> Some (at_session a) = ac_session (m_actor m)"
proof -
  from assms obtain a where a: "fetch (\<lambda>a. at_project a = p \<and> at_id a = i) (attempts (m_db m)) = Some a"
    by (cases "fetch (\<lambda>a. at_project a = p \<and> at_id a = i) (attempts (m_db m))") (simp_all add: owned_subject_def)
  from assms a obtain t where t: "fetch (\<lambda>t. tk_id t = at_task a \<and> tk_project t = at_project a) (tasks (m_db m)) = Some t"
    by (cases "fetch (\<lambda>t. tk_id t = at_task a \<and> tk_project t = at_project a) (tasks (m_db m))") (simp_all add: owned_subject_def)
  from assms have s: "session_of (m_actor m) = Inr (at_session a)"
    and o: "at_owner a = ac_id (m_actor m)" "at_generation a = gen" "at_state a = Active" "at_expires_at a > m_now m"
      "tk_current_attempt t = Some i" "os_task su = at_task a"
    by (auto simp: owned_subject_def Let_def a t split: if_splits option.splits)
  from fetch_SomeD [OF a] fetch_SomeD [OF t] o show "holder (m_db m) i (os_task su)" by (auto simp: holder_def)
  from s have "Some (at_session a) = ac_session (m_actor m)" by (auto simp: session_of_def)
  with fetch_SomeD [OF a] o show "\<exists>a \<in> set (attempts (m_db m)). at_id a = i \<and> at_project a = p \<and> at_task a = os_task su
      \<and> at_state a = Active \<and> at_generation a = gen
      \<and> at_expires_at a > m_now m \<and> at_owner a = ac_id (m_actor m) \<and> Some (at_session a) = ac_session (m_actor m)"
    by (intro bexI [of _ a]) simp_all
qed

lemma submission_checks_Inr:
  assumes "submission_checks dig p attempt x m = Inr sx"
  shows "owned_subject m p attempt (sn_generation x) = Inr (sx_subject sx)"
  using assms by (auto simp: submission_checks_def Let_def split: if_splits)

lemma insert_lessons_step:
  "insert_lessons ids n a now p ks d = Inr (is, d') \<Longrightarrow>
     (lease_step b d \<longrightarrow> lease_step b d') \<and> attempts d' = attempts d \<and> tasks d' = tasks d"
proof (induction ks arbitrary: n d "is" d')
  case (Cons k ks)
  then obtain row d1 js where
    ins: "insert_knowledge_record (ids n) (ac_id a) now p k d = Inr (row, d1)"
    and rest: "insert_lessons ids (Suc n) a now p ks (d1\<lparr>events := insert_row
         \<lparr>ev_project = Some p, ev_actor = ac_id a, ev_kind = ''knowledge.created_from_submission'',
          ev_record = kr_id row, ev_data = JObj [], ev_created_at = now, ev_class = event_class a\<rparr> (events d1)\<rparr>) = Inr (js, d')"
    by fastforce
  from insert_knowledge_record_Inr [OF ins] obtain ks' vs where "d1 = d\<lparr>knowledge_records := ks', knowledge_revisions := vs\<rparr>" by blast
  then have "lease_step b d \<longrightarrow> lease_step b d1" "attempts d1 = attempts d" "tasks d1 = tasks d" by simp_all
  with Cons.IH [OF rest] lease_step_event [of b d1] show ?case by auto
qed simp

lemma link_step:
  "link_lessons p sub ks d = Inr d' \<Longrightarrow> lease_step b d' = lease_step b d \<and> attempts d' = attempts d \<and> tasks d' = tasks d"
  "link_submission_artifacts p sub now is d = Inr d' \<Longrightarrow> lease_step b d' = lease_step b d \<and> attempts d' = attempts d \<and> tasks d' = tasks d"
  by (auto simp: link_lessons_def link_submission_artifacts_def)

lemma create_activities_step:
  "fold_res (\<lambda>k. create_activity (activity_ids ids k) p t title sub k 1 now) ks d = Inr d' \<Longrightarrow> lease_step b d \<Longrightarrow> lease_step b d'"
  by (erule fold_res_invariant) (auto elim: lease_step_create_activity)

lemma put_subject_step: "put_subject w d = Inr d' \<Longrightarrow> lease_step b d' = lease_step b d"
  by (auto simp: put_subject_def Let_def split: if_splits)

lemma open_workflow_step:
  assumes "open_workflow ids p su sub kind amended now d = Inr d'" and "lease_step b d"
  shows "lease_step b d'"
  using assms
  by (auto simp: open_workflow_def Let_def task_key_def closed_def split: if_splits
      intro!: lease_step_update_task lease_step_ready
      elim!: lease_step_create_activity create_activities_step dest: put_subject_step)

lemma lease_step_submitted:
  assumes "lease_step b d" and "holder d i t"
    and "\<And>u. task_key (f u) = task_key u \<and> (closed u \<longrightarrow> closed (f u))"
  shows "lease_step b (end_as_submitted t i outcome now f d)"
  unfolding end_as_submitted_def
proof (rule lease_step_holder [OF assms(1,2)])
  fix u
  show "tk_id (f (u\<lparr>tk_current_attempt := None\<rparr>)) = tk_id u \<and> tk_project (f (u\<lparr>tk_current_attempt := None\<rparr>)) = tk_project u
      \<and> tk_generation (f (u\<lparr>tk_current_attempt := None\<rparr>)) = tk_generation u
      \<and> tk_current_attempt (f (u\<lparr>tk_current_attempt := None\<rparr>)) = None
      \<and> tk_budget_admitted_at (f (u\<lparr>tk_current_attempt := None\<rparr>)) = tk_budget_admitted_at u
      \<and> (closed u \<longrightarrow> closed (f (u\<lparr>tk_current_attempt := None\<rparr>)))"
    using assms(3) [of "u\<lparr>tk_current_attempt := None\<rparr>"] by (simp add: task_key_def closed_def)
qed (simp add: attempt_forward_def)

lemma submit_step:
  assumes sx: "submission_checks dig p attempt x m = Inr sx"
    and d1: "d1 = (case sx_previous sx of None \<Rightarrow> m_db m | Some w \<Rightarrow> supersede_row (ws_current_submission w) (m_now m) (m_db m))"
    and ins: "insert_submission row (record_contributor t a s now d1) = Inr d2"
    and les: "insert_submission_lessons lower ids n ac now p t sub ls d2 = Inr (ks, d3)"
    and l1: "link_lessons p sub ks d3 = Inr d4" and l2: "link_submission_artifacts p sub now is d4 = Inr d5"
    and opn: "open_workflow ids p su sub kind am now
        (end_as_submitted (os_task (sx_subject sx)) attempt outcome now (\<lambda>y. y\<lparr>tk_blocked_reason := r\<rparr>) d5) = Inr d7"
  shows "lease_step (m_db m) d7"
proof -
  have s1: "lease_step (m_db m) d1" "attempts d1 = attempts (m_db m)" "tasks d1 = tasks (m_db m)"
    by (auto simp: d1 lease_step_refl supersede_row_def split: option.splits)
  have s2: "lease_step (m_db m) d2" "attempts d2 = attempts (m_db m)" "tasks d2 = tasks (m_db m)"
    using ins s1 by (auto simp: insert_submission_def lease_step_frame) (simp_all add: record_contributor_def)
  have s3: "lease_step (m_db m) d3" "attempts d3 = attempts (m_db m)" "tasks d3 = tasks (m_db m)"
    using les s2 by (auto simp: insert_submission_lessons_def Let_def split: if_splits dest!: insert_lessons_step)
  have s5: "lease_step (m_db m) d5" "attempts d5 = attempts (m_db m)" "tasks d5 = tasks (m_db m)"
    using link_step(1) [OF l1] link_step(2) [OF l2] s3 by simp_all
  have "holder d5 attempt (os_task (sx_subject sx))"
    using owned_subject_Inr(1) [OF submission_checks_Inr [OF sx]] by (simp add: holder_same [OF s5(2,3)])
  from lease_step_submitted [OF s5(1) this]
  have "lease_step (m_db m) (end_as_submitted (os_task (sx_subject sx)) attempt outcome now (\<lambda>y. y\<lparr>tk_blocked_reason := r\<rparr>) d5)"
    by (simp add: task_key_def closed_def)
  with opn show ?thesis by (rule open_workflow_step)
qed

lemma submit_commits: "commits lease_step m (submit lower is_uuid dig ids p attempt x m)"
  unfolding submit_def Let_def
  by (intro commits_intros; hypsubst?; (assumption | rule submit_step [OF _ refl]; assumption))

interpretation submission: replay_safe "submit lower is_uuid dig ids p attempt x" for lower is_uuid dig ids p attempt x
  by (rule commits_replay_safe [OF submit_commits lease_step_audited])

end
