(* ===== verification/Workflow_Review.thy ===== *)
theory Workflow_Review
  imports Workflow_Submit
begin

text \<open>
  Working on an activity (\<^verbatim>\<open>workflow.rs\<close>): claiming it with the guards of its kind, releasing it, and
  deciding a review with everything a decision sets off.
\<close>

record activity_claim_input =
  ac_expected_submission :: string
  ac_expected_project_policy :: int
  ac_expected_workflow_policy :: int
  ac_independence :: "string option"

record activity_release_input =
  ar_generation :: int
  ar_summary :: string
  ar_blocked :: bool

record review_finding_input =
  rn_severity :: string
  rn_remedy :: string
  rn_evidence :: string

record review_input =
  ri_generation :: int
  ri_submission :: string
  ri_decision :: string
  ri_summary :: string
  ri_findings :: "review_finding_input list"
  ri_amendment :: "string option"
  ri_independence :: "string option"

section \<open>Claiming an activity\<close>

definition activity_attempt_id :: "json \<Rightarrow> string option" where
  "activity_attempt_id v =
     (case json_get ''attempt'' v of
        None \<Rightarrow> None
      | Some a \<Rightarrow> (case json_get ''id'' a of Some (JStr i) \<Rightarrow> Some i | _ \<Rightarrow> None))"

definition activity_attempt_generation :: "json \<Rightarrow> int option" where
  "activity_attempt_generation v =
     (case json_get ''attempt'' v of
        None \<Rightarrow> None
      | Some a \<Rightarrow> (case json_get ''generation'' a of Some (JInt g) \<Rightarrow> Some g | _ \<Rightarrow> None))"

definition checkpoint_ready :: "db \<Rightarrow> activity_context \<Rightarrow> bool" where
  "checkpoint_ready d cx \<longleftrightarrow> sb_workflow_policy (cx_submission cx) = 0
     \<or> candidate_checkpoint_present d (wa_submission (cx_activity cx))"

text \<open>The authority a repeated claim reports.\<close>

definition claim_activity_replay :: "mutation \<Rightarrow> string \<Rightarrow> string \<Rightarrow> activity_context \<Rightarrow> json \<Rightarrow> outcome res" where
  "claim_activity_replay m p s cx v =
     (let d = m_db m; now = m_now m in
      and_then (activity_value d p (wa_id (cx_activity cx)) now) (\<lambda>av.
      let current = av_attempt av;
          valid = (map_option at_id current = activity_attempt_id v
            \<and> map_option at_generation current = activity_attempt_generation v
            \<and> is_some_and current (\<lambda>a. at_owner a = ac_id (m_actor m) \<and> at_session a = s \<and> at_state a = Active)
            \<and> av_valid_by_time av \<and> av_owner_authorized av \<and> av_status av = Act_active
            \<and> ws_phase (cx_subject cx) \<noteq> Phase_revision_needed \<and> pins_current cx \<and> checkpoint_ready d cx);
          remaining = (if valid then (case current of None \<Rightarrow> 0 | Some a \<Rightarrow> max 0 (at_expires_at a - now)) else 0) in
      Inr (Answered (json_put ''replayed'' (JBool True) (json_put ''current_authority''
        (JObj [(''valid'', JBool valid), (''lease_remaining_ms'', JInt remaining)]) v)))))"

text \<open>The guard of the activity's kind.\<close>

definition claim_kind_guard :: "mutation \<Rightarrow> string \<Rightarrow> string \<Rightarrow> activity_context \<Rightarrow> string option \<Rightarrow> unit res" where
  "claim_kind_guard m p s cx independence =
     (let d = m_db m; k = wa_kind (cx_activity cx); agent = (ac_kind (m_actor m) = Agent) in
      if (k = Agent_review \<or> k = Either_review) \<and> agent
        then ensure_independent_reviewer d p (wa_subject_task (cx_activity cx)) (ac_id (m_actor m)) s independence
      else if k = Human_review \<or> k = Either_review then require_human (m_actor m) ''human_review_claim''
      else if k = Agent_review then Inl forbidden
      else and_then (ensure_approved d cx) (\<lambda>_. ensure_authorized d cx))"

definition claim_activity_checks ::
  "mutation \<Rightarrow> string \<Rightarrow> string \<Rightarrow> activity_context \<Rightarrow> activity_claim_input \<Rightarrow> unit res" where
  "claim_activity_checks m p s cx x =
     (let d = m_db m; sb = cx_submission cx in
      and_then (ensure_current cx) (\<lambda>_.
      if ac_expected_submission x \<noteq> wa_submission (cx_activity cx) \<or> ac_expected_project_policy x \<noteq> sb_project_policy sb
           \<or> ac_expected_workflow_policy x \<noteq> sb_workflow_policy sb
        then Inl (conflict ''workflow_revision_conflict'')
      else if sb_workflow_policy sb > 0 \<and> \<not> candidate_checkpoint_present d (wa_submission (cx_activity cx))
        then Inl (conflict ''candidate_checkpoint_missing'')
      else and_then (ok_or row_not_found (fetch (\<lambda>r. pj_id r = p) (projects d))) (\<lambda>proj.
      if pj_archived_at proj \<noteq> None then Inl (conflict ''project_archived'')
      else if ac_kind (m_actor m) = Agent \<and> \<not> instructions_acknowledged d s p
        then Inl (conflict ''instructions_required'')
      else claim_kind_guard m p s cx (ac_independence x))))"

definition lease_expired_outcome :: string where
  "lease_expired_outcome = ''Workflow activity lease expired.''"

text \<open>A task with a current attempt is taken over only when that attempt lost its authority.\<close>

definition take_over :: "mutation \<Rightarrow> string \<Rightarrow> activity_context \<Rightarrow> task \<Rightarrow> db res" where
  "take_over m p cx t =
     (let d = m_db m; now = m_now m in
      case tk_current_attempt t of
        None \<Rightarrow> Inr d
      | Some previous \<Rightarrow>
          and_then (activity_value d p (wa_id (cx_activity cx)) now) (\<lambda>av.
          if is_some_and (av_attempt av) (\<lambda>a. at_state a = Active) \<and> av_valid_by_time av \<and> av_owner_authorized av
            then Inl (conflict ''claim_conflict'')
          else if pj_recovery_mode (cx_project cx) = Recovery_manual \<and> ac_kind (m_actor m) \<noteq> Human then Inl forbidden
          else and_then (ensure_attempt_quiescent d p (wa_activity_task (cx_activity cx))) (\<lambda>_.
            Inr (d\<lparr>attempts := update_where (\<lambda>a. at_id a = previous \<and> at_state a = Active)
              (\<lambda>a. a\<lparr>at_state := Expired, at_ended_at := Some now, at_outcome := Some lease_expired_outcome\<rparr>)
              (attempts d)\<rparr>))))"

text \<open>The unique indexes of \<open>integration_holds\<close>: id, activity, and one held hold per target.\<close>

definition hold_clash :: "integration_hold \<Rightarrow> integration_hold \<Rightarrow> bool" where
  "hold_clash a b \<longleftrightarrow> ih_id a = ih_id b \<or> ih_activity a = ih_activity b
     \<or> (ih_held a \<and> ih_held b \<and> ih_repository a = ih_repository b \<and> ih_target_branch a = ih_target_branch b)"

definition acquire_hold :: "string \<Rightarrow> mutation \<Rightarrow> activity_context \<Rightarrow> db \<Rightarrow> db res" where
  "acquire_hold uuid m cx d =
     (let i = wa_id (cx_activity cx) in
      if wa_kind (cx_activity cx) \<noteq> Integration then Inr d
      else case fetch (\<lambda>h. ih_activity h = i) (integration_holds d) of
        Some h \<Rightarrow> if ih_held h then Inr d else Inl (conflict ''integration_hold_closed'')
      | None \<Rightarrow>
          and_then (ok_or (conflict ''workflow_policy_required'') (sb_key (cx_submission cx))) (\<lambda>key.
          and_then (ok_or (conflict ''target_required'') (sb_target_branch (cx_submission cx))) (\<lambda>branch.
          and_then (insert_unique (conflict ''integration_target_held'') hold_clash
              \<lparr>ih_id = uuid, ih_activity = i, ih_repository = key, ih_target_branch = branch, ih_held = True,
               ih_acquired_by = ac_id (m_actor m), ih_acquired_at = m_now m, ih_released_by = None,
               ih_released_at = None, ih_reason = None\<rparr> (integration_holds d)) (\<lambda>hs.
            Inr (d\<lparr>integration_holds := hs\<rparr>)))))"

definition activity_attempt :: "mutation \<Rightarrow> string \<Rightarrow> string \<Rightarrow> string \<Rightarrow> activity_context \<Rightarrow> task \<Rightarrow> attempt" where
  "activity_attempt m p s uuid cx t =
     (let proj = cx_project cx; now = m_now m in
      \<lparr>at_id = uuid, at_project = p, at_task = wa_activity_task (cx_activity cx), at_owner = ac_id (m_actor m),
       at_session = s, at_credential = ac_credential (m_actor m), at_generation = tk_generation t + 1,
       at_state = Active, at_mode = Work,
       at_expires_at = min (now + pj_lease_seconds proj * 1000) (attempt_limit (pj_max_attempt_seconds proj) now),
       at_last_heartbeat_at = now, at_last_progress_at = now, at_created_at = now, at_ended_at = None,
       at_outcome = None, at_task_revision = Some 1, at_policy_revision = Some (pj_policy_revision proj)\<rparr>)"

definition claimed_activity_value :: "activity_view \<Rightarrow> attempt \<Rightarrow> int \<Rightarrow> json" where
  "claimed_activity_value av a now =
     (let remaining = at_expires_at a - now in
      JObj [(''activity'', JActivity av),
        (''attempt'', JObj [(''id'', JStr (at_id a)), (''task_id'', JStr (at_task a)), (''generation'', JInt (at_generation a)),
           (''expires_at'', JTime (at_expires_at a)), (''state'', JStr ''active''), (''mode'', JStr ''work'')]),
        (''lease_remaining_ms'', JInt remaining),
        (''renew_after_seconds'', JInt (clamp64 1 60 (rust_div remaining 3000))),
        (''current_authority'', JObj [(''valid'', JBool True)])])"

text \<open>\<open>ids\<close>: the hold and the attempt.\<close>

definition claim_activity ::
  "task_digest \<Rightarrow> (nat \<Rightarrow> string) \<Rightarrow> string \<Rightarrow> string \<Rightarrow> activity_claim_input \<Rightarrow> mutation \<Rightarrow> outcome res" where
  "claim_activity dig ids p i x m =
     (let d = m_db m; now = m_now m in
      and_then (session_of (m_actor m)) (\<lambda>s.
      and_then (activity_context_get dig d p i) (\<lambda>cx.
      and_then (ensure_agent_integration cx) (\<lambda>_.
      and_then (ensure_activity_decisions m p cx) (\<lambda>_.
      case m_replay m of
        Some v \<Rightarrow> claim_activity_replay m p s cx v
      | None \<Rightarrow>
          let k = wa_activity_task (cx_activity cx) in
          and_then (claim_activity_checks m p s cx x) (\<lambda>_.
          and_then (ok_or row_not_found (fetch (\<lambda>t. tk_project t = p \<and> tk_id t = k) (tasks d))) (\<lambda>t.
          if tk_blocked_reason t \<noteq> None then Inl (conflict ''activity_blocked'')
          else and_then (take_over m p cx t) (\<lambda>d1.
          and_then (acquire_hold (ids 0) m cx d1) (\<lambda>d2.
          let a = activity_attempt m p s (ids 1) cx t in
          and_then (insert_attempt a d2) (\<lambda>d3.
          let d4 = update_activity i (\<lambda>w. w\<lparr>wa_state := Act_active\<rparr>)
                (update_task k (\<lambda>r. r\<lparr>tk_current_attempt := Some (ids 1), tk_generation := tk_generation t + 1\<rparr>) d3) in
          and_then (activity_value d4 p i now) (\<lambda>av.
            finish m d4 (claimed_activity_value av a now) (Some p) ''workflow_activity.claimed'' i)))))))))))"

section \<open>Releasing an activity\<close>

definition validate_activity_release :: "activity_release_input \<Rightarrow> unit res" where
  "validate_activity_release x =
     and_then (bounded (ar_summary x) 8192 True) (\<lambda>_. if ar_blocked x then Inl bad_request else Inr ())"

text \<open>\<open>blocked\<close> was refused before, so the attempt ends as released.\<close>

definition end_activity_attempt ::
  "string \<Rightarrow> string \<Rightarrow> attempt_state \<Rightarrow> string \<Rightarrow> int \<Rightarrow> (task \<Rightarrow> task) \<Rightarrow> db \<Rightarrow> db" where
  "end_activity_attempt k attempt st outcome now f d =
     update_task k (\<lambda>t. f (t\<lparr>tk_current_attempt := None\<rparr>))
       (update_attempt attempt (\<lambda>a. a\<lparr>at_state := st, at_ended_at := Some now, at_outcome := Some outcome\<rparr>) d)"

definition hold_released_reason :: string where
  "hold_released_reason = ''Integration activity released before publication intent.''"

text \<open>A released integration activity is canceled and queued anew in the next slot.\<close>

definition requeue_integration ::
  "string \<times> string \<Rightarrow> mutation \<Rightarrow> string \<Rightarrow> activity_context \<Rightarrow> string \<Rightarrow> db \<Rightarrow> db res" where
  "requeue_integration ids m p cx summary d =
     (let i = wa_id (cx_activity cx); sub = wa_submission (cx_activity cx); who = ac_id (m_actor m); now = m_now m;
          d1 = release_holds (\<lambda>a. a = i) who now hold_released_reason d in
      and_then (cancel_context d1 sub) (\<lambda>c.
      let why = \<lparr>cn_code = ''released'',
             cn_detail = ''The integration owner released it before publication: '' @ summary, cn_context = c\<rparr>;
          d2 = close_tasks (\<lambda>k. k = wa_activity_task (cx_activity cx)) (cancel_activities [i] who why now d1) in
      and_then (ok_or row_not_found (fetch (\<lambda>t. tk_id t = wa_subject_task (cx_activity cx)
           \<and> exists_where (\<lambda>r. pj_id r = tk_project t) (projects d2)) (tasks d2))) (\<lambda>t.
      create_activity ids p (tk_id t) (tk_title t) sub Integration (next_slot d2 sub Integration) now d2)))"

definition no_intent :: "db \<Rightarrow> string \<Rightarrow> app_error \<Rightarrow> unit res" where
  "no_intent d i e = (if count_where (\<lambda>x. pi_activity x = i) (publication_intents d) > 0 then Inl e else Inr ())"

definition release_activity ::
  "task_digest \<Rightarrow> string \<times> string \<Rightarrow> string \<Rightarrow> string \<Rightarrow> activity_release_input \<Rightarrow> mutation \<Rightarrow> outcome res" where
  "release_activity dig ids p i x m =
     (let d = m_db m; now = m_now m in
      replay_or m (
      and_then (activity_context_get dig d p i) (\<lambda>raw.
      and_then (owned_activity dig m p i (ar_generation x) (wa_kind (cx_activity raw))) (\<lambda>cx.
      let k = wa_activity_task (cx_activity cx) in
      and_then (ensure_attempt_quiescent d p k) (\<lambda>_.
      and_then (no_intent d i (conflict ''publication_result_required'')) (\<lambda>_.
      and_then (current_attempt_id d k) (\<lambda>a.
      let d1 = update_activity i (\<lambda>w. w\<lparr>wa_state := Act_queued\<rparr>)
            (end_activity_attempt k a Released (ar_summary x) now
               (\<lambda>t. t\<lparr>tk_blocked_reason := None, tk_ready_since := now\<rparr>) d) in
      and_then (if wa_kind (cx_activity cx) = Integration then requeue_integration ids m p cx (ar_summary x) d1 else Inr d1) (\<lambda>d2.
      and_then (activity_value d2 p i now) (\<lambda>av.
        finish m d2 (JActivity av) (Some p) ''workflow_activity.released'' i)))))))))"

section \<open>Deciding a review\<close>

fun validate_findings :: "review_finding_input list \<Rightarrow> unit res" where
  "validate_findings [] = Inr ()"
| "validate_findings (f # fs) =
     (if rn_severity f \<notin> set [''required'', ''advisory''] then Inl bad_request
      else and_then (bounded (rn_remedy f) 8192 True) (\<lambda>_.
        and_then (bounded (rn_evidence f) 8192 False) (\<lambda>_. validate_findings fs)))"

definition validate_review :: "review_input \<Rightarrow> unit res" where
  "validate_review x =
     and_then (bounded (ri_summary x) 16384 True) (\<lambda>_.
     if ri_decision x \<notin> set [''approved'', ''changes_requested''] \<or> length (ri_findings x) > 100 then Inl bad_request
     else and_then (validate_findings (ri_findings x)) (\<lambda>_.
     and_then (valid_independence (ri_independence x)) (\<lambda>_.
     if ri_decision x = ''approved'' \<and> list_ex (\<lambda>f. rn_severity f = ''required'') (ri_findings x)
       then Inl bad_request else Inr ())))"

definition review_checks :: "task_digest \<Rightarrow> mutation \<Rightarrow> string \<Rightarrow> string \<Rightarrow> review_input \<Rightarrow> activity_context res" where
  "review_checks dig m p i x =
     (let d = m_db m; actor = m_actor m in
      and_then (activity_context_get dig d p i) (\<lambda>raw.
      and_then (owned_activity dig m p i (ri_generation x) (wa_kind (cx_activity raw))) (\<lambda>cx.
      let k = wa_kind (cx_activity cx) in
      and_then (ensure_activity_decisions m p cx) (\<lambda>_.
      if k = Integration \<or> ri_submission x \<noteq> wa_submission (cx_activity cx)
        then Inl (conflict ''review_candidate_mismatch'')
      else if (k = Agent_review \<and> ac_kind actor \<noteq> Agent) \<or> (k = Human_review \<and> ac_kind actor \<noteq> Human)
        then Inl forbidden
      else and_then (if ac_kind actor = Agent
          then and_then (session_of actor) (\<lambda>s. ensure_independent_reviewer d p (wa_subject_task (cx_activity cx))
                 (ac_id actor) s (ri_independence x))
          else Inr ()) (\<lambda>_.
      and_then (ensure_attempt_quiescent d p (wa_activity_task (cx_activity cx))) (\<lambda>_. Inr cx))))))"

text \<open>\<open>review_decisions\<close> has one row per activity.\<close>

definition insert_review :: "review_row \<Rightarrow> db \<Rightarrow> db res" where
  "insert_review r d = and_then (insert_unique unique_violation (\<lambda>a b. rw_activity a = rw_activity b) r (review_decisions d))
     (\<lambda>rs. Inr (d\<lparr>review_decisions := rs\<rparr>))"

fun insert_findings :: "(nat \<Rightarrow> string) \<Rightarrow> nat \<Rightarrow> string \<Rightarrow> int \<Rightarrow> review_finding_input list \<Rightarrow> db \<Rightarrow> db res" where
  "insert_findings ids n i now [] d = Inr d"
| "insert_findings ids n i now (f # fs) d =
     and_then (insert_unique unique_violation (\<lambda>a b. rf_id a = rf_id b)
         \<lparr>rf_id = ids n, rf_activity = i, rf_severity = rn_severity f, rf_remedy = rn_remedy f,
          rf_evidence = rn_evidence f, rf_created_at = now\<rparr> (review_findings d)) (\<lambda>rs.
     insert_findings ids (Suc n) i now fs (d\<lparr>review_findings := rs\<rparr>))"

definition concurrent_outcome :: string where
  "concurrent_outcome = ''A concurrent review requested changes.''"

text \<open>A rejected submission: every other activity of it is canceled and the subject waits for a revision.\<close>

definition request_changes :: "mutation \<Rightarrow> string \<Rightarrow> activity_context \<Rightarrow> string \<Rightarrow> db \<Rightarrow> db res" where
  "request_changes m p cx summary d =
     (let i = wa_id (cx_activity cx); t = wa_subject_task (cx_activity cx); sub = wa_submission (cx_activity cx);
          now = m_now m; who = ac_id (m_actor m) in
      and_then (ensure_workflow_quiescent d p t) (\<lambda>_.
      let d1 = set_phase t Phase_revision_needed now (supersede_row sub now d) in
      and_then (cancel_context d1 sub) (\<lambda>c.
      let why = \<lparr>cn_code = ''changes_requested'', cn_detail = ''A review requested changes to this submission.'',
             cn_context = c\<rparr>;
          d2 = cancel_submission_activities sub (\<lambda>w. wa_id w \<noteq> i \<and> wa_state w = Act_queued) who why now d1;
          active = linked_task d2 sub (\<lambda>w. wa_id w \<noteq> i \<and> wa_state w = Act_active);
          d3 = cancel_attempts active now concurrent_outcome d2;
          d4 = d3\<lparr>tasks := update_where (\<lambda>x. active (tk_id x))
                 (\<lambda>x. x\<lparr>tk_current_attempt := None, tk_lifecycle := Canceled, tk_blocked_reason := None\<rparr>) (tasks d3)\<rparr>;
          d5 = cancel_submission_activities sub (\<lambda>w. wa_id w \<noteq> i \<and> wa_state w = Act_active) who why now d4;
          d6 = close_tasks (linked_task d5 sub (\<lambda>w. wa_id w \<noteq> i \<and> wa_state w = Act_canceled)) d5;
          d7 = update_task t (\<lambda>x. x\<lparr>tk_blocked_reason := None, tk_ready_since := now\<rparr>) d6 in
      reject_mechanical m p t i summary d7)))"

definition settle_approval ::
  "task_digest \<Rightarrow> mutation \<Rightarrow> string \<Rightarrow> activity_context \<Rightarrow> string list option \<Rightarrow> db \<Rightarrow> db res" where
  "settle_approval dig m p cx amendment d =
     (let t = wa_subject_task (cx_activity cx); sub = wa_submission (cx_activity cx) in
      and_then (approvals_satisfied d sub) (\<lambda>ok.
      if \<not> ok then Inr d
      else and_then (case amendment of None \<Rightarrow> Inr d | Some acs \<Rightarrow> apply_amendment dig m p t sub acs d) (\<lambda>d1.
        advance_approved_subject p t sub (m_now m) d1)))"

text \<open>\<open>ids\<close>: the findings in order.\<close>

definition review :: "task_digest \<Rightarrow> (nat \<Rightarrow> string) \<Rightarrow> string \<Rightarrow> string \<Rightarrow> review_input \<Rightarrow> mutation \<Rightarrow> outcome res" where
  "review dig ids p i x m =
     (let d = m_db m; now = m_now m in
      replay_or m (
      and_then (review_checks dig m p i x) (\<lambda>cx.
      let k = wa_activity_task (cx_activity cx); sub = wa_submission (cx_activity cx) in
      and_then (amendment_outcome d sub (ri_decision x) (ri_amendment x)) (\<lambda>(verdict, amendment).
      and_then (current_attempt_id d k) (\<lambda>a.
      and_then (session_of (m_actor m)) (\<lambda>s.
      and_then (insert_review \<lparr>rw_activity = i, rw_submission = sub, rw_attempt = a, rw_reviewer = ac_id (m_actor m),
           rw_session = s, rw_decision = verdict, rw_summary = ri_summary x, rw_created_at = now,
           rw_amendment = ri_amendment x, rw_independence = ri_independence x, rw_invalidated_at = None\<rparr> d) (\<lambda>d1.
      and_then (insert_findings ids 0 i now (ri_findings x) d1) (\<lambda>d2.
      let d3 = update_activity i (\<lambda>w. w\<lparr>wa_state := Act_completed, wa_completed_at := Some now\<rparr>)
            (end_activity_attempt k a Submitted (ri_summary x) now
               (\<lambda>t. t\<lparr>tk_lifecycle := Done, tk_blocked_reason := None\<rparr>) d2) in
      and_then (if verdict = Changes_requested then request_changes m p cx (ri_summary x) d3
          else settle_approval dig m p cx amendment d3) (\<lambda>d4.
      and_then (workflow_snapshot dig d4 p (wa_subject_task (cx_activity cx)) now) (\<lambda>v.
        finish m d4 (workflow_value v) (Some p) ''review.decided'' i))))))))))"

section \<open>Steps\<close>

lemma take_over_step:
  assumes "take_over m p cx t = Inr d1"
  shows "lease_step (m_db m) d1" "tasks d1 = tasks (m_db m)"
proof -
  have "lease_step (m_db m) d1 \<and> tasks d1 = tasks (m_db m)"
  proof (cases "tk_current_attempt t")
    case None
    with assms show ?thesis by (simp add: take_over_def lease_step_refl)
  next
    case (Some a)
    with assms have "d1 = (m_db m)\<lparr>attempts := update_where (\<lambda>x. at_id x = a \<and> at_state x = Active)
        (\<lambda>x. x\<lparr>at_state := Expired, at_ended_at := Some (m_now m), at_outcome := Some lease_expired_outcome\<rparr>) (attempts (m_db m))\<rparr>"
      by (auto simp: take_over_def Let_def split: if_splits)
    then show ?thesis
      by (simp only:) (rule conjI, rule lease_step_attempts [OF lease_step_refl], simp_all add: attempt_forward_def)
  qed
  then show "lease_step (m_db m) d1" "tasks d1 = tasks (m_db m)" by simp_all
qed

lemma acquire_hold_step:
  assumes "acquire_hold u m cx d = Inr d'"
  shows "lease_step a d' = lease_step a d" "tasks d' = tasks d" "attempts d' = attempts d"
  using assms by (auto simp: acquire_hold_def Let_def split: if_splits option.splits)

lemma claim_activity_step:
  assumes t: "ok_or row_not_found (fetch (\<lambda>t. tk_project t = p \<and> tk_id t = wa_activity_task (cx_activity cx)) (tasks (m_db m))) = Inr t"
    and d1: "take_over m p cx t = Inr d1" and d2: "acquire_hold u m cx d1 = Inr d2"
    and d3: "insert_attempt (activity_attempt m p s v cx t) d2 = Inr d3"
  shows "lease_step (m_db m) (update_activity i f (update_task (wa_activity_task (cx_activity cx))
     (\<lambda>r. r\<lparr>tk_current_attempt := Some v, tk_generation := tk_generation t + 1\<rparr>) d3))"
proof -
  let ?n = "activity_attempt m p s v cx t"
  have row: "t \<in> set (tasks d2)" "tk_project t = p" "tk_id t = wa_activity_task (cx_activity cx)"
    using t take_over_step(2) [OF d1] acquire_hold_step(2) [OF d2] by (auto split: option.splits dest!: fetch_SomeD)
  have n: "at_generation ?n = tk_generation t + 1" "at_state ?n = Active" "at_id ?n = v" "at_project ?n = p"
    "at_task ?n = wa_activity_task (cx_activity cx)" by (simp_all add: activity_attempt_def Let_def)
  have "lease_step (m_db m) d2" using take_over_step(1) [OF d1] acquire_hold_step(1) [OF d2] by simp
  from lease_step_grant [OF this d3 n(1,2)] row have
    "lease_step (m_db m) (update_task (at_task ?n) (\<lambda>r. r\<lparr>tk_current_attempt := Some (at_id ?n), tk_generation := tk_generation t + 1\<rparr>) d3)"
    by (auto simp: n)
  then show ?thesis by (simp add: n)
qed

lemma claim_activity_replay_commits: "commits R m (claim_activity_replay m p s cx v)"
  unfolding claim_activity_replay_def Let_def by (intro commits_intros)

lemma claim_activity_commits: "commits lease_step m (claim_activity dig ids p i x m)"
  unfolding claim_activity_def Let_def
  by (intro commits_intros claim_activity_replay_commits; hypsubst?; (assumption | rule claim_activity_step; assumption))

text \<open>The owner of an activity holds its linked task.\<close>

lemma activity_current_attempt_Some:
  assumes "activity_current_attempt d w = Some a"
  obtains t where "fetch (\<lambda>t. tk_id t = wa_activity_task w) (tasks d) = Some t" "tk_current_attempt t = Some (at_id a)"
    "a \<in> set (attempts d)"
proof -
  from assms obtain t where t: "fetch (\<lambda>t. tk_id t = wa_activity_task w) (tasks d) = Some t" "current_attempt d t = Some a"
    by (auto simp: activity_current_attempt_def split: option.splits)
  then obtain i where "tk_current_attempt t = Some i" "fetch (\<lambda>a. at_id a = i) (attempts d) = Some a"
    by (auto simp: current_attempt_def split: option.splits)
  with t that show ?thesis by (auto dest: fetch_SomeD)
qed

lemma owned_activity_Inr:
  assumes "owned_activity dig m p i gen kind = Inr cx"
  shows "activity_context_get dig (m_db m) p i = Inr cx" "ensure_current cx = Inr ()" "ensure_agent_integration cx = Inr ()"
    "wa_kind (cx_activity cx) = kind" "wa_id (cx_activity cx) = i"
    "\<exists>a. activity_current_attempt (m_db m) (cx_activity cx) = Some a \<and> at_owner a = ac_id (m_actor m)
       \<and> Some (at_session a) = ac_session (m_actor m) \<and> at_generation a = gen \<and> at_state a = Active \<and> at_expires_at a > m_now m"
proof -
  from assms have c: "activity_context_get dig (m_db m) p i = Inr cx" "ensure_current cx = Inr ()"
    "ensure_agent_integration cx = Inr ()" "wa_kind (cx_activity cx) = kind"
    by (auto simp: owned_activity_def Let_def split: if_splits)
  from assms c obtain a where "activity_current_attempt (m_db m) (cx_activity cx) = Some a" "at_owner a = ac_id (m_actor m)"
    "session_of (m_actor m) = Inr (at_session a)" "at_generation a = gen" "at_state a = Active" "at_expires_at a > m_now m"
    by (auto simp: owned_activity_def Let_def split: if_splits option.splits)
  then show "\<exists>a. activity_current_attempt (m_db m) (cx_activity cx) = Some a \<and> at_owner a = ac_id (m_actor m)
       \<and> Some (at_session a) = ac_session (m_actor m) \<and> at_generation a = gen \<and> at_state a = Active \<and> at_expires_at a > m_now m"
    by (intro exI [of _ a]) (simp add: session_of_def split: option.splits)
  from c show "wa_id (cx_activity cx) = i"
    by (auto simp: activity_context_get_def split: option.splits dest!: fetch_SomeD)
qed (use assms in \<open>auto simp: owned_activity_def Let_def split: if_splits\<close>)

lemma owned_activity_holder:
  assumes own: "owned_activity dig m p i gen kind = Inr cx"
    and cur: "current_attempt_id (m_db m) (wa_activity_task (cx_activity cx)) = Inr a"
  shows "holder (m_db m) a (wa_activity_task (cx_activity cx))"
proof -
  from owned_activity_Inr(6) [OF own] obtain b where b: "activity_current_attempt (m_db m) (cx_activity cx) = Some b"
    "at_state b = Active" by blast
  from activity_current_attempt_Some [OF b(1)] obtain t where
    t: "fetch (\<lambda>t. tk_id t = wa_activity_task (cx_activity cx)) (tasks (m_db m)) = Some t"
    "tk_current_attempt t = Some (at_id b)" "b \<in> set (attempts (m_db m))" .
  with cur have "a = at_id b" by (simp add: current_attempt_id_def)
  with b(2) t fetch_SomeD [OF t(1)] show ?thesis by (auto simp: holder_def)
qed

lemma lease_step_end_activity:
  assumes "lease_step a d" and "holder d i k" and "st \<noteq> Active"
    and "\<And>u. task_key (f u) = task_key u \<and> (closed u \<longrightarrow> closed (f u))"
  shows "lease_step a (end_activity_attempt k i st outcome now f d)"
  unfolding end_activity_attempt_def
proof (rule lease_step_holder [OF assms(1,2)])
  fix u
  show "tk_id (f (u\<lparr>tk_current_attempt := None\<rparr>)) = tk_id u \<and> tk_project (f (u\<lparr>tk_current_attempt := None\<rparr>)) = tk_project u
      \<and> tk_generation (f (u\<lparr>tk_current_attempt := None\<rparr>)) = tk_generation u
      \<and> tk_current_attempt (f (u\<lparr>tk_current_attempt := None\<rparr>)) = None
      \<and> tk_budget_admitted_at (f (u\<lparr>tk_current_attempt := None\<rparr>)) = tk_budget_admitted_at u
      \<and> (closed u \<longrightarrow> closed (f (u\<lparr>tk_current_attempt := None\<rparr>)))"
    using assms(4) [of "u\<lparr>tk_current_attempt := None\<rparr>"] by (simp add: task_key_def closed_def)
qed (simp add: attempt_forward_def assms(3))

lemma requeue_integration_step:
  assumes "requeue_integration ids m p cx summary d = Inr d'" and "lease_step a d"
  shows "lease_step a d'"
  using assms unfolding requeue_integration_def Let_def
  by (auto elim!: lease_step_create_activity intro!: lease_step_close_tasks lease_step_cancel_activities simp del: cancel_activities.simps)

lemma release_activity_step:
  assumes own: "owned_activity dig m p i gen kind = Inr cx"
    and cur: "current_attempt_id (m_db m) (wa_activity_task (cx_activity cx)) = Inr b"
    and d2: "(if wa_kind (cx_activity cx) = Integration then requeue_integration ids m p cx summary
         (update_activity j g (end_activity_attempt (wa_activity_task (cx_activity cx)) b Released outcome now
            (\<lambda>t. t\<lparr>tk_blocked_reason := r, tk_ready_since := n\<rparr>) (m_db m)))
       else Inr (update_activity j g (end_activity_attempt (wa_activity_task (cx_activity cx)) b Released outcome now
            (\<lambda>t. t\<lparr>tk_blocked_reason := r, tk_ready_since := n\<rparr>) (m_db m)))) = Inr d2"
  shows "lease_step (m_db m) d2"
proof -
  have "lease_step (m_db m) (end_activity_attempt (wa_activity_task (cx_activity cx)) b Released outcome now
            (\<lambda>t. t\<lparr>tk_blocked_reason := r, tk_ready_since := n\<rparr>) (m_db m))"
    by (rule lease_step_end_activity [OF lease_step_refl owned_activity_holder [OF own cur]])
       (simp_all add: task_key_def closed_def)
  with d2 show ?thesis by (auto split: if_splits elim: requeue_integration_step)
qed

lemma release_activity_commits: "commits lease_step m (release_activity dig ids p i x m)"
  unfolding release_activity_def Let_def
  by (intro commits_intros; hypsubst?; (assumption | rule release_activity_step; assumption))

lemma insert_findings_step:
  "insert_findings ids n i now fs d = Inr d' \<Longrightarrow> lease_step a d' = lease_step a d \<and> attempts d' = attempts d \<and> tasks d' = tasks d"
proof (induction fs arbitrary: n d)
  case (Cons f fs)
  then obtain rs where "insert_findings ids (Suc n) i now fs (d\<lparr>review_findings := rs\<rparr>) = Inr d'" by auto
  from Cons.IH [OF this] show ?case by simp
qed simp

lemma request_changes_step:
  assumes "request_changes m p cx summary d = Inr d'" and st: "lease_step a d"
  shows "lease_step a d'"
proof -
  let ?i = "wa_id (cx_activity cx)" and ?t = "wa_subject_task (cx_activity cx)" and ?sub = "wa_submission (cx_activity cx)"
  from assms(1) obtain why where rej: "reject_mechanical m p ?t ?i summary
      (let d1 = set_phase ?t Phase_revision_needed (m_now m) (supersede_row ?sub (m_now m) d);
          d2 = cancel_submission_activities ?sub (\<lambda>w. wa_id w \<noteq> ?i \<and> wa_state w = Act_queued) (ac_id (m_actor m)) why (m_now m) d1;
          K = linked_task d2 ?sub (\<lambda>w. wa_id w \<noteq> ?i \<and> wa_state w = Act_active);
          d3 = cancel_attempts K (m_now m) concurrent_outcome d2;
          d4 = d3\<lparr>tasks := update_where (\<lambda>x. K (tk_id x))
                 (\<lambda>x. x\<lparr>tk_current_attempt := None, tk_lifecycle := Canceled, tk_blocked_reason := None\<rparr>) (tasks d3)\<rparr>;
          d5 = cancel_submission_activities ?sub (\<lambda>w. wa_id w \<noteq> ?i \<and> wa_state w = Act_active) (ac_id (m_actor m)) why (m_now m) d4;
          d6 = close_tasks (linked_task d5 ?sub (\<lambda>w. wa_id w \<noteq> ?i \<and> wa_state w = Act_canceled)) d5
       in update_task ?t (\<lambda>x. x\<lparr>tk_blocked_reason := None, tk_ready_since := m_now m\<rparr>) d6) = Inr d'"
    unfolding request_changes_def Let_def by auto
  show ?thesis
    unfolding Let_def
    by (rule lease_step_reject [OF rej [unfolded Let_def]], rule lease_step_update_task, rule lease_step_close_tasks,
        rule lease_step_cancel_submission, rule lease_step_clear, rule lease_step_cancel_submission)
       (simp_all add: task_key_def closed_def st)
qed

lemma settle_approval_step:
  assumes "settle_approval dig m p cx amendment d = Inr d'" and "lease_step a d"
  shows "lease_step a d'"
  using assms unfolding settle_approval_def Let_def
  by (auto split: if_splits option.splits elim!: lease_step_advance lease_step_amendment)

lemma review_step:
  assumes chk: "review_checks dig m p i x = Inr cx"
    and cur: "current_attempt_id (m_db m) (wa_activity_task (cx_activity cx)) = Inr b"
    and d1: "insert_review r (m_db m) = Inr d1" and d2: "insert_findings ids n i now fs d1 = Inr d2"
    and d4: "(if v then request_changes m p cx summary
         (update_activity i g (end_activity_attempt (wa_activity_task (cx_activity cx)) b Submitted outcome now
            (\<lambda>t. t\<lparr>tk_lifecycle := Done, tk_blocked_reason := None\<rparr>) d2))
       else settle_approval dig m p cx am
         (update_activity i g (end_activity_attempt (wa_activity_task (cx_activity cx)) b Submitted outcome now
            (\<lambda>t. t\<lparr>tk_lifecycle := Done, tk_blocked_reason := None\<rparr>) d2))) = Inr d4"
  shows "lease_step (m_db m) d4"
proof -
  have s1: "lease_step (m_db m) d1" "attempts d1 = attempts (m_db m)" "tasks d1 = tasks (m_db m)"
    using d1 by (auto simp: insert_review_def lease_step_refl)
  have s2: "lease_step (m_db m) d2" "attempts d2 = attempts (m_db m)" "tasks d2 = tasks (m_db m)"
    using insert_findings_step [OF d2] s1 by simp_all
  from chk obtain gen kind where own: "owned_activity dig m p i gen kind = Inr cx"
    by (auto simp: review_checks_def Let_def split: if_splits)
  have "holder d2 b (wa_activity_task (cx_activity cx))"
    using owned_activity_holder [OF own cur] by (simp add: holder_same [OF s2(2,3)])
  from lease_step_end_activity [OF s2(1) this]
  have "lease_step (m_db m) (end_activity_attempt (wa_activity_task (cx_activity cx)) b Submitted outcome now
            (\<lambda>t. t\<lparr>tk_lifecycle := Done, tk_blocked_reason := None\<rparr>) d2)"
    by (simp add: task_key_def closed_def)
  with d4 show ?thesis by (auto split: if_splits elim!: request_changes_step settle_approval_step)
qed

lemma review_commits: "commits lease_step m (review dig ids p i x m)"
  unfolding review_def Let_def
  by (intro commits_intros; hypsubst?; (assumption | rule review_step; assumption))

interpretation activity_claim: replay_safe "claim_activity dig ids p i x" for dig ids p i x
  by (rule commits_replay_safe [OF claim_activity_commits lease_step_audited])

interpretation activity_release: replay_safe "release_activity dig ids p i x" for dig ids p i x
  by (rule commits_replay_safe [OF release_activity_commits lease_step_audited])

interpretation reviewing: replay_safe "review dig ids p i x" for dig ids p i x
  by (rule commits_replay_safe [OF review_commits lease_step_audited])

end
