(* ===== verification/Workflow_Reopen.thy ===== *)
theory Workflow_Reopen
  imports Workflow_Review
begin

text \<open>
  Reopening a submission (\<^verbatim>\<open>workflow.rs\<close>, \<^verbatim>\<open>autonomy.rs\<close>, \<^verbatim>\<open>integrator_observe.rs\<close>): who may revise for which
  reason, the deferral while push authority is outstanding, the refusals, and the supersession.
\<close>

record reopen_input =
  ro_submission :: string
  ro_reason :: string
  ro_code :: "string option"
  ro_evidence :: "string option"

definition validate_reopen :: "reopen_input \<Rightarrow> unit res" where
  "validate_reopen x = bounded (ro_reason x) 8192 True"

section \<open>The reasons of an agent\<close>

definition human_coded :: "string \<Rightarrow> app_error" where
  "human_coded c = \<lparr>status = FORBIDDEN, code = c, gate = Some c\<rparr>"

definition require_evidence :: "string option \<Rightarrow> unit res" where
  "require_evidence e = (if is_none_or e (\<lambda>v. blank v \<or> length v > 16384) then Inl bad_request else Inr ())"

definition holds_integration :: "db \<Rightarrow> actor \<Rightarrow> string \<Rightarrow> int \<Rightarrow> bool" where
  "holds_integration d a sub now \<longleftrightarrow> exists_where (\<lambda>w. wa_submission w = sub \<and> wa_kind w = Integration \<and> wa_state w = Act_active
     \<and> exists_where (\<lambda>t. tk_id t = wa_activity_task w \<and> exists_where (\<lambda>x. tk_current_attempt t = Some (at_id x)
         \<and> at_state x = Active \<and> at_owner x = ac_id a \<and> at_session x = unwrap_or (ac_session a) []
         \<and> at_expires_at x > now) (attempts d)) (tasks d)) (workflow_activities d)"

definition candidate_missing :: "db \<Rightarrow> string \<Rightarrow> bool" where
  "candidate_missing d sub \<longleftrightarrow> exists_where (\<lambda>s. sb_id s = sub \<and> sb_kind s = Code
     \<and> (sb_candidate_ref s = None \<or> sb_candidate_ref s = Some [])) (submissions d)"

definition is_contributor :: "db \<Rightarrow> string \<Rightarrow> string \<Rightarrow> bool" where
  "is_contributor d t who \<longleftrightarrow> exists_where (\<lambda>c. tc_task c = t \<and> tc_principal c = who) (contributors d)"

definition submission_author :: "db \<Rightarrow> string \<Rightarrow> string res" where
  "submission_author d sub = and_then (ok_or row_not_found (fetch (\<lambda>s. sb_id s = sub) (submissions d))) (\<lambda>s. Inr (sb_created_by s))"

definition revise_allowed :: "task_digest \<Rightarrow> db \<Rightarrow> actor \<Rightarrow> string \<Rightarrow> string \<Rightarrow> string option \<Rightarrow> string \<Rightarrow> int \<Rightarrow> bool res" where
  "revise_allowed dig d a t sub evidence c now =
     (if c = ''conflict'' \<or> c = ''check_failed''
        then and_then (require_evidence evidence) (\<lambda>_. Inr (holds_integration d a sub now))
      else if c = ''candidate_missing'' then Inr (candidate_missing d sub)
      else if c = ''requirements_changed''
        then (if is_contributor d t (ac_id a) then Inr False else digest_changed dig d sub t)
      else if c = ''author_withdraw'' then and_then (submission_author d sub) (\<lambda>w. Inr (w = ac_id a))
      else Inl bad_request)"

definition ensure_revise_actor ::
  "task_digest \<Rightarrow> db \<Rightarrow> actor \<Rightarrow> string \<Rightarrow> string \<Rightarrow> string option \<Rightarrow> string \<Rightarrow> int \<Rightarrow> unit res" where
  "ensure_revise_actor dig d a t sub evidence c now =
     and_then (revise_allowed dig d a t sub evidence c now) (\<lambda>ok.
       if \<not> ok then Inl (conflict ''revise_not_permitted'') else Inr ())"

definition authorize_revise ::
  "task_digest \<Rightarrow> db \<Rightarrow> actor \<Rightarrow> string \<Rightarrow> string \<Rightarrow> reopen_input \<Rightarrow> int \<Rightarrow> (string \<times> string option) res" where
  "authorize_revise dig d a p t x now =
     and_then (ok_or row_not_found (fetch (\<lambda>r. pj_id r = p) (projects d))) (\<lambda>proj.
     if pj_recovery_mode proj \<noteq> Recovery_agent then Inl (human_coded ''human_reopen_required'')
     else and_then (ok_or bad_request (ro_code x)) (\<lambda>c.
     if revise_limit_reached d t now then Inl (conflict ''revise_limit_reached'')
     else and_then (ensure_revise_actor dig d a t (ro_submission x) (ro_evidence x) c now) (\<lambda>_.
       Inr (c, ro_evidence x))))"

text \<open>A human needs no reason code; anyone else needs a session and the authority of the reason.\<close>

definition revise_record ::
  "task_digest \<Rightarrow> mutation \<Rightarrow> string \<Rightarrow> string \<Rightarrow> reopen_input \<Rightarrow> (string \<times> string option) option res" where
  "revise_record dig m p t x =
     (if ac_kind (m_actor m) = Human then Inr None
      else and_then (session_of (m_actor m)) (\<lambda>_.
        and_then (authorize_revise dig (m_db m) (m_actor m) p t x (m_now m)) (\<lambda>r. Inr (Some r))))"

section \<open>Outstanding push authority\<close>

definition outstanding_authority :: "db \<Rightarrow> string \<Rightarrow> string option" where
  "outstanding_authority d sub = map_option ig_id
     (fetch (\<lambda>g. ig_submission g = sub \<and> ig_authority_issued_at g \<noteq> None) (integrator_results d))"

definition defer_revise :: "db \<Rightarrow> string \<Rightarrow> reopen_input \<Rightarrow> string \<Rightarrow> int \<Rightarrow> (json \<times> db) option res" where
  "defer_revise d who x c now =
     (let sub = ro_submission x in
      case outstanding_authority d sub of
        None \<Rightarrow> Inr None
      | Some g \<Rightarrow>
          if count_where (\<lambda>r. iq_submission r = sub) (revise_requests d) > 0
            then Inl (conflict ''revise_already_pending'')
          else Inr (Some (JObj [(''revise_deferred'', JBool True), (''result_id'', JStr g), (''reason_code'', JStr c)],
            d\<lparr>revise_requests := insert_row \<lparr>iq_submission = sub, iq_result = g, iq_requested_by = who,
                iq_reason = ro_reason x, iq_reason_code = c, iq_evidence = ro_evidence x, iq_requested_at = now\<rparr>
              (revise_requests d)\<rparr>)))"

definition defer_agent_revise ::
  "mutation \<Rightarrow> reopen_input \<Rightarrow> (string \<times> string option) option \<Rightarrow> (json \<times> db) option res" where
  "defer_agent_revise m x revise =
     (if ac_kind (m_actor m) = Human then Inr None
      else defer_revise (m_db m) (ac_id (m_actor m)) x (case revise of None \<Rightarrow> [] | Some (c, _) \<Rightarrow> c) (m_now m))"

section \<open>Reopening\<close>

text \<open>An intent, unless a human found that nothing was published, or a result: an external effect.\<close>

definition publication_effects :: "db \<Rightarrow> string \<Rightarrow> bool" where
  "publication_effects d sub \<longleftrightarrow> exists_where (\<lambda>w. wa_submission w = sub
     \<and> exists_where (\<lambda>x. pi_activity x = wa_id w) (publication_intents d)
     \<and> \<not> exists_where (\<lambda>r. pb_activity r = wa_id w \<and> pb_disposition r = ''not_published'') (publication_reconciliations d))
     (workflow_activities d)"

definition owned_by_caller :: "attempt \<Rightarrow> actor \<Rightarrow> bool" where
  "owned_by_caller a who \<longleftrightarrow> at_owner a = ac_id who \<and> Some (at_session a) = ac_session who"

definition ensure_unowned :: "mutation \<Rightarrow> string \<Rightarrow> string \<Rightarrow> unit res" where
  "ensure_unowned m p sub =
     (let d = m_db m in
      check_all (\<lambda>w. and_then (activity_value d p (wa_id w) (m_now m)) (\<lambda>av.
          if av_valid_by_time av \<and> av_owner_authorized av \<and> \<not> is_some_and (av_attempt av) (\<lambda>a. owned_by_caller a (m_actor m))
          then Inl (conflict ''activity_owned'') else Inr ()))
        (rows (\<lambda>w. wa_submission w = sub \<and> exists_where (\<lambda>t. tk_id t = wa_activity_task w \<and> tk_current_attempt t \<noteq> None) (tasks d))
           (workflow_activities d)))"

definition reopened_value :: "workflow_view option \<Rightarrow> (string \<times> string option) option \<Rightarrow> json" where
  "reopened_value v revise =
     (case v of
        Some x \<Rightarrow> JWorkflow (x\<lparr>vw_revise := revise\<rparr>)
      | None \<Rightarrow> json_put ''revise'' (case revise of None \<Rightarrow> JNull
           | Some (c, e) \<Rightarrow> JObj [(''reason_code'', JStr c), (''evidence'', opt_json e)]) (workflow_value None))"

definition reopen :: "task_digest \<Rightarrow> string \<Rightarrow> string \<Rightarrow> reopen_input \<Rightarrow> mutation \<Rightarrow> outcome res" where
  "reopen dig p t x m =
     (let d = m_db m; now = m_now m; sub = ro_submission x in
      and_then (ok_or not_found (fetch (\<lambda>s. ws_project s = p \<and> ws_task s = t) (workflow_subjects d))) (\<lambda>subject.
      replay_or m (
      if ws_current_submission subject \<noteq> sub then Inl (conflict ''submission_changed'')
      else if ws_phase subject = Phase_done then Inl (conflict ''workflow_complete'')
      else and_then (revise_record dig m p t x) (\<lambda>revise.
      and_then (defer_agent_revise m x revise) (\<lambda>deferred.
      case deferred of
        Some r \<Rightarrow> (case r of (w, d1) \<Rightarrow> finish m d1 w (Some p) ''submission.revise_deferred'' sub)
      | None \<Rightarrow>
          if publication_effects d sub then Inl (conflict ''publication_reconciliation_required'')
          else and_then (workflow_snapshot dig d p t now) (\<lambda>before.
          and_then (if is_some_and before vw_blocked then Inr () else ensure_unowned m p sub) (\<lambda>_.
          and_then (supersede_submission \<lparr>su_project = p, su_task = t, su_submission = sub, su_actor = ac_id (m_actor m),
              su_reason = ro_reason x, su_code = ro_code x, su_moved_by = None, su_evidence = ro_evidence x\<rparr> now d) (\<lambda>d1.
          and_then (workflow_snapshot dig d1 p t now) (\<lambda>v.
            finish m d1 (reopened_value v revise) (Some p) ''submission.reopened'' sub)))))))))"

section \<open>Reopening is a step\<close>

lemma defer_step:
  "defer_agent_revise m x revise = Inr (Some (w, d1)) \<Longrightarrow> lease_step (m_db m) d1"
  by (auto simp: defer_agent_revise_def defer_revise_def Let_def lease_step_refl split: if_splits option.splits)

lemma reopen_commits: "commits lease_step m (reopen dig p t x m)"
  unfolding reopen_def Let_def
  by (intro commits_intros; hypsubst?;
      (assumption | erule defer_step | erule lease_step_supersede, rule lease_step_refl))

interpretation reopening: replay_safe "reopen dig p t x" for dig p t x
  by (rule commits_replay_safe [OF reopen_commits lease_step_audited])

end
