(* ===== verification/Workflow_Integrate.thy ===== *)
theory Workflow_Integrate
  imports Workflow_Reopen
begin

text \<open>
  Integrating a submission (\<^verbatim>\<open>workflow.rs\<close>): the authorization of a human, the immutable publication intent,
  the result with its check receipts, the two ways to reconcile an unknown publication, and the
  finalization of an exact integrated result.
\<close>

record authorization_input =
  zi_submission :: string
  zi_expected_project_policy :: int
  zi_expected_workflow_policy :: int
  zi_summary :: string

record intent_input =
  ii_generation :: int
  ii_submission :: string
  ii_observed_revision :: string
  ii_observed_tree :: string
  ii_result_revision :: string
  ii_result_tree :: string

record result_input =
  ui_generation :: int
  ui_submission :: string
  ui_publication_state :: string
  ui_observed_revision :: string
  ui_result_revision :: string
  ui_result_tree :: string
  ui_check_jobs :: "string list"
  ui_summary :: string

record reconciliation_input =
  pc_submission :: string
  pc_disposition :: string
  pc_observed_revision :: string
  pc_observed_tree :: string
  pc_evidence :: string

record agent_reconciliation_input =
  gr_attempt :: string
  gr_generation :: int
  gr_submission :: string
  gr_disposition :: string
  gr_key :: string
  gr_target_branch :: string
  gr_observed_revision :: string
  gr_observed_tree :: string
  gr_observed_at :: int
  gr_journal_verified :: bool
  gr_publisher_stopped :: bool
  gr_evidence :: string

record finalize_input =
  fz_generation :: int
  fz_submission :: string
  fz_observed_revision :: string
  fz_observed_tree :: string

section \<open>Authorization\<close>

definition validate_authorization :: "authorization_input \<Rightarrow> unit res" where
  "validate_authorization x = bounded (zi_summary x) 8192 True"

definition write_authorization :: "integration_authorization option \<Rightarrow> integration_authorization \<Rightarrow> db \<Rightarrow> db" where
  "write_authorization previous z d =
     (case previous of
        Some _ \<Rightarrow> d\<lparr>integration_authorizations := update_where (\<lambda>y. iz_activity y = iz_activity z \<and> iz_invalidated_at y \<noteq> None)
          (\<lambda>y. z\<lparr>iz_revision := iz_revision y + 1\<rparr>) (integration_authorizations d)\<rparr>
      | None \<Rightarrow> d\<lparr>integration_authorizations := insert_row z (integration_authorizations d)\<rparr>)"

definition authorize_integration :: "task_digest \<Rightarrow> string \<Rightarrow> string \<Rightarrow> authorization_input \<Rightarrow> mutation \<Rightarrow> outcome res" where
  "authorize_integration dig p i x m =
     (let d = m_db m; now = m_now m in
      and_then (require_human (m_actor m) ''integration_authorization'') (\<lambda>_.
      and_then (activity_context_get dig d p i) (\<lambda>cx.
      and_then (ensure_agent_integration cx) (\<lambda>_.
      replay_or m (
      let sb = cx_submission cx in
      and_then (ensure_current cx) (\<lambda>_.
      and_then (ensure_activity_decisions m p cx) (\<lambda>_.
      if wa_kind (cx_activity cx) \<noteq> Integration \<or> zi_submission x \<noteq> wa_submission (cx_activity cx)
           \<or> zi_expected_project_policy x \<noteq> sb_project_policy sb \<or> zi_expected_workflow_policy x \<noteq> sb_workflow_policy sb
        then Inl (conflict ''integration_candidate_mismatch'')
      else if pj_automatic_integration (cx_project cx) then Inl (conflict ''authorization_not_required'')
      else and_then (ensure_approved d cx) (\<lambda>_.
      let previous = fetch (\<lambda>z. iz_activity z = i) (integration_authorizations d) in
      if is_some_and previous (\<lambda>z. iz_invalidated_at z = None) then Inl (conflict ''integration_already_authorized'')
      else
        let d1 = write_authorization previous \<lparr>iz_activity = i, iz_submission = wa_submission (cx_activity cx),
               iz_project_policy = sb_project_policy sb, iz_workflow_policy = sb_workflow_policy sb,
               iz_actor = ac_id (m_actor m), iz_summary = zi_summary x, iz_created_at = now,
               iz_invalidated_at = None, iz_revision = 1\<rparr> d in
        and_then (activity_value d1 p i now) (\<lambda>av.
          finish m d1 (JActivity av) (Some p) ''integration.authorized'' i)))))))))"

section \<open>The publication intent\<close>

definition validate_intent :: "intent_input \<Rightarrow> unit res" where
  "validate_intent x =
     and_then (valid_revision (ii_observed_revision x)) (\<lambda>_.
     and_then (valid_revision (ii_observed_tree x)) (\<lambda>_.
     and_then (valid_revision (ii_result_revision x)) (\<lambda>_. valid_revision (ii_result_tree x))))"

text \<open>Who may write for an integration: the current owner, on the exact submission.\<close>

definition owned_integration :: "task_digest \<Rightarrow> mutation \<Rightarrow> string \<Rightarrow> string \<Rightarrow> int \<Rightarrow> string \<Rightarrow> activity_context res" where
  "owned_integration dig m p i gen sub =
     and_then (owned_activity dig m p i gen Integration) (\<lambda>cx.
     and_then (ensure_activity_decisions m p cx) (\<lambda>_.
     if sub \<noteq> wa_submission (cx_activity cx) then Inl (conflict ''integration_candidate_mismatch'') else Inr cx))"

definition insert_intent :: "publication_intent \<Rightarrow> db \<Rightarrow> db res" where
  "insert_intent x d = and_then (insert_unique unique_violation (\<lambda>a b. pi_activity a = pi_activity b) x (publication_intents d))
     (\<lambda>xs. Inr (d\<lparr>publication_intents := xs\<rparr>))"

definition publication_intent_handler :: "task_digest \<Rightarrow> string \<Rightarrow> string \<Rightarrow> intent_input \<Rightarrow> mutation \<Rightarrow> outcome res" where
  "publication_intent_handler dig p i x m =
     (let d = m_db m; now = m_now m in
      replay_or m (
      and_then (owned_integration dig m p i (ii_generation x) (ii_submission x)) (\<lambda>cx.
      and_then (ensure_approved d cx) (\<lambda>_.
      and_then (ensure_authorized d cx) (\<lambda>_.
      and_then (current_attempt_id d (wa_activity_task (cx_activity cx))) (\<lambda>a.
      if count_where (\<lambda>k. co_project k = p \<and> co_attempt k = a) (checkouts d) = 0 then Inl (conflict ''checkout_required'')
      else if \<not> hold_held d i then Inl (conflict ''integration_hold_required'')
      else and_then (insert_intent \<lparr>pi_activity = i, pi_submission = wa_submission (cx_activity cx), pi_attempt = a,
             pi_observed_revision = ii_observed_revision x, pi_observed_tree = ii_observed_tree x,
             pi_result_revision = ii_result_revision x, pi_result_tree = ii_result_tree x,
             pi_created_by = ac_id (m_actor m), pi_created_at = now, pi_roster_revision = Some (cx_roster cx)\<rparr> d) (\<lambda>d1.
      and_then (activity_value d1 p i now) (\<lambda>av.
        finish m d1 (JActivity av) (Some p) ''integration.publication_intended'' i))))))))"

section \<open>Check receipts\<close>

text \<open>The loop over the selected jobs: \<open>seen\<close> are the jobs so far, \<open>found\<close> their check identities.\<close>

fun collect_checks ::
  "db \<Rightarrow> string \<Rightarrow> (job \<Rightarrow> bool) \<Rightarrow> string list \<Rightarrow> (string \<times> string \<times> string) list \<Rightarrow> string list \<Rightarrow> (string \<times> string \<times> string) list res" where
  "collect_checks d p ok seen found [] = Inr found"
| "collect_checks d p ok seen found (j # js) =
     (if j \<in> set seen then Inl (conflict ''duplicate_check_receipt'')
      else and_then (ok_or (conflict ''check_receipt_missing'') (fetch (\<lambda>x. jb_project x = p \<and> jb_id x = j) (jobs d))) (\<lambda>x.
      if \<not> ok x then Inl (conflict ''check_receipt_inapplicable'')
      else and_then (ok_or (conflict ''check_identity_missing'') (jb_check x)) (\<lambda>c.
      if c \<in> set found then Inl (conflict ''duplicate_check_identity'')
      else collect_checks d p ok (j # seen) (c # found) js)))"

definition validate_check_jobs :: "db \<Rightarrow> string \<Rightarrow> activity_context \<Rightarrow> string \<Rightarrow> string \<Rightarrow> string \<Rightarrow> string list \<Rightarrow> unit res" where
  "validate_check_jobs d p cx attempt result tree js =
     and_then (ok_or (conflict ''workflow_policy_missing'') (roster_of d p (cx_roster cx))) (\<lambda>roster.
     and_then (validate_checks roster) (\<lambda>_.
     if length js \<noteq> length roster \<or> length js > 100 then Inl (conflict ''required_checks_incomplete'')
     else and_then (collect_checks d p (proves_result (wa_activity_task (cx_activity cx)) attempt result tree) [] [] js) (\<lambda>actual.
     if set actual \<noteq> set (map check_tuple roster) then Inl (conflict ''required_checks_incomplete'') else Inr ())))"

section \<open>The result\<close>

definition validate_result :: "result_input \<Rightarrow> unit res" where
  "validate_result x =
     (if ui_publication_state x \<notin> set [''published'', ''not_published'', ''uncertain''] then Inl bad_request
      else and_then (bounded (ui_summary x) 16384 True) (\<lambda>_.
      and_then (valid_revision (ui_observed_revision x)) (\<lambda>_.
      and_then (valid_revision (ui_result_revision x)) (\<lambda>_. valid_revision (ui_result_tree x)))))"

definition publication_of :: "string \<Rightarrow> publication_state" where
  "publication_of s = (if s = ''published'' then Published else if s = ''not_published'' then Not_published else Uncertain)"

definition awaiting_reconciliation :: string where
  "awaiting_reconciliation = ''Publication outcome requires human reconciliation.''"

definition result_checks :: "task_digest \<Rightarrow> mutation \<Rightarrow> string \<Rightarrow> string \<Rightarrow> result_input \<Rightarrow> (activity_context \<times> string) res" where
  "result_checks dig m p i x =
     (let d = m_db m in
      and_then (owned_integration dig m p i (ui_generation x) (ui_submission x)) (\<lambda>cx.
      and_then (ok_or (conflict ''publication_intent_required'') (fetch (\<lambda>y. pi_activity y = i) (publication_intents d))) (\<lambda>y.
      if pi_observed_revision y \<noteq> ui_observed_revision x \<or> pi_result_revision y \<noteq> ui_result_revision x
           \<or> pi_result_tree y \<noteq> ui_result_tree x
        then Inl (conflict ''publication_intent_mismatch'')
      else and_then (current_attempt_id d (wa_activity_task (cx_activity cx))) (\<lambda>a.
      if pi_attempt y \<noteq> a then Inl (conflict ''publication_attempt_mismatch'')
      else and_then (if ui_publication_state x = ''published''
          then validate_check_jobs d p cx a (ui_result_revision x) (ui_result_tree x) (ui_check_jobs x)
          else if ui_check_jobs x \<noteq> [] then Inl bad_request else Inr ()) (\<lambda>_. Inr (cx, a))))))"

definition insert_result :: "integration_result \<Rightarrow> db \<Rightarrow> db res" where
  "insert_result r d = and_then (insert_unique unique_violation (\<lambda>a b. ir_activity a = ir_activity b) r (integration_results d))
     (\<lambda>rs. Inr (d\<lparr>integration_results := rs\<rparr>))"

definition integration_result_handler :: "task_digest \<Rightarrow> string \<Rightarrow> string \<Rightarrow> result_input \<Rightarrow> mutation \<Rightarrow> outcome res" where
  "integration_result_handler dig p i x m =
     (let d = m_db m; now = m_now m in
      replay_or m (
      and_then (result_checks dig m p i x) (\<lambda>(cx, a).
      and_then (insert_result \<lparr>ir_activity = i, ir_submission = wa_submission (cx_activity cx), ir_attempt = a,
          ir_publication_state = publication_of (ui_publication_state x), ir_observed_revision = ui_observed_revision x,
          ir_result_revision = ui_result_revision x, ir_result_tree = ui_result_tree x, ir_check_jobs = ui_check_jobs x,
          ir_summary = ui_summary x, ir_reported_by = ac_id (m_actor m), ir_created_at = now\<rparr> d) (\<lambda>d1.
      let d2 = (if ui_publication_state x = ''published'' then d1
            else end_activity_attempt (wa_activity_task (cx_activity cx)) a Blocked (ui_summary x) now
              (\<lambda>t. t\<lparr>tk_blocked_reason := Some awaiting_reconciliation\<rparr>)
              (update_activity i (\<lambda>w. w\<lparr>wa_state := Act_recovery_required\<rparr>) d1)) in
      and_then (activity_value d2 p i now) (\<lambda>av.
        finish m d2 (JActivity av) (Some p) ''integration.result_recorded'' i)))))"

section \<open>Reconciliation\<close>

definition validate_reconciliation :: "reconciliation_input \<Rightarrow> unit res" where
  "validate_reconciliation x =
     (if pc_disposition x \<notin> set [''published'', ''not_published'', ''target_moved''] then Inl bad_request
      else and_then (valid_revision (pc_observed_revision x)) (\<lambda>_.
      and_then (valid_revision (pc_observed_tree x)) (\<lambda>_. bounded (pc_evidence x) 16384 True)))"

text \<open>What a human's observation must show for each disposition.\<close>

definition disposition_agrees :: "reconciliation_input \<Rightarrow> publication_intent \<Rightarrow> publication_state option \<Rightarrow> unit res" where
  "disposition_agrees x y result =
     (if pc_disposition x = ''not_published'' \<and> result = Some Published then Inl (conflict ''publication_known'')
      else if pc_disposition x = ''not_published'' \<and> (pc_observed_revision x \<noteq> pi_observed_revision y
           \<or> pc_observed_tree x \<noteq> pi_observed_tree y \<or> pc_observed_revision x = pi_result_revision y)
        then Inl (conflict ''nonpublication_source_mismatch'')
      else if pc_disposition x = ''published'' \<and> (pc_observed_revision x \<noteq> pi_result_revision y
           \<or> pc_observed_tree x \<noteq> pi_result_tree y)
        then Inl (conflict ''integrated_source_mismatch'')
      else if pc_disposition x = ''target_moved'' \<and> (pc_observed_revision x = pi_result_revision y
           \<or> pc_observed_revision x = pi_observed_revision y)
        then Inl (conflict ''target_not_moved'')
      else Inr ())"

definition insert_reconciliation :: "publication_reconciliation \<Rightarrow> db \<Rightarrow> db res" where
  "insert_reconciliation r d =
     and_then (insert_unique unique_violation (\<lambda>a b. pb_activity a = pb_activity b) r (publication_reconciliations d))
       (\<lambda>rs. Inr (d\<lparr>publication_reconciliations := rs\<rparr>))"

text \<open>
  After either reconciliation the activity is retired: its hold is released, it is canceled, its task closed.
\<close>

definition retire_integration :: "mutation \<Rightarrow> activity_context \<Rightarrow> string \<Rightarrow> string \<Rightarrow> db \<Rightarrow> db res" where
  "retire_integration m cx reason detail d =
     (let i = wa_id (cx_activity cx); who = ac_id (m_actor m); now = m_now m;
          d1 = release_holds (\<lambda>a. a = i) who now reason d in
      and_then (cancel_context d1 (wa_submission (cx_activity cx))) (\<lambda>c.
      Inr (update_task (wa_activity_task (cx_activity cx))
            (\<lambda>t. t\<lparr>tk_lifecycle := Canceled, tk_current_attempt := None, tk_blocked_reason := None\<rparr>)
            (cancel_activities [i] who \<lparr>cn_code = ''publication_reconciled'', cn_detail = detail, cn_context = c\<rparr> now d1))))"

text \<open>
  The hold moves to a replacement, which waits in the next slot. \<open>ids\<close>: the replacement, its task and its hold.
\<close>

definition replace_integration ::
  "(nat \<Rightarrow> string) \<Rightarrow> mutation \<Rightarrow> string \<Rightarrow> activity_context \<Rightarrow> string \<Rightarrow> string \<Rightarrow> db \<Rightarrow> db res" where
  "replace_integration ids m p cx reason detail d =
     (let sub = wa_submission (cx_activity cx) in
      and_then (retire_integration m cx reason detail d) (\<lambda>d1.
      and_then (ok_or row_not_found (fetch (\<lambda>t. tk_id t = wa_subject_task (cx_activity cx)
           \<and> exists_where (\<lambda>r. pj_id r = tk_project t) (projects d1)) (tasks d1))) (\<lambda>t.
      and_then (create_activity (ids 0, ids 1) p (tk_id t) (tk_title t) sub Integration (next_slot d1 sub Integration) (m_now m) d1) (\<lambda>d2.
      and_then (ok_or (conflict ''workflow_policy_required'') (sb_key (cx_submission cx))) (\<lambda>key.
      and_then (ok_or (conflict ''target_required'') (sb_target_branch (cx_submission cx))) (\<lambda>branch.
      and_then (insert_unique unique_violation hold_clash
          \<lparr>ih_id = ids 2, ih_activity = ids 0, ih_repository = key, ih_target_branch = branch, ih_held = True,
           ih_acquired_by = ac_id (m_actor m), ih_acquired_at = m_now m, ih_released_by = None, ih_released_at = None,
           ih_reason = None\<rparr> (integration_holds d2)) (\<lambda>hs.
        Inr (d2\<lparr>integration_holds := hs\<rparr>))))))))"

definition result_state :: "db \<Rightarrow> string \<Rightarrow> publication_state option" where
  "result_state d i = map_option ir_publication_state (fetch (\<lambda>r. ir_activity r = i) (integration_results d))"

definition human_reconciled :: string where
  "human_reconciled = ''Publication reconciled by a human; replacement integration required.''"

definition reconcile_publication ::
  "task_digest \<Rightarrow> (nat \<Rightarrow> string) \<Rightarrow> string \<Rightarrow> string \<Rightarrow> reconciliation_input \<Rightarrow> mutation \<Rightarrow> outcome res" where
  "reconcile_publication dig ids p i x m =
     (let d = m_db m; now = m_now m in
      and_then (require_human (m_actor m) ''publication_reconciliation'') (\<lambda>_.
      and_then (activity_context_get dig d p i) (\<lambda>cx.
      and_then (ensure_agent_integration cx) (\<lambda>_.
      replay_or m (
      let sub = wa_submission (cx_activity cx) in
      if pc_submission x \<noteq> sub \<or> sub \<noteq> ws_current_submission (cx_subject cx)
        then Inl (conflict ''integration_candidate_mismatch'')
      else and_then (ok_or (conflict ''publication_intent_required'') (fetch (\<lambda>y. pi_activity y = i) (publication_intents d))) (\<lambda>y.
      and_then (disposition_agrees x y (result_state d i)) (\<lambda>_.
      and_then (insert_reconciliation \<lparr>pb_activity = i, pb_submission = sub, pb_disposition = pc_disposition x,
          pb_observed_revision = pc_observed_revision x, pb_observed_tree = pc_observed_tree x,
          pb_evidence = pc_evidence x, pb_actor = ac_id (m_actor m), pb_created_at = now\<rparr> d) (\<lambda>d1.
      let k = wa_activity_task (cx_activity cx);
          d2 = cancel_attempts (\<lambda>t. t = k) now human_reconciled d1 in
      and_then (replace_integration ids m p cx (''Human reconciliation: '' @ pc_disposition x)
          (''A human reconciled the publication as '' @ pc_disposition x @ ''; a replacement integration follows.'') d2) (\<lambda>d3.
      and_then (workflow_snapshot dig d3 p (wa_subject_task (cx_activity cx)) now) (\<lambda>v.
        finish m d3 (workflow_value v) (Some p) ''integration.publication_reconciled'' i))))))))))"

definition validate_agent_reconciliation :: "agent_reconciliation_input \<Rightarrow> unit res" where
  "validate_agent_reconciliation x =
     (if gr_disposition x \<notin> set [''published'', ''not_published''] then Inl bad_request
      else and_then (valid_revision (gr_observed_revision x)) (\<lambda>_.
      and_then (valid_revision (gr_observed_tree x)) (\<lambda>_.
      and_then (bounded (gr_key x) 255 True) (\<lambda>_.
      and_then (bounded (gr_target_branch x) 255 True) (\<lambda>_.
      and_then (bounded (gr_evidence x) 16384 True) (\<lambda>_.
      if \<not> gr_journal_verified x \<or> \<not> gr_publisher_stopped x then Inl (conflict ''publication_evidence_incomplete'')
      else Inr ()))))))"

definition OBSERVATION_MAX_AGE_MS :: int where "OBSERVATION_MAX_AGE_MS = 120000"

text \<open>The owner of an attempt can still act: its lease runs and its credential and session live.\<close>

definition owner_live :: "db \<Rightarrow> int \<Rightarrow> string \<Rightarrow> bool" where
  "owner_live d now attempt \<longleftrightarrow> exists_where (\<lambda>a. at_id a = attempt \<and> at_state a = Active \<and> at_expires_at a > now
     \<and> (case at_credential a of
          Some c \<Rightarrow> credential_live d now c \<and> agent_session_live d (at_session a) c
        | None \<Rightarrow> browser_live d now (at_session a))) (attempts d)"

definition producer_uncertain :: "db \<Rightarrow> int \<Rightarrow> string \<Rightarrow> bool" where
  "producer_uncertain d now attempt \<longleftrightarrow> owner_live d now attempt
     \<or> count_where (\<lambda>j. jb_attempt j = attempt \<and> jb_state j \<in> set [Registered, Running, Unknown]) (jobs d) \<noteq> 0
     \<or> count_where (\<lambda>r. rv_attempt r = attempt \<and> rv_state r = Held) (reservations d) \<noteq> 0"

definition agent_reconciliation_pins :: "mutation \<Rightarrow> string \<Rightarrow> activity_context \<Rightarrow> agent_reconciliation_input \<Rightarrow> unit res" where
  "agent_reconciliation_pins m p cx x =
     (let sub = wa_submission (cx_activity cx); now = m_now m in
      if gr_submission x \<noteq> sub \<or> sub \<noteq> ws_current_submission (cx_subject cx)
        then Inl (conflict ''integration_candidate_mismatch'')
      else if \<not> pins_current cx then Inl (conflict ''workflow_policy_changed'')
      else if pj_recovery_mode (cx_project cx) \<noteq> Recovery_agent then Inl (conflict ''agent_reconciliation_policy_disabled'')
      else and_then (ensure_activity_decisions m p cx) (\<lambda>_.
      if wa_kind (cx_activity cx) \<noteq> Integration
           \<or> (wa_state (cx_activity cx) \<noteq> Act_active \<and> wa_state (cx_activity cx) \<noteq> Act_recovery_required)
        then Inl (conflict ''activity_not_eligible'')
      else if gr_key x \<noteq> unwrap_or (sb_key (cx_submission cx)) []
           \<or> gr_target_branch x \<noteq> unwrap_or (sb_target_branch (cx_submission cx)) []
        then Inl (conflict ''publication_target_mismatch'')
      else if gr_observed_at x > now \<or> sat64 (now - gr_observed_at x) > OBSERVATION_MAX_AGE_MS
        then Inl (conflict ''publication_observation_stale'')
      else Inr ()))"

text \<open>Only the exact intended result or the exact saved target, with the hold still held, decide.\<close>

definition agent_reconciliation_evidence ::
  "mutation \<Rightarrow> string \<Rightarrow> activity_context \<Rightarrow> agent_reconciliation_input \<Rightarrow> publication_intent res" where
  "agent_reconciliation_evidence m p cx x =
     (let d = m_db m; i = wa_id (cx_activity cx); sub = wa_submission (cx_activity cx) in
      and_then (ok_or (conflict ''publication_intent_required'')
         (fetch (\<lambda>y. pi_activity y = i \<and> pi_submission y = sub) (publication_intents d))) (\<lambda>y.
      if gr_attempt x \<noteq> pi_attempt y \<or> map_option at_generation
           (fetch (\<lambda>a. at_id a = pi_attempt y \<and> at_project a = p) (attempts d)) \<noteq> Some (gr_generation x)
        then Inl (conflict ''publication_attempt_mismatch'')
      else if producer_uncertain d (m_now m) (pi_attempt y) then Inl (conflict ''publication_producer_uncertain'')
      else if result_state d i = Some Published \<or> result_state d i = Some Not_published
        then Inl (conflict ''publication_already_known'')
      else if (gr_observed_revision x, gr_observed_tree x) \<noteq> (if gr_disposition x = ''published''
             then (pi_result_revision y, pi_result_tree y) else (pi_observed_revision y, pi_observed_tree y))
        then Inl (conflict ''publication_observation_ambiguous'')
      else if \<not> hold_held d i then Inl (conflict ''integration_hold_required'')
      else Inr y))"

definition agent_reconciled :: string where
  "agent_reconciled = ''Publication reconciled by an agent from exact durable intent and fresh remote evidence; replacement integration required.''"

text \<open>\<open>show_int\<close> renders the time of the observation.\<close>

definition agent_evidence :: "(int \<Rightarrow> string) \<Rightarrow> agent_reconciliation_input \<Rightarrow> string" where
  "agent_evidence show_int x = ''agent observation; repository='' @ gr_key x @ ''; branch='' @ gr_target_branch x
     @ ''; observed_at='' @ show_int (gr_observed_at x)
     @ ''; local_journal_verified=true; publisher_stopped=true; '' @ gr_evidence x"

definition agent_reconcile_publication ::
  "(int \<Rightarrow> string) \<Rightarrow> task_digest \<Rightarrow> (nat \<Rightarrow> string) \<Rightarrow> string \<Rightarrow> string \<Rightarrow> agent_reconciliation_input \<Rightarrow> mutation \<Rightarrow> outcome res" where
  "agent_reconcile_publication show_int dig ids p i x m =
     (let d = m_db m; now = m_now m in
      if ac_kind (m_actor m) \<noteq> Agent then Inl forbidden
      else and_then (session_of (m_actor m)) (\<lambda>_.
      and_then (activity_context_get dig d p i) (\<lambda>cx.
      and_then (ensure_agent_integration cx) (\<lambda>_.
      replay_or m (
      and_then (agent_reconciliation_pins m p cx x) (\<lambda>_.
      and_then (agent_reconciliation_evidence m p cx x) (\<lambda>y.
      and_then (insert_reconciliation \<lparr>pb_activity = i, pb_submission = wa_submission (cx_activity cx),
          pb_disposition = gr_disposition x, pb_observed_revision = gr_observed_revision x,
          pb_observed_tree = gr_observed_tree x, pb_evidence = agent_evidence show_int x,
          pb_actor = ac_id (m_actor m), pb_created_at = now\<rparr> d) (\<lambda>d1.
      let d2 = d1\<lparr>attempts := update_where (\<lambda>a. at_id a = pi_attempt y \<and> at_state a = Active)
            (\<lambda>a. a\<lparr>at_state := Attempt_canceled, at_ended_at := Some now, at_outcome := Some agent_reconciled\<rparr>) (attempts d1)\<rparr> in
      and_then (replace_integration ids m p cx (''Agent reconciliation: '' @ gr_disposition x)
          (''An agent reconciled the publication as '' @ gr_disposition x
             @ '' from fresh remote evidence; a replacement integration follows.'') d2) (\<lambda>d3.
      and_then (workflow_snapshot dig d3 p (wa_subject_task (cx_activity cx)) now) (\<lambda>v.
        finish m d3 (workflow_value v) (Some p) ''integration.publication_reconciled'' i))))))))))"

section \<open>Finalization\<close>

definition validate_finalize :: "finalize_input \<Rightarrow> unit res" where
  "validate_finalize x = and_then (valid_revision (fz_observed_revision x)) (\<lambda>_. valid_revision (fz_observed_tree x))"

definition finalize_checks :: "task_digest \<Rightarrow> mutation \<Rightarrow> string \<Rightarrow> string \<Rightarrow> finalize_input \<Rightarrow> activity_context res" where
  "finalize_checks dig m p i x =
     (let d = m_db m in
      and_then (owned_integration dig m p i (fz_generation x) (fz_submission x)) (\<lambda>cx.
      and_then (ensure_approved d cx) (\<lambda>_.
      and_then (ensure_authorized d cx) (\<lambda>_.
      and_then (ok_or (conflict ''integration_result_required'') (fetch (\<lambda>r. ir_activity r = i) (integration_results d))) (\<lambda>r.
      if ir_publication_state r \<noteq> Published \<and> map_option pb_disposition
           (fetch (\<lambda>b. pb_activity b = i) (publication_reconciliations d)) \<noteq> Some ''published''
        then Inl (conflict ''publication_unresolved'')
      else if fz_observed_revision x \<noteq> ir_result_revision r \<or> fz_observed_tree x \<noteq> ir_result_tree r
        then Inl (conflict ''integrated_source_mismatch'')
      else and_then (validate_check_jobs d p cx (ir_attempt r) (ir_result_revision r) (ir_result_tree r) (ir_check_jobs r)) (\<lambda>_.
      and_then (ensure_attempt_quiescent d p (wa_subject_task (cx_activity cx))) (\<lambda>_.
      and_then (ensure_attempt_quiescent d p (wa_activity_task (cx_activity cx))) (\<lambda>_. Inr cx))))))))"

definition finalize :: "task_digest \<Rightarrow> string \<Rightarrow> string \<Rightarrow> finalize_input \<Rightarrow> mutation \<Rightarrow> outcome res" where
  "finalize dig p i x m =
     (let d = m_db m; now = m_now m in
      replay_or m (
      and_then (finalize_checks dig m p i x) (\<lambda>cx.
      let k = wa_activity_task (cx_activity cx); t = wa_subject_task (cx_activity cx) in
      and_then (current_attempt_id d k) (\<lambda>a.
      let d1 = update_attempt a (\<lambda>y. y\<lparr>at_state := Submitted, at_ended_at := Some now,
                 at_outcome := Some ''Exact integrated result validated.''\<rparr>) d;
          d2 = d1\<lparr>tasks := update_where (\<lambda>y. tk_id y = k \<or> tk_id y = t)
                 (\<lambda>y. y\<lparr>tk_lifecycle := Done, tk_current_attempt := None, tk_blocked_reason := None\<rparr>) (tasks d1)\<rparr>;
          d3 = set_phase t Phase_done now (update_activity i (\<lambda>w. w\<lparr>wa_state := Act_completed, wa_completed_at := Some now\<rparr>) d2);
          d4 = ready_dependents t now (release_holds (\<lambda>y. y = i) (ac_id (m_actor m)) now ''Exact integrated result completed.'' d3) in
      and_then (workflow_snapshot dig d4 p t now) (\<lambda>v.
        finish m d4 (workflow_value v) (Some p) ''integration.completed'' i)))))"

section \<open>Steps\<close>

lemma owned_integration_Inr:
  assumes "owned_integration dig m p i gen sub = Inr cx"
  shows "owned_activity dig m p i gen Integration = Inr cx" "wa_submission (cx_activity cx) = sub"
    "ensure_activity_decisions m p cx = Inr ()"
  using assms by (auto simp: owned_integration_def split: if_splits)

lemma authorize_integration_commits: "commits lease_step m (authorize_integration dig p i x m)"
  unfolding authorize_integration_def Let_def
  by (intro commits_intros; (assumption | simp add: write_authorization_def lease_step_refl split: option.split))

lemma publication_intent_handler_commits: "commits lease_step m (publication_intent_handler dig p i x m)"
  unfolding publication_intent_handler_def Let_def
  by (intro commits_intros; hypsubst?; (assumption | auto simp: insert_intent_def lease_step_refl))

lemma result_checks_Inr:
  assumes "result_checks dig m p i x = Inr (cx, a)"
  shows "owned_activity dig m p i (ui_generation x) Integration = Inr cx"
    "current_attempt_id (m_db m) (wa_activity_task (cx_activity cx)) = Inr a"
  using assms by (auto simp: result_checks_def Let_def split: if_splits dest: owned_integration_Inr)

lemma integration_result_step:
  assumes chk: "result_checks dig m p i x = Inr (cx, a)" and ins: "insert_result r (m_db m) = Inr d1"
  shows "lease_step (m_db m) (if b then d1
            else end_activity_attempt (wa_activity_task (cx_activity cx)) a Blocked s now
              (\<lambda>t. t\<lparr>tk_blocked_reason := Some y\<rparr>) (update_activity i f d1))"
proof -
  have s: "lease_step (m_db m) d1" "attempts (update_activity i f d1) = attempts (m_db m)"
    "tasks (update_activity i f d1) = tasks (m_db m)"
    using ins by (auto simp: insert_result_def lease_step_refl update_activity_def)
  have "holder (update_activity i f d1) a (wa_activity_task (cx_activity cx))"
    using owned_activity_holder [OF result_checks_Inr [OF chk]] by (simp add: holder_same [OF s(2,3)])
  then have "lease_step (m_db m) (end_activity_attempt (wa_activity_task (cx_activity cx)) a Blocked s now
              (\<lambda>t. t\<lparr>tk_blocked_reason := Some y\<rparr>) (update_activity i f d1))"
    by (rule lease_step_end_activity [rotated]) (simp_all add: s(1) task_key_def closed_def)
  with s(1) show ?thesis by simp
qed

lemma integration_result_handler_commits: "commits lease_step m (integration_result_handler dig p i x m)"
  unfolding integration_result_handler_def Let_def
  by (intro commits_intros; hypsubst?; (assumption | rule integration_result_step; assumption))

text \<open>A closed task may forget its attempt.\<close>

lemma lease_step_forget_closed:
  assumes "lease_step a d"
    and "\<And>t. tk_id (g t) = tk_id t \<and> tk_project (g t) = tk_project t \<and> tk_generation (g t) = tk_generation t
        \<and> tk_current_attempt (g t) = None \<and> tk_budget_admitted_at (g t) = tk_budget_admitted_at t \<and> closed (g t)"
  shows "lease_step a (d\<lparr>tasks := update_where P g (tasks d)\<rparr>)"
proof (rule lease_step_tasks [OF assms(1)])
  show "task_change (attempts d) t (g t)" for t using assms(2) [of t] by (simp add: task_change_def)
  show "budget_key (g t) = budget_key t" for t using assms(2) [of t] by (simp add: budget_key_def)
qed

lemma retire_integration_step:
  assumes "retire_integration m cx reason detail d = Inr d'" and "lease_step a d"
  shows "lease_step a d'"
proof -
  from assms(1) obtain why where d': "d' = update_task (wa_activity_task (cx_activity cx))
      (\<lambda>t. t\<lparr>tk_lifecycle := Canceled, tk_current_attempt := None, tk_blocked_reason := None\<rparr>)
      (cancel_activities [wa_id (cx_activity cx)] (ac_id (m_actor m)) why (m_now m)
         (release_holds (\<lambda>a. a = wa_id (cx_activity cx)) (ac_id (m_actor m)) (m_now m) reason d))"
    unfolding retire_integration_def Let_def by (auto simp del: cancel_activities.simps)
  show ?thesis
    unfolding d' update_task_def
    by (rule lease_step_forget_closed, rule lease_step_cancel_activities) (simp_all add: assms(2) closed_def)
qed

lemma replace_integration_step:
  assumes "replace_integration ids m p cx reason detail d = Inr d'" and "lease_step a d"
  shows "lease_step a d'"
  using assms unfolding replace_integration_def Let_def
  by (auto dest!: retire_integration_step [OF _ assms(2)] elim!: lease_step_create_activity)

lemma insert_reconciliation_step:
  "insert_reconciliation r d = Inr d' \<Longrightarrow> lease_step a d' = lease_step a d"
  by (auto simp: insert_reconciliation_def)

lemma reconcile_publication_commits: "commits lease_step m (reconcile_publication dig ids p i x m)"
  unfolding reconcile_publication_def Let_def
  by (intro commits_intros; hypsubst?;
      (assumption | erule replace_integration_step, rule lease_step_cancel_attempts,
         simp add: insert_reconciliation_step lease_step_refl))

lemma agent_reconcile_publication_commits: "commits lease_step m (agent_reconcile_publication show_int dig ids p i x m)"
  unfolding agent_reconcile_publication_def Let_def
  by (intro commits_intros; hypsubst?;
      (assumption | erule replace_integration_step, rule lease_step_attempts;
         simp add: insert_reconciliation_step lease_step_refl attempt_forward_def))

lemma finalize_step:
  assumes chk: "finalize_checks dig m p i x = Inr cx"
    and cur: "current_attempt_id (m_db m) (wa_activity_task (cx_activity cx)) = Inr a"
  shows "lease_step (m_db m) (ready_dependents t now (release_holds P who now reason (set_phase t ph now (update_activity i f
    ((update_attempt a (\<lambda>y. y\<lparr>at_state := Submitted, at_ended_at := e, at_outcome := oc\<rparr>) (m_db m))\<lparr>tasks :=
       update_where Q (\<lambda>y. y\<lparr>tk_lifecycle := Done, tk_current_attempt := None, tk_blocked_reason := None\<rparr>)
       (tasks (update_attempt a (\<lambda>y. y\<lparr>at_state := Submitted, at_ended_at := e, at_outcome := oc\<rparr>) (m_db m)))\<rparr>)))))"
proof -
  from chk obtain gen where own: "owned_activity dig m p i gen Integration = Inr cx"
    by (auto simp: finalize_checks_def Let_def split: if_splits dest: owned_integration_Inr)
  have "lease_step (m_db m) (update_attempt a (\<lambda>y. y\<lparr>at_state := Submitted, at_ended_at := e, at_outcome := oc\<rparr>) (m_db m))"
    using holder_rows(1) [OF _ owned_activity_holder [OF own cur]]
    by (intro lease_step_update_attempt [OF lease_step_refl]) (simp add: attempt_forward_def)
  then show ?thesis
    by (intro lease_step_ready) (simp add: lease_step_forget_closed closed_def)
qed

lemma finalize_commits: "commits lease_step m (finalize dig p i x m)"
  unfolding finalize_def Let_def
  by (intro commits_intros; hypsubst?; (assumption | rule finalize_step; assumption))

interpretation authorization: replay_safe "authorize_integration dig p i x" for dig p i x
  by (rule commits_replay_safe [OF authorize_integration_commits lease_step_audited])

interpretation intending: replay_safe "publication_intent_handler dig p i x" for dig p i x
  by (rule commits_replay_safe [OF publication_intent_handler_commits lease_step_audited])

interpretation result_report: replay_safe "integration_result_handler dig p i x" for dig p i x
  by (rule commits_replay_safe [OF integration_result_handler_commits lease_step_audited])

interpretation reconciliation: replay_safe "reconcile_publication dig ids p i x" for dig ids p i x
  by (rule commits_replay_safe [OF reconcile_publication_commits lease_step_audited])

interpretation agent_reconciliation: replay_safe "agent_reconcile_publication show_int dig ids p i x" for show_int dig ids p i x
  by (rule commits_replay_safe [OF agent_reconcile_publication_commits lease_step_audited])

interpretation finalization: replay_safe "finalize dig p i x" for dig p i x
  by (rule commits_replay_safe [OF finalize_commits lease_step_audited])

end
