(* ===== verification/Decisions.thy ===== *)
theory Decisions
  imports Workflow_Integrate
begin

text \<open>
  Scoped decisions (\<^verbatim>\<open>server/src/knowledge.rs\<close>): opening one for exact task and policy revisions, answering
  its current generation, directly or relayed by an agent, and reopening it as a new generation.
\<close>

type_synonym scope_input = "(string \<times> int) list"

record decision_input =
  de_question :: string
  de_options :: "string list"
  de_rationale :: string
  de_required_actor :: string
  de_tasks :: scope_input
  de_policy_revision :: int
  de_environment :: string
  de_conditions :: string
  de_expires_at :: "int option"
  de_recommendation :: "string option"
  de_reversible :: bool

record decision_answer_input =
  an_expected_generation :: int
  an_disposition :: string
  an_answer :: string
  an_rationale :: string
  an_conditions_confirmed :: bool
  an_relay :: "(string \<times> string) option"

record decision_reopen_input =
  dr_expected_generation :: int
  dr_rationale :: string
  dr_tasks :: scope_input
  dr_policy_revision :: int
  dr_environment :: string
  dr_conditions :: string
  dr_expires_at :: "int option"

section \<open>Checks\<close>

fun unique_scope :: "string list \<Rightarrow> scope_input \<Rightarrow> unit res" where
  "unique_scope seen [] = Inr ()"
| "unique_scope seen ((i, r) # ts) =
     and_then (bounded i 128 True) (\<lambda>_.
     if r \<le> 0 \<or> i \<in> set seen then Inl bad_request else unique_scope (i # seen) ts)"

definition validate_decision_tasks :: "scope_input \<Rightarrow> unit res" where
  "validate_decision_tasks ts = (if ts = [] \<or> length ts > 100 then Inl bad_request else unique_scope [] ts)"

definition validate_decision :: "decision_input \<Rightarrow> unit res" where
  "validate_decision x =
     and_then (bounded (de_question x) 4096 True) (\<lambda>_.
     and_then (bounded (de_rationale x) 8192 True) (\<lambda>_.
     and_then (bounded (de_environment x) 2048 False) (\<lambda>_.
     and_then (bounded (de_conditions x) 4096 False) (\<lambda>_.
     if de_required_actor x \<notin> set [''human'', ''agent'', ''either''] then Inl bad_request
     else if length (de_options x) < 2 \<or> length (de_options x) > 20 then Inl bad_request
     else and_then (unique_values id 2048 [] (de_options x)) (\<lambda>_.
     if is_some_and (de_recommendation x) (\<lambda>r. r \<notin> set (de_options x)) then Inl bad_request
     else if de_reversible x \<and> de_recommendation x = None then Inl bad_request
     else and_then (validate_decision_tasks (de_tasks x)) (\<lambda>_.
     if de_policy_revision x \<le> 0 then Inl bad_request else Inr ()))))))"

definition scope_held :: "db \<Rightarrow> string \<Rightarrow> scope_input \<Rightarrow> bool" where
  "scope_held d p ts \<longleftrightarrow> exists_where (\<lambda>h. ih_held h \<and> exists_where (\<lambda>w. wa_id w = ih_activity h \<and> wa_project w = p
     \<and> list_ex (\<lambda>(i, r). wa_subject_task w = i \<or> wa_activity_task w = i) ts) (workflow_activities d)) (integration_holds d)"

definition scope_task_current :: "db \<Rightarrow> string \<Rightarrow> string \<times> int \<Rightarrow> unit res" where
  "scope_task_current d p x =
     and_then (ok_or bad_request (fetch (\<lambda>t. tk_project t = p \<and> tk_id t = fst x) (tasks d))) (\<lambda>t.
     if tk_revision t \<noteq> snd x then Inl (conflict ''revision_conflict'') else Inr ())"

definition validate_decision_scope :: "db \<Rightarrow> string \<Rightarrow> int \<Rightarrow> scope_input \<Rightarrow> unit res" where
  "validate_decision_scope d p policy ts =
     and_then (require_project d p) (\<lambda>current.
     if current \<noteq> policy then Inl (conflict ''revision_conflict'')
     else and_then (check_all (scope_task_current d p) ts) (\<lambda>_.
     if scope_held d p ts then Inl (conflict ''policy_hold_conflict'') else Inr ()))"

definition refuse_agent_reversible_human_decision :: "actor \<Rightarrow> string \<Rightarrow> bool \<Rightarrow> unit res" where
  "refuse_agent_reversible_human_decision a required reversible =
     (if ac_kind a = Agent \<and> required = ''human'' \<and> reversible then Inl bad_request else Inr ())"

section \<open>The view\<close>

text \<open>The scope changed when the rules text or the judged fields of an affected task did.\<close>

fun tasks_changed :: "task_digest \<Rightarrow> db \<Rightarrow> decision_task list \<Rightarrow> bool res" where
  "tasks_changed dig d [] = Inr False"
| "tasks_changed dig d (s # ss) =
     (case fetch (\<lambda>t. tk_id t = dt_task s) (tasks d) of
        None \<Rightarrow> tasks_changed dig d ss
      | Some t \<Rightarrow>
          if dt_task_revision s = tk_revision t then tasks_changed dig d ss
          else and_then (current_task_digest dig d (dt_task s)) (\<lambda>current.
            if is_none_or (revision_task_digest dig d (dt_task s) (dt_task_revision s)) (\<lambda>r. r \<noteq> current) then Inr True
            else tasks_changed dig d ss))"

definition decision_scope_changed :: "task_digest \<Rightarrow> db \<Rightarrow> string \<Rightarrow> int \<Rightarrow> bool res" where
  "decision_scope_changed dig d i gen =
     and_then (ok_or row_not_found (fetch (\<lambda>x. dc_id x = i) (decisions d))) (\<lambda>dec.
     and_then (ok_or row_not_found (fetch (\<lambda>c. dy_decision c = i \<and> dy_generation c = gen) (decision_cycles d))) (\<lambda>c.
     and_then (ok_or row_not_found (fetch (\<lambda>p. pj_id p = dc_project dec) (projects d))) (\<lambda>proj.
     if rules_changed d c proj then Inr True
     else tasks_changed dig d (rows (\<lambda>s. dt_decision s = i \<and> dt_generation s = gen) (decision_tasks d)))))"

fun decision_status :: "bool \<Rightarrow> int option \<Rightarrow> decision_answer option \<Rightarrow> int \<Rightarrow> string" where
  "decision_status stale expires answer now =
     (if stale then ''stale''
      else if is_some_and expires (\<lambda>e. e \<le> now) then ''expired''
      else case answer of
        None \<Rightarrow> ''pending''
      | Some a \<Rightarrow> (if da_disposition a = Allow \<and> da_conditions_confirmed a then ''allowed''
                   else if da_disposition a = Deny then ''denied'' else ''deferred''))"

definition answer_of :: "db \<Rightarrow> string \<Rightarrow> int \<Rightarrow> decision_answer option" where
  "answer_of d i gen = fetch (\<lambda>a. da_decision a = i \<and> da_generation a = gen) (decision_answers d)"

definition decision_history :: "db \<Rightarrow> string \<Rightarrow> (decision_cycle \<times> decision_answer option) list" where
  "decision_history d i =
     take 200 (map (\<lambda>c. (c, answer_of d i (dy_generation c)))
       (rev (sort_key dy_generation (rows (\<lambda>c. dy_decision c = i) (decision_cycles d)))))"

definition decision_value :: "task_digest \<Rightarrow> db \<Rightarrow> string \<Rightarrow> string \<Rightarrow> int \<Rightarrow> decision_view res" where
  "decision_value dig d p i now =
     and_then (ok_or not_found (fetch (\<lambda>x. dc_project x = p \<and> dc_id x = i) (decisions d))) (\<lambda>dec.
     let gen = dc_generation dec in
     and_then (ok_or row_not_found (fetch (\<lambda>c. dy_decision c = i \<and> dy_generation c = gen) (decision_cycles d))) (\<lambda>c.
     and_then (decision_scope_changed dig d i gen) (\<lambda>stale.
     Inr \<lparr>vd_decision = dec, vd_cycle = c, vd_answer = answer_of d i gen,
          vd_tasks = sort_key fst (List.map_filter (\<lambda>s. map_option (\<lambda>t. (dt_task s, dt_task_revision s, tk_revision t))
             (fetch (\<lambda>t. tk_project t = dt_project s \<and> tk_id t = dt_task s) (tasks d)))
             (rows (\<lambda>s. dt_decision s = i \<and> dt_generation s = gen) (decision_tasks d))),
          vd_status = decision_status stale (dy_expires_at c) (answer_of d i gen) now,
          vd_history = decision_history d i\<rparr>)))"

section \<open>Opening a generation\<close>

fun repair_decision_task_revisions :: "mutation \<Rightarrow> string \<Rightarrow> scope_input \<Rightarrow> db \<Rightarrow> db res" where
  "repair_decision_task_revisions m p [] d = Inr d"
| "repair_decision_task_revisions m p ((i, r) # ts) d =
     (if exists_where (\<lambda>n. tn_task n = i \<and> tn_revision n = r) (task_revisions d)
      then repair_decision_task_revisions m p ts d
      else and_then (save_task_revision m p i d) (\<lambda>(_, d1).
        repair_decision_task_revisions m p ts (d1\<lparr>task_revisions := update_where (\<lambda>n. tn_task n = i \<and> tn_revision n = r)
          (\<lambda>n. n\<lparr>tn_repaired := True\<rparr>) (task_revisions d1)\<rparr>)))"

fun insert_decision_tasks :: "string \<Rightarrow> int \<Rightarrow> string \<Rightarrow> scope_input \<Rightarrow> db \<Rightarrow> db res" where
  "insert_decision_tasks i gen p [] d = Inr d"
| "insert_decision_tasks i gen p ((t, r) # ts) d =
     and_then (insert_unique unique_violation
         (\<lambda>a b. dt_decision a = dt_decision b \<and> dt_generation a = dt_generation b \<and> dt_task a = dt_task b)
         \<lparr>dt_decision = i, dt_generation = gen, dt_project = p, dt_task = t, dt_task_revision = r\<rparr>
         (decision_tasks d)) (\<lambda>ss.
     insert_decision_tasks i gen p ts (d\<lparr>decision_tasks := ss\<rparr>))"

definition open_cycle :: "decision_cycle \<Rightarrow> string \<Rightarrow> scope_input \<Rightarrow> db \<Rightarrow> db res" where
  "open_cycle c p ts d =
     and_then (insert_unique unique_violation (\<lambda>a b. dy_decision a = dy_decision b \<and> dy_generation a = dy_generation b)
         c (decision_cycles d)) (\<lambda>cs.
     insert_decision_tasks (dy_decision c) (dy_generation c) p ts (d\<lparr>decision_cycles := cs\<rparr>))"

definition create_decision :: "task_digest \<Rightarrow> string \<Rightarrow> string \<Rightarrow> decision_input \<Rightarrow> mutation \<Rightarrow> outcome res" where
  "create_decision dig uuid p x m =
     (let d = m_db m; now = m_now m; who = ac_id (m_actor m) in
      and_then (refuse_agent_reversible_human_decision (m_actor m) (de_required_actor x) (de_reversible x)) (\<lambda>_.
      if is_some_and (de_expires_at x) (\<lambda>e. e \<le> now) then Inl bad_request
      else and_then (validate_decision_scope d p (de_policy_revision x) (de_tasks x)) (\<lambda>_.
      replay_or m (
      and_then (repair_decision_task_revisions m p (de_tasks x) d) (\<lambda>d1.
      and_then (insert_unique unique_violation (\<lambda>a b. dc_id a = dc_id b)
          \<lparr>dc_id = uuid, dc_project = p, dc_question = de_question x, dc_options = de_options x,
           dc_rationale = de_rationale x, dc_required_actor = de_required_actor x, dc_generation = 1,
           dc_created_by = who, dc_created_at = now, dc_recommendation = de_recommendation x,
           dc_reversible = de_reversible x\<rparr> (decisions d1)) (\<lambda>ds.
      and_then (open_cycle \<lparr>dy_decision = uuid, dy_generation = 1, dy_policy_revision = de_policy_revision x,
          dy_environment = de_environment x, dy_conditions = de_conditions x, dy_expires_at = de_expires_at x,
          dy_rationale = de_rationale x, dy_opened_by = who, dy_created_at = now\<rparr> p (de_tasks x) (d1\<lparr>decisions := ds\<rparr>)) (\<lambda>d2.
      and_then (decision_value dig d2 p uuid now) (\<lambda>v.
        finish m d2 (JDecision v) (Some p) ''decision.created'' uuid))))))))"

section \<open>Answering\<close>

definition validate_decision_answer :: "decision_answer_input \<Rightarrow> unit res" where
  "validate_decision_answer x =
     and_then (bounded (an_answer x) 2048 True) (\<lambda>_.
     and_then (bounded (an_rationale x) 8192 True) (\<lambda>_.
     if an_disposition x \<notin> set [''allow'', ''deny'', ''defer''] then Inl bad_request
     else if an_disposition x = ''allow'' \<and> \<not> an_conditions_confirmed x then Inl bad_request
     else optional (\<lambda>(prompt, response). and_then (bounded prompt 8192 True) (\<lambda>_. bounded response 4096 True)) (an_relay x)))"

definition disposition_of :: "string \<Rightarrow> disposition" where
  "disposition_of s = (if s = ''allow'' then Allow else if s = ''deny'' then Deny else Defer)"

text \<open>The revision that began the unbroken run of policies that allow relaying, and its author.\<close>

definition relay_authority_for :: "db \<Rightarrow> string \<Rightarrow> (string \<times> int) option res" where
  "relay_authority_for d p =
     and_then (ok_or not_found (fetch (\<lambda>x. pj_id x = p) (projects d))) (\<lambda>proj.
     if \<not> pj_allow_relayed_human_answers proj then Inr None
     else let off = map pv_revision (rows (\<lambda>v. pv_project v = p \<and> \<not> pj_allow_relayed_human_answers (pv_data v)) (policy_revisions d));
              last = (if off = [] then 0 else Max (set off)) in
       Inr (case sort_key pv_revision (rows (\<lambda>v. pv_project v = p \<and> pv_revision v > last) (policy_revisions d)) of
           [] \<Rightarrow> None
         | v # _ \<Rightarrow> Some (pv_actor v, pv_revision v)))"

definition ensure_decision_scope_current :: "db \<Rightarrow> string \<Rightarrow> string \<Rightarrow> int \<Rightarrow> int \<Rightarrow> int \<Rightarrow> int option \<Rightarrow> unit res" where
  "ensure_decision_scope_current d p i gen policy now expires =
     (if is_some_and expires (\<lambda>e. e \<le> now) then Inl (conflict ''decision_expired'')
      else and_then (require_project d p) (\<lambda>current.
      if current \<noteq> policy then Inl (conflict ''decision_scope_stale'')
      else if exists_where (\<lambda>s. dt_decision s = i \<and> dt_generation s = gen
           \<and> exists_where (\<lambda>t. tk_project t = dt_project s \<and> tk_id t = dt_task s
                \<and> (dt_project s \<noteq> p \<or> dt_task_revision s \<noteq> tk_revision t)) (tasks d)) (decision_tasks d)
        then Inl (conflict ''decision_scope_stale'')
      else Inr ()))"

text \<open>Who may answer: the required actor, or an agent session relaying a human under an enabled policy.\<close>

definition answer_authority :: "mutation \<Rightarrow> string \<Rightarrow> string \<Rightarrow> decision_answer_input \<Rightarrow> (string \<times> int) option res" where
  "answer_authority m p required x =
     (let actor = m_actor m in
      and_then
        (if an_relay x \<noteq> None then
           (if required \<noteq> ''human'' \<or> ac_kind actor \<noteq> Agent then Inl bad_request
            else and_then (relay_authority_for (m_db m) p) (\<lambda>r.
              if r = None then Inl (human_gate ''relayed_human_answers_disabled'') else Inr r))
         else if (required = ''human'' \<and> ac_kind actor \<noteq> Human) \<or> (required = ''agent'' \<and> ac_kind actor \<noteq> Agent)
           then Inl forbidden
         else Inr None) (\<lambda>r.
      if ac_kind actor = Agent \<and> ac_session actor = None then Inl forbidden else Inr r))"

definition answer_row :: "mutation \<Rightarrow> string \<Rightarrow> int \<Rightarrow> decision_answer_input \<Rightarrow> (string \<times> int) option \<Rightarrow> decision_answer" where
  "answer_row m i gen x relay_from =
     \<lparr>da_decision = i, da_generation = gen, da_disposition = disposition_of (an_disposition x), da_answer = an_answer x,
      da_rationale = an_rationale x, da_actor = ac_id (m_actor m), da_session = ac_session (m_actor m),
      da_conditions_confirmed = an_conditions_confirmed x, da_created_at = m_now m,
      da_relay = (case (an_relay x, relay_from) of
          (Some (prompt, response), Some (who, r)) \<Rightarrow> Some (prompt, response, who, r)
        | _ \<Rightarrow> None),
      da_timed_out = False\<rparr>"

definition answer_decision :: "task_digest \<Rightarrow> string \<Rightarrow> string \<Rightarrow> decision_answer_input \<Rightarrow> mutation \<Rightarrow> outcome res" where
  "answer_decision dig p i x m =
     (let d = m_db m; now = m_now m in
      and_then (ok_or not_found (fetch (\<lambda>y. dc_project y = p \<and> dc_id y = i) (decisions d))) (\<lambda>dec.
      let gen = dc_generation dec in
      and_then (ok_or not_found (fetch (\<lambda>c. dy_decision c = i \<and> dy_generation c = gen) (decision_cycles d))) (\<lambda>c.
      if gen \<noteq> an_expected_generation x then Inl (conflict ''generation_conflict'')
      else and_then (answer_authority m p (dc_required_actor dec) x) (\<lambda>r.
      and_then (ensure_decision_scope_current d p i gen (dy_policy_revision c) now (dy_expires_at c)) (\<lambda>_.
      if an_answer x \<notin> set (dc_options dec) then Inl bad_request
      else replay_or m (
      and_then (insert_unique unique_violation (\<lambda>a b. da_decision a = da_decision b \<and> da_generation a = da_generation b)
          (answer_row m i gen x r) (decision_answers d)) (\<lambda>as.
      let d1 = d\<lparr>decision_answers := as\<rparr> in
      and_then (decision_value dig d1 p i now) (\<lambda>v.
        finish m d1 (JDecision v) (Some p) ''decision.answered'' i))))))))"

section \<open>Reopening\<close>

definition validate_decision_reopen :: "decision_reopen_input \<Rightarrow> unit res" where
  "validate_decision_reopen x =
     and_then (bounded (dr_rationale x) 8192 True) (\<lambda>_.
     and_then (bounded (dr_environment x) 2048 False) (\<lambda>_.
     and_then (bounded (dr_conditions x) 4096 False) (\<lambda>_.
     and_then (validate_decision_tasks (dr_tasks x)) (\<lambda>_.
     if dr_policy_revision x \<le> 0 then Inl bad_request else Inr ()))))"

definition reopen_decision :: "task_digest \<Rightarrow> string \<Rightarrow> string \<Rightarrow> decision_reopen_input \<Rightarrow> mutation \<Rightarrow> outcome res" where
  "reopen_decision dig p i x m =
     (let d = m_db m; now = m_now m in
      replay_or m (
      if is_some_and (dr_expires_at x) (\<lambda>e. e \<le> now) then Inl bad_request
      else and_then (ok_or not_found (fetch (\<lambda>y. dc_project y = p \<and> dc_id y = i) (decisions d))) (\<lambda>dec.
      if dc_generation dec \<noteq> dr_expected_generation x then Inl (conflict ''generation_conflict'')
      else and_then (refuse_agent_reversible_human_decision (m_actor m) (dc_required_actor dec) (dc_reversible dec)) (\<lambda>_.
      and_then (validate_decision_scope d p (dr_policy_revision x) (dr_tasks x)) (\<lambda>_.
      and_then (repair_decision_task_revisions m p (dr_tasks x) d) (\<lambda>d1.
      let n = dc_generation dec + 1 in
      and_then (open_cycle \<lparr>dy_decision = i, dy_generation = n, dy_policy_revision = dr_policy_revision x,
          dy_environment = dr_environment x, dy_conditions = dr_conditions x, dy_expires_at = dr_expires_at x,
          dy_rationale = dr_rationale x, dy_opened_by = ac_id (m_actor m), dy_created_at = now\<rparr> p (dr_tasks x) d1) (\<lambda>d2.
      let d3 = d2\<lparr>decisions := update_where (\<lambda>y. dc_id y = i) (\<lambda>y. y\<lparr>dc_generation := n\<rparr>) (decisions d2)\<rparr> in
      and_then (decision_value dig d3 p i now) (\<lambda>v.
        finish m d3 (JDecision v) (Some p) ''decision.reopened'' i))))))))"

section \<open>Decisions touch no lease\<close>

lemma lease_step_decisions [lease_frame, simp]:
  "lease_step a (d\<lparr>decisions := x1\<rparr>) = lease_step a d"
  "lease_step a (d\<lparr>decision_cycles := x2\<rparr>) = lease_step a d"
  "lease_step a (d\<lparr>decision_tasks := x3\<rparr>) = lease_step a d"
  "lease_step a (d\<lparr>decision_answers := x4\<rparr>) = lease_step a d"
  by (simp_all add: lease_step_def audited_def leases_ok_def leases_forward_def edges_def budget_kept_def)

lemma repair_step: "repair_decision_task_revisions m p ts d = Inr d' \<Longrightarrow> lease_step a d \<Longrightarrow> lease_step a d'"
proof (induction ts arbitrary: d)
  case (Cons x ts)
  obtain i r where x: "x = (i, r)" by (cases x)
  show ?case
  proof (cases "exists_where (\<lambda>n. tn_task n = i \<and> tn_revision n = r) (task_revisions d)")
    case True
    with Cons x show ?thesis by simp
  next
    case False
    with Cons.prems x obtain v d1 rs where "save_task_revision m p i d = Inr (v, d1)"
      and rest: "repair_decision_task_revisions m p ts (d1\<lparr>task_revisions := rs\<rparr>) = Inr d'" by auto
    with Cons.prems(2) have "lease_step a (d1\<lparr>task_revisions := rs\<rparr>)" by (simp add: lease_step_save)
    with rest show ?thesis by (rule Cons.IH)
  qed
qed simp

lemma insert_decision_tasks_step: "insert_decision_tasks i gen p ts d = Inr d' \<Longrightarrow> lease_step a d' = lease_step a d"
proof (induction ts arbitrary: d)
  case (Cons x ts)
  obtain t r where "x = (t, r)" by (cases x)
  with Cons.prems obtain ss where "insert_decision_tasks i gen p ts (d\<lparr>decision_tasks := ss\<rparr>) = Inr d'" by auto
  from Cons.IH [OF this] show ?case by simp
qed simp

lemma open_cycle_step: "open_cycle c p ts d = Inr d' \<Longrightarrow> lease_step a d' = lease_step a d"
  by (auto simp: open_cycle_def dest: insert_decision_tasks_step)

lemma create_decision_commits: "commits lease_step m (create_decision dig uuid p x m)"
  unfolding create_decision_def Let_def
  by (intro commits_intros; hypsubst?;
      (assumption | simp add: open_cycle_step; erule repair_step, rule lease_step_refl))

lemma answer_decision_commits: "commits lease_step m (answer_decision dig p i x m)"
  unfolding answer_decision_def Let_def
  by (intro commits_intros; (assumption | simp add: lease_step_refl))

lemma reopen_decision_commits: "commits lease_step m (reopen_decision dig p i x m)"
  unfolding reopen_decision_def Let_def
  by (intro commits_intros; hypsubst?;
      (assumption | simp add: open_cycle_step; erule repair_step, rule lease_step_refl))

interpretation decision_creation: replay_safe "create_decision dig uuid p x" for dig uuid p x
  by (rule commits_replay_safe [OF create_decision_commits lease_step_audited])

interpretation decision_answering: replay_safe "answer_decision dig p i x" for dig p i x
  by (rule commits_replay_safe [OF answer_decision_commits lease_step_audited])

interpretation decision_reopening: replay_safe "reopen_decision dig p i x" for dig p i x
  by (rule commits_replay_safe [OF reopen_decision_commits lease_step_audited])

end
