(* ===== verification/Policies.thy ===== *)
theory Policies
  imports Decisions
begin

text \<open>
  Project policy (\<^verbatim>\<open>coordination.rs\<close>) and the reconciliation of required reviews it triggers (\<^verbatim>\<open>autonomy.rs\<close>):
  every subject in review gets the set of review activities the current mode asks for, each subject
  in a savepoint of its own. The service runs the same reconciliation once when it starts.
\<close>

section \<open>Reconciling required reviews\<close>

fun activity_kind_as_str :: "activity_kind \<Rightarrow> string" where
  "activity_kind_as_str Agent_review = ''agent_review''"
| "activity_kind_as_str Human_review = ''human_review''"
| "activity_kind_as_str Either_review = ''either_review''"
| "activity_kind_as_str Integration = ''integration''"

text \<open>A row of the query over the subjects in review, as it was read before the loop.\<close>

record review_subject =
  rj_project :: string
  rj_task :: string
  rj_submission :: string
  rj_title :: string
  rj_mode :: review_mode
  rj_amended :: bool
  rj_policy_actor :: "string option"

definition last_policy_actor :: "db \<Rightarrow> string \<Rightarrow> string option" where
  "last_policy_actor d p =
     (case rev (sort_key pv_revision (rows (\<lambda>v. pv_project v = p) (policy_revisions d))) of [] \<Rightarrow> None | v # _ \<Rightarrow> Some (pv_actor v))"

definition subjects_in_review :: "db \<Rightarrow> string option \<Rightarrow> review_subject list" where
  "subjects_in_review d project_id =
     List.map_filter (\<lambda>w.
       case (fetch (\<lambda>t. tk_id t = ws_task w) (tasks d), fetch (\<lambda>p. pj_id p = ws_project w) (projects d),
             fetch (\<lambda>s. sb_id s = ws_current_submission w) (submissions d)) of
         (Some t, Some p, Some s) \<Rightarrow> Some \<lparr>rj_project = ws_project w, rj_task = ws_task w,
             rj_submission = ws_current_submission w, rj_title = tk_title t, rj_mode = pj_review_mode p,
             rj_amended = (sb_amendment s \<noteq> None), rj_policy_actor = last_policy_actor d (ws_project w)\<rparr>
       | _ \<Rightarrow> None)
       (rows (\<lambda>w. ws_phase w = Phase_review \<and> is_none_or project_id (\<lambda>p. ws_project w = p)) (workflow_subjects d))"

definition unrequired_review :: "activity_kind list \<Rightarrow> workflow_activity \<Rightarrow> bool" where
  "unrequired_review required w \<longleftrightarrow> wa_state w = Act_queued \<and> wa_kind w \<noteq> Integration \<and> wa_kind w \<notin> set required"

text \<open>Active reviews may finish; these cancellations carry neither a reason nor an event.\<close>

definition cancel_unrequired_reviews :: "string \<Rightarrow> activity_kind list \<Rightarrow> int \<Rightarrow> db \<Rightarrow> int \<times> db" where
  "cancel_unrequired_reviews sub required now d =
     (let d1 = close_tasks (linked_task d sub (unrequired_review required)) d;
          hit = (\<lambda>w. wa_submission w = sub \<and> unrequired_review required w) in
      (count_where hit (workflow_activities d1),
       d1\<lparr>workflow_activities := update_where hit
            (\<lambda>w. w\<lparr>wa_state := Act_canceled, wa_canceled_at := Some now\<rparr>) (workflow_activities d1)\<rparr>))"

definition add_review_activity ::
  "string \<times> string \<Rightarrow> string \<Rightarrow> string \<Rightarrow> string \<Rightarrow> string \<Rightarrow> activity_kind \<Rightarrow> int \<Rightarrow> db \<Rightarrow> db res" where
  "add_review_activity ids p task title sub k now d = create_activity ids p task title sub k (next_slot d sub k) now d"

text \<open>\<open>ids\<close>: the identifiers of an activity added for a submission and a kind.\<close>

fun add_missing_reviews ::
  "(string \<Rightarrow> activity_kind \<Rightarrow> string \<times> string) \<Rightarrow> review_subject \<Rightarrow> int \<Rightarrow> activity_kind list \<Rightarrow> db \<Rightarrow> (activity_kind list \<times> db) res" where
  "add_missing_reviews ids s now [] d = Inr ([], d)"
| "add_missing_reviews ids s now (k # ks) d =
     (let sub = rj_submission s in
      if count_where (\<lambda>w. wa_submission w = sub \<and> wa_kind w = k \<and> wa_state w \<noteq> Act_canceled) (workflow_activities d) = 0
      then and_then (add_review_activity (ids sub k) (rj_project s) (rj_task s) (rj_title s) sub k now d) (\<lambda>d1.
        and_then (add_missing_reviews ids s now ks d1) (\<lambda>(added, d2). Inr (k # added, d2)))
      else add_missing_reviews ids s now ks d)"

definition advance_if_quiet :: "review_subject \<Rightarrow> int \<Rightarrow> db \<Rightarrow> (bool \<times> db) res" where
  "advance_if_quiet s now d =
     (if count_where (\<lambda>w. wa_submission w = rj_submission s \<and> wa_kind w \<noteq> Integration \<and> wa_state w = Act_active) (workflow_activities d) > 0
      then Inr (False, d)
      else and_then (advance_approved_subject (rj_project s) (rj_task s) (rj_submission s) now d) (\<lambda>d1. Inr (True, d1)))"

definition record_reconciled :: "review_subject \<Rightarrow> string option \<Rightarrow> json \<Rightarrow> int \<Rightarrow> db \<Rightarrow> db" where
  "record_reconciled s who data now d =
     (case who of
        None \<Rightarrow> d
      | Some a \<Rightarrow> d\<lparr>events := insert_row \<lparr>ev_project = Some (rj_project s), ev_actor = a, ev_kind = ''workflow.reconciled'',
          ev_record = rj_submission s, ev_data = data, ev_created_at = now, ev_class = None\<rparr> (events d)\<rparr>)"

record reconcile =
  rk_project :: "string option"
  rk_actor :: "string option"
  rk_advance :: bool
  rk_now :: int

definition settle_reviews ::
  "(string \<Rightarrow> activity_kind \<Rightarrow> string \<times> string) \<Rightarrow> reconcile \<Rightarrow> review_subject \<Rightarrow> activity_kind list \<Rightarrow> db \<Rightarrow>
    (activity_kind list \<times> bool \<times> db) res" where
  "settle_reviews ids r s required d =
     and_then (approvals_satisfied d (rj_submission s)) (\<lambda>ok.
     if ok then
       (if rk_advance r \<and> \<not> rj_amended s
        then and_then (advance_if_quiet s (rk_now r) d) (\<lambda>(advanced, d1). Inr ([], advanced, d1))
        else Inr ([], False, d))
     else and_then (add_missing_reviews ids s (rk_now r) required d) (\<lambda>(added, d1). Inr (added, False, d1)))"

definition reconcile_subject ::
  "(string \<Rightarrow> activity_kind \<Rightarrow> string \<times> string) \<Rightarrow> reconcile \<Rightarrow> review_subject \<Rightarrow> db \<Rightarrow> db res" where
  "reconcile_subject ids r s d =
     (let required = required_review_kinds (review_mode_floor d (rj_task s) (rj_mode s));
          (canceled, d1) = cancel_unrequired_reviews (rj_submission s) required (rk_now r) d in
      and_then (settle_reviews ids r s required d1) (\<lambda>(added, advanced, d2).
      Inr (if canceled > 0 \<or> added \<noteq> [] \<or> advanced
           then record_reconciled s (case rk_actor r of Some a \<Rightarrow> Some a | None \<Rightarrow> rj_policy_actor s)
             (JObj [(''canceled_reviews'', JInt canceled), (''added_reviews'', JArr (map (\<lambda>k. JStr (activity_kind_as_str k)) added)),
                    (''advanced'', JBool advanced)]) (rk_now r) d2
           else d2)))"

text \<open>A subject that cannot be reconciled is rolled back to its savepoint.\<close>

definition reconcile_one ::
  "(string \<Rightarrow> activity_kind \<Rightarrow> string \<times> string) \<Rightarrow> reconcile \<Rightarrow> review_subject \<Rightarrow> db \<Rightarrow> db" where
  "reconcile_one ids r s d = (case reconcile_subject ids r s d of Inl _ \<Rightarrow> d | Inr d1 \<Rightarrow> d1)"

definition reconcile_required_reviews ::
  "(string \<Rightarrow> activity_kind \<Rightarrow> string \<times> string) \<Rightarrow> reconcile \<Rightarrow> db \<Rightarrow> db" where
  "reconcile_required_reviews ids r d = fold (reconcile_one ids r) (subjects_in_review d (rk_project r)) d"

text \<open>Once before serving, unless coordination or the clock is being reconciled.\<close>

definition startup_reconcile :: "(string \<Rightarrow> activity_kind \<Rightarrow> string \<times> string) \<Rightarrow> int \<Rightarrow> db \<Rightarrow> db" where
  "startup_reconcile ids system d =
     (if coord_state d = Coordination_ready \<and> ck_status (clock d) = Clock_ready
      then reconcile_required_reviews ids
        \<lparr>rk_project = None, rk_actor = None, rk_advance = False, rk_now = max system (ck_last_safe (clock d))\<rparr> d
      else d)"

section \<open>Policy\<close>

record policy_input =
  py_expected_revision :: int
  py_review_mode :: string
  py_recovery_mode :: string
  py_lease_seconds :: int
  py_rules :: string
  py_provenance :: string
  py_agent_rule_editing :: bool
  py_automatic_integration :: bool
  py_allow_subagent_reviews :: "bool option"
  py_integration_owner :: "string option"
  py_max_attempt_seconds :: "int option"
  py_allow_relayed :: "bool option"

definition validate_policy :: "policy_input \<Rightarrow> unit res" where
  "validate_policy x =
     (if py_review_mode x \<notin> set [''none'', ''agent'', ''human'', ''both'', ''either'']
         \<or> py_recovery_mode x \<notin> set [''agent'', ''manual'']
         \<or> \<not> (30 \<le> py_lease_seconds x \<and> py_lease_seconds x \<le> 3600)
         \<or> is_some_and (py_integration_owner x) (\<lambda>w. w \<notin> set [''agent'', ''integrator''])
         \<or> is_some_and (py_max_attempt_seconds x) (\<lambda>l. l \<noteq> 0 \<and> \<not> (600 \<le> l \<and> l \<le> 604800))
      then Inl bad_request
      else and_then (bounded (py_rules x) 32768 False) (\<lambda>_. bounded (py_provenance x) 4096 False))"

definition review_mode_of :: "string \<Rightarrow> review_mode" where
  "review_mode_of s = (if s = ''none'' then RM_none else if s = ''agent'' then RM_agent else if s = ''human'' then RM_human
     else if s = ''both'' then RM_both else RM_either)"

definition recovery_mode_of :: "string \<Rightarrow> recovery_mode" where
  "recovery_mode_of s = (if s = ''agent'' then Recovery_agent else Recovery_manual)"

definition integration_owner_of :: "string \<Rightarrow> integration_owner" where
  "integration_owner_of s = (if s = ''agent'' then Owner_agent else Owner_integrator)"

text \<open>What an agent may not change even when the project delegates its rules.\<close>

definition policy_permission_change :: "project \<Rightarrow> policy_input \<Rightarrow> bool" where
  "policy_permission_change c x \<longleftrightarrow> \<not> pj_agent_rule_editing c \<or> pj_agent_rule_editing c \<noteq> py_agent_rule_editing x
     \<or> pj_automatic_integration c \<noteq> py_automatic_integration x
     \<or> pj_review_mode c \<noteq> review_mode_of (py_review_mode x)
     \<or> pj_recovery_mode c \<noteq> recovery_mode_of (py_recovery_mode x)
     \<or> is_some_and (py_allow_subagent_reviews x) (\<lambda>v. v \<noteq> pj_allow_subagent_reviews c)
     \<or> is_some_and (py_integration_owner x) (\<lambda>w. integration_owner_of w \<noteq> pj_integration_owner c)
     \<or> is_some_and (py_max_attempt_seconds x) (\<lambda>l. l \<noteq> pj_max_attempt_seconds c)
     \<or> is_some_and (py_allow_relayed x) (\<lambda>v. v \<noteq> pj_allow_relayed_human_answers c)"

definition apply_policy :: "project \<Rightarrow> policy_input \<Rightarrow> project \<Rightarrow> project" where
  "apply_policy c x p = p\<lparr>pj_policy_revision := pj_policy_revision p + 1,
     pj_review_mode := review_mode_of (py_review_mode x), pj_recovery_mode := recovery_mode_of (py_recovery_mode x),
     pj_lease_seconds := py_lease_seconds x, pj_rules := py_rules x, pj_agent_rule_editing := py_agent_rule_editing x,
     pj_automatic_integration := py_automatic_integration x,
     pj_allow_subagent_reviews := unwrap_or (py_allow_subagent_reviews x) (pj_allow_subagent_reviews c),
     pj_integration_owner := (case py_integration_owner x of None \<Rightarrow> pj_integration_owner c | Some w \<Rightarrow> integration_owner_of w),
     pj_max_attempt_seconds := unwrap_or (py_max_attempt_seconds x) (pj_max_attempt_seconds c),
     pj_allow_relayed_human_answers := unwrap_or (py_allow_relayed x) (pj_allow_relayed_human_answers c)\<rparr>"

definition project_holds :: "db \<Rightarrow> string \<Rightarrow> bool" where
  "project_holds d p \<longleftrightarrow> exists_where (\<lambda>h. ih_held h
     \<and> exists_where (\<lambda>w. wa_id w = ih_activity h \<and> wa_project w = p) (workflow_activities d)) (integration_holds d)"

definition update_policy ::
  "(string \<Rightarrow> activity_kind \<Rightarrow> string \<times> string) \<Rightarrow> string \<Rightarrow> policy_input \<Rightarrow> mutation \<Rightarrow> outcome res" where
  "update_policy ids i x m =
     (let d = m_db m; now = m_now m; who = ac_id (m_actor m) in
      and_then (active_project d i) (\<lambda>current.
      if ac_kind (m_actor m) = Agent \<and> policy_permission_change current x
        then Inl (human_gate ''policy_permission_change'')
      else replay_or m (
      if pj_policy_revision current \<noteq> py_expected_revision x then Inl (conflict ''revision_conflict'')
      else if project_holds d i then Inl (conflict ''policy_hold_conflict'')
      else
        let d1 = d\<lparr>projects := update_where (\<lambda>p. pj_id p = i) (apply_policy current x) (projects d)\<rparr> in
        and_then (project_get d1 i) (\<lambda>value.
        and_then (insert_unique unique_violation (\<lambda>a b. pv_project a = pv_project b \<and> pv_revision a = pv_revision b)
            \<lparr>pv_project = i, pv_revision = pj_policy_revision current + 1, pv_data = value, pv_actor = who,
             pv_created_at = now, pv_provenance = py_provenance x\<rparr> (policy_revisions d1)) (\<lambda>vs.
        let d2 = reconcile_required_reviews ids \<lparr>rk_project = Some i, rk_actor = Some who, rk_advance = True, rk_now = now\<rparr>
              (d1\<lparr>policy_revisions := vs\<rparr>) in
        finish m d2 (JProject value) (Some i) ''policy.updated'' i)))))"

section \<open>Steps\<close>

lemma lease_step_projects [lease_frame, simp]:
  "lease_step a (d\<lparr>projects := x1\<rparr>) = lease_step a d"
  "lease_step a (d\<lparr>policy_revisions := x2\<rparr>) = lease_step a d"
  by (simp_all add: lease_step_def audited_def leases_ok_def leases_forward_def edges_def budget_kept_def)

lemma cancel_unrequired_step:
  assumes "lease_step a d"
  shows "lease_step a (snd (cancel_unrequired_reviews sub required now d))"
  unfolding cancel_unrequired_reviews_def Let_def by (simp add: lease_step_close_tasks assms)

lemma add_missing_step: "add_missing_reviews ids s now ks d = Inr (added, d') \<Longrightarrow> lease_step a d \<Longrightarrow> lease_step a d'"
proof (induction ks arbitrary: d added)
  case (Cons k ks)
  show ?case
  proof (cases "count_where (\<lambda>w. wa_submission w = rj_submission s \<and> wa_kind w = k \<and> wa_state w \<noteq> Act_canceled) (workflow_activities d) = 0")
    case True
    with Cons.prems(1) obtain d1 more where d1: "add_review_activity (ids (rj_submission s) k) (rj_project s) (rj_task s) (rj_title s)
        (rj_submission s) k now d = Inr d1" and rest: "add_missing_reviews ids s now ks d1 = Inr (more, d')"
      by (auto simp: Let_def)
    from d1 Cons.prems(2) have "lease_step a d1" unfolding add_review_activity_def by (rule lease_step_create_activity)
    with rest show ?thesis by (rule Cons.IH)
  next
    case False
    with Cons.prems(1) have "add_missing_reviews ids s now ks d = Inr (added, d')" by (simp only: add_missing_reviews.simps Let_def if_False)
    with Cons.prems(2) show ?thesis using Cons.IH by blast
  qed
qed simp

lemma settle_reviews_step:
  assumes "settle_reviews ids r s required d = Inr (added, advanced, d')" and "lease_step a d"
  shows "lease_step a d'"
  using assms
  by (auto simp: settle_reviews_def advance_if_quiet_def split: if_splits elim: lease_step_advance add_missing_step)

lemma reconcile_one_step: "lease_step a d \<Longrightarrow> lease_step a (reconcile_one ids r s d)"
proof -
  assume st: "lease_step a d"
  let ?required = "required_review_kinds (review_mode_floor d (rj_task s) (rj_mode s))"
  obtain n d1 where c: "cancel_unrequired_reviews (rj_submission s) ?required (rk_now r) d = (n, d1)" by fastforce
  from cancel_unrequired_step [OF st, of "rj_submission s" ?required "rk_now r"] c have d1: "lease_step a d1" by simp
  show ?thesis
  proof (cases "settle_reviews ids r s ?required d1")
    case (Inl e)
    then show ?thesis by (simp add: reconcile_one_def reconcile_subject_def Let_def c st)
  next
    case (Inr x)
    obtain added advanced d2 where x: "x = (added, advanced, d2)" by (cases x)
    from settle_reviews_step [OF Inr [unfolded x] d1] have d2: "lease_step a d2" .
    then have "lease_step a (record_reconciled s w data now d2)" for w data now
      by (simp add: record_reconciled_def lease_step_event split: option.split)
    with d2 show ?thesis by (simp add: reconcile_one_def reconcile_subject_def Let_def c Inr x)
  qed
qed

lemma reconcile_required_reviews_step:
  assumes "lease_step a d"
  shows "lease_step a (reconcile_required_reviews ids r d)"
proof -
  have "lease_step a (fold (reconcile_one ids r) ss d)" for ss
    using assms by (induction ss arbitrary: d) (simp_all add: reconcile_one_step)
  then show ?thesis unfolding reconcile_required_reviews_def .
qed

lemma update_policy_commits: "commits lease_step m (update_policy ids i x m)"
  unfolding update_policy_def Let_def
  by (intro commits_intros;
      (assumption | rule reconcile_required_reviews_step; simp add: lease_step_refl))

interpretation policy_update: replay_safe "update_policy ids i x" for ids i x
  by (rule commits_replay_safe [OF update_policy_commits lease_step_audited])

lemma startup_reconcile_step: "lease_step d (startup_reconcile ids system d)"
  by (simp add: startup_reconcile_def reconcile_required_reviews_step lease_step_refl)

end
