(* ===== verification/System.thy ===== *)
theory System
  imports Projects Clock_Admin Policies
begin

text \<open>
  The service as a transition system. An \<open>operation\<close> is one mutating request with its payload and the
  fresh identifiers its handler draws; \<open>serve\<close> runs it in the frame of \<open>handle\<close>. A \<open>step\<close> is a
  request, a clock read, a reconciliation of the clock or a change of tables the modelled
  handlers only read. The invariants of the components hold in every reachable state.
\<close>

section \<open>Requests\<close>

text \<open>What the handlers take from outside: configuration, digests and parsers.\<close>

record env =
  en_config :: config
  en_digest :: "string \<times> string \<times> string list \<times> task_kind \<Rightarrow> string"
  en_hash :: "observation_input \<Rightarrow> string"
  en_is_uuid :: "string \<Rightarrow> bool"
  en_hex_bytes :: "string \<Rightarrow> nat option"
  en_lower :: "string \<Rightarrow> string"
  en_url :: "string \<Rightarrow> parsed_url option"
  en_show_int :: "int \<Rightarrow> string"

datatype (plugins only: code size) operation =
    Create_project string project_input
  | Archive_project string string
  | Restore_project string string
  | Create_task string string task_input
  | Edit_task string string task_edit
  | Unblock_task string string int string
  | Archive_task string string lifecycle_input
  | Restore_task string string lifecycle_input
  | Cancel_task string string lifecycle_input
  | Delete_task string string lifecycle_input
  | Complete_externally string string external_completion
  | Human_delivery string string human_delivery_input
  | Create_grant string string grant_input
  | Revoke_grant string string int
  | Acknowledge string acknowledgment
  | Claim string string claim_input
  | Renew string string int
  | Checkpoint string string string checkpoint_input
  | Release string string string int string bool
  | Resolve_recovery string string string recovery_input
  | Register_checkout string string checkout_input
  | Create_resource string resource_input
  | Update_resource string resource_update
  | Delete_resource string
  | Create_reservation string string string int "(string \<times> int) list"
  | Release_reservation string string int string
  | Resolve_reservation string string string string
  | Register_job string string job_input
  | Observe string string string observation_input
  | Reporter_renew string string string int
  | Update_policy "string \<Rightarrow> activity_kind \<Rightarrow> string \<times> string" string policy_input
  | Put_workflow_policy string workflow_policy_input
  | Submit "nat \<Rightarrow> string" string string submission_input
  | Reopen_submission string string reopen_input
  | Claim_activity "nat \<Rightarrow> string" string string activity_claim_input
  | Release_activity "string \<times> string" string string activity_release_input
  | Review "nat \<Rightarrow> string" string string review_input
  | Authorize_integration string string authorization_input
  | Publication_intent string string intent_input
  | Integration_result string string result_input
  | Reconcile_publication "nat \<Rightarrow> string" string string reconciliation_input
  | Agent_reconcile "nat \<Rightarrow> string" string string agent_reconciliation_input
  | Finalize string string finalize_input
  | Create_knowledge string string knowledge_input
  | Edit_knowledge string string knowledge_edit
  | Add_feedback string string string feedback_input
  | Create_decision string string decision_input
  | Answer_decision string string decision_answer_input
  | Reopen_decision string string decision_reopen_input

definition project_path :: "string \<Rightarrow> string" where
  "project_path p = ''/api/v1/projects/'' @ p"

definition attempt_path :: "string \<Rightarrow> string \<Rightarrow> string" where
  "attempt_path p i = ''POST '' @ project_path p @ ''/attempts/'' @ i"

definition activity_path :: "string \<Rightarrow> string \<Rightarrow> string \<Rightarrow> string" where
  "activity_path p i verb = ''POST '' @ project_path p @ ''/workflow-activities/'' @ i @ ''/'' @ verb"

definition decision_path :: "string \<Rightarrow> string \<Rightarrow> string \<Rightarrow> string" where
  "decision_path p i verb = ''POST '' @ project_path p @ ''/decisions/'' @ i @ ''/'' @ verb"

fun op_path :: "operation \<Rightarrow> string" where
  "op_path (Create_project _ _) = ''POST /api/v1/projects''"
| "op_path (Archive_project i _) = ''POST '' @ project_path i @ ''/archive''"
| "op_path (Restore_project i _) = ''POST '' @ project_path i @ ''/restore''"
| "op_path (Create_task _ p _) = ''POST '' @ project_path p @ ''/tasks''"
| "op_path (Edit_task p i _) = ''PATCH '' @ task_path p i"
| "op_path (Unblock_task p i _ _) = ''POST '' @ task_path p i @ ''/unblock''"
| "op_path (Archive_task p i _) = ''POST '' @ task_path p i @ ''/archive''"
| "op_path (Restore_task p i _) = ''POST '' @ task_path p i @ ''/restore''"
| "op_path (Cancel_task p i _) = ''POST '' @ task_path p i @ ''/cancel''"
| "op_path (Delete_task p i _) = ''POST '' @ task_path p i @ ''/delete''"
| "op_path (Complete_externally p i _) = ''POST '' @ task_path p i @ ''/complete-external''"
| "op_path (Human_delivery p i _) = ''POST '' @ task_path p i @ ''/human-delivery''"
| "op_path (Create_grant _ p _) = ''POST '' @ project_path p @ ''/task-definition-grants''"
| "op_path (Revoke_grant p i _) = ''POST '' @ project_path p @ ''/task-definition-grants/'' @ i"
| "op_path (Acknowledge s _) = ''POST /api/v1/sessions/'' @ s @ ''/instruction-acknowledgments''"
| "op_path (Claim _ p _) = ''POST '' @ project_path p @ ''/claims''"
| "op_path (Renew p i _) = attempt_path p i @ ''/renew''"
| "op_path (Checkpoint _ p i _) = attempt_path p i @ ''/checkpoints''"
| "op_path (Release _ p i _ _ _) = attempt_path p i @ ''/release''"
| "op_path (Resolve_recovery _ p i _) = attempt_path p i @ ''/recovery-resolution''"
| "op_path (Register_checkout p i _) = attempt_path p i @ ''/checkout''"
| "op_path (Create_resource _ _) = ''POST /api/v1/resources''"
| "op_path (Update_resource r _) = ''PATCH /api/v1/resources/'' @ r"
| "op_path (Delete_resource r) = ''DELETE /api/v1/resources/'' @ r"
| "op_path (Create_reservation _ p a _ _) = attempt_path p a @ ''/reservations''"
| "op_path (Release_reservation p i _ _) = ''POST '' @ project_path p @ ''/reservations/'' @ i @ ''/release''"
| "op_path (Resolve_reservation p i _ _) = ''POST '' @ project_path p @ ''/reservations/'' @ i @ ''/resolve''"
| "op_path (Register_job p a _) = attempt_path p a @ ''/jobs''"
| "op_path (Observe i _ _ _) = ''POST /api/v1/reporters/'' @ i @ ''/observations''"
| "op_path (Reporter_renew i _ _ _) = ''POST /api/v1/reporters/'' @ i @ ''/renew''"
| "op_path (Update_policy _ i _) = ''PATCH '' @ project_path i @ ''/policy''"
| "op_path (Put_workflow_policy p _) = ''PUT '' @ project_path p @ ''/workflow-policy''"
| "op_path (Submit _ p i _) = attempt_path p i @ ''/submissions''"
| "op_path (Reopen_submission p t _) = ''POST '' @ task_path p t @ ''/workflow/reopen''"
| "op_path (Claim_activity _ p i _) = activity_path p i ''claim''"
| "op_path (Release_activity _ p i _) = activity_path p i ''release''"
| "op_path (Review _ p i _) = activity_path p i ''review''"
| "op_path (Authorize_integration p i _) = activity_path p i ''authorization''"
| "op_path (Publication_intent p i _) = activity_path p i ''publication-intent''"
| "op_path (Integration_result p i _) = activity_path p i ''integration-result''"
| "op_path (Reconcile_publication _ p i _) = activity_path p i ''publication-reconciliation''"
| "op_path (Agent_reconcile _ p i _) = activity_path p i ''agent-publication-reconciliation''"
| "op_path (Finalize p i _) = activity_path p i ''finalize''"
| "op_path (Create_knowledge _ p _) = ''POST '' @ project_path p @ ''/knowledge''"
| "op_path (Edit_knowledge p i _) = ''PATCH '' @ project_path p @ ''/knowledge/'' @ i"
| "op_path (Add_feedback _ p i _) = ''POST '' @ project_path p @ ''/knowledge/'' @ i @ ''/feedback''"
| "op_path (Create_decision _ p _) = ''POST '' @ project_path p @ ''/decisions''"
| "op_path (Answer_decision p i _) = decision_path p i ''answer''"
| "op_path (Reopen_decision p i _) = decision_path p i ''reopen''"

text \<open>\<open>require_reporter\<close>: the reporter of the headers is the one the path names.\<close>

definition require_reporter :: "string \<Rightarrow> string \<Rightarrow> unit res" where
  "require_reporter header i = (if header \<noteq> i then Inl auth_required else Inr ())"

text \<open>The checks before the transaction begins.\<close>

fun op_valid :: "env \<Rightarrow> operation \<Rightarrow> unit res" where
  "op_valid en (Create_project _ x) = validate_create_project x"
| "op_valid en (Archive_project _ reason) = bounded reason 4096 True"
| "op_valid en (Restore_project _ reason) = bounded reason 4096 True"
| "op_valid en (Create_task _ _ ti) = validate_create_task ti"
| "op_valid en (Edit_task _ _ te) = validate_edit_task te"
| "op_valid en (Unblock_task _ _ _ reason) = bounded reason 4096 True"
| "op_valid en (Archive_task _ _ li) = bounded (li_reason li) 4096 True"
| "op_valid en (Restore_task _ _ li) = bounded (li_reason li) 4096 True"
| "op_valid en (Cancel_task _ _ li) = bounded (li_reason li) 4096 True"
| "op_valid en (Delete_task _ _ li) = bounded (li_reason li) 4096 True"
| "op_valid en (Complete_externally _ _ xc) = validate_external xc"
| "op_valid en (Human_delivery _ _ x) = bounded (hd_reason x) 4096 True"
| "op_valid en (Create_grant _ _ gi) = validate_grant gi"
| "op_valid en (Revoke_grant _ _ expected) = validate_revoke expected"
| "op_valid en (Acknowledge _ _) = Inr ()"
| "op_valid en (Claim _ _ cm) = validate_claim cm"
| "op_valid en (Renew _ _ _) = Inr ()"
| "op_valid en (Checkpoint _ _ _ ci) = validate_checkpoint ci"
| "op_valid en (Release _ _ _ _ summary _) = bounded summary 8192 True"
| "op_valid en (Resolve_recovery _ _ _ ry) = validate_recovery ry"
| "op_valid en (Register_checkout _ _ ko) = validate_checkout ko"
| "op_valid en (Create_resource _ xi) = validate_create_resource xi"
| "op_valid en (Update_resource r xu) = validate_update_resource (en_is_uuid en) r xu"
| "op_valid en (Delete_resource r) = valid_uuid (en_is_uuid en) r"
| "op_valid en (Create_reservation _ _ _ _ items) = validate_reservation (en_is_uuid en) items"
| "op_valid en (Release_reservation _ _ _ reason) = bounded reason 8192 True"
| "op_valid en (Resolve_reservation _ _ reason ev) = and_then (bounded reason 8192 True) (\<lambda>_. bounded ev 32768 True)"
| "op_valid en (Register_job _ _ ji) = validate_job (en_is_uuid en) (en_hex_bytes en) ji"
| "op_valid en (Observe i header _ oi) = and_then (require_reporter header i) (\<lambda>_. validate_observation (en_is_uuid en) oi)"
| "op_valid en (Reporter_renew i header _ _) = require_reporter header i"
| "op_valid en (Update_policy _ _ x) = validate_policy x"
| "op_valid en (Put_workflow_policy _ x) = validate_workflow_policy x"
| "op_valid en (Submit _ _ _ x) = validate_submission x"
| "op_valid en (Reopen_submission _ _ x) = validate_reopen x"
| "op_valid en (Claim_activity _ _ _ x) = valid_independence (ac_independence x)"
| "op_valid en (Release_activity _ _ _ x) = validate_activity_release x"
| "op_valid en (Review _ _ _ x) = validate_review x"
| "op_valid en (Authorize_integration _ _ x) = validate_authorization x"
| "op_valid en (Publication_intent _ _ x) = validate_intent x"
| "op_valid en (Integration_result _ _ x) = validate_result x"
| "op_valid en (Reconcile_publication _ _ _ x) = validate_reconciliation x"
| "op_valid en (Agent_reconcile _ _ _ x) = validate_agent_reconciliation x"
| "op_valid en (Finalize _ _ x) = validate_finalize x"
| "op_valid en (Create_knowledge _ _ x) = validate_knowledge (en_lower en) x"
| "op_valid en (Edit_knowledge _ _ x) = validate_edit_knowledge (en_lower en) x"
| "op_valid en (Add_feedback _ _ _ x) = validate_feedback x"
| "op_valid en (Create_decision _ _ x) = validate_decision x"
| "op_valid en (Answer_decision _ _ x) = validate_decision_answer x"
| "op_valid en (Reopen_decision _ _ x) = validate_decision_reopen x"

fun op_body :: "env \<Rightarrow> (string \<Rightarrow> string) \<Rightarrow> operation \<Rightarrow> mutation \<Rightarrow> outcome res" where
  "op_body en sha (Create_project u x) = create_project u x"
| "op_body en sha (Archive_project i reason) = project_archive_change i reason ''archive''"
| "op_body en sha (Restore_project i reason) = project_archive_change i reason ''restore''"
| "op_body en sha (Create_task u p ti) = create_task (en_config en) u p ti"
| "op_body en sha (Edit_task p i te) = edit_task p i te"
| "op_body en sha (Unblock_task p i r reason) = unblock_task p i r reason"
| "op_body en sha (Archive_task p i li) = lifecycle_change p i li ''archive''"
| "op_body en sha (Restore_task p i li) = lifecycle_change p i li ''restore''"
| "op_body en sha (Cancel_task p i li) = lifecycle_change p i li ''cancel''"
| "op_body en sha (Delete_task p i li) = lifecycle_change p i li ''delete''"
| "op_body en sha (Complete_externally p i xc) = complete_task_externally p i xc"
| "op_body en sha (Human_delivery p i x) = set_human_delivery p i x"
| "op_body en sha (Create_grant u p gi) = create_task_definition_grant u p gi"
| "op_body en sha (Revoke_grant p i expected) = revoke_task_definition_grant p i expected"
| "op_body en sha (Acknowledge s ak) = acknowledge s ak"
| "op_body en sha (Claim u p cm) = claim u p cm"
| "op_body en sha (Renew p i g) = renew p i g"
| "op_body en sha (Checkpoint u p i ci) = checkpoint u p i ci"
| "op_body en sha (Release u p i g summary blocked) = release u p i g summary blocked"
| "op_body en sha (Resolve_recovery u p i ry) = recovery_resolution u p i ry"
| "op_body en sha (Register_checkout p i ko) = register_checkout (en_digest en) p i ko"
| "op_body en sha (Create_resource u xi) = create_resource u xi"
| "op_body en sha (Update_resource r xu) = update_resource r xu"
| "op_body en sha (Delete_resource r) = delete_resource r"
| "op_body en sha (Create_reservation u p a g items) = create_reservation (en_digest en) u p a g items"
| "op_body en sha (Release_reservation p i g reason) = release_reservation p i g reason"
| "op_body en sha (Resolve_reservation p i reason ev) = resolve_reservation p i reason ev"
| "op_body en sha (Register_job p a ji) = register_job (en_digest en) sha p a ji"
| "op_body en sha (Observe i _ _ oi) = observe (en_hash en) i oi"
| "op_body en sha (Reporter_renew i _ _ g) = reporter_renew i g"
| "op_body en sha (Update_policy ids i x) = update_policy ids i x"
| "op_body en sha (Put_workflow_policy p x) = put_workflow_policy (en_url en) sha p x"
| "op_body en sha (Submit ids p i x) = submit (en_lower en) (en_is_uuid en) (en_digest en) ids p i x"
| "op_body en sha (Reopen_submission p t x) = reopen (en_digest en) p t x"
| "op_body en sha (Claim_activity ids p i x) = claim_activity (en_digest en) ids p i x"
| "op_body en sha (Release_activity ids p i x) = release_activity (en_digest en) ids p i x"
| "op_body en sha (Review ids p i x) = review (en_digest en) ids p i x"
| "op_body en sha (Authorize_integration p i x) = authorize_integration (en_digest en) p i x"
| "op_body en sha (Publication_intent p i x) = publication_intent_handler (en_digest en) p i x"
| "op_body en sha (Integration_result p i x) = integration_result_handler (en_digest en) p i x"
| "op_body en sha (Reconcile_publication ids p i x) = reconcile_publication (en_digest en) ids p i x"
| "op_body en sha (Agent_reconcile ids p i x) = agent_reconcile_publication (en_show_int en) (en_digest en) ids p i x"
| "op_body en sha (Finalize p i x) = finalize (en_digest en) p i x"
| "op_body en sha (Create_knowledge u p x) = create_knowledge u p x"
| "op_body en sha (Edit_knowledge p i x) = edit_knowledge p i x"
| "op_body en sha (Add_feedback u p i x) = add_feedback u p i x"
| "op_body en sha (Create_decision u p x) = create_decision (en_digest en) u p x"
| "op_body en sha (Answer_decision p i x) = answer_decision (en_digest en) p i x"
| "op_body en sha (Reopen_decision p i x) = reopen_decision (en_digest en) p i x"

text \<open>The reporter and the proof digest a reporter request authenticates with.\<close>

fun op_reporter :: "operation \<Rightarrow> (string \<times> string) option" where
  "op_reporter (Observe _ header proof _) = Some (header, proof)"
| "op_reporter (Reporter_renew _ header proof _) = Some (header, proof)"
| "op_reporter _ = None"

definition serve :: "env \<Rightarrow> call \<Rightarrow> operation \<Rightarrow> server \<Rightarrow> json res \<times> server" where
  "serve en c op srv =
     (case op_reporter op of
        None \<Rightarrow> handle c (op_path op) (op_valid en op) (op_body en (cl_sha c) op) srv
      | Some (reporter, proof) \<Rightarrow>
          handle_reporter c reporter proof (op_path op) (op_valid en op) (op_body en (cl_sha c) op) srv)"

section \<open>Steps\<close>

text \<open>
  Tables the modelled handlers only read (accounts, credentials, sessions, objectives, artifacts and
  what the integrator records) may change between requests in any way, and other handlers may append
  events and receipts.
\<close>

definition elsewhere :: "db \<Rightarrow> db \<Rightarrow> bool" where
  "elsewhere d d' \<longleftrightarrow> prefix (receipts d) (receipts d') \<and> prefix (events d) (events d')
     \<and> d' = d\<lparr>principals := principals d', credentials := credentials d', browser_sessions := browser_sessions d',
         agent_sessions := agent_sessions d', subagent_identities := subagent_identities d', events := events d',
         receipts := receipts d', authority_epoch := authority_epoch d', coord_state := coord_state d',
         objectives := objectives d', artifacts := artifacts d', integrator_results := integrator_results d',
         integrator_observations := integrator_observations d', integrator_receipts := integrator_receipts d',
         integrator_revises := integrator_revises d'\<rparr>"

lemma elsewhereD:
  assumes "elsewhere d d'"
  shows "tasks d' = tasks d" "attempts d' = attempts d" "task_dependencies d' = task_dependencies d"
    "objective_children d' = objective_children d" "resources d' = resources d" "reservations d' = reservations d"
    "reservation_items d' = reservation_items d" "jobs d' = jobs d" "reporters d' = reporters d" "clock d' = clock d"
    "prefix (receipts d) (receipts d')" "prefix (events d) (events d')"
    "projects d' = projects d" "workflow_activities d' = workflow_activities d"
    "integration_holds d' = integration_holds d" "publication_intents d' = publication_intents d"
    "integration_results d' = integration_results d" "publication_reconciliations d' = publication_reconciliations d"
    "review_decisions d' = review_decisions d" "submissions d' = submissions d" "workflow_subjects d' = workflow_subjects d"
    "knowledge_records d' = knowledge_records d" "knowledge_revisions d' = knowledge_revisions d"
    "decisions d' = decisions d" "decision_cycles d' = decision_cycles d" "decision_answers d' = decision_answers d"
proof -
  from assms have e: "d' = d\<lparr>principals := principals d', credentials := credentials d', browser_sessions := browser_sessions d',
         agent_sessions := agent_sessions d', subagent_identities := subagent_identities d', events := events d',
         receipts := receipts d', authority_epoch := authority_epoch d', coord_state := coord_state d',
         objectives := objectives d', artifacts := artifacts d', integrator_results := integrator_results d',
         integrator_observations := integrator_observations d', integrator_receipts := integrator_receipts d',
         integrator_revises := integrator_revises d'\<rparr>" (is "d' = ?e") by (simp add: elsewhere_def)
  have "tasks ?e = tasks d" "attempts ?e = attempts d" "task_dependencies ?e = task_dependencies d"
    "objective_children ?e = objective_children d" "resources ?e = resources d" "reservations ?e = reservations d"
    "reservation_items ?e = reservation_items d" "jobs ?e = jobs d" "reporters ?e = reporters d" "clock ?e = clock d"
    "projects ?e = projects d" "workflow_activities ?e = workflow_activities d"
    "integration_holds ?e = integration_holds d" "publication_intents ?e = publication_intents d"
    "integration_results ?e = integration_results d" "publication_reconciliations ?e = publication_reconciliations d"
    "review_decisions ?e = review_decisions d" "submissions ?e = submissions d" "workflow_subjects ?e = workflow_subjects d"
    "knowledge_records ?e = knowledge_records d" "knowledge_revisions ?e = knowledge_revisions d"
    "decisions ?e = decisions d" "decision_cycles ?e = decision_cycles d" "decision_answers ?e = decision_answers d" by simp_all
  note [folded e] = this
  then show "tasks d' = tasks d" "attempts d' = attempts d" "task_dependencies d' = task_dependencies d"
    "objective_children d' = objective_children d" "resources d' = resources d" "reservations d' = reservations d"
    "reservation_items d' = reservation_items d" "jobs d' = jobs d" "reporters d' = reporters d" "clock d' = clock d"
    "projects d' = projects d" "workflow_activities d' = workflow_activities d"
    "integration_holds d' = integration_holds d" "publication_intents d' = publication_intents d"
    "integration_results d' = integration_results d" "publication_reconciliations d' = publication_reconciliations d"
    "review_decisions d' = review_decisions d" "submissions d' = submissions d" "workflow_subjects d' = workflow_subjects d"
    "knowledge_records d' = knowledge_records d" "knowledge_revisions d' = knowledge_revisions d"
    "decisions d' = decisions d" "decision_cycles d' = decision_cycles d" "decision_answers d' = decision_answers d" .
qed (use assms in \<open>simp_all add: elsewhere_def\<close>)

inductive step :: "env \<Rightarrow> server \<Rightarrow> server \<Rightarrow> bool" for en where
  request: "serve en c op srv = (r, srv') \<Longrightarrow> step en srv srv'"
| sample: "authoritative_now ts rt_after srv = (cs, srv') \<Longrightarrow> step en srv srv'"
| now: "app_now use_mono wall tick (srv_rt srv) = (t, rt) \<Longrightarrow> step en srv (srv\<lparr>srv_rt := rt\<rparr>)"
| reconcile: "reconcile_clock_request c wall tick incident reason srv = (r, srv') \<Longrightarrow> step en srv srv'"
| recover: "recover_clock ts rt_after wall tick reason srv = (r, srv') \<Longrightarrow> step en srv srv'"
| restart: "step en srv (srv\<lparr>srv_rt := open_runtime (srv_db srv) tick\<rparr>)"
| startup: "step en srv (srv\<lparr>srv_db := startup_reconcile ids system (srv_db srv)\<rparr>)"
| other: "elsewhere (srv_db srv) d' \<Longrightarrow> step en srv (srv\<lparr>srv_db := d'\<rparr>)"

inductive_cases step_cases: "step en srv srv'"

text \<open>A fresh service: no work yet; accounts may exist.\<close>

definition fresh :: "db \<Rightarrow> bool" where
  "fresh d \<longleftrightarrow> tasks d = [] \<and> attempts d = [] \<and> task_dependencies d = [] \<and> objective_children d = []
     \<and> resources d = [] \<and> reservations d = [] \<and> reservation_items d = [] \<and> jobs d = []
     \<and> submissions d = [] \<and> workflow_subjects d = [] \<and> workflow_activities d = [] \<and> review_decisions d = []
     \<and> integration_holds d = [] \<and> publication_intents d = [] \<and> integration_results d = []
     \<and> publication_reconciliations d = []"

inductive reachable :: "env \<Rightarrow> server \<Rightarrow> bool" for en where
  start: "fresh (srv_db srv) \<Longrightarrow> reachable en srv"
| next_state: "reachable en srv \<Longrightarrow> step en srv srv' \<Longrightarrow> reachable en srv'"

end
