(* ===== verification/System_Invariant.thy ===== *)
theory System_Invariant
  imports System
begin

text \<open>
  The invariants of the components together, kept by every operation and every step, and the two
  histories no step rewrites: events and receipts only grow, jobs only move forward.
\<close>

section \<open>The invariant\<close>

definition system_ok :: "int \<Rightarrow> db \<Rightarrow> bool" where
  "system_ok limit d \<longleftrightarrow> leases_ok d \<and> within_budget limit d \<and> acyclic (set (edges d)) \<and> resources_ok d"

definition system_step :: "int \<Rightarrow> db \<Rightarrow> db \<Rightarrow> bool" where
  "system_step limit d d0 \<longleftrightarrow> audited d d0
     \<and> (system_ok limit d \<longrightarrow> system_ok limit d0 \<and> jobs_forward d d0 \<and> leases_forward d d0)"

lemma system_ok_receipts: "system_ok limit d \<Longrightarrow> system_ok limit (d\<lparr>receipts := rs, events := es\<rparr>)"
  by (simp add: system_ok_def leases_ok_def within_budget_def admitted_in_week_def edges_def resources_ok_def
      item_ok_def held_units_def held_def)

lemma quiet_forward:
  assumes "leases_ok d" and "quiet d d'"
  shows "leases_forward d d'"
proof (rule leases_forward_keys [where ks = "[]"])
  show "unique_by tk_id (tasks d')"
    using leases_ok_quiet [OF assms] by (simp add: leases_ok_def)
qed (use assms in \<open>auto simp: quiet_def leases_ok_def\<close>)

lemma settles_system:
  assumes s: "settles d d0"
  shows "system_step limit d d0"
proof -
  have q: "quiet d d0" and j: "job_tables_same d d0" and e: "jobs d0 = jobs d"
    using s by (simp_all add: settles_def quiet_def job_tables_same_def)
  show ?thesis
    unfolding system_step_def
  proof (intro conjI impI)
    show "audited d d0" using s by (rule settles_audited)
    assume ok: "system_ok limit d"
    then have l: "leases_ok d" by (simp add: system_ok_def)
    show "jobs_forward d d0" using e by (rule jobs_forward_same)
    show "leases_forward d d0" by (rule quiet_forward [OF l q])
    show "system_ok limit d0"
      using ok s quiet_budget [OF q] leases_ok_quiet [OF l q] resources_ok_same [OF j]
      by (simp add: system_ok_def settles_def)
  qed
qed

lemma job_system: "job_step d d0 \<Longrightarrow> system_step limit d d0"
  by (auto simp: system_step_def system_ok_def job_step_def intro: within_budget_kept)

lemma creates_system:
  assumes ad: "admit cfg m (m_db m) p planned cls ev = Inr ad"
    and c: "creates (i, p, 0, None, if ad_consumed ad then Some (m_now m) else None) (m_db m) d0"
  shows "system_step (cf_weekly_budget cfg) (m_db m) d0"
proof -
  have j: "job_tables_same (m_db m) d0" "jobs d0 = jobs (m_db m)" using c by (simp_all add: creates_def job_tables_same_def)
  show ?thesis
    unfolding system_step_def
  proof (intro conjI impI)
    show "audited (m_db m) d0" using c by (simp add: creates_def)
    assume ok: "system_ok (cf_weekly_budget cfg) (m_db m)"
    then have l: "leases_ok (m_db m)" by (simp add: system_ok_def)
    have l0: "leases_ok d0" by (rule leases_ok_creates [OF l c])
    show "jobs_forward (m_db m) d0" by (rule jobs_forward_same [OF j(2)])
    show "leases_forward (m_db m) d0"
      by (rule leases_forward_keys) (use c l l0 in \<open>auto simp: creates_def leases_ok_def\<close>)
    show "system_ok (cf_weekly_budget cfg) d0"
      using ok c l0 creates_within_budget [OF _ ad] resources_ok_same [OF j(1)]
      by (simp add: system_ok_def creates_def)
  qed
qed

section \<open>Operations\<close>

lemmas settling_commits =
  create_project_commits project_archive_change_commits edit_task_commits unblock_task_commits
  lifecycle_change_commits complete_task_externally_commits set_human_delivery_commits
  create_task_definition_grant_commits revoke_task_definition_grant_commits
  create_knowledge_commits edit_knowledge_commits add_feedback_commits

lemmas leasing_commits =
  acknowledge_commits claim_commits renew_commits checkpoint_commits release_commits
  recovery_resolution_commits register_checkout_commits
  update_policy_commits put_workflow_policy_commits submit_commits reopen_commits
  claim_activity_commits release_activity_commits review_commits authorize_integration_commits
  publication_intent_handler_commits integration_result_handler_commits reconcile_publication_commits
  agent_reconcile_publication_commits finalize_commits
  create_decision_commits answer_decision_commits reopen_decision_commits

lemmas producing_commits =
  update_resource_commits delete_resource_commits release_reservation_commits resolve_reservation_commits
  register_job_commits observe_commits reporter_renew_commits

lemma settling_system: "commits settles m r \<Longrightarrow> commits (system_step limit) m r"
  by (erule commits_mono) (rule settles_system)

lemma leasing_system: "commits lease_step m r \<Longrightarrow> commits (system_step limit) m r"
  by (erule commits_mono) (intro job_system lease_step_job_step)

lemma producing_system: "commits job_step m r \<Longrightarrow> commits (system_step limit) m r"
  by (erule commits_mono) (rule job_system)

lemma creation_system: "commits (system_step (cf_weekly_budget cfg)) m (create_task cfg uuid p ti m)"
  using create_task_commits by (rule commits_mono) (use creates_system in blast)

lemma capacity_valid: "validate_create_resource xi = Inr u \<Longrightarrow> 0 \<le> xi_capacity xi"
  by (auto simp: validate_create_resource_def split: if_splits)

lemma op_commits:
  assumes "op_valid en op = Inr u"
  shows "commits (system_step (cf_weekly_budget (en_config en))) m (op_body en sha op m)"
proof (cases op)
  case (Create_task x y z)
  then show ?thesis by (simp add: creation_system)
next
  case (Create_resource x y)
  with assms show ?thesis by (simp add: producing_system create_resource_commits capacity_valid)
next
  case (Create_reservation x y z v w)
  with assms have "\<forall>i \<in> set w. 0 \<le> snd i" by (auto dest: validate_reservation_units)
  with Create_reservation show ?thesis by (simp only: op_body.simps) (intro producing_system create_reservation_commits)
qed (simp_all only: op_body.simps settling_commits [THEN settling_system] leasing_commits [THEN leasing_system]
      producing_commits [THEN producing_system])

text \<open>Every body honours the contract of a write transaction.\<close>

lemma op_replay_safe: "replay_safe (op_body en sha op)"
  by (cases op)
     (simp_all only: op_body.simps project_creation.replay_safe_axioms project_archive.replay_safe_axioms
        creation.replay_safe_axioms edition.replay_safe_axioms unblocking.replay_safe_axioms
        lifecycle_action.replay_safe_axioms external_completion.replay_safe_axioms human_delivery.replay_safe_axioms
        grant_creation.replay_safe_axioms grant_revocation.replay_safe_axioms acknowledgement.replay_safe_axioms
        claiming.replay_safe_axioms renewal.replay_safe_axioms checkpointing.replay_safe_axioms
        releasing.replay_safe_axioms recovery.replay_safe_axioms checkout.replay_safe_axioms
        resource_creation.replay_safe_axioms resource_update.replay_safe_axioms resource_delete.replay_safe_axioms
        reservation_creation.replay_safe_axioms reservation_release.replay_safe_axioms
        reservation_resolution.replay_safe_axioms registration.replay_safe_axioms
        observation.replay_safe_axioms reporter_renewal.replay_safe_axioms
        policy_update.replay_safe_axioms workflow_policy_update.replay_safe_axioms submission.replay_safe_axioms
        reopening.replay_safe_axioms activity_claim.replay_safe_axioms activity_release.replay_safe_axioms
        reviewing.replay_safe_axioms authorization.replay_safe_axioms intending.replay_safe_axioms
        result_report.replay_safe_axioms reconciliation.replay_safe_axioms agent_reconciliation.replay_safe_axioms
        finalization.replay_safe_axioms knowledge_creation.replay_safe_axioms knowledge_edition.replay_safe_axioms
        knowledge_feedback_addition.replay_safe_axioms decision_creation.replay_safe_axioms
        decision_answering.replay_safe_axioms decision_reopening.replay_safe_axioms)

interpretation operations: replay_safe "op_body en sha op" for en sha op
  by (rule op_replay_safe)

section \<open>Steps\<close>

definition forward :: "int \<Rightarrow> db \<Rightarrow> db \<Rightarrow> bool" where
  "forward limit d d' \<longleftrightarrow> prefix (events d) (events d') \<and> prefix (receipts d) (receipts d')
     \<and> ck_last_safe (clock d) \<le> ck_last_safe (clock d')
     \<and> (system_ok limit d \<longrightarrow> system_ok limit d' \<and> jobs_forward d d' \<and> leases_forward d d')"

lemma forward_refl [simp]: "forward limit d d"
  by (simp add: forward_def jobs_forward_same)

lemma forward_trans: "forward limit a b \<Longrightarrow> forward limit b c \<Longrightarrow> forward limit a c"
  by (auto simp: forward_def intro: prefix_order.trans elim: jobs_forward_trans leases_forward_trans)

lemma sample_leases_forward: "leases_forward d (sample_tables ts rt d)"
proof (cases "clock_rollback ts rt d")
  case True
  have "leases_forward d (d\<lparr>attempts := attempts (sample_tables ts rt d)\<rparr>)"
    unfolding sample_tables_attempts if_P [OF True]
    by (rule leases_forward_attempts) (simp add: attempt_forward_def expire_on_rollback_def)
  then show ?thesis by (simp add: leases_forward_def)
next
  case False
  then show ?thesis by (simp add: leases_forward_def sample_tables_attempts attempt_kept task_kept)
qed

lemma forward_sample: "forward limit d (sample_tables ts rt d)"
proof -
  have e: "edges (sample_tables ts rt d) = edges d"
    by (simp add: edges_def sample_tables_def record_rollback_def)
  have b: "map budget_key (tasks (sample_tables ts rt d)) = map budget_key (tasks d)" by simp
  have j: "job_tables_same d (sample_tables ts rt d)" by (simp add: job_tables_same_def)
  show ?thesis
    using within_budget_frame [OF _ b, of limit] leases_ok_sample [of d ts rt] resources_ok_same [OF j]
      safe_now_lower(1) [of d ts rt]
    by (auto simp: forward_def system_ok_def e sample_tables_last_safe intro: jobs_forward_same sample_leases_forward)
qed

lemma forward_commit:
  assumes "commits (system_step limit) m r" and "r = Inr (Committed w d)"
  shows "forward limit (m_db m) d"
proof -
  from assms obtain d0 ed p k i where s: "system_step limit (m_db m) d0"
    and fin: "finish_with_event_data m d0 w ed p k i = Inr (Committed w d)"
    unfolding commits_def by blast
  from finish_Inr(1) [OF fin] obtain rs es where d: "d = d0\<lparr>receipts := receipts d0 @ rs, events := events d0 @ es\<rparr>"
    by (auto simp: insert_row_def)
  have "jobs_forward a (b\<lparr>receipts := rs, events := es\<rparr>) = jobs_forward a b"
    "leases_forward a (b\<lparr>receipts := rs, events := es\<rparr>) = leases_forward a b" for a b rs es
    by (simp_all add: jobs_forward_def leases_forward_def)
  with s system_ok_receipts show ?thesis
    unfolding d by (auto simp: forward_def system_step_def audited_def)
qed

text \<open>A transaction in the frame of \<open>run_mutation\<close>; the checks hand on the sampled state.\<close>

lemma forward_run:
  assumes run: "run_mutation (mutation_begin checks rq ts rt_after srv) body = (r, srv')"
    and body: "\<And>m w d. body m = Inr (Committed w d) \<Longrightarrow> forward limit (m_db m) d"
    and db: "\<And>key cs d m. checks key cs d = Inr m \<Longrightarrow> m_db m = d"
  shows "forward limit (srv_db srv) (srv_db srv')"
proof -
  note s = forward_sample [of limit "srv_db srv" ts "srv_rt srv"]
  have "forward limit (srv_db srv) (srv_db srv')"
    if "body m = Inr (Committed w (srv_db srv'))" "checks key cs (sample_tables ts (srv_rt srv) (srv_db srv)) = Inr m"
    for m w key cs
    using s body [OF that(1)] unfolding db [OF that(2)] by (rule forward_trans)
  with run_mutation_db [OF run] s show ?thesis by auto
qed

lemma reporter_checks_db: "begin_reporter_checks fp reporter ph rq key cs d = Inr m \<Longrightarrow> m_db m = d"
  by (auto simp: begin_reporter_checks_def Let_def dest!: load_receipt_fields)

lemma forward_serve:
  assumes "serve en c op srv = (r, srv')"
  shows "forward (cf_weekly_budget (en_config en)) (srv_db srv) (srv_db srv')"
proof (cases "op_valid en op")
  case (Inl e)
  with assms show ?thesis
    by (auto simp: serve_def handle_def handle_reporter_def split: option.splits prod.splits)
next
  case (Inr u)
  have body: "op_body en (cl_sha c) op m = Inr (Committed w d) \<Longrightarrow>
      forward (cf_weekly_budget (en_config en)) (m_db m) d" for m w d
    by (rule forward_commit [OF op_commits [OF Inr]])
  from assms Inr consider (bearer)
      "run_mutation (mutation_begin (begin_checks (cl_fp c) (cl_sha c) (cl_auth c) (request_of c (op_path op)))
         (request_of c (op_path op)) (cl_time c) (cl_rt_after c) srv) (op_body en (cl_sha c) op) = (r, srv')"
    | (reporter) i ph where "run_mutation (mutation_begin (begin_reporter_checks (cl_fp c) i ph
         (request_of c (op_path op))) (request_of c (op_path op)) (cl_time c) (cl_rt_after c) srv)
         (op_body en (cl_sha c) op) = (r, srv')"
    by (auto simp: serve_def handle_def handle_reporter_def split: option.splits prod.splits)
  then show ?thesis
    by cases (erule forward_run; use body in \<open>auto dest: begin_checks_fields(1) reporter_checks_db\<close>)+
qed

lemma settles_forward: "settles d d0 \<Longrightarrow> receipts d0 = receipts d \<Longrightarrow> forward limit d d0"
  using settles_system [of d d0 limit] by (auto simp: forward_def system_step_def audited_def)

lemma begin_forward:
  assumes "mutation_begin checks rq ts rt_after srv = (b, s)"
    and db: "\<And>key cs d m. checks key cs d = Inr m \<Longrightarrow> m_db m = d"
  shows "forward limit (srv_db srv) (srv_db s)" "b = Inr m \<Longrightarrow> forward limit (srv_db srv) (m_db m)"
  using assms(1) forward_sample [of limit "srv_db srv" ts "srv_rt srv"]
  by (auto simp: mutation_begin_def sample_clock_def Let_def split: sum.splits prod.splits if_splits dest!: db)

lemma forward_reconcile:
  assumes "reconcile_clock_request c wall tick incident reason srv = (r, srv')"
  shows "forward limit (srv_db srv) (srv_db srv')"
proof (cases "validate_reconcile incident")
  case (Inl e)
  with assms show ?thesis by (simp add: reconcile_clock_request_def)
next
  case (Inr u)
  let ?rq = "request_of c reconcile_clock_path"
  obtain b s where bs: "mutation_begin (begin_checks (cl_fp c) (cl_sha c) (cl_auth c) ?rq) ?rq (cl_time c) (cl_rt_after c) srv = (b, s)"
    by fastforce
  have fw: "forward limit (srv_db srv) (srv_db s)" "b = Inr m \<Longrightarrow> forward limit (srv_db srv) (m_db m)" for m
    by (rule begin_forward [OF bs]; use begin_checks_fields(1) in blast)+
  show ?thesis
  proof (cases b)
    case Inl': (Inl e)
    with assms Inr bs fw(1) show ?thesis by (simp add: reconcile_clock_request_def Let_def)
  next
    case Inr': (Inr m)
    obtain out rt where o: "reconcile_clock_body wall tick incident reason m (srv_rt s) = (out, rt)" by fastforce
    from assms Inr bs Inr' o have run: "run_mutation (Inr m, s\<lparr>srv_rt := rt\<rparr>) (\<lambda>_. out) = (r, srv')"
      by (simp add: reconcile_clock_request_def Let_def)
    have c: "commits (system_step limit) m out"
      using reconcile_clock_settles [of m wall tick incident reason "srv_rt s", THEN settling_system] o by simp
    from run fw(1) fw(2) [OF Inr'] forward_commit [OF c] show ?thesis
      by (auto simp: run_mutation_def split: sum.splits outcome.splits intro: forward_trans)
  qed
qed

lemma forward_recover:
  assumes "recover_clock ts rt_after wall tick reason srv = (r, srv')"
  shows "forward limit (srv_db srv) (srv_db srv')"
proof -
  let ?d = "sample_tables ts (srv_rt srv) (srv_db srv)"
  note s = forward_sample [of limit "srv_db srv" ts "srv_rt srv"]
  have "forward limit ?d d1" if "reconcile_clock wall tick i reason ini who ?d rt = Inr (d1, rt1, t)" for i ini who rt d1 rt1 t
    using reconcile_clock_Inr(1-3) [OF that] by (intro settles_forward clock_only_quiet) (auto simp: clock_only_def)
  with assms s show ?thesis
    by (auto simp: recover_clock_def sample_clock_def Let_def split: prod.splits if_splits option.splits sum.splits
        intro: forward_trans)
qed

lemma forward_elsewhere: "elsewhere d d' \<Longrightarrow> forward limit d d'"
proof -
  assume e: "elsewhere d d'"
  have "job_tables_same d d'" "edges d' = edges d" "map budget_key (tasks d') = map budget_key (tasks d)"
    using elsewhereD [OF e] by (simp_all add: job_tables_same_def edges_def)
  with elsewhereD [OF e] resources_ok_same show ?thesis
    by (auto simp: forward_def system_ok_def leases_ok_def intro: within_budget_frame jobs_forward_same
        simp: leases_forward_def attempt_kept task_kept)
qed

lemma forward_startup: "forward limit d (startup_reconcile ids system d)"
  using job_system [OF lease_step_job_step [OF startup_reconcile_step], of limit d ids system]
  by (auto simp: forward_def system_step_def audited_def)

lemma step_forward:
  assumes "step en srv srv'"
  shows "forward (cf_weekly_budget (en_config en)) (srv_db srv) (srv_db srv')"
  using assms
proof cases
  case (sample ts rt_after cs)
  then show ?thesis
    using forward_sample by (auto simp: authoritative_now_def sample_clock_def Let_def split: prod.splits)
qed (auto intro: forward_serve forward_reconcile forward_recover forward_elsewhere forward_startup)

lemma fresh_ok: "fresh d \<Longrightarrow> 0 \<le> limit \<Longrightarrow> system_ok limit d"
  by (auto simp: fresh_def system_ok_def leases_ok_def one_active_def within_budget_def admitted_in_week_def resources_ok_def
      edges_def unique_by_def table_simps acyclic_def)

lemma reachable_ok:
  assumes "reachable en srv" and "0 \<le> cf_weekly_budget (en_config en)"
  shows "system_ok (cf_weekly_budget (en_config en)) (srv_db srv)"
  using assms(1)
proof induction
  case (start srv)
  then show ?case by (rule fresh_ok [OF _ assms(2)])
next
  case (next_state srv srv')
  with step_forward show ?case by (auto simp: forward_def)
qed

lemma steps_forward: "(step en)\<^sup>*\<^sup>* srv srv' \<Longrightarrow> forward (cf_weekly_budget (en_config en)) (srv_db srv) (srv_db srv')"
  by (induction rule: rtranclp_induct) (auto intro: forward_trans step_forward)

text \<open>The receipt of a commit stays the one its key finds.\<close>

lemma receipt_kept:
  assumes run: "op_body en sha op m = Inr (Committed w (srv_db srv))" and steps: "(step en)\<^sup>*\<^sup>* srv srv'"
  shows "fetch (receipt_matches (ac_id (m_actor m)) (m_operation m) (m_key m)) (receipts (srv_db srv'))
    = Some (receipt_of m w)"
proof -
  from operations.commit_receipt [OF run] obtain d0 ed p k r where d0: "receipts d0 = receipts (m_db m)"
    and fin: "finish_with_event_data m d0 w ed p k r = Inr (Committed w (srv_db srv))" by blast
  from steps_forward [OF steps] obtain later where "receipts (srv_db srv') = receipts (srv_db srv) @ later"
    by (auto simp: forward_def prefix_def)
  then have "receipts (srv_db srv') = receipts d0 @ receipt_of m w # later"
    using finish_Inr(1) [OF fin] by (simp add: insert_row_def)
  moreover have "receipt_matches (ac_id (m_actor m)) (m_operation m) (m_key m) (receipt_of m w)"
    by (simp add: receipt_of_def receipt_matches_def)
  ultimately show ?thesis using fetch_append_first [OF finish_Inr(2) [OF fin]] by simp
qed

lemma steps_reachable: "(step en)\<^sup>*\<^sup>* srv srv' \<Longrightarrow> reachable en srv \<Longrightarrow> reachable en srv'"
  by (induction rule: rtranclp_induct) (auto intro: next_state)

end
