(* ===== verification/Scenario.thy ===== *)
theory Scenario
  imports System_Invariant
begin

text \<open>
  A concrete service and a concrete run, on which the general theorems are instantiated: an
  administrator creates a project, an agent acknowledges its instructions, creates a task, claims
  it, lets the lease run out and recovers it. Every state is computed by the handlers themselves.
\<close>

definition ex_env :: env where
  "ex_env = \<lparr>en_config = \<lparr>cf_weekly_budget = 14, cf_canary_principals = [], cf_fix_class_principals = []\<rparr>,
     en_digest = (\<lambda>(t, d, a, k). t), en_hash = oi_summary, en_is_uuid = (\<lambda>s. s \<noteq> []),
     en_hex_bytes = (\<lambda>s. Some (length s div 2)),
     en_lower = (\<lambda>s. s), en_url = (\<lambda>_. None), en_show_int = (\<lambda>_. [])\<rparr>"

definition ex_now :: int where "ex_now = 1700000000000"

definition ex_db :: db where
  "ex_db = \<lparr>principals = [\<lparr>pr_id = ''root'', pr_name = ''root'', pr_kind = Human, pr_role = ''admin'', pr_disabled_at = None\<rparr>,
      \<lparr>pr_id = ''bot'', pr_name = ''bot'', pr_kind = Agent, pr_role = ''agent'', pr_disabled_at = None\<rparr>],
     credentials = [\<lparr>cr_id = ''c1'', cr_principal = ''bot'', cr_token_hash = ''tok'', cr_revoked_at = None,
        cr_expires_at = None, cr_class = ''interactive'', cr_access = ''write''\<rparr>],
     browser_sessions = [\<lparr>bs_id = ''b1'', bs_principal = ''root'', bs_token_hash = ''web'', bs_expires_at = 1800000000000,
        bs_revoked_at = None\<rparr>],
     agent_sessions = [\<lparr>as_id = ''s1'', as_principal = ''bot'', as_credential = ''c1'', as_workstation = ''w1'',
        as_proof_hash = ''pf'', as_closed_at = None, as_subagent_identity = None, as_parent_session = None\<rparr>],
     subagent_identities = [], events = [], receipts = [], authority_epoch = ''initial'', coord_state = Coordination_ready,
     clock = \<lparr>ck_last_safe = 1700000000000, ck_status = Clock_ready, ck_incident = None, ck_observed = None, ck_detected_at = None\<rparr>,
     clock_incidents = [], clock_events = [],
     projects = [], policy_revisions = [], tasks = [], task_revisions = [], task_dependencies = [], attempts = [],
     checkpoints = [], acknowledgments = [], checkouts = [], contributors = [], definition_grants = [],
     revision_grants = [], objectives = [], objective_children = [], decisions = [], decision_cycles = [],
     decision_tasks = [], decision_answers = [], resources = [], reservations = [], reservation_items = [],
     jobs = [], reporters = [], job_observations = [], submissions = [], workflow_policies = [],
     workflow_policy_revisions = [], workflow_subjects = [], workflow_activities = [], review_decisions = [],
     review_findings = [], integration_authorizations = [], integration_holds = [], publication_intents = [],
     integration_results = [], publication_reconciliations = [], integrator_results = [],
     integrator_observations = [], integrator_receipts = [], integrator_reports = [], integrator_revises = [],
     revise_requests = [], task_reverts = [], artifacts = [], submission_artifacts = [], knowledge_records = [],
     knowledge_revisions = [], knowledge_feedbacks = [], submission_knowledge_links = []\<rparr>"

definition ex_srv :: server where
  "ex_srv = \<lparr>srv_db = ex_db, srv_rt = open_runtime ex_db 0\<rparr>"

text \<open>A request at a wall time, by the administrator's browser or the agent's session.\<close>

definition ex_call :: "bool \<Rightarrow> string \<Rightarrow> int \<Rightarrow> call" where
  "ex_call human key wall = \<lparr>cl_fp = (\<lambda>_. ''fp''), cl_sha = (\<lambda>s. s),
     cl_auth = (if human then Browser ''web'' else Bearer ''tok'' (Some (''s1'', ''pf'')) False),
     cl_keys = [key], cl_body = [], cl_proof = None,
     cl_time = \<lparr>ts_use_mono = False, ts_wall = wall, ts_mono = 0, ts_mono_after = 0, ts_uuid = ''incident''\<rparr>,
     cl_rt_after = open_runtime ex_db 0\<rparr>"

definition ex_project_input :: project_input where
  "ex_project_input = \<lparr>pi_name = ''demo'', pi_repository_url = ''git'', pi_target_branch = ''main''\<rparr>"

definition ex_ack_input :: acknowledgment where
  "ex_ack_input = \<lparr>ak_project = ''p'', ak_policy_revision = 1, ak_instruction_version = INSTRUCTION_VERSION,
     ak_sections = [REQUIRED_SECTION]\<rparr>"

definition ex_task_input :: task_input where
  "ex_task_input = \<lparr>ti_title = ''fix'', ti_description = [], ti_acceptance = [''ok''], ti_kind = ''code'', ti_priority = 1,
     ti_depends_on = [], ti_planned = False, ti_human_delivered = False, ti_admission_class = None,
     ti_admission_evidence = None\<rparr>"

definition ex_claim_input :: "string \<Rightarrow> claim_input" where
  "ex_claim_input mode = \<lparr>cm_task = None, cm_expected_revision = None, cm_mode = mode, cm_policy_revision = 1,
     cm_instruction_version = INSTRUCTION_VERSION\<rparr>"

section \<open>States\<close>

definition ex_agent :: actor where
  "ex_agent = \<lparr>ac_id = ''bot'', ac_name = ''bot'', ac_kind = Agent, ac_role = ''agent'', ac_credential = Some ''c1'',
     ac_session = Some ''s1'', ac_attributes = Some \<lparr>ca_class = Interactive, ca_access = Write\<rparr>\<rparr>"

definition ex_admin :: actor where
  "ex_admin = \<lparr>ac_id = ''root'', ac_name = ''root'', ac_kind = Human, ac_role = ''admin'', ac_credential = None,
     ac_session = Some ''b1'', ac_attributes = None\<rparr>"

text \<open>A transaction of a verified caller on a state.\<close>

definition ex_m :: "actor \<Rightarrow> int \<Rightarrow> db \<Rightarrow> mutation" where
  "ex_m a now d = \<lparr>m_db = d, m_actor = a, m_now = now, m_replay = None, m_operation = ''op'', m_key = ''key'',
     m_fingerprint = ''fp'', m_epoch = ''initial''\<rparr>"

text \<open>One project whose instructions the agent acknowledged, and one open task.\<close>

definition ex_project :: project where
  "ex_project = new_project (ex_m ex_admin ex_now ex_db) ''p'' ex_project_input"

definition ex_task :: task where
  "ex_task = new_task (ex_m ex_admin ex_now ex_db) ''p'' ''t'' ex_task_input Open"

definition ex_work :: db where
  "ex_work = ex_db\<lparr>projects := [ex_project],
     acknowledgments := [\<lparr>ia_session = ''s1'', ia_project = ''p'', ia_policy_revision = 1,
        ia_instruction_version = INSTRUCTION_VERSION, ia_created_at = 1700000000000\<rparr>],
     tasks := [ex_task]\<rparr>"

definition ex_attempt :: attempt where
  "ex_attempt = new_attempt (ex_m ex_agent ex_now ex_work) ''p'' ex_project ''a1'' ''s1'' ''work'' ex_task"

text \<open>The agent owns the task.\<close>

definition ex_owned :: db where
  "ex_owned = ex_work\<lparr>attempts := [ex_attempt],
     tasks := [ex_task\<lparr>tk_current_attempt := Some ''a1'', tk_generation := 1\<rparr>],
     contributors := [\<lparr>tc_task = ''t'', tc_principal = ''bot'', tc_session = ''s1'', tc_first_at = ex_now\<rparr>]\<rparr>"

text \<open>The first attempt recorded a commit and expired; the agent owns the task for recovery.\<close>

definition ex_sha :: string where "ex_sha = replicate 40 CHR ''a''"

definition ex_recovering :: db where
  "ex_recovering = ex_owned\<lparr>attempts := [ex_attempt\<lparr>at_state := Expired, at_ended_at := Some (ex_now + 700000)\<rparr>,
       ex_attempt\<lparr>at_id := ''a2'', at_generation := 2, at_mode := Recovery, at_created_at := ex_now + 700000,
         at_expires_at := ex_now + 1300000\<rparr>],
     tasks := [ex_task\<lparr>tk_current_attempt := Some ''a2'', tk_generation := 2\<rparr>],
     checkpoints := [\<lparr>cp_id = ''k1'', cp_project = ''p'', cp_attempt = ''a1'', cp_summary = ''wip'', cp_current_action = [],
       cp_next_step = [], cp_blockers = [], cp_created_at = ex_now, cp_revision = Some ex_sha\<rparr>]\<rparr>"

text \<open>One resource with two units, one of them held for a running job of the attempt.\<close>

definition ex_resource :: resource_row where
  "ex_resource = \<lparr>rs_id = ''r1'', rs_key = ''gpu'', rs_capacity = 2, rs_description = [], rs_created_by = ''root'',
     rs_created_at = ex_now\<rparr>"

definition ex_job :: job where
  "ex_job = \<lparr>jb_id = ''j1'', jb_producer = ''pr1'', jb_project = ''p'', jb_task = ''t'', jb_attempt = ''a1'', jb_generation = 1,
     jb_runner = ''rn1'', jb_workstation = ''w1'', jb_label = ''build'', jb_source_revision = ''x'', jb_source_tree = ''y'',
     jb_reservation = ''v1'', jb_state = Running, jb_last_sequence = 1, jb_last_observed_at = Some ex_now, jb_pid = Some 7,
     jb_process_started_at = None, jb_exit_code = None, jb_inputs_unchanged = None, jb_summary = [], jb_reconciled_at = None,
     jb_reconciled_by = None, jb_reconciliation = None, jb_created_at = ex_now, jb_check = None\<rparr>"

definition ex_building :: db where
  "ex_building = ex_owned\<lparr>resources := [ex_resource],
     reservations := [\<lparr>rv_id = ''v1'', rv_project = ''p'', rv_attempt = ''a1'', rv_generation = 1, rv_state = Held,
       rv_created_by = ''bot'', rv_created_at = ex_now, rv_closed_at = None, rv_closed_by = None, rv_reason = None,
       rv_evidence = None\<rparr>],
     reservation_items := [\<lparr>ri_reservation = ''v1'', ri_resource = ''r1'', ri_units = 1\<rparr>],
     jobs := [ex_job],
     reporters := [\<lparr>rp_id = ''rp1'', rp_job = ''j1'', rp_principal = ''bot'', rp_credential = ''c1'', rp_session = ''s1'',
       rp_proof_hash = ''ph'', rp_expires_at = ex_now + 9000000, rp_renew_until = ex_now + 900000, rp_created_at = ex_now\<rparr>]\<rparr>"

definition ex_serving :: "db \<Rightarrow> server" where
  "ex_serving d = \<lparr>srv_db = d, srv_rt = open_runtime ex_db 0\<rparr>"

section \<open>Outcomes\<close>

definition is_commit :: "outcome res \<Rightarrow> bool" where
  "is_commit r = (case r of Inr (Committed w d) \<Rightarrow> True | _ \<Rightarrow> False)"

definition out_db :: "outcome res \<Rightarrow> db" where
  "out_db r = (case r of Inr (Committed w d) \<Rightarrow> d | _ \<Rightarrow> ex_db)"

definition out_value :: "outcome res \<Rightarrow> json" where
  "out_value r = (case r of Inr (Committed w d) \<Rightarrow> w | _ \<Rightarrow> JNull)"

lemma committed: "is_commit r \<Longrightarrow> r = Inr (Committed (out_value r) (out_db r))"
  by (auto simp: is_commit_def out_db_def out_value_def split: sum.splits outcome.splits)

section \<open>The states satisfy the invariants\<close>

lemmas ex_attempt_defs = ex_attempt_def ex_task_def ex_project_def new_attempt_def new_task_def new_project_def ex_m_def
  ex_task_input_def ex_project_input_def ex_agent_def ex_admin_def attempt_limit_def

lemmas ex_state_defs = ex_owned_def ex_work_def ex_db_def

lemmas ex_ok_defs = leases_ok_def within_budget_def admitted_in_week_def admitted_at_def edges_def resources_ok_def
  unique_by_def attempt_ok_def current_ok_def granted_ok_def one_active_def closed_def item_ok_def held_units_def held_def

lemma acyclic_empty [simp]: "acyclic {}"
  by (simp add: acyclic_def)

lemma ex_fresh: "fresh ex_db"
  by (simp add: fresh_def ex_db_def)

lemma ex_db_ok: "system_ok 14 ex_db"
  by (rule fresh_ok [OF ex_fresh]) simp

lemma ex_work_ok: "system_ok 14 ex_work"
  by (simp add: system_ok_def ex_ok_defs ex_state_defs ex_attempt_defs table_simps)

lemma ex_owned_ok: "system_ok 14 ex_owned"
  by (simp add: system_ok_def ex_ok_defs ex_state_defs ex_attempt_defs table_simps)

lemma ex_recovering_ok: "system_ok 14 ex_recovering"
  by (simp add: system_ok_def ex_ok_defs ex_recovering_def ex_state_defs ex_attempt_defs table_simps)

lemma ex_building_ok: "system_ok 14 ex_building"
  by (simp add: system_ok_def ex_ok_defs ex_building_def ex_resource_def ex_job_def ex_state_defs ex_attempt_defs table_simps
      live_job_def unfinished_job_def rows_def)

lemma ex_budget [simp]: "cf_weekly_budget (en_config ex_env) = 14"
  by (simp add: ex_env_def)

lemma ex_serving_db [simp]: "srv_db (ex_serving d) = d"
  by (simp add: ex_serving_def)

text \<open>A restart is a step that every run can take.\<close>

lemma ex_restart: "(step en)\<^sup>*\<^sup>* (ex_serving d) (ex_serving d\<lparr>srv_rt := open_runtime d 5\<rparr>)"
  using step.restart [of en "ex_serving d" 5] by (simp add: r_into_rtranclp)

end
