(* ===== verification/Service_Properties.thy ===== *)
theory Service_Properties
  imports Scenario
begin

text \<open>
  What the write transaction, the service clock and the access checks guarantee for every modelled
  operation, with a run of the concrete service for each guarantee that has hypotheses.
\<close>

section \<open>Retries\<close>

text \<open>C7. Exactly once: after an operation committed, a retry of the same request by the same principal
  inside the replay window, in any later state of the service, loads the stored answer, and no body
  run on it commits anything.\<close>

theorem retry_answers_once:
  assumes run: "op_body en sha op m = Inr (Committed w (srv_db srv))"
    and steps: "(step en)\<^sup>*\<^sup>* srv srv'"
    and who: "ac_id a = ac_id (m_actor m)" and window: "now - m_now m \<le> replay_window_ms"
  shows "\<exists>m2. load_receipt (srv_db srv') now a (m_operation m) (m_key m) (m_fingerprint m) (m_epoch m) = Inr m2
    \<and> m_replay m2 = Some w \<and> (\<forall>v d. op_body en sha op m2 \<noteq> Inr (Committed v d))"
proof -
  have "fetch (receipt_matches (ac_id a) (m_operation m) (m_key m)) (receipts (srv_db srv')) = Some (receipt_of m w)"
    using receipt_kept [OF run steps] who by simp
  with window obtain m2 where "load_receipt (srv_db srv') now a (m_operation m) (m_key m) (m_fingerprint m) (m_epoch m) = Inr m2"
    "m_replay m2 = Some w"
    by (simp add: load_receipt_def receipt_of_def)
  with operations.replay_no_commit show ?thesis by blast
qed

definition ex_out :: "outcome res" where
  "ex_out = op_body ex_env (\<lambda>s. s) (Create_resource ''r1'' \<lparr>xi_key = ''gpu'', xi_capacity = 2, xi_description = []\<rparr>)
     (ex_m ex_admin (ex_now + 4) ex_db)"

lemma ex_out_commits: "is_commit ex_out"
  by (simp add: ex_out_def create_resource_def ex_m_def ex_admin_def ex_db_def replay_or_def table_simps
      finish_def finish_with_event_data_def is_commit_def insert_unique_def Let_def)

lemma ex_out_run: "op_body ex_env (\<lambda>s. s) (Create_resource ''r1'' \<lparr>xi_key = ''gpu'', xi_capacity = 2, xi_description = []\<rparr>)
    (ex_m ex_admin (ex_now + 4) ex_db) = Inr (Committed (out_value ex_out) (srv_db (ex_serving (out_db ex_out))))"
  using committed [OF ex_out_commits] by (simp only: ex_out_def ex_serving_db)

theorem retry_answers_once_witness:
  "\<exists>m2. load_receipt (out_db ex_out) (ex_now + 5) ex_admin ''op'' ''key'' ''fp'' ''initial'' = Inr m2
    \<and> m_replay m2 = Some (out_value ex_out)
    \<and> (\<forall>v d. op_body ex_env (\<lambda>s. s) (Create_resource ''r1'' \<lparr>xi_key = ''gpu'', xi_capacity = 2, xi_description = []\<rparr>) m2
         \<noteq> Inr (Committed v d))"
  using retry_answers_once [OF ex_out_run ex_restart, of ex_admin "ex_now + 5"]
  by (simp add: ex_m_def replay_window_ms_def)

text \<open>C27. A key is bound to one request of one authority epoch: reusing it under another restore epoch,
  with another request, or after the replay window is refused, each with its own code.\<close>

theorem key_reuse_refused:
  assumes run: "op_body en sha op m = Inr (Committed w (srv_db srv))"
    and steps: "(step en)\<^sup>*\<^sup>* srv srv'" and who: "ac_id a = ac_id (m_actor m)"
  shows "load_receipt (srv_db srv') now a (m_operation m) (m_key m) f epoch =
     (if epoch \<noteq> m_epoch m then Inl (conflict ''request_from_previous_restore'')
      else if f \<noteq> m_fingerprint m then Inl (conflict ''idempotency_conflict'')
      else if now - m_now m > replay_window_ms then Inl (conflict ''idempotency_receipt_expired'')
      else Inr \<lparr>m_db = srv_db srv', m_actor = a, m_now = now, m_replay = Some w, m_operation = m_operation m,
             m_key = m_key m, m_fingerprint = f, m_epoch = epoch\<rparr>)"
proof -
  have "fetch (receipt_matches (ac_id a) (m_operation m) (m_key m)) (receipts (srv_db srv')) = Some (receipt_of m w)"
    using receipt_kept [OF run steps] who by simp
  then show ?thesis by (auto simp: load_receipt_def receipt_of_def)
qed

theorem key_reuse_refused_witness:
  "load_receipt (out_db ex_out) (ex_now + 5) ex_admin ''op'' ''key'' ''other'' ''initial''
     = Inl (conflict ''idempotency_conflict'')"
  using key_reuse_refused [OF ex_out_run ex_restart, of ex_admin "ex_now + 5" "''other''" "''initial''"]
  by (simp add: ex_m_def)

text \<open>C32. A commit of any operation stores exactly one receipt, the caller's, and appends its audit events
  after the existing ones; the last names the verified principal and the transaction's service time.\<close>

theorem commit_audited:
  assumes "op_body en sha op m = Inr (Committed w d)"
  shows "receipts d = receipts (m_db m) @ [receipt_of m w]
    \<and> (\<exists>es e. events d = events (m_db m) @ es @ [e] \<and> ev_actor e = ac_id (m_actor m) \<and> ev_created_at e = m_now m)"
  using operations.commit_appends [OF assms] by blast

theorem commit_audited_witness:
  "receipts (out_db ex_out) = [receipt_of (ex_m ex_admin (ex_now + 4) ex_db) (out_value ex_out)]"
  using commit_audited [OF ex_out_run] by (simp add: ex_m_def ex_db_def)

section \<open>The service clock\<close>

text \<open>A request in the frame of a transaction, without a rollback at its sample.\<close>

lemma run_refused:
  assumes "run_mutation (mutation_begin checks rq ts rt_after srv) body = (r, srv')"
    and "\<not> clock_rollback ts (srv_rt srv) (srv_db srv)"
    and "\<And>key m. checks key \<lparr>cs_now = fst (sample_runtime ts (safe_now ts (srv_rt srv) (srv_db srv))
            (clock_active (srv_db srv)) rt_after), cs_incident_active = clock_active (srv_db srv), cs_incident_detected = False\<rparr>
            (sample_tables ts (srv_rt srv) (srv_db srv)) \<noteq> Inr m"
  shows "(\<exists>e. r = Inl e) \<and> srv_db srv' = srv_db srv"
proof -
  let ?x = "sample_runtime ts (safe_now ts (srv_rt srv) (srv_db srv)) (clock_active (srv_db srv)) rt_after"
  let ?cs = "\<lparr>cs_now = fst ?x, cs_incident_active = clock_active (srv_db srv), cs_incident_detected = False\<rparr>"
  show ?thesis
  proof (cases "mutation_key (rq_keys rq)")
    case (Inr key)
    with assms(3) [of key] obtain e where e: "checks key ?cs (sample_tables ts (srv_rt srv) (srv_db srv)) = Inl e"
      by (cases "checks key ?cs (sample_tables ts (srv_rt srv) (srv_db srv))") auto
    have "mutation_begin checks rq ts rt_after srv = (Inl e, srv\<lparr>srv_rt := snd ?x\<rparr>)"
      using Inr e assms(2) by (simp add: mutation_begin_def sample_clock_def Let_def case_prod_beta)
    with assms(1) show ?thesis by (auto simp: run_mutation_def)
  qed (use assms(1) in \<open>auto simp: mutation_begin_def run_mutation_def\<close>)
qed

lemma begin_reporter_checks_guards:
  assumes "begin_reporter_checks fp reporter ph rq key cs d = Inr m"
  shows "cs_incident_active cs \<Longrightarrow> allowed_during_clock_reconciliation (rq_operation rq)"
    "coord_state d = Restore_reconciliation \<Longrightarrow> allowed_during_restore (rq_operation rq)"
  using assms by (auto simp: begin_reporter_checks_def Let_def authority_def split: if_splits)

lemma serve_refused:
  assumes serve: "serve en c op srv = (r, srv')"
    and quiet: "\<not> clock_rollback (cl_time c) (srv_rt srv) (srv_db srv)"
    and no: "\<And>key cs m. cs_incident_active cs = clock_active (srv_db srv) \<Longrightarrow>
      begin_checks (cl_fp c) (cl_sha c) (cl_auth c) (request_of c (op_path op)) key cs
        (sample_tables (cl_time c) (srv_rt srv) (srv_db srv)) \<noteq> Inr m"
    and no_reporter: "\<And>reporter ph key cs m. op_reporter op = Some (reporter, ph) \<Longrightarrow>
      cs_incident_active cs = clock_active (srv_db srv) \<Longrightarrow>
      begin_reporter_checks (cl_fp c) reporter ph (request_of c (op_path op)) key cs
        (sample_tables (cl_time c) (srv_rt srv) (srv_db srv)) \<noteq> Inr m"
  shows "(\<exists>e. r = Inl e) \<and> srv_db srv' = srv_db srv"
proof (cases "op_valid en op")
  case (Inr u)
  with serve consider (bearer)
      "run_mutation (mutation_begin (begin_checks (cl_fp c) (cl_sha c) (cl_auth c) (request_of c (op_path op)))
         (request_of c (op_path op)) (cl_time c) (cl_rt_after c) srv) (op_body en (cl_sha c) op) = (r, srv')"
    | (reporter) i ph where "op_reporter op = Some (i, ph)" "run_mutation (mutation_begin (begin_reporter_checks (cl_fp c) i ph
         (request_of c (op_path op))) (request_of c (op_path op)) (cl_time c) (cl_rt_after c) srv)
         (op_body en (cl_sha c) op) = (r, srv')"
    by (auto simp: serve_def handle_def handle_reporter_def split: option.splits prod.splits)
  then show ?thesis
  proof cases
    case bearer
    then show ?thesis by (rule run_refused [OF _ quiet]) (rule no, simp)
  next
    case reporter
    from reporter(2) show ?thesis by (rule run_refused [OF _ quiet]) (rule no_reporter [OF reporter(1)], simp)
  qed
qed (use serve in \<open>auto simp: serve_def handle_def handle_reporter_def split: option.splits prod.splits\<close>)

text \<open>C26. While a clock incident is open, every operation outside the allowed ones, a reporter's included, is refused
  and changes nothing; while a restore is being reconciled, the same holds, except that the sample of the
  clock may find a new rollback and record it: the request itself then writes nothing either.\<close>

theorem pauses_block:
  assumes serve: "serve en c op srv = (r, srv')"
  shows "(clock_active (srv_db srv) \<and> \<not> allowed_during_clock_reconciliation (op_path op) \<longrightarrow>
      (\<exists>e. r = Inl e) \<and> srv_db srv' = srv_db srv)
    \<and> (coord_state (srv_db srv) = Restore_reconciliation \<and> \<not> allowed_during_restore (op_path op) \<longrightarrow>
      (\<exists>e. r = Inl e) \<and> (srv_db srv' = srv_db srv
         \<or> srv_db srv' = sample_tables (cl_time c) (srv_rt srv) (srv_db srv)))" (is "(?A \<longrightarrow> ?X) \<and> (?B \<longrightarrow> ?Y)")
proof (rule conjI; rule impI)
  assume ?A
  then show ?X
    by (intro serve_refused [OF serve])
       (auto simp: clock_rollback_def request_of_def dest: begin_checks_guards(3) begin_reporter_checks_guards(1))
next
  assume B: ?B
  show ?Y
  proof (cases "clock_rollback (cl_time c) (srv_rt srv) (srv_db srv)")
    case True
    with serve show ?thesis
      by (auto simp: serve_def handle_def handle_reporter_def run_mutation_def mutation_begin_def sample_clock_def Let_def
          split: sum.splits prod.splits option.splits)
  next
    case False
    with serve B have ?X
      by (intro serve_refused [OF serve])
         (auto simp: request_of_def dest: begin_checks_guards(4) begin_reporter_checks_guards(2))
    then show ?thesis by blast
  qed
qed

definition ex_paused :: db where
  "ex_paused = ex_owned\<lparr>clock := (clock ex_db)\<lparr>ck_status := Clock_reconciliation, ck_incident := Some ''i1''\<rparr>\<rparr>"

lemma ex_renew_paused: "\<not> allowed_during_clock_reconciliation (op_path (Renew ''p'' ''a1'' 1))"
  unfolding op_path.simps by code_simp

lemma ex_reporter_paused: "\<not> allowed_during_clock_reconciliation (op_path (Reporter_renew ''r'' ''r'' ''pf'' 1))"
  unfolding op_path.simps by code_simp

theorem pauses_block_witness:
  "srv_db (snd (serve ex_env (ex_call True ''k'' ex_now) (Renew ''p'' ''a1'' 1) (ex_serving ex_paused))) = ex_paused
    \<and> srv_db (snd (serve ex_env (ex_call True ''k'' ex_now) (Reporter_renew ''r'' ''r'' ''pf'' 1) (ex_serving ex_paused))) = ex_paused"
proof
  show "srv_db (snd (serve ex_env (ex_call True ''k'' ex_now) (Renew ''p'' ''a1'' 1) (ex_serving ex_paused))) = ex_paused"
    using pauses_block [where en = ex_env and c = "ex_call True ''k'' ex_now" and op = "Renew ''p'' ''a1'' 1"
        and srv = "ex_serving ex_paused", OF prod.collapse [symmetric]]
      ex_renew_paused by (simp add: ex_paused_def clock_active_def)
  show "srv_db (snd (serve ex_env (ex_call True ''k'' ex_now) (Reporter_renew ''r'' ''r'' ''pf'' 1) (ex_serving ex_paused))) = ex_paused"
    using pauses_block [where en = ex_env and c = "ex_call True ''k'' ex_now" and op = "Reporter_renew ''r'' ''r'' ''pf'' 1"
        and srv = "ex_serving ex_paused", OF prod.collapse [symmetric]]
      ex_reporter_paused by (simp add: ex_paused_def clock_active_def)
qed

text \<open>C25. A wall clock that fell more than five seconds behind the protected time: any well-formed request is
  answered \<open>clock_reconciliation_required\<close>, no lease stays active, no reporter outlives the incident,
  and tasks with their pointers and generations, reservations and receipts stay as they were.\<close>

theorem rollback_expires_all:
  assumes serve: "serve en c op srv = (r, srv')" and valid: "op_valid en op = Inr ()"
    and key: "mutation_key (cl_keys c) = Inr k"
    and behind: "\<not> clock_active (srv_db srv)"
      "saturating_add (raw_now (ts_wall (cl_time c))) 5000 < clock_expected (cl_time c) (srv_rt srv) (srv_db srv)"
  shows "r = Inl (conflict ''clock_reconciliation_required'') \<and> clock_active (srv_db srv')
    \<and> (\<forall>a \<in> set (attempts (srv_db srv')). at_state a \<noteq> Active)
    \<and> (\<forall>x \<in> set (reporters (srv_db srv')). rp_expires_at x \<le> ck_last_safe (clock (srv_db srv')))
    \<and> tasks (srv_db srv') = tasks (srv_db srv) \<and> reservations (srv_db srv') = reservations (srv_db srv)
    \<and> receipts (srv_db srv') = receipts (srv_db srv) \<and> events (srv_db srv') = events (srv_db srv)"
proof -
  let ?d = "sample_tables (cl_time c) (srv_rt srv) (srv_db srv)"
  have roll: "clock_rollback (cl_time c) (srv_rt srv) (srv_db srv)"
    using behind by (simp add: clock_rollback_def material_clock_rollback_ms_def)
  have "srv_db srv' = ?d" and "r = Inl clock_reconciliation_error"
    using serve valid key roll
    by (auto simp: serve_def handle_def handle_reporter_def run_mutation_def mutation_begin_def sample_clock_def Let_def
        request_of_def split: option.splits prod.splits)
  moreover have "rp_expires_at x \<le> ck_last_safe (clock ?d)" if "x \<in> set (reporters ?d)" for x
    using that roll by (auto simp: sample_tables_def record_rollback_def table_simps)
  ultimately show ?thesis
    using rollback_no_active [OF roll] roll by (simp add: clock_reconciliation_error_def sample_tables_status)
qed

theorem rollback_expires_all_witness:
  "fst (serve ex_env (ex_call True ''k'' (ex_now - 6000)) (Renew ''p'' ''a1'' 1) (ex_serving ex_owned))
      = Inl (conflict ''clock_reconciliation_required'')
    \<and> filter (\<lambda>a. at_state a = Active) (attempts (srv_db (snd
      (serve ex_env (ex_call True ''k'' (ex_now - 6000)) (Renew ''p'' ''a1'' 1) (ex_serving ex_owned))))) = []"
  using rollback_expires_all [of ex_env "ex_call True ''k'' (ex_now - 6000)" "Renew ''p'' ''a1'' 1" "ex_serving ex_owned"
      "fst (serve ex_env (ex_call True ''k'' (ex_now - 6000)) (Renew ''p'' ''a1'' 1) (ex_serving ex_owned))"
      "snd (serve ex_env (ex_call True ''k'' (ex_now - 6000)) (Renew ''p'' ''a1'' 1) (ex_serving ex_owned))" "''k''"]
  by (simp add: filter_empty_conv ex_call_def mutation_key_def ascii_graphic_def ex_now_def clock_active_def ex_owned_def
      ex_work_def ex_db_def ex_serving_def open_runtime_def clock_expected_def expected_time_def elapsed_def raw_now_def
      saturating_add_def sat64_def i64_max_def i64_min_def)

text \<open>
  The readings of the process clock between two reconciliations, in the order in which they hold the lock of
  the runtime: \<open>now\<close>, or the second half of a sample, whose database and first look at the runtime are
  of any earlier moment.
\<close>

datatype reading = Read_now bool int int | Read_sample time_source clock_runtime db

primrec take_reading :: "reading \<Rightarrow> clock_runtime \<Rightarrow> int \<times> clock_runtime" where
  "take_reading (Read_now use_mono wall tick) rt = app_now use_mono wall tick rt"
| "take_reading (Read_sample ts first d) rt = (case sample_clock ts first rt d of (cs, _, rt') \<Rightarrow> (cs_now cs, rt'))"

fun answers :: "reading list \<Rightarrow> clock_runtime \<Rightarrow> int list \<times> clock_runtime" where
  "answers [] rt = ([], rt)"
| "answers (x # xs) rt = (let (t, rt1) = take_reading x rt; (ts, rt2) = answers xs rt1 in (t # ts, rt2))"

lemma take_reading_high_water:
  assumes "take_reading x rt = (t, rt')" and "rt_initialized rt"
  shows "rt_high_water rt \<le> t" "rt_high_water rt' = t" "rt_initialized rt'"
proof -
  have "rt_high_water rt \<le> t \<and> rt_high_water rt' = t \<and> rt_initialized rt'"
  proof (cases x)
    case (Read_now use_mono wall tick)
    with assms app_now_high_water [of use_mono wall tick rt t rt'] show ?thesis
      by (auto simp: app_now_def Let_def split: if_splits)
  next
    case (Read_sample ts first d)
    with assms(1) obtain i where r: "sample_runtime ts (safe_now ts first d) i rt = (t, rt')"
      by (auto simp: sample_clock_def Let_def split: prod.splits)
    moreover from r have "rt_initialized rt'" by (auto simp: sample_runtime_def Let_def)
    ultimately show ?thesis using sample_runtime_high_water [OF r] by simp
  qed
  then show "rt_high_water rt \<le> t" "rt_high_water rt' = t" "rt_initialized rt'" by simp_all
qed

lemma answers_sorted:
  assumes "answers xs rt = (ts, rt')" and "rt_initialized rt"
  shows "sorted (rt_high_water rt # ts)" "\<forall>t \<in> set ts. t \<le> rt_high_water rt'" "rt_high_water rt \<le> rt_high_water rt'"
    "rt_initialized rt'"
proof -
  have "sorted (rt_high_water rt # ts) \<and> (\<forall>t \<in> set ts. t \<le> rt_high_water rt') \<and> rt_high_water rt \<le> rt_high_water rt'
      \<and> rt_initialized rt'"
    using assms
  proof (induction xs arbitrary: rt ts)
    case (Cons x xs)
    obtain t rt1 where x: "take_reading x rt = (t, rt1)" by fastforce
    obtain us where us: "answers xs rt1 = (us, rt')" "ts = t # us"
      using Cons.prems(1) x by (auto simp: Let_def split: prod.splits)
    from Cons.IH [OF us(1)] take_reading_high_water [OF x Cons.prems(2)] us(2) show ?case by auto
  qed simp
  then show "sorted (rt_high_water rt # ts)" "\<forall>t \<in> set ts. t \<le> rt_high_water rt'" "rt_high_water rt \<le> rt_high_water rt'"
    "rt_initialized rt'" by blast+
qed

text \<open>The beginning of a transaction is such a reading, and its time the answer.\<close>

lemma begin_reading:
  assumes "mutation_begin checks rq ts rt_after srv = (Inr m, srv1)"
    and "checks = begin_checks fp sha au rq \<or> checks = begin_reporter_checks fp i ph rq"
  shows "take_reading (Read_sample ts (srv_rt srv) (srv_db srv)) rt_after = (m_now m, srv_rt srv1)"
    "m_now m \<ge> safe_now ts (srv_rt srv) (srv_db srv)"
proof -
  have t: "checks key cs d = Inr m \<Longrightarrow> m_now m = cs_now cs" for key cs d
    using assms(2) by (auto dest: begin_checks_fields(2) simp: begin_reporter_checks_def Let_def dest!: load_receipt_fields)
  then show 1: "take_reading (Read_sample ts (srv_rt srv) (srv_db srv)) rt_after = (m_now m, srv_rt srv1)"
    using assms(1) by (auto simp: mutation_begin_def sample_clock_def Let_def split: sum.splits if_splits prod.splits)
  then obtain j where "sample_runtime ts (safe_now ts (srv_rt srv) (srv_db srv)) j rt_after = (m_now m, srv_rt srv1)"
    by (auto simp: sample_clock_def Let_def split: prod.splits)
  from sample_runtime_high_water(2) [OF this] show "m_now m \<ge> safe_now ts (srv_rt srv) (srv_db srv)" .
qed

text \<open>C29. Between two reconciliations the process clock is monotone, however requests interleave: the time of a
  transaction is at least every time the runtime answered before its sample took the lock, every later
  reading answers at least that time, and the answers before and after are in order as well. It is at least
  the durable high-water mark and the wall clock, too, and the durable mark never decreases along any run.
  (A reconciliation replaces the runtime; what it may do to the clock is shown below.)\<close>

theorem service_time_monotone:
  assumes begun: "mutation_begin checks rq ts rt_after srv = (Inr m, srv1)"
    and checks: "checks = begin_checks fp sha au rq \<or> checks = begin_reporter_checks fp i ph rq"
    and start: "rt_initialized rt0" and before: "answers xs rt0 = (earlier, rt_after)"
    and after: "answers ys (srv_rt srv1) = (later, rt2)"
    and run: "(step en)\<^sup>*\<^sup>* srv1 srv2"
  shows "sorted (rt_high_water rt0 # earlier @ m_now m # later)
    \<and> ck_last_safe (clock (srv_db srv)) \<le> m_now m \<and> raw_now (ts_wall ts) \<le> m_now m
    \<and> ck_last_safe (clock (srv_db srv1)) \<le> ck_last_safe (clock (srv_db srv2))"
proof -
  note b = begin_reading [OF begun checks]
  note e = answers_sorted [OF before start]
  note t = take_reading_high_water [OF b(1) e(4)]
  note l = answers_sorted [OF after t(3)]
  have "sorted (rt_high_water rt0 # earlier @ m_now m # later)"
    using e t(1,2) l(1) by (fastforce simp: sorted_append)
  moreover have "ck_last_safe (clock (srv_db srv)) \<le> m_now m" "raw_now (ts_wall ts) \<le> m_now m"
    using b(2) safe_now_lower [where d = "srv_db srv" and ts = ts and rt = "srv_rt srv"] by linarith+
  ultimately show ?thesis using steps_forward [OF run] by (simp add: forward_def)
qed

definition ex_begun :: "mutation res \<times> server" where
  "ex_begun = mutation_begin (begin_checks (\<lambda>_. ''fp'') (\<lambda>s. s) (Browser ''web'') (request_of (ex_call True ''k'' ex_now) ''x''))
     (request_of (ex_call True ''k'' ex_now) ''x'') (cl_time (ex_call True ''k'' ex_now)) (open_runtime ex_db 0) (ex_serving ex_db)"

lemma ex_begun_ok: "case fst ex_begun of Inl e \<Rightarrow> False | Inr m \<Rightarrow> m_now m = ex_now"
  by code_simp

theorem service_time_monotone_witness:
  "\<exists>m. fst ex_begun = Inr m \<and> sorted [1700000000000, m_now m,
      fst (app_now True 5 0 (srv_rt (snd ex_begun))), fst (app_now True 0 7 (snd (app_now True 5 0 (srv_rt (snd ex_begun)))))]"
proof -
  from ex_begun_ok obtain m where m: "fst ex_begun = Inr m" by (auto split: sum.splits)
  then have b: "ex_begun = (Inr m, snd ex_begun)" by (simp add: prod_eq_iff)
  have "answers [Read_now True 5 0, Read_now True 0 7] (srv_rt (snd ex_begun))
    = ([fst (app_now True 5 0 (srv_rt (snd ex_begun))), fst (app_now True 0 7 (snd (app_now True 5 0 (srv_rt (snd ex_begun)))))],
       snd (app_now True 0 7 (snd (app_now True 5 0 (srv_rt (snd ex_begun))))))" by (simp add: Let_def case_prod_beta)
  from service_time_monotone [OF b [unfolded ex_begun_def] disjI1 [OF refl] _ answers.simps(1) this [unfolded ex_begun_def] rtranclp.rtrancl_refl]
    m show ?thesis by (simp add: ex_db_def ex_begun_def open_runtime_def)
qed

definition ex_lag_rt :: clock_runtime where
  "ex_lag_rt = \<lparr>rt_high_water = 1700000000000, rt_anchor_time = 1700000000000, rt_anchor = 0, rt_initialized = True,
     rt_incident_active = True\<rparr>"

definition ex_lag_call :: call where
  "ex_lag_call = (ex_call True ''k'' 1700000000010)\<lparr>
     cl_rt_after := ex_lag_rt\<lparr>rt_high_water := 1700000000050\<rparr>,
     cl_time := \<lparr>ts_use_mono = True, ts_wall = 1700000000010, ts_mono = 0, ts_mono_after = 50, ts_uuid = ''x''\<rparr>\<rparr>"

definition ex_lag :: "json res \<times> server" where
  "ex_lag = reconcile_clock_request ex_lag_call 1700000000010 50 ''i1'' ''fixed'' \<lparr>srv_db = ex_paused, srv_rt = ex_lag_rt\<rparr>"

lemma ex_lag_time:
  "(case ex_lag of (Inl e, s) \<Rightarrow> False | (Inr v, s) \<Rightarrow> fst (app_now True 1700000000010 50 (srv_rt s)) < 1700000000050)"
  by code_simp

lemma ex_lag_before:
  "app_now True 1700000000010 50 ex_lag_rt = (1700000000050, cl_rt_after ex_lag_call)"
  by (simp add: app_now_def ex_lag_rt_def ex_lag_call_def raw_now_def expected_time_def elapsed_def saturating_add_def
      sat64_def i64_max_def i64_min_def)

text \<open>C35. The process clock may still run backwards: while the wall clock lags behind the monotonic one, a
  time answered inside the transaction of the reconciliation is forgotten when the incident closes,
  because only the durable mark and the wall clock are compared (\<open>t2 < t1\<close>).\<close>

theorem reconcile_moves_time_back:
  "\<exists>c wall tick incident reason srv v srv' t1 rt1 t2 rt2.
     app_now True wall tick (srv_rt srv) = (t1, rt1) \<and> cl_rt_after c = rt1
     \<and> reconcile_clock_request c wall tick incident reason srv = (Inr v, srv')
     \<and> app_now True wall tick (srv_rt srv') = (t2, rt2) \<and> t2 < t1"
proof -
  from ex_lag_time obtain v s where s: "ex_lag = (Inr v, s)" "fst (app_now True 1700000000010 50 (srv_rt s)) < 1700000000050"
    by (auto split: prod.splits sum.splits)
  obtain t2 rt2 where t2: "app_now True 1700000000010 50 (srv_rt s) = (t2, rt2)" by fastforce
  with s(2) have "t2 < 1700000000050" by simp
  with s(1) t2 ex_lag_before show ?thesis
    unfolding ex_lag_def by (metis server.select_convs(2))
qed

section \<open>Callers\<close>

text \<open>Which modelled operations a read-only credential may begin.\<close>

lemma prefix_app: "prefix (a @ x) (a @ y) \<longleftrightarrow> prefix x y"
  by simp

lemma read_access_paths:
  assumes "allowed_for_read_access (op_path op)" and "op_reporter op = None"
  shows "\<exists>s ak. op = Acknowledge s ak"
  using assms
  by (cases op)
     (simp_all add: allowed_for_read_access_def starts_with_def task_path_def project_path_def attempt_path_def activity_path_def decision_path_def)

text \<open>C28. A credential that is not exactly \<open>write\<close>, whatever its class column says, changes nothing but its own
  instruction acknowledgment: every other operation it sends leaves the tables as they were, save the
  clock incident a rollback records.\<close>

theorem read_only_only_acknowledges:
  assumes serve: "serve en c op srv = (r, srv')" and agent: "op_reporter op = None"
    and bearer: "cl_auth c = Bearer tok s ac"
    and cred: "fetch (\<lambda>x. cr_token_hash x = tok \<and> cr_revoked_at x = None) (credentials (srv_db srv)) = Some cr"
      "unique_by cr_token_hash (credentials (srv_db srv))" "cr_access cr \<noteq> ''write''"
    and other: "\<forall>i ak. op \<noteq> Acknowledge i ak"
  shows "(\<exists>e. r = Inl e) \<and> (srv_db srv' = srv_db srv \<or> srv_db srv' = sample_tables (cl_time c) (srv_rt srv) (srv_db srv))"
proof (cases "clock_rollback (cl_time c) (srv_rt srv) (srv_db srv)")
  case True
  with serve agent show ?thesis
    by (auto simp: serve_def handle_def run_mutation_def mutation_begin_def sample_clock_def Let_def
        split: sum.splits prod.splits)
next
  case False
  let ?d = "sample_tables (cl_time c) (srv_rt srv) (srv_db srv)"
  have ro: "is_read_only a" if v: "verify ?d now (Bearer tok s ac) = Inr a" for a now
  proof -
    from v obtain x p where x: "fetch (\<lambda>x. cr_token_hash x = tok \<and> cr_revoked_at x = None
        \<and> is_none_or (cr_expires_at x) (\<lambda>e. e > now)) (credentials (srv_db srv)) = Some x"
      and a: "ac_attributes a = Some (from_columns (cr_class x) (cr_access x))"
      by (auto simp: verify_bearer_def verify_session_def split: option.splits if_splits)
    from fetch_SomeD [OF x] fetch_SomeD [OF cred(1)] cred(2) have "x = cr" by (auto dest: unique_row)
    with a cred(3) show ?thesis by (simp add: is_read_only_def from_columns_def)
  qed
  have "(\<exists>e. r = Inl e) \<and> srv_db srv' = srv_db srv"
  proof (rule serve_refused [OF serve False])
    show "begin_checks (cl_fp c) (cl_sha c) (cl_auth c) (request_of c (op_path op)) key cs ?d \<noteq> Inr m" for key cs m
    proof (rule notI)
      assume b: "begin_checks (cl_fp c) (cl_sha c) (cl_auth c) (request_of c (op_path op)) key cs ?d = Inr m"
      from begin_checks_fields(5) [OF b] bearer ro have "is_read_only (m_actor m)" by auto
      with begin_checks_guards(1) [OF b] have "allowed_for_read_access (op_path op)" by (simp add: request_of_def)
      from read_access_paths [OF this agent] other show False by blast
    qed
  qed (simp add: agent)
  then show ?thesis by blast
qed

definition ex_reader :: db where
  "ex_reader = ex_owned\<lparr>credentials := [\<lparr>cr_id = ''c1'', cr_principal = ''bot'', cr_token_hash = ''tok'', cr_revoked_at = None,
     cr_expires_at = None, cr_class = ''interactive'', cr_access = ''admin''\<rparr>]\<rparr>"

theorem read_only_only_acknowledges_witness:
  "\<exists>e. fst (serve ex_env (ex_call False ''k'' ex_now) (Renew ''p'' ''a1'' 1) (ex_serving ex_reader)) = Inl e"
  using read_only_only_acknowledges [of ex_env "ex_call False ''k'' ex_now" "Renew ''p'' ''a1'' 1" "ex_serving ex_reader"
      "fst (serve ex_env (ex_call False ''k'' ex_now) (Renew ''p'' ''a1'' 1) (ex_serving ex_reader))"
      "snd (serve ex_env (ex_call False ''k'' ex_now) (Renew ''p'' ''a1'' 1) (ex_serving ex_reader))"
      "''tok''" "Some (''s1'', ''pf'')" False
      "\<lparr>cr_id = ''c1'', cr_principal = ''bot'', cr_token_hash = ''tok'', cr_revoked_at = None,
     cr_expires_at = None, cr_class = ''interactive'', cr_access = ''admin''\<rparr>"]
  by (simp add: ex_reader_def ex_call_def fetch_def unique_by_def)

text \<open>C33. Whoever passes authentication is alive: the principal exists and is not disabled; a bearer
  credential is neither revoked nor expired, its session is the caller's own and open unless the
  operation accepts closed ones; a browser session is neither revoked nor expired.\<close>

theorem verified_caller_live:
  assumes "verify d now au = Inr a"
  shows "(\<exists>p \<in> set (principals d). pr_id p = ac_id a \<and> pr_disabled_at p = None \<and> pr_kind p = ac_kind a)
    \<and> (case au of
        Bearer tok s shut \<Rightarrow>
          (\<exists>x \<in> set (credentials d). cr_token_hash x = tok \<and> cr_principal x = ac_id a \<and> ac_credential a = Some (cr_id x)
             \<and> cr_revoked_at x = None \<and> is_none_or (cr_expires_at x) (\<lambda>e. now < e)
             \<and> (case s of None \<Rightarrow> ac_session a = None
                | Some (i, ph) \<Rightarrow> ac_session a = Some i \<and> (\<exists>y \<in> set (agent_sessions d). as_id y = i \<and> as_principal y = ac_id a
                    \<and> as_credential y = cr_id x \<and> as_proof_hash y = ph \<and> (shut \<or> as_closed_at y = None))))
      | Browser tok \<Rightarrow>
          (\<exists>b \<in> set (browser_sessions d). bs_token_hash b = tok \<and> bs_principal b = ac_id a \<and> ac_session a = Some (bs_id b)
             \<and> bs_revoked_at b = None \<and> now < bs_expires_at b))"
proof (cases au)
  case (Bearer tok s shut)
  from assms Bearer obtain b where b: "verify_bearer d now tok = Inr b"
    and s: "(case s of None \<Rightarrow> Inr b | Some (i, ph) \<Rightarrow> verify_session d b i ph shut) = Inr a" by auto
  from b obtain x p where x: "fetch (\<lambda>c. cr_token_hash c = tok \<and> cr_revoked_at c = None
        \<and> is_none_or (cr_expires_at c) (\<lambda>e. e > now)) (credentials d) = Some x"
    and p: "live_principal Agent (Some ''agent'') d (cr_principal x) = Some p"
    and bb: "ac_id b = pr_id p" "ac_kind b = pr_kind p" "ac_credential b = Some (cr_id x)" "ac_session b = None"
    by (auto simp: verify_bearer_def)
  have ab: "ac_id a = ac_id b" "ac_kind a = ac_kind b" "ac_credential a = ac_credential b"
    using s by (auto simp: verify_session_def split: option.splits if_splits)
  have sess: "case s of None \<Rightarrow> ac_session a = None
      | Some (i, ph) \<Rightarrow> ac_session a = Some i \<and> (\<exists>y \<in> set (agent_sessions d). as_id y = i \<and> as_principal y = ac_id b
          \<and> as_credential y = cr_id x \<and> as_proof_hash y = ph \<and> (shut \<or> as_closed_at y = None))"
    using s bb by (fastforce simp: verify_session_def split: option.splits if_splits dest: fetch_SomeD)
  from live_principal_SomeD [OF p] have "\<exists>p \<in> set (principals d). pr_id p = ac_id a \<and> pr_disabled_at p = None \<and> pr_kind p = ac_kind a"
    unfolding ab bb by blast
  moreover from fetch_SomeD [OF x] live_principal_SomeD [OF p] bb ab have "x \<in> set (credentials d)"
    "cr_token_hash x = tok \<and> cr_principal x = ac_id a \<and> ac_credential a = Some (cr_id x)
       \<and> cr_revoked_at x = None \<and> is_none_or (cr_expires_at x) (\<lambda>e. now < e)" by auto
  ultimately show ?thesis
    unfolding Bearer auth.case using sess unfolding ab(1) [symmetric] by (intro conjI) (assumption, rule bexI, auto)
next
  case (Browser tok)
  with assms show ?thesis
    by (fastforce dest!: fetch_SomeD live_principal_SomeD)
qed

theorem verified_caller_live_witness:
  "\<exists>p \<in> set (principals ex_db). pr_id p = ''bot'' \<and> pr_disabled_at p = None"
proof -
  have "verify ex_db ex_now (Bearer ''tok'' (Some (''s1'', ''pf'')) False) = Inr ex_agent"
    by code_simp
  from verified_caller_live [OF this] show ?thesis by (auto simp: ex_agent_def)
qed

text \<open>C34. The credential columns round-trip through their stored text, and a text the service does not know
  never grants write access.\<close>

theorem credential_columns:
  "from_columns (class_as_str c) (access_as_str a) = \<lparr>ca_class = c, ca_access = a\<rparr>
   \<and> (ca_access (from_columns x y) = Write \<longleftrightarrow> y = access_as_str Write)"
  using from_columns_round_trip from_columns_fail_closed by simp

end
