(* ===== verification/Work_Properties.thy ===== *)
theory Work_Properties
  imports Scenario Reviews
begin

text \<open>
  What the handlers of tasks and leases do on every committed branch: what a claim grants, which task the
  queue offers, how a new task is admitted, and when a list of prerequisites is accepted.
\<close>

section \<open>Claiming\<close>

lemma grant_claim_Inr:
  assumes "grant_claim uuid p cm m proj session v = Inr (Committed w d)"
  shows "attempts d = insert_row (new_attempt m p proj uuid session (cm_mode cm) (tv_task v))
        (attempts (expire_previous (m_now m) (tk_current_attempt (tv_task v)) (m_db m)))"
    "tasks d = update_where (\<lambda>t. tk_id t = tk_id (tv_task v))
        (\<lambda>t. t\<lparr>tk_current_attempt := Some uuid, tk_generation := tk_generation (tv_task v) + 1\<rparr>) (tasks (m_db m))"
  using assms
  by (cases "tk_current_attempt (tv_task v)";
      auto simp: grant_claim_def Let_def insert_attempt_def finish_def update_task_def record_contributor_def expire_previous_def)+

lemma grant_claim_new:
  assumes "grant_claim uuid p cm m proj session v = Inr (Committed w d)"
  shows "\<forall>b \<in> set (attempts (expire_previous (m_now m) (tk_current_attempt (tv_task v)) (m_db m))).
        \<not> attempt_clash (new_attempt m p proj uuid session (cm_mode cm) (tv_task v)) b"
  using assms by (simp only: grant_claim_def Let_def insert_attempt_def and_then_Inr_iff insert_unique_Inr) blast

lemma expire_previous_map:
  "attempts (expire_previous now previous d) =
     map (\<lambda>b. if Some (at_id b) = previous \<and> at_state b = Active
        then b\<lparr>at_state := Expired, at_ended_at := Some now, at_outcome := Some recovery_began\<rparr> else b) (attempts d)"
  by (cases previous) (simp_all add: expire_previous_def update_where_def)

lemma grant_claim_attempts:
  assumes g: "grant_claim uuid p cm m proj session v = Inr (Committed w d)"
  shows "attempts d = map (\<lambda>b. if Some (at_id b) = tk_current_attempt (tv_task v) \<and> at_state b = Active
        then b\<lparr>at_state := Expired, at_ended_at := Some (m_now m), at_outcome := Some recovery_began\<rparr> else b)
      (attempts (m_db m)) @ [new_attempt m p proj uuid session (cm_mode cm) (tv_task v)]" (is "_ = map ?mark _ @ [?n]")
    "\<forall>b \<in> set (attempts (m_db m)). at_id b \<noteq> uuid"
    "\<forall>b \<in> set (attempts d). at_task b = tk_id (tv_task v) \<and> at_state b = Active
      \<longrightarrow> b = new_attempt m p proj uuid session (cm_mode cm) (tv_task v)"
proof -
  show as: "attempts d = map ?mark (attempts (m_db m)) @ [?n]"
    using grant_claim_Inr(1) [OF g] by (simp add: insert_row_def expire_previous_map)
  have clash: "\<not> attempt_clash ?n (?mark b)" if "b \<in> set (attempts (m_db m))" for b
    using grant_claim_new [OF g] that unfolding expire_previous_map set_map by (blast intro: imageI)
  have marked: "at_id (?mark b) = at_id b" "at_task (?mark b) = at_task b" for b by simp_all
  have row: "at_id ?n = uuid" "at_task ?n = tk_id (tv_task v)" "at_state ?n = Active" by (simp_all add: new_attempt_def)
  show "\<forall>b \<in> set (attempts (m_db m)). at_id b \<noteq> uuid"
    using clash unfolding attempt_clash_def marked row by blast
  show "\<forall>b \<in> set (attempts d). at_task b = tk_id (tv_task v) \<and> at_state b = Active \<longrightarrow> b = ?n"
  proof (rule ballI, rule impI, rule ccontr)
    fix b assume b: "b \<in> set (attempts d)" "at_task b = tk_id (tv_task v) \<and> at_state b = Active" "b \<noteq> ?n"
    from b(1,3) as obtain c where "c \<in> set (attempts (m_db m))" "b = ?mark c" by auto
    with clash [of c] b(2) row show False by (simp only: attempt_clash_def) blast
  qed
qed

text \<open>C8. A committed claim either found nothing to do and left tasks and attempts alone, or chose a task whose
  status is the one the mode asks for and gave it to the caller. Then the attempts are the old ones, in
  which only the current attempt of that task is marked expired if it was still active, and one new row
  after them: active, under a fresh id, of the next generation, bounded by the lease and the attempt
  limit. It is the only active attempt of the task, which names it as the current one; every other task
  is as it was.\<close>

theorem claim_grants:
  assumes "claim uuid p cm m = Inr (Committed w d)"
  shows "(attempts d = attempts (m_db m) \<and> tasks d = tasks (m_db m) \<and> cm_task cm = None
       \<and> next_eligible (m_db m) (m_actor m) p (cm_mode cm) (m_now m) = None)
    \<or> (\<exists>v proj a. tv_task v \<in> set (tasks (m_db m)) \<and> tk_project (tv_task v) = p
       \<and> task_status v (m_now m) = (if cm_mode cm = ''work'' then Ready else Recovery_required)
       \<and> project_get (m_db m) p = Inr proj \<and> pj_archived_at proj = None
       \<and> at_id a = uuid \<and> at_project a = p \<and> at_state a = Active
       \<and> at_owner a = ac_id (m_actor m) \<and> Some (at_session a) = ac_session (m_actor m)
       \<and> at_credential a = ac_credential (m_actor m)
       \<and> at_task a = tk_id (tv_task v) \<and> at_generation a = tk_generation (tv_task v) + 1
       \<and> at_expires_at a = min (m_now m + pj_lease_seconds proj * 1000) (attempt_limit (pj_max_attempt_seconds proj) (m_now m))
       \<and> attempts d = map (\<lambda>b. if Some (at_id b) = tk_current_attempt (tv_task v) \<and> at_state b = Active
             then b\<lparr>at_state := Expired, at_ended_at := Some (m_now m), at_outcome := Some recovery_began\<rparr> else b)
           (attempts (m_db m)) @ [a]
       \<and> (\<forall>b \<in> set (attempts (m_db m)). at_id b \<noteq> uuid)
       \<and> (\<forall>b \<in> set (attempts d). at_task b = tk_id (tv_task v) \<and> at_state b = Active \<longrightarrow> b = a)
       \<and> tasks d = update_where (\<lambda>t. tk_id t = tk_id (tv_task v))
           (\<lambda>t. t\<lparr>tk_current_attempt := Some uuid, tk_generation := tk_generation (tv_task v) + 1\<rparr>) (tasks (m_db m)))"
    (is "?none \<or> ?some")
proof -
  from assms obtain session proj chosen where s: "ac_session (m_actor m) = Some session" "project_get (m_db m) p = Inr proj"
    "pj_archived_at proj = None"
    and c: "(case cm_task cm of Some i \<Rightarrow> and_then (task_get (m_db m) p i (m_now m)) (\<lambda>v. Inr (Some v))
          | None \<Rightarrow> Inr (next_eligible (m_db m) (m_actor m) p (cm_mode cm) (m_now m))) = Inr chosen"
    and r: "(case chosen of None \<Rightarrow> finish m (m_db m) (JObj [(''claim'', JNull), (''retry_after_seconds'', JInt 30)]) (Some p) ''claim.empty'' p
       | Some v \<Rightarrow> and_then (claim_checks m p cm v) (\<lambda>_. grant_claim uuid p cm m proj session v)) = Inr (Committed w d)"
    by (auto simp: claim_def Let_def session_of_def claim_replay_def split: option.splits if_splits)
  show ?thesis
  proof (cases chosen)
    case None
    with c r show ?thesis by (auto simp: finish_def split: option.splits)
  next
    case (Some v)
    with r have ck: "claim_checks m p cm v = Inr ()" and g: "grant_claim uuid p cm m proj session v = Inr (Committed w d)"
      by auto
    let ?n = "new_attempt m p proj uuid session (cm_mode cm) (tv_task v)"
    note ga = grant_claim_attempts [OF g]
    have st: "task_status v (m_now m) = (if cm_mode cm = ''work'' then Ready else Recovery_required)"
      using ck by (auto simp: claim_checks_def Let_def split: if_splits)
    from chosen_row [OF c [unfolded Some]]
    have task: "tv_task v \<in> set (tasks (m_db m))" "tk_project (tv_task v) = p" .
    have fields: "at_id ?n = uuid" "at_task ?n = tk_id (tv_task v)" "at_state ?n = Active" "at_project ?n = p"
      "at_owner ?n = ac_id (m_actor m)" "Some (at_session ?n) = ac_session (m_actor m)"
      "at_credential ?n = ac_credential (m_actor m)" "at_generation ?n = tk_generation (tv_task v) + 1"
      "at_expires_at ?n = min (m_now m + pj_lease_seconds proj * 1000) (attempt_limit (pj_max_attempt_seconds proj) (m_now m))"
      using s(1) by (simp_all add: new_attempt_def)
    have ?some
      by (intro exI [of _ v] exI [of _ proj] exI [of _ ?n] conjI)
         (rule task st s(2,3) fields ga grant_claim_Inr(2) [OF g])+
    then show ?thesis ..
  qed
qed

definition ex_claim :: "outcome res" where
  "ex_claim = claim ''a1'' ''p'' (ex_claim_input ''work'') (ex_m ex_agent (ex_now + 4) ex_work)"

lemma ex_claim_ok: "is_commit ex_claim \<and> map at_id (attempts (out_db ex_claim)) = [''a1'']"
  by code_simp

theorem claim_grants_witness:
  "\<exists>a. attempts (out_db ex_claim) = [a] \<and> at_id a = ''a1'' \<and> at_state a = Active \<and> at_owner a = ''bot''"
proof -
  have old: "attempts (m_db (ex_m ex_agent (ex_now + 4) ex_work)) = []" "ac_id (m_actor (ex_m ex_agent (ex_now + 4) ex_work)) = ''bot''"
    by (simp_all add: ex_m_def ex_agent_def ex_work_def ex_db_def)
  have some: "attempts (out_db ex_claim) \<noteq> []" using conjunct2 [OF ex_claim_ok] by auto
  note t = claim_grants [OF committed [OF conjunct1 [OF ex_claim_ok], unfolded ex_claim_def], folded ex_claim_def,
      unfolded old list.map append_Nil]
  from t show ?thesis
  proof (elim disjE exE conjE)
    assume "attempts (out_db ex_claim) = []"
    with some show ?thesis by contradiction
  qed (intro exI conjI)
qed

section \<open>The queue\<close>

lemma find_sorted:
  assumes "sorted (map f xs)"
  shows "case find P xs of None \<Rightarrow> \<forall>x \<in> set xs. \<not> P x | Some v \<Rightarrow> v \<in> set xs \<and> P v \<and> (\<forall>u \<in> set xs. P u \<longrightarrow> f v \<le> f u)"
  using assms by (induction xs) (auto split: option.splits)

text \<open>C9. The paged search returns the first task of the queue in the order of priority, waiting time and id that is
  claimable and not held back from this caller, and nothing only if there is none: no page boundary
  hides a task.\<close>

theorem next_eligible_optimal:
  "case next_eligible d a p mode now of
     None \<Rightarrow> \<forall>u \<in> set (visible d now p). \<not> (claim_candidate mode now u \<and> unparked d a now u)
   | Some v \<Rightarrow> v \<in> set (visible d now p) \<and> claim_candidate mode now v \<and> unparked d a now v
       \<and> (\<forall>u \<in> set (visible d now p). claim_candidate mode now u \<and> unparked d a now u \<longrightarrow> claim_order v \<le> claim_order u)"
proof -
  have "sorted (map claim_order (claim_queue d p mode now))" by (simp add: claim_queue_def)
  from find_sorted [OF this, of "unparked d a now"]
  have "case next_eligible d a p mode now of None \<Rightarrow> \<forall>x \<in> set (claim_queue d p mode now). \<not> unparked d a now x
    | Some v \<Rightarrow> v \<in> set (claim_queue d p mode now) \<and> unparked d a now v
        \<and> (\<forall>u \<in> set (claim_queue d p mode now). unparked d a now u \<longrightarrow> claim_order v \<le> claim_order u)"
    unfolding next_eligible_find .
  moreover have "set (claim_queue d p mode now) = {u \<in> set (visible d now p). claim_candidate mode now u}"
    by (auto simp: claim_queue_def rows_def)
  ultimately show ?thesis by (auto split: option.splits)
qed

definition ex_view :: task_view where
  "ex_view = view_of ex_work (ex_now + 4) ex_task"

lemma ex_visible: "visible ex_work (ex_now + 4) ''p'' = [ex_view] \<and> claim_candidate ''work'' (ex_now + 4) ex_view
    \<and> unparked ex_work ex_agent (ex_now + 4) ex_view"
  by code_simp

theorem next_eligible_optimal_witness:
  "next_eligible ex_work ex_agent ''p'' ''work'' (ex_now + 4) = Some ex_view"
  using next_eligible_optimal [where d = ex_work and a = ex_agent and p = "''p''" and mode = "''work''" and now = "ex_now + 4"] ex_visible
  by (auto split: option.splits)

text \<open>C31. The SQL test of the queue and the status the service shows agree: a visible task is a work candidate
  exactly when it is unarchived, shown as ready and not already finished in the workflow, and every
  recovery candidate is shown as requiring recovery, so the claim of a chosen task is never refused
  for its status.\<close>

theorem candidates_have_status:
  assumes "v \<in> set (visible d now p)"
  shows "(claim_candidate ''work'' now v \<longleftrightarrow>
      tk_archived_at (tv_task v) = None \<and> task_status v now = Ready \<and> tv_workflow_phase v \<noteq> Some Phase_done)
    \<and> (claim_candidate ''recovery'' now v \<longrightarrow> task_status v now = Recovery_required)"
proof -
  from visible_row [OF assms] obtain t where "v = view_of d now t" by blast
  then have "tv_workflow_status v = None" by (simp add: view_of_def Let_def)
  note defs = claim_candidate_def task_status_def live_attempt_def this
  show ?thesis
  proof (cases "tv_workflow_phase v")
    case None
    then show ?thesis by (auto simp: defs is_some_and_def split: option.splits)
  next
    case (Some x)
    then show ?thesis by (cases x) (auto simp: defs is_some_and_def split: option.splits)
  qed
qed

theorem candidates_have_status_witness:
  "task_status ex_view (ex_now + 4) = Ready"
  using candidates_have_status [of ex_view ex_work "ex_now + 4" "''p''"] ex_visible by simp

section \<open>Admission of new tasks\<close>

text \<open>What the fix class of an agent rests on: the operator's designation, or a record of the service.\<close>

definition class_backed :: "config \<Rightarrow> mutation \<Rightarrow> string \<Rightarrow> string \<Rightarrow> admission_evidence option \<Rightarrow> bool" where
  "class_backed cfg m p c evidence \<longleftrightarrow>
     (if c = CANARY_CLASS then ac_name (m_actor m) \<in> set (cf_canary_principals cfg)
      else ac_name (m_actor m) \<in> set (cf_fix_class_principals cfg)
        \<or> (\<exists>ev. evidence = Some ev \<and> evidence_count (m_db m) p c ev > 0))"

lemma create_task_row:
  assumes "create_task cfg uuid p ti m = Inr (Committed w d)"
  shows "\<exists>ad. admit cfg m (m_db m) p (ti_planned ti) (ti_admission_class ti) (ti_admission_evidence ti) = Inr ad
    \<and> (\<forall>t \<in> set (tasks (m_db m)). tk_id t \<noteq> uuid)
    \<and> tasks d = tasks (m_db m) @ [(new_task m p uuid ti (admission_lifecycle ad (ti_planned ti)))\<lparr>tk_origin := ad_origin ad,
         tk_admission_class := ad_class ad, tk_budget_exempt := (if ad_exempt ad then Some CANARY_CLASS else None),
         tk_budget_admitted_at := (if ad_consumed ad then Some (m_now m) else None),
         tk_budget_held_at := (if ad_held ad then Some (m_now m) else None)\<rparr>]"
proof -
  from assms obtain ad d1 d2 d3 v where ad: "admit cfg m (m_db m) p (ti_planned ti) (ti_admission_class ti) (ti_admission_evidence ti) = Inr ad"
    and ins: "insert_task (new_task m p uuid ti (admission_lifecycle ad (ti_planned ti))) (m_db m) = Inr d1"
    and dep: "set_dependencies p uuid (ti_depends_on ti) (record_admission m uuid ad d1) = Inr d2"
    and rev: "save_task_revision m p uuid d2 = Inr (v, d3)"
    and fin: "finish m d3 (JObj (v @ [(''admission'', admission_value ad)])) (Some p) ''task.created'' uuid = Inr (Committed w d)"
    unfolding create_task_def Let_def by auto
  let ?n = "new_task m p uuid ti (admission_lifecycle ad (ti_planned ti))"
  from ins have d1: "tasks d1 = tasks (m_db m) @ [?n]" and new: "\<forall>t \<in> set (tasks (m_db m)). tk_id t \<noteq> uuid"
    by (auto simp: insert_task_def insert_row_def new_task_def)
  from fin rev have "tasks d = tasks d2"
    by (auto simp: finish_def finish_with_event_data_def save_task_revision_def Let_def)
  also have "\<dots> = tasks (record_admission m uuid ad d1)"
    by (subst set_dependencies_frame [OF dep]) simp
  also have "\<dots> = tasks (m_db m) @ [?n\<lparr>tk_origin := ad_origin ad,
         tk_admission_class := ad_class ad, tk_budget_exempt := (if ad_exempt ad then Some CANARY_CLASS else None),
         tk_budget_admitted_at := (if ad_consumed ad then Some (m_now m) else None),
         tk_budget_held_at := (if ad_held ad then Some (m_now m) else None)\<rparr>]"
    using new by (simp add: record_admission_def update_where_def d1 new_task_def map_idI)
  finally show ?thesis using ad new by blast
qed

lemma class_backed_by:
  assumes "admit cfg m (m_db m) p planned (Some c) evidence = Inr ad" and "ac_kind (m_actor m) = Agent"
  shows "class_backed cfg m p c evidence"
proof (cases "c = CANARY_CLASS")
  case True
  with assms show ?thesis by (auto simp: class_backed_def admit_def Let_def of_principal_def split: if_splits)
next
  case False
  with assms admit_class_backed [OF assms(1) False assms(2)] show ?thesis by (auto simp: class_backed_def)
qed

text \<open>C23. The admission of a new task: a committed creation adds one row under a fresh id. A task of an agent that
  names no class and is not planned takes a place of the project's weekly budget and is open while fewer than
  the budget have one, and is held as planned otherwise; the count of the week rises by one exactly then. Every
  other task takes no place and is never held: a human's task, a planned one, and an agent's task of a class,
  which is admitted beyond the budget but only when the class is backed by a designation of the operator or
  by a record of the service.\<close>

theorem creation_admitted:
  assumes "create_task cfg uuid p ti m = Inr (Committed w d)"
  shows "\<exists>t. tasks d = tasks (m_db m) @ [t] \<and> tk_id t = uuid \<and> tk_project t = p \<and> (\<forall>u \<in> set (tasks (m_db m)). tk_id u \<noteq> uuid)
    \<and> tk_origin t = (if ac_kind (m_actor m) = Agent then Origin_agent else Origin_human)
    \<and> (if ac_kind (m_actor m) = Agent \<and> ti_admission_class ti = None \<and> \<not> ti_planned ti
       then (if admitted_in_week (m_db m) p (week_start (m_now m)) < cf_weekly_budget cfg
             then tk_lifecycle t = Open \<and> tk_budget_admitted_at t = Some (m_now m) \<and> tk_budget_held_at t = None
               \<and> admitted_in_week d p (week_start (m_now m)) = admitted_in_week (m_db m) p (week_start (m_now m)) + 1
             else tk_lifecycle t = Planned \<and> tk_budget_admitted_at t = None \<and> tk_budget_held_at t = Some (m_now m)
               \<and> admitted_in_week d p (week_start (m_now m)) = admitted_in_week (m_db m) p (week_start (m_now m)))
       else tk_lifecycle t = (if ti_planned ti then Planned else Open) \<and> tk_budget_admitted_at t = None \<and> tk_budget_held_at t = None
         \<and> admitted_in_week d p (week_start (m_now m)) = admitted_in_week (m_db m) p (week_start (m_now m)))
    \<and> (case ti_admission_class ti of None \<Rightarrow> tk_admission_class t = None \<and> tk_budget_exempt t = None
       | Some c \<Rightarrow> (if c = CANARY_CLASS then tk_admission_class t = None \<and> tk_budget_exempt t = Some c \<and> ac_kind (m_actor m) = Agent
             else tk_admission_class t = Some c \<and> tk_budget_exempt t = None)
           \<and> (ac_kind (m_actor m) = Agent \<longrightarrow> class_backed cfg m p c (ti_admission_evidence ti)))"
proof -
  from create_task_row [OF assms] obtain ad where
    ad: "admit cfg m (m_db m) p (ti_planned ti) (ti_admission_class ti) (ti_admission_evidence ti) = Inr ad"
    and new: "\<forall>t \<in> set (tasks (m_db m)). tk_id t \<noteq> uuid"
    and row: "tasks d = tasks (m_db m) @ [(new_task m p uuid ti (admission_lifecycle ad (ti_planned ti)))\<lparr>tk_origin := ad_origin ad,
         tk_admission_class := ad_class ad, tk_budget_exempt := (if ad_exempt ad then Some CANARY_CLASS else None),
         tk_budget_admitted_at := (if ad_consumed ad then Some (m_now m) else None),
         tk_budget_held_at := (if ad_held ad then Some (m_now m) else None)\<rparr>]" (is "_ = _ @ [?t]") by blast
  let ?budgeted = "ac_kind (m_actor m) = Agent \<and> ti_admission_class ti = None \<and> \<not> ti_planned ti"
  let ?room = "admitted_in_week (m_db m) p (week_start (m_now m)) < cf_weekly_budget cfg"
  have held: "ad_held ad \<longleftrightarrow> ?budgeted \<and> \<not> ?room" and taken: "ad_consumed ad \<longleftrightarrow> ?budgeted \<and> ?room"
    using admit_Inr(3-6) [OF ad] by (meson linorder_not_less)+
  have count: "admitted_in_week d p (week_start (m_now m))
      = admitted_in_week (m_db m) p (week_start (m_now m)) + (if ad_consumed ad then 1 else 0)"
    using week_start_holds [of "m_now m"]
    by (simp add: admitted_in_week_def row count_where_def admitted_at_def new_task_def)
  have fields: "tk_id ?t = uuid" "tk_project ?t = p" "tk_lifecycle ?t = admission_lifecycle ad (ti_planned ti)"
    by (simp_all add: new_task_def)
  have origin: "ad_origin ad = (if ac_kind (m_actor m) = Agent then Origin_agent else Origin_human)"
    using ad by (auto simp: admit_def Let_def of_principal_def split: if_splits)
  have cls: "case ti_admission_class ti of None \<Rightarrow> ad_class ad = None \<and> \<not> ad_exempt ad
      | Some c \<Rightarrow> (if c = CANARY_CLASS then ad_class ad = None \<and> ad_exempt ad \<and> ac_kind (m_actor m) = Agent
          else ad_class ad = Some c \<and> \<not> ad_exempt ad)"
    using ad by (auto simp: admit_def Let_def of_principal_def split: if_splits option.splits)
  have backed: "ti_admission_class ti = Some c \<Longrightarrow> ac_kind (m_actor m) = Agent \<Longrightarrow> class_backed cfg m p c (ti_admission_evidence ti)" for c
    using class_backed_by ad by metis
  show ?thesis
    by (rule exI [of _ ?t])
       (use row new fields origin cls backed held taken count in
         \<open>auto simp: admission_lifecycle_def split: option.splits if_splits\<close>)
qed

definition ex_one_place :: config where
  "ex_one_place = \<lparr>cf_weekly_budget = 1, cf_canary_principals = [], cf_fix_class_principals = []\<rparr>"

definition ex_first :: "outcome res" where
  "ex_first = create_task ex_one_place ''n1'' ''p'' ex_task_input (ex_m ex_agent (ex_now + 4) ex_work)"

definition ex_second :: "outcome res" where
  "ex_second = create_task ex_one_place ''n2'' ''p'' ex_task_input ((ex_m ex_agent (ex_now + 5) (out_db ex_first))\<lparr>m_key := ''k2''\<rparr>)"

lemma ex_creations_ok:
  "is_commit ex_first \<and> is_commit ex_second \<and> admitted_in_week ex_work ''p'' (week_start (ex_now + 4)) = 0
    \<and> admitted_in_week (out_db ex_first) ''p'' (week_start (ex_now + 5)) = 1"
  by code_simp

theorem creation_admitted_witness:
  "(\<exists>t. tasks (out_db ex_first) = tasks ex_work @ [t] \<and> tk_lifecycle t = Open \<and> tk_budget_admitted_at t = Some (ex_now + 4))
    \<and> (\<exists>t. tasks (out_db ex_second) = tasks (out_db ex_first) @ [t] \<and> tk_lifecycle t = Planned \<and> tk_budget_admitted_at t = None)"
proof
  have i: "ti_admission_class ex_task_input = None" "\<not> ti_planned ex_task_input" "cf_weekly_budget ex_one_place = 1"
    "ac_kind (m_actor (ex_m ex_agent now d)) = Agent" "m_now (ex_m ex_agent now d) = now" "m_db (ex_m ex_agent now d) = d" for now d
    by (simp_all add: ex_task_input_def ex_one_place_def ex_m_def ex_agent_def)
  from ex_creations_ok have c: "is_commit ex_first" "is_commit ex_second" by simp_all
  from creation_admitted [OF committed [OF c(1), unfolded ex_first_def], folded ex_first_def] ex_creations_ok
  show "\<exists>t. tasks (out_db ex_first) = tasks ex_work @ [t] \<and> tk_lifecycle t = Open \<and> tk_budget_admitted_at t = Some (ex_now + 4)"
    by (auto simp: i)
  from creation_admitted [OF committed [OF c(2), unfolded ex_second_def], folded ex_second_def] ex_creations_ok
  show "\<exists>t. tasks (out_db ex_second) = tasks (out_db ex_first) @ [t] \<and> tk_lifecycle t = Planned \<and> tk_budget_admitted_at t = None"
    by (auto simp: i)
qed

section \<open>Dependencies\<close>

text \<open>A path to a node needs no edge that leaves the node.\<close>

lemma reach_without_leaving:
  assumes "(x, i) \<in> R\<^sup>*"
  shows "(x, i) \<in> {e \<in> R. fst e \<noteq> i}\<^sup>*"
  using assms
proof (induction rule: converse_rtrancl_induct)
  case (step y z)
  then show ?case by (cases "y = i") (auto intro: converse_rtrancl_into_rtrancl)
qed simp

lemma check_dependencies_iff:
  "check_dependencies d p i seen xs = Inr () \<longleftrightarrow> distinct xs \<and> set xs \<inter> set seen = {} \<and> (\<forall>x \<in> set xs. x \<noteq> i
      \<and> (x, i) \<notin> (set (edges d))\<^sup>* \<and> (\<exists>t \<in> set (tasks d). tk_project t = p \<and> tk_id t = x))"
  by (induction xs arbitrary: seen) (auto simp: dependency_cycles_reach table_simps)

text \<open>A list without a formal fault can only be refused for a cycle.\<close>

lemma check_dependencies_cycle:
  assumes "distinct xs" and "set xs \<inter> set seen = {}" and "i \<notin> set xs"
    and "\<forall>x \<in> set xs. \<exists>t \<in> set (tasks d). tk_project t = p \<and> tk_id t = x"
  shows "check_dependencies d p i seen xs =
    (if \<exists>x \<in> set xs. (x, i) \<in> (set (edges d))\<^sup>* then Inl (conflict ''dependency_cycle'') else Inr ())"
  using assms
proof (induction xs arbitrary: seen)
  case (Cons x xs)
  then have "count_where (\<lambda>t. tk_project t = p \<and> tk_id t = x) (tasks d) \<noteq> 0" by (auto simp: table_simps)
  with Cons.prems Cons.IH [of "x # seen"] show ?case by (auto simp: dependency_cycles_reach)
qed simp

lemma replaced_cycle:
  assumes acyc: "acyclic (set (edges d))" and other: "i \<notin> set deps"
  shows "acyclic (set (edges (replace_dependencies p i deps d))) \<longleftrightarrow> (\<forall>x \<in> set deps. (x, i) \<notin> (set (edges d))\<^sup>*)"
proof
  assume new: "acyclic (set (edges (replace_dependencies p i deps d)))" (is "acyclic ?R")
  show "\<forall>x \<in> set deps. (x, i) \<notin> (set (edges d))\<^sup>*"
  proof (intro ballI notI)
    fix x assume x: "x \<in> set deps" "(x, i) \<in> (set (edges d))\<^sup>*"
    have "{e \<in> set (edges d). fst e \<noteq> i} \<subseteq> ?R"
      by (auto simp: edges_def replace_dependencies_def delete_where_def)
    with reach_without_leaving [OF x(2)] have "(x, i) \<in> ?R\<^sup>*" using rtrancl_mono by blast
    moreover from x(1) have "(i, x) \<in> ?R" by (auto simp: edges_def replace_dependencies_def)
    ultimately have "(i, i) \<in> ?R\<^sup>+" by (rule rtrancl_into_trancl2 [rotated])
    with new show False by (simp add: acyclic_def)
  qed
next
  assume "\<forall>x \<in> set deps. (x, i) \<notin> (set (edges d))\<^sup>*"
  with acyclic_fan [OF acyc, of deps i] edges_replace [of p i deps d]
  show "acyclic (set (edges (replace_dependencies p i deps d)))" by (blast intro: acyclic_subset)
qed

text \<open>C30. The cycle check of a prerequisite list is exact. On an acyclic graph of dependencies and objectives, a list
  of at most 100 distinct tasks of the project, none of them the task itself, is accepted exactly if the
  graph with the task's prerequisites replaced by the list has no cycle, and refused as \<open>dependency_cycle\<close>
  otherwise; then the task's prerequisites are exactly the list, and those of every other task as before.
  Any other list is refused.\<close>

theorem dependency_check_exact:
  assumes "acyclic (set (edges d))"
  shows "if length deps \<le> 100 \<and> distinct deps \<and> i \<notin> set deps
        \<and> (\<forall>x \<in> set deps. \<exists>t \<in> set (tasks d). tk_project t = p \<and> tk_id t = x)
    then set_dependencies p i deps d =
        (if acyclic (set (edges (replace_dependencies p i deps d))) then Inr (replace_dependencies p i deps d)
         else Inl (conflict ''dependency_cycle''))
      \<and> {e \<in> set (task_dependencies (replace_dependencies p i deps d)). td_task e = i}
          = (\<lambda>x. \<lparr>td_project = p, td_task = i, td_prerequisite = x\<rparr>) ` set deps
      \<and> {e \<in> set (task_dependencies (replace_dependencies p i deps d)). td_task e \<noteq> i}
          = {e \<in> set (task_dependencies d). td_task e \<noteq> i}
    else \<exists>e. set_dependencies p i deps d = Inl e"
proof (cases "length deps \<le> 100 \<and> distinct deps \<and> i \<notin> set deps
    \<and> (\<forall>x \<in> set deps. \<exists>t \<in> set (tasks d). tk_project t = p \<and> tk_id t = x)")
  case True
  then have "set_dependencies p i deps d =
      (if acyclic (set (edges (replace_dependencies p i deps d))) then Inr (replace_dependencies p i deps d)
       else Inl (conflict ''dependency_cycle''))"
    using check_dependencies_cycle [of deps "[]" i d p] replaced_cycle [OF assms, of i deps p]
    by (auto simp: set_dependencies_def)
  with True show ?thesis by (auto simp: replace_dependencies_def delete_where_def)
next
  case False
  then have "set_dependencies p i deps d \<noteq> Inr d'" for d'
    using check_dependencies_iff [of d p i "[]" deps] by (auto simp: set_dependencies_def)
  then have "\<exists>e. set_dependencies p i deps d = Inl e" by (cases "set_dependencies p i deps d") auto
  with False show ?thesis by (simp only: if_False)
qed

text \<open>Two tasks, the first waiting for the second.\<close>

definition ex_chain :: db where
  "ex_chain = ex_work\<lparr>tasks := [ex_task, ex_task\<lparr>tk_id := ''u''\<rparr>],
     task_dependencies := [\<lparr>td_project = ''p'', td_task = ''t'', td_prerequisite = ''u''\<rparr>]\<rparr>"

theorem dependency_check_exact_witness:
  "set_dependencies ''p'' ''u'' [''t''] ex_chain = Inl (conflict ''dependency_cycle'')
    \<and> (\<exists>d. set_dependencies ''p'' ''t'' [] ex_chain = Inr d)"
proof -
  have e: "edges ex_chain = [(''t'', ''u'')]" by (simp add: edges_def ex_chain_def ex_work_def ex_db_def)
  have t: "tasks ex_chain = [ex_task, ex_task\<lparr>tk_id := ''u''\<rparr>]" "tk_id ex_task = ''t''" "tk_project ex_task = ''p''"
    by (simp_all add: ex_chain_def ex_task_def new_task_def)
  have a: "acyclic (set (edges ex_chain))" by (simp add: e acyclic_insert)
  have new: "set (edges (replace_dependencies ''p'' ''u'' [''t''] ex_chain)) = {(''t'', ''u''), (''u'', ''t'')}"
    by (auto simp: edges_def replace_dependencies_def delete_where_def ex_chain_def ex_work_def ex_db_def)
  have cyc: "\<not> acyclic (set (edges (replace_dependencies ''p'' ''u'' [''t''] ex_chain)))"
    unfolding new acyclic_insert by (auto simp: acyclic_insert)
  have free: "acyclic (set (edges (replace_dependencies ''p'' ''t'' [] ex_chain)))"
    by (simp add: edges_def replace_dependencies_def delete_where_def ex_chain_def ex_work_def ex_db_def)
  from dependency_check_exact [OF a, of "[''t'']" "''u''" "''p''"] dependency_check_exact [OF a, of "[]" "''t''" "''p''"] cyc free
  show ?thesis by (simp add: t)
qed

end
