(* ===== verification/Lock_Refinement.thy ===== *)
theory Lock_Refinement
  imports Scenario
begin

text \<open>
  The service refines a table of generation locks. Abstractly a task is a lock with a counter: a free
  lock is granted under the next number, a held one is given up, and nothing else ever happens to it.
  Every step of the service is a sequence of such moves on the lock of every task, and an owner
  operation only passes for the caller the abstract lock names, under its number.
\<close>

section \<open>The abstract lock\<close>

record lock_holder =
  lh_attempt :: string
  lh_owner :: string
  lh_session :: string

record task_lock =
  lk_generation :: int
  lk_holder :: "lock_holder option"

inductive lock_step :: "task_lock \<Rightarrow> task_lock \<Rightarrow> bool" where
  grant: "lock_step \<lparr>lk_generation = g, lk_holder = None\<rparr> \<lparr>lk_generation = g + 1, lk_holder = Some h\<rparr>"
| drop: "lock_step \<lparr>lk_generation = g, lk_holder = Some h\<rparr> \<lparr>lk_generation = g, lk_holder = None\<rparr>"

inductive_cases lock_stepE: "lock_step l l'"

text \<open>What the lock promises: its number never falls, and one number has one holder.\<close>

lemma lock_fences:
  "lock_step\<^sup>*\<^sup>* l l' \<Longrightarrow> lk_generation l < lk_generation l'
     \<or> lk_generation l = lk_generation l' \<and> (lk_holder l' = lk_holder l \<or> lk_holder l' = None)"
proof (induction rule: rtranclp_induct)
  case (step y z)
  then show ?case by (elim lock_stepE) auto
qed simp

lemma free_advance: "lock_step\<^sup>*\<^sup>* \<lparr>lk_generation = g, lk_holder = None\<rparr> \<lparr>lk_generation = g + int n, lk_holder = None\<rparr>"
proof (induction n)
  case (Suc n)
  note Suc
  also have "lock_step \<lparr>lk_generation = g + int n, lk_holder = None\<rparr> \<lparr>lk_generation = (g + int n) + 1, lk_holder = Some h\<rparr>" for h
    by (rule grant)
  also have "lock_step \<lparr>lk_generation = (g + int n) + 1, lk_holder = Some h\<rparr> \<lparr>lk_generation = (g + int n) + 1, lk_holder = None\<rparr>" for h
    by (rule drop)
  finally show ?case by (simp add: algebra_simps)
qed simp

lemma free_passes: "g \<le> g' \<Longrightarrow> lock_step\<^sup>*\<^sup>* \<lparr>lk_generation = g, lk_holder = None\<rparr> \<lparr>lk_generation = g', lk_holder = None\<rparr>"
  using free_advance [of g "nat (g' - g)"] by simp

lemma held_drops: "lock_step\<^sup>*\<^sup>* \<lparr>lk_generation = g, lk_holder = h\<rparr> \<lparr>lk_generation = g, lk_holder = None\<rparr>"
  by (cases h) (auto intro: drop)

lemma lock_regrant:
  assumes "g < g'"
  shows "lock_step\<^sup>*\<^sup>* \<lparr>lk_generation = g, lk_holder = h\<rparr> \<lparr>lk_generation = g', lk_holder = Some h'\<rparr>"
proof -
  have "lock_step\<^sup>*\<^sup>* \<lparr>lk_generation = g, lk_holder = h\<rparr> \<lparr>lk_generation = g' - 1, lk_holder = None\<rparr>"
    by (rule rtranclp_trans [OF held_drops free_passes]) (use assms in simp)
  moreover have "lock_step \<lparr>lk_generation = g' - 1, lk_holder = None\<rparr> \<lparr>lk_generation = g', lk_holder = Some h'\<rparr>"
    using grant [of "g' - 1" h'] by simp
  ultimately show ?thesis by (rule rtranclp.rtrancl_into_rtrancl)
qed

section \<open>The abstraction\<close>

definition holder_of :: "attempt \<Rightarrow> lock_holder" where
  "holder_of a = \<lparr>lh_attempt = at_id a, lh_owner = at_owner a, lh_session = at_session a\<rparr>"

definition active_attempt :: "db \<Rightarrow> string \<Rightarrow> attempt option" where
  "active_attempt d i = fetch (\<lambda>a. at_task a = i \<and> at_state a = Active) (attempts d)"

text \<open>A task that does not exist yet is a free lock that was never granted.\<close>

definition lock_of :: "db \<Rightarrow> string \<Rightarrow> task_lock" where
  "lock_of d i = \<lparr>lk_generation = (case fetch (\<lambda>t. tk_id t = i) (tasks d) of None \<Rightarrow> 0 | Some t \<Rightarrow> tk_generation t),
     lk_holder = map_option holder_of (active_attempt d i)\<rparr>"

lemma lock_generation:
  assumes "leases_ok d" and "t \<in> set (tasks d)"
  shows "lk_generation (lock_of d (tk_id t)) = tk_generation t"
  using assms fetch_unique [of tk_id "tasks d" t "tk_id t"] by (simp add: lock_of_def leases_ok_def)

lemma lock_generation_None:
  "\<forall>t \<in> set (tasks d). tk_id t \<noteq> i \<Longrightarrow> lk_generation (lock_of d i) = 0"
  by (auto simp: lock_of_def fetch_None_iff split: option.splits dest: fetch_SomeD)

lemma active_attempt_Some:
  assumes "leases_ok d"
  shows "active_attempt d i = Some a \<longleftrightarrow> a \<in> set (attempts d) \<and> at_task a = i \<and> at_state a = Active"
proof
  assume "active_attempt d i = Some a"
  then show "a \<in> set (attempts d) \<and> at_task a = i \<and> at_state a = Active"
    unfolding active_attempt_def by (auto dest: fetch_SomeD)
next
  assume a: "a \<in> set (attempts d) \<and> at_task a = i \<and> at_state a = Active"
  then obtain b where b: "active_attempt d i = Some b"
    by (cases "active_attempt d i") (auto simp: active_attempt_def fetch_None_iff)
  then have "b \<in> set (attempts d)" "at_task b = i" "at_state b = Active"
    by (auto simp: active_attempt_def dest: fetch_SomeD)
  with b a active_exclusive [OF assms, of b a] show "active_attempt d i = Some a" by auto
qed

lemma lock_holder_generation:
  assumes ok: "leases_ok d" and a: "a \<in> set (attempts d)" "at_state a = Active"
  shows "lock_of d (at_task a) = \<lparr>lk_generation = at_generation a, lk_holder = Some (holder_of a)\<rparr>"
proof -
  from ok a(1) obtain t where "t \<in> set (tasks d)" "attempt_ok a t" by (auto simp: leases_ok_def)
  with ok a(2) have "lk_generation (lock_of d (at_task a)) = at_generation a"
    using lock_generation [of d t] by (auto simp: attempt_ok_def)
  moreover have "active_attempt d (at_task a) = Some a" using a by (simp add: active_attempt_Some [OF ok])
  ultimately show ?thesis by (simp add: lock_of_def)
qed

section \<open>The simulation\<close>

lemma lock_generation_forward:
  assumes ok: "leases_ok d" "leases_ok d'" and fw: "leases_forward d d'"
  shows "lk_generation (lock_of d i) \<le> lk_generation (lock_of d' i)"
proof (cases "\<exists>t \<in> set (tasks d). tk_id t = i")
  case True
  then obtain t where t: "t \<in> set (tasks d)" "tk_id t = i" by blast
  with fw obtain u where "u \<in> set (tasks d')" "task_forward t u" by (auto simp: leases_forward_def)
  with t lock_generation [OF ok(1), of t] lock_generation [OF ok(2), of u] show ?thesis
    by (auto simp: task_forward_def)
next
  case False
  then have "lk_generation (lock_of d i) = 0" by (intro lock_generation_None) blast
  moreover have "0 \<le> lk_generation (lock_of d' i)"
  proof (cases "\<exists>t \<in> set (tasks d'). tk_id t = i")
    case True
    with ok(2) show ?thesis using lock_generation [OF ok(2)] by (auto simp: leases_ok_def granted_ok_def)
  qed (auto simp: lock_generation_None)
  ultimately show ?thesis by simp
qed

text \<open>An attempt that is active now either was the holder before or has a number not granted before.\<close>

lemma holder_new_or_kept:
  assumes ok: "leases_ok d" "leases_ok d'" and fw: "leases_forward d d'"
    and b: "b \<in> set (attempts d')" "at_state b = Active"
    and same: "lk_generation (lock_of d (at_task b)) = at_generation b"
  shows "\<exists>a \<in> set (attempts d). at_state a = Active \<and> at_task a = at_task b \<and> holder_of a = holder_of b"
proof -
  from ok(2) b(1) have pos: "0 < at_generation b" by (auto simp: leases_ok_def attempt_ok_def)
  with same obtain t where t: "t \<in> set (tasks d)" "tk_id t = at_task b"
    using lock_generation_None [of d "at_task b"] by fastforce
  with lock_generation [OF ok(1) t(1)] same have "tk_generation t = at_generation b" by simp
  with ok(1) t pos obtain a where a: "a \<in> set (attempts d)" "at_task a = at_task b" "at_generation a = at_generation b"
    by (auto simp: leases_ok_def granted_ok_def)
  with fw obtain c where c: "c \<in> set (attempts d')" "attempt_forward a c" by (auto simp: leases_forward_def)
  have "c = b"
    using ok(2) c a b(1) unique_row [of "\<lambda>a. (at_task a, at_generation a)" "attempts d'" c b]
    by (simp add: leases_ok_def attempt_forward_def)
  with c(2) b(2) a show ?thesis by (intro bexI [of _ a]) (auto simp: attempt_forward_def holder_of_def)
qed

lemma lock_simulation:
  assumes ok: "leases_ok d" "leases_ok d'" and fw: "leases_forward d d'"
  shows "lock_step\<^sup>*\<^sup>* (lock_of d i) (lock_of d' i)"
proof -
  note le = lock_generation_forward [OF ok fw, of i]
  obtain g h where l: "lock_of d i = \<lparr>lk_generation = g, lk_holder = h\<rparr>" by (cases "lock_of d i") auto
  show ?thesis
  proof (cases "active_attempt d' i")
    case None
    then have "lock_of d' i = \<lparr>lk_generation = lk_generation (lock_of d' i), lk_holder = None\<rparr>"
      by (simp add: lock_of_def)
    with le l show ?thesis by (metis held_drops free_passes rtranclp_trans task_lock.select_convs(1))
  next
    case (Some b)
    then have b: "b \<in> set (attempts d')" "at_task b = i" "at_state b = Active" by (simp_all add: active_attempt_Some [OF ok(2)])
    have l': "lock_of d' i = \<lparr>lk_generation = at_generation b, lk_holder = Some (holder_of b)\<rparr>"
      using lock_holder_generation [OF ok(2) b(1,3)] b(2) by simp
    show ?thesis
    proof (cases "g < at_generation b")
      case True
      with l l' show ?thesis by (simp add: lock_regrant)
    next
      case False
      with le l l' have g: "g = at_generation b" by simp
      with l b(2) holder_new_or_kept [OF ok fw b(1,3)] obtain a where
        a: "a \<in> set (attempts d)" "at_state a = Active" "at_task a = i" "holder_of a = holder_of b" by auto
      from lock_holder_generation [OF ok(1) a(1,2)] a(3,4) l g l' show ?thesis by simp
    qed
  qed
qed

section \<open>The property\<close>

text \<open>C4. Refinement: along every run of the service the lock of each task makes only the moves of the abstract
  generation lock, so a number once passed never returns and one number has one holder, whatever
  requests, expiries, clock rollbacks, cancellations and restarts are interleaved.\<close>

theorem service_refines_locks:
  assumes "system_ok (cf_weekly_budget (en_config en)) (srv_db srv)" and "(step en)\<^sup>*\<^sup>* srv srv'"
  shows "lock_step\<^sup>*\<^sup>* (lock_of (srv_db srv) i) (lock_of (srv_db srv') i)"
  using steps_forward [OF assms(2)] assms(1) by (intro lock_simulation) (simp_all add: forward_def system_ok_def)

theorem service_refines_locks_witness:
  "lock_step\<^sup>*\<^sup>* (lock_of ex_recovering ''t'')
     (lock_of (srv_db (snd (serve ex_env (ex_call False ''k'' (ex_now + 800000)) (Renew ''p'' ''a2'' 2) (ex_serving ex_recovering)))) ''t'')"
  (is "_ (lock_of (srv_db ?s) _)")
proof -
  have "(step ex_env)\<^sup>*\<^sup>* (ex_serving ex_recovering) ?s"
    by (rule r_into_rtranclp, rule step.request, rule prod.collapse [symmetric])
  from service_refines_locks [OF _ this] ex_recovering_ok show ?thesis by simp
qed

end
