(* ===== verification/Fencing.thy ===== *)
theory Fencing
  imports Lock_Refinement
begin

text \<open>
  The contract of the operations only the owner of a lease may run: renewing, checkpointing, releasing,
  resolving a recovery, registering a checkout, a reservation or a job, submitting, and everything the
  owner of an activity does up to finalization. Each commits only while the caller's session holds the
  lock of the task it works on, under the generation it names.
\<close>

section \<open>The contract\<close>

definition holds_lease :: "mutation \<Rightarrow> string \<Rightarrow> int \<Rightarrow> bool" where
  "holds_lease m t g \<longleftrightarrow> (\<exists>a \<in> set (attempts (m_db m)). at_task a = t \<and> at_generation a = g \<and> at_state a = Active
     \<and> m_now m < at_expires_at a \<and> at_owner a = ac_id (m_actor m) \<and> Some (at_session a) = ac_session (m_actor m))"

locale owner_operation = replay_safe body for body :: "mutation \<Rightarrow> outcome res" +
  fixes target :: "db \<Rightarrow> string" and gen :: int
  assumes holds: "leases_ok (m_db m) \<Longrightarrow> body m = Inr (Committed w d) \<Longrightarrow> holds_lease m (target (m_db m)) gen"
begin

lemma commits_as_holder:
  assumes ok: "leases_ok (m_db m)" and run: "body m = Inr (Committed w d)"
  shows "\<exists>a. active_attempt (m_db m) (target (m_db m)) = Some a \<and> at_owner a = ac_id (m_actor m)
      \<and> Some (at_session a) = ac_session (m_actor m) \<and> m_now m < at_expires_at a
      \<and> lock_of (m_db m) (target (m_db m)) = \<lparr>lk_generation = gen, lk_holder = Some (holder_of a)\<rparr>"
proof -
  from holds [OF ok run] obtain a where a: "a \<in> set (attempts (m_db m))" "at_task a = target (m_db m)"
    "at_generation a = gen" "at_state a = Active" "m_now m < at_expires_at a" "at_owner a = ac_id (m_actor m)"
    "Some (at_session a) = ac_session (m_actor m)" unfolding holds_lease_def by blast
  with lock_holder_generation [OF ok a(1,4)] active_attempt_Some [OF ok, of "target (m_db m)" a]
  show ?thesis by (intro exI [of _ a]) simp
qed

lemma stale_refused:
  assumes "leases_ok (m_db m)" and "lk_generation (lock_of (m_db m) (target (m_db m))) \<noteq> gen"
  shows "body m \<noteq> Inr (Committed w d)"
  using commits_as_holder [OF assms(1)] assms(2) by auto

end

section \<open>The operations that honour it\<close>

text \<open>The task an attempt works on, and the linked task of an activity.\<close>

definition attempt_target :: "string \<Rightarrow> string \<Rightarrow> db \<Rightarrow> string" where
  "attempt_target p i d = (case fetch (\<lambda>a. at_project a = p \<and> at_id a = i) (attempts d) of None \<Rightarrow> [] | Some a \<Rightarrow> at_task a)"

definition activity_target :: "string \<Rightarrow> string \<Rightarrow> db \<Rightarrow> string" where
  "activity_target p i d = (case fetch (\<lambda>w. wa_project w = p \<and> wa_id w = i) (workflow_activities d) of
     None \<Rightarrow> [] | Some w \<Rightarrow> wa_activity_task w)"

lemma owned_holds:
  assumes "owned m p i gen = Inr a"
  shows "holds_lease m (attempt_target p i (m_db m)) gen"
proof -
  from assms have "fetch (\<lambda>a. at_project a = p \<and> at_id a = i) (attempts (m_db m)) = Some a"
    by (auto simp: owned_def attempt_get_def Let_def split: if_splits)
  with owned_Inr(1,4-8) [OF assms] show ?thesis
    unfolding holds_lease_def attempt_target_def by (intro bexI [of _ a]) simp_all
qed

lemma owned_subject_holds:
  assumes "owned_subject m p i gen = Inr su"
  shows "holds_lease m (attempt_target p i (m_db m)) gen"
proof -
  from assms obtain a where a: "fetch (\<lambda>a. at_project a = p \<and> at_id a = i) (attempts (m_db m)) = Some a"
    "at_owner a = ac_id (m_actor m)" "session_of (m_actor m) = Inr (at_session a)" "at_generation a = gen"
    "at_state a = Active" "m_now m < at_expires_at a"
    by (auto simp: owned_subject_def Let_def not_le split: if_splits option.splits)
  moreover have "Some (at_session a) = ac_session (m_actor m)" using a(3) by (simp add: session_of_def split: option.splits)
  ultimately show ?thesis
    unfolding holds_lease_def attempt_target_def by (intro bexI [of _ a]) (auto dest: fetch_SomeD)
qed

lemma owned_activity_holds:
  assumes "owned_activity dig m p i gen kind = Inr cx" and ok: "leases_ok (m_db m)"
  shows "holds_lease m (activity_target p i (m_db m)) gen"
proof -
  note o = owned_activity_Inr [OF assms(1)]
  from o(1) have w: "fetch (\<lambda>w. wa_project w = p \<and> wa_id w = i) (workflow_activities (m_db m)) = Some (cx_activity cx)"
    by (auto simp: activity_context_get_def split: option.splits)
  from o(6) obtain a where a: "activity_current_attempt (m_db m) (cx_activity cx) = Some a" "at_owner a = ac_id (m_actor m)"
    "Some (at_session a) = ac_session (m_actor m)" "at_generation a = gen" "at_state a = Active" "at_expires_at a > m_now m" by blast
  from activity_current_attempt_Some [OF a(1)] obtain t where
    t: "fetch (\<lambda>t. tk_id t = wa_activity_task (cx_activity cx)) (tasks (m_db m)) = Some t"
      "tk_current_attempt t = Some (at_id a)" "a \<in> set (attempts (m_db m))" .
  then have "t \<in> set (tasks (m_db m))" "tk_id t = wa_activity_task (cx_activity cx)" by (auto dest: fetch_SomeD)
  moreover from ok this t(2) obtain b where "b \<in> set (attempts (m_db m))" "at_id b = at_id a" "at_task b = tk_id t"
    unfolding leases_ok_def current_ok_def by blast
  moreover from this ok t(3) have "b = a" by (intro unique_row [of at_id "attempts (m_db m)"]) (simp_all add: leases_ok_def)
  ultimately have "at_task a = wa_activity_task (cx_activity cx)" by simp
  with w a t(3) show ?thesis
    unfolding holds_lease_def activity_target_def by (intro bexI [of _ a]) simp_all
qed

text \<open>Operations of the attempt's owner.\<close>

interpretation renewal_lease: owner_operation "renew p i gen" "attempt_target p i" gen for p i gen
  by unfold_locales (auto simp: renew_def Let_def dest: owned_holds)

interpretation checkpoint_lease: owner_operation "checkpoint uuid p i ci" "attempt_target p i" "ci_generation ci" for uuid p i ci
  by unfold_locales (auto simp: Leases.checkpoint_def dest: owned_holds)

interpretation release_lease: owner_operation "release uuid p i gen summary blocked" "attempt_target p i" gen
  for uuid p i gen summary blocked
  by unfold_locales (auto simp: release_def Let_def dest: owned_holds)

interpretation recovery_lease: owner_operation "recovery_resolution uuid p i ry" "attempt_target p i" "ry_generation ry"
  for uuid p i ry
  by unfold_locales (auto simp: recovery_resolution_def Let_def dest: owned_holds)

interpretation checkout_lease: owner_operation "register_checkout dig p i ko" "attempt_target p i" "ko_generation ko"
  for dig p i ko
  by unfold_locales (auto simp: register_checkout_def Let_def dest: owned_holds)

interpretation reservation_lease: owner_operation "create_reservation dig uuid p i gen items" "attempt_target p i" gen
  for dig uuid p i gen items
  by unfold_locales (auto simp: create_reservation_def Let_def split: if_splits dest: owned_holds)

interpretation job_lease: owner_operation "register_job dig sha p i ji" "attempt_target p i" "ji_generation ji"
  for dig sha p i ji
  by unfold_locales (auto simp: register_job_def Let_def split: if_splits dest: owned_holds)

lemma submission_checks_owned:
  "submission_checks dig p i x m = Inr sx \<Longrightarrow> \<exists>su. owned_subject m p i (sn_generation x) = Inr su"
  by (auto simp: submission_checks_def Let_def)

interpretation submission_lease: owner_operation "submit lower is_uuid dig ids p i x" "attempt_target p i" "sn_generation x"
  for lower is_uuid dig ids p i x
  by unfold_locales (auto simp: submit_def Let_def dest!: submission_checks_owned owned_subject_holds)

text \<open>Operations of the activity's owner.\<close>

interpretation activity_release_lease: owner_operation "release_activity dig ids p i x" "activity_target p i" "ar_generation x"
  for dig ids p i x
  by unfold_locales (auto simp: release_activity_def Let_def dest: owned_activity_holds)

lemma review_checks_owned:
  "review_checks dig m p i x = Inr cx \<Longrightarrow> \<exists>kind. owned_activity dig m p i (ri_generation x) kind = Inr cx"
  by (auto simp: review_checks_def Let_def split: if_splits)

interpretation review_lease: owner_operation "review dig ids p i x" "activity_target p i" "ri_generation x"
  for dig ids p i x
  by unfold_locales (auto simp: review_def Let_def dest!: review_checks_owned dest: owned_activity_holds)

interpretation intent_lease: owner_operation "publication_intent_handler dig p i x" "activity_target p i" "ii_generation x"
  for dig p i x
  by unfold_locales (auto simp: publication_intent_handler_def Let_def dest: owned_integration_Inr(1) owned_activity_holds)

interpretation result_lease: owner_operation "integration_result_handler dig p i x" "activity_target p i" "ui_generation x"
  for dig p i x
  by unfold_locales (auto simp: integration_result_handler_def Let_def dest: result_checks_Inr(1) owned_activity_holds)

interpretation finalize_lease: owner_operation "finalize dig p i x" "activity_target p i" "fz_generation x"
  for dig p i x
  by unfold_locales (auto simp: finalize_def finalize_checks_def Let_def split: if_splits
      dest: owned_integration_Inr(1) owned_activity_holds)

section \<open>The property\<close>

text \<open>The lease an operation needs: the task and the generation it names.\<close>

fun lease_of :: "operation \<Rightarrow> db \<Rightarrow> (string \<times> int) option" where
  "lease_of (Renew p i g) d = Some (attempt_target p i d, g)"
| "lease_of (Checkpoint _ p i ci) d = Some (attempt_target p i d, ci_generation ci)"
| "lease_of (Release _ p i g _ _) d = Some (attempt_target p i d, g)"
| "lease_of (Resolve_recovery _ p i ry) d = Some (attempt_target p i d, ry_generation ry)"
| "lease_of (Register_checkout p i ko) d = Some (attempt_target p i d, ko_generation ko)"
| "lease_of (Create_reservation _ p i g _) d = Some (attempt_target p i d, g)"
| "lease_of (Register_job p i ji) d = Some (attempt_target p i d, ji_generation ji)"
| "lease_of (Submit _ p i x) d = Some (attempt_target p i d, sn_generation x)"
| "lease_of (Release_activity _ p i x) d = Some (activity_target p i d, ar_generation x)"
| "lease_of (Review _ p i x) d = Some (activity_target p i d, ri_generation x)"
| "lease_of (Publication_intent p i x) d = Some (activity_target p i d, ii_generation x)"
| "lease_of (Integration_result p i x) d = Some (activity_target p i d, ui_generation x)"
| "lease_of (Finalize p i x) d = Some (activity_target p i d, fz_generation x)"
| "lease_of _ d = None"

lemma owner_body:
  assumes "lease_of op (m_db m) = Some (t, g)"
  shows "\<exists>target. t = target (m_db m) \<and> owner_operation (op_body en sha op) target g"
  using assms
  by (cases op) (simp_all only: lease_of.simps op_body.simps option.inject prod.inject option.distinct,
      (metis renewal_lease.owner_operation_axioms checkpoint_lease.owner_operation_axioms release_lease.owner_operation_axioms
        recovery_lease.owner_operation_axioms checkout_lease.owner_operation_axioms reservation_lease.owner_operation_axioms
        job_lease.owner_operation_axioms submission_lease.owner_operation_axioms activity_release_lease.owner_operation_axioms
        review_lease.owner_operation_axioms intent_lease.owner_operation_axioms result_lease.owner_operation_axioms
        finalize_lease.owner_operation_axioms)+)

text \<open>C5. Mutual exclusion: an owner operation, whichever of the thirteen it is, commits only for the caller that holds
  the abstract lock of its task at that moment, under the lock's own number and before the deadline. So two
  callers never commit for one task in one state, and an operation that names a generation below one the
  task had in any earlier state is refused.\<close>

theorem owner_operations_exclusive:
  assumes ok: "system_ok (cf_weekly_budget (en_config en)) (srv_db srv)" and steps: "(step en)\<^sup>*\<^sup>* srv srv'"
    and m: "m_db m = srv_db srv'" and op: "lease_of op (srv_db srv') = Some (t, g)"
    and run: "op_body en sha op m = Inr (Committed w d)"
  shows "lk_generation (lock_of (srv_db srv) t) \<le> g
    \<and> (\<exists>a. active_attempt (srv_db srv') t = Some a \<and> at_owner a = ac_id (m_actor m)
      \<and> Some (at_session a) = ac_session (m_actor m) \<and> m_now m < at_expires_at a
      \<and> lock_of (srv_db srv') t = \<lparr>lk_generation = g, lk_holder = Some (holder_of a)\<rparr>)"
proof -
  from steps_forward [OF steps] ok have ok': "leases_ok (srv_db srv)" "leases_ok (srv_db srv')"
    and fw: "leases_forward (srv_db srv) (srv_db srv')" by (simp_all add: forward_def system_ok_def)
  from owner_body [of op m t g en sha] op m obtain target where
    t: "t = target (m_db m)" "owner_operation (op_body en sha op) target g" by auto
  from owner_operation.commits_as_holder [OF t(2) _ run] ok'(2) obtain a where
    a: "active_attempt (srv_db srv') t = Some a" "at_owner a = ac_id (m_actor m)"
      "Some (at_session a) = ac_session (m_actor m)" "m_now m < at_expires_at a"
      "lock_of (srv_db srv') t = \<lparr>lk_generation = g, lk_holder = Some (holder_of a)\<rparr>"
    unfolding m t(1) by blast
  from lock_generation_forward [OF ok' fw, of t] a(5) have "lk_generation (lock_of (srv_db srv) t) \<le> g" by simp
  with a show ?thesis by blast
qed

definition ex_renew :: "outcome res" where
  "ex_renew = op_body ex_env (\<lambda>s. s) (Renew ''p'' ''a2'' 2) (ex_m ex_agent (ex_now + 800000) ex_recovering)"

lemma ex_renew_ok: "is_commit ex_renew \<and> attempt_target ''p'' ''a2'' ex_recovering = ''t''"
  by code_simp

theorem owner_operations_exclusive_witness:
  "lk_generation (lock_of ex_recovering ''t'') = 2 \<and> lk_holder (lock_of ex_recovering ''t'') \<noteq> None"
  using owner_operations_exclusive [OF _ ex_restart [of ex_env ex_recovering] _ _ committed [OF conjunct1 [OF ex_renew_ok],
      unfolded ex_renew_def], of "''t''" 2] ex_recovering_ok conjunct2 [OF ex_renew_ok]
  by (auto simp: ex_m_def)

end
