(* ===== verification/Workflow_Scenario.thy ===== *)
theory Workflow_Scenario
  imports Scenario
begin

text \<open>
  The concrete project further on: the candidate of task \<open>t\<close> was submitted without required reviews and
  the agent integrates it, on attempt \<open>a3\<close> of the linked task \<open>k\<close>, with a checkout, the hold on the target and
  one required check that succeeded; then with the intent and the published result recorded.
\<close>

definition ex_check :: required_check where
  "ex_check = \<lparr>rc_identity = ''ci'', rc_version = ''1'', rc_environment = ''linux''\<rparr>"

definition ex_auto_project :: project where
  "ex_auto_project = ex_project\<lparr>pj_review_mode := RM_none, pj_automatic_integration := True\<rparr>"

definition ex_submission :: submission where
  "ex_submission = \<lparr>sb_id = ''sub'', sb_project = ''p'', sb_task = ''t'', sb_attempt = ''a1'', sb_kind = Code, sb_task_revision = 1,
     sb_project_policy = 1, sb_workflow_policy = 1, sb_summary = ''done'', sb_evidence = [(''ok'', ''seen'')], sb_handoff = [],
     sb_key = Some ''key'', sb_repository = Some ''git'', sb_target_branch = Some ''main'', sb_base_revision = Some ''base'',
     sb_candidate_revision = Some ''cand'', sb_candidate_tree = Some ''tree'', sb_candidate_ref = Some ''ref'',
     sb_created_by = ''bot'', sb_session = ''s1'', sb_created_at = ex_now, sb_superseded_at = None, sb_task_digest = None,
     sb_amendment = None\<rparr>"

definition ex_activity :: workflow_activity where
  "ex_activity = \<lparr>wa_id = ''w'', wa_project = ''p'', wa_subject_task = ''t'', wa_submission = ''sub'', wa_activity_task = ''k'',
     wa_kind = Integration, wa_slot = 1, wa_state = Act_active, wa_created_at = ex_now, wa_completed_at = None,
     wa_canceled_at = None, wa_cancel = None\<rparr>"

definition ex_integrator :: attempt where
  "ex_integrator = ex_attempt\<lparr>at_id := ''a3'', at_task := ''k''\<rparr>"

definition ex_check_job :: job where
  "ex_check_job = ex_job\<lparr>jb_id := ''j2'', jb_producer := ''pr2'', jb_task := ''k'', jb_attempt := ''a3'', jb_source_revision := ''res'',
     jb_source_tree := ''rtree'', jb_state := Succeeded, jb_exit_code := Some 0, jb_inputs_unchanged := Some True,
     jb_check := Some (''ci'', ''1'', ''linux'')\<rparr>"

definition ex_integrating :: db where
  "ex_integrating = ex_work\<lparr>projects := [ex_auto_project],
     tasks := [ex_task\<lparr>tk_generation := 1, tk_blocked_reason := Some ''submitted''\<rparr>,
       (activity_task_row ''p'' ''k'' ''fix'' ''sub'' Integration ex_now)\<lparr>tk_current_attempt := Some ''a3'', tk_generation := 1\<rparr>],
     attempts := [ex_attempt\<lparr>at_state := Submitted, at_ended_at := Some ex_now\<rparr>, ex_integrator],
     submissions := [ex_submission],
     workflow_policies := [\<lparr>wp_project = ''p'', wp_revision = 1, wp_key = ''key'', wp_required_checks = [ex_check], wp_updated_by = ''root'',
       wp_updated_at = ex_now\<rparr>],
     workflow_policy_revisions := [\<lparr>wr_project = ''p'', wr_revision = 1, wr_key = ''key'', wr_required_checks = [ex_check],
       wr_actor = ''root'', wr_created_at = ex_now\<rparr>],
     workflow_subjects := [\<lparr>ws_project = ''p'', ws_task = ''t'', ws_current_submission = ''sub'', ws_phase = Phase_integration,
       ws_updated_at = ex_now\<rparr>],
     workflow_activities := [ex_activity],
     integration_holds := [\<lparr>ih_id = ''h'', ih_activity = ''w'', ih_repository = ''key'', ih_target_branch = ''main'', ih_held = True,
       ih_acquired_by = ''bot'', ih_acquired_at = ex_now, ih_released_by = None, ih_released_at = None, ih_reason = None\<rparr>],
     checkouts := [\<lparr>co_attempt = ''a3'', co_project = ''p'', co_workstation = ''w1'', co_identity = ''ci'', co_path = ''/x'',
       co_branch = ''b'', co_base_revision = ''base'', co_created_at = ex_now\<rparr>],
     jobs := [ex_check_job]\<rparr>"

definition ex_intent :: publication_intent where
  "ex_intent = \<lparr>pi_activity = ''w'', pi_submission = ''sub'', pi_attempt = ''a3'', pi_observed_revision = ''base'',
     pi_observed_tree = ''btree'', pi_result_revision = ''res'', pi_result_tree = ''rtree'', pi_created_by = ''bot'',
     pi_created_at = ex_now, pi_roster_revision = Some 1\<rparr>"

definition ex_intended :: db where
  "ex_intended = ex_integrating\<lparr>publication_intents := [ex_intent]\<rparr>"

definition ex_published :: db where
  "ex_published = ex_intended\<lparr>integration_results := [\<lparr>ir_activity = ''w'', ir_submission = ''sub'', ir_attempt = ''a3'',
     ir_publication_state = Published, ir_observed_revision = ''base'', ir_result_revision = ''res'', ir_result_tree = ''rtree'',
     ir_check_jobs = [''j2''], ir_summary = ''ok'', ir_reported_by = ''bot'', ir_created_at = ex_now\<rparr>]\<rparr>"

definition ex_digest :: "string \<times> string \<times> string list \<times> task_kind \<Rightarrow> string" where
  "ex_digest = (\<lambda>(t, d, a, k). t)"

section \<open>The handlers on these states\<close>

definition ex_intent_input :: intent_input where
  "ex_intent_input = \<lparr>ii_generation = 1, ii_submission = ''sub'', ii_observed_revision = ''base'', ii_observed_tree = ''btree'',
     ii_result_revision = ''res'', ii_result_tree = ''rtree''\<rparr>"

definition ex_intend :: "outcome res" where
  "ex_intend = publication_intent_handler ex_digest ''p'' ''w'' ex_intent_input (ex_m ex_agent (ex_now + 5) ex_integrating)"

lemma ex_intend_ok: "is_commit ex_intend"
  by code_simp

definition ex_result_input :: result_input where
  "ex_result_input = \<lparr>ui_generation = 1, ui_submission = ''sub'', ui_publication_state = ''published'', ui_observed_revision = ''base'',
     ui_result_revision = ''res'', ui_result_tree = ''rtree'', ui_check_jobs = [''j2''], ui_summary = ''ok''\<rparr>"

definition ex_report :: "outcome res" where
  "ex_report = integration_result_handler ex_digest ''p'' ''w'' ex_result_input (ex_m ex_agent (ex_now + 6) ex_intended)"

lemma ex_report_ok: "is_commit ex_report"
  by code_simp

definition ex_finalize_input :: finalize_input where
  "ex_finalize_input = \<lparr>fz_generation = 1, fz_submission = ''sub'', fz_observed_revision = ''res'', fz_observed_tree = ''rtree''\<rparr>"

definition ex_finalize :: "outcome res" where
  "ex_finalize = finalize ex_digest ''p'' ''w'' ex_finalize_input (ex_m ex_agent (ex_now + 7) ex_published)"

lemma ex_finalize_ok: "is_commit ex_finalize"
  by code_simp

end
