(* ===== verification/Integration_Properties.thy ===== *)
theory Integration_Properties
  imports Workflow_Scenario
begin

text \<open>
  What a candidate must show before it is published and before its task is done: approvals that match the
  required reviews, authority, the hold on the target, an exact intent, and one successful producer for every
  required check, on exactly the published revision and tree.
\<close>

section \<open>Approvals\<close>

text \<open>C21. The greedy count over approvals decides exactly whether the valid approvals can be matched to the required
  reviews, each approval used at most once: no approval counts twice, and none that could serve is wasted.\<close>

theorem approvals_are_a_matching:
  "reviews_satisfied required approvers \<longleftrightarrow> matching required approvers"
  by (simp only: reviews_satisfied_range matching_range)

lemma ensure_approved_Inr: "ensure_approved d cx = Inr u \<Longrightarrow> approvals_satisfied d (wa_submission (cx_activity cx)) = Inr True"
  by (auto simp: ensure_approved_def split: if_splits)

lemma ensure_authorized_Inr: "ensure_authorized d cx = Inr u \<Longrightarrow> pj_automatic_integration (cx_project cx) \<or> authorized d cx"
  by (auto simp: ensure_authorized_def split: if_splits)

section \<open>The intent\<close>

lemma finish_tables:
  assumes "finish m d w p k r = Inr (Committed v e)"
  shows "v = w" "\<exists>rs es. e = d\<lparr>receipts := rs, events := es\<rparr>"
  using assms by (auto simp: finish_def finish_with_event_data_def)

lemma owned_integration_facts:
  assumes "owned_integration dig m p i gen sub = Inr cx"
  shows "activity_context_get dig (m_db m) p i = Inr cx" "wa_kind (cx_activity cx) = Integration"
    "wa_submission (cx_activity cx) = sub" "pins_current cx" "pj_integration_owner (cx_project cx) \<noteq> Owner_integrator"
    "wa_id (cx_activity cx) = i"
proof -
  note own = owned_integration_Inr [OF assms]
  note o = owned_activity_Inr [OF own(1)]
  show "activity_context_get dig (m_db m) p i = Inr cx" "wa_kind (cx_activity cx) = Integration"
    "wa_submission (cx_activity cx) = sub" "wa_id (cx_activity cx) = i" using o own by simp_all
  show "pins_current cx" using o(2) by (auto simp: ensure_current_def split: if_splits)
  show "pj_integration_owner (cx_project cx) \<noteq> Owner_integrator"
    using o(3,4) by (auto simp: ensure_agent_integration_def split: if_splits)
qed

text \<open>The attempt an owner operation on an activity runs under.\<close>

lemma owned_activity_attempt:
  assumes own: "owned_activity dig m p i gen kind = Inr cx"
    and cur: "current_attempt_id (m_db m) (wa_activity_task (cx_activity cx)) = Inr a"
  shows "\<exists>b \<in> set (attempts (m_db m)). at_id b = a \<and> at_owner b = ac_id (m_actor m) \<and> Some (at_session b) = ac_session (m_actor m)
    \<and> at_credential b = ac_credential (m_actor m) \<and> at_generation b = gen \<and> at_state b = Active \<and> m_now m < at_expires_at b"
proof -
  from owned_activity_Inr(6) [OF own] obtain b where b: "activity_current_attempt (m_db m) (cx_activity cx) = Some b"
    "at_owner b = ac_id (m_actor m)" "Some (at_session b) = ac_session (m_actor m)" "at_generation b = gen" "at_state b = Active"
    "at_expires_at b > m_now m" by blast
  from own owned_activity_Inr(1-4) [OF own] b(1) have "at_credential b = ac_credential (m_actor m)"
    by (auto simp: owned_activity_def Let_def split: if_splits)
  moreover from activity_current_attempt_Some [OF b(1)] obtain t where
    t: "fetch (\<lambda>t. tk_id t = wa_activity_task (cx_activity cx)) (tasks (m_db m)) = Some t"
      "tk_current_attempt t = Some (at_id b)" "b \<in> set (attempts (m_db m))" .
  moreover from cur t(1,2) have "at_id b = a" by (simp add: current_attempt_id_def)
  ultimately show ?thesis using b by blast
qed

text \<open>C20. A publication intent is recorded only by the owner of a live integration activity of an agent-integrated
  project: the current attempt of the activity's task is active, of the generation the request names, before
  its deadline, and belongs to the caller, the session and the credential of the request. The activity is
  neither finished nor in recovery, its pins are current, no decision is pending on it or on its subject,
  the approvals are satisfied, the integration is authorized or automatic, the attempt has a registered
  checkout, the hold on the target is held, and no intent of the activity exists. The intent pins the exact
  observed and intended revisions, and no task and no attempt changes.\<close>

theorem intent_needs_every_gate:
  assumes "publication_intent_handler dig p i x m = Inr (Committed w d)"
  shows "\<exists>cx a. activity_context_get dig (m_db m) p i = Inr cx \<and> wa_kind (cx_activity cx) = Integration
    \<and> wa_state (cx_activity cx) \<notin> {Act_completed, Act_canceled, Act_recovery_required}
    \<and> wa_submission (cx_activity cx) = ii_submission x \<and> pins_current cx \<and> ws_phase (cx_subject cx) \<noteq> Phase_revision_needed
    \<and> pj_integration_owner (cx_project cx) \<noteq> Owner_integrator
    \<and> a \<in> set (attempts (m_db m))
    \<and> current_attempt_id (m_db m) (wa_activity_task (cx_activity cx)) = Inr (at_id a)
    \<and> at_owner a = ac_id (m_actor m) \<and> Some (at_session a) = ac_session (m_actor m)
    \<and> at_credential a = ac_credential (m_actor m) \<and> at_generation a = ii_generation x
    \<and> at_state a = Active \<and> m_now m < at_expires_at a
    \<and> ensure_activity_decisions m p cx = Inr ()
    \<and> approvals_satisfied (m_db m) (ii_submission x) = Inr True
    \<and> (pj_automatic_integration (cx_project cx) \<or> authorized (m_db m) cx)
    \<and> hold_held (m_db m) i \<and> (\<exists>k \<in> set (checkouts (m_db m)). co_project k = p \<and> co_attempt k = at_id a)
    \<and> (\<forall>y \<in> set (publication_intents (m_db m)). pi_activity y \<noteq> i)
    \<and> publication_intents d = publication_intents (m_db m) @ [\<lparr>pi_activity = i, pi_submission = ii_submission x, pi_attempt = at_id a,
         pi_observed_revision = ii_observed_revision x, pi_observed_tree = ii_observed_tree x,
         pi_result_revision = ii_result_revision x, pi_result_tree = ii_result_tree x, pi_created_by = ac_id (m_actor m),
         pi_created_at = m_now m, pi_roster_revision = Some (cx_roster cx)\<rparr>]
    \<and> tasks d = tasks (m_db m) \<and> attempts d = attempts (m_db m)"
proof -
  from assms obtain cx a d1 av where own: "owned_integration dig m p i (ii_generation x) (ii_submission x) = Inr cx"
    and ap: "ensure_approved (m_db m) cx = Inr ()" and az: "ensure_authorized (m_db m) cx = Inr ()"
    and cur: "current_attempt_id (m_db m) (wa_activity_task (cx_activity cx)) = Inr a"
    and a: "count_where (\<lambda>k. co_project k = p \<and> co_attempt k = a) (checkouts (m_db m)) \<noteq> 0" and h: "hold_held (m_db m) i"
    and ins: "insert_intent \<lparr>pi_activity = i, pi_submission = wa_submission (cx_activity cx), pi_attempt = a,
             pi_observed_revision = ii_observed_revision x, pi_observed_tree = ii_observed_tree x,
             pi_result_revision = ii_result_revision x, pi_result_tree = ii_result_tree x,
             pi_created_by = ac_id (m_actor m), pi_created_at = m_now m, pi_roster_revision = Some (cx_roster cx)\<rparr> (m_db m) = Inr d1"
    and fin: "finish m d1 (JActivity av) (Some p) ''integration.publication_intended'' i = Inr (Committed w d)"
    unfolding publication_intent_handler_def Let_def by (auto split: if_splits)
  note o = owned_integration_facts [OF own] owned_integration_Inr [OF own]
  from owned_activity_attempt [OF o(7) cur] obtain b where b: "b \<in> set (attempts (m_db m))" "at_id b = a"
    "at_owner b = ac_id (m_actor m)" "Some (at_session b) = ac_session (m_actor m)" "at_credential b = ac_credential (m_actor m)"
    "at_generation b = ii_generation x" "at_state b = Active" "m_now m < at_expires_at b" by blast
  have live: "wa_state (cx_activity cx) \<notin> {Act_completed, Act_canceled, Act_recovery_required}"
    "ws_phase (cx_subject cx) \<noteq> Phase_revision_needed"
    using owned_activity_Inr(2) [OF o(7)] by (auto simp: ensure_current_def split: if_splits)
  from finish_tables(2) [OF fin] obtain rs es where d: "d = d1\<lparr>receipts := rs, events := es\<rparr>" by blast
  from a have k: "\<exists>k \<in> set (checkouts (m_db m)). co_project k = p \<and> co_attempt k = at_id b"
    using b(2) by (auto simp: table_simps)
  have kept: "\<forall>y \<in> set (publication_intents (m_db m)). pi_activity y \<noteq> i"
    "publication_intents d = publication_intents (m_db m) @ [\<lparr>pi_activity = i, pi_submission = ii_submission x, pi_attempt = at_id b,
         pi_observed_revision = ii_observed_revision x, pi_observed_tree = ii_observed_tree x,
         pi_result_revision = ii_result_revision x, pi_result_tree = ii_result_tree x, pi_created_by = ac_id (m_actor m),
         pi_created_at = m_now m, pi_roster_revision = Some (cx_roster cx)\<rparr>]"
    "tasks d = tasks (m_db m)" "attempts d = attempts (m_db m)"
    using ins d o(3) b(2) by (auto simp: insert_intent_def insert_row_def)
  have app: "approvals_satisfied (m_db m) (ii_submission x) = Inr True" using ensure_approved_Inr [OF ap] o(3) by simp
  show ?thesis
    by (intro exI [of _ cx] exI [of _ b] conjI)
       (rule o live b(1) cur [folded b(2)] b(3-8) app ensure_authorized_Inr [OF az] h k kept)+
qed

theorem intent_needs_every_gate_witness:
  "hold_held ex_integrating ''w'' \<and> length (publication_intents (out_db ex_intend)) = 1
    \<and> (\<exists>a \<in> set (attempts ex_integrating). at_owner a = ''bot'' \<and> ex_now + 5 < at_expires_at a)"
proof -
  have m: "m_db (ex_m ex_agent (ex_now + 5) ex_integrating) = ex_integrating" "m_now (ex_m ex_agent (ex_now + 5) ex_integrating) = ex_now + 5"
    "ac_id (m_actor (ex_m ex_agent (ex_now + 5) ex_integrating)) = ''bot''" "publication_intents ex_integrating = []"
    by (simp_all add: ex_m_def ex_agent_def ex_integrating_def ex_work_def ex_db_def)
  from intent_needs_every_gate [OF committed [OF ex_intend_ok, unfolded ex_intend_def], folded ex_intend_def, unfolded m]
  show ?thesis by (elim exE conjE) (intro conjI bexI; simp)
qed

section \<open>The checks\<close>

text \<open>The selected jobs and their check identities, side by side.\<close>

lemma collect_checks_Inr:
  assumes "collect_checks d p ok seen found js = Inr actual"
  shows "\<exists>xs cs. list_all2 (\<lambda>j x. x \<in> set (jobs d) \<and> jb_project x = p \<and> jb_id x = j \<and> ok x) js xs
    \<and> map jb_check xs = map Some cs \<and> actual = rev cs @ found
    \<and> distinct js \<and> set js \<inter> set seen = {} \<and> distinct cs \<and> set cs \<inter> set found = {}"
  using assms
proof (induction js arbitrary: seen found)
  case (Cons j js)
  then obtain x c where x: "fetch (\<lambda>x. jb_project x = p \<and> jb_id x = j) (jobs d) = Some x" "ok x" "jb_check x = Some c"
    and new: "j \<notin> set seen" "c \<notin> set found" and rest: "collect_checks d p ok (j # seen) (c # found) js = Inr actual"
    by (auto split: if_splits)
  from Cons.IH [OF rest] obtain xs cs where r: "list_all2 (\<lambda>j x. x \<in> set (jobs d) \<and> jb_project x = p \<and> jb_id x = j \<and> ok x) js xs"
    "map jb_check xs = map Some cs" "actual = rev cs @ c # found"
    "distinct js" "set js \<inter> set (j # seen) = {}" "distinct cs" "set cs \<inter> set (c # found) = {}" by blast
  from fetch_SomeD [OF x(1)] have "x \<in> set (jobs d) \<and> jb_project x = p \<and> jb_id x = j" by simp
  moreover have "set (j # js) \<inter> set seen = {}" "distinct (j # js)" using r(4,5) new(1) by auto
  moreover have "set (c # cs) \<inter> set found = {}" "distinct (c # cs)" using r(6,7) new(2) by auto
  ultimately show ?case
    using r(1-3) x(2,3) by (intro exI [of _ "x # xs"] exI [of _ "c # cs"] conjI) simp_all
qed simp

lemma list_all2_right: "list_all2 P js xs \<Longrightarrow> x \<in> set xs \<Longrightarrow> \<exists>j \<in> set js. P j x"
  by (induction rule: list_all2_induct) auto

lemma list_all2_left: "list_all2 P js xs \<Longrightarrow> j \<in> set js \<Longrightarrow> \<exists>x \<in> set xs. P j x"
  by (induction rule: list_all2_induct) auto

definition roster_proved :: "db \<Rightarrow> string \<Rightarrow> (job \<Rightarrow> bool) \<Rightarrow> required_check list \<Rightarrow> string list \<Rightarrow> bool" where
  "roster_proved d p ok roster js \<longleftrightarrow> distinct js \<and> length js = length roster
     \<and> (\<forall>c \<in> set roster. \<exists>x \<in> set (jobs d). jb_project x = p \<and> jb_id x \<in> set js \<and> jb_check x = Some (check_tuple c) \<and> ok x)
     \<and> (\<forall>j \<in> set js. \<exists>x \<in> set (jobs d). jb_id x = j \<and> ok x \<and> (\<exists>c \<in> set roster. jb_check x = Some (check_tuple c)))"

lemma validate_check_jobs_proved:
  assumes "validate_check_jobs d p cx attempt result tree js = Inr u"
  shows "\<exists>roster. roster_of d p (cx_roster cx) = Some roster \<and> roster \<noteq> [] \<and> distinct (map check_tuple roster)
    \<and> roster_proved d p (proves_result (wa_activity_task (cx_activity cx)) attempt result tree) roster js"
proof -
  let ?ok = "proves_result (wa_activity_task (cx_activity cx)) attempt result tree"
  from assms obtain roster actual where r: "roster_of d p (cx_roster cx) = Some roster" "validate_checks roster = Inr ()"
    "length js = length roster" and c: "collect_checks d p ?ok [] [] js = Inr actual"
    and eq: "set actual = set (map check_tuple roster)"
    unfolding validate_check_jobs_def by (auto split: if_splits option.splits)
  from collect_checks_Inr [OF c] obtain xs cs where
    x: "list_all2 (\<lambda>j x. x \<in> set (jobs d) \<and> jb_project x = p \<and> jb_id x = j \<and> ?ok x) js xs"
      "map jb_check xs = map Some cs" "actual = rev cs @ []" "distinct js" by (elim exE conjE) (rule that)
  have job: "x \<in> set (jobs d) \<and> jb_project x = p \<and> jb_id x \<in> set js \<and> ?ok x" if "x \<in> set xs" for x
    using list_all2_right [OF x(1) that] by blast
  have src: "\<exists>y \<in> set xs. jb_id y = j" if "j \<in> set js" for j
    using list_all2_left [OF x(1) that] by blast
  have chk: "jb_check ` set xs = Some ` check_tuple ` set roster"
  proof -
    have "jb_check ` set xs = Some ` set cs" using x(2) by (metis list.set_map)
    with eq x(3) show ?thesis by (simp add: image_image)
  qed
  have "roster_proved d p ?ok roster js"
    unfolding roster_proved_def
  proof (intro conjI ballI)
    fix c assume "c \<in> set roster"
    with chk obtain y where "y \<in> set xs" "jb_check y = Some (check_tuple c)" by (metis (no_types, lifting) imageE imageI)
    with job show "\<exists>x \<in> set (jobs d). jb_project x = p \<and> jb_id x \<in> set js \<and> jb_check x = Some (check_tuple c) \<and> ?ok x" by blast
  next
    fix j assume "j \<in> set js"
    with src obtain y where y: "y \<in> set xs" "jb_id y = j" by blast
    with chk obtain c where "c \<in> set roster" "jb_check y = Some (check_tuple c)" by (metis (no_types, lifting) imageE imageI)
    with y job show "\<exists>x \<in> set (jobs d). jb_id x = j \<and> ?ok x \<and> (\<exists>c \<in> set roster. jb_check x = Some (check_tuple c))" by blast
  qed (use x(4) r(3) in simp_all)
  with r validate_checks_distinct [OF r(2)] show ?thesis by blast
qed

section \<open>The result\<close>

text \<open>C19. A result is accepted as published only when it repeats the recorded intent of the same attempt exactly, and
  its jobs prove the roster pinned with that intent: distinct jobs, one for every required check, each
  succeeded with exit code zero on unchanged inputs, by this attempt, on exactly the published revision and
  tree; and no result was recorded before.\<close>

theorem published_result_proved:
  assumes "integration_result_handler dig p i x m = Inr (Committed w d)" and "ui_publication_state x = ''published''"
  shows "\<exists>cx a roster y. activity_context_get dig (m_db m) p i = Inr cx
    \<and> y \<in> set (publication_intents (m_db m)) \<and> pi_activity y = i \<and> pi_attempt y = a
    \<and> pi_observed_revision y = ui_observed_revision x \<and> pi_result_revision y = ui_result_revision x
    \<and> pi_result_tree y = ui_result_tree x
    \<and> roster_of (m_db m) p (cx_roster cx) = Some roster \<and> roster \<noteq> []
    \<and> roster_proved (m_db m) p (proves_result (wa_activity_task (cx_activity cx)) a (ui_result_revision x) (ui_result_tree x))
        roster (ui_check_jobs x)
    \<and> (\<forall>r \<in> set (integration_results (m_db m)). ir_activity r \<noteq> i)
    \<and> integration_results d = integration_results (m_db m) @ [\<lparr>ir_activity = i, ir_submission = ui_submission x, ir_attempt = a,
         ir_publication_state = Published, ir_observed_revision = ui_observed_revision x,
         ir_result_revision = ui_result_revision x, ir_result_tree = ui_result_tree x, ir_check_jobs = ui_check_jobs x,
         ir_summary = ui_summary x, ir_reported_by = ac_id (m_actor m), ir_created_at = m_now m\<rparr>]"
proof -
  from assms obtain cx a d1 av where chk: "result_checks dig m p i x = Inr (cx, a)"
    and ins: "insert_result \<lparr>ir_activity = i, ir_submission = wa_submission (cx_activity cx), ir_attempt = a,
          ir_publication_state = publication_of (ui_publication_state x), ir_observed_revision = ui_observed_revision x,
          ir_result_revision = ui_result_revision x, ir_result_tree = ui_result_tree x, ir_check_jobs = ui_check_jobs x,
          ir_summary = ui_summary x, ir_reported_by = ac_id (m_actor m), ir_created_at = m_now m\<rparr> (m_db m) = Inr d1"
    and fin: "finish m d1 (JActivity av) (Some p) ''integration.result_recorded'' i = Inr (Committed w d)"
    unfolding integration_result_handler_def Let_def by auto
  from chk assms(2) obtain y where own: "owned_integration dig m p i (ui_generation x) (ui_submission x) = Inr cx"
    and y: "fetch (\<lambda>y. pi_activity y = i) (publication_intents (m_db m)) = Some y" "pi_observed_revision y = ui_observed_revision x"
      "pi_result_revision y = ui_result_revision x" "pi_result_tree y = ui_result_tree x" "pi_attempt y = a"
    and v: "validate_check_jobs (m_db m) p cx a (ui_result_revision x) (ui_result_tree x) (ui_check_jobs x) = Inr ()"
    unfolding result_checks_def Let_def by (auto split: if_splits)
  note o = owned_integration_facts [OF own]
  from validate_check_jobs_proved [OF v] obtain roster where r: "roster_of (m_db m) p (cx_roster cx) = Some roster" "roster \<noteq> []"
    "roster_proved (m_db m) p (proves_result (wa_activity_task (cx_activity cx)) a (ui_result_revision x) (ui_result_tree x))
       roster (ui_check_jobs x)" by blast
  from finish_tables(2) [OF fin] obtain rs es where d: "d = d1\<lparr>receipts := rs, events := es\<rparr>" by blast
  from fetch_SomeD [OF y(1)] have "y \<in> set (publication_intents (m_db m))" "pi_activity y = i" by simp_all
  with y(2-5) o(1,3) r ins d assms(2) show ?thesis
    by (intro exI [of _ cx] exI [of _ a] exI [of _ roster] exI [of _ y])
       (auto simp: insert_result_def insert_row_def list_ex_iff publication_of_def)
qed

theorem published_result_proved_witness:
  "\<exists>r \<in> set (integration_results (out_db ex_report)). ir_publication_state r = Published \<and> ir_check_jobs r = [''j2'']"
  using published_result_proved [OF committed [OF ex_report_ok, unfolded ex_report_def]]
  unfolding ex_report_def by (auto simp: ex_result_input_def)

section \<open>Finalization\<close>

lemma ready_dependents_row:
  "t \<in> set (tasks (ready_dependents k now d)) \<Longrightarrow> \<exists>u \<in> set (tasks d). tk_id u = tk_id t \<and> tk_lifecycle u = tk_lifecycle t
     \<and> tk_current_attempt u = tk_current_attempt t"
  by (auto simp: ready_dependents_def table_simps)

lemma update_where_all:
  assumes "r \<in> set (update_where P f t)" and "\<And>q. q \<in> set t \<Longrightarrow> P q \<Longrightarrow> Q (f q)" and "\<And>q. q \<in> set t \<Longrightarrow> \<not> P q \<Longrightarrow> Q q"
  shows "Q r"
proof -
  from update_where_row [OF assms(1)] obtain q where q: "q \<in> set t" "r = (if P q then f q else q)" by blast
  show ?thesis
  proof (cases "P q")
    case True
    with q(1) assms(2) have "Q (f q)" by blast
    with q(2) True show ?thesis by simp
  next
    case False
    with q(1) assms(3) have "Q q" by blast
    with q(2) False show ?thesis by simp
  qed
qed

lemma ready_dependents_closed:
  assumes "t \<in> set (tasks (ready_dependents k now d))" and "tk_id t = i \<or> tk_id t = j"
    and "tasks d = update_where (\<lambda>y. tk_id y = i \<or> tk_id y = j)
      (\<lambda>y. y\<lparr>tk_lifecycle := Done, tk_current_attempt := None, tk_blocked_reason := None\<rparr>) ts"
  shows "tk_lifecycle t = Done \<and> tk_current_attempt t = None"
proof -
  from ready_dependents_row [OF assms(1)] obtain u where
    u: "u \<in> set (tasks d)" "tk_id u = tk_id t" "tk_lifecycle u = tk_lifecycle t" "tk_current_attempt u = tk_current_attempt t" by blast
  from update_where_row [OF u(1) [unfolded assms(3)]] obtain q where
    q: "u = (if tk_id q = i \<or> tk_id q = j then q\<lparr>tk_lifecycle := Done, tk_current_attempt := None, tk_blocked_reason := None\<rparr> else q)"
    by blast
  show ?thesis
  proof (cases "tk_id q = i \<or> tk_id q = j")
    case True
    with q have "tk_lifecycle u = Done" "tk_current_attempt u = None" by simp_all
    with u show ?thesis by simp
  next
    case False
    with q u(2) assms(2) show ?thesis by simp
  qed
qed

text \<open>C6. A task is done only with proof: finalization needs current approvals and authority, a published (or
  reconciled as published) result whose revision and tree are exactly what the owner observes now, checks
  that prove the roster for that result, and no live producer of either task. It then closes both tasks and
  forgets their attempts, completes the activity, ends the workflow and gives the hold back.\<close>

theorem finalize_only_exact_result:
  assumes "finalize dig p i x m = Inr (Committed w d)"
  shows "\<exists>cx r roster. activity_context_get dig (m_db m) p i = Inr cx
    \<and> approvals_satisfied (m_db m) (fz_submission x) = Inr True
    \<and> (pj_automatic_integration (cx_project cx) \<or> authorized (m_db m) cx)
    \<and> r \<in> set (integration_results (m_db m)) \<and> ir_activity r = i
    \<and> fz_observed_revision x = ir_result_revision r \<and> fz_observed_tree x = ir_result_tree r
    \<and> (ir_publication_state r = Published \<or> (\<exists>b \<in> set (publication_reconciliations (m_db m)).
          pb_activity b = i \<and> pb_disposition b = ''published''))
    \<and> roster_of (m_db m) p (cx_roster cx) = Some roster \<and> roster \<noteq> []
    \<and> roster_proved (m_db m) p (proves_result (wa_activity_task (cx_activity cx)) (ir_attempt r) (ir_result_revision r)
        (ir_result_tree r)) roster (ir_check_jobs r)
    \<and> ensure_attempt_quiescent (m_db m) p (wa_subject_task (cx_activity cx)) = Inr ()
    \<and> ensure_attempt_quiescent (m_db m) p (wa_activity_task (cx_activity cx)) = Inr ()
    \<and> (\<forall>t \<in> set (tasks d). tk_id t = wa_subject_task (cx_activity cx) \<or> tk_id t = wa_activity_task (cx_activity cx) \<longrightarrow>
         tk_lifecycle t = Done \<and> tk_current_attempt t = None)
    \<and> (\<forall>v \<in> set (workflow_activities d). wa_id v = i \<longrightarrow> wa_state v = Act_completed)
    \<and> (\<forall>s \<in> set (workflow_subjects d). ws_task s = wa_subject_task (cx_activity cx) \<longrightarrow> ws_phase s = Phase_done)
    \<and> \<not> hold_held d i"
proof -
  from assms obtain cx a d4 v where chk: "finalize_checks dig m p i x = Inr cx"
    and d4: "d4 = (let d = m_db m; now = m_now m; k = wa_activity_task (cx_activity cx); t = wa_subject_task (cx_activity cx);
          d1 = update_attempt a (\<lambda>y. y\<lparr>at_state := Submitted, at_ended_at := Some now,
                 at_outcome := Some ''Exact integrated result validated.''\<rparr>) d;
          d2 = d1\<lparr>tasks := update_where (\<lambda>y. tk_id y = k \<or> tk_id y = t)
                 (\<lambda>y. y\<lparr>tk_lifecycle := Done, tk_current_attempt := None, tk_blocked_reason := None\<rparr>) (tasks d1)\<rparr>;
          d3 = set_phase t Phase_done now (update_activity i (\<lambda>w. w\<lparr>wa_state := Act_completed, wa_completed_at := Some now\<rparr>) d2)
        in ready_dependents t now (release_holds (\<lambda>y. y = i) (ac_id (m_actor m)) now ''Exact integrated result completed.'' d3))"
    and fin: "finish m d4 (workflow_value v) (Some p) ''integration.completed'' i = Inr (Committed w d)"
    unfolding finalize_def Let_def by auto
  from finish_tables(2) [OF fin] obtain rs es where d: "d = d4\<lparr>receipts := rs, events := es\<rparr>" by blast
  from chk obtain r where own: "owned_integration dig m p i (fz_generation x) (fz_submission x) = Inr cx"
    and ap: "ensure_approved (m_db m) cx = Inr ()" and az: "ensure_authorized (m_db m) cx = Inr ()"
    and r: "fetch (\<lambda>r. ir_activity r = i) (integration_results (m_db m)) = Some r"
      "fz_observed_revision x = ir_result_revision r" "fz_observed_tree x = ir_result_tree r"
    and pub: "ir_publication_state r = Published \<or> map_option pb_disposition
           (fetch (\<lambda>b. pb_activity b = i) (publication_reconciliations (m_db m))) = Some ''published''"
    and v: "validate_check_jobs (m_db m) p cx (ir_attempt r) (ir_result_revision r) (ir_result_tree r) (ir_check_jobs r) = Inr ()"
    and q: "ensure_attempt_quiescent (m_db m) p (wa_subject_task (cx_activity cx)) = Inr ()"
      "ensure_attempt_quiescent (m_db m) p (wa_activity_task (cx_activity cx)) = Inr ()"
    unfolding finalize_checks_def Let_def by (auto split: if_splits)
  note o = owned_integration_facts [OF own]
  from fetch_SomeD [OF r(1)] have row: "r \<in> set (integration_results (m_db m))" "ir_activity r = i" by simp_all
  have pub': "ir_publication_state r = Published \<or> (\<exists>b \<in> set (publication_reconciliations (m_db m)).
          pb_activity b = i \<and> pb_disposition b = ''published'')"
    using pub by (auto dest: fetch_SomeD)
  from validate_check_jobs_proved [OF v] obtain roster where ro: "roster_of (m_db m) p (cx_roster cx) = Some roster" "roster \<noteq> []"
    "roster_proved (m_db m) p (proves_result (wa_activity_task (cx_activity cx)) (ir_attempt r) (ir_result_revision r)
        (ir_result_tree r)) roster (ir_check_jobs r)" by blast
  have tabs: "workflow_activities d = update_where (\<lambda>w. wa_id w = i) (\<lambda>w. w\<lparr>wa_state := Act_completed, wa_completed_at := Some (m_now m)\<rparr>)
        (workflow_activities (m_db m))"
    "workflow_subjects d = update_where (\<lambda>s. ws_task s = wa_subject_task (cx_activity cx))
        (\<lambda>s. s\<lparr>ws_phase := Phase_done, ws_updated_at := m_now m\<rparr>) (workflow_subjects (m_db m))"
    "integration_holds d = update_where (\<lambda>h. ih_activity h = i \<and> ih_held h) (\<lambda>h. h\<lparr>ih_held := False,
        ih_released_by := Some (ac_id (m_actor m)), ih_released_at := Some (m_now m),
        ih_reason := Some ''Exact integrated result completed.''\<rparr>) (integration_holds (m_db m))" "tasks d = tasks d4"
    unfolding d d4 Let_def
    by (simp_all add: release_holds_def set_phase_def update_activity_def ready_dependents_def update_attempt_def)
  have closed_now: "tk_lifecycle t = Done \<and> tk_current_attempt t = None"
    if "t \<in> set (tasks d)" "tk_id t = wa_activity_task (cx_activity cx) \<or> tk_id t = wa_subject_task (cx_activity cx)" for t
    using that(1) unfolding tabs(4) d4 Let_def
    by (rule ready_dependents_closed [OF _ that(2)]) (simp add: release_holds_def set_phase_def update_activity_def)
  have act: "wa_state v = Act_completed" if "v \<in> set (workflow_activities d)" "wa_id v = i" for v
    using update_where_all [OF that(1) [unfolded tabs(1)], of "\<lambda>v. wa_id v = i \<longrightarrow> wa_state v = Act_completed"] that(2) by simp
  have ph: "ws_phase s = Phase_done" if "s \<in> set (workflow_subjects d)" "ws_task s = wa_subject_task (cx_activity cx)" for s
    using update_where_all [OF that(1) [unfolded tabs(2)],
        of "\<lambda>s. ws_task s = wa_subject_task (cx_activity cx) \<longrightarrow> ws_phase s = Phase_done"] that(2) by simp
  have hold: "\<not> hold_held d i"
  proof -
    have "ih_activity h = i \<longrightarrow> \<not> ih_held h" if h: "h \<in> set (integration_holds d)" for h
      using h unfolding tabs(3)
      by (rule update_where_all [where Q = "\<lambda>h. ih_activity h = i \<longrightarrow> \<not> ih_held h"]) simp_all
    then show ?thesis by (auto simp: hold_held_def count_where_def)
  qed
  show ?thesis
    by (intro exI [of _ cx] exI [of _ r] exI [of _ roster] conjI ballI impI)
       (use o ap az row r(2,3) pub' ro q closed_now act ph hold in \<open>auto dest: ensure_approved_Inr ensure_authorized_Inr\<close>)
qed

theorem finalize_only_exact_result_witness:
  "\<not> hold_held (out_db ex_finalize) ''w''"
  using finalize_only_exact_result [OF committed [OF ex_finalize_ok, unfolded ex_finalize_def]]
  unfolding ex_finalize_def by blast

end
