(* ===== verification/Workflow_Frames.thy ===== *)
theory Workflow_Frames
  imports System
begin

text \<open>
  The tables of the completion workflow, seen as one value: submissions, subjects, activities, reviews,
  holds, intents, results and reconciliations. Every handler outside the workflow leaves them alone.
\<close>

definition workflow_rows :: "db \<Rightarrow> submission list \<times> workflow_subject list \<times> workflow_activity list \<times> review_row list
    \<times> integration_hold list \<times> publication_intent list \<times> integration_result list \<times> publication_reconciliation list" where
  "workflow_rows d = (submissions d, workflow_subjects d, workflow_activities d, review_decisions d, integration_holds d,
     publication_intents d, integration_results d, publication_reconciliations d)"

definition same_workflow :: "db \<Rightarrow> db \<Rightarrow> bool" where
  "same_workflow d d' \<longleftrightarrow> workflow_rows d' = workflow_rows d"

lemma same_workflow_refl [simp]: "same_workflow d d"
  by (simp add: same_workflow_def)

named_theorems frames \<open>helpers that leave the workflow tables alone\<close>

section \<open>Writes to other tables\<close>

lemma workflow_rows_writes [simp]:
  "workflow_rows (d\<lparr>events := es\<rparr>) = workflow_rows d" "workflow_rows (d\<lparr>receipts := rs\<rparr>) = workflow_rows d"
  "workflow_rows (d\<lparr>clock := k\<rparr>) = workflow_rows d" "workflow_rows (d\<lparr>clock_incidents := ci\<rparr>) = workflow_rows d"
  "workflow_rows (d\<lparr>clock_events := ce\<rparr>) = workflow_rows d"
  "workflow_rows (d\<lparr>projects := ps\<rparr>) = workflow_rows d" "workflow_rows (d\<lparr>policy_revisions := pv\<rparr>) = workflow_rows d"
  "workflow_rows (d\<lparr>tasks := ts\<rparr>) = workflow_rows d" "workflow_rows (d\<lparr>task_revisions := tn\<rparr>) = workflow_rows d"
  "workflow_rows (d\<lparr>task_dependencies := td\<rparr>) = workflow_rows d" "workflow_rows (d\<lparr>attempts := as\<rparr>) = workflow_rows d"
  "workflow_rows (d\<lparr>checkpoints := cp\<rparr>) = workflow_rows d" "workflow_rows (d\<lparr>acknowledgments := ia\<rparr>) = workflow_rows d"
  "workflow_rows (d\<lparr>checkouts := co\<rparr>) = workflow_rows d" "workflow_rows (d\<lparr>contributors := tc\<rparr>) = workflow_rows d"
  "workflow_rows (d\<lparr>definition_grants := dg\<rparr>) = workflow_rows d" "workflow_rows (d\<lparr>revision_grants := rg\<rparr>) = workflow_rows d"
  "workflow_rows (d\<lparr>decisions := dc\<rparr>) = workflow_rows d" "workflow_rows (d\<lparr>decision_cycles := dy\<rparr>) = workflow_rows d"
  "workflow_rows (d\<lparr>decision_tasks := dt\<rparr>) = workflow_rows d" "workflow_rows (d\<lparr>decision_answers := da\<rparr>) = workflow_rows d"
  "workflow_rows (d\<lparr>resources := xs\<rparr>) = workflow_rows d" "workflow_rows (d\<lparr>reservations := rv\<rparr>) = workflow_rows d"
  "workflow_rows (d\<lparr>reservation_items := ri\<rparr>) = workflow_rows d" "workflow_rows (d\<lparr>jobs := js\<rparr>) = workflow_rows d"
  "workflow_rows (d\<lparr>reporters := rp\<rparr>) = workflow_rows d" "workflow_rows (d\<lparr>job_observations := jo\<rparr>) = workflow_rows d"
  "workflow_rows (d\<lparr>workflow_policies := wp\<rparr>) = workflow_rows d"
  "workflow_rows (d\<lparr>workflow_policy_revisions := wr\<rparr>) = workflow_rows d"
  "workflow_rows (d\<lparr>review_findings := rf\<rparr>) = workflow_rows d"
  "workflow_rows (d\<lparr>integration_authorizations := iz\<rparr>) = workflow_rows d"
  "workflow_rows (d\<lparr>integrator_reports := ip\<rparr>) = workflow_rows d" "workflow_rows (d\<lparr>revise_requests := iq\<rparr>) = workflow_rows d"
  "workflow_rows (d\<lparr>task_reverts := tr\<rparr>) = workflow_rows d"
  "workflow_rows (d\<lparr>submission_artifacts := sa\<rparr>) = workflow_rows d"
  "workflow_rows (d\<lparr>knowledge_records := kr\<rparr>) = workflow_rows d" "workflow_rows (d\<lparr>knowledge_revisions := kv\<rparr>) = workflow_rows d"
  "workflow_rows (d\<lparr>knowledge_feedbacks := kf\<rparr>) = workflow_rows d"
  "workflow_rows (d\<lparr>submission_knowledge_links := sk\<rparr>) = workflow_rows d"
  by (simp_all add: workflow_rows_def)

lemma workflow_rows_helpers [simp]:
  "workflow_rows (update_task i f d) = workflow_rows d" "workflow_rows (ready_dependents i now d) = workflow_rows d"
  "workflow_rows (update_attempt i g d) = workflow_rows d" "workflow_rows (expire_previous now c d) = workflow_rows d"
  "workflow_rows (record_contributor t who s now d) = workflow_rows d"
  "workflow_rows (record_admission m i ad d) = workflow_rows d"
  "workflow_rows (close_reservation i m st reason ev d) = workflow_rows d"
  "workflow_rows (reconcile_jobs i m reason e d) = workflow_rows d"
  by (simp_all add: update_task_def ready_dependents_def update_attempt_def expire_previous_def record_contributor_def
      record_admission_def close_reservation_def reconcile_jobs_def split: option.splits)

lemma frame_save [frames]: "save_task_revision m p i d = Inr (v, d') \<Longrightarrow> workflow_rows d' = workflow_rows d"
  by (auto dest!: save_task_revision_Inr)

lemma frame_saved [frames]:
  "(if b then and_then (save_task_revision m p i d) (\<lambda>(_, y). Inr y) else Inr d) = Inr d' \<Longrightarrow> workflow_rows d' = workflow_rows d"
  by (auto split: if_splits dest!: save_task_revision_Inr)

lemma frame_policy [frames]: "save_workflow_policy w d = Inr d' \<Longrightarrow> workflow_rows d' = workflow_rows d"
  by (auto simp: save_workflow_policy_def Let_def)

lemma frame_insert_task [frames]: "insert_task t d = Inr d' \<Longrightarrow> workflow_rows d' = workflow_rows d"
  by (auto simp: insert_task_def)

lemma frame_dependencies [frames]: "set_dependencies p i deps d = Inr d' \<Longrightarrow> workflow_rows d' = workflow_rows d"
  by (auto dest!: set_dependencies_Inr(1) simp: replace_dependencies_def)

lemma frame_link_grant [frames]: "link_grant p i r g d = Inr d' \<Longrightarrow> workflow_rows d' = workflow_rows d"
  by (auto simp: link_grant_def split: option.splits)

lemma frame_insert_attempt [frames]: "insert_attempt a d = Inr d' \<Longrightarrow> workflow_rows d' = workflow_rows d"
  by (auto simp: insert_attempt_def)

lemma frame_add_contributors [frames]:
  "add_contributors m p t cs d = Inr d' \<Longrightarrow> workflow_rows d' = workflow_rows d"
  by (induction m p t cs d arbitrary: d' rule: add_contributors.induct) (auto simp: Let_def split: if_splits)

lemma frame_checkpoint [frames]: "add_checkpoint u m p i ci d = Inr (v, d') \<Longrightarrow> workflow_rows d' = workflow_rows d"
  by (auto simp: add_checkpoint_def Let_def split: if_splits dest!: frame_add_contributors)

lemma frame_reservation [frames]: "insert_reservation u p a g m items d = Inr d' \<Longrightarrow> workflow_rows d' = workflow_rows d"
  by (auto simp: insert_reservation_def Let_def)

lemma frame_knowledge [frames]: "insert_knowledge_record i p now who k d = Inr (v, d') \<Longrightarrow> workflow_rows d' = workflow_rows d"
  by (auto simp: insert_knowledge_record_def insert_knowledge_revision_def Let_def)

lemma frame_knowledge_revision [frames]: "insert_knowledge_revision r d = Inr d' \<Longrightarrow> workflow_rows d' = workflow_rows d"
  by (auto simp: insert_knowledge_revision_def)

lemma frame_repair [frames]: "repair_decision_task_revisions m p ts d = Inr d' \<Longrightarrow> workflow_rows d' = workflow_rows d"
  by (induction m p ts d arbitrary: d' rule: repair_decision_task_revisions.induct)
     (auto simp: Let_def split: if_splits option.splits dest: frame_save)

lemma frame_decision_tasks [frames]: "insert_decision_tasks i c p ts d = Inr d' \<Longrightarrow> workflow_rows d' = workflow_rows d"
  by (induction i c p ts d arbitrary: d' rule: insert_decision_tasks.induct) auto

lemma frame_cycle [frames]: "open_cycle c p ts d = Inr d' \<Longrightarrow> workflow_rows d' = workflow_rows d"
  by (auto simp: open_cycle_def Let_def dest!: frame_decision_tasks)

section \<open>Handlers\<close>

lemmas frame_goal = same_workflow_def

lemma project_frames:
  "commits same_workflow m (create_project uuid i m)" "commits same_workflow m (project_archive_change j reason action m)"
  unfolding create_project_def project_archive_change_def Let_def
  by (intro commits_intros; hypsubst?; simp add: frame_goal)+

lemma task_frames:
  "commits same_workflow m (create_task cfg u p ti m)" "commits same_workflow m (edit_task p i te m)"
  "commits same_workflow m (unblock_task p i r reason m)" "commits same_workflow m (lifecycle_change p i li action m)"
  "commits same_workflow m (set_human_delivery p i hx m)"
  "commits same_workflow m (create_task_definition_grant u p gi m)" "commits same_workflow m (revoke_task_definition_grant p i r m)"
  unfolding create_task_def edit_task_def unblock_task_def lifecycle_change_def set_human_delivery_def
    create_task_definition_grant_def revoke_task_definition_grant_def Let_def
  by (intro commits_intros; hypsubst?; (auto simp: frame_goal dest!: frames)[1])+

lemma lease_frames:
  "commits same_workflow m (acknowledge s ak m)" "commits same_workflow m (claim u p cm m)" "commits same_workflow m (renew p i g m)"
  "commits same_workflow m (checkpoint u p i ci m)" "commits same_workflow m (release u p i g summary blocked m)"
  "commits same_workflow m (recovery_resolution u p i ry m)" "commits same_workflow m (register_checkout dig p i ko m)"
  unfolding acknowledge_def claim_def claim_replay_def grant_claim_def renew_def Leases.checkpoint_def release_def recovery_resolution_def register_checkout_def Let_def
  by (intro commits_intros; hypsubst?; (auto simp: frame_goal dest!: frames)[1])+

lemma job_frames:
  "commits same_workflow m (create_resource u xi m)" "commits same_workflow m (update_resource r xu m)"
  "commits same_workflow m (delete_resource r m)" "commits same_workflow m (create_reservation dig u p a g items m)"
  "commits same_workflow m (release_reservation p i g reason m)" "commits same_workflow m (resolve_reservation p i reason ev m)"
  "commits same_workflow m (register_job dig sha p a ji m)" "commits same_workflow m (observe h i oi m)"
  "commits same_workflow m (reporter_renew i g m)"
  unfolding create_resource_def update_resource_def delete_resource_def create_reservation_def release_reservation_def
    resolve_reservation_def register_job_def observe_def observe_again_def reporter_renew_def Let_def
  by (intro commits_intros; hypsubst?; (auto simp: frame_goal dest!: frames)[1])+

lemma record_frames:
  "commits same_workflow m (create_knowledge u p k m)" "commits same_workflow m (edit_knowledge p i e m)"
  "commits same_workflow m (add_feedback u p i f m)" "commits same_workflow m (create_decision dig u p x m)"
  "commits same_workflow m (answer_decision dig p i y m)" "commits same_workflow m (reopen_decision dig p i z m)"
  "commits same_workflow m (put_workflow_policy url sha p w m)"
  unfolding create_knowledge_def edit_knowledge_def add_feedback_def create_decision_def answer_decision_def reopen_decision_def
    put_workflow_policy_def Let_def
  by (intro commits_intros; hypsubst?; (auto simp: frame_goal dest!: frames)[1])+

lemma clock_frames: "commits same_workflow m (fst (reconcile_clock_body wall tick incident reason m rt))"
  using reconcile_clock_commits
  by (rule commits_mono) (auto simp: clock_forward_def clock_only_def frame_goal)

end
