(* ===== verification/Workflow_Invariant.thy ===== *)
theory Workflow_Invariant
  imports Workflow_Frames System_Invariant
begin

text \<open>
  The invariant of the completion workflow: the unique indexes of its tables hold after every write (the
  inserts test them, the updates never break them), so one activity holds a target, one submission of a
  task is current, and an activity has at most one review, intent, result and reconciliation. And its
  history: those four are append-only, submissions keep their content, finished activities and released
  holds stay so.
\<close>

section \<open>Unique indexes\<close>

definition unclashed :: "('r \<Rightarrow> 'r \<Rightarrow> bool) \<Rightarrow> 'r list \<Rightarrow> bool" where
  "unclashed same t \<longleftrightarrow> sorted_wrt (\<lambda>a b. \<not> same b a) t"

lemma unclashed_Nil [simp]: "unclashed same []"
  by (simp add: unclashed_def)

lemma unclashed_insert: "unclashed same t \<Longrightarrow> \<forall>s \<in> set t. \<not> same r s \<Longrightarrow> unclashed same (insert_row r t)"
  by (simp add: unclashed_def insert_row_def sorted_wrt_append)

lemma prefix_insert_row [simp]: "prefix xs (insert_row r xs)"
  by (simp add: insert_row_def)

lemma unclashed_update:
  assumes "unclashed same t" and "\<And>a b. a \<in> set t \<Longrightarrow> b \<in> set t \<Longrightarrow> same (if P b then f b else b) (if P a then f a else a) \<Longrightarrow> same b a"
  shows "unclashed same (update_where P f t)"
proof -
  have "sorted_wrt (\<lambda>a b. \<not> same (if P b then f b else b) (if P a then f a else a)) t"
    using assms(1) unfolding unclashed_def by (rule sorted_wrt_mono_rel [rotated]) (use assms(2) in blast)
  then show ?thesis by (simp add: unclashed_def update_where_def sorted_wrt_map)
qed

lemma unclashed_pair:
  assumes "unclashed same t" and "a \<in> set t" "b \<in> set t" "a \<noteq> b"
  shows "\<not> same a b \<or> \<not> same b a"
proof -
  from assms(2,3) obtain i j where ij: "i < length t" "t ! i = a" "j < length t" "t ! j = b" by (auto simp: in_set_conv_nth)
  with assms(4) have "i < j \<or> j < i" by (metis linorder_neqE_nat)
  with assms(1) ij show ?thesis unfolding unclashed_def sorted_wrt_iff_nth_less by blast
qed

definition subject_clash :: "workflow_subject \<Rightarrow> workflow_subject \<Rightarrow> bool" where
  "subject_clash a b \<longleftrightarrow> ws_task a = ws_task b \<or> ws_current_submission a = ws_current_submission b"

definition workflow_ok :: "db \<Rightarrow> bool" where
  "workflow_ok d \<longleftrightarrow> unclashed submission_clash (submissions d) \<and> unclashed subject_clash (workflow_subjects d)
     \<and> unclashed activity_clash (workflow_activities d) \<and> unclashed hold_clash (integration_holds d)
     \<and> unclashed (\<lambda>a b. rw_activity a = rw_activity b) (review_decisions d)
     \<and> unclashed (\<lambda>a b. pi_activity a = pi_activity b) (publication_intents d)
     \<and> unclashed (\<lambda>a b. ir_activity a = ir_activity b) (integration_results d)
     \<and> unclashed (\<lambda>a b. pb_activity a = pb_activity b) (publication_reconciliations d)"

section \<open>History\<close>

definition finished :: "workflow_activity \<Rightarrow> bool" where
  "finished w \<longleftrightarrow> wa_state w = Act_completed \<or> wa_state w = Act_canceled"

definition activity_forward :: "workflow_activity \<Rightarrow> workflow_activity \<Rightarrow> bool" where
  "activity_forward w v \<longleftrightarrow> wa_id v = wa_id w \<and> wa_project v = wa_project w \<and> wa_subject_task v = wa_subject_task w
     \<and> wa_submission v = wa_submission w \<and> wa_activity_task v = wa_activity_task w \<and> wa_kind v = wa_kind w
     \<and> wa_slot v = wa_slot w \<and> (finished w \<longrightarrow> wa_state v = wa_state w)"

definition hold_forward :: "integration_hold \<Rightarrow> integration_hold \<Rightarrow> bool" where
  "hold_forward h k \<longleftrightarrow> ih_id k = ih_id h \<and> ih_activity k = ih_activity h \<and> ih_repository k = ih_repository h
     \<and> ih_target_branch k = ih_target_branch h \<and> (ih_held k \<longrightarrow> ih_held h)"

text \<open>Everything of a submission but its supersession and the digest of the judged fields.\<close>

definition submission_core :: "submission \<Rightarrow> submission" where
  "submission_core s = s\<lparr>sb_superseded_at := None, sb_task_digest := None\<rparr>"

definition submission_forward :: "submission \<Rightarrow> submission \<Rightarrow> bool" where
  "submission_forward s v \<longleftrightarrow> submission_core v = submission_core s
     \<and> (sb_superseded_at s \<noteq> None \<longrightarrow> sb_superseded_at v = sb_superseded_at s)"

definition each_kept :: "('r \<Rightarrow> 'r \<Rightarrow> bool) \<Rightarrow> 'r list \<Rightarrow> 'r list \<Rightarrow> bool" where
  "each_kept R xs ys \<longleftrightarrow> (\<forall>x \<in> set xs. \<exists>y \<in> set ys. R x y)"

definition workflow_forward :: "db \<Rightarrow> db \<Rightarrow> bool" where
  "workflow_forward d d' \<longleftrightarrow> prefix (review_decisions d) (review_decisions d') \<and> prefix (publication_intents d) (publication_intents d')
     \<and> prefix (integration_results d) (integration_results d')
     \<and> prefix (publication_reconciliations d) (publication_reconciliations d')
     \<and> each_kept submission_forward (submissions d) (submissions d')
     \<and> each_kept activity_forward (workflow_activities d) (workflow_activities d')
     \<and> each_kept hold_forward (integration_holds d) (integration_holds d')"

lemma each_kept_refl: "(\<And>x. R x x) \<Longrightarrow> each_kept R xs xs"
  by (auto simp: each_kept_def)

lemma each_kept_insert: "(\<And>x. R x x) \<Longrightarrow> each_kept R xs (insert_row y xs)"
  by (auto simp: each_kept_def)

lemma each_kept_update:
  assumes "\<And>x. x \<in> set xs \<Longrightarrow> P x \<Longrightarrow> R x (f x)" and "\<And>x. R x x"
  shows "each_kept R xs (update_where P f xs)"
  unfolding each_kept_def
proof
  fix x assume "x \<in> set xs"
  with assms show "\<exists>y \<in> set (update_where P f xs). R x y"
    by (intro bexI [of _ "if P x then f x else x"]) (auto simp: table_simps)
qed

lemma each_kept_trans:
  "(\<And>x y z. R x y \<Longrightarrow> R y z \<Longrightarrow> R x z) \<Longrightarrow> each_kept R xs ys \<Longrightarrow> each_kept R ys zs \<Longrightarrow> each_kept R xs zs"
  unfolding each_kept_def by metis

lemma row_forward_refl [simp]: "activity_forward w w" "hold_forward h h" "submission_forward s s"
  by (simp_all add: activity_forward_def hold_forward_def submission_forward_def)

lemma row_forward_trans:
  "activity_forward w v \<Longrightarrow> activity_forward v u \<Longrightarrow> activity_forward w u"
  "hold_forward h k \<Longrightarrow> hold_forward k l \<Longrightarrow> hold_forward h l"
  "submission_forward s t \<Longrightarrow> submission_forward t r \<Longrightarrow> submission_forward s r"
  by (auto simp: activity_forward_def hold_forward_def submission_forward_def finished_def)

lemma workflow_forward_refl [simp]: "workflow_forward d d"
  by (simp add: workflow_forward_def each_kept_refl)

lemma workflow_forward_trans: "workflow_forward a b \<Longrightarrow> workflow_forward b c \<Longrightarrow> workflow_forward a c"
  unfolding workflow_forward_def
  by (auto intro: prefix_order.trans elim: each_kept_trans [rotated] dest: row_forward_trans)

section \<open>Steps of the workflow\<close>

definition workflow_step :: "db \<Rightarrow> db \<Rightarrow> bool" where
  "workflow_step d d' \<longleftrightarrow> (workflow_ok d \<longrightarrow> workflow_ok d' \<and> workflow_forward d d')"

lemma workflow_step_refl [simp]: "workflow_step d d"
  by (simp add: workflow_step_def)

lemma workflow_step_trans: "workflow_step a b \<Longrightarrow> workflow_step b c \<Longrightarrow> workflow_step a c"
  unfolding workflow_step_def using workflow_forward_trans by blast

lemma workflow_step_rows:
  assumes "workflow_rows d' = workflow_rows d"
  shows "workflow_step a d' = workflow_step a d"
  using assms by (simp add: workflow_step_def workflow_rows_def workflow_ok_def workflow_forward_def)

lemmas workflow_writes [simp] = workflow_rows_writes [THEN workflow_step_rows] workflow_rows_helpers [THEN workflow_step_rows]

lemma same_workflow_step: "same_workflow d d' \<Longrightarrow> workflow_step d d'"
  using workflow_step_rows [of d' d d] by (simp add: same_workflow_def)

named_theorems workflow_steps \<open>writes that keep \<open>workflow_step\<close>\<close>

named_theorems workflow_res \<open>fallible writes that keep it\<close>

lemma workflow_step_by:
  assumes "workflow_step a d" and "workflow_ok d \<Longrightarrow> workflow_ok d' \<and> workflow_forward d d'"
  shows "workflow_step a d'"
  using assms(1) by (rule workflow_step_trans) (use assms(2) in \<open>simp add: workflow_step_def\<close>)

lemma step_activities:
  assumes "workflow_step a d"
    and "\<And>w. workflow_ok d \<Longrightarrow> w \<in> set (workflow_activities d) \<Longrightarrow> P w \<Longrightarrow> \<not> finished w"
    and "\<And>w. wa_id (f w) = wa_id w \<and> wa_project (f w) = wa_project w \<and> wa_subject_task (f w) = wa_subject_task w
        \<and> wa_submission (f w) = wa_submission w \<and> wa_activity_task (f w) = wa_activity_task w \<and> wa_kind (f w) = wa_kind w
        \<and> wa_slot (f w) = wa_slot w"
  shows "workflow_step a (d\<lparr>workflow_activities := update_where P f (workflow_activities d)\<rparr>)"
proof (rule workflow_step_by [OF assms(1)], rule conjI)
  assume ok: "workflow_ok d"
  have "unclashed activity_clash (update_where P f (workflow_activities d))"
    using ok assms(3) by (intro unclashed_update) (auto simp: workflow_ok_def activity_clash_def split: if_splits)
  with ok show "workflow_ok (d\<lparr>workflow_activities := update_where P f (workflow_activities d)\<rparr>)" by (simp add: workflow_ok_def)
  have "each_kept activity_forward (workflow_activities d) (update_where P f (workflow_activities d))"
    using assms(2) [OF ok] assms(3) by (intro each_kept_update) (auto simp: activity_forward_def)
  then show "workflow_forward d (d\<lparr>workflow_activities := update_where P f (workflow_activities d)\<rparr>)"
    by (simp add: workflow_forward_def each_kept_refl)
qed

lemma submission_fields:
  assumes "submission_forward s v"
  shows "sb_id v = sb_id s" "sb_task v = sb_task s" "sb_attempt v = sb_attempt s"
    "sb_superseded_at v = None \<Longrightarrow> sb_superseded_at s = None"
proof -
  from assms have "sb_id (submission_core v) = sb_id (submission_core s)" "sb_task (submission_core v) = sb_task (submission_core s)"
    "sb_attempt (submission_core v) = sb_attempt (submission_core s)" by (simp_all add: submission_forward_def)
  then show "sb_id v = sb_id s" "sb_task v = sb_task s" "sb_attempt v = sb_attempt s" by (simp_all add: submission_core_def)
  show "sb_superseded_at v = None \<Longrightarrow> sb_superseded_at s = None" using assms by (auto simp: submission_forward_def)
qed

lemma step_submissions:
  assumes "workflow_step a d" and "\<And>s. s \<in> set (submissions d) \<Longrightarrow> P s \<Longrightarrow> submission_forward s (f s)"
  shows "workflow_step a (d\<lparr>submissions := update_where P f (submissions d)\<rparr>)"
proof (rule workflow_step_by [OF assms(1)], rule conjI)
  assume ok: "workflow_ok d"
  have row: "submission_forward s (if P s then f s else s)" if "s \<in> set (submissions d)" for s
    using assms(2) that by simp
  have "unclashed submission_clash (update_where P f (submissions d))"
    using ok submission_fields [OF row] by (intro unclashed_update) (auto simp: workflow_ok_def submission_clash_def)
  with ok show "workflow_ok (d\<lparr>submissions := update_where P f (submissions d)\<rparr>)" by (simp add: workflow_ok_def)
  have "each_kept submission_forward (submissions d) (update_where P f (submissions d))"
    using assms(2) by (intro each_kept_update) auto
  then show "workflow_forward d (d\<lparr>submissions := update_where P f (submissions d)\<rparr>)"
    by (simp add: workflow_forward_def each_kept_refl)
qed

lemma step_subjects:
  assumes "workflow_step a d"
    and "\<And>w. ws_task (f w) = ws_task w \<and> ws_current_submission (f w) = ws_current_submission w"
  shows "workflow_step a (d\<lparr>workflow_subjects := update_where P f (workflow_subjects d)\<rparr>)"
proof (rule workflow_step_by [OF assms(1)], rule conjI)
  assume ok: "workflow_ok d"
  have "unclashed subject_clash (update_where P f (workflow_subjects d))"
    using ok assms(2) by (intro unclashed_update) (auto simp: workflow_ok_def subject_clash_def split: if_splits)
  with ok show "workflow_ok (d\<lparr>workflow_subjects := update_where P f (workflow_subjects d)\<rparr>)" by (simp add: workflow_ok_def)
qed (simp add: workflow_forward_def each_kept_refl)

lemma step_set_phase [workflow_steps]: "workflow_step a d \<Longrightarrow> workflow_step a (set_phase t ph now d)"
  unfolding set_phase_def by (erule step_subjects) simp

lemma step_complete_subject [workflow_steps]: "workflow_step a d \<Longrightarrow> workflow_step a (complete_subject t now d)"
  unfolding complete_subject_def by (erule step_subjects) simp

lemma step_supersede_row [workflow_steps]: "workflow_step a d \<Longrightarrow> workflow_step a (supersede_row sub now d)"
  unfolding supersede_row_def by (erule step_submissions) (simp add: submission_forward_def submission_core_def)

lemma step_release_holds [workflow_steps]:
  assumes "workflow_step a d"
  shows "workflow_step a (release_holds P who now reason d)"
  unfolding release_holds_def
proof (rule workflow_step_by [OF assms], rule conjI)
  let ?P = "\<lambda>h. P (ih_activity h) \<and> ih_held h"
  let ?f = "\<lambda>h. h\<lparr>ih_held := False, ih_released_by := Some who, ih_released_at := Some now, ih_reason := Some reason\<rparr>"
  assume ok: "workflow_ok d"
  have "unclashed hold_clash (update_where ?P ?f (integration_holds d))"
    using ok by (intro unclashed_update) (auto simp: workflow_ok_def hold_clash_def split: if_splits)
  with ok show "workflow_ok (d\<lparr>integration_holds := update_where ?P ?f (integration_holds d)\<rparr>)" by (simp add: workflow_ok_def)
  have "each_kept hold_forward (integration_holds d) (update_where ?P ?f (integration_holds d))"
    by (intro each_kept_update) (auto simp: hold_forward_def)
  then show "workflow_forward d (d\<lparr>integration_holds := update_where ?P ?f (integration_holds d)\<rparr>)"
    by (simp add: workflow_forward_def each_kept_refl)
qed

lemma step_acquire_hold [workflow_res]:
  assumes "acquire_hold uuid m cx d = Inr d'" and "workflow_step a d"
  shows "workflow_step a d'"
proof -
  from assms(1) have "d' = d \<or> (\<exists>h. d' = d\<lparr>integration_holds := insert_row h (integration_holds d)\<rparr>
      \<and> (\<forall>k \<in> set (integration_holds d). \<not> hold_clash h k))"
    unfolding acquire_hold_def Let_def by (auto split: if_splits option.splits)
  then show ?thesis
  proof (elim disjE exE conjE)
    fix h assume h: "d' = d\<lparr>integration_holds := insert_row h (integration_holds d)\<rparr>"
      "\<forall>k \<in> set (integration_holds d). \<not> hold_clash h k"
    show ?thesis
      using assms(2) unfolding h(1)
      by (rule workflow_step_by) (simp add: workflow_ok_def workflow_forward_def each_kept_refl each_kept_insert unclashed_insert h(2))
  qed (use assms(2) in simp)
qed

text \<open>Appends to the four logs and to submissions and activities.\<close>

lemma step_insert_review [workflow_res]:
  "insert_review r d = Inr d' \<Longrightarrow> workflow_step a d \<Longrightarrow> workflow_step a d'"
  by (erule workflow_step_by) (auto simp: insert_review_def workflow_ok_def workflow_forward_def each_kept_refl unclashed_insert)

lemma step_insert_intent [workflow_res]:
  "insert_intent x d = Inr d' \<Longrightarrow> workflow_step a d \<Longrightarrow> workflow_step a d'"
  by (erule workflow_step_by) (auto simp: insert_intent_def workflow_ok_def workflow_forward_def each_kept_refl unclashed_insert)

lemma step_insert_result [workflow_res]:
  "insert_result x d = Inr d' \<Longrightarrow> workflow_step a d \<Longrightarrow> workflow_step a d'"
  by (erule workflow_step_by) (auto simp: insert_result_def workflow_ok_def workflow_forward_def each_kept_refl unclashed_insert)

lemma step_insert_reconciliation [workflow_res]:
  "insert_reconciliation x d = Inr d' \<Longrightarrow> workflow_step a d \<Longrightarrow> workflow_step a d'"
  by (erule workflow_step_by) (auto simp: insert_reconciliation_def workflow_ok_def workflow_forward_def each_kept_refl unclashed_insert)

lemma step_insert_submission [workflow_res]:
  "insert_submission s d = Inr d' \<Longrightarrow> workflow_step a d \<Longrightarrow> workflow_step a d'"
  by (erule workflow_step_by) (auto simp: insert_submission_def workflow_ok_def workflow_forward_def each_kept_refl each_kept_insert unclashed_insert)

lemma step_create_activity [workflow_res]:
  assumes "create_activity ids p subject title sub k slot now d = Inr d'" and "workflow_step a d"
  shows "workflow_step a d'"
proof -
  from assms(1) obtain ts rs w where "d' = d\<lparr>tasks := ts, task_revisions := rs, workflow_activities := insert_row w (workflow_activities d)\<rparr>"
    and "\<forall>v \<in> set (workflow_activities d). \<not> activity_clash w v"
    by (auto simp: create_activity_def insert_task_def Let_def split: prod.splits)
  with assms(2) show ?thesis
    by (auto simp: workflow_ok_def workflow_forward_def each_kept_refl each_kept_insert unclashed_insert intro: workflow_step_by)
qed

section \<open>Composed writes\<close>

lemma workflow_rows_composed [simp]:
  "workflow_rows (close_tasks K d) = workflow_rows d" "workflow_rows (cancel_attempts K now outcome d) = workflow_rows d"
  "workflow_rows (resolve_reports Q who note now d) = workflow_rows d"
  "workflow_rows (close_stale_rerun_reports p who now d) = workflow_rows d"
  "workflow_rows (restore_awaiting t d) = workflow_rows d"
  "workflow_rows (end_activity_attempt k i st outcome now f d) = workflow_rows d"
  "workflow_rows (end_as_submitted k i outcome now f d) = workflow_rows d"
  "workflow_rows (record_reconciled s rwho data now d) = workflow_rows d"
  "workflow_rows (write_authorization previous z d) = workflow_rows d"
  by (simp_all add: close_tasks_def cancel_attempts_def resolve_reports_def close_stale_rerun_reports_def restore_awaiting_def
      end_activity_attempt_def end_as_submitted_def record_reconciled_def write_authorization_def Let_def split: option.split)

lemmas workflow_composed [simp] = workflow_rows_composed [THEN workflow_step_rows]

lemma step_cancel_activities [workflow_steps]:
  "workflow_step a d \<Longrightarrow> workflow_step a (cancel_activities is who why now d)"
proof (induction "is" arbitrary: d)
  case (Cons i "is")
  show ?case
  proof (cases "fetch (\<lambda>w. wa_id w = i \<and> cancelable w) (workflow_activities d)")
    case None
    then show ?thesis using Cons by simp
  next
    case (Some w)
    define d1 where "d1 = d\<lparr>workflow_activities := update_where (\<lambda>x. wa_id x = i \<and> cancelable x)
         (\<lambda>x. x\<lparr>wa_state := Act_canceled, wa_canceled_at := Some now, wa_cancel := Some why\<rparr>) (workflow_activities d)\<rparr>"
    have "workflow_step a d1"
      unfolding d1_def by (rule step_activities [OF Cons.prems]) (auto simp: cancelable_def finished_def)
    then have "workflow_step a (if wa_kind w \<noteq> Integration then d1
        else d1\<lparr>events := insert_row (cancel_event w who why now) (events d1)\<rparr>)" by simp
    then show ?thesis
      unfolding cancel_activities.simps Some option.case Let_def d1_def [symmetric] by (rule Cons.IH)
  qed
qed simp

lemma step_cancel_submission [workflow_steps]:
  "workflow_step a d \<Longrightarrow> workflow_step a (cancel_submission_activities sub P who why now d)"
  unfolding cancel_submission_activities_def by (rule step_cancel_activities)

lemma step_supersede [workflow_res]:
  "supersede_submission r now d = Inr d' \<Longrightarrow> workflow_step a d \<Longrightarrow> workflow_step a d'"
  unfolding supersede_submission_def Let_def
  by (auto intro!: workflow_steps simp del: cancel_activities.simps)

lemma step_complete_general [workflow_res]:
  "complete_general_subject p subject now d = Inr d' \<Longrightarrow> workflow_step a d \<Longrightarrow> workflow_step a d'"
  unfolding complete_general_subject_def by (auto simp: step_set_phase)

lemma step_advance [workflow_res]:
  "advance_approved_subject p subject sub now d = Inr d' \<Longrightarrow> workflow_step a d \<Longrightarrow> workflow_step a d'"
  unfolding advance_approved_subject_def Let_def
  by (auto split: if_splits option.splits intro!: step_set_phase step_cancel_activities elim!: step_complete_general)

lemma step_amendment [workflow_res]:
  assumes "apply_amendment dig m p task sub acs d = Inr d'" and "workflow_step a d"
  shows "workflow_step a d'"
proof -
  from assms(1) obtain d1 digest where d1: "workflow_rows d1 = workflow_rows d"
    and d': "d' = d1\<lparr>submissions := update_where (\<lambda>s. sb_id s = sub) (\<lambda>s. s\<lparr>sb_task_digest := Some digest\<rparr>) (submissions d1)\<rparr>"
    unfolding apply_amendment_def by (auto split: if_splits dest!: frame_save)
  from assms(2) have "workflow_step a d1" by (simp add: workflow_step_rows [OF d1])
  then show ?thesis unfolding d' by (rule step_submissions) (simp add: submission_forward_def submission_core_def)
qed

lemma frame_reject [frames]: "reject_mechanical m p task activity summary d = Inr d' \<Longrightarrow> workflow_rows d' = workflow_rows d"
  by (auto simp: reject_mechanical_def Let_def split: if_splits dest!: frame_save)

section \<open>The owner's activity\<close>

lemma rows_activities: "workflow_rows d' = workflow_rows d \<Longrightarrow> workflow_activities d' = workflow_activities d"
  by (simp add: workflow_rows_def)

lemma context_row:
  assumes "activity_context_get dig d p i = Inr cx" and "workflow_ok d" and "w \<in> set (workflow_activities d)" "wa_id w = i"
  shows "w = cx_activity cx"
proof -
  from assms(1) have "cx_activity cx \<in> set (workflow_activities d)" "wa_id (cx_activity cx) = i"
    by (auto simp: activity_context_get_def dest: fetch_SomeD)
  with assms(2-4) show ?thesis
    using unclashed_pair [of activity_clash "workflow_activities d" w "cx_activity cx"] by (auto simp: workflow_ok_def activity_clash_def)
qed

text \<open>An update of the activity whose context was read, before any other activity changed.\<close>

lemma step_own_activity:
  assumes "workflow_step a d" and "workflow_activities d = workflow_activities a"
    and "activity_context_get dig a p i = Inr cx" and "\<not> finished (cx_activity cx)"
    and "workflow_ok a"
    and "\<And>w. wa_id (f w) = wa_id w \<and> wa_project (f w) = wa_project w \<and> wa_subject_task (f w) = wa_subject_task w
        \<and> wa_submission (f w) = wa_submission w \<and> wa_activity_task (f w) = wa_activity_task w \<and> wa_kind (f w) = wa_kind w
        \<and> wa_slot (f w) = wa_slot w"
  shows "workflow_step a (update_activity i f d)"
  unfolding update_activity_def
proof (rule step_activities [OF assms(1) _ assms(6)])
  fix w assume "w \<in> set (workflow_activities d)" "wa_id w = i"
  with context_row [OF assms(3,5)] assms(2,4) show "\<not> finished w" by auto
qed

lemma ensure_current_unfinished: "ensure_current cx = Inr u \<Longrightarrow> \<not> finished (cx_activity cx)"
  by (auto simp: ensure_current_def finished_def split: if_splits)

lemma workflow_stepI: "(workflow_ok d \<Longrightarrow> workflow_step d d') \<Longrightarrow> workflow_step d d'"
  by (auto simp: workflow_step_def)

section \<open>Handlers of the workflow\<close>

lemma frame_take_over [frames]: "take_over m p cx t = Inr d' \<Longrightarrow> workflow_rows d' = workflow_rows (m_db m)"
  by (auto simp: take_over_def Let_def split: option.splits if_splits)

lemma acquire_hold_activities: "acquire_hold u m cx d = Inr d' \<Longrightarrow> workflow_activities d' = workflow_activities d"
  by (auto simp: acquire_hold_def Let_def split: if_splits option.splits)

lemma claim_activity_kept:
  assumes cx: "activity_context_get dig (m_db m) p i = Inr cx" and chk: "claim_activity_checks m p s cx x = Inr u"
    and d1: "take_over m p cx t = Inr d1" and d2: "acquire_hold h m cx d1 = Inr d2" and d3: "insert_attempt a d2 = Inr d3"
  shows "workflow_step (m_db m) (update_activity i (\<lambda>w. w\<lparr>wa_state := Act_active\<rparr>) (update_task k f d3))"
proof (rule workflow_stepI)
  assume ok: "workflow_ok (m_db m)"
  from chk obtain v where "ensure_current cx = Inr v" by (auto simp: claim_activity_checks_def Let_def)
  note nf = ensure_current_unfinished [OF this]
  have "workflow_step (m_db m) d1" by (simp add: workflow_step_rows [OF frame_take_over [OF d1]])
  from step_acquire_hold [OF d2 this] have "workflow_step (m_db m) d2" .
  then have s3: "workflow_step (m_db m) (update_task k f d3)" by (simp add: workflow_step_rows [OF frame_insert_attempt [OF d3]])
  have "workflow_activities (update_task k f d3) = workflow_activities (m_db m)"
    using rows_activities [OF frame_take_over [OF d1]] acquire_hold_activities [OF d2] rows_activities [OF frame_insert_attempt [OF d3]]
    by (simp add: update_task_def)
  from step_own_activity [OF s3 this cx nf ok] show "workflow_step (m_db m)
      (update_activity i (\<lambda>w. w\<lparr>wa_state := Act_active\<rparr>) (update_task k f d3))" by simp
qed

lemma claim_activity_workflow: "commits workflow_step m (claim_activity dig ids p i x m)"
  unfolding claim_activity_def Let_def
  by (intro commits_intros claim_activity_replay_commits; hypsubst?; (assumption | rule claim_activity_kept; assumption))

lemma requeue_kept:
  "requeue_integration ids m p cx summary d = Inr d' \<Longrightarrow> workflow_step a d \<Longrightarrow> workflow_step a d'"
  unfolding requeue_integration_def Let_def
  by (auto elim!: step_create_activity intro!: step_cancel_activities step_release_holds simp del: cancel_activities.simps)

text \<open>The update of an owned activity after its attempt ended.\<close>

lemma step_owned_activity:
  assumes own: "owned_activity dig m p i gen kind = Inr cx"
    and d: "workflow_step (m_db m) d" "workflow_activities d = workflow_activities (m_db m)"
    and f: "\<And>w. wa_id (f w) = wa_id w \<and> wa_project (f w) = wa_project w \<and> wa_subject_task (f w) = wa_subject_task w
        \<and> wa_submission (f w) = wa_submission w \<and> wa_activity_task (f w) = wa_activity_task w \<and> wa_kind (f w) = wa_kind w
        \<and> wa_slot (f w) = wa_slot w"
  shows "workflow_step (m_db m) (update_activity i f d)"
proof (rule workflow_stepI)
  assume ok: "workflow_ok (m_db m)"
  note o = owned_activity_Inr [OF own]
  from step_own_activity [OF d o(1) ensure_current_unfinished [OF o(2)] ok f]
  show "workflow_step (m_db m) (update_activity i f d)" .
qed

lemma end_activity_rows:
  "workflow_activities (end_activity_attempt k at st outcome now f d) = workflow_activities d"
  by (rule rows_activities) simp

lemma release_activity_kept:
  assumes own: "owned_activity dig m p i gen kind = Inr cx"
    and d2: "(if b then requeue_integration ids m p cx summary
         (update_activity i (\<lambda>w. w\<lparr>wa_state := st\<rparr>) (end_activity_attempt k at s outcome now f (m_db m)))
       else Inr (update_activity i (\<lambda>w. w\<lparr>wa_state := st\<rparr>) (end_activity_attempt k at s outcome now f (m_db m)))) = Inr d2"
  shows "workflow_step (m_db m) d2"
proof -
  have "workflow_step (m_db m) (update_activity i (\<lambda>w. w\<lparr>wa_state := st\<rparr>) (end_activity_attempt k at s outcome now f (m_db m)))"
    by (rule step_owned_activity [OF own]) (simp_all add: end_activity_rows)
  with d2 show ?thesis by (auto split: if_splits elim: requeue_kept)
qed

lemma release_activity_workflow: "commits workflow_step m (release_activity dig ids p i x m)"
  unfolding release_activity_def Let_def
  by (intro commits_intros; hypsubst?; (assumption | rule release_activity_kept; assumption))

lemma frame_findings [frames]:
  "insert_findings ids n i now fs d = Inr d' \<Longrightarrow> workflow_rows d' = workflow_rows d"
  by (induction fs arbitrary: n d) auto

lemma step_reject [workflow_res]:
  "reject_mechanical m p task activity summary d = Inr d' \<Longrightarrow> workflow_step a d \<Longrightarrow> workflow_step a d'"
  by (drule frame_reject) (simp add: workflow_step_rows [of d' d])

lemma step_request_changes [workflow_res]:
  "request_changes m p cx summary d = Inr d' \<Longrightarrow> workflow_step a d \<Longrightarrow> workflow_step a d'"
  unfolding request_changes_def Let_def and_then_Inr_iff
  by (elim exE conjE, erule step_reject) (auto intro!: step_cancel_submission step_set_phase step_supersede_row)

lemma step_settle_approval [workflow_res]:
  "settle_approval dig m p cx amendment d = Inr d' \<Longrightarrow> workflow_step a d \<Longrightarrow> workflow_step a d'"
  unfolding settle_approval_def Let_def
  by (auto split: if_splits option.splits elim!: step_advance step_amendment)

lemma insert_review_activities: "insert_review r d = Inr d' \<Longrightarrow> workflow_activities d' = workflow_activities d"
  by (auto simp: insert_review_def)

lemma review_kept:
  assumes chk: "review_checks dig m p i x = Inr cx"
    and d1: "insert_review r (m_db m) = Inr d1" and d2: "insert_findings ids n i now fs d1 = Inr d2"
    and d4: "(if v then request_changes m p cx summary
         (update_activity i (\<lambda>w. w\<lparr>wa_state := Act_completed, wa_completed_at := e\<rparr>) (end_activity_attempt k at s outcome now f d2))
       else settle_approval dig m p cx am
         (update_activity i (\<lambda>w. w\<lparr>wa_state := Act_completed, wa_completed_at := e\<rparr>) (end_activity_attempt k at s outcome now f d2))) = Inr d4"
  shows "workflow_step (m_db m) d4"
proof -
  from chk obtain gen kind where own: "owned_activity dig m p i gen kind = Inr cx"
    by (auto simp: review_checks_def Let_def split: if_splits)
  have "workflow_step (m_db m) d1" by (rule step_insert_review [OF d1]) simp
  then have "workflow_step (m_db m) (end_activity_attempt k at s outcome now f d2)"
    by (simp add: workflow_step_rows [OF frame_findings [OF d2]])
  then have "workflow_step (m_db m) (update_activity i (\<lambda>w. w\<lparr>wa_state := Act_completed, wa_completed_at := e\<rparr>)
      (end_activity_attempt k at s outcome now f d2))"
    by (rule step_owned_activity [OF own])
       (simp_all add: end_activity_rows rows_activities [OF frame_findings [OF d2]] insert_review_activities [OF d1])
  with d4 show ?thesis by (auto split: if_splits elim: step_request_changes step_settle_approval)
qed

lemma review_workflow: "commits workflow_step m (review dig ids p i x m)"
  unfolding review_def Let_def
  by (intro commits_intros; hypsubst?; (assumption | rule review_kept; assumption))

lemma authorize_workflow: "commits workflow_step m (authorize_integration dig p i x m)"
  unfolding authorize_integration_def Let_def
  by (intro commits_intros; (assumption | simp))

lemma intent_workflow: "commits workflow_step m (publication_intent_handler dig p i x m)"
  unfolding publication_intent_handler_def Let_def
  by (intro commits_intros; hypsubst?; (assumption | erule step_insert_intent; simp))

lemma result_kept:
  assumes chk: "result_checks dig m p i x = Inr (cx, a)" and ins: "insert_result r (m_db m) = Inr d1"
  shows "workflow_step (m_db m) (if b then d1
            else end_activity_attempt k at st s now f (update_activity i (\<lambda>w. w\<lparr>wa_state := y\<rparr>) d1))"
proof -
  have s: "workflow_step (m_db m) d1" by (rule step_insert_result [OF ins]) simp
  moreover have "workflow_step (m_db m) (update_activity i (\<lambda>w. w\<lparr>wa_state := y\<rparr>) d1)"
    by (rule step_owned_activity [OF result_checks_Inr(1) [OF chk] s]) (use ins in \<open>auto simp: insert_result_def\<close>)
  ultimately show ?thesis by simp
qed

lemma result_workflow: "commits workflow_step m (integration_result_handler dig p i x m)"
  unfolding integration_result_handler_def Let_def
  by (intro commits_intros; hypsubst?; (assumption | rule result_kept; assumption))

lemma step_retire [workflow_res]:
  "retire_integration m cx reason detail d = Inr d' \<Longrightarrow> workflow_step a d \<Longrightarrow> workflow_step a d'"
  unfolding retire_integration_def Let_def
  by (auto intro!: step_cancel_activities step_release_holds simp del: cancel_activities.simps)

lemma step_insert_hold:
  assumes "workflow_step a d" and "\<forall>k \<in> set (integration_holds d). \<not> hold_clash h k"
  shows "workflow_step a (d\<lparr>integration_holds := insert_row h (integration_holds d)\<rparr>)"
  using assms(1)
  by (rule workflow_step_by) (simp add: workflow_ok_def workflow_forward_def each_kept_refl each_kept_insert unclashed_insert assms(2))

lemma step_replace [workflow_res]:
  "replace_integration ids m p cx reason detail d = Inr d' \<Longrightarrow> workflow_step a d \<Longrightarrow> workflow_step a d'"
  unfolding replace_integration_def Let_def
  by (auto dest!: step_retire elim!: step_create_activity intro!: step_insert_hold)

lemma reconcile_workflow: "commits workflow_step m (reconcile_publication dig ids p i x m)"
  unfolding reconcile_publication_def Let_def
  by (intro commits_intros; hypsubst?; (assumption | erule step_replace; simp; erule step_insert_reconciliation; simp))

lemma agent_reconcile_workflow: "commits workflow_step m (agent_reconcile_publication show_int dig ids p i x m)"
  unfolding agent_reconcile_publication_def Let_def
  by (intro commits_intros; hypsubst?; (assumption | erule step_replace; simp; erule step_insert_reconciliation; simp))

lemma finalize_kept:
  assumes chk: "finalize_checks dig m p i x = Inr cx"
  shows "workflow_step (m_db m) (ready_dependents t now (release_holds P who now reason (set_phase t ph now
    (update_activity i (\<lambda>w. w\<lparr>wa_state := Act_completed, wa_completed_at := e\<rparr>) ((update_attempt a g (m_db m))\<lparr>tasks := ts\<rparr>)))))"
proof -
  from chk obtain gen where own: "owned_activity dig m p i gen Integration = Inr cx"
    by (auto simp: finalize_checks_def Let_def split: if_splits dest: owned_integration_Inr)
  have "workflow_step (m_db m) (update_activity i (\<lambda>w. w\<lparr>wa_state := Act_completed, wa_completed_at := e\<rparr>)
      ((update_attempt a g (m_db m))\<lparr>tasks := ts\<rparr>))"
    by (rule step_owned_activity [OF own]) (simp_all add: update_attempt_def)
  then show ?thesis by (simp add: step_release_holds step_set_phase)
qed

lemma finalize_workflow: "commits workflow_step m (finalize dig p i x m)"
  unfolding finalize_def Let_def
  by (intro commits_intros; hypsubst?; (assumption | rule finalize_kept; assumption))

lemma reopen_workflow: "commits workflow_step m (reopen dig p t x m)"
  unfolding reopen_def Let_def
  by (intro commits_intros; hypsubst?;
      (assumption | erule step_supersede, rule workflow_step_refl
        | (auto simp: defer_agent_revise_def defer_revise_def Let_def split: if_splits option.splits)[1]))

lemma externally_kept:
  assumes "save_task_revision m p i (ready_dependents i now (complete_subject i now (update_task i f (m_db m)))) = Inr (v, d3)"
  shows "workflow_step (m_db m) d3"
  using frame_save [OF assms] step_complete_subject [of "m_db m" "update_task i f (m_db m)" i now]
  by (simp add: workflow_step_rows [of d3])

lemma complete_externally_workflow: "commits workflow_step m (complete_task_externally p i xc m)"
  unfolding complete_task_externally_def Let_def
  by (intro commits_intros; hypsubst?; (assumption | rule externally_kept; assumption))

text \<open>A submission opens the workflow of its subject anew.\<close>

lemma step_put_subject [workflow_res]:
  assumes "put_subject w d = Inr d'" and "workflow_step a d"
  shows "workflow_step a d'"
proof -
  let ?f = "\<lambda>x. x\<lparr>ws_current_submission := ws_current_submission w, ws_phase := ws_phase w, ws_updated_at := ws_updated_at w\<rparr>"
  from assms(1) have free: "\<And>x. x \<in> set (workflow_subjects d) \<Longrightarrow> ws_current_submission x = ws_current_submission w \<Longrightarrow> ws_task x = ws_task w"
    by (auto simp: put_subject_def Let_def exists_where_def list_ex_iff split: if_splits)
  from assms(1) obtain t where d': "d' = d\<lparr>workflow_subjects := t\<rparr>" and row: "t = update_where (\<lambda>x. ws_task x = ws_task w) ?f (workflow_subjects d)
      \<or> t = insert_row w (workflow_subjects d) \<and> (\<forall>x \<in> set (workflow_subjects d). ws_task x \<noteq> ws_task w)"
    by (auto simp: put_subject_def Let_def exists_where_def list_ex_iff split: if_splits)
  have "unclashed subject_clash (t)" if ok: "unclashed subject_clash (workflow_subjects d)"
    using row
  proof (elim disjE conjE)
    assume *: "t = update_where (\<lambda>x. ws_task x = ws_task w) ?f (workflow_subjects d)"
    show ?thesis unfolding *
      using ok by (rule unclashed_update) (auto simp: subject_clash_def dest: free split: if_splits)
  next
    assume *: "t = insert_row w (workflow_subjects d)" "\<forall>x \<in> set (workflow_subjects d). ws_task x \<noteq> ws_task w"
    show ?thesis unfolding *(1)
      using ok by (rule unclashed_insert) (use *(2) free in \<open>metis subject_clash_def\<close>)
  qed
  then have "workflow_ok d \<Longrightarrow> workflow_ok (d\<lparr>workflow_subjects := t\<rparr>)" by (simp add: workflow_ok_def)
  then have "workflow_ok d \<Longrightarrow> workflow_ok d' \<and> workflow_forward d d'"
    by (simp add: d' workflow_forward_def each_kept_refl)
  with assms(2) show ?thesis by (rule workflow_step_by)
qed

lemma step_create_activities [workflow_res]:
  "fold_res (\<lambda>k. create_activity (activity_ids ids k) p t title sub k 1 now) ks d = Inr d' \<Longrightarrow> workflow_step b d \<Longrightarrow> workflow_step b d'"
  by (erule fold_res_invariant) (auto elim: step_create_activity)

lemma step_open_workflow [workflow_res]:
  "open_workflow ids p su sub kind amended now d = Inr d' \<Longrightarrow> workflow_step b d \<Longrightarrow> workflow_step b d'"
  by (auto simp: open_workflow_def Let_def split: if_splits elim!: step_create_activity step_create_activities step_put_subject)

lemma frame_lessons [frames]: "insert_lessons ids n a now p ks d = Inr (is, d') \<Longrightarrow> workflow_rows d' = workflow_rows d"
proof (induction ks arbitrary: n d "is" d')
  case (Cons k ks)
  then obtain row d1 js where
    ins: "insert_knowledge_record (ids n) (ac_id a) now p k d = Inr (row, d1)"
    and rest: "insert_lessons ids (Suc n) a now p ks (d1\<lparr>events := insert_row
         \<lparr>ev_project = Some p, ev_actor = ac_id a, ev_kind = ''knowledge.created_from_submission'',
          ev_record = kr_id row, ev_data = JObj [], ev_created_at = now, ev_class = event_class a\<rparr> (events d1)\<rparr>) = Inr (js, d')"
    by fastforce
  from Cons.IH [OF rest] frame_knowledge [OF ins] show ?case by simp
qed simp

lemma frame_links [frames]:
  "link_lessons p sub ks d = Inr d' \<Longrightarrow> workflow_rows d' = workflow_rows d"
  "link_submission_artifacts p sub now is d = Inr d' \<Longrightarrow> workflow_rows d' = workflow_rows d"
  by (auto simp: link_lessons_def link_submission_artifacts_def)

lemma submit_kept:
  assumes d1: "d1 = (case previous of None \<Rightarrow> m_db m | Some w \<Rightarrow> supersede_row (ws_current_submission w) (m_now m) (m_db m))"
    and ins: "insert_submission row (record_contributor t a s now d1) = Inr d2"
    and les: "insert_submission_lessons lower ids n ac now p t sub ls d2 = Inr (ks, d3)"
    and l1: "link_lessons p sub ks d3 = Inr d4" and l2: "link_submission_artifacts p sub now is d4 = Inr d5"
    and opn: "open_workflow ids p su sub kind am now (end_as_submitted k attempt outcome now f d5) = Inr d7"
  shows "workflow_step (m_db m) d7"
proof -
  have "workflow_step (m_db m) d1" unfolding d1 by (simp add: step_supersede_row split: option.split)
  then have "workflow_step (m_db m) (record_contributor t a s now d1)" by simp
  from step_insert_submission [OF ins this] have "workflow_step (m_db m) d2" .
  moreover have "workflow_rows d3 = workflow_rows d2"
    using les by (auto simp: insert_submission_lessons_def Let_def split: if_splits dest: frame_lessons)
  ultimately have "workflow_step (m_db m) d5"
    using frame_links(1) [OF l1] frame_links(2) [OF l2] workflow_step_rows [of d5 d2 "m_db m"] by simp
  then show ?thesis using step_open_workflow [OF opn] by simp
qed

lemma submit_workflow: "commits workflow_step m (submit lower is_uuid dig ids p attempt x m)"
  unfolding submit_def Let_def
  by (intro commits_intros; hypsubst?; (assumption | rule submit_kept [OF refl]; assumption))

section \<open>Policies and the reviews they require\<close>

lemma step_cancel_unrequired [workflow_steps]:
  "workflow_step a d \<Longrightarrow> workflow_step a (snd (cancel_unrequired_reviews sub required now d))"
  unfolding cancel_unrequired_reviews_def Let_def snd_conv
  by (rule step_activities) (auto simp: unrequired_review_def finished_def)

lemma step_add_missing [workflow_res]:
  "add_missing_reviews ids s now ks d = Inr (added, d') \<Longrightarrow> workflow_step a d \<Longrightarrow> workflow_step a d'"
proof (induction ks arbitrary: d added)
  case (Cons k ks)
  from Cons.prems show ?case
    by (auto simp: Let_def add_review_activity_def split: if_splits elim: Cons.IH dest: step_create_activity [OF _ Cons.prems(2)])
qed simp

lemma step_settle_reviews [workflow_res]:
  "settle_reviews ids r s required d = Inr (added, advanced, d') \<Longrightarrow> workflow_step a d \<Longrightarrow> workflow_step a d'"
  by (auto simp: settle_reviews_def advance_if_quiet_def split: if_splits elim: step_advance step_add_missing)

lemma step_reconcile_one:
  assumes "workflow_step a d"
  shows "workflow_step a (reconcile_one ids r s d)"
proof (cases "reconcile_subject ids r s d")
  case (Inr d1)
  define required where "required = required_review_kinds (review_mode_floor d (rj_task s) (rj_mode s))"
  obtain canceled c1 where c: "cancel_unrequired_reviews (rj_submission s) required (rk_now r) d = (canceled, c1)" by fastforce
  have "workflow_step a c1" using step_cancel_unrequired [OF assms, of "rj_submission s" required "rk_now r"] by (simp add: c)
  with Inr have "workflow_step a d1"
    by (auto simp: reconcile_subject_def Let_def required_def [symmetric] c dest: step_settle_reviews split: if_splits)
  with Inr show ?thesis by (simp add: reconcile_one_def)
qed (simp add: reconcile_one_def assms)

lemma step_reconcile_required [workflow_steps]:
  "workflow_step a d \<Longrightarrow> workflow_step a (reconcile_required_reviews ids r d)"
proof -
  have "workflow_step a (fold (reconcile_one ids r) ss d)" if "workflow_step a d" for ss
    using that by (induction ss arbitrary: d) (simp_all add: step_reconcile_one)
  then show "workflow_step a d \<Longrightarrow> workflow_step a (reconcile_required_reviews ids r d)"
    by (simp add: reconcile_required_reviews_def)
qed

lemma step_startup: "workflow_step d (startup_reconcile ids system d)"
  by (simp add: startup_reconcile_def step_reconcile_required)

lemma update_policy_workflow: "commits workflow_step m (update_policy ids i x m)"
  unfolding update_policy_def Let_def
  by (intro commits_intros; (assumption | intro step_reconcile_required; simp))

section \<open>Every operation is a step\<close>

lemma quiet_workflow: "commits same_workflow m r \<Longrightarrow> commits workflow_step m r"
  by (erule commits_mono) (rule same_workflow_step)

lemmas quiet_operations = project_frames task_frames lease_frames job_frames record_frames

lemmas workflow_operations = complete_externally_workflow update_policy_workflow submit_workflow reopen_workflow
  claim_activity_workflow release_activity_workflow review_workflow authorize_workflow intent_workflow
  result_workflow reconcile_workflow agent_reconcile_workflow finalize_workflow

lemma op_workflow: "commits workflow_step m (op_body en sha op m)"
  apply (cases op)
  apply (simp_all only: op_body.simps)
  apply (rule workflow_operations | (rule quiet_workflow, rule quiet_operations))+
  done

lemma commit_workflow:
  assumes "commits workflow_step m r" and "r = Inr (Committed w d)"
  shows "workflow_step (m_db m) d"
proof -
  from assms obtain d0 ed p k i where s: "workflow_step (m_db m) d0"
    and fin: "finish_with_event_data m d0 w ed p k i = Inr (Committed w d)"
    unfolding commits_def by blast
  have "workflow_rows d = workflow_rows d0" using finish_Inr(1) [OF fin] by (simp add: workflow_rows_def)
  with s show ?thesis by (simp add: workflow_step_rows [of d d0])
qed

lemma sample_workflow [simp]: "workflow_rows (sample_tables ts rt d) = workflow_rows d"
  by (simp add: sample_tables_def record_rollback_def workflow_rows_def)

lemma run_workflow:
  assumes run: "run_mutation (mutation_begin checks rq ts rt_after srv) body = (r, srv')"
    and body: "\<And>m. commits workflow_step m (body m)"
    and db: "\<And>key cs d m. checks key cs d = Inr m \<Longrightarrow> m_db m = d"
  shows "workflow_step (srv_db srv) (srv_db srv')"
proof -
  have "workflow_step (srv_db srv) (srv_db srv')"
    if "body m = Inr (Committed w (srv_db srv'))" "checks key cs (sample_tables ts (srv_rt srv) (srv_db srv)) = Inr m"
    for m w key cs
    using same_workflow_step [of "srv_db srv" "m_db m"] commit_workflow [OF body that(1)]
    by (auto simp: db [OF that(2)] same_workflow_def intro: workflow_step_trans)
  with run_mutation_db [OF run] show ?thesis by (auto simp: workflow_step_rows [OF sample_workflow])
qed

lemma serve_workflow:
  assumes "serve en c op srv = (r, srv')"
  shows "workflow_step (srv_db srv) (srv_db srv')"
proof (cases "op_valid en op")
  case (Inl e)
  with assms show ?thesis
    by (auto simp: serve_def handle_def handle_reporter_def split: option.splits prod.splits)
next
  case (Inr u)
  from assms Inr consider (bearer)
      "run_mutation (mutation_begin (begin_checks (cl_fp c) (cl_sha c) (cl_auth c) (request_of c (op_path op)))
         (request_of c (op_path op)) (cl_time c) (cl_rt_after c) srv) (op_body en (cl_sha c) op) = (r, srv')"
    | (reporter) i ph where "run_mutation (mutation_begin (begin_reporter_checks (cl_fp c) i ph
         (request_of c (op_path op))) (request_of c (op_path op)) (cl_time c) (cl_rt_after c) srv)
         (op_body en (cl_sha c) op) = (r, srv')"
    by (auto simp: serve_def handle_def handle_reporter_def split: option.splits prod.splits)
  then show ?thesis
    by cases (erule run_workflow; use op_workflow in \<open>auto dest: begin_checks_fields(1) reporter_checks_db\<close>)+
qed

lemma clock_only_workflow: "clock_only d d' \<Longrightarrow> workflow_rows d' = workflow_rows d"
  by (auto simp: clock_only_def)

lemma reconcile_request_workflow:
  assumes "reconcile_clock_request c wall tick incident reason srv = (r, srv')"
  shows "workflow_step (srv_db srv) (srv_db srv')"
proof (cases "validate_reconcile incident")
  case (Inl e)
  with assms show ?thesis by (simp add: reconcile_clock_request_def)
next
  case (Inr u)
  let ?rq = "request_of c reconcile_clock_path"
  obtain b s where bs: "mutation_begin (begin_checks (cl_fp c) (cl_sha c) (cl_auth c) ?rq) ?rq (cl_time c) (cl_rt_after c) srv = (b, s)"
    by fastforce
  have fw: "workflow_rows (srv_db s) = workflow_rows (srv_db srv)" "b = Inr m \<Longrightarrow> workflow_rows (m_db m) = workflow_rows (srv_db srv)" for m
    using bs by (auto simp: mutation_begin_def sample_clock_def Let_def split: sum.splits prod.splits if_splits dest!: begin_checks_fields(1))
  show ?thesis
  proof (cases b)
    case Inl': (Inl e)
    have "workflow_step (srv_db srv) (srv_db s)" by (simp add: workflow_step_rows [OF fw(1)])
    with assms Inr bs Inl' show ?thesis by (auto simp: reconcile_clock_request_def Let_def)
  next
    case Inr': (Inr m)
    obtain out rt where o: "reconcile_clock_body wall tick incident reason m (srv_rt s) = (out, rt)" by fastforce
    from assms Inr bs Inr' o have run: "run_mutation (Inr m, s\<lparr>srv_rt := rt\<rparr>) (\<lambda>_. out) = (r, srv')"
      by (simp add: reconcile_clock_request_def Let_def)
    have c: "commits workflow_step m out"
      using clock_frames [of m wall tick incident reason "srv_rt s", THEN quiet_workflow] o by simp
    have "workflow_step (srv_db srv) d" if "out = Inr (Committed w d)" for w d
      using same_workflow_step [of "srv_db srv" "m_db m"] commit_workflow [OF c that] fw(2) [OF Inr']
      by (auto simp: same_workflow_def intro: workflow_step_trans)
    moreover have "workflow_step (srv_db srv) (srv_db s)" by (simp add: workflow_step_rows [OF fw(1)])
    ultimately show ?thesis using run by (auto simp: run_mutation_def split: sum.splits outcome.splits)
  qed
qed

lemma recover_workflow:
  assumes "recover_clock ts rt_after wall tick reason srv = (r, srv')"
  shows "workflow_rows (srv_db srv') = workflow_rows (srv_db srv)"
  using assms
  by (auto simp: recover_clock_def sample_clock_def Let_def split: prod.splits if_splits option.splits sum.splits
      dest!: reconcile_clock_Inr(1) clock_only_workflow)

lemma elsewhere_workflow: "elsewhere d d' \<Longrightarrow> workflow_rows d' = workflow_rows d"
  using elsewhereD [of d d'] by (simp add: workflow_rows_def)

lemma workflow_stepped:
  assumes "step en srv srv'"
  shows "workflow_step (srv_db srv) (srv_db srv')"
  using assms
proof cases
  case (sample ts rt_after cs)
  then show ?thesis
    by (auto simp: authoritative_now_def sample_clock_def Let_def workflow_step_rows [OF sample_workflow] split: prod.splits)
qed (auto intro: serve_workflow reconcile_request_workflow step_startup
       simp: workflow_step_rows [OF recover_workflow] workflow_step_rows [OF elsewhere_workflow])

lemma workflow_steps_run: "(step en)\<^sup>*\<^sup>* srv srv' \<Longrightarrow> workflow_step (srv_db srv) (srv_db srv')"
  by (induction rule: rtranclp_induct) (auto intro: workflow_step_trans workflow_stepped)

end
