(* ===== verification/Workflow_Properties.thy ===== *)
theory Workflow_Properties
  imports Workflow_Invariant Workflow_Scenario
begin

text \<open>
  What the completion workflow keeps over every run of the service: its unique indexes, the exclusions they
  give (one hold of a target, one current submission of a task, one activity of a linked task), and its
  record of what was reviewed, intended and published.
\<close>

section \<open>Exclusion\<close>

text \<open>\<open>workflow_ok\<close> says that the unique indexes of the eight tables of the workflow rows hold; it starts on a
  fresh database and no operation breaks it.\<close>

lemma workflow_ok_reachable:
  assumes "reachable en srv"
  shows "workflow_ok (srv_db srv)"
  using assms
proof induction
  case (start srv)
  then show ?case by (simp add: fresh_def workflow_ok_def)
next
  case (next_state srv srv')
  from workflow_stepped [OF next_state.hyps(2)] next_state.IH show ?case by (simp add: workflow_step_def)
qed

lemma unclashed_eq: "unclashed same t \<Longrightarrow> a \<in> set t \<Longrightarrow> b \<in> set t \<Longrightarrow> same a b \<Longrightarrow> same b a \<Longrightarrow> a = b"
  using unclashed_pair by metis

text \<open>C11. In every later state two held holds of one branch of one canonical repository are the same hold, so at most
  one activity integrates into a target; a task has at most one submission that is not superseded and one
  subject row; a linked task carries one activity; and an activity has at most one review, one intent and
  one result.\<close>

theorem one_integration_per_target:
  assumes "workflow_ok (srv_db srv)" and "(step en)\<^sup>*\<^sup>* srv srv'"
  shows "(\<forall>h \<in> set (integration_holds (srv_db srv')). \<forall>k \<in> set (integration_holds (srv_db srv')).
        ih_held h \<and> ih_held k \<and> ih_repository h = ih_repository k \<and> ih_target_branch h = ih_target_branch k \<longrightarrow> h = k)
    \<and> (\<forall>s \<in> set (submissions (srv_db srv')). \<forall>v \<in> set (submissions (srv_db srv')).
        sb_task s = sb_task v \<and> sb_superseded_at s = None \<and> sb_superseded_at v = None \<longrightarrow> s = v)
    \<and> (\<forall>s \<in> set (workflow_subjects (srv_db srv')). \<forall>v \<in> set (workflow_subjects (srv_db srv')). ws_task s = ws_task v \<longrightarrow> s = v)
    \<and> (\<forall>w \<in> set (workflow_activities (srv_db srv')). \<forall>v \<in> set (workflow_activities (srv_db srv')).
        wa_activity_task w = wa_activity_task v \<longrightarrow> w = v)
    \<and> (\<forall>r \<in> set (review_decisions (srv_db srv')). \<forall>q \<in> set (review_decisions (srv_db srv')). rw_activity r = rw_activity q \<longrightarrow> r = q)
    \<and> (\<forall>i \<in> set (publication_intents (srv_db srv')). \<forall>j \<in> set (publication_intents (srv_db srv')). pi_activity i = pi_activity j \<longrightarrow> i = j)
    \<and> (\<forall>x \<in> set (integration_results (srv_db srv')). \<forall>y \<in> set (integration_results (srv_db srv')).
        ir_activity x = ir_activity y \<longrightarrow> x = y)"
proof -
  have ok: "workflow_ok (srv_db srv')" using workflow_steps_run [OF assms(2)] assms(1) by (simp add: workflow_step_def)
  show ?thesis
    using ok unfolding workflow_ok_def
    by (intro conjI ballI impI; elim conjE)
       (erule unclashed_eq; simp add: hold_clash_def submission_clash_def subject_clash_def activity_clash_def)+
qed

lemma ex_published_ok: "workflow_ok ex_published"
  by (simp add: workflow_ok_def unclashed_def ex_published_def ex_intended_def ex_integrating_def ex_work_def ex_db_def)

theorem one_integration_per_target_witness:
  "filter ih_held (integration_holds ex_published) \<noteq> []
    \<and> card {h \<in> set (integration_holds (srv_db (ex_serving ex_published\<lparr>srv_rt := open_runtime ex_published 5\<rparr>))).
        ih_held h \<and> ih_repository h = ''key'' \<and> ih_target_branch h = ''main''} \<le> 1"
  (is "_ \<and> card ?H \<le> 1")
proof
  show "filter ih_held (integration_holds ex_published) \<noteq> []" by (simp add: ex_published_def ex_intended_def ex_integrating_def)
  have "workflow_ok (srv_db (ex_serving ex_published))" by (simp add: ex_published_ok)
  note t = one_integration_per_target [OF this ex_restart [of ex_env ex_published], THEN conjunct1, rule_format]
  have "\<forall>h \<in> ?H. \<forall>k \<in> ?H. h = k" by (intro ballI t) (simp_all del: ex_serving_db)
  then show "card ?H \<le> 1" by (simp add: card_le_Suc0_iff_eq del: ex_serving_db)
qed

section \<open>Record\<close>

text \<open>
  Two operations outside this model write to recorded rows: the integrator's authority
  (\<^verbatim>\<open>integrator_authority.rs\<close>) marks an approval of a contributor as invalidated and takes the released
  hold of an activity again. The record below leaves both free: it is what no operation rewrites.
\<close>

text \<open>C18. Along every run of the modelled operations the record of the workflow only grows: each review
  decision keeps everything but its invalidation, publication intents, integration results and
  reconciliations are kept as they are, each submission keeps its candidate, evidence, author and target
  (only its supersession, once, and the digest of the judged fields are ever set), a completed or canceled
  activity keeps its state, and a hold stays with its activity, repository and branch.\<close>

theorem workflow_record_immutable:
  assumes "workflow_ok (srv_db srv)" and "(step en)\<^sup>*\<^sup>* srv srv'"
  shows "prefix (map (\<lambda>r. r\<lparr>rw_invalidated_at := None\<rparr>) (review_decisions (srv_db srv)))
        (map (\<lambda>r. r\<lparr>rw_invalidated_at := None\<rparr>) (review_decisions (srv_db srv')))
    \<and> prefix (publication_intents (srv_db srv)) (publication_intents (srv_db srv'))
    \<and> prefix (integration_results (srv_db srv)) (integration_results (srv_db srv'))
    \<and> prefix (publication_reconciliations (srv_db srv)) (publication_reconciliations (srv_db srv'))
    \<and> (\<forall>s \<in> set (submissions (srv_db srv)). \<exists>v \<in> set (submissions (srv_db srv')).
        v = s\<lparr>sb_superseded_at := sb_superseded_at v, sb_task_digest := sb_task_digest v\<rparr>
        \<and> (sb_superseded_at s \<noteq> None \<longrightarrow> sb_superseded_at v = sb_superseded_at s))
    \<and> (\<forall>w \<in> set (workflow_activities (srv_db srv)). \<exists>v \<in> set (workflow_activities (srv_db srv')).
        wa_id v = wa_id w \<and> wa_submission v = wa_submission w \<and> wa_kind v = wa_kind w
        \<and> (wa_state w = Act_completed \<or> wa_state w = Act_canceled \<longrightarrow> wa_state v = wa_state w))
    \<and> (\<forall>h \<in> set (integration_holds (srv_db srv)). \<exists>k \<in> set (integration_holds (srv_db srv')).
        ih_id k = ih_id h \<and> ih_activity k = ih_activity h \<and> ih_repository k = ih_repository h
        \<and> ih_target_branch k = ih_target_branch h)"
proof -
  have fw: "workflow_forward (srv_db srv) (srv_db srv')"
    using workflow_steps_run [OF assms(2)] assms(1) by (simp add: workflow_step_def)
  have row: "v = s\<lparr>sb_superseded_at := sb_superseded_at v, sb_task_digest := sb_task_digest v\<rparr>"
    if "submission_core v = submission_core s" for s v :: submission
    using that by (cases s; cases v) (simp add: submission_core_def)
  have "\<exists>v \<in> set (submissions (srv_db srv')). v = s\<lparr>sb_superseded_at := sb_superseded_at v, sb_task_digest := sb_task_digest v\<rparr>
      \<and> (sb_superseded_at s \<noteq> None \<longrightarrow> sb_superseded_at v = sb_superseded_at s)" if "s \<in> set (submissions (srv_db srv))" for s
    using fw that row unfolding workflow_forward_def each_kept_def submission_forward_def by meson
  moreover have "prefix (map f (review_decisions (srv_db srv))) (map f (review_decisions (srv_db srv')))" for f
    using fw by (simp add: workflow_forward_def map_mono_prefix)
  ultimately show ?thesis
    using fw unfolding workflow_forward_def each_kept_def activity_forward_def hold_forward_def finished_def by blast
qed

lemma ex_intend_workflow: "workflow_ok ex_intended"
  by (simp add: workflow_ok_def unclashed_def ex_intended_def ex_integrating_def ex_work_def ex_db_def)

theorem workflow_record_immutable_witness:
  "publication_intents ex_intended = [ex_intent] \<and> prefix [ex_intent] (publication_intents (srv_db (ex_serving ex_intended\<lparr>srv_rt := open_runtime ex_intended 5\<rparr>)))"
proof -
  have ok: "workflow_ok (srv_db (ex_serving ex_intended))" and i: "publication_intents (srv_db (ex_serving ex_intended)) = [ex_intent]"
    "publication_intents ex_intended = [ex_intent]"
    by (simp_all add: ex_intend_workflow, simp_all add: ex_intended_def)
  from workflow_record_immutable [OF ok ex_restart [of ex_env ex_intended], THEN conjunct2, THEN conjunct1] i show ?thesis by metis
qed

end
