(* ===== verification/Flake.thy ===== *)
theory Flake
  imports Rust_Text "HOL-Library.Product_Lexorder"
begin

text \<open>
  Flake attribution of the integrator (\<^verbatim>\<open>crates/integrator/src/flake.rs\<close>): how a check-run conclusion counts,
  what the attempts of a check on the result R decide, and whom a reproduced failure is attributed to given
  the same check on the target tip X. The RFC 3339 parser is the parameter \<open>time\<close>.
\<close>

section \<open>Runs\<close>

definition ACTIONS_APP_ID :: int where "ACTIONS_APP_ID = 15368"

definition MAX_RERUNS :: nat where "MAX_RERUNS = 2"

record roster_check =
  ro_identity :: string
  ro_check_name :: string
  ro_workflow_path :: string

record check_run =
  cr_check_name :: string
  cr_run_id :: int
  cr_run_attempt :: int
  cr_app_id :: int
  cr_head_sha :: string
  cr_workflow_path :: string
  cr_conclusion :: "string option"
  cr_job_id :: "int option"
  cr_started_at :: "string option"
  cr_completed_at :: "string option"

datatype check_outcome = Pass | Fail | NoResult

definition outcome :: "string \<Rightarrow> check_outcome" where
  "outcome conclusion =
     (if conclusion = ''success'' \<or> conclusion = ''skipped'' \<or> conclusion = ''neutral'' then Pass
      else if conclusion = ''failure'' \<or> conclusion = ''timed_out'' then Fail
      else NoResult)"

definition run_outcome :: "check_run \<Rightarrow> check_outcome" where
  "run_outcome r = (case cr_conclusion r of None \<Rightarrow> NoResult | Some c \<Rightarrow> outcome c)"

text \<open>Every completed attempt of one roster check on a commit, oldest first.\<close>

record check_attempts =
  ca_check :: roster_check
  ca_attempts :: "check_run list"

definition deciding :: "check_attempts \<Rightarrow> check_run" where
  "deciding c = last (ca_attempts c)"

definition outcomes :: "check_attempts \<Rightarrow> check_outcome list" where
  "outcomes c = map run_outcome (ca_attempts c)"

definition failures :: "check_attempts \<Rightarrow> check_run list" where
  "failures c = filter (\<lambda>r. run_outcome r = Fail) (ca_attempts c)"

definition started_time :: "(string \<Rightarrow> int option) \<Rightarrow> check_run \<Rightarrow> int option" where
  "started_time time r = (case cr_started_at r of None \<Rightarrow> None | Some t \<Rightarrow> time t)"

definition first_failure_started :: "(string \<Rightarrow> int option) \<Rightarrow> check_attempts \<Rightarrow> int option" where
  "first_failure_started time c =
     (let ts = List.map_filter (started_time time) (failures c) in
      if ts = [] then None else Some (Min (set ts)))"

section \<open>Verdicts\<close>

datatype verdict = Passed | Flaky | Rerun | Reproduced | Undecided

definition judge :: "check_outcome list \<Rightarrow> nat \<Rightarrow> verdict" where
  "judge os reruns =
     (let failed = length (filter (\<lambda>x. x = Fail) os);
          again = (if reruns < MAX_RERUNS then Rerun else Undecided) in
      if os = [] then again
      else case last os of
        Pass \<Rightarrow> if failed = 0 then Passed else Flaky
      | Fail \<Rightarrow> if failed \<ge> 2 then Reproduced else again
      | NoResult \<Rightarrow> again)"

datatype target_result = On_passed check_run | On_stale check_run check_run | On_failed check_run | On_running | On_unknown

datatype blamed = Author | Refresh | Target | Wait | Unverified

fun blame :: "target_result \<Rightarrow> blamed" where
  "blame (On_passed r) = Author"
| "blame (On_stale passed latest) = Refresh"
| "blame (On_failed r) = Target"
| "blame On_running = Wait"
| "blame On_unknown = Unverified"

section \<open>Attempts of a check\<close>

definition is_run_of :: "check_run \<Rightarrow> roster_check \<Rightarrow> string \<Rightarrow> bool" where
  "is_run_of r c sha \<longleftrightarrow> cr_check_name r = ro_check_name c \<and> cr_workflow_path r = ro_workflow_path c
     \<and> cr_head_sha r = sha \<and> cr_app_id r = ACTIONS_APP_ID"

definition attempt_key :: "check_run \<Rightarrow> int \<times> int" where
  "attempt_key r = (cr_run_id r, cr_run_attempt r)"

text \<open>\<open>dedup_by_key\<close>: the first of every block of equal keys stays.\<close>

function dedup_by_key :: "('a \<Rightarrow> 'k) \<Rightarrow> 'a list \<Rightarrow> 'a list" where
  "dedup_by_key f [] = []"
| "dedup_by_key f (x # xs) = x # dedup_by_key f (dropWhile (\<lambda>y. f y = f x) xs)"
  by pat_completeness auto
termination by (relation "measure (length o snd)") (auto simp: le_imp_less_Suc length_dropWhile_le)

definition runs_of :: "check_run list \<Rightarrow> roster_check \<Rightarrow> string \<Rightarrow> check_run list" where
  "runs_of rs c sha = dedup_by_key attempt_key (sort_key attempt_key (filter (\<lambda>r. is_run_of r c sha) rs))"

definition unfinished_runs :: "check_run list \<Rightarrow> roster_check list \<Rightarrow> string \<Rightarrow> check_run list" where
  "unfinished_runs rs wanted sha = filter (\<lambda>r. cr_conclusion r = None)
     (List.map_filter (\<lambda>c. let mine = runs_of rs c sha in if mine = [] then None else Some (last mine)) wanted)"

definition completed_attempts :: "check_run list \<Rightarrow> string \<Rightarrow> roster_check \<Rightarrow> check_attempts option" where
  "completed_attempts rs sha c =
     (let mine = runs_of rs c sha in
      if mine = [] \<or> cr_conclusion (last mine) = None then None
      else Some \<lparr>ca_check = c, ca_attempts = filter (\<lambda>r. cr_conclusion r \<noteq> None) mine\<rparr>)"

fun collect_options :: "'a option list \<Rightarrow> 'a list option" where
  "collect_options [] = Some []"
| "collect_options (None # xs) = None"
| "collect_options (Some x # xs) = map_option (\<lambda>ys. x # ys) (collect_options xs)"

definition attempts_by_check :: "check_run list \<Rightarrow> roster_check list \<Rightarrow> string \<Rightarrow> check_attempts list option" where
  "attempts_by_check rs wanted sha = collect_options (map (completed_attempts rs sha) wanted)"

section \<open>The check on the target\<close>

definition fresh_since :: "(string \<Rightarrow> int option) \<Rightarrow> int option \<Rightarrow> check_run \<Rightarrow> bool" where
  "fresh_since time failed_since r =
     (case (started_time time r, failed_since) of (Some s, Some f) \<Rightarrow> f < s | _ \<Rightarrow> False)"

definition on_target ::
  "(string \<Rightarrow> int option) \<Rightarrow> check_run list \<Rightarrow> roster_check \<Rightarrow> string \<Rightarrow> int option \<Rightarrow> target_result" where
  "on_target time rs c sha failed_since =
     (let mine = runs_of rs c sha in
      case find (\<lambda>r. cr_conclusion r \<noteq> None \<and> run_outcome r \<noteq> NoResult) (rev mine) of
        Some r \<Rightarrow>
          if run_outcome r = Pass then
            (if fresh_since time failed_since r then On_passed r
             else if cr_conclusion (last mine) \<noteq> None then On_stale r (last mine) else On_running)
          else On_failed r
      | None \<Rightarrow> if list_ex (\<lambda>r. cr_conclusion r = None) mine then On_running else On_unknown)"

section \<open>Latest attempts\<close>

text \<open>The ordered map from run id to the highest attempt seen, as its entries in key order.\<close>

fun note_attempt :: "int \<Rightarrow> int \<Rightarrow> (int \<times> int) list \<Rightarrow> (int \<times> int) list" where
  "note_attempt i a [] = [(i, a)]"
| "note_attempt i a ((j, b) # xs) =
     (if i < j then (i, a) # (j, b) # xs
      else if i = j then (j, max a b) # xs
      else (j, b) # note_attempt i a xs)"

definition latest_attempts :: "check_run list \<Rightarrow> (int \<times> int) list" where
  "latest_attempts rs = fold (\<lambda>r. note_attempt (cr_run_id r) (cr_run_attempt r)) rs []"

section \<open>Laws\<close>

lemma dedup_subset: "set (dedup_by_key f xs) \<subseteq> set xs"
proof (induction f xs rule: dedup_by_key.induct)
  case (2 f x xs)
  then show ?case using set_dropWhileD by fastforce
qed simp

lemma sorted_dropWhile: "sorted (map f xs) \<Longrightarrow> sorted (map f (dropWhile P xs))"
  by (induction xs) auto

lemma dropWhile_key_less:
  assumes "sorted (map f (x # xs))" and "y \<in> set (dropWhile (\<lambda>y. f y = f x) xs)"
  shows "f x < (f y :: 'k::linorder)"
  using assms
proof (induction xs)
  case (Cons z zs)
  show ?case
  proof (cases "f z = f x")
    case True
    with Cons show ?thesis by auto
  next
    case False
    with Cons.prems have "f x < f z" "f z \<le> f y" by auto
    then show ?thesis by (rule less_le_trans)
  qed
qed simp

text \<open>Runs come oldest first, one per (run, attempt).\<close>

lemma dedup_strict: "sorted (map f xs) \<Longrightarrow> sorted_wrt (<) (map f (dedup_by_key f xs :: 'a list) :: 'k::linorder list)"
proof (induction f xs rule: dedup_by_key.induct)
  case (2 f x xs)
  have "sorted (map f (dropWhile (\<lambda>y. f y = f x) xs))" using 2(2) by (simp add: sorted_dropWhile)
  with 2(1) dropWhile_key_less [OF 2(2)] dedup_subset [of f "dropWhile (\<lambda>y. f y = f x) xs"]
  show ?case by (auto simp: subset_iff)
qed simp

lemma runs_of_strict: "sorted_wrt (<) (map attempt_key (runs_of rs c sha))"
  by (simp add: runs_of_def dedup_strict)

lemma runs_of_set: "r \<in> set (runs_of rs c sha) \<Longrightarrow> r \<in> set rs \<and> is_run_of r c sha"
  using dedup_subset [of attempt_key "sort_key attempt_key (filter (\<lambda>r. is_run_of r c sha) rs)"]
  by (auto simp: runs_of_def)

lemma dedup_keys: "f ` set (dedup_by_key f xs) = f ` set xs"
proof (induction f xs rule: dedup_by_key.induct)
  case (2 f x xs)
  have "insert (f x) (f ` set (dropWhile (\<lambda>y. f y = f x) xs)) = insert (f x) (f ` set xs)"
    by (induction xs) auto
  with 2 show ?case by simp
qed simp

lemma runs_of_keys: "attempt_key ` set (runs_of rs c sha) = attempt_key ` {r \<in> set rs. is_run_of r c sha}"
  by (simp add: runs_of_def dedup_keys)

lemma collect_options_Some: "collect_options xs = Some ys \<longleftrightarrow> xs = map Some ys"
proof (induction xs arbitrary: ys)
  case (Cons x xs)
  then show ?case by (cases x; cases ys) auto
qed auto

lemma attempts_by_check_Some:
  "attempts_by_check rs wanted sha = Some cs \<longleftrightarrow> list_all2 (\<lambda>c a. completed_attempts rs sha c = Some a) wanted cs"
  by (auto simp: attempts_by_check_def collect_options_Some list_all2_conv_all_nth list_eq_iff_nth_eq)

text \<open>The map of latest attempts.\<close>

lemma note_attempt_keys: "fst ` set (note_attempt i a xs) = insert i (fst ` set xs)"
  by (induction i a xs rule: note_attempt.induct) auto

lemma note_attempt_sorted: "sorted_wrt (<) (map fst xs) \<Longrightarrow> sorted_wrt (<) (map fst (note_attempt i a xs))"
proof (induction i a xs rule: note_attempt.induct)
  case (2 i a j b xs)
  then have "\<forall>k \<in> fst ` set (note_attempt i a xs). i < k \<or> i = k \<or> k \<in> fst ` set xs"
    by (simp add: note_attempt_keys)
  with 2 show ?case by (auto simp: note_attempt_keys)
qed simp

lemma note_attempt_map:
  "sorted_wrt (<) (map fst xs) \<Longrightarrow> map_of (note_attempt i a xs) j
     = (if j = i then Some (case map_of xs i of None \<Rightarrow> a | Some b \<Rightarrow> max a b) else map_of xs j)"
proof (induction i a xs rule: note_attempt.induct)
  case (2 i a k b xs)
  then have "i < k \<Longrightarrow> map_of xs i = None" by (auto simp: map_of_eq_None_iff)
  with 2 show ?case by auto
qed simp

lemma latest_attempts_invariant:
  assumes "sorted_wrt (<) (map fst xs)"
  shows "sorted_wrt (<) (map fst (fold (\<lambda>r. note_attempt (cr_run_id r) (cr_run_attempt r)) rs xs))"
  using assms by (induction rs arbitrary: xs) (auto simp: note_attempt_sorted)

lemma latest_attempts_sorted: "sorted_wrt (<) (map fst (latest_attempts rs))"
  by (simp add: latest_attempts_def latest_attempts_invariant)

lemma latest_attempts_keys: "fst ` set (latest_attempts rs) = cr_run_id ` set rs"
proof -
  have "fst ` set (fold (\<lambda>r. note_attempt (cr_run_id r) (cr_run_attempt r)) rs xs) = cr_run_id ` set rs \<union> fst ` set xs" for xs
    by (induction rs arbitrary: xs) (auto simp: note_attempt_keys)
  then show ?thesis by (simp add: latest_attempts_def)
qed

end
