(* ===== verification/Action_Refs.thy ===== *)
theory Action_Refs
  imports Rust_Text
begin

text \<open>
  Local-action references in workflow files (\<^verbatim>\<open>crates/integrator/src/action_refs.rs\<close>): a line scan without
  a YAML parser that reads plain scalars after a key and reports everything else as unparsed.
\<close>

section \<open>Scalars\<close>

definition quote_char :: "char \<Rightarrow> bool" where
  "quote_char c \<longleftrightarrow> c = CHR 0x22 \<or> c = CHR 0x27"

definition blank_char :: "char \<Rightarrow> bool" where
  "blank_char c \<longleftrightarrow> c = CHR '' '' \<or> c = CHR 0x09"

definition plain :: "string \<Rightarrow> string" where
  "plain s = takeWhile (\<lambda>c. \<not> (blank_char c \<or> c = CHR '','' \<or> c = CHR ''}'' \<or> c = CHR '']'' \<or> quote_char c)) s"

definition scalar :: "string \<Rightarrow> string option" where
  "scalar s =
     (case s of
        [] \<Rightarrow> None
      | c # rest \<Rightarrow>
          (case (if quote_char c then map_option fst (split_once c rest)
                 else if ascii_alnum c \<or> c = CHR ''.'' \<or> c = CHR ''/'' then Some (plain s)
                 else None) of
             None \<Rightarrow> None
           | Some content \<Rightarrow> if content \<noteq> [] \<and> CHR 0x5C \<notin> set content then Some content else None))"

definition block_header :: "string \<Rightarrow> bool" where
  "block_header s =
     (case trim_end (hd (split_on CHR ''#'' s)) of
        [] \<Rightarrow> False
      | c # cs \<Rightarrow> (c = CHR ''|'' \<or> c = CHR ''>'') \<and> list_all (\<lambda>x. x = CHR ''-'' \<or> x = CHR ''+'' \<or> ascii_digit x) cs)"

definition value_after :: "string \<Rightarrow> string list \<Rightarrow> string option" where
  "value_after rest following =
     (let v = trim_start rest in
      if v = [] \<or> starts_with v ''#'' \<or> block_header v then
        (case find (\<lambda>l. l \<noteq> []) (map trim following) of None \<Rightarrow> None | Some l \<Rightarrow> scalar l)
      else scalar v)"

section \<open>Keys\<close>

text \<open>A byte before the offset, skipping one opening quote, that continues a longer word.\<close>

definition word_before :: "string \<Rightarrow> nat \<Rightarrow> bool" where
  "word_before s start =
     (let i = (if 0 < start \<and> quote_char (s ! (start - 1)) then start - 1 else start) in
      0 < i \<and> (ascii_alnum (s ! (i - 1)) \<or> s ! (i - 1) = CHR ''_'' \<or> s ! (i - 1) = CHR ''-''))"

definition colon_after :: "string \<Rightarrow> nat \<Rightarrow> nat option" where
  "colon_after s i =
     (let j = (if i < length s \<and> quote_char (s ! i) then Suc i else i);
          k = j + length (takeWhile blank_char (drop j s)) in
      if k < length s \<and> s ! k = CHR '':'' then Some (Suc k) else None)"

text \<open>
  The keys searched for are never empty; an empty one would leave the cursor where it is, which the guard
  makes visible.
\<close>

function key_ends_from :: "string \<Rightarrow> string \<Rightarrow> nat \<Rightarrow> nat list" where
  "key_ends_from key s i =
     (if key = [] then []
      else case find_from key s i of
        None \<Rightarrow> []
      | Some start \<Rightarrow>
          (if word_before s start then []
           else case colon_after s (start + length key) of None \<Rightarrow> [] | Some e \<Rightarrow> [e])
          @ key_ends_from key s (start + length key))"
  by auto
termination
  by (relation "measure (\<lambda>(key, s, i). Suc (length s) - i)") (auto dest!: find_from_Some simp: length_greater_0_conv [symmetric] simp del: length_greater_0_conv)

declare key_ends_from.simps [simp del]

definition key_ends :: "string \<Rightarrow> string \<Rightarrow> nat list" where
  "key_ends line key = key_ends_from key (to_ascii_lowercase line) 0"

fun key_values_in :: "string \<Rightarrow> string list \<Rightarrow> string option list" where
  "key_values_in key [] = []"
| "key_values_in key (l # ls) = map (\<lambda>e. value_after (drop e l) ls) (key_ends l key) @ key_values_in key ls"

definition key_values :: "string \<Rightarrow> string \<Rightarrow> string option list" where
  "key_values text key = key_values_in key (text_lines text)"

section \<open>Paths\<close>

text \<open>The stack of path parts, innermost first; \<open>None\<close> when the path climbs above the root.\<close>

fun resolve_parts :: "string list \<Rightarrow> string list \<Rightarrow> string list option" where
  "resolve_parts parts [] = Some parts"
| "resolve_parts parts (x # xs) =
     (if x = [] \<or> x = ''.'' then resolve_parts parts xs
      else if x = ''..'' then (case parts of [] \<Rightarrow> None | p # ps \<Rightarrow> resolve_parts ps xs)
      else resolve_parts (x # parts) xs)"

definition resolve :: "string \<Rightarrow> string" where
  "resolve path = (case resolve_parts [] (split_on CHR ''/'' path) of None \<Rightarrow> [] | Some parts \<Rightarrow> join ''/'' (rev parts))"

section \<open>References\<close>

datatype action_ref = Ref_local string | Ref_remote | Ref_unparsed

definition classify_uses :: "string \<Rightarrow> action_ref" where
  "classify_uses v =
     (case strip_prefix ''./'' v of
        Some l \<Rightarrow> Ref_local (resolve l)
      | None \<Rightarrow> if starts_with v ''docker://'' \<or> (v \<noteq> [] \<and> ascii_alnum (hd v)) then Ref_remote else Ref_unparsed)"

definition uses_refs :: "string \<Rightarrow> action_ref list" where
  "uses_refs text = map (\<lambda>v. case v of None \<Rightarrow> Ref_unparsed | Some s \<Rightarrow> classify_uses s) (key_values text ''uses'')"

definition runs_target :: "string \<Rightarrow> string \<Rightarrow> string list" where
  "runs_target dir v =
     (if starts_with v ''/'' then [[]]
      else let path = resolve (dir @ ''/'' @ v) in
        case rsplit_once CHR ''/'' path of
          Some (parent, _) \<Rightarrow> if ends_with (to_ascii_lowercase path) ''dockerfile'' then [path, parent] else [path]
        | None \<Rightarrow> [path])"

definition runs_value :: "string \<Rightarrow> string option \<Rightarrow> string list" where
  "runs_value dir v = (case v of None \<Rightarrow> [] | Some s \<Rightarrow> if starts_with s ''docker://'' then [] else runs_target dir s)"

definition runs_paths :: "string \<Rightarrow> string \<Rightarrow> string list \<times> bool" where
  "runs_paths text dir =
     (let vs = concat (map (key_values text) [''main'', ''pre'', ''post'', ''image'']) in
      (concat (map (runs_value dir) vs), list_ex (\<lambda>v. v = None) vs))"

end
