(* ===== verification/Local_Actions.thy ===== *)
theory Local_Actions
  imports Action_Refs
begin

text \<open>
  The local-action scope of the privilege gate (\<^verbatim>\<open>crates/integrator/src/local_actions.rs\<close>): the worklist
  that collects, from target tip X, the directories and files outside \<^verbatim>\<open>.github/\<close> that CI runs. Git is
  the parameter \<open>g\<close>: the entries of a tree and the content of a file, each of which may fail.
\<close>

section \<open>Git as a parameter\<close>

text \<open>An \<open>anyhow\<close> error is its message.\<close>

type_synonym 'a git = "string + 'a"

record git_reads =
  gr_tree_entries :: "string \<Rightarrow> string \<Rightarrow> (string \<times> string) list git"
  gr_file_at :: "string \<Rightarrow> string \<Rightarrow> string option git"
  gr_changed_paths :: "string \<Rightarrow> string \<Rightarrow> string list git"

definition SYMLINK_MODE :: string where "SYMLINK_MODE = ''120000''"

definition action_files :: "string list" where
  "action_files = [''action.yml'', ''action.yaml'']"

section \<open>The scope\<close>

record local_scope =
  ls_entries :: "string set"
  ls_unparsed :: bool

definition covers :: "local_scope \<Rightarrow> string \<Rightarrow> bool" where
  "covers s path =
     (let p = to_ascii_lowercase path in
      \<exists>e \<in> ls_entries s. let l = to_ascii_lowercase e in l = [] \<or> p = l \<or> starts_with p (l @ ''/''))"

text \<open>The worklist state; the top of the stack of pending directories comes first.\<close>

record collector = local_scope +
  co_pending :: "string list"

definition add_entry :: "string \<Rightarrow> collector \<Rightarrow> collector" where
  "add_entry e c =
     (if e \<in> ls_entries c then c
      else c\<lparr>ls_entries := insert e (ls_entries c), co_pending := (if e = [] then co_pending c else e # co_pending c)\<rparr>)"

definition add_entries :: "string list \<Rightarrow> collector \<Rightarrow> collector" where
  "add_entries es c = fold add_entry es c"

definition set_unparsed :: "collector \<Rightarrow> collector" where
  "set_unparsed c = c\<lparr>ls_unparsed := True\<rparr>"

definition readable :: "git_reads \<Rightarrow> string \<Rightarrow> string \<Rightarrow> string option" where
  "readable g rv path = (case gr_file_at g rv path of Inr v \<Rightarrow> v | Inl _ \<Rightarrow> None)"

text \<open>An unreadable file fails closed.\<close>

definition read_file :: "git_reads \<Rightarrow> string \<Rightarrow> string \<Rightarrow> collector \<Rightarrow> string \<times> collector" where
  "read_file g x path c = (case readable g x path of Some t \<Rightarrow> (t, c) | None \<Rightarrow> ([], set_unparsed c))"

definition add_reference :: "action_ref \<Rightarrow> collector \<Rightarrow> collector" where
  "add_reference r c = (case r of Ref_local dir \<Rightarrow> add_entry dir c | Ref_remote \<Rightarrow> c | Ref_unparsed \<Rightarrow> set_unparsed c)"

definition add_uses :: "string \<Rightarrow> collector \<Rightarrow> collector" where
  "add_uses text c = fold add_reference (uses_refs text) c"

definition link_entry :: "git_reads \<Rightarrow> string \<Rightarrow> string \<Rightarrow> string" where
  "link_entry g rv path =
     (let parent = (case rsplit_once CHR ''/'' path of None \<Rightarrow> [] | Some (d, _) \<Rightarrow> d) in
      case readable g rv path of
        Some t \<Rightarrow> if \<not> starts_with t ''/'' then resolve (parent @ ''/'' @ t) else []
      | None \<Rightarrow> [])"

definition add_link :: "git_reads \<Rightarrow> string \<Rightarrow> string \<Rightarrow> collector \<Rightarrow> collector" where
  "add_link g rv path c = add_entry (link_entry g rv path) c"

definition is_action_file :: "string \<Rightarrow> string \<Rightarrow> bool" where
  "is_action_file dir path =
     is_some_and (strip_prefix dir path) (\<lambda>p. is_some_and (strip_prefix ''/'' p) (\<lambda>n. to_ascii_lowercase n \<in> set action_files))"

section \<open>The worklist\<close>

definition scan_ci_entry :: "git_reads \<Rightarrow> string \<Rightarrow> string \<times> string \<Rightarrow> collector \<Rightarrow> collector" where
  "scan_ci_entry g x e c =
     (case e of (mode, path) \<Rightarrow>
        if mode = SYMLINK_MODE then add_link g x path c
        else case read_file g x path c of (text, c1) \<Rightarrow> add_uses text c1)"

definition scan_ci_dir :: "git_reads \<Rightarrow> string \<Rightarrow> collector \<Rightarrow> collector git" where
  "scan_ci_dir g x c = and_then (gr_tree_entries g x ''.github'') (\<lambda>es. Inr (fold (scan_ci_entry g x) es c))"

definition visit_entry :: "git_reads \<Rightarrow> string \<Rightarrow> string \<Rightarrow> string \<times> string \<Rightarrow> collector \<Rightarrow> collector" where
  "visit_entry g x dir e c =
     (case e of (mode, path) \<Rightarrow>
        if mode = SYMLINK_MODE then add_link g x path c
        else if is_action_file dir path then
          (case read_file g x path c of (text, c1) \<Rightarrow>
           case runs_paths text dir of (paths, unparsed) \<Rightarrow>
           let c2 = add_uses text c1 in
           add_entries paths (c2\<lparr>ls_unparsed := ls_unparsed c2 \<or> unparsed\<rparr>))
        else c)"

definition visit :: "git_reads \<Rightarrow> string \<Rightarrow> string \<Rightarrow> collector \<Rightarrow> collector git" where
  "visit g x dir c = and_then (gr_tree_entries g x dir) (\<lambda>es. Inr (fold (visit_entry g x dir) es c))"

text \<open>The loop until no directory is pending; \<open>None\<close> would be a loop that never ends.\<close>

partial_function (option) drain :: "git_reads \<Rightarrow> string \<Rightarrow> collector \<Rightarrow> collector git option" where
  "drain g x c =
     (case co_pending c of
        [] \<Rightarrow> Some (Inr c)
      | dir # rest \<Rightarrow>
          (case visit g x dir (c\<lparr>co_pending := rest\<rparr>) of
             Inl e \<Rightarrow> Some (Inl e)
           | Inr c1 \<Rightarrow> drain g x c1))"

declare drain.simps [code]

definition follow_link :: "git_reads \<Rightarrow> string \<Rightarrow> string \<Rightarrow> collector \<Rightarrow> collector git" where
  "follow_link g r path c =
     (if \<not> (starts_with (to_ascii_lowercase path) ''.github/'' \<or> covers (local_scope.truncate c) path) then Inr c
      else and_then (gr_tree_entries g r path) (\<lambda>es.
        Inr (if list_ex (\<lambda>(mode, p). p = path \<and> mode = SYMLINK_MODE) es then add_link g r path c else c)))"

definition follow_changed_links :: "git_reads \<Rightarrow> string \<Rightarrow> string list \<Rightarrow> collector \<Rightarrow> collector git" where
  "follow_changed_links g r changed c = fold_res (follow_link g r) changed c"

definition empty_collector :: collector where
  "empty_collector = \<lparr>ls_entries = {}, ls_unparsed = False, co_pending = []\<rparr>"

definition collect :: "git_reads \<Rightarrow> string \<Rightarrow> string \<Rightarrow> string list \<Rightarrow> local_scope git option" where
  "collect g x r changed =
     (case scan_ci_dir g x empty_collector of
        Inl e \<Rightarrow> Some (Inl e)
      | Inr c1 \<Rightarrow>
          (case drain g x c1 of
             None \<Rightarrow> None
           | Some (Inl e) \<Rightarrow> Some (Inl e)
           | Some (Inr c2) \<Rightarrow>
               (case follow_changed_links g r changed c2 of
                  Inl e \<Rightarrow> Some (Inl e)
                | Inr c3 \<Rightarrow>
                    (case drain g x c3 of
                       None \<Rightarrow> None
                     | Some (Inl e) \<Rightarrow> Some (Inl e)
                     | Some (Inr c4) \<Rightarrow> Some (Inr (local_scope.truncate c4))))))"

end
