(* ===== verification/Privilege.thy ===== *)
theory Privilege
  imports Local_Actions
begin

text \<open>
  The privilege gate of the integrator (\<^verbatim>\<open>crates/integrator/src/privilege.rs\<close>): which paths that differ
  between the target tip X and the result R need a human decision, and the hints recorded for the human,
  computed from a longest-common-subsequence line diff.
\<close>

section \<open>Terms\<close>

definition CI_DIR :: string where "CI_DIR = ''.github/''"

definition CI_FILES :: "string list" where
  "CI_FILES = [''.github'', ''.gitmodules'', ''codeowners'', ''docs/codeowners'']"

definition CI_REASON :: string where "CI_REASON = ''changed_ci_definition''"

definition SENSITIVE :: "(string \<times> string) list" where
  "SENSITIVE = [(''secret'', ''adds_secrets''), (''permissions'', ''adds_permissions''), (''write'', ''adds_write''),
     (''token'', ''adds_token''), (''inherit'', ''adds_inherit''), (''pull_request_target'', ''adds_pull_request_target''),
     (''workflow_run'', ''adds_workflow_run''), (''uses:'', ''adds_uses'')]"

definition PRIVILEGED :: "string list" where
  "PRIVILEGED = [''secret'', ''write'', ''token'']"

definition MAX_DIFF_CELLS :: int where "MAX_DIFF_CELLS = 4000000"

record finding =
  fi_path :: string
  fi_reasons :: "string list"

definition mentions :: "string \<Rightarrow> string \<Rightarrow> bool" where
  "mentions text term = contains (to_ascii_lowercase text) term"

section \<open>The line diff\<close>

text \<open>
  Row \<open>i\<close> of the table from row \<open>i + 1\<close>, over the same suffix of the new lines; the table has a row for every
  suffix of the old lines.
\<close>

fun lcs_row :: "'a \<Rightarrow> 'a list \<Rightarrow> nat list \<Rightarrow> nat list" where
  "lcs_row a [] below = [0]"
| "lcs_row a (b # bs) below =
     (let row = lcs_row a bs (tl below) in
      (if a = b then hd (tl below) + 1 else max (hd below) (hd row)) # row)"

fun lcs_table :: "'a list \<Rightarrow> 'a list \<Rightarrow> nat list list" where
  "lcs_table [] new = [replicate (length new + 1) 0]"
| "lcs_table (a # old) new = (let t = lcs_table old new in lcs_row a new (hd t) # t)"

function diff_walk :: "nat list list \<Rightarrow> 'a list \<Rightarrow> 'a list \<Rightarrow> nat \<Rightarrow> nat \<Rightarrow> 'a list \<times> 'a list" where
  "diff_walk table old new i j =
     (if i < length old \<and> j < length new \<and> old ! i = new ! j then diff_walk table old new (Suc i) (Suc j)
      else if j < length new \<and> (i = length old \<or> table ! Suc i ! j \<le> table ! i ! Suc j) then
        (case diff_walk table old new i (Suc j) of (added, removed) \<Rightarrow> (new ! j # added, removed))
      else if i < length old then
        (case diff_walk table old new (Suc i) j of (added, removed) \<Rightarrow> (added, old ! i # removed))
      else ([], []))"
  by pat_completeness auto
termination by (relation "measure (\<lambda>(table, old, new, i, j). (length old - i) + (length new - j))") auto

declare diff_walk.simps [simp del]

definition changed_lines :: "string \<Rightarrow> string \<Rightarrow> string list \<times> string list" where
  "changed_lines before after =
     (let old = text_lines before; new = text_lines after in
      if int (length old) * int (length new) > MAX_DIFF_CELLS then (new, old)
      else diff_walk (lcs_table old new) old new 0 0)"

section \<open>Triggers\<close>

definition top_level :: "string \<Rightarrow> bool" where
  "top_level l \<longleftrightarrow> \<not> (case l of [] \<Rightarrow> False | c # _ \<Rightarrow> c = CHR '' '' \<or> c = CHR 0x09 \<or> c = CHR ''#'') \<and> \<not> blank l"

definition trim_quotes :: "string \<Rightarrow> string" where
  "trim_quotes s = rev (dropWhile quote_char (rev (dropWhile quote_char s)))"

definition line_key :: "string \<Rightarrow> string" where
  "line_key l = trim_quotes (hd (split_on CHR '':'' l))"

text \<open>The flag: the block has begun.\<close>

fun trigger_block :: "bool \<Rightarrow> string list \<Rightarrow> string list" where
  "trigger_block begun [] = []"
| "trigger_block begun (l # ls) =
     (if top_level l \<and> begun then []
      else if begun \<or> (top_level l \<and> line_key l = ''on'') then trim_end l # trigger_block True ls
      else trigger_block begun ls)"

definition triggers :: "string \<Rightarrow> string" where
  "triggers text = join [CHR 0x0A] (trigger_block False (text_lines text))"

section \<open>Reasons\<close>

definition added_reasons :: "string list \<Rightarrow> string list" where
  "added_reasons added = map snd (filter (\<lambda>(term, _). list_ex (\<lambda>l. mentions l term) added) SENSITIVE)"

definition edit_reasons :: "string \<Rightarrow> string \<Rightarrow> string list \<Rightarrow> string list \<Rightarrow> string list" where
  "edit_reasons before after added removed =
     added_reasons added
     @ (if list_ex (\<lambda>l. mentions l ''permissions'') removed then [''removes_permissions''] else [])
     @ (if triggers before \<noteq> triggers after then [''triggers_changed''] else [])
     @ (if (added \<noteq> [] \<or> removed \<noteq> []) \<and> list_ex (mentions after) PRIVILEGED then [''changes_privileged_file''] else [])"

definition reasons :: "bool \<Rightarrow> string option \<Rightarrow> string option \<Rightarrow> string list" where
  "reasons required before after =
     (if required then [''required_check_workflow''] else [])
     @ (case after of
          None \<Rightarrow> []
        | Some a \<Rightarrow>
            (case before of
               None \<Rightarrow> ''new_file'' # added_reasons (text_lines a)
             | Some b \<Rightarrow> (case changed_lines b a of (added, removed) \<Rightarrow> edit_reasons b a added removed)))"

text \<open>The outer option is a read that failed, the inner one a file that is absent.\<close>

definition classify :: "bool \<Rightarrow> string \<Rightarrow> string option option \<Rightarrow> string option option \<Rightarrow> string list" where
  "classify required fallback before after =
     (case (before, after) of
        (Some b, Some a) \<Rightarrow>
          if b = None \<and> a = None then [''unreadable'']
          else let found = reasons required b a in
            (if found = [] \<or> fallback \<noteq> CI_REASON then found @ [fallback] else found)
      | _ \<Rightarrow> [''unreadable''])"

section \<open>The gate\<close>

definition is_ci_definition :: "string \<Rightarrow> bool" where
  "is_ci_definition path \<longleftrightarrow> starts_with path CI_DIR \<or> path \<in> set CI_FILES"

definition scope :: "string \<Rightarrow> local_scope \<Rightarrow> string option" where
  "scope path s =
     (if is_ci_definition (to_ascii_lowercase path) then Some CI_REASON
      else if ls_unparsed s then Some ''unparsed_local_action_reference''
      else if covers s path then Some ''changed_local_action''
      else None)"

definition read_side :: "git_reads \<Rightarrow> string \<Rightarrow> string \<Rightarrow> string option option" where
  "read_side g rv path = (case gr_file_at g rv path of Inl _ \<Rightarrow> None | Inr v \<Rightarrow> Some v)"

definition finding_of :: "git_reads \<Rightarrow> string \<Rightarrow> string \<Rightarrow> string list \<Rightarrow> local_scope \<Rightarrow> string \<Rightarrow> finding option" where
  "finding_of g x r required s path =
     (case scope path s of
        None \<Rightarrow> None
      | Some fallback \<Rightarrow> Some \<lparr>fi_path = path,
          fi_reasons = classify (path \<in> set required) fallback (read_side g x path) (read_side g r path)\<rparr>)"

definition findings :: "git_reads \<Rightarrow> string \<Rightarrow> string \<Rightarrow> string list \<Rightarrow> finding list git option" where
  "findings g x r required =
     (case gr_changed_paths g x r of
        Inl e \<Rightarrow> Some (Inl e)
      | Inr changed \<Rightarrow>
          if changed = [] then Some (Inr [])
          else case collect g x r changed of
            None \<Rightarrow> None
          | Some (Inl e) \<Rightarrow> Some (Inl e)
          | Some (Inr s) \<Rightarrow> Some (Inr (List.map_filter (finding_of g x r required s) changed)))"

end
