(* ===== verification/Line_Diff.thy ===== *)
theory Line_Diff
  imports Privilege
begin

text \<open>
  The line diff of the privilege gate is exact: the table holds the lengths of longest common subsequences of
  the suffixes, and the walk splits both texts around a common subsequence of greatest length. So it names as
  few lines as any diff can, and no changed line escapes it.
\<close>

section \<open>The table\<close>

fun lcs_len :: "'a list \<Rightarrow> 'a list \<Rightarrow> nat" where
  "lcs_len [] ys = 0"
| "lcs_len (x # xs) [] = 0"
| "lcs_len (x # xs) (y # ys) = (if x = y then lcs_len xs ys + 1 else max (lcs_len xs (y # ys)) (lcs_len (x # xs) ys))"

lemma lcs_len_Nil [simp]: "lcs_len xs [] = 0"
  by (cases xs) auto

fun tails :: "'a list \<Rightarrow> 'a list list" where
  "tails [] = [[]]"
| "tails (x # xs) = (x # xs) # tails xs"

lemma length_tails [simp]: "length (tails xs) = Suc (length xs)"
  by (induction xs) auto

lemma tails_nth: "i \<le> length xs \<Longrightarrow> tails xs ! i = drop i xs"
  by (induction xs arbitrary: i) (auto simp: nth_Cons split: nat.split)

lemma hd_map_tails [simp]: "hd (map f (tails xs)) = f xs"
  by (cases xs) auto

lemma lcs_row_tails: "lcs_row a new (map (lcs_len old) (tails new)) = map (lcs_len (a # old)) (tails new)"
  by (induction new) (auto simp: Let_def)

lemma lcs_table_tails: "lcs_table old new = map (\<lambda>os. map (lcs_len os) (tails new)) (tails old)"
proof (induction old)
  case Nil
  have "map (lcs_len ([] :: 'a list)) (tails new) = replicate (length new + 1) 0" by (induction new) auto
  then show ?case by simp
next
  case (Cons a old)
  then show ?case by (simp add: Let_def lcs_row_tails)
qed

lemma lcs_table_nth:
  "i \<le> length old \<Longrightarrow> j \<le> length new \<Longrightarrow> lcs_table old new ! i ! j = lcs_len (drop i old) (drop j new)"
  by (simp add: lcs_table_tails tails_nth)

text \<open>No common subsequence is longer.\<close>

lemma lcs_len_greatest: "subseq zs xs \<Longrightarrow> subseq zs ys \<Longrightarrow> length zs \<le> lcs_len xs ys"
proof (induction xs ys arbitrary: zs rule: lcs_len.induct)
  case (3 x xs y ys)
  show ?case
  proof (cases zs)
    case (Cons z zs')
    note zs = Cons
    show ?thesis
    proof (cases "x = y")
      case True
      show ?thesis
      proof (cases "z = x")
        case zx: True
        with 3(4,5) zs True have "subseq zs' xs" "subseq zs' ys" by simp_all
        from 3(1) [OF True this] zs True show ?thesis by simp
      next
        case False
        with 3(4,5) zs True have "subseq zs xs" "subseq zs ys" by simp_all
        from 3(1) [OF True this] True show ?thesis by simp
      qed
    next
      case False
      show ?thesis
      proof (cases "z = x")
        case True
        with False zs 3(5) have "subseq zs ys" by simp
        from 3(3) [OF False 3(4) this] False show ?thesis by simp
      next
        case zx: False
        with zs 3(4) have "subseq zs xs" by simp
        from 3(2) [OF False this 3(5)] False show ?thesis by simp
      qed
    qed
  qed simp
qed auto

section \<open>The walk\<close>

text \<open>A diff: both lists are interleavings of what they keep with what they gain or lose.\<close>

definition diff_of :: "'a list \<Rightarrow> 'a list \<Rightarrow> 'a list \<Rightarrow> 'a list \<times> 'a list \<Rightarrow> bool" where
  "diff_of old new kept d \<longleftrightarrow> new \<in> shuffles kept (fst d) \<and> old \<in> shuffles kept (snd d)"

lemma diff_walk_kept:
  assumes "i \<le> length old" "j \<le> length new" and t: "table = lcs_table old new"
  shows "\<exists>kept. diff_of (drop i old) (drop j new) kept (diff_walk table old new i j)
    \<and> length kept = lcs_len (drop i old) (drop j new)"
  using assms(1,2)
proof (induction "length old - i + (length new - j)" arbitrary: i j rule: less_induct)
  case less
  have IH: "i' \<le> length old \<Longrightarrow> j' \<le> length new \<Longrightarrow> length old - i' + (length new - j') < length old - i + (length new - j)
      \<Longrightarrow> \<exists>kept. diff_of (drop i' old) (drop j' new) kept (diff_walk table old new i' j')
        \<and> length kept = lcs_len (drop i' old) (drop j' new)" for i' j'
    using less(1) by blast
  note step = diff_walk.simps [of table old new i j]
  consider (same) "i < length old" "j < length new" "old ! i = new ! j"
    | (add) "\<not> (i < length old \<and> j < length new \<and> old ! i = new ! j)" "j < length new"
        "i = length old \<or> table ! Suc i ! j \<le> table ! i ! Suc j"
    | (del) "\<not> (i < length old \<and> j < length new \<and> old ! i = new ! j)"
        "\<not> (j < length new \<and> (i = length old \<or> table ! Suc i ! j \<le> table ! i ! Suc j))" "i < length old"
    | (over) "i = length old" "j = length new"
    using less(2,3) by linarith
  then show ?case
  proof cases
    case same
    then have "length old - Suc i + (length new - Suc j) < length old - i + (length new - j)" by linarith
    with IH [of "Suc i" "Suc j"] same obtain kept where
      k: "diff_of (drop (Suc i) old) (drop (Suc j) new) kept (diff_walk table old new (Suc i) (Suc j))"
        "length kept = lcs_len (drop (Suc i) old) (drop (Suc j) new)" by auto
    have d: "drop i old = old ! i # drop (Suc i) old" "drop j new = old ! i # drop (Suc j) new"
      using Cons_nth_drop_Suc [OF same(1)] Cons_nth_drop_Suc [OF same(2)] same(3) by simp_all
    have "diff_of (drop i old) (drop j new) (old ! i # kept) (diff_walk table old new i j)"
      using k(1) same step by (cases "diff_walk table old new (Suc i) (Suc j)") (auto simp: diff_of_def d Cons_in_shuffles_leftI)
    moreover have "length (old ! i # kept) = lcs_len (drop i old) (drop j new)" using k(2) by (simp add: d)
    ultimately show ?thesis by blast
  next
    case add
    then have "length old - i + (length new - Suc j) < length old - i + (length new - j)" by linarith
    with IH [of i "Suc j"] add less(2) obtain kept where
      k: "diff_of (drop i old) (drop (Suc j) new) kept (diff_walk table old new i (Suc j))"
        "length kept = lcs_len (drop i old) (drop (Suc j) new)" by auto
    obtain A R where w: "diff_walk table old new i (Suc j) = (A, R)" by fastforce
    have d: "drop j new = new ! j # drop (Suc j) new" using add by (simp add: Cons_nth_drop_Suc)
    have len: "lcs_len (drop i old) (drop (Suc j) new) = lcs_len (drop i old) (drop j new)"
    proof (cases "i = length old")
      case False
      with less(2) have i: "i < length old" by simp
      then have o: "drop i old = old ! i # drop (Suc i) old" by (simp add: Cons_nth_drop_Suc)
      have "lcs_len (drop (Suc i) old) (drop j new) \<le> lcs_len (drop i old) (drop (Suc j) new)"
        using add False i by (simp add: t lcs_table_nth)
      moreover have "old ! i \<noteq> new ! j" using add i by simp
      ultimately show ?thesis unfolding o d by simp
    qed simp
    have "diff_of (drop i old) (drop j new) kept (diff_walk table old new i j)"
      using k(1) add step w by (auto simp: diff_of_def d Cons_in_shuffles_rightI)
    with k(2) len show ?thesis by auto
  next
    case del
    then have "length old - Suc i + (length new - j) < length old - i + (length new - j)" by linarith
    with IH [of "Suc i" j] del less(3) obtain kept where
      k: "diff_of (drop (Suc i) old) (drop j new) kept (diff_walk table old new (Suc i) j)"
        "length kept = lcs_len (drop (Suc i) old) (drop j new)" by auto
    obtain A R where w: "diff_walk table old new (Suc i) j = (A, R)" by fastforce
    have d: "drop i old = old ! i # drop (Suc i) old" using del by (simp add: Cons_nth_drop_Suc)
    have len: "lcs_len (drop (Suc i) old) (drop j new) = lcs_len (drop i old) (drop j new)"
    proof (cases "j < length new")
      case True
      then have n: "drop j new = new ! j # drop (Suc j) new" by (simp add: Cons_nth_drop_Suc)
      have "lcs_len (drop i old) (drop (Suc j) new) \<le> lcs_len (drop (Suc i) old) (drop j new)"
        using del True by (auto simp: t lcs_table_nth)
      moreover have "old ! i \<noteq> new ! j" using del True by simp
      ultimately show ?thesis unfolding d n by simp
    qed simp
    have "diff_of (drop i old) (drop j new) kept (diff_walk table old new i j)"
      using k(1) del step w by (auto simp: diff_of_def d Cons_in_shuffles_rightI)
    with k(2) len show ?thesis by auto
  next
    case over
    then show ?thesis using step by (auto simp: diff_of_def)
  qed
qed

lemma diff_walk_exact:
  "\<exists>kept. diff_of old new kept (diff_walk (lcs_table old new) old new 0 0) \<and> length kept = lcs_len old new"
  using diff_walk_kept [of 0 old 0 new "lcs_table old new"] by simp

text \<open>No change is named only when nothing changed, however large the files are.\<close>

lemma changed_lines_none: "changed_lines before after = ([], []) \<Longrightarrow> text_lines before = text_lines after"
proof -
  let ?o = "text_lines before" and ?n = "text_lines after"
  assume c: "changed_lines before after = ([], [])"
  show "?o = ?n"
  proof (cases "int (length ?o) * int (length ?n) > MAX_DIFF_CELLS")
    case True
    with c show ?thesis by (simp add: changed_lines_def Let_def)
  next
    case False
    with c diff_walk_exact [of ?o ?n] show ?thesis by (auto simp: changed_lines_def Let_def diff_of_def)
  qed
qed

text \<open>A line the old text does not have is among the added ones.\<close>

lemma changed_lines_added:
  assumes "changed_lines before after = (added, removed)" and "l \<in> set (text_lines after)" "l \<notin> set (text_lines before)"
  shows "l \<in> set added"
proof (cases "int (length (text_lines before)) * int (length (text_lines after)) > MAX_DIFF_CELLS")
  case True
  with assms show ?thesis by (auto simp: changed_lines_def Let_def)
next
  case False
  from diff_walk_exact [of "text_lines before" "text_lines after"] False assms(1) obtain kept where
    "text_lines after \<in> shuffles kept added" "text_lines before \<in> shuffles kept removed"
    by (auto simp: changed_lines_def Let_def diff_of_def)
  note s = set_shuffles [OF this(1)] set_shuffles [OF this(2)]
  with assms(2,3) show ?thesis by auto
qed

end
