(* ===== verification/Scope_Closure.thy ===== *)
theory Scope_Closure
  imports Line_Diff
begin

text \<open>
  The worklist of the local-action scope computes a closure and ends: what it collects is exactly the least set
  that holds what \<^verbatim>\<open>.github/\<close> at X names and what every collected directory names in turn. The gate
  built on it therefore misses no path CI at X runs.
\<close>

section \<open>What an entry contributes\<close>

definition text_refs :: "string \<Rightarrow> string set" where
  "text_refs text = {d. Ref_local d \<in> set (uses_refs text)}"

definition file_text :: "git_reads \<Rightarrow> string \<Rightarrow> string \<Rightarrow> string" where
  "file_text g x path = unwrap_or (readable g x path) []"

definition ci_adds :: "git_reads \<Rightarrow> string \<Rightarrow> string \<times> string \<Rightarrow> string set" where
  "ci_adds g x e = (case e of (mode, path) \<Rightarrow>
     if mode = SYMLINK_MODE then {link_entry g x path} else text_refs (file_text g x path))"

definition dir_adds :: "git_reads \<Rightarrow> string \<Rightarrow> string \<Rightarrow> string \<times> string \<Rightarrow> string set" where
  "dir_adds g x dir e = (case e of (mode, path) \<Rightarrow>
     if mode = SYMLINK_MODE then {link_entry g x path}
     else if is_action_file dir path then text_refs (file_text g x path) \<union> set (fst (runs_paths (file_text g x path) dir))
     else {})"

text \<open>An entry that makes the scope the whole repository.\<close>

definition text_unparsed :: "git_reads \<Rightarrow> string \<Rightarrow> string \<Rightarrow> bool" where
  "text_unparsed g x path \<longleftrightarrow> readable g x path = None \<or> Ref_unparsed \<in> set (uses_refs (file_text g x path))"

definition ci_unparsed :: "git_reads \<Rightarrow> string \<Rightarrow> string \<times> string \<Rightarrow> bool" where
  "ci_unparsed g x e \<longleftrightarrow> fst e \<noteq> SYMLINK_MODE \<and> text_unparsed g x (snd e)"

definition dir_unparsed :: "git_reads \<Rightarrow> string \<Rightarrow> string \<Rightarrow> string \<times> string \<Rightarrow> bool" where
  "dir_unparsed g x dir e \<longleftrightarrow> fst e \<noteq> SYMLINK_MODE \<and> is_action_file dir (snd e)
     \<and> (text_unparsed g x (snd e) \<or> snd (runs_paths (file_text g x (snd e)) dir))"

section \<open>Steps of the worklist\<close>

definition grows :: "collector \<Rightarrow> collector \<Rightarrow> string set \<Rightarrow> bool \<Rightarrow> bool" where
  "grows c d A b \<longleftrightarrow> ls_entries d = ls_entries c \<union> A
     \<and> set (co_pending d) = set (co_pending c) \<union> (A - ls_entries c - {[]})
     \<and> (A \<subseteq> ls_entries c \<longrightarrow> co_pending d = co_pending c) \<and> ls_unparsed d = (ls_unparsed c \<or> b)"

lemma grows_refl [simp]: "grows c c {} False"
  by (simp add: grows_def)

lemma grows_trans: "grows c d A a \<Longrightarrow> grows d e B b \<Longrightarrow> grows c e (A \<union> B) (a \<or> b)"
  unfolding grows_def by auto

lemma grows_add_entry: "grows c (add_entry e c) {e} False"
  by (auto simp: grows_def add_entry_def)

lemma grows_set_unparsed: "grows c (set_unparsed c) {} True"
  by (auto simp: grows_def set_unparsed_def)

lemma grows_fold:
  assumes "\<And>x c. grows c (f x c) (A x) (b x)"
  shows "grows c (fold f xs c) (\<Union>x \<in> set xs. A x) (\<exists>x \<in> set xs. b x)"
proof (induction xs arbitrary: c)
  case (Cons x xs)
  from grows_trans [OF assms Cons] show ?case by simp
qed simp

lemma grows_add_entries: "grows c (add_entries es c) (set es) False"
  using grows_fold [of add_entry "\<lambda>e. {e}" "\<lambda>_. False"] by (simp add: add_entries_def grows_add_entry)

lemma grows_add_reference:
  "grows c (add_reference r c) (case r of Ref_local d \<Rightarrow> {d} | _ \<Rightarrow> {}) (r = Ref_unparsed)"
  by (cases r) (simp_all add: add_reference_def grows_add_entry grows_set_unparsed)

lemma grows_add_uses: "grows c (add_uses text c) (text_refs text) (Ref_unparsed \<in> set (uses_refs text))"
proof -
  have "(\<Union>r \<in> set (uses_refs text). case r of Ref_local d \<Rightarrow> {d} | _ \<Rightarrow> {}) = text_refs text"
    by (auto simp: text_refs_def split: action_ref.splits)
  moreover have "(\<exists>r \<in> set (uses_refs text). r = Ref_unparsed) = (Ref_unparsed \<in> set (uses_refs text))" by blast
  ultimately show ?thesis
    using grows_fold [of add_reference, OF grows_add_reference, of c "uses_refs text"] by (simp add: add_uses_def)
qed

lemma read_file_split:
  "read_file g x path c = (file_text g x path, if readable g x path = None then set_unparsed c else c)"
  by (auto simp: read_file_def file_text_def split: option.split)

lemma grows_read_uses:
  "grows c (case read_file g x path c of (text, c1) \<Rightarrow> add_uses text c1) (text_refs (file_text g x path)) (text_unparsed g x path)"
proof -
  have "grows c (if readable g x path = None then set_unparsed c else c) {} (readable g x path = None)"
    by (cases "readable g x path") (simp_all add: grows_set_unparsed)
  from grows_trans [OF this grows_add_uses] show ?thesis by (simp add: read_file_split text_unparsed_def)
qed

lemma grows_scan_entry: "grows c (scan_ci_entry g x e c) (ci_adds g x e) (ci_unparsed g x e)"
  by (cases e) (simp add: scan_ci_entry_def ci_adds_def ci_unparsed_def add_link_def grows_add_entry grows_read_uses)

lemma grows_visit_entry: "grows c (visit_entry g x dir e c) (dir_adds g x dir e) (dir_unparsed g x dir e)"
proof (cases e)
  case (Pair mode path)
  obtain ps u where r: "runs_paths (file_text g x path) dir = (ps, u)" by fastforce
  let ?c1 = "if readable g x path = None then set_unparsed c else c"
  let ?c2 = "add_uses (file_text g x path) ?c1"
  have 1: "grows c ?c2 (text_refs (file_text g x path)) (text_unparsed g x path)"
    using grows_read_uses [of c g x path] by (simp add: read_file_split)
  have 2: "grows ?c2 (?c2\<lparr>ls_unparsed := ls_unparsed ?c2 \<or> u\<rparr>) {} u" by (simp add: grows_def)
  from grows_trans [OF grows_trans [OF 1 2] grows_add_entries, of ps] show ?thesis
    by (simp add: Pair visit_entry_def dir_adds_def dir_unparsed_def add_link_def grows_add_entry read_file_split r Let_def)
qed

lemma grows_visit:
  assumes "visit g x dir c = Inr d" and "gr_tree_entries g x dir = Inr es"
  shows "grows c d (\<Union>e \<in> set es. dir_adds g x dir e) (\<exists>e \<in> set es. dir_unparsed g x dir e)"
  using assms grows_fold [of "visit_entry g x dir", OF grows_visit_entry] by (auto simp: visit_def)

lemma grows_scan:
  assumes "scan_ci_dir g x c = Inr d" and "gr_tree_entries g x ''.github'' = Inr es"
  shows "grows c d (\<Union>e \<in> set es. ci_adds g x e) (\<exists>e \<in> set es. ci_unparsed g x e)"
  using assms grows_fold [of "scan_ci_entry g x", OF grows_scan_entry] by (auto simp: scan_ci_dir_def)

section \<open>The closure\<close>

inductive_set ci_scope :: "git_reads \<Rightarrow> string \<Rightarrow> string set \<Rightarrow> string set" for g x extra where
  named: "gr_tree_entries g x ''.github'' = Inr es \<Longrightarrow> e \<in> set es \<Longrightarrow> d \<in> ci_adds g x e \<Longrightarrow> d \<in> ci_scope g x extra"
| linked: "d \<in> extra \<Longrightarrow> d \<in> ci_scope g x extra"
| inner: "dir \<in> ci_scope g x extra \<Longrightarrow> dir \<noteq> [] \<Longrightarrow> gr_tree_entries g x dir = Inr es \<Longrightarrow> e \<in> set es
    \<Longrightarrow> d \<in> dir_adds g x dir e \<Longrightarrow> d \<in> ci_scope g x extra"

text \<open>A directory was visited: what it names is collected and what it leaves unreadable is noted.\<close>

definition visited :: "git_reads \<Rightarrow> string \<Rightarrow> collector \<Rightarrow> string \<Rightarrow> bool" where
  "visited g x c dir \<longleftrightarrow> (\<exists>es. gr_tree_entries g x dir = Inr es \<and> (\<forall>e \<in> set es. dir_adds g x dir e \<subseteq> ls_entries c)
     \<and> ((\<exists>e \<in> set es. dir_unparsed g x dir e) \<longrightarrow> ls_unparsed c))"

definition worklist :: "git_reads \<Rightarrow> string \<Rightarrow> string set \<Rightarrow> collector \<Rightarrow> bool" where
  "worklist g x extra c \<longleftrightarrow> ls_entries c \<subseteq> ci_scope g x extra \<and> set (co_pending c) \<subseteq> ls_entries c - {[]}
     \<and> (\<forall>e \<in> ls_entries c. e = [] \<or> e \<in> set (co_pending c) \<or> visited g x c e)"

lemma visited_grows: "visited g x c dir \<Longrightarrow> grows c d A b \<Longrightarrow> visited g x d dir"
  unfolding visited_def grows_def by blast

lemma worklist_grows:
  assumes "worklist g x extra c" and "grows c d A b" and "A \<subseteq> ci_scope g x extra"
  shows "worklist g x extra d"
  using assms visited_grows [OF _ assms(2)] unfolding worklist_def grows_def by auto

lemma worklist_visit:
  assumes "worklist g x extra c" and "co_pending c = dir # rest" and "visit g x dir (c\<lparr>co_pending := rest\<rparr>) = Inr d"
  shows "worklist g x extra d"
proof -
  from assms(3) obtain es where es: "gr_tree_entries g x dir = Inr es" by (auto simp: visit_def)
  let ?A = "\<Union>e \<in> set es. dir_adds g x dir e" and ?b = "\<exists>e \<in> set es. dir_unparsed g x dir e"
  note gr = grows_visit [OF assms(3) es]
  from assms(1,2) have dir: "dir \<in> ci_scope g x extra" "dir \<noteq> []" "dir \<in> ls_entries c" by (auto simp: worklist_def)
  have A: "?A \<subseteq> ci_scope g x extra" using dir es by (blast intro: ci_scope.inner)
  have v: "visited g x d dir" using gr es unfolding visited_def grows_def by fastforce
  have keep: "visited g x (c\<lparr>co_pending := rest\<rparr>) e = visited g x c e" for e by (simp add: visited_def)
  have "visited g x c e \<Longrightarrow> visited g x d e" for e using visited_grows [OF _ gr] by (simp add: keep)
  with assms(1,2) gr A v show ?thesis unfolding worklist_def grows_def by auto
qed

lemma drain_rule:
  assumes "\<And>loop g x c r. (\<And>g x c r. loop g x c = Some r \<Longrightarrow> P g x c r)
      \<Longrightarrow> (case co_pending c of [] \<Rightarrow> Some (Inr c)
           | dir # rest \<Rightarrow> (case visit g x dir (c\<lparr>co_pending := rest\<rparr>) of Inl e \<Rightarrow> Some (Inl e) | Inr c1 \<Rightarrow> loop g x c1)) = Some r
      \<Longrightarrow> P g x c r"
    and "drain g x c = Some r"
  shows "P g x c r"
proof -
  have "(case ((g, x), c) of (y, ya) \<Rightarrow> (case y of (z, za) \<Rightarrow> P z za) ya) r"
  proof (rule drain.raw_induct)
    show "(case ((g, x), c) of (y, ya) \<Rightarrow> (case y of (z, za) \<Rightarrow> drain z za) ya) = Some r"
      unfolding prod.case by (rule assms(2))
  qed (rule assms(1))
  then show ?thesis unfolding prod.case .
qed

lemma drain_result:
  assumes "drain g x c = Some r"
  shows "\<forall>d. r = Inr d \<longrightarrow> worklist g x extra c \<longrightarrow> worklist g x extra d \<and> co_pending d = []
     \<and> ls_entries c \<subseteq> ls_entries d \<and> (ls_unparsed c \<longrightarrow> ls_unparsed d)"
proof (rule drain_rule [OF _ assms])
  fix loop :: "git_reads \<Rightarrow> string \<Rightarrow> collector \<Rightarrow> collector git option" and g x c r
  assume IH: "\<And>g x c r. loop g x c = Some r \<Longrightarrow> \<forall>d. r = Inr d \<longrightarrow> worklist g x extra c \<longrightarrow> worklist g x extra d \<and> co_pending d = []
     \<and> ls_entries c \<subseteq> ls_entries d \<and> (ls_unparsed c \<longrightarrow> ls_unparsed d)"
    and body: "(case co_pending c of [] \<Rightarrow> Some (Inr c)
      | dir # rest \<Rightarrow> (case visit g x dir (c\<lparr>co_pending := rest\<rparr>) of Inl e \<Rightarrow> Some (Inl e) | Inr c1 \<Rightarrow> loop g x c1)) = Some r"
  show "\<forall>d. r = Inr d \<longrightarrow> worklist g x extra c \<longrightarrow> worklist g x extra d \<and> co_pending d = []
     \<and> ls_entries c \<subseteq> ls_entries d \<and> (ls_unparsed c \<longrightarrow> ls_unparsed d)"
  proof (intro allI impI)
    fix d assume r: "r = Inr d" and w: "worklist g x extra c"
    show "worklist g x extra d \<and> co_pending d = [] \<and> ls_entries c \<subseteq> ls_entries d \<and> (ls_unparsed c \<longrightarrow> ls_unparsed d)"
    proof (cases "co_pending c")
      case Nil
      with body r w show ?thesis by auto
    next
      case (Cons dir rest)
      with body r obtain c1 where v: "visit g x dir (c\<lparr>co_pending := rest\<rparr>) = Inr c1" and s: "loop g x c1 = Some r"
        by (auto split: sum.splits)
      from v obtain es where "gr_tree_entries g x dir = Inr es" by (auto simp: visit_def)
      from grows_visit [OF v this] have "ls_entries c \<subseteq> ls_entries c1" "ls_unparsed c \<longrightarrow> ls_unparsed c1" by (auto simp: grows_def)
      with IH [OF s] worklist_visit [OF w Cons v] r show ?thesis by blast
    qed
  qed
qed

lemmas drain_worklist = drain_result [rule_format, OF _ refl]

text \<open>A finished worklist is closed.\<close>

lemma worklist_closed:
  assumes "worklist g x extra c" and "co_pending c = []" and "extra \<subseteq> ls_entries c"
    and ci: "gr_tree_entries g x ''.github'' = Inr es" "\<forall>e \<in> set es. ci_adds g x e \<subseteq> ls_entries c"
  shows "ls_entries c = ci_scope g x extra"
proof
  show "ls_entries c \<subseteq> ci_scope g x extra" using assms(1) by (simp add: worklist_def)
  show "ci_scope g x extra \<subseteq> ls_entries c"
  proof
    fix d assume "d \<in> ci_scope g x extra"
    then show "d \<in> ls_entries c"
    proof induction
      case (named es' e d)
      with ci show ?case by auto
    next
      case (inner dir es' e d)
      with assms(1,2) have "visited g x c dir" by (auto simp: worklist_def)
      with inner show ?case by (auto simp: visited_def)
    qed (use assms(3) in auto)
  qed
qed

section \<open>The whole collection\<close>

definition followed :: "git_reads \<Rightarrow> string \<Rightarrow> string list \<Rightarrow> string set" where
  "followed g r changed = {link_entry g r p | p. p \<in> set changed \<and>
     (\<exists>es. gr_tree_entries g r p = Inr es \<and> (SYMLINK_MODE, p) \<in> set es)}"

lemma ci_scope_mono: "A \<subseteq> B \<Longrightarrow> ci_scope g x A \<subseteq> ci_scope g x B"
proof
  fix d assume "A \<subseteq> B" "d \<in> ci_scope g x A"
  from this(2) show "d \<in> ci_scope g x B"
    by induction (use \<open>A \<subseteq> B\<close> in \<open>auto intro: ci_scope.intros\<close>)
qed

lemma worklist_mono: "worklist g x A c \<Longrightarrow> A \<subseteq> B \<Longrightarrow> worklist g x B c"
  using ci_scope_mono [of A B g x] by (auto simp: worklist_def)

lemma follow_link_grows:
  assumes "follow_link g r p c = Inr d"
  shows "\<exists>A \<subseteq> followed g r [p]. grows c d A False"
proof -
  from assms consider "d = c" | "d = add_entry (link_entry g r p) c" "link_entry g r p \<in> followed g r [p]"
    by (auto simp: follow_link_def add_link_def followed_def list_ex_iff split: if_splits)
  then show ?thesis
  proof cases
    case 1
    then show ?thesis using grows_refl [of c] by blast
  next
    case 2
    then show ?thesis using grows_add_entry [of c "link_entry g r p"] by blast
  qed
qed

lemma follow_links_grows:
  "follow_changed_links g r changed c = Inr d \<Longrightarrow> \<exists>A \<subseteq> followed g r changed. grows c d A False"
  unfolding follow_changed_links_def
proof (induction changed arbitrary: c)
  case (Cons p ps)
  then obtain c1 where 1: "follow_link g r p c = Inr c1" and 2: "fold_res (follow_link g r) ps c1 = Inr d" by auto
  from follow_link_grows [OF 1] Cons.IH [OF 2] obtain A B where
    A: "A \<subseteq> followed g r [p]" "grows c c1 A False" and B: "B \<subseteq> followed g r ps" "grows c1 d B False" by blast
  have "followed g r [p] \<union> followed g r ps \<subseteq> followed g r (p # ps)" by (auto simp: followed_def)
  with A(1) B(1) have "A \<union> B \<subseteq> followed g r (p # ps)" by blast
  moreover have "grows c d (A \<union> B) False" using grows_trans [OF A(2) B(2)] by simp
  ultimately show ?case by blast
next
  case Nil
  then have "d = c" by simp
  then show ?case using grows_refl [of c] by blast
qed

lemma collect_scope:
  assumes "collect g x r changed = Some (Inr s)"
  obtains A es where "A \<subseteq> followed g r changed" "ls_entries s = ci_scope g x A" "gr_tree_entries g x ''.github'' = Inr es"
    "\<And>e. e \<in> set es \<Longrightarrow> ci_unparsed g x e \<Longrightarrow> ls_unparsed s"
    "\<And>dir ds e. dir \<in> ci_scope g x A \<Longrightarrow> dir \<noteq> [] \<Longrightarrow> gr_tree_entries g x dir = Inr ds \<Longrightarrow> e \<in> set ds
       \<Longrightarrow> dir_unparsed g x dir e \<Longrightarrow> ls_unparsed s"
proof -
  from assms obtain c1 c2 c3 c4 where
    c1: "scan_ci_dir g x empty_collector = Inr c1" and c2: "drain g x c1 = Some (Inr c2)"
    and c3: "follow_changed_links g r changed c2 = Inr c3" and c4: "drain g x c3 = Some (Inr c4)"
    and s: "s = local_scope.truncate c4"
    by (auto simp: collect_def split: sum.splits option.splits)
  from c1 obtain es where es: "gr_tree_entries g x ''.github'' = Inr es" by (auto simp: scan_ci_dir_def)
  note gr1 = grows_scan [OF c1 es]
  from follow_links_grows [OF c3] obtain A where A: "A \<subseteq> followed g r changed" and gr3: "grows c2 c3 A False" by blast
  have "worklist g x A empty_collector" by (simp add: worklist_def empty_collector_def)
  moreover have "(\<Union>e \<in> set es. ci_adds g x e) \<subseteq> ci_scope g x A" using es by (blast intro: ci_scope.named)
  ultimately have "worklist g x A c1" by (rule worklist_grows [OF _ gr1])
  from drain_worklist [OF c2 this] have w2: "worklist g x A c2" "ls_entries c1 \<subseteq> ls_entries c2" "ls_unparsed c1 \<longrightarrow> ls_unparsed c2" by auto
  have "A \<subseteq> ci_scope g x A" by (blast intro: ci_scope.linked)
  from drain_worklist [OF c4 worklist_grows [OF w2(1) gr3 this]] have w4: "worklist g x A c4" "co_pending c4 = []"
    "ls_entries c3 \<subseteq> ls_entries c4" "ls_unparsed c3 \<longrightarrow> ls_unparsed c4" by auto
  have sub: "ls_entries c1 \<subseteq> ls_entries c4" "A \<subseteq> ls_entries c4" "ls_unparsed c1 \<longrightarrow> ls_unparsed c4"
    using w2 w4 gr3 by (auto simp: grows_def)
  have "ls_entries c4 = ci_scope g x A"
    by (rule worklist_closed [OF w4(1,2) sub(2) es]) (use gr1 sub(1) in \<open>auto simp: grows_def\<close>)
  moreover have "ls_unparsed c4" if "dir \<in> ci_scope g x A" "dir \<noteq> []" "gr_tree_entries g x dir = Inr ds" "e \<in> set ds"
      "dir_unparsed g x dir e" for dir ds e
    using that w4 calculation by (auto simp: worklist_def visited_def)
  moreover have "ls_unparsed c4" if "e \<in> set es" "ci_unparsed g x e" for e
    using that gr1 sub(3) by (auto simp: grows_def)
  ultimately show ?thesis using that [OF A _ es] s by (simp add: local_scope.defs)
qed

end
