(* ===== verification/Gate_Properties.thy ===== *)
theory Gate_Properties
  imports Scope_Closure
begin

text \<open>
  The properties of the privilege gate: its search ends on every finite tree, it names every changed path that
  lies where CI at X runs code, and its line diff is as small as a diff can be.
\<close>

section \<open>The search ends\<close>

lemma dir_adds_action: "dir_adds g x dir e \<noteq> {} \<Longrightarrow> fst e = SYMLINK_MODE \<or> prefix dir (snd e)"
  by (cases e) (auto simp: dir_adds_def is_action_file_def strip_prefix_def is_some_and_def split: if_splits option.splits)

lemma dir_adds_link: "fst e = SYMLINK_MODE \<Longrightarrow> dir_adds g x dir e = {link_entry g x (snd e)}"
  by (cases e) (simp add: dir_adds_def)

definition contributions :: "git_reads \<Rightarrow> string \<Rightarrow> (string \<times> string) set \<Rightarrow> string set" where
  "contributions g x U = (\<Union>e \<in> U. \<Union>dir \<in> set (prefixes (snd e)). dir_adds g x dir e)"

lemma contributions_finite: "finite U \<Longrightarrow> finite (contributions g x U)"
proof -
  have "finite (text_refs t)" for t
  proof -
    have "text_refs t \<subseteq> (\<lambda>r. case r of Ref_local d \<Rightarrow> d | _ \<Rightarrow> []) ` set (uses_refs t)" by (force simp: text_refs_def)
    then show ?thesis by (rule finite_subset) simp
  qed
  then have "finite (dir_adds g x dir e)" for dir e by (cases e) (simp add: dir_adds_def)
  then show "finite U \<Longrightarrow> finite (contributions g x U)" by (simp add: contributions_def)
qed

lemma contributions_all: "e \<in> U \<Longrightarrow> dir_adds g x dir e \<subseteq> contributions g x U"
proof
  fix d assume e: "e \<in> U" and d: "d \<in> dir_adds g x dir e"
  then consider "fst e = SYMLINK_MODE" | "prefix dir (snd e)" using dir_adds_action [of g x dir e] by blast
  then show "d \<in> contributions g x U"
  proof cases
    case 1
    with d have "d \<in> dir_adds g x [] e" by (simp add: dir_adds_link)
    moreover have "[] \<in> set (prefixes (snd e))" by simp
    ultimately show ?thesis unfolding contributions_def using e by blast
  next
    case 2
    with d e show ?thesis unfolding contributions_def by (intro UN_I [of e] UN_I [of dir]) simp_all
  qed
qed

text \<open>A Git tree has finitely many entries.\<close>

definition finite_tree :: "git_reads \<Rightarrow> string \<Rightarrow> (string \<times> string) set \<Rightarrow> bool" where
  "finite_tree g x U \<longleftrightarrow> finite U \<and> (\<forall>dir es. gr_tree_entries g x dir = Inr es \<longrightarrow> set es \<subseteq> U)"

lemma drain_ends:
  assumes "finite_tree g x U"
  shows "drain g x c \<noteq> None"
proof (induction c rule: wf_induct_rule [OF wf_measures, of "[\<lambda>c. card (contributions g x U - ls_entries c), \<lambda>c. length (co_pending c)]"])
  case (1 c)
  show ?case
  proof (cases "co_pending c")
    case Nil
    then show ?thesis by (simp add: drain.simps)
  next
    case (Cons dir rest)
    show ?thesis
    proof (cases "visit g x dir (c\<lparr>co_pending := rest\<rparr>)")
      case (Inl e)
      with Cons show ?thesis by (simp add: drain.simps)
    next
      case (Inr d)
      then obtain es where es: "gr_tree_entries g x dir = Inr es" by (auto simp: visit_def)
      let ?A = "\<Union>e \<in> set es. dir_adds g x dir e"
      note gr = grows_visit [OF Inr es]
      have "set es \<subseteq> U" using assms es by (simp add: finite_tree_def)
      then have A: "?A \<subseteq> contributions g x U" by (intro UN_least contributions_all) (erule subsetD)
      have e: "ls_entries (c\<lparr>co_pending := rest\<rparr>) = ls_entries c" "co_pending (c\<lparr>co_pending := rest\<rparr>) = rest" by simp_all
      note facts = gr [unfolded grows_def e]
      note entries = facts [THEN conjunct1] and pending = facts [THEN conjunct2, THEN conjunct2, THEN conjunct1]
      have "card (contributions g x U - ls_entries d) < card (contributions g x U - ls_entries c)" if new: "\<not> ?A \<subseteq> ls_entries c"
      proof (rule psubset_card_mono)
        show "finite (contributions g x U - ls_entries c)" by (rule finite_Diff) (rule contributions_finite, use assms in \<open>simp add: finite_tree_def\<close>)
        obtain a where a: "a \<in> ?A" "a \<notin> ls_entries c" using new by (meson subsetI)
        have "a \<in> contributions g x U" using A a(1) by (rule subsetD)
        with a have "a \<in> contributions g x U - ls_entries c" "a \<notin> contributions g x U - ls_entries d"
          by (simp_all only: entries Diff_iff Un_iff simp_thms)
        moreover have "contributions g x U - ls_entries d \<subseteq> contributions g x U - ls_entries c"
          unfolding entries by (rule Diff_mono) simp_all
        ultimately show "contributions g x U - ls_entries d \<subset> contributions g x U - ls_entries c" by (metis psubset_eq)
      qed
      moreover have "ls_entries d = ls_entries c \<and> length (co_pending d) < length (co_pending c)" if "?A \<subseteq> ls_entries c"
        using entries pending that Cons by (simp add: Un_absorb2)
      ultimately have "(d, c) \<in> measures [\<lambda>c. card (contributions g x U - ls_entries c), \<lambda>c. length (co_pending c)]"
        by (cases "?A \<subseteq> ls_entries c") simp_all
      then have "drain g x d \<noteq> None" by (rule 1)
      with Cons Inr show ?thesis by (subst drain.simps) simp
    qed
  qed
qed

lemma collect_ends:
  assumes "finite_tree g x U"
  shows "collect g x r changed \<noteq> None"
  by (simp add: collect_def drain_ends [OF assms] split: sum.split option.split)

text \<open>C37. The gate always answers: on every target whose tree has finitely many entries, however its actions and links
  refer to each other (cycles included), the search for local actions ends and the findings are returned or
  an error of Git is.\<close>

theorem privilege_search_ends:
  assumes "finite_tree g x U"
  shows "\<exists>out. findings g x r required = Some out"
  by (simp add: findings_def collect_ends [OF assms] split: sum.split option.split)

text \<open>Two actions that refer to each other: the search from the workflow still ends.\<close>

definition ex_reads :: git_reads where
  "ex_reads = \<lparr>gr_tree_entries = (\<lambda>rv dir.
       if dir = ''.github'' then Inr [(''100644'', ''.github/w.yml'')]
       else if dir = ''a'' then Inr [(''100644'', ''a/action.yml'')]
       else if dir = ''b'' then Inr [(''100644'', ''b/action.yml'')] else Inr []),
     gr_file_at = (\<lambda>rv path. Inr (
       if path = ''.github/w.yml'' then Some ''- uses: ./a''
       else if path = ''a/action.yml'' then Some ''- uses: ./b''
       else if path = ''b/action.yml'' then Some ''- uses: ./a''
       else if path = ''b/run.sh'' then Some (if rv = ''x'' then ''echo'' else ''echo $TOKEN'') else None)),
     gr_changed_paths = (\<lambda>x r. Inr [''b/run.sh'', ''doc/x''])\<rparr>"

lemma ex_finite: "finite_tree ex_reads ''x''
    {(''100644'', ''.github/w.yml''), (''100644'', ''a/action.yml''), (''100644'', ''b/action.yml'')}"
  by (auto simp: finite_tree_def ex_reads_def split: if_splits)

theorem privilege_search_ends_witness: "\<exists>out. findings ex_reads ''x'' ''r'' [] = Some out"
  by (rule privilege_search_ends [OF ex_finite])

section \<open>Nothing CI runs escapes\<close>

text \<open>A path below a directory or equal to a file of the scope, as the gate compares them.\<close>

definition below :: "string \<Rightarrow> string \<Rightarrow> bool" where
  "below path e \<longleftrightarrow> e = [] \<or> to_ascii_lowercase path = to_ascii_lowercase e
     \<or> prefix (to_ascii_lowercase e @ ''/'') (to_ascii_lowercase path)"

lemma covers_below: "covers s p \<longleftrightarrow> (\<exists>e \<in> ls_entries s. below p e)"
  by (auto simp: covers_def below_def Let_def starts_with_def to_ascii_lowercase_def)

lemma finding_reasons: "finding_of g x r required s p = Some f \<Longrightarrow> fi_reasons f \<noteq> []"
  by (auto simp: finding_of_def classify_def Let_def split: option.splits if_splits)

lemma findings_scope:
  assumes "findings g x r required = Some (Inr fs)" and "p \<in> changed" "gr_changed_paths g x r = Inr ps" "changed = set ps"
  obtains s where "collect g x r ps = Some (Inr s)"
    "\<And>reason. scope p s = Some reason \<Longrightarrow> \<exists>f \<in> set fs. fi_path f = p \<and> fi_reasons f \<noteq> []"
proof -
  from assms have ne: "ps \<noteq> []" by auto
  with assms obtain s where s: "collect g x r ps = Some (Inr s)" and fs: "fs = List.map_filter (finding_of g x r required s) ps"
    by (auto simp: findings_def split: option.splits sum.splits if_splits)
  have "\<exists>f \<in> set fs. fi_path f = p \<and> fi_reasons f \<noteq> []" if "scope p s = Some reason" for reason
  proof -
    have "finding_of g x r required s p \<noteq> None" by (simp add: finding_of_def that)
    then obtain f where f: "finding_of g x r required s p = Some f" by blast
    then have "fi_path f = p" by (auto simp: finding_of_def split: option.splits)
    note f = f this
    with assms(2,4) have "f \<in> set fs" by (force simp: fs List.map_filter_def)
    with f(2) finding_reasons [OF f(1)] show ?thesis by blast
  qed
  with s that show ?thesis by blast
qed

text \<open>C36. The gate misses nothing CI at X runs: a changed path is named, with a reason, whenever it lies under
  \<^verbatim>\<open>.github/\<close> in any letter case or is one of the files that define CI and review, whenever it lies in
  the closure of what the workflows at X use - directly, through other local actions, their scripts, or
  symbolic links - and whenever a workflow or a reached action holds a reference that cannot be read.\<close>

theorem gate_misses_nothing:
  assumes "findings g x r required = Some (Inr fs)" and "gr_changed_paths g x r = Inr changed" and "p \<in> set changed"
    and "is_ci_definition (to_ascii_lowercase p)
      \<or> (\<exists>e \<in> ci_scope g x {}. below p e)
      \<or> (\<exists>es e. gr_tree_entries g x ''.github'' = Inr es \<and> e \<in> set es \<and> ci_unparsed g x e)
      \<or> (\<exists>dir es e. dir \<in> ci_scope g x {} \<and> dir \<noteq> [] \<and> gr_tree_entries g x dir = Inr es \<and> e \<in> set es \<and> dir_unparsed g x dir e)"
  shows "\<exists>f \<in> set fs. fi_path f = p \<and> fi_reasons f \<noteq> []"
proof -
  from findings_scope [OF assms(1,3,2) refl] obtain s where s: "collect g x r changed = Some (Inr s)"
    and named: "\<And>reason. scope p s = Some reason \<Longrightarrow> \<exists>f \<in> set fs. fi_path f = p \<and> fi_reasons f \<noteq> []" by blast
  obtain A es where "A \<subseteq> followed g r changed" and A: "ls_entries s = ci_scope g x A" "gr_tree_entries g x ''.github'' = Inr es"
    and u1: "\<And>e. e \<in> set es \<Longrightarrow> ci_unparsed g x e \<Longrightarrow> ls_unparsed s"
    and u2: "\<And>dir ds e. dir \<in> ci_scope g x A \<Longrightarrow> dir \<noteq> [] \<Longrightarrow> gr_tree_entries g x dir = Inr ds \<Longrightarrow> e \<in> set ds
       \<Longrightarrow> dir_unparsed g x dir e \<Longrightarrow> ls_unparsed s"
    by (rule collect_scope [OF s]) (rule that; assumption)
  have sub: "ci_scope g x {} \<subseteq> ci_scope g x A" by (rule ci_scope_mono) simp
  have "is_ci_definition (to_ascii_lowercase p) \<or> ls_unparsed s \<or> covers s p"
    using assms(4)
  proof (elim disjE exE conjE)
    assume "\<exists>e \<in> ci_scope g x {}. below p e"
    with sub show ?thesis unfolding covers_below A(1) by blast
  next
    fix es' e assume "gr_tree_entries g x ''.github'' = Inr es'" "e \<in> set es'" "ci_unparsed g x e"
    with A(2) u1 show ?thesis by simp
  next
    fix dir ds e assume "dir \<in> ci_scope g x {}" "dir \<noteq> []" "gr_tree_entries g x dir = Inr ds" "e \<in> set ds" "dir_unparsed g x dir e"
    with sub u2 show ?thesis by blast
  qed simp
  then have "\<exists>reason. scope p s = Some reason" by (auto simp: scope_def)
  with named show ?thesis by blast
qed

definition ex_gate :: git_reads where
  "ex_gate = \<lparr>gr_tree_entries = (\<lambda>rv dir.
       if dir = ''.github'' then Inr [(''100644'', ''.github/w.yml'')]
       else if dir = ''b'' then Inr [(''100644'', ''b/run.sh'')] else Inr []),
     gr_file_at = (\<lambda>rv path. Inr (
       if path = ''.github/w.yml'' then Some ''uses: ./b''
       else if path = ''b/run.sh'' then Some (if rv = ''x'' then ''a'' else ''b'') else None)),
     gr_changed_paths = (\<lambda>x r. Inr [''b/run.sh'', ''doc''])\<rparr>"

lemma ex_refs: "uses_refs ''uses: ./b'' = [Ref_local ''b'']"
  by code_simp

lemma ex_scan: "scan_ci_dir ex_gate ''x'' empty_collector = Inr \<lparr>ls_entries = {''b''}, ls_unparsed = False, co_pending = [''b'']\<rparr>"
  by (simp add: scan_ci_dir_def ex_gate_def scan_ci_entry_def SYMLINK_MODE_def read_file_def readable_def add_uses_def ex_refs
     add_reference_def add_entry_def empty_collector_def)

lemma ex_findings: "findings ex_gate ''x'' ''r'' [] = Some (Inr [\<lparr>fi_path = ''b/run.sh'', fi_reasons = [''changed_local_action'']\<rparr>])"
  by code_simp

lemma ex_scope: "''b'' \<in> ci_scope ex_gate ''x'' {}"
  by (rule ci_scope.named [of _ _ "[(''100644'', ''.github/w.yml'')]" "(''100644'', ''.github/w.yml'')"])
     (simp_all add: ex_gate_def ci_adds_def SYMLINK_MODE_def text_refs_def file_text_def readable_def ex_refs)

theorem gate_misses_nothing_witness:
  "\<exists>f \<in> set [\<lparr>fi_path = ''b/run.sh'', fi_reasons = [''changed_local_action'']\<rparr>]. fi_path f = ''b/run.sh'' \<and> fi_reasons f \<noteq> []"
proof (rule gate_misses_nothing [OF ex_findings, of "[''b/run.sh'', ''doc'']"])
  show "gr_changed_paths ex_gate ''x'' ''r'' = Inr [''b/run.sh'', ''doc'']" by (simp add: ex_gate_def)
  have "below ''b/run.sh'' ''b''" by code_simp
  with ex_scope show "is_ci_definition (to_ascii_lowercase ''b/run.sh'')
      \<or> (\<exists>e \<in> ci_scope ex_gate ''x'' {}. below ''b/run.sh'' e)
      \<or> (\<exists>es e. gr_tree_entries ex_gate ''x'' ''.github'' = Inr es \<and> e \<in> set es \<and> ci_unparsed ex_gate ''x'' e)
      \<or> (\<exists>dir es e. dir \<in> ci_scope ex_gate ''x'' {} \<and> dir \<noteq> [] \<and> gr_tree_entries ex_gate ''x'' dir = Inr es
          \<and> e \<in> set es \<and> dir_unparsed ex_gate ''x'' dir e)" by blast
qed simp

section \<open>The diff\<close>

text \<open>C38. The line diff shown to the human is exact and as small as a diff can be: both texts are interleavings of one
  common list of kept lines with the added and the removed lines, and no common subsequence of the two
  texts is longer than what was kept.\<close>

theorem line_diff_minimal:
  assumes "changed_lines before after = (added, removed)"
    and "int (length (text_lines before)) * int (length (text_lines after)) \<le> MAX_DIFF_CELLS"
  shows "\<exists>kept. text_lines after \<in> shuffles kept added \<and> text_lines before \<in> shuffles kept removed
    \<and> (\<forall>zs. subseq zs (text_lines before) \<and> subseq zs (text_lines after) \<longrightarrow> length zs \<le> length kept)"
proof -
  from diff_walk_exact [of "text_lines before" "text_lines after"] assms obtain kept where
    "text_lines after \<in> shuffles kept added" "text_lines before \<in> shuffles kept removed"
    "length kept = lcs_len (text_lines before) (text_lines after)"
    by (auto simp: changed_lines_def Let_def diff_of_def)
  then show ?thesis using lcs_len_greatest by metis
qed

lemma ex_diff: "changed_lines (''a'' @ [CHR 0x0A] @ ''b'' @ [CHR 0x0A] @ ''c'') (''b'' @ [CHR 0x0A] @ ''x'' @ [CHR 0x0A] @ ''c'') = ([''x''], [''a''])"
  by code_simp

lemma ex_diff_lines: "text_lines (''a'' @ [CHR 0x0A] @ ''b'' @ [CHR 0x0A] @ ''c'') = [''a'', ''b'', ''c'']"
  "text_lines (''b'' @ [CHR 0x0A] @ ''x'' @ [CHR 0x0A] @ ''c'') = [''b'', ''x'', ''c'']"
  by code_simp+

theorem line_diff_minimal_witness:
  "\<exists>kept. [''b'', ''x'', ''c''] \<in> shuffles kept [''x''] \<and> [''a'', ''b'', ''c''] \<in> shuffles kept [''a'']
    \<and> (\<forall>zs. subseq zs [''a'', ''b'', ''c''] \<and> subseq zs [''b'', ''x'', ''c''] \<longrightarrow> length zs \<le> length kept)"
  using line_diff_minimal [OF ex_diff] unfolding ex_diff_lines by (simp add: MAX_DIFF_CELLS_def)

end
