(* ===== verification/Git_Text.thy ===== *)
theory Git_Text
  imports Rust_Text
begin

text \<open>
  Text around Git: decoding the bytes a command prints (\<open>String::from_utf8\<close> and \<open>from_utf8_lossy\<close>), the
  further string functions of the standard library its callers use, POSIX paths, and full object ids
  (\<open>crates/local/src/git_workflow.rs\<close>).
\<close>

section \<open>Decoding\<close>

text \<open>
  One step of the decoder on a non-empty input: the bytes it takes and whether they are one character. Of a
  broken sequence it takes the longest part that could still have become a character.
\<close>

definition cont_byte :: "nat \<Rightarrow> bool" where
  "cont_byte n \<longleftrightarrow> 128 \<le> n \<and> n \<le> 191"

definition byte_at :: "string \<Rightarrow> nat \<Rightarrow> nat" where
  "byte_at s i = (if i < length s then of_char (s ! i) else 0)"

definition second_ok :: "nat \<Rightarrow> nat \<Rightarrow> bool" where
  "second_ok a b \<longleftrightarrow>
     (if a = 224 then 160 \<le> b \<and> b \<le> 191
      else if a = 237 then 128 \<le> b \<and> b \<le> 159
      else if a = 240 then 144 \<le> b \<and> b \<le> 191
      else if a = 244 then 128 \<le> b \<and> b \<le> 143
      else cont_byte b)"

definition utf8_width :: "nat \<Rightarrow> nat" where
  "utf8_width a =
     (if a < 128 then 1 else if 194 \<le> a \<and> a \<le> 223 then 2 else if 224 \<le> a \<and> a \<le> 239 then 3
      else if 240 \<le> a \<and> a \<le> 244 then 4 else 0)"

definition utf8_step :: "string \<Rightarrow> nat \<times> bool" where
  "utf8_step s =
     (let a = byte_at s 0; w = utf8_width a in
      if w = 0 then (1, False)
      else if w = 1 then (1, True)
      else if \<not> second_ok a (byte_at s 1) then (1, False)
      else if w = 2 then (2, True)
      else if \<not> cont_byte (byte_at s 2) then (2, False)
      else if w = 3 then (3, True)
      else if \<not> cont_byte (byte_at s 3) then (3, False)
      else (4, True))"

lemma utf8_step_pos: "0 < fst (utf8_step s)"
  by (simp add: utf8_step_def Let_def)

lemma step_pos: "(n, ok) = utf8_step s \<Longrightarrow> 0 < n"
  using utf8_step_pos [of s] by (metis fst_conv)

function from_utf8_lossy :: "string \<Rightarrow> string" where
  "from_utf8_lossy [] = []"
| "from_utf8_lossy (c # s) =
     (let (n, ok) = utf8_step (c # s) in
      (if ok then take n (c # s) else [CHR 0xEF, CHR 0xBF, CHR 0xBD]) @ from_utf8_lossy (drop n (c # s)))"
  by pat_completeness auto
termination by (relation "measure length") (auto dest: step_pos)

function is_utf8 :: "string \<Rightarrow> bool" where
  "is_utf8 [] = True"
| "is_utf8 (c # s) = (let (n, ok) = utf8_step (c # s) in ok \<and> is_utf8 (drop n (c # s)))"
  by pat_completeness auto
termination by (relation "measure length") (auto dest: step_pos)

lemma lossy_utf8: "is_utf8 s \<Longrightarrow> from_utf8_lossy s = s"
  by (induction s rule: is_utf8.induct) (auto simp: Let_def split: prod.splits if_splits)

section \<open>Splitting and cutting\<close>

definition split_once_text :: "string \<Rightarrow> string \<Rightarrow> (string \<times> string) option" where
  "split_once_text p s = map_option (\<lambda>i. (take i s, drop (i + length p) s)) (find_from p s 0)"

text \<open>\<open>split_once(char::is_whitespace)\<close>: the text before and after the first white space character.\<close>

fun split_once_ws :: "string \<Rightarrow> (string \<times> string) option" where
  "split_once_ws [] = None"
| "split_once_ws [a] = (if ascii_ws a then Some ([], []) else None)"
| "split_once_ws [a, b] =
     (if ascii_ws a then Some ([], [b])
      else if ws2 (of_char a) (of_char b) then Some ([], [])
      else map_option (\<lambda>(x, y). (a # x, y)) (split_once_ws [b]))"
| "split_once_ws (a # b # c # s) =
     (if ascii_ws a then Some ([], b # c # s)
      else if ws2 (of_char a) (of_char b) then Some ([], c # s)
      else if ws3 (of_char a) (of_char b) (of_char c) then Some ([], s)
      else map_option (\<lambda>(x, y). (a # x, y)) (split_once_ws (b # c # s)))"

text \<open>\<open>trim_end_matches\<close> for a text pattern.\<close>

function trim_end_text :: "string \<Rightarrow> string \<Rightarrow> string" where
  "trim_end_text p s =
     (if p \<noteq> [] \<and> suffix p s then trim_end_text p (take (length s - length p) s) else s)"
  by auto
termination by (relation "measure (length o snd)") (auto simp: suffix_def)

declare trim_end_text.simps [simp del]

text \<open>\<open>splitn(n, c)\<close>: at most \<open>n\<close> pieces, the last one unsplit.\<close>

fun splitn :: "nat \<Rightarrow> char \<Rightarrow> string \<Rightarrow> string list" where
  "splitn 0 c s = []"
| "splitn (Suc 0) c s = [s]"
| "splitn (Suc (Suc n)) c s =
     (case split_once c s of None \<Rightarrow> [s] | Some (a, b) \<Rightarrow> a # splitn (Suc n) c b)"

text \<open>The text cut to at most \<open>n\<close> bytes on a character boundary.\<close>

fun cut_at :: "nat \<Rightarrow> string \<Rightarrow> nat" where
  "cut_at 0 s = 0"
| "cut_at (Suc n) s = (if length s \<le> Suc n \<or> \<not> cont_byte (byte_at s (Suc n)) then Suc n else cut_at n s)"

text \<open>Decimal text.\<close>

fun show_nat :: "nat \<Rightarrow> string" where
  "show_nat n = (if n < 10 then [char_of (48 + n)] else show_nat (n div 10) @ [char_of (48 + n mod 10)])"

declare show_nat.simps [simp del]

definition show_int :: "int \<Rightarrow> string" where
  "show_int i = (if i < 0 then CHR ''-'' # show_nat (nat (- i)) else show_nat (nat i))"

text \<open>Decimal text is unambiguous: its value can be read back.\<close>

definition digits_value :: "string \<Rightarrow> nat" where
  "digits_value s = foldl (\<lambda>v c. 10 * v + (of_char c - 48)) 0 s"

lemma digits_value_show: "digits_value (show_nat n) = n"
proof (induction n rule: show_nat.induct)
  case (1 n)
  show ?case
  proof (cases "n < 10")
    case True
    then show ?thesis by (simp add: show_nat.simps digits_value_def)
  next
    case False
    with 1 have "digits_value (show_nat (n div 10)) = n div 10" by blast
    with False show ?thesis by (subst show_nat.simps) (simp add: digits_value_def)
  qed
qed

lemma show_nat_digits: "c \<in> set (show_nat n) \<Longrightarrow> 48 \<le> (of_char c :: nat)"
proof (induction n rule: show_nat.induct)
  case (1 n)
  show ?case
  proof (cases "n < 10")
    case True
    with 1(2) show ?thesis by (simp add: show_nat.simps)
  next
    case False
    with 1 show ?thesis by (subst (asm) (2) show_nat.simps) auto
  qed
qed

lemma show_int_inject: "show_int i = show_int k \<longleftrightarrow> i = k"
proof -
  have n: "show_nat a = show_nat b \<longleftrightarrow> a = b" for a b by (metis digits_value_show)
  have m: "show_nat a \<noteq> CHR ''-'' # xs" for a xs
  proof
    assume "show_nat a = CHR ''-'' # xs"
    then have "48 \<le> (of_char (CHR ''-'') :: nat)" by (intro show_nat_digits [of _ a]) simp
    then show False by simp
  qed
  show ?thesis using m m [symmetric] by (auto simp: show_int_def n eq_nat_nat_iff)
qed

section \<open>Paths and object ids\<close>

text \<open>\<open>Path::join\<close>: an absolute second path replaces the first.\<close>

definition path_join :: "string \<Rightarrow> string \<Rightarrow> string" where
  "path_join a b =
     (if prefix ''/'' b then b else if a = [] \<or> suffix ''/'' a then a @ b else a @ ''/'' @ b)"

definition hex_digit :: "char \<Rightarrow> bool" where
  "hex_digit c \<longleftrightarrow> (let n = (of_char c :: nat) in
     (48 \<le> n \<and> n \<le> 57) \<or> (65 \<le> n \<and> n \<le> 70) \<or> (97 \<le> n \<and> n \<le> 102))"

definition full_oid :: "string \<Rightarrow> bool" where
  "full_oid s \<longleftrightarrow> (length s = 40 \<or> length s = 64) \<and> list_all hex_digit s"

end
