(* ===== verification/Service_Types.thy ===== *)
theory Service_Types
  imports Flake Local_Actions Git_Text
begin

text \<open>
  What the integrator and the service exchange (\<open>crates/integrator/src/service.rs\<close>), with the integrator's own
  records that appear in it: queue items, pinned results, receipts, observations, reports and grants. Of JSON
  values only the members the integrator reads are kept; prose, display details and the idempotency keys, which
  are digests of the bodies or fresh identifiers, are not.
\<close>

section \<open>The queue\<close>

record pinned_check =
  pc_identity :: string
  pc_name :: string
  pc_path :: string
  pc_blob :: string

record result_record =
  rr_id :: string
  rr_submission :: string
  rr_t0 :: string
  rr_t0_tree :: string
  rr_c :: string
  rr_r :: string
  rr_r_tree :: string
  rr_landing_range :: "string list"
  rr_roster :: "pinned_check list"
  rr_authority_expires_at :: "string option"

record reverted_landing =
  rl_revert_task :: string
  rl_result :: string
  rl_landing_range :: "string list"
  rl_repository :: "string option"
  rl_branch :: "string option"

record queue_item =
  qi_subject_task :: string
  qi_submission :: string
  qi_candidate :: string
  qi_candidate_ref :: "string option"
  qi_reviewed_base :: string
  qi_repository :: string
  qi_branch :: string
  qi_results :: "result_record list"
  qi_revert_task :: "string option"
  qi_reverted :: "reverted_landing list"

record revert_target =
  rt_submission :: string
  rt_result :: string
  rt_original_task :: string
  rt_r :: string
  rt_t0 :: string
  rt_c :: string
  rt_landing_range :: "string list"

record revert_item =
  ri_id :: string
  ri_repository :: "string option"
  ri_branch :: "string option"
  ri_target :: revert_target

record target =
  tg_repository :: string
  tg_branch :: string

record service_roster =
  sr_revision :: int
  sr_required :: "string list"

record queue =
  qu_roster :: service_roster
  qu_targets :: "target list"
  qu_items :: "queue_item list"
  qu_reverts :: "revert_item list"

text \<open>\<open>target_key\<close>, and the targets an item and a revert name.\<close>

definition target_key :: "string \<Rightarrow> string \<Rightarrow> string" where
  "target_key url branch = url @ ''#'' @ branch"

definition target_text :: "target \<Rightarrow> string" where
  "target_text t = target_key (tg_repository t) (tg_branch t)"

definition item_target :: "queue_item \<Rightarrow> target" where
  "item_target i = \<lparr>tg_repository = qi_repository i, tg_branch = qi_branch i\<rparr>"

definition revert_target_of :: "revert_item \<Rightarrow> target option" where
  "revert_target_of r = (case (ri_repository r, ri_branch r) of
     (Some url, Some branch) \<Rightarrow> Some \<lparr>tg_repository = url, tg_branch = branch\<rparr>
   | _ \<Rightarrow> None)"

definition add_target :: "target \<Rightarrow> target list \<Rightarrow> target list" where
  "add_target t ts = (if t \<in> set ts then ts else ts @ [t])"

definition all_targets :: "queue \<Rightarrow> target list" where
  "all_targets q = fold add_target
     (map item_target (qu_items q) @ List.map_filter revert_target_of (qu_reverts q)) (qu_targets q)"

lemma add_target_set [simp]: "set (add_target t ts) = insert t (set ts)"
  by (auto simp: add_target_def)

lemma fold_add_target: "set (fold add_target new ts) = set new \<union> set ts"
  by (induction new arbitrary: ts) auto

lemma all_targets_set:
  "set (all_targets q) = item_target ` set (qu_items q)
     \<union> {t. \<exists>r \<in> set (qu_reverts q). revert_target_of r = Some t} \<union> set (qu_targets q)"
  by (auto simp: all_targets_def fold_add_target map_filter_def image_iff) force

section \<open>What the integrator posts\<close>

record new_result =
  nr_submission :: string
  nr_t0 :: string
  nr_t0_tree :: string
  nr_c :: string
  nr_r :: string
  nr_r_tree :: string
  nr_landing_range :: "string list"
  nr_revision :: int
  nr_roster :: "pinned_check list"

record receipt =
  rc_result :: string
  rc_check_name :: string
  rc_run_id :: int
  rc_run_attempt :: int
  rc_app_id :: int
  rc_head_sha :: string
  rc_workflow_path :: string
  rc_workflow_blob :: string
  rc_conclusion :: string

record progress_run =
  pr_check_name :: string
  pr_status :: string
  pr_run_id :: int
  pr_run_attempt :: int
  pr_started_at :: "string option"

datatype ancestry = Contained | Equal_t0 | Moved

record observed_tip =
  ot_result :: string
  ot_tip :: string
  ot_ancestry :: ancestry
  ot_nonce :: string

record cite =
  ci_result :: "string option"
  ci_moved_by :: "string option"

definition no_cite :: cite where
  "no_cite = \<lparr>ci_result = None, ci_moved_by = None\<rparr>"

record revert_candidate =
  rv_t0 :: string
  rv_commit :: string
  rv_tree :: string
  rv_ref :: string

text \<open>A report's kind, its key among the reports of that kind, what it is about, and the verdict of its details.\<close>

record new_report =
  np_kind :: string
  np_dedupe :: string
  np_task :: "string option"
  np_submission :: "string option"
  np_result :: "string option"
  np_verdict :: string

record report_record =
  rp_id :: string
  rp_resolved_at :: "string option"
  rp_allowed :: bool

record grant =
  gt_granted :: bool
  gt_r :: "string option"
  gt_t0 :: "string option"
  gt_expires_at :: "string option"

section \<open>Replies\<close>

text \<open>
  A coded refusal is a value that steers the loop; any other failure to get an answer is a service failure, which
  aborts the cycle. Everything else that goes wrong (Git, files, checks) is an ordinary failure.
\<close>

record refusal =
  rf_code :: string
  rf_commits :: "string list"

datatype failure = Service_failure string | Failure string

type_synonym 'a reply = "refusal + 'a"

text \<open>The answer of one call: the failure to get one, a refusal, or the data.\<close>

type_synonym 'a answer = "string + 'a reply"

fun is_service_failure :: "failure \<Rightarrow> bool" where
  "is_service_failure (Service_failure s) = True"
| "is_service_failure (Failure s) = False"

section \<open>Local records\<close>

record published =
  pb_r :: string
  pb_t0 :: "string option"
  pb_result :: "string option"

record rerun_record =
  rn_attempt :: int
  rn_count :: nat

record loop_state =
  lo_tips :: "string \<rightharpoonup> string"
  lo_frozen :: "string \<rightharpoonup> string"
  lo_episodes :: "string \<rightharpoonup> string"
  lo_episode_seq :: nat
  lo_published :: "string \<rightharpoonup> published list"
  lo_reruns :: "string \<rightharpoonup> rerun_record"

definition empty_loop :: loop_state where
  "empty_loop = \<lparr>lo_tips = Map.empty, lo_frozen = Map.empty, lo_episodes = Map.empty, lo_episode_seq = 0,
     lo_published = Map.empty, lo_reruns = Map.empty\<rparr>"

datatype intent_phase = Preparing | Prepared | Push_intent | Intent_published

definition INTENT_VERSION :: nat where "INTENT_VERSION = 1"

record intent =
  it_version :: nat
  it_revision :: nat
  it_phase :: intent_phase
  it_checkout :: string
  it_git_dir :: string
  it_common_git_dir :: string
  it_branch :: string
  it_remote :: string
  it_target_branch :: string
  it_expected_target :: string
  it_expected_tree :: string
  it_candidate_base :: string
  it_candidate :: string
  it_candidate_tree :: string
  it_result :: "string option"
  it_result_tree :: "string option"
  it_result_ref :: "string option"
  it_last_observed :: "string option"

end
