(* ===== verification/Io.thy ===== *)
theory Io
  imports Service_Types
begin

text \<open>
  Programs that talk to the outside: the tools around the service run Git, read and replace files, read clocks and
  call the service and the checks. Each such call is an act of a history; the host answers a call from the history
  so far, so it may answer the same question differently at another time, fail at any point, and be any host at
  all. A program is a function from the world (host, history, loop state) to a failure or a result with the world
  after it; a failure keeps everything done before it. A crash is a history cut short.
\<close>

section \<open>Acts and hosts\<close>

record git_output =
  ou_code :: "int option"
  ou_stdout :: string

datatype save_outcome = Not_saved | Saved_only | Saved_logged

text \<open>\<open>Ran\<close>: directory, arguments, standard input, environment and output of a Git command.\<close>

datatype act =
    Ran string "string list" "string option" "(string \<times> string) list" "string + git_output"
  | Resolved string "string + string"
  | Looked string bool
  | Made_dir string bool
  | Removed_dir string bool
  | Locked string bool
  | Read string bool
  | Saved string intent string save_outcome
  | Removed string bool
  | Ticked int
  | Dated int
  | Loop_saved loop_state bool
  | Queue_read string "queue answer"
  | Result_posted string new_result "result_record answer"
  | Receipt_posted string receipt "unit answer"
  | Progress_posted string string string "progress_run list" "unit answer"
  | Authority_asked string string "grant answer"
  | Observation_posted string observed_tip "string option answer"
  | Revise_posted string string string string cite "unit answer"
  | Candidate_posted string string revert_candidate "unit answer"
  | Unmechanical_posted string string string string string "unit answer"
  | Report_posted string new_report "report_record answer"
  | Ship_posted string string "string list" "unit answer"
  | Rules_read string string "string + string list"
  | Runs_read string string "roster_check list" "string + check_run list"
  | Failed_jobs_rerun string int "string + unit"
  | Job_rerun string check_run "string + unit"

type_synonym history = "act list"

record host =
  ho_git :: "history \<Rightarrow> string \<Rightarrow> string list \<Rightarrow> string option \<Rightarrow> (string \<times> string) list \<Rightarrow> string + git_output"
  ho_resolve :: "history \<Rightarrow> string \<Rightarrow> string + string"
  ho_look :: "history \<Rightarrow> string \<Rightarrow> bool"
  ho_make_dir :: "history \<Rightarrow> string \<Rightarrow> bool"
  ho_remove_dir :: "history \<Rightarrow> string \<Rightarrow> bool"
  ho_lock :: "history \<Rightarrow> string \<Rightarrow> bool"
  ho_read :: "history \<Rightarrow> string \<Rightarrow> bool"
  ho_save :: "history \<Rightarrow> string \<Rightarrow> save_outcome"
  ho_remove :: "history \<Rightarrow> string \<Rightarrow> bool"
  ho_tick :: "history \<Rightarrow> int"
  ho_date :: "history \<Rightarrow> int"
  ho_save_loop :: "history \<Rightarrow> bool"
  ho_queue :: "history \<Rightarrow> string \<Rightarrow> queue answer"
  ho_result :: "history \<Rightarrow> string \<Rightarrow> new_result \<Rightarrow> result_record answer"
  ho_receipt :: "history \<Rightarrow> string \<Rightarrow> receipt \<Rightarrow> unit answer"
  ho_progress :: "history \<Rightarrow> string \<Rightarrow> string \<Rightarrow> string \<Rightarrow> progress_run list \<Rightarrow> unit answer"
  ho_authority :: "history \<Rightarrow> string \<Rightarrow> string \<Rightarrow> grant answer"
  ho_observe :: "history \<Rightarrow> string \<Rightarrow> observed_tip \<Rightarrow> string option answer"
  ho_revise :: "history \<Rightarrow> string \<Rightarrow> string \<Rightarrow> string \<Rightarrow> string \<Rightarrow> cite \<Rightarrow> unit answer"
  ho_candidate :: "history \<Rightarrow> string \<Rightarrow> string \<Rightarrow> revert_candidate \<Rightarrow> unit answer"
  ho_unmechanical :: "history \<Rightarrow> string \<Rightarrow> string \<Rightarrow> string \<Rightarrow> string \<Rightarrow> string \<Rightarrow> unit answer"
  ho_report :: "history \<Rightarrow> string \<Rightarrow> new_report \<Rightarrow> report_record answer"
  ho_ship :: "history \<Rightarrow> string \<Rightarrow> string \<Rightarrow> string list \<Rightarrow> unit answer"
  ho_rules :: "history \<Rightarrow> string \<Rightarrow> string \<Rightarrow> string + string list"
  ho_runs :: "history \<Rightarrow> string \<Rightarrow> string \<Rightarrow> roster_check list \<Rightarrow> string + check_run list"
  ho_rerun_failed :: "history \<Rightarrow> string \<Rightarrow> int \<Rightarrow> string + unit"
  ho_rerun_job :: "history \<Rightarrow> string \<Rightarrow> check_run \<Rightarrow> string + unit"
  ho_sha256 :: "string \<Rightarrow> string"
  ho_time :: "string \<Rightarrow> int option"
  ho_roster_file :: "string \<Rightarrow> string + roster_check list"
  ho_lowercase :: "string \<Rightarrow> string"

text \<open>A host that answers nothing, to be changed where an example needs an answer.\<close>

definition silent_host :: host where
  "silent_host = \<lparr>ho_git = (\<lambda>tr d args i e. Inl []), ho_resolve = (\<lambda>tr p. Inl []), ho_look = (\<lambda>tr p. False),
     ho_make_dir = (\<lambda>tr p. False), ho_remove_dir = (\<lambda>tr p. False), ho_lock = (\<lambda>tr p. False), ho_read = (\<lambda>tr p. False),
     ho_save = (\<lambda>tr p. Not_saved), ho_remove = (\<lambda>tr p. False), ho_tick = (\<lambda>tr. 0), ho_date = (\<lambda>tr. 0),
     ho_save_loop = (\<lambda>tr. False), ho_queue = (\<lambda>tr p. Inl []), ho_result = (\<lambda>tr p r. Inl []),
     ho_receipt = (\<lambda>tr p r. Inl []), ho_progress = (\<lambda>tr p r s rs. Inl []), ho_authority = (\<lambda>tr p r. Inl []),
     ho_observe = (\<lambda>tr p ob. Inl []), ho_revise = (\<lambda>tr p s r e c. Inl []), ho_candidate = (\<lambda>tr p r c. Inl []),
     ho_unmechanical = (\<lambda>tr p r t s e. Inl []), ho_report = (\<lambda>tr p r. Inl []), ho_ship = (\<lambda>tr p c fs. Inl []),
     ho_rules = (\<lambda>tr r b. Inl []), ho_runs = (\<lambda>tr r s cs. Inl []), ho_rerun_failed = (\<lambda>tr r i. Inl []),
     ho_rerun_job = (\<lambda>tr r j. Inl []), ho_sha256 = (\<lambda>s. s), ho_time = (\<lambda>s. None),
     ho_roster_file = (\<lambda>s. Inl []), ho_lowercase = (\<lambda>s. s)\<rparr>"

record world =
  wo_host :: host
  wo_trace :: history
  wo_loop :: loop_state

section \<open>Programs\<close>

type_synonym 'a io = "world \<Rightarrow> (failure + 'a) \<times> world"

definition return :: "'a \<Rightarrow> 'a io" where
  "return a w = (Inr a, w)"

definition fail :: "string \<Rightarrow> 'a io" where
  "fail e w = (Inl (Failure e), w)"

definition raise :: "failure \<Rightarrow> 'a io" where
  "raise e w = (Inl e, w)"

definition bind :: "'a io \<Rightarrow> ('a \<Rightarrow> 'b io) \<Rightarrow> 'b io" where
  "bind m f w = (case m w of (Inl e, v) \<Rightarrow> (Inl e, v) | (Inr a, v) \<Rightarrow> f a v)"

text \<open>The result or failure of a program as a value: what \<open>match\<close> on a \<open>Result\<close> sees.\<close>

definition attempt_of :: "'a io \<Rightarrow> (failure + 'a) io" where
  "attempt_of m w = (case m w of (r, v) \<Rightarrow> (Inr r, v))"

definition ask :: "(host \<Rightarrow> history \<Rightarrow> 'r) \<Rightarrow> ('r \<Rightarrow> act) \<Rightarrow> 'r io" where
  "ask f mk w = (let r = f (wo_host w) (wo_trace w) in (Inr r, w\<lparr>wo_trace := mk r # wo_trace w\<rparr>))"

definition ensure_io :: "bool \<Rightarrow> string \<Rightarrow> unit io" where
  "ensure_io b e = (if b then return () else fail e)"

definition of_option :: "string \<Rightarrow> 'a option \<Rightarrow> 'a io" where
  "of_option e x = (case x of None \<Rightarrow> fail e | Some a \<Rightarrow> return a)"

text \<open>An answer that may be an ordinary error, and one of the service.\<close>

definition or_fail :: "(string + 'a) io \<Rightarrow> 'a io" where
  "or_fail m = bind m (\<lambda>r. case r of Inl e \<Rightarrow> fail e | Inr a \<Rightarrow> return a)"

definition or_abort :: "'a answer io \<Rightarrow> 'a reply io" where
  "or_abort m = bind m (\<lambda>r. case r of Inl e \<Rightarrow> raise (Service_failure e) | Inr a \<Rightarrow> return a)"

definition host_fun :: "(host \<Rightarrow> 'a) \<Rightarrow> 'a io" where
  "host_fun f w = (Inr (f (wo_host w)), w)"

definition get_loop :: "loop_state io" where
  "get_loop w = (Inr (wo_loop w), w)"

definition put_loop :: "loop_state \<Rightarrow> unit io" where
  "put_loop s w = (Inr (), w\<lparr>wo_loop := s\<rparr>)"

text \<open>A program for each element in turn, until one fails; and the results of all.\<close>

fun for_each :: "'a list \<Rightarrow> ('a \<Rightarrow> unit io) \<Rightarrow> unit io" where
  "for_each [] f = return ()"
| "for_each (x # xs) f = bind (f x) (\<lambda>u. for_each xs f)"

fun traverse :: "('a \<Rightarrow> 'b io) \<Rightarrow> 'a list \<Rightarrow> 'b list io" where
  "traverse f [] = return []"
| "traverse f (x # xs) = bind (f x) (\<lambda>y. bind (traverse f xs) (\<lambda>ys. return (y # ys)))"

section \<open>Running\<close>

named_theorems io_simps
named_theorems adds_intros

lemma bind_return [simp]: "bind (return a) f = f a"
  by (simp add: bind_def return_def fun_eq_iff)

lemma bind_fail [simp]: "bind (fail e) f = fail e"
  by (simp add: bind_def fail_def fun_eq_iff)

lemma bind_Inr [io_simps]:
  "bind m f w = (Inr b, w'') \<longleftrightarrow> (\<exists>a w'. m w = (Inr a, w') \<and> f a w' = (Inr b, w''))"
  by (auto simp: bind_def split: prod.splits sum.splits)

lemma bindE:
  assumes "bind m f w = (Inr b, w'')"
  obtains a w' where "m w = (Inr a, w')" "f a w' = (Inr b, w'')"
  using assms by (auto simp: bind_Inr)

lemma run_simps [io_simps]:
  "return a w = (r, v) \<longleftrightarrow> r = Inr a \<and> v = w"
  "fail e w = (r, v) \<longleftrightarrow> r = Inl (Failure e) \<and> v = w"
  "ask f mk w = (r, v) \<longleftrightarrow> r = Inr (f (wo_host w) (wo_trace w))
     \<and> v = w\<lparr>wo_trace := mk (f (wo_host w) (wo_trace w)) # wo_trace w\<rparr>"
  "ensure_io b e w = (Inr u, v) \<longleftrightarrow> b \<and> v = w"
  "of_option e x w = (Inr a, v) \<longleftrightarrow> x = Some a \<and> v = w"
  "host_fun g w = (q, v) \<longleftrightarrow> q = Inr (g (wo_host w)) \<and> v = w"
  "get_loop w = (l, v) \<longleftrightarrow> l = Inr (wo_loop w) \<and> v = w"
  "put_loop s w = (z, v) \<longleftrightarrow> z = Inr () \<and> v = w\<lparr>wo_loop := s\<rparr>"
  by (auto simp: return_def fail_def ask_def ensure_io_def of_option_def host_fun_def get_loop_def put_loop_def Let_def
      split: option.splits)

section \<open>What a program may do\<close>

text \<open>\<open>adds A m\<close>: however it ends, \<open>m\<close> only appends acts that satisfy \<open>A\<close>, on the same host.\<close>

definition adds :: "(act \<Rightarrow> bool) \<Rightarrow> 'a io \<Rightarrow> bool" where
  "adds A m \<longleftrightarrow> (\<forall>w. wo_host (snd (m w)) = wo_host w
     \<and> (\<exists>new. wo_trace (snd (m w)) = new @ wo_trace w \<and> (\<forall>a \<in> set new. A a)))"

lemma addsD:
  assumes "adds A m" "m w = (r, v)"
  obtains new where "wo_trace v = new @ wo_trace w" "\<forall>a \<in> set new. A a" "wo_host v = wo_host w"
proof -
  have "wo_host (snd (m w)) = wo_host w
     \<and> (\<exists>new. wo_trace (snd (m w)) = new @ wo_trace w \<and> (\<forall>a \<in> set new. A a))"
    using assms(1) unfolding adds_def by blast
  with assms(2) that show thesis by auto
qed

lemma adds_pure [adds_intros]:
  "adds A (return a)" "adds A (fail e)" "adds A (raise x)" "adds A (ensure_io b e)" "adds A (of_option e y)"
  "adds A (host_fun f)" "adds A get_loop" "adds A (put_loop s)"
  by (auto simp: adds_def return_def fail_def raise_def ensure_io_def of_option_def host_fun_def get_loop_def put_loop_def
      split: option.splits)

lemma adds_ask [adds_intros]: "(\<And>r. A (mk r)) \<Longrightarrow> adds A (ask f mk)"
  by (auto simp: adds_def ask_def Let_def)

lemma adds_bind [adds_intros]:
  assumes "adds A m" and "\<And>a. adds A (f a)"
  shows "adds A (bind m f)"
  unfolding adds_def
proof
  fix w
  obtain r v where m: "m w = (r, v)" by (cases "m w")
  obtain new where new: "wo_trace v = new @ wo_trace w" "\<forall>a \<in> set new. A a" "wo_host v = wo_host w"
    by (rule addsD [OF assms(1) m])
  show "wo_host (snd (bind m f w)) = wo_host w
     \<and> (\<exists>new. wo_trace (snd (bind m f w)) = new @ wo_trace w \<and> (\<forall>a \<in> set new. A a))"
  proof (cases r)
    case (Inl e)
    with m new show ?thesis by (simp add: bind_def)
  next
    case (Inr a)
    obtain r' v' where fa: "f a v = (r', v')" by (cases "f a v")
    obtain new' where "wo_trace v' = new' @ wo_trace v" "\<forall>a \<in> set new'. A a" "wo_host v' = wo_host v"
      by (rule addsD [OF assms(2) fa])
    with m Inr new fa have "snd (bind m f w) = v'" "wo_trace v' = (new' @ new) @ wo_trace w"
      "\<forall>a \<in> set (new' @ new). A a" "wo_host v' = wo_host w"
      by (auto simp: bind_def)
    then show ?thesis by metis
  qed
qed

lemma adds_attempt [adds_intros]: "adds A m \<Longrightarrow> adds A (attempt_of m)"
proof -
  have "snd (attempt_of m w) = snd (m w)" for w by (simp add: attempt_of_def split: prod.splits)
  then show "adds A m \<Longrightarrow> adds A (attempt_of m)" by (simp add: adds_def)
qed

lemma adds_if [adds_intros]: "(b \<Longrightarrow> adds A m) \<Longrightarrow> (\<not> b \<Longrightarrow> adds A n) \<Longrightarrow> adds A (if b then m else n)"
  by simp

lemma adds_option [adds_intros]:
  "(x = None \<Longrightarrow> adds A m) \<Longrightarrow> (\<And>a. x = Some a \<Longrightarrow> adds A (f a)) \<Longrightarrow> adds A (case x of None \<Rightarrow> m | Some a \<Rightarrow> f a)"
  by (cases x) simp_all

lemma adds_sum [adds_intros]:
  "(\<And>e. x = Inl e \<Longrightarrow> adds A (f e)) \<Longrightarrow> (\<And>a. x = Inr a \<Longrightarrow> adds A (g a)) \<Longrightarrow> adds A (case x of Inl e \<Rightarrow> f e | Inr a \<Rightarrow> g a)"
  by (cases x) simp_all

lemma adds_prod [adds_intros]: "(\<And>a b. x = (a, b) \<Longrightarrow> adds A (f a b)) \<Longrightarrow> adds A (case x of (a, b) \<Rightarrow> f a b)"
  by (cases x) simp_all

lemma adds_list [adds_intros]:
  "(x = [] \<Longrightarrow> adds A m) \<Longrightarrow> (\<And>a b. x = a # b \<Longrightarrow> adds A (f a b)) \<Longrightarrow> adds A (case x of [] \<Rightarrow> m | a # b \<Rightarrow> f a b)"
  by (cases x) simp_all

lemma adds_let [adds_intros]: "adds A (f x) \<Longrightarrow> adds A (Let x f)"
  by simp

lemma adds_or [adds_intros]:
  "adds A m \<Longrightarrow> adds A (or_fail m)" "adds A n \<Longrightarrow> adds A (or_abort n)"
  by (auto simp: or_fail_def or_abort_def intro!: adds_intros)

lemma adds_for_each [adds_intros]: "(\<And>x. x \<in> set xs \<Longrightarrow> adds A (f x)) \<Longrightarrow> adds A (for_each xs f)"
  by (induction xs) (auto intro!: adds_intros)

lemma adds_traverse [adds_intros]: "(\<And>x. x \<in> set xs \<Longrightarrow> adds A (f x)) \<Longrightarrow> adds A (traverse f xs)"
  by (induction xs) (auto intro!: adds_intros)

lemma adds_mono: "adds A m \<Longrightarrow> (\<And>a. A a \<Longrightarrow> B a) \<Longrightarrow> adds B m"
  unfolding adds_def by blast

end
