(* ===== verification/Checkout.thy ===== *)
theory Checkout
  imports Io
begin

text \<open>
  What the local tools ask of a Git checkout (\<open>crates/local/src/git_workflow.rs\<close>): running Git and reading its
  output, the identity of the configured remote, clean snapshots, exact commits, ancestry, and the observation of a
  remote branch. Paths are POSIX text; the variables removed from Git's environment and the protection of files are
  not modelled.
\<close>

section \<open>Running Git\<close>

definition git_raw :: "string \<Rightarrow> string list \<Rightarrow> string option \<Rightarrow> (string \<times> string) list \<Rightarrow> git_output io" where
  "git_raw checkout args input env =
     or_fail (ask (\<lambda>h tr. ho_git h tr checkout args input env) (Ran checkout args input env))"

definition git :: "string \<Rightarrow> string list \<Rightarrow> git_output io" where
  "git checkout args = git_raw checkout args None []"

definition success :: "git_output \<Rightarrow> bool" where
  "success out \<longleftrightarrow> ou_code out = Some 0"

definition utf8 :: "string \<Rightarrow> string \<Rightarrow> string io" where
  "utf8 e s = (if is_utf8 s then return s else fail e)"

definition git_text :: "string \<Rightarrow> string list \<Rightarrow> string io" where
  "git_text checkout args =
     bind (git checkout args) (\<lambda>out.
     bind (ensure_io (success out) ''Git command failed'') (\<lambda>_.
     bind (utf8 ''Git returned non-UTF-8 output'' (ou_stdout out)) (\<lambda>s. return (trim s))))"

definition git_ok :: "string \<Rightarrow> string list \<Rightarrow> unit io" where
  "git_ok checkout args =
     bind (git checkout args) (\<lambda>out. ensure_io (success out) ''Git command failed'')"

definition canonicalize :: "string \<Rightarrow> string io" where
  "canonicalize path = or_fail (ask (\<lambda>h tr. ho_resolve h tr path) (Resolved path))"

section \<open>The configured remote\<close>

definition looks_like_windows_drive :: "string \<Rightarrow> bool" where
  "looks_like_windows_drive s \<longleftrightarrow>
     3 \<le> length s \<and> (let n = (of_char (s ! 0) :: nat) in (65 \<le> n \<and> n \<le> 90) \<or> (97 \<le> n \<and> n \<le> 122))
     \<and> s ! 1 = CHR '':'' \<and> (s ! 2 = CHR ''/'' \<or> s ! 2 = CHR 0x5C)"

definition normalize_remote_path :: "string \<Rightarrow> string" where
  "normalize_remote_path s =
     trim_end_text ''.git'' (trim_end_matches (CHR ''/'') (takeWhile (\<lambda>c. c \<noteq> CHR ''?'' \<and> c \<noteq> CHR ''#'') s))"

text \<open>The host and path of an scp-like remote: \<open>host:path\<close> whose host has no slash of either kind.\<close>

definition scp_remote :: "string \<Rightarrow> (string \<times> string) option" where
  "scp_remote s =
     (if looks_like_windows_drive s then None
      else case split_once (CHR '':'') s of
        None \<Rightarrow> None
      | Some (machine, path) \<Rightarrow> if CHR ''/'' \<in> set machine \<or> CHR 0x5C \<in> set machine then None else Some (machine, path))"

definition without_user :: "string \<Rightarrow> string" where
  "without_user machine = (case rsplit_once (CHR ''@'') machine of None \<Rightarrow> machine | Some (_, rest) \<Rightarrow> rest)"

definition canonical_local_remote :: "string \<Rightarrow> string io" where
  "canonical_local_remote path = bind (canonicalize path) (\<lambda>p. return (''file:'' @ p))"

definition validate_remote_argument :: "string \<Rightarrow> unit io" where
  "validate_remote_argument s =
     bind (ensure_io (trim s \<noteq> []) ''configured repository URL is empty'') (\<lambda>_.
     ensure_io (\<not> starts_with s ''-'') ''configured repository URL cannot begin with a dash'')"

definition canonical_remote_identity :: "string \<Rightarrow> string \<Rightarrow> string io" where
  "canonical_remote_identity checkout url =
     bind (validate_remote_argument url) (\<lambda>_.
     let s = trim url in
     case strip_prefix ''file://'' s of
       Some path \<Rightarrow> canonical_local_remote path
     | None \<Rightarrow>
         case split_once_text ''://'' s of
           Some (scheme, rest) \<Rightarrow>
             (let (authority_part, path) = unwrap_or (split_once (CHR ''/'') rest) (rest, []) in
              return (to_ascii_lowercase scheme @ ''://'' @ to_ascii_lowercase (without_user authority_part)
                @ ''/'' @ normalize_remote_path path))
         | None \<Rightarrow>
             case scp_remote s of
               Some (machine, path) \<Rightarrow>
                 return (to_ascii_lowercase (without_user machine) @ '':'' @ normalize_remote_path path)
             | None \<Rightarrow> canonical_local_remote (path_join checkout s))"

definition git_remote_argument :: "string \<Rightarrow> string \<Rightarrow> string io" where
  "git_remote_argument checkout url =
     (if starts_with url ''file://'' \<or> contains url ''://'' then return url
      else if scp_remote url \<noteq> None then return url
      else canonicalize (path_join checkout url))"

text \<open>Whether one of the names in the list has a URL of the expected identity; a name whose URLs Git cannot read is passed over.\<close>

fun url_matches :: "string \<Rightarrow> string \<Rightarrow> string list \<Rightarrow> bool io" where
  "url_matches checkout expected [] = return False"
| "url_matches checkout expected (url # urls) =
     bind (attempt_of (canonical_remote_identity checkout url)) (\<lambda>r.
     if r = Inr expected then return True else url_matches checkout expected urls)"

fun some_remote_matches :: "string \<Rightarrow> string \<Rightarrow> string list \<Rightarrow> bool io" where
  "some_remote_matches checkout expected [] = return False"
| "some_remote_matches checkout expected (name # names) =
     bind (git checkout [''remote'', ''get-url'', ''--all'', name]) (\<lambda>out.
     if \<not> success out then some_remote_matches checkout expected names
     else bind (utf8 ''Git returned a non-UTF-8 remote URL'' (ou_stdout out)) (\<lambda>urls.
          bind (url_matches checkout expected (text_lines urls)) (\<lambda>b.
          if b then return True else some_remote_matches checkout expected names)))"

definition ensure_remote_matches :: "string \<Rightarrow> string \<Rightarrow> string io" where
  "ensure_remote_matches checkout url =
     bind (canonical_remote_identity checkout url) (\<lambda>expected.
     bind (git_text checkout [''remote'']) (\<lambda>names.
     bind (some_remote_matches checkout expected (filter (\<lambda>n. n \<noteq> []) (text_lines names))) (\<lambda>b.
     bind (ensure_io b ''checkout has no remote matching the configured repository identity'') (\<lambda>_.
     return expected))))"

section \<open>Checkouts\<close>

definition canonical_git_root :: "string \<Rightarrow> string io" where
  "canonical_git_root path = bind (git_text path [''rev-parse'', ''--show-toplevel'']) canonicalize"

definition canonical_git_dir :: "string \<Rightarrow> string io" where
  "canonical_git_dir path =
     bind (git_text path [''rev-parse'', ''--path-format=absolute'', ''--git-dir'']) canonicalize"

definition canonical_common_git_dir :: "string \<Rightarrow> string io" where
  "canonical_common_git_dir path =
     bind (git_text path [''rev-parse'', ''--path-format=absolute'', ''--git-common-dir'']) canonicalize"

definition validate_branch :: "string \<Rightarrow> string \<Rightarrow> unit io" where
  "validate_branch checkout branch =
     bind (ensure_io (\<not> starts_with branch ''-'') ''target branch cannot begin with a dash'') (\<lambda>_.
     git_ok checkout [''check-ref-format'', ''--branch'', branch])"

definition ensure_clean :: "string \<Rightarrow> unit io" where
  "ensure_clean checkout =
     bind (git checkout [''status'', ''--porcelain=v1'', ''-z'', ''--untracked-files=all'']) (\<lambda>out.
     bind (ensure_io (success out) ''Git could not inspect checkout cleanliness'') (\<lambda>_.
     ensure_io (ou_stdout out = []) ''checkout is dirty; existing changes were preserved''))"

definition symbolic_branch :: "string \<Rightarrow> string option io" where
  "symbolic_branch checkout =
     bind (git checkout [''symbolic-ref'', ''--quiet'', ''--short'', ''HEAD'']) (\<lambda>out.
     if ou_code out = Some 0 then
       bind (utf8 ''Git returned a non-UTF-8 branch name'' (ou_stdout out)) (\<lambda>s. return (Some (trim s)))
     else if ou_code out = Some 1 then return None
     else fail ''Git could not inspect the checkout branch'')"

definition resolve_head :: "string \<Rightarrow> string io" where
  "resolve_head checkout = git_text checkout [''rev-parse'', ''HEAD^{commit}'']"

record clean_snapshot =
  sn_checkout :: string
  sn_git_dir :: string
  sn_common_git_dir :: string
  sn_branch :: "string option"
  sn_remote :: string
  sn_revision :: string
  sn_tree :: string

text \<open>What identifies the state of a checkout, read once; a snapshot reads it twice. The comparison stops at the first difference.\<close>

definition snapshot_unchanged :: "string \<Rightarrow> clean_snapshot \<Rightarrow> bool io" where
  "snapshot_unchanged checkout sn =
     bind (symbolic_branch checkout) (\<lambda>branch. if branch \<noteq> sn_branch sn then return False else
     bind (resolve_head checkout) (\<lambda>revision. if revision \<noteq> sn_revision sn then return False else
     bind (git_text checkout [''rev-parse'', ''HEAD^{tree}'']) (\<lambda>tree. if tree \<noteq> sn_tree sn then return False else
     bind (canonical_git_dir checkout) (\<lambda>dir. if dir \<noteq> sn_git_dir sn then return False else
     bind (canonical_common_git_dir checkout) (\<lambda>common. return (common = sn_common_git_dir sn))))))"

definition capture_clean_snapshot :: "string \<Rightarrow> string \<Rightarrow> clean_snapshot io" where
  "capture_clean_snapshot path url =
     bind (canonical_git_root path) (\<lambda>checkout.
     bind (ensure_clean checkout) (\<lambda>_.
     bind (ensure_remote_matches checkout url) (\<lambda>remote.
     bind (canonical_git_dir checkout) (\<lambda>git_dir.
     bind (canonical_common_git_dir checkout) (\<lambda>common.
     bind (symbolic_branch checkout) (\<lambda>branch.
     bind (resolve_head checkout) (\<lambda>revision.
     bind (git_text checkout [''rev-parse'', ''HEAD^{tree}'']) (\<lambda>tree.
     bind (ensure_clean checkout) (\<lambda>_.
     let sn = \<lparr>sn_checkout = checkout, sn_git_dir = git_dir, sn_common_git_dir = common, sn_branch = branch,
       sn_remote = remote, sn_revision = revision, sn_tree = tree\<rparr> in
     bind (snapshot_unchanged checkout sn) (\<lambda>same.
     bind (ensure_io same ''checkout changed while its clean snapshot was captured'') (\<lambda>_.
     return sn)))))))))))"

section \<open>Commits\<close>

definition validate_full_oid :: "string \<Rightarrow> unit io" where
  "validate_full_oid s = ensure_io (full_oid s) ''revision must be a full hexadecimal Git object ID''"

definition resolve_exact_commit :: "string \<Rightarrow> string \<Rightarrow> string io" where
  "resolve_exact_commit checkout name =
     bind (validate_full_oid name) (\<lambda>_.
     let revision = to_ascii_lowercase name in
     bind (git_ok checkout [''cat-file'', ''-e'', revision @ ''^{commit}'']) (\<lambda>_.
     bind (git_text checkout [''rev-parse'', revision @ ''^{commit}'']) (\<lambda>resolved.
     bind (ensure_io (resolved = revision) ''commit object ID did not resolve exactly'') (\<lambda>_.
     return revision))))"

definition is_ancestor :: "string \<Rightarrow> string \<Rightarrow> string \<Rightarrow> bool io" where
  "is_ancestor checkout ancestor descendant =
     bind (git checkout [''merge-base'', ''--is-ancestor'', ancestor, descendant]) (\<lambda>out.
     if ou_code out = Some 0 then return True
     else if ou_code out = Some 1 then return False
     else fail ''Git could not verify commit ancestry'')"

definition ensure_ancestor :: "string \<Rightarrow> string \<Rightarrow> string \<Rightarrow> string \<Rightarrow> unit io" where
  "ensure_ancestor checkout ancestor descendant message =
     bind (is_ancestor checkout ancestor descendant) (\<lambda>b. ensure_io b message)"

definition ensure_related :: "string \<Rightarrow> string \<Rightarrow> string \<Rightarrow> unit io" where
  "ensure_related checkout left right =
     bind (git checkout [''merge-base'', left, right]) (\<lambda>out.
     ensure_io (success out) ''candidate and target have unrelated histories'')"

definition tree_of :: "string \<Rightarrow> string \<Rightarrow> string io" where
  "tree_of checkout revision = git_text checkout [''rev-parse'', revision @ ''^{tree}'']"

definition locally_available_tree :: "string \<Rightarrow> string \<Rightarrow> string option io" where
  "locally_available_tree checkout revision =
     bind (git checkout [''cat-file'', ''-e'', revision @ ''^{commit}'']) (\<lambda>out.
     if \<not> success out then return None
     else bind (tree_of checkout revision) (\<lambda>t. return (Some t)))"

section \<open>The remote branch\<close>

record target_observation =
  to_branch :: string
  to_revision :: "string option"
  to_tree :: "string option"

definition branch_ref :: "string \<Rightarrow> string" where
  "branch_ref branch = ''refs/heads/'' @ branch"

text \<open>The one line \<open>ls-remote\<close> printed for the reference.\<close>

definition observed_line :: "string \<Rightarrow> string \<Rightarrow> string io" where
  "observed_line ref stdout =
     bind (utf8 ''Git returned non-UTF-8 remote evidence'' stdout) (\<lambda>s.
     case text_lines s of
       [] \<Rightarrow> fail ''Git returned empty remote evidence''
     | line # rest \<Rightarrow>
         bind (ensure_io (rest = []) ''Git returned ambiguous remote branch evidence'') (\<lambda>_.
         bind (of_option ''Git returned malformed remote branch evidence'' (split_once_ws line)) (\<lambda>(revision, name).
         bind (ensure_io (trim name = ref) ''Git returned evidence for an unexpected remote ref'') (\<lambda>_.
         bind (validate_full_oid revision) (\<lambda>_.
         return (to_ascii_lowercase revision))))))"

definition observe_remote_target :: "string \<Rightarrow> string \<Rightarrow> string \<Rightarrow> target_observation io" where
  "observe_remote_target path url branch =
     bind (canonical_git_root path) (\<lambda>checkout.
     bind (validate_remote_argument url) (\<lambda>_.
     bind (validate_branch checkout branch) (\<lambda>_.
     bind (ensure_remote_matches checkout url) (\<lambda>_.
     bind (git_remote_argument checkout url) (\<lambda>remote.
     bind (git_raw checkout [''ls-remote'', ''--exit-code'', ''--refs'', remote, branch_ref branch] None []) (\<lambda>out.
     bind (if ou_code out = Some 0 then bind (observed_line (branch_ref branch) (ou_stdout out)) (\<lambda>r. return (Some r))
           else if ou_code out = Some 2 then return None
           else fail ''Git could not observe the configured remote target'') (\<lambda>revision.
     bind (case revision of None \<Rightarrow> return None | Some r \<Rightarrow> locally_available_tree checkout r) (\<lambda>tree.
     return \<lparr>to_branch = branch, to_revision = revision, to_tree = tree\<rparr>))))))))"

section \<open>None of this changes anything\<close>

text \<open>Predicates on acts that hold of every question to Git other than a push, and of reading paths and clocks.\<close>

definition pushes :: "string list \<Rightarrow> bool" where
  "pushes args \<longleftrightarrow> args \<noteq> [] \<and> hd args = ''push''"

definition tolerant :: "(act \<Rightarrow> bool) \<Rightarrow> bool" where
  "tolerant A \<longleftrightarrow>
     (\<forall>d args i e r. \<not> pushes args \<longrightarrow> A (Ran d args i e r)) \<and> (\<forall>p r. A (Resolved p r)) \<and> (\<forall>p b. A (Looked p b))
     \<and> (\<forall>p b. A (Locked p b)) \<and> (\<forall>p b. A (Read p b)) \<and> (\<forall>n. A (Ticked n))"

lemma pushes_simps [simp]: "\<not> pushes []" "pushes (a # as) \<longleftrightarrow> a = ''push''"
  by (auto simp: pushes_def)

lemma adds_git [adds_intros]:
  assumes "tolerant A" "\<not> pushes args"
  shows "adds A (git_raw d args i e)" "adds A (git d args)" "adds A (git_text d args)" "adds A (git_ok d args)"
proof -
  show raw: "adds A (git_raw d args i e)" for i e
    unfolding git_raw_def using assms by (intro adds_intros) (simp add: tolerant_def)
  show g: "adds A (git d args)" unfolding git_def by (rule raw)
  show "adds A (git_text d args)" "adds A (git_ok d args)"
    unfolding git_text_def git_ok_def utf8_def by (intro adds_intros g)+
qed

lemma adds_canonicalize [adds_intros]: "tolerant A \<Longrightarrow> adds A (canonicalize p)"
  unfolding canonicalize_def by (intro adds_intros) (simp add: tolerant_def)

lemma adds_remote [adds_intros]:
  assumes t: "tolerant A"
  shows "adds A (canonical_local_remote p)" "adds A (validate_remote_argument u)"
    "adds A (canonical_remote_identity c u)" "adds A (git_remote_argument c u)"
proof -
  show l: "adds A (canonical_local_remote p)" for p
    using t by (auto simp: canonical_local_remote_def intro!: adds_intros)
  show v: "adds A (validate_remote_argument u)"
    by (auto simp: validate_remote_argument_def intro!: adds_intros)
  show "adds A (canonical_remote_identity c u)" unfolding canonical_remote_identity_def
    by (intro adds_intros l v)
  show "adds A (git_remote_argument c u)" unfolding git_remote_argument_def
    using t by (intro adds_intros)
qed

lemma adds_url_matches [adds_intros]: "tolerant A \<Longrightarrow> adds A (url_matches c e us)"
  by (induction us) (auto intro!: adds_intros)

lemma adds_utf8 [adds_intros]: "adds A (utf8 e s)"
  by (auto simp: utf8_def intro!: adds_intros)

lemma adds_some_remote [adds_intros]: "tolerant A \<Longrightarrow> adds A (some_remote_matches c e ns)"
  by (induction ns) (auto intro!: adds_intros)

lemma adds_ensure_remote [adds_intros]: "tolerant A \<Longrightarrow> adds A (ensure_remote_matches c u)"
  unfolding ensure_remote_matches_def by (intro adds_intros) auto

lemma adds_checkout [adds_intros]:
  assumes "tolerant A"
  shows "adds A (canonical_git_root p)" "adds A (canonical_git_dir p)" "adds A (canonical_common_git_dir p)"
    "adds A (validate_branch c b)" "adds A (ensure_clean c)" "adds A (symbolic_branch c)" "adds A (resolve_head c)"
  using assms unfolding canonical_git_root_def canonical_git_dir_def canonical_common_git_dir_def validate_branch_def
    ensure_clean_def symbolic_branch_def resolve_head_def
  by (intro adds_intros; simp)+

lemma adds_snapshot [adds_intros]:
  assumes "tolerant A"
  shows "adds A (snapshot_unchanged c sn)" "adds A (capture_clean_snapshot p u)"
proof -
  show s: "adds A (snapshot_unchanged c sn)" for c sn
    unfolding snapshot_unchanged_def using assms by (intro adds_intros; simp)
  show "adds A (capture_clean_snapshot p u)"
    unfolding capture_clean_snapshot_def using assms by (intro adds_intros s; simp)
qed

lemma adds_commits [adds_intros]:
  assumes "tolerant A"
  shows "adds A (validate_full_oid s)" "adds A (resolve_exact_commit c n)" "adds A (is_ancestor c a d)"
    "adds A (ensure_ancestor c a d m)" "adds A (ensure_related c a d)" "adds A (tree_of c r)"
    "adds A (locally_available_tree c r)"
  using assms unfolding validate_full_oid_def resolve_exact_commit_def is_ancestor_def ensure_ancestor_def
    ensure_related_def tree_of_def locally_available_tree_def
  by (intro adds_intros; simp)+

lemma adds_observe [adds_intros]:
  assumes "tolerant A"
  shows "adds A (observed_line r s)" "adds A (observe_remote_target p u b)"
proof -
  show o: "adds A (observed_line r s)" for r s
    unfolding observed_line_def using assms by (intro adds_intros; simp)
  show "adds A (observe_remote_target p u b)"
    unfolding observe_remote_target_def using assms by (intro adds_intros o; simp)
qed

end
