(* ===== verification/Publication.thy ===== *)
theory Publication
  imports Checkout
begin

text \<open>
  The publication of an integration result (\<open>crates/local/src/git_workflow.rs\<close>): a durable intent per result,
  prepared in an isolated worktree, and the one operation that pushes, guarded by two observations of the target, a
  fresh authority and a durable record of the attempt. The intent of a state file is what the history last saved
  there; saving replaces the file and then appends to a journal, and may fail before or between the two. The lock
  makes the operations on one file exclusive, so histories are sequences of operations.
\<close>

section \<open>The durable intent\<close>

fun durable :: "string \<Rightarrow> history \<Rightarrow> intent option" where
  "durable p [] = None"
| "durable p (a # tr) =
     (case a of
        Saved q i event saved \<Rightarrow> if q = p \<and> saved \<noteq> Not_saved then Some i else durable p tr
      | Removed q done \<Rightarrow> if q = p \<and> done then None else durable p tr
      | _ \<Rightarrow> durable p tr)"

definition stored :: "string \<Rightarrow> intent option io" where
  "stored p w = (Inr (durable p (wo_trace w)), w)"

definition lock_intent :: "string \<Rightarrow> unit io" where
  "lock_intent p = bind (ask (\<lambda>h tr. ho_lock h tr p) (Locked p)) (\<lambda>b. ensure_io b ''lock integration state'')"

definition load_intent :: "string \<Rightarrow> intent io" where
  "load_intent p =
     bind (ask (\<lambda>h tr. ho_read h tr p) (Read p)) (\<lambda>b.
     bind (ensure_io b ''read integration intent'') (\<lambda>_.
     bind (stored p) (\<lambda>s.
     bind (of_option ''read integration intent'' s) (\<lambda>i.
     bind (ensure_io (it_version i = INTENT_VERSION) ''unsupported integration intent version'') (\<lambda>_.
     return i)))))"

definition save_intent :: "string \<Rightarrow> intent \<Rightarrow> string \<Rightarrow> unit io" where
  "save_intent p i event =
     bind (ask (\<lambda>h tr. ho_save h tr p) (Saved p i event)) (\<lambda>saved.
     case saved of
       Not_saved \<Rightarrow> fail ''durably save integration intent''
     | Saved_only \<Rightarrow> fail ''append integration journal event''
     | Saved_logged \<Rightarrow> return ())"

definition mark_published :: "string \<Rightarrow> intent \<Rightarrow> unit io" where
  "mark_published p i =
     (if it_phase i \<noteq> Intent_published
      then save_intent p (i\<lparr>it_phase := Intent_published, it_revision := it_revision i + 1\<rparr>) ''published''
      else return ())"

definition record_observation :: "string \<Rightarrow> intent \<Rightarrow> string option \<Rightarrow> string \<Rightarrow> intent io" where
  "record_observation p i observed event =
     (let j = i\<lparr>it_last_observed := observed, it_revision := it_revision i + 1\<rparr> in
      bind (save_intent p j event) (\<lambda>_. return j))"

section \<open>Checks of an intent\<close>

definition validate_git_result :: "intent \<Rightarrow> unit io" where
  "validate_git_result i =
     bind (tree_of (it_checkout i) (it_expected_target i)) (\<lambda>target_tree.
     bind (ensure_io (target_tree = it_expected_tree i) ''expected target tree changed'') (\<lambda>_.
     bind (of_option ''integration result is missing'' (it_result i)) (\<lambda>recorded.
     bind (resolve_exact_commit (it_checkout i) recorded) (\<lambda>result.
     bind (ensure_ancestor (it_checkout i) (it_expected_target i) result
       ''integration result no longer contains the expected target'') (\<lambda>_.
     bind (ensure_ancestor (it_checkout i) (it_candidate i) result
       ''integration result no longer contains the candidate'') (\<lambda>_.
     bind (tree_of (it_checkout i) result) (\<lambda>tree.
     ensure_io (it_result_tree i = Some tree) ''integration result tree changed'')))))))"

definition same_worktree :: "intent \<Rightarrow> clean_snapshot \<Rightarrow> bool" where
  "same_worktree i sn \<longleftrightarrow> sn_git_dir sn = it_git_dir i \<and> sn_common_git_dir sn = it_common_git_dir i
     \<and> sn_remote sn = it_remote i \<and> sn_branch sn = Some (it_branch i)"

definition known_commit :: "intent \<Rightarrow> string \<Rightarrow> bool" where
  "known_commit i revision \<longleftrightarrow>
     it_result i = Some revision \<or> (it_phase i = Preparing \<and> revision = it_expected_target i)"

definition validate_intent_checkout :: "intent \<Rightarrow> string \<Rightarrow> unit io" where
  "validate_intent_checkout i url =
     bind (capture_clean_snapshot (it_checkout i) url) (\<lambda>sn.
     bind (ensure_io (sn_git_dir sn = it_git_dir i) ''integration worktree Git identity changed'') (\<lambda>_.
     bind (ensure_io (sn_common_git_dir sn = it_common_git_dir i) ''integration repository identity changed'') (\<lambda>_.
     bind (ensure_io (sn_remote sn = it_remote i) ''configured repository identity changed'') (\<lambda>_.
     bind (ensure_io (sn_branch sn = Some (it_branch i)) ''integration task branch changed'') (\<lambda>_.
     ensure_io (known_commit i (sn_revision sn)) ''integration checkout moved from its recorded commit'')))))"

definition materialize_result_checkout :: "intent \<Rightarrow> string \<Rightarrow> unit io" where
  "materialize_result_checkout i url =
     bind (capture_clean_snapshot (it_checkout i) url) (\<lambda>sn.
     bind (ensure_io (sn_git_dir sn = it_git_dir i \<and> sn_common_git_dir sn = it_common_git_dir i)
       ''integration checkout identity changed'') (\<lambda>_.
     bind (ensure_io (sn_remote sn = it_remote i) ''configured repository identity changed'') (\<lambda>_.
     bind (ensure_io (sn_branch sn = Some (it_branch i)) ''integration task branch changed'') (\<lambda>_.
     bind (of_option ''integration result is missing'' (it_result i)) (\<lambda>result.
     if sn_revision sn = result then return ()
     else bind (ensure_io (sn_revision sn = it_expected_target i) ''integration checkout moved from its recorded commit'') (\<lambda>_.
          bind (git_ok (it_checkout i) [''merge'', ''--ff-only'', ''--no-edit'', result]) (\<lambda>_.
          bind (capture_clean_snapshot (it_checkout i) url) (\<lambda>now.
          ensure_io (sn_revision now = result \<and> same_worktree i now)
            ''prepared integration result did not materialize exactly''))))))))"

section \<open>Preparing a result\<close>

record prepare_request =
  pq_state_file :: string
  pq_checkout :: string
  pq_remote :: string
  pq_branch :: string
  pq_expected_target :: string
  pq_candidate_base :: string
  pq_candidate :: string

definition ensure_same_prepare_request :: "intent \<Rightarrow> prepare_request \<Rightarrow> unit io" where
  "ensure_same_prepare_request i q =
     bind (canonical_git_root (pq_checkout q)) (\<lambda>checkout.
     bind (canonical_remote_identity checkout (pq_remote q)) (\<lambda>remote.
     ensure_io (it_checkout i = checkout \<and> it_remote i = remote \<and> it_target_branch i = pq_branch q
         \<and> it_expected_target i = to_ascii_lowercase (pq_expected_target q)
         \<and> it_candidate_base i = to_ascii_lowercase (pq_candidate_base q)
         \<and> it_candidate i = to_ascii_lowercase (pq_candidate q))
       ''this integration intent was prepared with different immutable inputs''))"

definition update_isolated_ref :: "string \<Rightarrow> string \<Rightarrow> string \<Rightarrow> unit io" where
  "update_isolated_ref checkout ref result =
     bind (git checkout [''rev-parse'', ''--verify'', ''--quiet'', ref @ ''^{commit}'']) (\<lambda>out.
     if ou_code out = Some 0 then
       bind (utf8 ''Git returned non-UTF-8 ref evidence'' (ou_stdout out)) (\<lambda>s.
       ensure_io (trim s = result) ''isolated integration result ref already names another commit'')
     else if ou_code out = Some 1 then git_ok checkout [''update-ref'', ref, result, []]
     else fail ''Git could not inspect the isolated integration result ref'')"

definition pinned_identity :: "(string \<times> string) list" where
  "pinned_identity =
     [(''GIT_AUTHOR_NAME'', ''Agent Coordinator''), (''GIT_AUTHOR_EMAIL'', ''agent-coordinator@example.invalid''),
      (''GIT_AUTHOR_DATE'', ''2000-01-01T00:00:00 +0000''),
      (''GIT_COMMITTER_NAME'', ''Agent Coordinator''), (''GIT_COMMITTER_EMAIL'', ''agent-coordinator@example.invalid''),
      (''GIT_COMMITTER_DATE'', ''2000-01-01T00:00:00 +0000'')]"

definition newline :: string where "newline = [CHR 0x0A]"

definition integration_message :: "intent \<Rightarrow> string" where
  "integration_message i =
     ''Agent Coordinator integration'' @ newline @ newline @ ''target '' @ it_expected_target i @ newline
       @ ''candidate '' @ it_candidate i @ newline"

text \<open>The commit and tree of the merge of the candidate into the target: always the same commit for the same inputs.\<close>

definition create_merge :: "intent \<Rightarrow> (string \<times> string) io" where
  "create_merge i =
     bind (git_raw (it_checkout i) [''merge-tree'', ''--write-tree'', it_expected_target i, it_candidate i] None []) (\<lambda>merge.
     bind (ensure_io (success merge) ''candidate conflicts with the expected target; no target ref was changed'') (\<lambda>_.
     bind (utf8 ''Git returned a non-UTF-8 merge result'' (ou_stdout merge)) (\<lambda>s.
     bind (of_option ''Git returned no merge tree'' (case text_lines s of [] \<Rightarrow> None | l # ls \<Rightarrow> Some (trim l))) (\<lambda>tree.
     bind (validate_full_oid tree) (\<lambda>_.
     bind (git_ok (it_checkout i) [''cat-file'', ''-e'', tree @ ''^{tree}'']) (\<lambda>_.
     bind (git_raw (it_checkout i) [''commit-tree'', tree, ''-p'', it_expected_target i, ''-p'', it_candidate i]
       (Some (integration_message i)) pinned_identity) (\<lambda>out.
     bind (ensure_io (success out) ''Git could not create the deterministic integration commit'') (\<lambda>_.
     bind (utf8 ''Git returned a non-UTF-8 integration commit'' (ou_stdout out)) (\<lambda>c.
     bind (validate_full_oid (trim c)) (\<lambda>_.
     return (trim c, to_ascii_lowercase tree)))))))))))"

definition create_integration_result :: "intent \<Rightarrow> (string \<times> string) io" where
  "create_integration_result i =
     bind (is_ancestor (it_checkout i) (it_candidate i) (it_expected_target i)) (\<lambda>contained.
     if contained then
       bind (tree_of (it_checkout i) (it_expected_target i)) (\<lambda>tree. return (it_expected_target i, tree))
     else bind (is_ancestor (it_checkout i) (it_expected_target i) (it_candidate i)) (\<lambda>ahead.
       if ahead then return (it_candidate i, it_candidate_tree i) else create_merge i))"

text \<open>The part of \<open>finish_preparation\<close> that computes the result when the intent has none yet.\<close>

definition record_result :: "string \<Rightarrow> intent \<Rightarrow> intent io" where
  "record_result p i =
     (if it_result i \<noteq> None then return i
      else bind (create_integration_result i) (\<lambda>(result, tree).
        let ref = ''refs/agent-coordinator/integrations/'' @ result;
            j = i\<lparr>it_result := Some result, it_result_tree := Some tree, it_result_ref := Some ref,
              it_revision := it_revision i + 1\<rparr> in
        bind (update_isolated_ref (it_checkout i) ref result) (\<lambda>_.
        bind (validate_git_result j) (\<lambda>_.
        bind (save_intent p j ''result_created'') (\<lambda>_. return j)))))"

definition finish_preparation :: "string \<Rightarrow> intent \<Rightarrow> string \<Rightarrow> intent io" where
  "finish_preparation p i url =
     bind (validate_intent_checkout i url) (\<lambda>_.
     if it_phase i \<noteq> Preparing then bind (validate_git_result i) (\<lambda>_. return i)
     else bind (record_result p i) (\<lambda>j.
          bind (materialize_result_checkout j url) (\<lambda>_.
          let k = j\<lparr>it_phase := Prepared, it_revision := it_revision j + 1\<rparr> in
          bind (validate_git_result k) (\<lambda>_.
          bind (save_intent p k ''prepared'') (\<lambda>_. return k)))))"

definition new_intent :: "prepare_request \<Rightarrow> intent io" where
  "new_intent q =
     bind (capture_clean_snapshot (pq_checkout q) (pq_remote q)) (\<lambda>sn.
     bind (ensure_io (sn_git_dir sn \<noteq> sn_common_git_dir sn) ''integration requires an isolated linked Git worktree'') (\<lambda>_.
     bind (of_option ''integration worktree must have its task branch checked out'' (sn_branch sn)) (\<lambda>branch.
     bind (ensure_io (branch \<noteq> pq_branch q) ''integration worktree task branch must differ from the target branch'') (\<lambda>_.
     bind (resolve_exact_commit (sn_checkout sn) (pq_expected_target q)) (\<lambda>target.
     bind (ensure_io (sn_revision sn = target) ''integration checkout is not at the expected target commit'') (\<lambda>_.
     bind (resolve_exact_commit (sn_checkout sn) (pq_candidate_base q)) (\<lambda>base.
     bind (resolve_exact_commit (sn_checkout sn) (pq_candidate q)) (\<lambda>candidate.
     bind (ensure_ancestor (sn_checkout sn) base candidate
       ''candidate base is not an ancestor of the candidate'') (\<lambda>_.
     bind (ensure_related (sn_checkout sn) target candidate) (\<lambda>_.
     bind (observe_remote_target (sn_checkout sn) (pq_remote q) (pq_branch q)) (\<lambda>seen.
     bind (ensure_io (to_revision seen = Some target)
       ''configured remote target does not equal the expected target commit'') (\<lambda>_.
     bind (ensure_io (to_tree seen = Some (sn_tree sn))
       ''configured remote target tree does not equal the expected target tree'') (\<lambda>_.
     bind (tree_of (sn_checkout sn) candidate) (\<lambda>candidate_tree.
     return \<lparr>it_version = INTENT_VERSION, it_revision = 1, it_phase = Preparing, it_checkout = sn_checkout sn,
       it_git_dir = sn_git_dir sn, it_common_git_dir = sn_common_git_dir sn, it_branch = branch,
       it_remote = sn_remote sn, it_target_branch = pq_branch q, it_expected_target = target,
       it_expected_tree = sn_tree sn, it_candidate_base = base, it_candidate = candidate,
       it_candidate_tree = candidate_tree, it_result = None, it_result_tree = None, it_result_ref = None,
       it_last_observed = to_revision seen\<rparr>))))))))))))))"

definition prepare_integration :: "prepare_request \<Rightarrow> intent io" where
  "prepare_integration q =
     (let p = pq_state_file q in
      bind (validate_branch (pq_checkout q) (pq_branch q)) (\<lambda>_.
      bind (lock_intent p) (\<lambda>_.
      bind (stored p) (\<lambda>s.
      if s \<noteq> None then
        bind (load_intent p) (\<lambda>i.
        bind (ensure_same_prepare_request i q) (\<lambda>_. finish_preparation p i (pq_remote q)))
      else
        bind (new_intent q) (\<lambda>i.
        bind (save_intent p i ''preparation_started'') (\<lambda>_. finish_preparation p i (pq_remote q)))))))"

section \<open>Publishing a result\<close>

datatype publication =
    Published_as string
  | Target_moved string "string option"
  | Not_published "string option"
  | Uncertain "string option"

record authority_context =
  ac_target_branch :: string
  ac_expected_target :: string
  ac_expected_tree :: string
  ac_candidate :: string
  ac_result :: string
  ac_result_tree :: string

text \<open>A budget in nanoseconds of the monotonic clock, from the moment it was granted.\<close>

record fresh_authority =
  fa_granted_at :: int
  fa_valid_for :: int

definition tick :: "int io" where
  "tick = ask ho_tick Ticked"

definition valid_for :: "int \<Rightarrow> fresh_authority io" where
  "valid_for budget =
     bind (ensure_io (budget \<noteq> 0) ''publication authority has already expired'') (\<lambda>_.
     bind tick (\<lambda>now. return \<lparr>fa_granted_at = now, fa_valid_for = budget\<rparr>))"

definition elapsed_since :: "int \<Rightarrow> int io" where
  "elapsed_since start = bind tick (\<lambda>now. return (max 0 (now - start)))"

definition remaining :: "fresh_authority \<Rightarrow> int io" where
  "remaining a = bind (elapsed_since (fa_granted_at a)) (\<lambda>e. return (max 0 (fa_valid_for a - e)))"

definition TWO_SECONDS :: int where "TWO_SECONDS = 2000000000"

definition load_prepared :: "string \<Rightarrow> intent io" where
  "load_prepared p =
     bind (lock_intent p) (\<lambda>_.
     bind (load_intent p) (\<lambda>i.
     bind (ensure_io (it_phase i \<noteq> Preparing) ''integration result has not finished preparation'') (\<lambda>_. return i)))"

definition materialize_prepared_result :: "string \<Rightarrow> string \<Rightarrow> intent io" where
  "materialize_prepared_result p url =
     bind (load_prepared p) (\<lambda>i.
     bind (materialize_result_checkout i url) (\<lambda>_.
     let j = i\<lparr>it_revision := it_revision i + 1\<rparr> in
     bind (save_intent p j ''result_materialized'') (\<lambda>_. return j)))"

definition observe_intent :: "string \<Rightarrow> intent \<Rightarrow> string \<Rightarrow> string \<Rightarrow> intent io" where
  "observe_intent p i url event =
     bind (observe_remote_target (it_checkout i) url (it_target_branch i)) (\<lambda>seen.
     record_observation p i (to_revision seen) event)"

text \<open>What an observation already decides: the result is there, or the target is neither there nor where it was.\<close>

definition settled_by :: "string \<Rightarrow> intent \<Rightarrow> string \<Rightarrow> publication option io" where
  "settled_by p i result =
     (if it_last_observed i = Some result then
        bind (mark_published p i) (\<lambda>_. return (Some (Published_as result)))
      else if it_last_observed i \<noteq> Some (it_expected_target i) then
        return (Some (Target_moved (it_expected_target i) (it_last_observed i)))
      else return None)"

definition reconcile_push :: "string \<Rightarrow> string \<Rightarrow> publication io" where
  "reconcile_push p url =
     bind (load_prepared p) (\<lambda>i.
     bind (validate_intent_checkout i url) (\<lambda>_.
     bind (validate_git_result i) (\<lambda>_.
     bind (observe_intent p i url ''publication_reconciled'') (\<lambda>j.
     bind (of_option ''prepared integration has no result'' (it_result j)) (\<lambda>result.
     bind (settled_by p j result) (\<lambda>s.
     case s of
       Some ending \<Rightarrow> return ending
     | None \<Rightarrow> return (if it_phase j = Prepared then Not_published (it_last_observed j)
                       else Uncertain (it_last_observed j))))))))"

text \<open>The arguments of the push: exactly the result, and only while the target is still the expected one.\<close>

definition push_args :: "intent \<Rightarrow> string \<Rightarrow> string \<Rightarrow> string list" where
  "push_args i result remote =
     [''push'', ''--porcelain'', ''--force-with-lease='' @ branch_ref (it_target_branch i) @ '':'' @ it_expected_target i,
      remote, result @ '':'' @ branch_ref (it_target_branch i)]"

text \<open>From the durable push intent on. The authority is looked at once more right before Git starts.\<close>

definition push_result :: "string \<Rightarrow> intent \<Rightarrow> string \<Rightarrow> fresh_authority \<Rightarrow> string \<Rightarrow> publication io" where
  "push_result p i url authority result =
     (let j = i\<lparr>it_phase := Push_intent, it_revision := it_revision i + 1\<rparr> in
      bind (save_intent p j ''push_intent'') (\<lambda>_.
      bind (git_remote_argument (it_checkout j) url) (\<lambda>remote.
      bind (remaining authority) (\<lambda>left.
      if left \<le> TWO_SECONDS then
        bind (save_intent p (j\<lparr>it_phase := Prepared, it_revision := it_revision j + 1\<rparr>)
          ''push_not_started_authority_expired'') (\<lambda>_.
        fail ''fresh publication authority expired before Git could start'')
      else
        bind (git_raw (it_checkout j) (push_args j result remote) None []) (\<lambda>push.
        bind (observe_intent p j url ''post_push_observed'') (\<lambda>k.
        bind (settled_by p k result) (\<lambda>s.
        case s of
          Some ending \<Rightarrow> return ending
        | None \<Rightarrow> return (if success push then Uncertain (it_last_observed k)
                          else Not_published (it_last_observed k)))))))))"

definition context_of :: "intent \<Rightarrow> string \<Rightarrow> string \<Rightarrow> authority_context" where
  "context_of i result tree = \<lparr>ac_target_branch = it_target_branch i, ac_expected_target = it_expected_target i,
     ac_expected_tree = it_expected_tree i, ac_candidate = it_candidate i, ac_result = result, ac_result_tree = tree\<rparr>"

text \<open>With authority in hand: validate and observe again, and push only if nothing changed.\<close>

definition publish_authorized :: "string \<Rightarrow> intent \<Rightarrow> string \<Rightarrow> fresh_authority \<Rightarrow> string \<Rightarrow> publication io" where
  "publish_authorized p i url authority result =
     bind (validate_intent_checkout i url) (\<lambda>_.
     bind (validate_git_result i) (\<lambda>_.
     bind (observe_intent p i url ''remote_reobserved'') (\<lambda>j.
     bind (settled_by p j result) (\<lambda>s.
     case s of
       Some ending \<Rightarrow> return ending
     | None \<Rightarrow>
         bind (remaining authority) (\<lambda>left.
         bind (ensure_io (TWO_SECONDS < left) ''fresh publication authority is too close to expiry'') (\<lambda>_.
         push_result p j url authority result))))))"

definition publish_prepared :: "string \<Rightarrow> string \<Rightarrow> (authority_context \<Rightarrow> fresh_authority io) \<Rightarrow> publication io" where
  "publish_prepared p url authorize =
     bind (load_prepared p) (\<lambda>i.
     bind (validate_intent_checkout i url) (\<lambda>_.
     bind (validate_git_result i) (\<lambda>_.
     bind (observe_intent p i url ''remote_observed'') (\<lambda>j.
     bind (of_option ''prepared integration has no result'' (it_result j)) (\<lambda>result.
     bind (settled_by p j result) (\<lambda>s.
     case s of
       Some ending \<Rightarrow> return ending
     | None \<Rightarrow>
         if it_phase j = Push_intent then return (Uncertain (it_last_observed j))
         else if it_phase j = Intent_published then return (Target_moved result (it_last_observed j))
         else
           bind (of_option ''prepared integration has no result tree'' (it_result_tree j)) (\<lambda>tree.
           bind (authorize (context_of j result tree)) (\<lambda>authority.
           publish_authorized p j url authority result))))))))"

end
