(* ===== verification/Publication_Safety.thy ===== *)
theory Publication_Safety
  imports Publication
begin

text \<open>
  What the publication of a result guarantees through crashes and retries: for one intent at most one push ever
  starts, and only an exact one. The operations are taken one after another, each against a host of its own and
  each possibly cut short after any act; the history carries over.
\<close>

section \<open>Programs along histories\<close>

text \<open>
  \<open>sound J P m Q\<close>: from a history with \<open>J\<close> and \<open>P\<close>, the invariant \<open>J\<close> holds of every history \<open>m\<close>
  goes through, on every host and also when \<open>m\<close> fails, and a result \<open>a\<close> comes with \<open>Q a\<close>.
\<close>

definition between :: "history \<Rightarrow> history \<Rightarrow> history \<Rightarrow> bool" where
  "between tr s tr' \<longleftrightarrow> suffix tr s \<and> suffix s tr'"

definition sound :: "(history \<Rightarrow> bool) \<Rightarrow> (history \<Rightarrow> bool) \<Rightarrow> 'a io \<Rightarrow> ('a \<Rightarrow> history \<Rightarrow> bool) \<Rightarrow> bool" where
  "sound J P m Q \<longleftrightarrow> (\<forall>w. J (wo_trace w) \<and> P (wo_trace w) \<longrightarrow>
     suffix (wo_trace w) (wo_trace (snd (m w))) \<and> (\<forall>s. between (wo_trace w) s (wo_trace (snd (m w))) \<longrightarrow> J s)
     \<and> (\<forall>a. fst (m w) = Inr a \<longrightarrow> Q a (wo_trace (snd (m w)))))"

lemma soundD:
  assumes "sound J P m Q" "J (wo_trace w)" "P (wo_trace w)" "m w = (r, v)"
  shows "suffix (wo_trace w) (wo_trace v)" "\<And>s. between (wo_trace w) s (wo_trace v) \<Longrightarrow> J s" "J (wo_trace v)"
    "\<And>a. r = Inr a \<Longrightarrow> Q a (wo_trace v)"
proof -
  have *: "suffix (wo_trace w) (wo_trace v)" "\<forall>s. between (wo_trace w) s (wo_trace v) \<longrightarrow> J s"
    "\<forall>a. r = Inr a \<longrightarrow> Q a (wo_trace v)"
    using assms unfolding sound_def by fastforce+
  then show "suffix (wo_trace w) (wo_trace v)" "\<And>s. between (wo_trace w) s (wo_trace v) \<Longrightarrow> J s"
    "\<And>a. r = Inr a \<Longrightarrow> Q a (wo_trace v)" by blast+
  from *(1,2) show "J (wo_trace v)" by (simp add: between_def)
qed

lemma soundI:
  assumes "\<And>(w :: world) r v. J (wo_trace w) \<Longrightarrow> P (wo_trace w) \<Longrightarrow> m w = (r, v) \<Longrightarrow>
    suffix (wo_trace w) (wo_trace v) \<and> (\<forall>s. between (wo_trace w) s (wo_trace v) \<longrightarrow> J s)
    \<and> (\<forall>a. r = Inr a \<longrightarrow> Q a (wo_trace v))"
  shows "sound J P m Q"
  unfolding sound_def
proof (intro allI impI)
  fix w :: world assume "J (wo_trace w) \<and> P (wo_trace w)"
  with assms [of w "fst (m w)" "snd (m w)"]
  show "suffix (wo_trace w) (wo_trace (snd (m w))) \<and> (\<forall>s. between (wo_trace w) s (wo_trace (snd (m w))) \<longrightarrow> J s)
     \<and> (\<forall>a. fst (m w) = Inr a \<longrightarrow> Q a (wo_trace (snd (m w))))" by simp
qed

lemma between_refl [simp]: "between tr s tr \<longleftrightarrow> s = tr"
  by (auto simp: between_def suffix_order.antisym)

lemma between_Cons: "between tr s (a # tr) \<longleftrightarrow> s = tr \<or> s = a # tr"
  by (auto simp: between_def suffix_Cons suffix_order.antisym)

lemma between_split:
  assumes "between tr s tr''" "suffix tr tr'" "suffix tr' tr''"
  shows "between tr s tr' \<or> between tr' s tr''"
proof -
  have "suffix s tr' \<or> suffix tr' s"
    using assms suffix_same_cases [of s tr'' tr'] by (auto simp: between_def)
  with assms show ?thesis by (auto simp: between_def)
qed

lemma sound_bind:
  assumes m: "sound J P m Q" and f: "\<And>a. sound J (Q a) (f a) R"
  shows "sound J P (bind m f) R"
proof (rule soundI)
  fix w r v assume J: "J (wo_trace w)" and P: "P (wo_trace w)" and run: "bind m f w = (r, v)"
  obtain r1 v1 where m1: "m w = (r1, v1)" by (cases "m w")
  note d = soundD [OF m J P m1]
  show "suffix (wo_trace w) (wo_trace v) \<and> (\<forall>s. between (wo_trace w) s (wo_trace v) \<longrightarrow> J s)
    \<and> (\<forall>a. r = Inr a \<longrightarrow> R a (wo_trace v))"
  proof (cases r1)
    case (Inl e)
    with run m1 d show ?thesis by (auto simp: bind_def)
  next
    case (Inr a)
    with run m1 have fa: "f a v1 = (r, v)" by (simp add: bind_def)
    note d2 = soundD [OF f d(3) d(4) [OF Inr] fa]
    show ?thesis using d(1,2) d2(1,2,4) between_split suffix_order.trans by blast
  qed
qed

lemma sound_conseq:
  assumes "sound J P m Q" and "\<And>tr. J tr \<Longrightarrow> P' tr \<Longrightarrow> P tr" and "\<And>a tr. J tr \<Longrightarrow> Q a tr \<Longrightarrow> Q' a tr"
  shows "sound J P' m Q'"
proof (rule soundI)
  fix w r v assume J: "J (wo_trace w)" and P: "P' (wo_trace w)" and run: "m w = (r, v)"
  note d = soundD [OF assms(1) J assms(2) [OF J P] run]
  show "suffix (wo_trace w) (wo_trace v) \<and> (\<forall>s. between (wo_trace w) s (wo_trace v) \<longrightarrow> J s)
    \<and> (\<forall>a. r = Inr a \<longrightarrow> Q' a (wo_trace v))"
    using d assms(3) by blast
qed

lemma sound_pre: "sound J P m Q \<Longrightarrow> (\<And>tr. J tr \<Longrightarrow> P' tr \<Longrightarrow> P tr) \<Longrightarrow> sound J P' m Q"
  by (rule sound_conseq)

lemma sound_return: "sound J (Q a) (return a) Q"
  by (rule soundI) (auto simp: return_def)

lemma sound_returnI: "(\<And>tr. J tr \<Longrightarrow> P tr \<Longrightarrow> Q a tr) \<Longrightarrow> sound J P (return a) Q"
  by (rule soundI) (auto simp: return_def)

lemma sound_fail: "sound J P (fail e) Q"
  by (rule soundI) (auto simp: fail_def)

lemma sound_ensure: "sound J P (ensure_io b e) (\<lambda>_ tr. P tr \<and> b)"
  by (rule soundI) (cases b; auto simp: ensure_io_def return_def fail_def)

lemma sound_ensureI: "(\<And>tr. J tr \<Longrightarrow> P tr \<Longrightarrow> b \<Longrightarrow> Q () tr) \<Longrightarrow> sound J P (ensure_io b e) Q"
  by (rule soundI) (cases b; auto simp: ensure_io_def return_def fail_def)

lemma sound_of_option: "sound J P (of_option e x) (\<lambda>a tr. P tr \<and> x = Some a)"
  by (rule soundI) (cases x; auto simp: of_option_def return_def fail_def split: option.splits)

lemma sound_ask:
  assumes "\<And>r tr. J tr \<Longrightarrow> P tr \<Longrightarrow> J (mk r # tr) \<and> Q r (mk r # tr)"
  shows "sound J P (ask f mk) Q"
proof (rule soundI)
  fix w :: world and r :: "failure + 'a" and v
  assume J: "J (wo_trace w)" and P: "P (wo_trace w)" and run: "ask f mk w = (r, v)"
  let ?r = "f (wo_host w) (wo_trace w)"
  have v: "wo_trace v = mk ?r # wo_trace w" "r = Inr ?r" using run by (auto simp: ask_def Let_def)
  show "suffix (wo_trace w) (wo_trace v) \<and> (\<forall>s. between (wo_trace w) s (wo_trace v) \<longrightarrow> J s)
    \<and> (\<forall>a. r = Inr a \<longrightarrow> Q a (wo_trace v))"
    unfolding v using assms [OF J P, of ?r] J by (auto simp: between_Cons suffix_Cons)
qed

lemma sound_if: "(b \<Longrightarrow> sound J P m Q) \<Longrightarrow> (\<not> b \<Longrightarrow> sound J P n Q) \<Longrightarrow> sound J P (if b then m else n) Q"
  by simp

lemma sound_option:
  "sound J P m Q \<Longrightarrow> (\<And>a. sound J P (f a) Q) \<Longrightarrow> sound J P (case x of None \<Rightarrow> m | Some a \<Rightarrow> f a) Q"
  by (cases x) simp_all

text \<open>A program all of whose acts keep the invariant and what is known so far keeps both.\<close>

definition steady :: "(act \<Rightarrow> bool) \<Rightarrow> (history \<Rightarrow> bool) \<Rightarrow> bool" where
  "steady A P \<longleftrightarrow> (\<forall>a tr. A a \<and> P tr \<longrightarrow> P (a # tr))"

lemma steadyD: "steady A P \<Longrightarrow> P tr \<Longrightarrow> \<forall>a \<in> set new. A a \<Longrightarrow> P (new @ tr)"
  by (induction new) (auto simp: steady_def)

lemma sound_steady:
  assumes "adds A m" and "steady A J" and "steady A P"
  shows "sound J P m (\<lambda>_. P)"
proof (rule soundI)
  fix w r v assume J: "J (wo_trace w)" and P: "P (wo_trace w)" and run: "m w = (r, v)"
  obtain new where new: "wo_trace v = new @ wo_trace w" "\<forall>a \<in> set new. A a" by (rule addsD [OF assms(1) run])
  have "J s" if s: "between (wo_trace w) s (wo_trace v)" for s
  proof -
    from s obtain us vs where "s = us @ wo_trace w" "wo_trace v = vs @ s" by (auto simp: between_def suffix_def)
    with new have "s = us @ wo_trace w" "\<forall>a \<in> set us. A a" by auto
    with steadyD [OF assms(2) J] show ?thesis by simp
  qed
  moreover have "P (wo_trace v)" using new steadyD [OF assms(3) P] by simp
  ultimately show "suffix (wo_trace w) (wo_trace v) \<and> (\<forall>s. between (wo_trace w) s (wo_trace v) \<longrightarrow> J s)
    \<and> (\<forall>a. r = Inr a \<longrightarrow> P (wo_trace v))" using new by (auto simp: suffix_def)
qed

section \<open>The invariant\<close>

text \<open>The pushes since the state file was last removed.\<close>

fun is_push :: "act \<Rightarrow> bool" where
  "is_push (Ran d args i e r) = pushes args"
| "is_push a = False"

definition since_removed :: "string \<Rightarrow> history \<Rightarrow> history" where
  "since_removed p tr = takeWhile (\<lambda>a. a \<noteq> Removed p True) tr"

definition pushes_of :: "string \<Rightarrow> history \<Rightarrow> act list" where
  "pushes_of p tr = filter is_push (since_removed p tr)"

definition started :: "intent \<Rightarrow> bool" where
  "started i \<longleftrightarrow> it_phase i = Push_intent \<or> it_phase i = Intent_published"

text \<open>Git has said that one commit is an ancestor of another.\<close>

definition contains_commit :: "string \<Rightarrow> string \<Rightarrow> string \<Rightarrow> history \<Rightarrow> bool" where
  "contains_commit d old new tr \<longleftrightarrow>
     (\<exists>out. Ran d [''merge-base'', ''--is-ancestor'', old, new] None [] (Inr out) \<in> set tr \<and> ou_code out = Some 0)"

text \<open>
  A push is exact if, right before it, a push intent was durable; it pushes the result of that intent to its target
  branch with the expected target as the lease; the target was last seen at the expected target; and Git has found
  both the expected target and the candidate in the history of the result.
\<close>

definition exact_push :: "string \<Rightarrow> act \<Rightarrow> history \<Rightarrow> bool" where
  "exact_push p a tr \<longleftrightarrow> (\<exists>i result remote r. durable p tr = Some i \<and> it_phase i = Push_intent
     \<and> it_result i = Some result \<and> it_last_observed i = Some (it_expected_target i)
     \<and> a = Ran (it_checkout i) (push_args i result remote) None [] r
     \<and> contains_commit (it_checkout i) (it_expected_target i) (to_ascii_lowercase result) tr
     \<and> contains_commit (it_checkout i) (it_candidate i) (to_ascii_lowercase result) tr)"

definition publication_ok :: "string \<Rightarrow> history \<Rightarrow> bool" where
  "publication_ok p tr \<longleftrightarrow>
     length (pushes_of p tr) \<le> 1 \<and> (pushes_of p tr \<noteq> [] \<longrightarrow> (\<exists>i. durable p tr = Some i \<and> started i))
     \<and> (\<forall>a s. suffix (a # s) tr \<and> is_push a \<longrightarrow> exact_push p a s)"

text \<open>Acts that concern neither the state file nor push anything.\<close>

definition calm_act :: "string \<Rightarrow> act \<Rightarrow> bool" where
  "calm_act p a \<longleftrightarrow> \<not> is_push a \<and> (\<forall>i e o'. a \<noteq> Saved p i e o') \<and> (\<forall>b. a \<noteq> Removed p b)"

lemma tolerant_quiet [simp]: "tolerant (calm_act p)"
  by (simp add: tolerant_def calm_act_def)

lemma durable_simps [simp]:
  "durable p (Saved p i e o' # tr) = (if o' = Not_saved then durable p tr else Some i)"
  by simp

lemma quiet_durable: "calm_act p a \<Longrightarrow> durable p (a # tr) = durable p tr"
  by (cases a) (auto simp: calm_act_def)

declare durable.simps(2) [simp del]

lemma quiet_pushes: "calm_act p a \<Longrightarrow> pushes_of p (a # tr) = pushes_of p tr"
  by (auto simp: calm_act_def pushes_of_def since_removed_def)

lemma steady_ok [simp]: "steady (calm_act p) (publication_ok p)"
proof -
  have "publication_ok p (a # tr)" if q: "calm_act p a" and ok: "publication_ok p tr" for a tr
  proof -
    have "\<not> is_push a" using q by (simp add: calm_act_def)
    with ok show ?thesis
      by (auto simp: publication_ok_def quiet_durable [OF q] quiet_pushes [OF q] suffix_Cons)
  qed
  then show ?thesis by (simp add: steady_def)
qed

text \<open>What the steps of a publication know: the intent on disk, that nothing was pushed yet, and what Git has said.\<close>

definition knows :: "string \<Rightarrow> intent \<Rightarrow> history \<Rightarrow> bool" where
  "knows p i tr \<longleftrightarrow> durable p tr = Some i"

definition clear :: "string \<Rightarrow> history \<Rightarrow> bool" where
  "clear p tr \<longleftrightarrow> pushes_of p tr = []"

definition contained :: "intent \<Rightarrow> history \<Rightarrow> bool" where
  "contained i tr \<longleftrightarrow> (\<exists>result. it_result i = Some result
     \<and> contains_commit (it_checkout i) (it_expected_target i) (to_ascii_lowercase result) tr
     \<and> contains_commit (it_checkout i) (it_candidate i) (to_ascii_lowercase result) tr)"

lemma steady_knows [simp]: "steady (calm_act p) (knows p i)" "steady (calm_act p) (clear p)"
  by (auto simp: steady_def knows_def clear_def quiet_durable quiet_pushes)

lemma steady_contains [simp]: "steady A (contains_commit d a b)" "steady A (contained i)"
  by (auto simp: steady_def contains_commit_def contained_def)

lemma steady_conj [simp]: "steady A P \<Longrightarrow> steady A Q \<Longrightarrow> steady A (\<lambda>tr. P tr \<and> Q tr)"
  by (auto simp: steady_def)

lemma steady_const [simp]: "steady A (\<lambda>tr. b)"
  by (simp add: steady_def)

lemma prepared_clear: "publication_ok p tr \<Longrightarrow> knows p i tr \<Longrightarrow> \<not> started i \<Longrightarrow> clear p tr"
  by (auto simp: publication_ok_def knows_def clear_def)

lemma sound_quiet:
  "adds (calm_act p) m \<Longrightarrow> steady (calm_act p) P \<Longrightarrow> sound (publication_ok p) P m (\<lambda>_. P)"
  by (rule sound_steady) simp_all

section \<open>Saving\<close>

lemma ok_saved:
  assumes "publication_ok p tr" and "started i \<or> clear p tr"
  shows "publication_ok p (Saved p i e o' # tr)"
proof -
  have p: "pushes_of p (Saved p i e o' # tr) = pushes_of p tr"
    by (simp add: pushes_of_def since_removed_def)
  have "\<forall>a s. suffix (a # s) (Saved p i e o' # tr) \<and> is_push a \<longrightarrow> exact_push p a s"
    using assms(1) by (auto simp: publication_ok_def suffix_Cons)
  moreover have "\<exists>j. durable p (Saved p i e o' # tr) = Some j \<and> started j" if "pushes_of p tr \<noteq> []"
    using assms that by (auto simp: publication_ok_def clear_def)
  ultimately show ?thesis using assms(1) unfolding publication_ok_def p by blast
qed

lemma sound_save_also:
  assumes "\<And>tr. publication_ok p tr \<Longrightarrow> P tr \<Longrightarrow> started j \<or> clear p tr" and "steady (\<lambda>a. \<exists>e r. a = Saved p j e r) Q"
    and "\<And>tr. P tr \<Longrightarrow> Q tr"
  shows "sound (publication_ok p) P (save_intent p j event) (\<lambda>_ tr. knows p j tr \<and> Q tr)"
  unfolding save_intent_def
proof (rule sound_bind)
  show "sound (publication_ok p) P (ask (\<lambda>h tr. ho_save h tr p) (Saved p j event))
      (\<lambda>r tr. (r \<noteq> Not_saved \<longrightarrow> knows p j tr) \<and> Q tr)"
    by (rule sound_ask) (use assms in \<open>auto simp: knows_def steady_def intro: ok_saved\<close>)
  show "sound (publication_ok p) (\<lambda>tr. (r \<noteq> Not_saved \<longrightarrow> knows p j tr) \<and> Q tr)
      (case r of Not_saved \<Rightarrow> fail ''durably save integration intent''
       | Saved_only \<Rightarrow> fail ''append integration journal event'' | Saved_logged \<Rightarrow> return ())
      (\<lambda>_ tr. knows p j tr \<and> Q tr)" for r
    by (cases r) (auto intro: sound_fail sound_returnI)
qed

lemma sound_save:
  assumes "\<And>tr. publication_ok p tr \<Longrightarrow> P tr \<Longrightarrow> started j \<or> clear p tr"
  shows "sound (publication_ok p) P (save_intent p j event) (\<lambda>_. knows p j)"
  by (rule sound_conseq [OF sound_save_also [where P = P and Q = "\<lambda>_. True"]]) (use assms in auto)

lemma steady_saved [simp]:
  "steady (\<lambda>a. \<exists>e r. a = Saved p j e r) (clear p)"
  by (auto simp: steady_def clear_def pushes_of_def since_removed_def)

section \<open>The steps\<close>

lemma sound_git:
  assumes "\<not> pushes args" and "steady (calm_act p) P"
  shows "sound (publication_ok p) P (git_raw d args i e) (\<lambda>out tr. P tr \<and> Ran d args i e (Inr out) \<in> set tr)"
  unfolding git_raw_def or_fail_def
proof (rule sound_bind)
  have q: "calm_act p (Ran d args i e r)" for r using assms(1) by (simp add: calm_act_def)
  show "sound (publication_ok p) P (ask (\<lambda>h tr. ho_git h tr d args i e) (Ran d args i e))
      (\<lambda>r tr. P tr \<and> Ran d args i e r \<in> set tr)"
    by (rule sound_ask) (use q assms(2) steady_ok [of p] in \<open>auto simp: steady_def\<close>)
  show "sound (publication_ok p) (\<lambda>tr. P tr \<and> Ran d args i e r \<in> set tr)
      (case r of Inl e \<Rightarrow> fail e | Inr a \<Rightarrow> return a) (\<lambda>out tr. P tr \<and> Ran d args i e (Inr out) \<in> set tr)" for r
    by (cases r) (auto intro: sound_fail sound_returnI)
qed

lemma sound_ensure_ancestor:
  assumes "steady (calm_act p) P"
  shows "sound (publication_ok p) P (ensure_ancestor d old new e) (\<lambda>_ tr. P tr \<and> contains_commit d old new tr)"
  unfolding ensure_ancestor_def
proof (rule sound_bind)
  show "sound (publication_ok p) P (is_ancestor d old new) (\<lambda>b tr. P tr \<and> (b \<longrightarrow> contains_commit d old new tr))"
    unfolding is_ancestor_def git_def
  proof (rule sound_bind [OF sound_git [OF _ assms]])
    show "sound (publication_ok p) (\<lambda>tr. P tr \<and> Ran d [''merge-base'', ''--is-ancestor'', old, new] None [] (Inr out) \<in> set tr)
      (if ou_code out = Some 0 then return True else if ou_code out = Some 1 then return False
       else fail ''Git could not verify commit ancestry'')
      (\<lambda>b tr. P tr \<and> (b \<longrightarrow> contains_commit d old new tr))" for out
      by (intro sound_if sound_returnI sound_fail) (auto simp: contains_commit_def)
  qed simp
  show "sound (publication_ok p) (\<lambda>tr. P tr \<and> (b \<longrightarrow> contains_commit d old new tr)) (ensure_io b e)
      (\<lambda>_ tr. P tr \<and> contains_commit d old new tr)" for b
    by (rule sound_ensureI) auto
qed

lemma sound_resolve:
  assumes "steady (calm_act p) P"
  shows "sound (publication_ok p) P (resolve_exact_commit d n) (\<lambda>r tr. P tr \<and> r = to_ascii_lowercase n)"
proof (rule soundI)
  fix w r v assume J: "publication_ok p (wo_trace w)" and P: "P (wo_trace w)" and run: "resolve_exact_commit d n w = (r, v)"
  have "sound (publication_ok p) P (resolve_exact_commit d n) (\<lambda>_. P)"
    by (intro sound_quiet adds_intros) (simp_all add: assms)
  note d = soundD [OF this J P run]
  have "a = to_ascii_lowercase n" if "r = Inr a" for a
    using run that unfolding resolve_exact_commit_def Let_def by (auto simp: io_simps)
  with d show "suffix (wo_trace w) (wo_trace v)
    \<and> (\<forall>s. between (wo_trace w) s (wo_trace v) \<longrightarrow> publication_ok p s)
    \<and> (\<forall>a. r = Inr a \<longrightarrow> P (wo_trace v) \<and> a = to_ascii_lowercase n)" by blast
qed

text \<open>A validated result contains the expected target and the candidate.\<close>

lemma sound_validate:
  assumes P: "steady (calm_act p) P"
  shows "sound (publication_ok p) P (validate_git_result i) (\<lambda>_ tr. P tr \<and> contained i tr)"
proof -
  have q: "sound (publication_ok p) Q (tree_of d r) (\<lambda>_. Q)" if "steady (calm_act p) Q" for d r Q
    by (intro sound_quiet adds_intros that) simp_all
  have last: "sound (publication_ok p)
      (\<lambda>tr. ((P tr \<and> it_result i = Some rc) \<and> c = to_ascii_lowercase rc)
        \<and> contains_commit (it_checkout i) (it_expected_target i) c tr)
      (bind (ensure_ancestor (it_checkout i) (it_candidate i) c e) (\<lambda>_. bind (tree_of (it_checkout i) c) (\<lambda>t. ensure_io (h t) e')))
      (\<lambda>_ tr. P tr \<and> contained i tr)" for rc c e e' h
    by (rule sound_bind [OF sound_ensure_ancestor [where p = p]], simp add: P,
        rule sound_bind [OF q], simp add: P, rule sound_ensureI)
      (auto simp: contained_def)
  show ?thesis unfolding validate_git_result_def
    by (rule sound_bind [OF q [OF P]], rule sound_bind [OF sound_ensure],
        rule sound_bind [OF sound_of_option], rule sound_bind [OF sound_resolve], simp add: P,
        rule sound_bind [OF sound_ensure_ancestor [where p = p]], simp add: P, rule sound_pre [OF last], simp)
qed

lemma contained_update [simp]:
  "contained (i\<lparr>it_phase := ph\<rparr>) = contained i" "contained (i\<lparr>it_revision := n\<rparr>) = contained i"
  "contained (i\<lparr>it_last_observed := ob\<rparr>) = contained i"
  by (simp_all add: contained_def fun_eq_iff)

lemma started_update [simp]:
  "started (i\<lparr>it_revision := n\<rparr>) = started i" "started (i\<lparr>it_last_observed := ob\<rparr>) = started i"
  "started (i\<lparr>it_phase := Push_intent\<rparr>)" "started (i\<lparr>it_phase := Intent_published\<rparr>)"
  "\<not> started (i\<lparr>it_phase := Prepared\<rparr>)"
  by (simp_all add: started_def)

lemma keeps_phase: "publication_ok p tr \<Longrightarrow> knows p i tr \<Longrightarrow> started j = started i \<Longrightarrow> started j \<or> clear p tr"
  using prepared_clear by blast

definition lasting :: "string \<Rightarrow> (history \<Rightarrow> bool) \<Rightarrow> bool" where
  "lasting p P \<longleftrightarrow> steady (calm_act p) P \<and> (\<forall>j. steady (\<lambda>a. \<exists>e r. a = Saved p j e r) P)"

lemma lasting_intros [simp]:
  "lasting p (clear p)" "lasting p (contained i)" "lasting p (\<lambda>_. b)"
  "lasting p P \<Longrightarrow> lasting p Q \<Longrightarrow> lasting p (\<lambda>tr. P tr \<and> Q tr)"
  by (auto simp: lasting_def)

lemma lastingD: "lasting p P \<Longrightarrow> steady (calm_act p) P" "lasting p P \<Longrightarrow> steady (\<lambda>a. \<exists>e r. a = Saved p j e r) P"
  by (simp_all add: lasting_def)

lemma sound_load_intent:
  "sound (publication_ok p) (\<lambda>_. True) (load_intent p) (\<lambda>i. knows p i)"
proof -
  have s: "sound (publication_ok p) P (stored p) (\<lambda>s tr. P tr \<and> s = durable p tr)" for P
    by (rule soundI) (auto simp: stored_def)
  have q: "sound (publication_ok p) (\<lambda>_. True) (ask (\<lambda>h tr. ho_read h tr p) (Read p)) (\<lambda>_ _. True)"
    by (intro sound_quiet adds_intros) (simp_all add: calm_act_def)
  show ?thesis unfolding load_intent_def
    by (rule sound_bind [OF q], rule sound_bind [OF sound_ensure], rule sound_bind [OF s],
        rule sound_bind [OF sound_of_option], rule sound_bind [OF sound_ensure], rule sound_returnI)
      (auto simp: knows_def)
qed

lemma adds_lock [adds_intros]: "tolerant A \<Longrightarrow> adds A (lock_intent p)"
  unfolding lock_intent_def by (intro adds_intros) (simp add: tolerant_def)

lemma sound_load_prepared:
  "sound (publication_ok p) (\<lambda>_. True) (load_prepared p) (\<lambda>i tr. knows p i tr \<and> it_phase i \<noteq> Preparing)"
proof -
  have q: "sound (publication_ok p) (\<lambda>_. True) (lock_intent p) (\<lambda>_ _. True)"
    by (intro sound_quiet adds_intros) simp_all
  show ?thesis unfolding load_prepared_def
    by (rule sound_bind [OF q], rule sound_bind [OF sound_load_intent], rule sound_bind [OF sound_ensure], rule sound_returnI)
      auto
qed

lemma sound_observe_intent:
  assumes "lasting p S"
  shows "sound (publication_ok p) (\<lambda>tr. knows p i tr \<and> S tr) (observe_intent p i url e)
    (\<lambda>j tr. knows p j tr \<and> S tr \<and> (\<exists>seen. j = i\<lparr>it_last_observed := seen, it_revision := it_revision i + 1\<rparr>))"
  unfolding observe_intent_def
proof (rule sound_bind)
  show "sound (publication_ok p) (\<lambda>tr. knows p i tr \<and> S tr)
      (observe_remote_target (it_checkout i) url (it_target_branch i)) (\<lambda>_ tr. knows p i tr \<and> S tr)"
    by (intro sound_quiet adds_intros) (simp_all add: lastingD(1) [OF assms])
  show "sound (publication_ok p) (\<lambda>tr. knows p i tr \<and> S tr) (record_observation p i seen e)
      (\<lambda>j tr. knows p j tr \<and> S tr \<and> (\<exists>seen. j = i\<lparr>it_last_observed := seen, it_revision := it_revision i + 1\<rparr>))"
    (is "sound _ ?P _ _") for seen
    unfolding record_observation_def Let_def
    by (rule sound_bind [OF sound_save_also [where P = ?P and Q = S]], rule keeps_phase; simp?)
      (auto simp: lastingD(2) [OF assms] intro: sound_returnI)
qed

text \<open>An observation that settles nothing found the target where it was expected.\<close>

lemma sound_settled_by:
  assumes "lasting p S"
  shows "sound (publication_ok p) (\<lambda>tr. knows p i tr \<and> S tr) (settled_by p i result)
    (\<lambda>s tr. s = None \<longrightarrow> knows p i tr \<and> S tr \<and> it_last_observed i = Some (it_expected_target i))"
proof -
  have m: "sound (publication_ok p) (\<lambda>tr. knows p i tr \<and> S tr) (mark_published p i) (\<lambda>_ _. True)"
    unfolding mark_published_def
    by (intro sound_if, rule sound_conseq [OF sound_save], rule disjI1, simp, assumption, simp, rule sound_returnI, simp)
  show ?thesis unfolding settled_by_def
    by (intro sound_if sound_returnI) (auto intro: sound_bind [OF m] sound_returnI)
qed

end
