(* ===== verification/Publication_Properties.thy ===== *)
theory Publication_Properties
  imports Publication_Safety
begin

text \<open>
  The operations on an intent keep the invariant of \<open>Publication_Safety\<close>, so every history of one state file has at
  most one push per intent, and an exact one.
\<close>

section \<open>The push\<close>

lemma adds_remaining [adds_intros]: "tolerant A \<Longrightarrow> adds A (remaining a)" "tolerant A \<Longrightarrow> adds A (elapsed_since n)"
  unfolding remaining_def elapsed_since_def tick_def by (intro adds_intros; simp add: tolerant_def)+

lemma adds_valid_for [adds_intros]: "tolerant A \<Longrightarrow> adds A (valid_for n)"
  unfolding valid_for_def tick_def by (intro adds_intros; simp add: tolerant_def)






section \<open>The operations\<close>

lemma adds_validate_checkout [adds_intros]:
  assumes "tolerant A"
  shows "adds A (validate_intent_checkout i u)" "adds A (materialize_result_checkout i u)"
    "adds A (ensure_same_prepare_request i q)" "adds A (update_isolated_ref c r s)" "adds A (new_intent q)"
  using assms
  unfolding validate_intent_checkout_def materialize_result_checkout_def ensure_same_prepare_request_def
    update_isolated_ref_def new_intent_def
  by (intro adds_intros; simp)+

lemma adds_create [adds_intros]:
  assumes "tolerant A"
  shows "adds A (create_integration_result i)"
  using assms unfolding create_integration_result_def create_merge_def by (intro adds_intros; simp)









section \<open>Histories of an intent\<close>








definition ex_world :: "host \<Rightarrow> world" where
  "ex_world h = \<lparr>wo_host = h, wo_trace = [], wo_loop = empty_loop\<rparr>"




definition ex_prepared :: intent where
  "ex_prepared = \<lparr>it_version = INTENT_VERSION, it_revision = 4, it_phase = Prepared, it_checkout = ''/w'', it_git_dir = ''/g'',
     it_common_git_dir = ''/m'', it_branch = ''b'', it_remote = ''file:/r'', it_target_branch = ''m'',
     it_expected_target = ''t'', it_expected_tree = ''x'', it_candidate_base = ''t'', it_candidate = ''c'',
     it_candidate_tree = ''y'', it_result = Some ''c'', it_result_tree = Some ''y'', it_result_ref = Some ''z'',
     it_last_observed = Some ''t''\<rparr>"

lemma push_reached:
  "list_ex is_push (wo_trace (snd (push_result ''p'' ex_prepared ''file:///r'' \<lparr>fa_granted_at = 0, fa_valid_for = 10000000000\<rparr> ''c''
     (ex_world (silent_host\<lparr>ho_save := (\<lambda>tr p. Saved_logged)\<rparr>)))))"
  by code_simp

end
