(* ===== verification/Mirror.thy ===== *)
theory Mirror
  imports Checkout Privilege "HOL-Library.List_Lexorder" "HOL-Library.Char_ord"
begin

text \<open>
  The integrator's own Git plumbing (\<open>crates/integrator/src/git.rs\<close>) and the mechanical revert computed with it
  (\<open>revert.rs\<close>): one bare mirror per repository, linked worktrees, observation of arbitrary references and the
  create-only push.
\<close>

section \<open>Running Git in a mirror\<close>

definition hooks_off :: "string list" where
  "hooks_off = [''-c'', ''core.hooksPath=/dev/null'']"

definition run_env :: "string \<Rightarrow> string list \<Rightarrow> (string \<times> string) list \<Rightarrow> git_output io" where
  "run_env dir args env = git_raw dir (hooks_off @ args) None ((''GIT_TERMINAL_PROMPT'', ''0'') # env)"

definition run :: "string \<Rightarrow> string list \<Rightarrow> git_output io" where
  "run dir args = run_env dir args []"

definition text_env :: "string \<Rightarrow> string list \<Rightarrow> (string \<times> string) list \<Rightarrow> string io" where
  "text_env dir args env =
     bind (run_env dir args env) (\<lambda>out.
     bind (ensure_io (success out) ''git failed'') (\<lambda>_. return (trim (from_utf8_lossy (ou_stdout out)))))"

definition text_of :: "string \<Rightarrow> string list \<Rightarrow> string io" where
  "text_of dir args = text_env dir args []"

definition exit_flag :: "string \<Rightarrow> string list \<Rightarrow> bool io" where
  "exit_flag dir args =
     bind (run dir args) (\<lambda>out.
     if ou_code out = Some 0 then return True
     else if ou_code out = Some 1 then return False
     else fail ''git failed'')"

definition nul_entries :: "string \<Rightarrow> string list" where
  "nul_entries s = map from_utf8_lossy (filter (\<lambda>e. e \<noteq> []) (split_on nul s))"

definition nul_list_env :: "string \<Rightarrow> string list \<Rightarrow> (string \<times> string) list \<Rightarrow> string list io" where
  "nul_list_env dir args env =
     bind (run_env dir args env) (\<lambda>out.
     bind (ensure_io (success out) ''git failed'') (\<lambda>_. return (nul_entries (ou_stdout out))))"

definition remote_url :: "string \<Rightarrow> string io" where
  "remote_url url =
     bind (ensure_io (url \<noteq> [] \<and> \<not> starts_with url ''-'') ''invalid remote URL'') (\<lambda>_. return url)"

section \<open>Mirrors\<close>

definition mirror_dir :: "host \<Rightarrow> string \<Rightarrow> string \<Rightarrow> string" where
  "mirror_dir h state_dir url =
     path_join (path_join state_dir ''mirrors'') (take 16 (ho_sha256 h url) @ ''.git'')"

definition path_parent :: "string \<Rightarrow> string" where
  "path_parent p = (case rsplit_once (CHR ''/'') p of None \<Rightarrow> [] | Some (d, _) \<Rightarrow> d)"

definition exists :: "string \<Rightarrow> bool io" where
  "exists p = ask (\<lambda>h tr. ho_look h tr p) (Looked p)"

definition ensure_mirror :: "string \<Rightarrow> string \<Rightarrow> unit io" where
  "ensure_mirror mirror url =
     bind (remote_url url) (\<lambda>_.
     bind (exists (path_join mirror ''HEAD'')) (\<lambda>there.
     if there then return ()
     else bind (ask (\<lambda>h tr. ho_make_dir h tr (path_parent mirror)) (Made_dir (path_parent mirror))) (\<lambda>made.
          bind (ensure_io made ''create mirror directory'') (\<lambda>_.
          bind (text_of (path_parent mirror) [''clone'', ''--bare'', ''--no-tags'', url, mirror]) (\<lambda>_. return ())))))"

definition fetch_refs :: "string \<Rightarrow> string list \<Rightarrow> unit io" where
  "fetch_refs mirror refspecs =
     bind (text_of mirror ([''fetch'', ''--no-tags'', ''--quiet'', ''origin''] @ refspecs)) (\<lambda>_. return ())"

text \<open>The commit on the first line that names the reference exactly.\<close>

fun exact_ref :: "string \<Rightarrow> string list \<Rightarrow> string option" where
  "exact_ref ref [] = None"
| "exact_ref ref (l # ls) =
     (case split_once (CHR 0x09) l of
        Some (sha, name) \<Rightarrow> if name = ref then Some sha else exact_ref ref ls
      | None \<Rightarrow> exact_ref ref ls)"

definition ls_remote :: "string \<Rightarrow> string \<Rightarrow> string \<Rightarrow> string option io" where
  "ls_remote mirror url ref =
     bind (remote_url url) (\<lambda>_.
     bind (run mirror [''ls-remote'', ''--exit-code'', ''--refs'', url, ref]) (\<lambda>out.
     if ou_code out = Some 2 then return None
     else if ou_code out = Some 0 then return (exact_ref ref (text_lines (from_utf8_lossy (ou_stdout out))))
     else fail ''ls-remote failed''))"

definition mirror_ancestor :: "string \<Rightarrow> string \<Rightarrow> string \<Rightarrow> bool io" where
  "mirror_ancestor mirror ancestor descendant =
     exit_flag mirror [''merge-base'', ''--is-ancestor'', ancestor, descendant]"

definition merges_cleanly :: "string \<Rightarrow> string \<Rightarrow> string \<Rightarrow> bool io" where
  "merges_cleanly mirror x c = exit_flag mirror [''merge-tree'', ''--write-tree'', x, c]"

definition landing_range :: "string \<Rightarrow> string \<Rightarrow> string \<Rightarrow> string list io" where
  "landing_range mirror x c =
     bind (text_of mirror [''rev-list'', ''--reverse'', x @ ''..'' @ c]) (\<lambda>s. return (text_lines s))"

section \<open>Commits and files\<close>

record commit_info =
  cm_sha :: string
  cm_subject :: string
  cm_trailers :: "string list"

definition parse_commit :: "string \<Rightarrow> commit_info option" where
  "parse_commit rec =
     (case splitn 3 (CHR 0x1F) (dropWhile (\<lambda>c. c = CHR 0x0A) rec) of
        sha # subject # rest \<Rightarrow>
          if sha = [] then None
          else Some \<lparr>cm_sha = sha, cm_subject = subject,
            cm_trailers = filter (\<lambda>l. trim l \<noteq> []) (text_lines (case rest of [] \<Rightarrow> [] | t # _ \<Rightarrow> t))\<rparr>
      | _ \<Rightarrow> None)"

definition commits_between :: "string \<Rightarrow> string \<Rightarrow> string \<Rightarrow> commit_info list io" where
  "commits_between mirror old new =
     bind (text_of mirror [''log'', ''--topo-order'', ''--format=%H%x1f%s%x1f%(trailers:only,unfold)%x1e'', old @ ''..'' @ new])
       (\<lambda>s. return (List.map_filter parse_commit (split_on (CHR 0x1E) s)))"

definition changed_files :: "string \<Rightarrow> string \<Rightarrow> string list io" where
  "changed_files mirror sha =
     bind (run mirror [''diff-tree'', ''--no-commit-id'', ''--name-only'', ''-r'', ''-m'', ''--root'', ''-z'', sha]) (\<lambda>out.
     bind (ensure_io (success out) ''git diff-tree failed'') (\<lambda>_.
     return (remdups (sort (filter (\<lambda>n. n \<noteq> []) (split_on nul (from_utf8_lossy (ou_stdout out))))))))"

definition blob_of :: "git_output \<Rightarrow> string option" where
  "blob_of out = (let blob = trim (from_utf8_lossy (ou_stdout out)) in
     if success out \<and> blob \<noteq> [] then Some blob else None)"

definition blob_args :: "string \<Rightarrow> string \<Rightarrow> string list" where
  "blob_args cm path = [''rev-parse'', ''--verify'', ''--quiet'', cm @ '':'' @ path]"

definition blob_at :: "string \<Rightarrow> string \<Rightarrow> string \<Rightarrow> string option io" where
  "blob_at mirror cm path = bind (run mirror (blob_args cm path)) (\<lambda>out. return (blob_of out))"

definition file_at :: "string \<Rightarrow> string \<Rightarrow> string \<Rightarrow> string option io" where
  "file_at mirror cm path =
     bind (blob_at mirror cm path) (\<lambda>b.
     if b = None then return None
     else bind (text_of mirror [''show'', cm @ '':'' @ path]) (\<lambda>s. return (Some s)))"

section \<open>The reads of the privilege gate\<close>

text \<open>
  The gate only reads objects that never change, so all its reads are answered at one point of the history. The
  same commands as above, as a function of what Git answers there.
\<close>

definition git_at :: "host \<Rightarrow> history \<Rightarrow> string \<Rightarrow> string list \<Rightarrow> string + git_output" where
  "git_at h tr mirror args = ho_git h tr mirror (hooks_off @ args) None [(''GIT_TERMINAL_PROMPT'', ''0'')]"

definition text_at :: "host \<Rightarrow> history \<Rightarrow> string \<Rightarrow> string list \<Rightarrow> string + string" where
  "text_at h tr mirror args =
     and_then (git_at h tr mirror args) (\<lambda>out.
     if success out then Inr (trim (from_utf8_lossy (ou_stdout out))) else Inl ''git failed'')"

definition nul_list_at :: "host \<Rightarrow> history \<Rightarrow> string \<Rightarrow> string list \<Rightarrow> string + string list" where
  "nul_list_at h tr mirror args =
     and_then (git_at h tr mirror args) (\<lambda>out.
     if success out then Inr (nul_entries (ou_stdout out)) else Inl ''git failed'')"

definition parse_entry :: "string \<Rightarrow> (string \<times> string) option" where
  "parse_entry entry = map_option (\<lambda>(meta, name). (hd (split_on (CHR '' '') meta), name)) (split_once (CHR 0x09) entry)"

definition reads_at :: "host \<Rightarrow> history \<Rightarrow> string \<Rightarrow> git_reads" where
  "reads_at h tr mirror =
     \<lparr>gr_tree_entries = (\<lambda>cm path.
        and_then (nul_list_at h tr mirror [''ls-tree'', ''-r'', ''-z'', ''--full-tree'', cm, ''--'', if path = [] then ''.'' else path])
          (\<lambda>raw. Inr (List.map_filter parse_entry raw))),
      gr_file_at = (\<lambda>cm path.
        and_then (git_at h tr mirror (blob_args cm path)) (\<lambda>out.
        if blob_of out = None then Inr None
        else and_then (text_at h tr mirror [''show'', cm @ '':'' @ path]) (\<lambda>s. Inr (Some s)))),
      gr_changed_paths = (\<lambda>old new.
        nul_list_at h tr mirror [''diff'', ''-z'', ''--no-renames'', ''--name-only'', old, new, ''--''])\<rparr>"

definition git_reads_of :: "string \<Rightarrow> git_reads io" where
  "git_reads_of mirror w = (Inr (reads_at (wo_host w) (wo_trace w) mirror), w)"

section \<open>Worktrees\<close>

definition remove_worktree :: "string \<Rightarrow> string \<Rightarrow> string \<Rightarrow> unit io" where
  "remove_worktree mirror dir branch =
     bind (exists dir) (\<lambda>there.
     bind (if there then
             bind (attempt_of (text_of mirror [''worktree'', ''remove'', ''--force'', dir])) (\<lambda>r.
             case r of
               Inr _ \<Rightarrow> return ()
             | Inl _ \<Rightarrow> bind (ask (\<lambda>h tr. ho_remove_dir h tr dir) (Removed_dir dir)) (\<lambda>b.
                 ensure_io b ''remove a partial worktree''))
           else return ()) (\<lambda>_.
     bind (attempt_of (run mirror [''worktree'', ''prune''])) (\<lambda>_.
     bind (attempt_of (run mirror [''branch'', ''-D'', branch])) (\<lambda>_. return ()))))"

definition ensure_worktree :: "string \<Rightarrow> string \<Rightarrow> string \<Rightarrow> string \<Rightarrow> unit io" where
  "ensure_worktree mirror dir branch at =
     bind (exists (path_join dir ''.git'')) (\<lambda>there.
     if there then return ()
     else bind (remove_worktree mirror dir branch) (\<lambda>_.
          bind (text_of mirror [''worktree'', ''add'', ''--quiet'', ''-B'', branch, dir, at]) (\<lambda>_. return ())))"

text \<open>The result is confirmed by observation, never by the exit status of the push.\<close>

definition push_create_only :: "string \<Rightarrow> string \<Rightarrow> string \<Rightarrow> string \<Rightarrow> unit io" where
  "push_create_only mirror url sha ref =
     bind (remote_url url) (\<lambda>_.
     bind (ls_remote mirror url ref) (\<lambda>tip.
     if tip = Some sha then return ()
     else bind (run mirror [''push'', ''--quiet'', ''--force-with-lease='' @ ref @ '':'', url, sha @ '':'' @ ref]) (\<lambda>_.
          bind (ls_remote mirror url ref) (\<lambda>seen. ensure_io (seen = Some sha) ''remote ref is not at the commit''))))"

section \<open>The mechanical revert\<close>

definition isolated :: "(string \<times> string) list" where
  "isolated =
     [(''GIT_AUTHOR_NAME'', ''Agent Coordinator''), (''GIT_AUTHOR_EMAIL'', ''agent-coordinator@example.invalid''),
      (''GIT_AUTHOR_DATE'', ''2000-01-01T00:00:00 +0000''),
      (''GIT_COMMITTER_NAME'', ''Agent Coordinator''), (''GIT_COMMITTER_EMAIL'', ''agent-coordinator@example.invalid''),
      (''GIT_COMMITTER_DATE'', ''2000-01-01T00:00:00 +0000''),
      (''GIT_CONFIG_GLOBAL'', ''/dev/null''), (''GIT_CONFIG_NOSYSTEM'', ''1'')]"

record revert_spec =
  sp_x :: string
  sp_r :: string
  sp_t0 :: string
  sp_c :: string
  sp_task :: string

datatype mechanical = Clean string string | Conflicting "string list" | Not_in_history | Already_undone

definition in_history :: "string \<Rightarrow> revert_spec \<Rightarrow> bool io" where
  "in_history mirror sp =
     bind (run_env mirror [''cat-file'', ''-e'', sp_r sp @ ''^{commit}''] isolated) (\<lambda>there.
     if \<not> success there then return False
     else bind (run_env mirror [''merge-base'', ''--is-ancestor'', sp_r sp, sp_x sp] isolated) (\<lambda>out.
       if ou_code out = Some 0 then return True
       else if ou_code out = Some 1 then return False
       else fail ''git merge-base failed''))"

definition range_commit :: "string \<Rightarrow> revert_spec \<Rightarrow> string io" where
  "range_commit mirror sp =
     text_env mirror [''commit-tree'', sp_r sp @ ''^{tree}'', ''-p'', sp_t0 sp, ''-m'', ''range '' @ sp_t0 sp @ ''..'' @ sp_r sp] isolated"

definition revert_args :: "string \<Rightarrow> revert_spec \<Rightarrow> string list io" where
  "revert_args mirror sp =
     bind (text_env mirror [''rev-parse'', sp_r sp @ ''^@''] isolated) (\<lambda>s.
     let parents = text_lines s in
     if 1 < length parents \<and> hd parents = sp_t0 sp then return [''-m'', ''1'', sp_r sp]
     else bind (range_commit mirror sp) (\<lambda>c. return [c]))"

definition revert_message :: "revert_spec \<Rightarrow> string \<Rightarrow> string" where
  "revert_message sp subject =
     (let nl = [CHR 0x0A]; q = [CHR 0x22] in
      ''Revert '' @ q @ subject @ q @ nl @ nl @ ''This reverts integration result '' @ sp_r sp @ '' (computed on ''
      @ sp_t0 sp @ '').'' @ nl @ nl @ ''Agent-Coordinator-Revert-Task: '' @ sp_task sp @ nl
      @ ''Agent-Coordinator-Reverted-Result: '' @ sp_r sp @ nl)"

definition commit_revert :: "string \<Rightarrow> string \<Rightarrow> mechanical io" where
  "commit_revert dir message =
     bind (text_env dir [''-c'', ''commit.gpgsign=false'', ''commit'', ''--quiet'', ''--no-verify'', ''--cleanup=verbatim'',
       ''-m'', message] isolated) (\<lambda>_.
     bind (text_env dir [''rev-parse'', ''HEAD''] isolated) (\<lambda>commit.
     bind (text_env dir [''rev-parse'', ''HEAD^{tree}''] isolated) (\<lambda>tree. return (Clean commit tree))))"

definition revert_in :: "string \<Rightarrow> string \<Rightarrow> revert_spec \<Rightarrow> mechanical io" where
  "revert_in mirror dir sp =
     bind (revert_args mirror sp) (\<lambda>args.
     bind (run_env dir ([''revert'', ''--no-commit''] @ args) isolated) (\<lambda>out.
     if \<not> success out then
       bind (nul_list_env dir [''diff'', ''-z'', ''--name-only'', ''--diff-filter=U''] isolated) (\<lambda>paths.
       bind (ensure_io (paths \<noteq> []) ''git revert failed'') (\<lambda>_. return (Conflicting paths)))
     else
       bind (text_env dir [''write-tree''] isolated) (\<lambda>index.
       bind (text_env mirror [''rev-parse'', sp_x sp @ ''^{tree}''] isolated) (\<lambda>tree.
       if index = tree then return Already_undone
       else bind (text_env mirror [''log'', ''-1'', ''--format=%s'', sp_c sp] isolated) (\<lambda>subject.
            commit_revert dir (revert_message sp subject))))))"

text \<open>The worktree is removed again whatever the outcome.\<close>

definition compute_mechanical :: "string \<Rightarrow> string \<Rightarrow> string \<Rightarrow> revert_spec \<Rightarrow> mechanical io" where
  "compute_mechanical mirror dir branch sp =
     bind (in_history mirror sp) (\<lambda>there.
     if \<not> there then return Not_in_history
     else bind (remove_worktree mirror dir branch) (\<lambda>_.
          bind (text_env mirror [''worktree'', ''add'', ''--quiet'', ''-B'', branch, dir, sp_x sp] isolated) (\<lambda>_.
          bind (attempt_of (revert_in mirror dir sp)) (\<lambda>result.
          bind (remove_worktree mirror dir branch) (\<lambda>_.
          case result of Inl e \<Rightarrow> raise e | Inr m \<Rightarrow> return m)))))"

end
