(* ===== verification/Loop_State.thy ===== *)
theory Loop_State
  imports Mirror
begin

text \<open>
  The integrator's local state (\<open>crates/integrator/src/state.rs\<close>): the last tip of every target, sticky freezes,
  ruleset episodes, the results granted push authority, and the reruns requested. A failed save keeps the change in
  memory, except for a published entry, which is forgotten again. The hint appended to a freeze reason is prose and
  is left out.
\<close>

definition MAX_PUBLISHED :: nat where "MAX_PUBLISHED = 64"

datatype tip_moved = Frozen_at string | Unchanged | Forward "string option"

definition save_loop :: "unit io" where
  "save_loop =
     bind get_loop (\<lambda>s.
     bind (ask ho_save_loop (Loop_saved s)) (\<lambda>b. ensure_io b ''replace state file''))"

definition change_loop :: "(loop_state \<Rightarrow> loop_state) \<Rightarrow> unit io" where
  "change_loop f = bind get_loop (\<lambda>s. put_loop (f s))"

text \<open>The state read at start: what was last saved, or empty.\<close>

fun saved_loop :: "history \<Rightarrow> loop_state" where
  "saved_loop [] = empty_loop"
| "saved_loop (a # tr) = (case a of Loop_saved s b \<Rightarrow> if b then s else saved_loop tr | _ \<Rightarrow> saved_loop tr)"

definition load_loop :: "world \<Rightarrow> world" where
  "load_loop w = w\<lparr>wo_loop := saved_loop (wo_trace w)\<rparr>"

definition freeze :: "string \<Rightarrow> string \<Rightarrow> unit io" where
  "freeze key reason =
     bind (change_loop (\<lambda>s. s\<lparr>lo_frozen := (lo_frozen s)(key \<mapsto> reason)\<rparr>)) (\<lambda>_. save_loop)"

definition rewrite_reason :: "string \<Rightarrow> string \<Rightarrow> string" where
  "rewrite_reason previous x = ''target_rewritten: '' @ previous @ '' is not an ancestor of '' @ x"

definition tip_move :: "string \<Rightarrow> string \<Rightarrow> string \<Rightarrow> tip_moved io" where
  "tip_move key mirror x =
     bind get_loop (\<lambda>s.
     case lo_frozen s key of
       Some reason \<Rightarrow> return (Frozen_at reason)
     | None \<Rightarrow>
         case lo_tips s key of
           None \<Rightarrow> return (Forward None)
         | Some previous \<Rightarrow>
             if previous = x then return Unchanged
             else bind (mirror_ancestor mirror previous x) (\<lambda>forward.
                  if forward then return (Forward (Some previous))
                  else bind (freeze key (rewrite_reason previous x)) (\<lambda>_.
                       return (Frozen_at (rewrite_reason previous x)))))"

definition freeze_reason :: "string \<Rightarrow> string option io" where
  "freeze_reason key = bind get_loop (\<lambda>s. return (lo_frozen s key))"

definition ruleset_episode :: "string \<Rightarrow> string io" where
  "ruleset_episode key =
     bind get_loop (\<lambda>s.
     case lo_episodes s key of
       Some name \<Rightarrow> return name
     | None \<Rightarrow>
         bind (put_loop (s\<lparr>lo_episode_seq := lo_episode_seq s + 1\<rparr>)) (\<lambda>_.
         bind (ask ho_date Dated) (\<lambda>millis.
         let name = show_int millis @ ''-'' @ show_nat (lo_episode_seq s + 1) in
         bind (change_loop (\<lambda>s. s\<lparr>lo_episodes := (lo_episodes s)(key \<mapsto> name)\<rparr>)) (\<lambda>_.
         bind save_loop (\<lambda>_. return name)))))"

definition end_ruleset_episode :: "string \<Rightarrow> unit io" where
  "end_ruleset_episode key =
     bind get_loop (\<lambda>s.
     if lo_episodes s key = None then return ()
     else bind (put_loop (s\<lparr>lo_episodes := (lo_episodes s)(key := None)\<rparr>)) (\<lambda>_. save_loop))"

definition rerun_key :: "string \<Rightarrow> int \<Rightarrow> string" where
  "rerun_key result run_id = result @ '':'' @ show_int run_id"

definition no_rerun :: rerun_record where
  "no_rerun = \<lparr>rn_attempt = 0, rn_count = 0\<rparr>"

definition rerun_in :: "loop_state \<Rightarrow> string \<Rightarrow> int \<Rightarrow> rerun_record" where
  "rerun_in s result run_id = unwrap_or (lo_reruns s (rerun_key result run_id)) no_rerun"

definition rerun_of :: "string \<Rightarrow> int \<Rightarrow> rerun_record io" where
  "rerun_of result run_id = bind get_loop (\<lambda>s. return (rerun_in s result run_id))"

definition record_rerun :: "string \<Rightarrow> int \<Rightarrow> int \<Rightarrow> unit io" where
  "record_rerun result run_id at =
     bind (change_loop (\<lambda>s. s\<lparr>lo_reruns := (lo_reruns s)(rerun_key result run_id \<mapsto>
       \<lparr>rn_attempt = at, rn_count = rn_count (rerun_in s result run_id) + 1\<rparr>)\<rparr>)) (\<lambda>_. save_loop)"

definition published_in :: "loop_state \<Rightarrow> string \<Rightarrow> published list" where
  "published_in s key = unwrap_or (lo_published s key) []"

definition published_of :: "string \<Rightarrow> published list io" where
  "published_of key = bind get_loop (\<lambda>s. return (published_in s key))"

definition latest :: "nat \<Rightarrow> 'a list \<Rightarrow> 'a list" where
  "latest n xs = drop (length xs - n) xs"

definition record_published :: "string \<Rightarrow> published \<Rightarrow> unit io" where
  "record_published key entry =
     bind get_loop (\<lambda>s.
     let known = published_in s key in
     if list_ex (\<lambda>k. pb_r k = pb_r entry) known
     then put_loop (s\<lparr>lo_published := (lo_published s)(key \<mapsto> known)\<rparr>)
     else bind (put_loop (s\<lparr>lo_published := (lo_published s)(key \<mapsto> latest MAX_PUBLISHED (known @ [entry]))\<rparr>)) (\<lambda>_.
          bind (attempt_of save_loop) (\<lambda>r.
          case r of
            Inr _ \<Rightarrow> return ()
          | Inl e \<Rightarrow> bind (change_loop (\<lambda>t. t\<lparr>lo_published := (lo_published t)(key := lo_published s key)\<rparr>)) (\<lambda>_.
              raise e))))"

definition record_tip :: "string \<Rightarrow> string \<Rightarrow> unit io" where
  "record_tip key tip =
     bind get_loop (\<lambda>s.
     if lo_tips s key = Some tip then return ()
     else bind (put_loop (s\<lparr>lo_tips := (lo_tips s)(key \<mapsto> tip)\<rparr>)) (\<lambda>_. save_loop))"

end
