(* ===== verification/Integrator_Gates.thy ===== *)
theory Integrator_Gates
  imports Loop_State
begin

text \<open>
  The parts of an integrator cycle around a result: the calls to the service (\<open>crates/integrator/src/service.rs\<close>),
  the reports and the privilege gate (\<open>gates.rs\<close>), the provenance check of a moved target (\<open>landing.rs\<close>), the
  watch over every target (\<open>watch.rs\<close>) and the required-check roster (\<open>roster.rs\<close>).
\<close>

section \<open>Calls to the service and the checks\<close>

definition read_queue :: "string \<Rightarrow> queue reply io" where
  "read_queue project = or_abort (ask (\<lambda>h tr. ho_queue h tr project) (Queue_read project))"

definition post_result :: "string \<Rightarrow> new_result \<Rightarrow> result_record reply io" where
  "post_result project r = or_abort (ask (\<lambda>h tr. ho_result h tr project r) (Result_posted project r))"

definition record_receipt :: "string \<Rightarrow> receipt \<Rightarrow> unit reply io" where
  "record_receipt project r = or_abort (ask (\<lambda>h tr. ho_receipt h tr project r) (Receipt_posted project r))"

definition record_progress :: "string \<Rightarrow> result_record \<Rightarrow> progress_run list \<Rightarrow> unit reply io" where
  "record_progress project r runs =
     or_abort (ask (\<lambda>h tr. ho_progress h tr project (rr_id r) (rr_r r) runs) (Progress_posted project (rr_id r) (rr_r r) runs))"

definition push_authority :: "string \<Rightarrow> string \<Rightarrow> grant reply io" where
  "push_authority project result = or_abort (ask (\<lambda>h tr. ho_authority h tr project result) (Authority_asked project result))"

definition post_observation :: "string \<Rightarrow> observed_tip \<Rightarrow> string option reply io" where
  "post_observation project ob = or_abort (ask (\<lambda>h tr. ho_observe h tr project ob) (Observation_posted project ob))"

definition post_revise :: "string \<Rightarrow> string \<Rightarrow> string \<Rightarrow> string \<Rightarrow> cite \<Rightarrow> unit reply io" where
  "post_revise project submission reason evidence ci =
     or_abort (ask (\<lambda>h tr. ho_revise h tr project submission reason evidence ci) (Revise_posted project submission reason evidence ci))"

definition post_candidate :: "string \<Rightarrow> string \<Rightarrow> revert_candidate \<Rightarrow> unit reply io" where
  "post_candidate project revert c =
     or_abort (ask (\<lambda>h tr. ho_candidate h tr project revert c) (Candidate_posted project revert c))"

definition post_unmechanical :: "string \<Rightarrow> string \<Rightarrow> string \<Rightarrow> string \<Rightarrow> string \<Rightarrow> unit reply io" where
  "post_unmechanical project revert t0 reason evidence =
     or_abort (ask (\<lambda>h tr. ho_unmechanical h tr project revert t0 reason evidence)
       (Unmechanical_posted project revert t0 reason evidence))"

definition post_report :: "string \<Rightarrow> new_report \<Rightarrow> report_record reply io" where
  "post_report project r = or_abort (ask (\<lambda>h tr. ho_report h tr project r) (Report_posted project r))"

definition human_ship :: "string \<Rightarrow> string \<Rightarrow> string list \<Rightarrow> unit reply io" where
  "human_ship project commit files =
     or_abort (ask (\<lambda>h tr. ho_ship h tr project commit files) (Ship_posted project commit files))"

text \<open>The checks source names a repository by its URL.\<close>

definition branch_rules :: "string \<Rightarrow> string \<Rightarrow> string list io" where
  "branch_rules url branch = or_fail (ask (\<lambda>h tr. ho_rules h tr url branch) (Rules_read url branch))"

definition check_runs :: "string \<Rightarrow> string \<Rightarrow> roster_check list \<Rightarrow> check_run list io" where
  "check_runs url sha wanted = or_fail (ask (\<lambda>h tr. ho_runs h tr url sha wanted) (Runs_read url sha wanted))"

definition rerun_failed_jobs :: "string \<Rightarrow> int \<Rightarrow> unit io" where
  "rerun_failed_jobs url run_id =
     or_fail (ask (\<lambda>h tr. ho_rerun_failed h tr url run_id) (Failed_jobs_rerun url run_id))"

definition rerun_job :: "string \<Rightarrow> check_run \<Rightarrow> unit io" where
  "rerun_job url r = or_fail (ask (\<lambda>h tr. ho_rerun_job h tr url r) (Job_rerun url r))"

section \<open>Steps, configuration and jobs\<close>

datatype cycle_step =
    Step_idle | Step_frozen string | Step_blocked string | Step_refused string | Step_revised string
  | Step_checks_pending | Step_returned_to_review | Step_observed string | Step_revert_candidate string
  | Step_not_mechanical string | Step_failed

record integrator_config =
  ic_state_dir :: string
  ic_result_branch_prefix :: string
  ic_required_rules :: "string list"
  ic_roster_path :: string

record integration_job =
  ij_project :: string
  ij_item :: queue_item
  ij_mirror :: string
  ij_x :: string

definition job_key :: "integration_job \<Rightarrow> string" where
  "job_key j = qi_submission (ij_item j) @ ''-'' @ take 12 (ij_x j)"

definition job_target_ref :: "integration_job \<Rightarrow> string" where
  "job_target_ref j = branch_ref (qi_branch (ij_item j))"

definition job_target_key :: "integration_job \<Rightarrow> string" where
  "job_target_key j = target_key (qi_repository (ij_item j)) (qi_branch (ij_item j))"

text \<open>A service failure aborts the cycle; any other error only skips the subject or target.\<close>

definition failed :: "failure \<Rightarrow> cycle_step io" where
  "failed e = (if is_service_failure e then raise e else return Step_failed)"

definition or_failed :: "cycle_step io \<Rightarrow> cycle_step io" where
  "or_failed m = bind (attempt_of m) (\<lambda>r. case r of Inl e \<Rightarrow> failed e | Inr s \<Rightarrow> return s)"

definition skipped :: "cycle_step \<Rightarrow> bool" where
  "skipped s \<longleftrightarrow> (case s of Step_blocked _ \<Rightarrow> True | Step_refused _ \<Rightarrow> True | Step_failed \<Rightarrow> True | _ \<Rightarrow> False)"

section \<open>Reports\<close>

definition short_digest :: "host \<Rightarrow> string \<Rightarrow> string" where
  "short_digest h s = take 16 (ho_sha256 h s)"

definition target_report :: "string \<Rightarrow> string \<Rightarrow> string \<Rightarrow> new_report" where
  "target_report kind dedupe verdict = \<lparr>np_kind = kind, np_dedupe = dedupe, np_task = None, np_submission = None,
     np_result = None, np_verdict = verdict\<rparr>"

definition report_best_effort :: "string \<Rightarrow> new_report \<Rightarrow> bool io" where
  "report_best_effort project r =
     bind (attempt_of (post_report project r)) (\<lambda>x. return (case x of Inl _ \<Rightarrow> False | Inr _ \<Rightarrow> True))"

definition ruleset_frozen :: "string \<Rightarrow> target \<Rightarrow> string list \<Rightarrow> cycle_step io" where
  "ruleset_frozen project t missing =
     bind (ruleset_episode (target_text t)) (\<lambda>episode.
     bind (host_fun (\<lambda>h. short_digest h (target_text t))) (\<lambda>digest.
     bind (report_best_effort project
       (target_report ''ruleset_missing'' (digest @ '':'' @ episode @ '':'' @ join '','' missing) [])) (\<lambda>_.
     return (Step_frozen ''ruleset_missing''))))"

definition rewrite_frozen :: "string \<Rightarrow> target \<Rightarrow> string \<Rightarrow> cycle_step io" where
  "rewrite_frozen project t reason =
     bind (freeze_reason (target_text t)) (\<lambda>known.
     bind (host_fun (\<lambda>h. short_digest h (target_text t) @ '':'' @ short_digest h (unwrap_or known reason))) (\<lambda>dedupe.
     bind (report_best_effort project (target_report ''target_rewritten'' dedupe [])) (\<lambda>_.
     return (Step_frozen reason))))"

definition gate_report :: "integration_job \<Rightarrow> result_record \<Rightarrow> new_report" where
  "gate_report j r = \<lparr>np_kind = ''privilege_gate'', np_dedupe = rr_id r @ '':'' @ rr_r r,
     np_task = Some (qi_subject_task (ij_item j)), np_submission = Some (rr_submission r), np_result = Some (rr_id r),
     np_verdict = []\<rparr>"

text \<open>The search for local actions ends for every finite tree, so its missing answer stands for a run that never ends.\<close>

definition gate_findings :: "string \<Rightarrow> string \<Rightarrow> string \<Rightarrow> string list \<Rightarrow> finding list io" where
  "gate_findings mirror x r required =
     bind (git_reads_of mirror) (\<lambda>g.
     bind (of_option ''the search never ends'' (findings g x r required)) (\<lambda>found.
     case found of Inl e \<Rightarrow> fail e | Inr fs \<Rightarrow> return fs))"

definition privilege_gate :: "integration_job \<Rightarrow> result_record \<Rightarrow> cycle_step option io" where
  "privilege_gate j r =
     bind (gate_findings (ij_mirror j) (ij_x j) (rr_r r) (map pc_path (rr_roster r))) (\<lambda>found.
     if found = [] then return None
     else bind (post_report (ij_project j) (gate_report j r)) (\<lambda>reply.
          return (case reply of
              Inr rec \<Rightarrow> if rp_allowed rec then None
                else Some (Step_blocked (if rp_resolved_at rec \<noteq> None then ''privilege_gate: denied'' else ''privilege_gate: awaits''))
            | Inl refused \<Rightarrow> Some (Step_refused (rf_code refused)))))"

section \<open>Out-of-band landings\<close>

definition AGENT_NAMES :: "string list" where "AGENT_NAMES = [''claude'', ''codex'']"

definition AGENT_ADDRESSES :: "string list" where
  "AGENT_ADDRESSES = [''noreply@anthropic.com'', ''noreply@openai.com'']"

definition SESSION_KEYS :: "string list" where "SESSION_KEYS = [''claude-session'']"

definition MAX_SHIPS :: nat where "MAX_SHIPS = 50"

definition MAX_SHIP_FILES :: nat where "MAX_SHIP_FILES = 1000"

definition names_agent :: "string \<Rightarrow> bool" where
  "names_agent v \<longleftrightarrow> list_ex (\<lambda>a. contains v a) AGENT_ADDRESSES
     \<or> list_ex (\<lambda>w. w \<in> set AGENT_NAMES) (split_on (CHR '' '') (map (\<lambda>c. if ascii_alnum c then c else CHR '' '') v))"

definition is_agent_trailer :: "string \<Rightarrow> bool" where
  "is_agent_trailer line =
     (case split_once (CHR '':'') line of
        None \<Rightarrow> False
      | Some (k, v) \<Rightarrow>
          let key = to_ascii_lowercase (trim k) in
          key \<in> set SESSION_KEYS \<or> (key = ''co-authored-by'' \<and> names_agent (to_ascii_lowercase v)))"

definition flagged :: "commit_info \<Rightarrow> bool" where
  "flagged c \<longleftrightarrow> list_ex is_agent_trailer (cm_trailers c)"

definition own_range :: "string \<Rightarrow> published \<Rightarrow> string list io" where
  "own_range mirror p =
     (case pb_t0 p of Some t0 \<Rightarrow> landing_range mirror t0 (pb_r p) | None \<Rightarrow> return [pb_r p])"

definition out_of_band :: "string \<Rightarrow> string \<Rightarrow> string \<Rightarrow> published list \<Rightarrow> commit_info list io" where
  "out_of_band mirror old new entries =
     bind (commits_between mirror old new) (\<lambda>commits.
     bind (traverse (own_range mirror) (filter (\<lambda>p. pb_r p \<in> set (map cm_sha commits)) entries)) (\<lambda>own.
     return (filter (\<lambda>c. cm_sha c \<notin> set (concat own)) commits)))"

definition ship_files :: "string list \<Rightarrow> string list" where
  "ship_files files = take MAX_SHIP_FILES (filter (\<lambda>f. length f \<le> 1024 \<and> CHR 0x5C \<notin> set f) files)"

definition record_human_ship :: "string \<Rightarrow> string \<Rightarrow> commit_info \<Rightarrow> unit io" where
  "record_human_ship project mirror c =
     bind (attempt_of (changed_files mirror (cm_sha c))) (\<lambda>r.
     case r of
       Inl _ \<Rightarrow> return ()
     | Inr files \<Rightarrow>
         if ship_files files = [] then return ()
         else bind (attempt_of (human_ship project (cm_sha c) (ship_files files))) (\<lambda>_. return ()))"

definition landing_key :: "host \<Rightarrow> target \<Rightarrow> string \<Rightarrow> string \<Rightarrow> string" where
  "landing_key h t old new = short_digest h (target_text t) @ '':'' @ old @ '':'' @ new"

definition classify_move :: "string \<Rightarrow> string \<Rightarrow> target \<Rightarrow> string \<Rightarrow> string \<Rightarrow> bool io" where
  "classify_move project mirror t old new =
     bind (published_of (target_text t)) (\<lambda>entries.
     bind (out_of_band mirror old new entries) (\<lambda>commits.
     bind (for_each (take MAX_SHIPS (filter (\<lambda>c. \<not> flagged c) commits)) (record_human_ship project mirror)) (\<lambda>_.
     if \<not> list_ex flagged commits then return True
     else bind (host_fun (\<lambda>h. landing_key h t old new)) (\<lambda>dedupe.
          report_best_effort project (target_report ''unreviewed_landing'' dedupe [])))))"

section \<open>The watch over the targets\<close>

definition missing_rules :: "integrator_config \<Rightarrow> target \<Rightarrow> string list io" where
  "missing_rules cf t =
     bind (branch_rules (tg_repository t) (tg_branch t)) (\<lambda>active.
     return (filter (\<lambda>r. r \<notin> set active) (ic_required_rules cf)))"

definition watchdog :: "integrator_config \<Rightarrow> string \<Rightarrow> target \<Rightarrow> cycle_step option io" where
  "watchdog cf project t =
     bind (missing_rules cf t) (\<lambda>missing.
     if missing = [] then bind (end_ruleset_episode (target_text t)) (\<lambda>_. return None)
     else bind (ruleset_frozen project t missing) (\<lambda>s. return (Some s)))"

definition observe_target :: "integrator_config \<Rightarrow> target \<Rightarrow> (string \<times> string) io" where
  "observe_target cf t =
     bind (host_fun (\<lambda>h. mirror_dir h (ic_state_dir cf) (tg_repository t))) (\<lambda>mirror.
     bind (ensure_mirror mirror (tg_repository t)) (\<lambda>_.
     let ref = branch_ref (tg_branch t) in
     bind (ls_remote mirror (tg_repository t) ref) (\<lambda>tip.
     bind (of_option ''target does not exist'' tip) (\<lambda>x.
     bind (fetch_refs mirror [''+'' @ ref @ '':'' @ ref]) (\<lambda>_. return (mirror, x))))))"

definition monitor_tip :: "integrator_config \<Rightarrow> string \<Rightarrow> target \<Rightarrow> (cycle_step + string) io" where
  "monitor_tip cf project t =
     bind (observe_target cf t) (\<lambda>(mirror, x).
     bind (tip_move (target_text t) mirror x) (\<lambda>m.
     case m of
       Frozen_at reason \<Rightarrow> bind (rewrite_frozen project t reason) (\<lambda>s. return (Inl s))
     | Unchanged \<Rightarrow> return (Inr x)
     | Forward previous \<Rightarrow>
         bind (case previous of Some p \<Rightarrow> classify_move project mirror t p x | None \<Rightarrow> return True) (\<lambda>settled.
         if \<not> settled then return (Inl (Step_blocked ''tip_move_unsettled''))
         else bind (record_tip (target_text t) x) (\<lambda>_. return (Inr x)))))"

text \<open>The tip is observed even when a rule is missing, so no move goes unclassified meanwhile.\<close>

definition watch_target :: "integrator_config \<Rightarrow> string \<Rightarrow> target \<Rightarrow> (cycle_step + string) io" where
  "watch_target cf project t =
     bind (watchdog cf project t) (\<lambda>rules.
     bind (monitor_tip cf project t) (\<lambda>tip.
     return (case rules of Some frozen \<Rightarrow> Inl frozen | None \<Rightarrow> tip)))"

definition watch_status :: "integrator_config \<Rightarrow> string \<Rightarrow> target \<Rightarrow> (string \<times> (cycle_step + string)) io" where
  "watch_status cf project t =
     bind (attempt_of (watch_target cf project t)) (\<lambda>r.
     case r of
       Inr status \<Rightarrow> return (target_text t, status)
     | Inl e \<Rightarrow> bind (failed e) (\<lambda>s. return (target_text t, Inl s)))"

definition watch_targets :: "integrator_config \<Rightarrow> string \<Rightarrow> queue \<Rightarrow> (string \<times> (cycle_step + string)) list io" where
  "watch_targets cf project q = traverse (watch_status cf project) (all_targets q)"

fun first_held :: "(string \<times> (cycle_step + string)) list \<Rightarrow> cycle_step option" where
  "first_held [] = None"
| "first_held ((k, Inl s) # ws) = Some s"
| "first_held ((k, Inr x) # ws) = first_held ws"

definition watched_tip :: "(string \<times> (cycle_step + string)) list \<Rightarrow> string \<Rightarrow> string option" where
  "watched_tip ws key = (case map_of ws key of Some (Inr x) \<Rightarrow> Some x | _ \<Rightarrow> None)"

section \<open>The roster\<close>

record roster =
  ry_revision :: int
  ry_entries :: "pinned_check list"
  ry_checks :: "roster_check list"

definition file_checks :: "string \<Rightarrow> string \<Rightarrow> string \<Rightarrow> roster_check list io" where
  "file_checks mirror t0 path =
     bind (file_at mirror t0 path) (\<lambda>s.
     case s of
       None \<Rightarrow> return []
     | Some content \<Rightarrow> or_fail (host_fun (\<lambda>h. ho_roster_file h content)))"

definition roster_entry :: "string \<Rightarrow> string \<Rightarrow> roster_check \<Rightarrow> pinned_check io" where
  "roster_entry mirror t0 c =
     bind (blob_at mirror t0 (ro_workflow_path c)) (\<lambda>b.
     bind (of_option ''workflow is missing'' b) (\<lambda>blob.
     return \<lparr>pc_identity = ro_identity c, pc_name = ro_check_name c, pc_path = ro_workflow_path c, pc_blob = blob\<rparr>))"

definition roster_at :: "string \<Rightarrow> string \<Rightarrow> string \<Rightarrow> service_roster \<Rightarrow> roster io" where
  "roster_at mirror t0 path service =
     bind (file_checks mirror t0 path) (\<lambda>checks.
     bind (ensure_io (list_all (\<lambda>i. i \<in> set (map ro_identity checks)) (sr_required service)) ''required check has no entry'') (\<lambda>_.
     bind (traverse (roster_entry mirror t0) checks) (\<lambda>entries.
     return \<lparr>ry_revision = sr_revision service, ry_entries = entries, ry_checks = checks\<rparr>)))"

end
