(* ===== verification/Integrator_Checks.thy ===== *)
theory Integrator_Checks
  imports Integrator_Gates Publication
begin

text \<open>
  A result under its required checks and on its way to the target: flake attribution
  (\<open>crates/integrator/src/attribution.rs\<close>), sending a subject back and reporting reverts (\<open>integrate.rs\<close>,
  \<open>reverts.rs\<close>), and receipts, push authority, the push and the observation after it (\<open>publish.rs\<close>).
\<close>

section \<open>Local files of a job\<close>

definition job_worktree :: "integrator_config \<Rightarrow> integration_job \<Rightarrow> string" where
  "job_worktree cf j = path_join (path_join (ic_state_dir cf) ''worktrees'') (job_key j)"

definition job_branch :: "integration_job \<Rightarrow> string" where
  "job_branch j = ''integration/'' @ job_key j"

definition intent_file :: "integrator_config \<Rightarrow> integration_job \<Rightarrow> string \<Rightarrow> string" where
  "intent_file cf j extension = path_join (path_join (ic_state_dir cf) ''intents'') (job_key j @ ''.'' @ extension)"

definition job_intent :: "integrator_config \<Rightarrow> integration_job \<Rightarrow> string" where
  "job_intent cf j = intent_file cf j ''json''"

definition remove_file :: "string \<Rightarrow> unit io" where
  "remove_file p = bind (ask (\<lambda>h tr. ho_remove h tr p) (Removed p)) (\<lambda>_. return ())"

definition discard_local :: "integrator_config \<Rightarrow> integration_job \<Rightarrow> unit io" where
  "discard_local cf j =
     bind (remove_worktree (ij_mirror j) (job_worktree cf j) (job_branch j)) (\<lambda>_.
     for_each [''json'', ''lock'', ''journal.jsonl''] (\<lambda>e. remove_file (intent_file cf j e)))"

section \<open>Sending a subject back\<close>

definition revise :: "integrator_config \<Rightarrow> integration_job \<Rightarrow> string \<Rightarrow> string \<Rightarrow> cite \<Rightarrow> cycle_step io" where
  "revise cf j reason evidence ci =
     bind (post_revise (ij_project j) (qi_submission (ij_item j)) reason evidence ci) (\<lambda>reply.
     bind (discard_local cf j) (\<lambda>_.
     return (case reply of Inr _ \<Rightarrow> Step_revised reason | Inl refused \<Rightarrow> Step_refused (rf_code refused))))"

definition not_mechanical :: "string \<Rightarrow> string \<Rightarrow> string \<Rightarrow> string \<Rightarrow> string \<Rightarrow> cycle_step io" where
  "not_mechanical project revert t0 reason evidence =
     bind (post_unmechanical project revert t0 reason evidence) (\<lambda>reply.
     return (case reply of Inr _ \<Rightarrow> Step_not_mechanical reason | Inl refused \<Rightarrow> Step_refused (rf_code refused)))"

definition revert_check_failed :: "integrator_config \<Rightarrow> integration_job \<Rightarrow> string \<Rightarrow> string \<Rightarrow> cycle_step io" where
  "revert_check_failed cf j revert evidence =
     bind (discard_local cf j) (\<lambda>_. not_mechanical (ij_project j) revert (ij_x j) ''check_failed'' evidence)"

section \<open>Flake attribution\<close>

text \<open>Labels of runs in evidence texts.\<close>

definition run_label :: "check_run \<Rightarrow> string" where
  "run_label r = ''run '' @ show_int (cr_run_id r) @ '' attempt '' @ show_int (cr_run_attempt r)"

definition result_label :: "check_run \<Rightarrow> string" where
  "result_label r = run_label r @ '' completed '' @ unwrap_or (cr_completed_at r) ''at an unknown time''"

definition author_evidence :: "integration_job \<Rightarrow> result_record \<Rightarrow> check_attempts \<Rightarrow> target_result \<Rightarrow> string" where
  "author_evidence j r c x =
     ro_check_name (ca_check c) @ '' failed on R '' @ rr_r r @ '' ('' @ join '', '' (map run_label (failures c))
       @ '') and passed on target '' @ ij_x j @ '' ('' @ (case x of On_passed p \<Rightarrow> result_label p | _ \<Rightarrow> []) @ '')''"

definition flaky_report :: "integration_job \<Rightarrow> result_record \<Rightarrow> check_attempts \<Rightarrow> string \<Rightarrow> new_report" where
  "flaky_report j r c v = \<lparr>np_kind = ''flaky'',
     np_dedupe = rr_id r @ '':'' @ ro_check_name (ca_check c) @ '':'' @ v, np_task = Some (qi_subject_task (ij_item j)),
     np_submission = Some (rr_submission r), np_result = Some (rr_id r), np_verdict = v\<rparr>"

definition target_verdict :: "target_result \<Rightarrow> blamed \<Rightarrow> string" where
  "target_verdict x b = (if b = Unverified then ''target_unverified'' else ''target_failing'')"

definition fix_target_report :: "host \<Rightarrow> integration_job \<Rightarrow> check_attempts \<Rightarrow> string \<Rightarrow> new_report" where
  "fix_target_report h j c v = target_report ''fix_target''
     (short_digest h (job_target_key j) @ '':'' @ ij_x j @ '':'' @ v @ '':'' @ ro_check_name (ca_check c)) v"

text \<open>A refused rerun that only means the run still has jobs going.\<close>

definition still_running :: "host \<Rightarrow> failure \<Rightarrow> bool" where
  "still_running h e =
     (let message = ho_lowercase h (case e of Failure m \<Rightarrow> m | Service_failure m \<Rightarrow> m) in
      list_ex (\<lambda>p. contains message p) [''already running'', ''not completed'', ''still in progress''])"

definition rerun_in_flight :: "loop_state \<Rightarrow> result_record \<Rightarrow> check_attempts list \<Rightarrow> bool" where
  "rerun_in_flight s r checks =
     list_ex (\<lambda>(run_id, n). 0 < rn_count (rerun_in s (rr_id r) run_id) \<and> n \<le> rn_attempt (rerun_in s (rr_id r) run_id))
       (latest_attempts (concat (map ca_attempts checks)))"

definition judged :: "loop_state \<Rightarrow> result_record \<Rightarrow> check_attempts \<Rightarrow> verdict" where
  "judged s r c = judge (outcomes c) (rn_count (rerun_in s (rr_id r) (cr_run_id (deciding c))))"

definition pick :: "loop_state \<Rightarrow> result_record \<Rightarrow> verdict \<Rightarrow> check_attempts list \<Rightarrow> check_attempts list" where
  "pick s r v checks = filter (\<lambda>c. judged s r c = v) checks"

definition report_flaky :: "integration_job \<Rightarrow> result_record \<Rightarrow> string \<Rightarrow> check_attempts list \<Rightarrow> unit io" where
  "report_flaky j r v checks =
     for_each checks (\<lambda>c. bind (report_best_effort (ij_project j) (flaky_report j r c v)) (\<lambda>_. return ()))"

definition rerun_refused_report :: "integration_job \<Rightarrow> result_record \<Rightarrow> int \<Rightarrow> new_report" where
  "rerun_refused_report j r run_id = \<lparr>np_kind = ''flaky'',
     np_dedupe = rr_id r @ '':'' @ show_int run_id @ '':rerun_refused'', np_task = Some (qi_subject_task (ij_item j)),
     np_submission = Some (rr_submission r), np_result = Some (rr_id r), np_verdict = ''rerun_refused''\<rparr>"

fun request_reruns :: "integration_job \<Rightarrow> result_record \<Rightarrow> (int \<times> int) list \<Rightarrow> cycle_step io" where
  "request_reruns j r [] = return Step_checks_pending"
| "request_reruns j r ((run_id, n) # rest) =
     bind (attempt_of (rerun_failed_jobs (qi_repository (ij_item j)) run_id)) (\<lambda>reply.
     case reply of
       Inr _ \<Rightarrow> bind (record_rerun (rr_id r) run_id n) (\<lambda>_. request_reruns j r rest)
     | Inl e \<Rightarrow>
         bind (host_fun (\<lambda>h. still_running h e)) (\<lambda>going.
         if going then return Step_checks_pending
         else bind (report_best_effort (ij_project j) (rerun_refused_report j r run_id)) (\<lambda>_.
              return (Step_blocked ''rerun_refused''))))"

definition target_state :: "integration_job \<Rightarrow> check_attempts \<Rightarrow> target_result io" where
  "target_state j c =
     bind (check_runs (qi_repository (ij_item j)) (ij_x j) [ca_check c]) (\<lambda>runs.
     host_fun (\<lambda>h. on_target (ho_time h) runs (ca_check c) (ij_x j) (first_failure_started (ho_time h) c)))"

definition refresh_target :: "integration_job \<Rightarrow> result_record \<Rightarrow> target_result \<Rightarrow> blamed io" where
  "refresh_target j r x =
     (case x of
        On_stale passed newest \<Rightarrow>
          bind (rerun_of (rr_id r) (cr_run_id newest)) (\<lambda>n.
          if 0 < rn_count n \<and> cr_run_attempt newest \<le> rn_attempt n then return Wait
          else if MAX_RERUNS \<le> rn_count n then return Unverified
          else bind (attempt_of (rerun_job (qi_repository (ij_item j)) newest)) (\<lambda>reply.
               case reply of
                 Inl e \<Rightarrow> bind (host_fun (\<lambda>h. still_running h e)) (\<lambda>going. return (if going then Wait else Unverified))
               | Inr _ \<Rightarrow> bind (record_rerun (rr_id r) (cr_run_id newest) (cr_run_attempt newest)) (\<lambda>_. return Wait)))
      | _ \<Rightarrow> return Wait)"

definition target_failure :: "integration_job \<Rightarrow> check_attempts \<Rightarrow> target_result \<Rightarrow> blamed \<Rightarrow> unit io" where
  "target_failure j c x b =
     bind (host_fun (\<lambda>h. fix_target_report h j c (target_verdict x b))) (\<lambda>report.
     bind (report_best_effort (ij_project j) report) (\<lambda>_. return ()))"

text \<open>Who is to blame for one reproduced failure, with the evidence against an author.\<close>

definition attribute_check :: "integration_job \<Rightarrow> result_record \<Rightarrow> check_attempts \<Rightarrow> (blamed \<times> string) io" where
  "attribute_check j r c =
     bind (target_state j c) (\<lambda>x.
     bind (if blame x = Refresh then refresh_target j r x else return (blame x)) (\<lambda>b.
     bind (if b = Author \<or> b = Wait then return () else target_failure j c x b) (\<lambda>_.
     return (b, author_evidence j r c x))))"

definition author_failed :: "integrator_config \<Rightarrow> integration_job \<Rightarrow> result_record \<Rightarrow> string \<Rightarrow> cycle_step io" where
  "author_failed cf j r evidence =
     (case qi_revert_task (ij_item j) of
        Some revert \<Rightarrow> revert_check_failed cf j revert evidence
      | None \<Rightarrow> revise cf j ''check_failed'' evidence \<lparr>ci_result = Some (rr_id r), ci_moved_by = None\<rparr>)"

definition attribute_reproduced ::
  "integrator_config \<Rightarrow> integration_job \<Rightarrow> result_record \<Rightarrow> check_attempts list \<Rightarrow> cycle_step io" where
  "attribute_reproduced cf j r reproduced =
     bind (traverse (attribute_check j r) reproduced) (\<lambda>found.
     let author = map snd (filter (\<lambda>(b, e). b = Author) found) in
     if author \<noteq> [] then author_failed cf j r (join ''; '' author)
     else return (if list_ex (\<lambda>(b, e). b = Wait) found then Step_checks_pending else Step_blocked ''target''))"

definition attribute ::
  "integrator_config \<Rightarrow> integration_job \<Rightarrow> result_record \<Rightarrow> check_attempts list \<Rightarrow> cycle_step option io" where
  "attribute cf j r checks =
     bind get_loop (\<lambda>s.
     if pick s r Rerun checks \<noteq> [] then
       bind (request_reruns j r (latest_attempts (map deciding (pick s r Rerun checks)))) (\<lambda>st. return (Some st))
     else
       bind (report_flaky j r ''flaky'' (pick s r Flaky checks)) (\<lambda>_.
       bind (report_flaky j r ''no_result'' (pick s r Undecided checks)) (\<lambda>_.
       if pick s r Reproduced checks \<noteq> [] then
         bind (attribute_reproduced cf j r (pick s r Reproduced checks)) (\<lambda>st. return (Some st))
       else return (if pick s r Undecided checks \<noteq> [] then Some (Step_blocked ''no_result'') else None))))"

section \<open>The checks gate\<close>

definition post_receipt :: "integration_job \<Rightarrow> result_record \<Rightarrow> check_run \<Rightarrow> unit io" where
  "post_receipt j r run' =
     bind (blob_at (ij_mirror j) (rr_r r) (cr_workflow_path run')) (\<lambda>b.
     bind (of_option ''workflow missing in R'' b) (\<lambda>blob.
     bind (record_receipt (ij_project j) \<lparr>rc_result = rr_id r, rc_check_name = cr_check_name run', rc_run_id = cr_run_id run',
       rc_run_attempt = cr_run_attempt run', rc_app_id = cr_app_id run', rc_head_sha = cr_head_sha run',
       rc_workflow_path = cr_workflow_path run', rc_workflow_blob = blob,
       rc_conclusion = unwrap_or (cr_conclusion run') []\<rparr>) (\<lambda>reply.
     case reply of Inr _ \<Rightarrow> return () | Inl refused \<Rightarrow> fail (''receipt refused: '' @ rf_code refused))))"

definition progress_of :: "check_run \<Rightarrow> progress_run" where
  "progress_of r = \<lparr>pr_check_name = cr_check_name r,
     pr_status = (if cr_started_at r \<noteq> None then ''in_progress'' else ''queued''), pr_run_id = cr_run_id r,
     pr_run_attempt = cr_run_attempt r, pr_started_at = cr_started_at r\<rparr>"

definition report_progress ::
  "integration_job \<Rightarrow> result_record \<Rightarrow> check_run list \<Rightarrow> roster_check list \<Rightarrow> unit io" where
  "report_progress j r runs wanted =
     bind (attempt_of (record_progress (ij_project j) r (map progress_of (unfinished_runs runs wanted (rr_r r))))) (\<lambda>_.
     return ())"

definition checks_gate ::
  "integrator_config \<Rightarrow> integration_job \<Rightarrow> result_record \<Rightarrow> roster_check list \<Rightarrow> cycle_step option io" where
  "checks_gate cf j r wanted =
     bind (check_runs (qi_repository (ij_item j)) (rr_r r) wanted) (\<lambda>runs.
     bind (report_progress j r runs wanted) (\<lambda>_.
     case attempts_by_check runs wanted (rr_r r) of
       None \<Rightarrow> return (Some Step_checks_pending)
     | Some checks \<Rightarrow>
         bind get_loop (\<lambda>s.
         if rerun_in_flight s r checks then return (Some Step_checks_pending)
         else bind (for_each (concat (map ca_attempts checks)) (post_receipt j r)) (\<lambda>_. attribute cf j r checks))))"

section \<open>Publishing\<close>

definition AUTHORITY_MARGIN_SECONDS :: int where "AUTHORITY_MARGIN_SECONDS = 30"

definition AUTHORITY_TTL_SECONDS :: int where "AUTHORITY_TTL_SECONDS = 600"

text \<open>Wall time is in milliseconds, the budget and the monotonic clock in nanoseconds.\<close>

definition budget_seconds :: "int \<Rightarrow> int \<Rightarrow> int" where
  "budget_seconds expires now =
     (let left = if expires \<le> now then 0 else (expires - now) div 1000 in
      max 0 (min left AUTHORITY_TTL_SECONDS - AUTHORITY_MARGIN_SECONDS))"

definition authority_budget :: "grant \<Rightarrow> int \<Rightarrow> int io" where
  "authority_budget g sent =
     bind (of_option ''grant has no expires_at'' (gt_expires_at g)) (\<lambda>t.
     bind (host_fun (\<lambda>h. ho_time h t)) (\<lambda>time.
     bind (of_option ''expires_at is not a time'' time) (\<lambda>expires.
     bind (ask ho_date Dated) (\<lambda>now.
     bind (elapsed_since sent) (\<lambda>e.
     return (max 0 (budget_seconds expires now * 1000000000 - e)))))))"

definition authorize_only :: "result_record \<Rightarrow> fresh_authority \<Rightarrow> authority_context \<Rightarrow> fresh_authority io" where
  "authorize_only r authority c =
     (if ac_result c = rr_r r \<and> ac_expected_target c = rr_t0 r then return authority
      else fail ''local intent is not the authorized result'')"

definition try_push :: "integrator_config \<Rightarrow> integration_job \<Rightarrow> result_record \<Rightarrow> grant \<Rightarrow> int \<Rightarrow> unit io" where
  "try_push cf j r g sent =
     bind (ensure_io (gt_r g = Some (rr_r r) \<and> gt_t0 g = Some (rr_t0 r)) ''grant names another result'') (\<lambda>_.
     bind (authority_budget g sent) (\<lambda>budget.
     bind (valid_for budget) (\<lambda>authority.
     bind (ls_remote (ij_mirror j) (qi_repository (ij_item j)) (job_target_ref j)) (\<lambda>tip.
     bind (ensure_io (tip = Some (ij_x j)) ''target moved before the push'') (\<lambda>_.
     bind (publish_prepared (job_intent cf j) (qi_repository (ij_item j)) (authorize_only r authority)) (\<lambda>_.
     return ()))))))"

text \<open>The tip and how it relates to the result; the tip is fetched unless it is the result or its base.\<close>

definition ancestry_of :: "integration_job \<Rightarrow> result_record \<Rightarrow> (string \<times> ancestry) io" where
  "ancestry_of j r =
     bind (ls_remote (ij_mirror j) (qi_repository (ij_item j)) (job_target_ref j)) (\<lambda>seen.
     bind (of_option ''target branch disappeared'' seen) (\<lambda>tip.
     if tip = rr_r r then return (tip, Contained)
     else if tip = rr_t0 r then return (tip, Equal_t0)
     else bind (fetch_refs (ij_mirror j) [''+'' @ job_target_ref j @ '':'' @ job_target_ref j]) (\<lambda>_.
          bind (mirror_ancestor (ij_mirror j) (rr_r r) tip) (\<lambda>b.
          return (tip, if b then Contained else Moved)))))"

definition observe_and_close ::
  "integrator_config \<Rightarrow> integration_job \<Rightarrow> result_record \<Rightarrow> string \<Rightarrow> cycle_step io" where
  "observe_and_close cf j r nonce =
     bind (ancestry_of j r) (\<lambda>(tip, anc).
     bind (post_observation (ij_project j) \<lparr>ot_result = rr_id r, ot_tip = tip, ot_ancestry = anc, ot_nonce = nonce\<rparr>) (\<lambda>reply.
     case reply of
       Inl refused \<Rightarrow> return (Step_refused (rf_code refused))
     | Inr disposition \<Rightarrow>
         bind (discard_local cf j) (\<lambda>_.
         bind (tip_move (job_target_key j) (ij_mirror j) tip) (\<lambda>m.
         return (case m of Frozen_at reason \<Rightarrow> Step_frozen reason
                 | _ \<Rightarrow> Step_observed (unwrap_or disposition ''unknown''))))))"

definition publish :: "integrator_config \<Rightarrow> integration_job \<Rightarrow> result_record \<Rightarrow> cycle_step io" where
  "publish cf j r =
     bind tick (\<lambda>sent.
     bind (push_authority (ij_project j) (rr_id r)) (\<lambda>reply.
     case reply of
       Inl refused \<Rightarrow> return (Step_refused (rf_code refused))
     | Inr g \<Rightarrow>
         if \<not> gt_granted g then bind (discard_local cf j) (\<lambda>_. return Step_returned_to_review)
         else
           bind (record_published (job_target_key j)
             \<lparr>pb_r = rr_r r, pb_t0 = Some (rr_t0 r), pb_result = Some (rr_id r)\<rparr>) (\<lambda>_.
           bind (attempt_of (try_push cf j r g sent)) (\<lambda>_.
           observe_and_close cf j r (unwrap_or (gt_expires_at g) [])))))"

definition check_and_publish ::
  "integrator_config \<Rightarrow> integration_job \<Rightarrow> result_record \<Rightarrow> roster_check list \<Rightarrow> cycle_step io" where
  "check_and_publish cf j r wanted =
     bind (push_create_only (ij_mirror j) (qi_repository (ij_item j)) (rr_r r)
       (''refs/heads/'' @ ic_result_branch_prefix cf @ rr_id r)) (\<lambda>_.
     bind (checks_gate cf j r wanted) (\<lambda>gate.
     case gate of Some st \<Rightarrow> return st | None \<Rightarrow> publish cf j r))"

end
