(* ===== verification/Integrator.thy ===== *)
theory Integrator
  imports Integrator_Checks
begin

text \<open>
  One integration cycle (\<open>crates/integrator/src/integrate.rs\<close>, \<open>reverts.rs\<close>): watch every target, then take the
  first revert or queue item that is not skipped as far as it can go. A pinned result is always computed again
  locally and must reproduce.
\<close>

section \<open>Re-landed reverts\<close>

definition CANDIDATE_CONFLICT :: string where "CANDIDATE_CONFLICT = ''revert_candidate_conflict''"

definition REVERTED_IN_HISTORY :: string where "REVERTED_IN_HISTORY = ''candidate_reverted_in_history''"

definition same_target :: "queue_item \<Rightarrow> reverted_landing \<Rightarrow> bool" where
  "same_target i l \<longleftrightarrow> (rl_repository l = None \<or> rl_repository l = Some (qi_repository i))
     \<and> (rl_branch l = None \<or> rl_branch l = Some (qi_branch i))"

definition reverted_commits :: "queue_item \<Rightarrow> new_result \<Rightarrow> string list" where
  "reverted_commits i r =
     (if nr_r r \<noteq> nr_t0 r then []
      else let undone = concat (map rl_landing_range (filter (same_target i) (qi_reverted i))) in
        remdups (sort (filter (\<lambda>sha. sha \<in> set undone) (nr_landing_range r @ [nr_c r]))))"

definition history_disputed :: "integration_job \<Rightarrow> cycle_step io" where
  "history_disputed j =
     bind (report_best_effort (ij_project j) \<lparr>np_kind = ''fix_target'',
       np_dedupe = qi_submission (ij_item j) @ '':'' @ ij_x j @ '':not_reverted_in_history'',
       np_task = Some (qi_subject_task (ij_item j)), np_submission = Some (qi_submission (ij_item j)), np_result = None,
       np_verdict = ''not_reverted_in_history''\<rparr>) (\<lambda>_. return (Step_blocked ''not_reverted_in_history''))"

definition revise_reverted :: "integrator_config \<Rightarrow> integration_job \<Rightarrow> string list \<Rightarrow> cycle_step io" where
  "revise_reverted cf j commits =
     bind (post_revise (ij_project j) (qi_submission (ij_item j)) ''reverted_in_history''
       (''candidate '' @ qi_candidate (ij_item j) @ '' re-lands commits a recorded revert undid: '' @ join '', '' commits) no_cite)
       (\<lambda>reply.
     bind (discard_local cf j) (\<lambda>_.
     case reply of
       Inr _ \<Rightarrow> return (Step_revised ''reverted_in_history'')
     | Inl refused \<Rightarrow>
         if rf_code refused = ''not_reverted_in_history'' then history_disputed j
         else return (Step_refused (rf_code refused))))"

definition result_refused :: "integrator_config \<Rightarrow> integration_job \<Rightarrow> refusal \<Rightarrow> cycle_step io" where
  "result_refused cf j refused =
     (if rf_code refused \<noteq> REVERTED_IN_HISTORY then return (Step_refused (rf_code refused))
      else revise_reverted cf j (rf_commits refused))"

section \<open>Pinning a result\<close>

definition prepare_job :: "integrator_config \<Rightarrow> integration_job \<Rightarrow> intent io" where
  "prepare_job cf j =
     bind (ensure_worktree (ij_mirror j) (job_worktree cf j) (job_branch j) (ij_x j)) (\<lambda>_.
     prepare_integration \<lparr>pq_state_file = job_intent cf j, pq_checkout = job_worktree cf j,
       pq_remote = qi_repository (ij_item j), pq_branch = qi_branch (ij_item j), pq_expected_target = ij_x j,
       pq_candidate_base = qi_reviewed_base (ij_item j), pq_candidate = qi_candidate (ij_item j)\<rparr>)"

definition compute_result :: "integrator_config \<Rightarrow> integration_job \<Rightarrow> roster \<Rightarrow> new_result io" where
  "compute_result cf j ro =
     bind (prepare_job cf j) (\<lambda>i.
     bind (landing_range (ij_mirror j) (ij_x j) (it_candidate i)) (\<lambda>range.
     bind (of_option ''integration produced no result'' (it_result i)) (\<lambda>result.
     bind (of_option ''integration produced no result tree'' (it_result_tree i)) (\<lambda>tree.
     return \<lparr>nr_submission = qi_submission (ij_item j), nr_t0 = it_expected_target i, nr_t0_tree = it_expected_tree i,
       nr_c = it_candidate i, nr_r = result, nr_r_tree = tree, nr_landing_range = range,
       nr_revision = ry_revision ro, nr_roster = ry_entries ro\<rparr>))))"

text \<open>Whether a Git answer could be read, and said yes or no.\<close>

definition says :: "bool \<Rightarrow> bool io \<Rightarrow> bool io" where
  "says b m = bind (attempt_of m) (\<lambda>r. return (r = Inr b))"

definition landed :: "string \<Rightarrow> string \<Rightarrow> string \<Rightarrow> published \<Rightarrow> bool io" where
  "landed mirror x base p =
     (if pb_result p = None then return False
      else bind (says True (mirror_ancestor mirror (pb_r p) x)) (\<lambda>inside.
           if \<not> inside then return False else says False (mirror_ancestor mirror (pb_r p) base)))"

fun newest_landing :: "string \<Rightarrow> string \<Rightarrow> string \<Rightarrow> published option \<Rightarrow> published list \<Rightarrow> published option io" where
  "newest_landing mirror x base newest [] = return newest"
| "newest_landing mirror x base newest (p # ps) =
     bind (landed mirror x base p) (\<lambda>b.
     if \<not> b then newest_landing mirror x base newest ps
     else bind (case newest of None \<Rightarrow> return True | Some n \<Rightarrow> says True (mirror_ancestor mirror (pb_r n) (pb_r p))) (\<lambda>later.
          newest_landing mirror x base (if later then Some p else newest) ps))"

definition landing_result :: "string \<Rightarrow> published list \<Rightarrow> string \<Rightarrow> string \<Rightarrow> string option io" where
  "landing_result mirror entries x base =
     bind (newest_landing mirror x base None entries) (\<lambda>p. return (case p of None \<Rightarrow> None | Some e \<Rightarrow> pb_result e))"

definition revise_conflict :: "integrator_config \<Rightarrow> integration_job \<Rightarrow> cycle_step io" where
  "revise_conflict cf j =
     bind (published_of (job_target_key j)) (\<lambda>entries.
     bind (landing_result (ij_mirror j) entries (ij_x j) (qi_reviewed_base (ij_item j))) (\<lambda>moved_by.
     revise cf j ''conflict'' (''candidate '' @ qi_candidate (ij_item j) @ '' conflicts with target tip '' @ ij_x j)
       \<lparr>ci_result = None, ci_moved_by = moved_by\<rparr>))"

definition reproduced :: "result_record \<Rightarrow> new_result \<Rightarrow> cycle_step + result_record" where
  "reproduced r computed =
     (if rr_r r = nr_r computed \<and> rr_c r = nr_c computed then Inr r else Inl (Step_blocked ''not_reproduced''))"

definition pin_result :: "integrator_config \<Rightarrow> integration_job \<Rightarrow> roster \<Rightarrow> (cycle_step + result_record) io" where
  "pin_result cf j ro =
     bind (merges_cleanly (ij_mirror j) (ij_x j) (qi_candidate (ij_item j))) (\<lambda>clean.
     if \<not> clean then bind (revise_conflict cf j) (\<lambda>s. return (Inl s))
     else bind (compute_result cf j ro) (\<lambda>computed.
       if reverted_commits (ij_item j) computed \<noteq> [] then
         bind (revise_reverted cf j (reverted_commits (ij_item j) computed)) (\<lambda>s. return (Inl s))
       else case find (\<lambda>r. rr_t0 r = ij_x j) (qi_results (ij_item j)) of
         Some r \<Rightarrow> return (reproduced r computed)
       | None \<Rightarrow>
           bind (post_result (ij_project j) computed) (\<lambda>reply.
           case reply of
             Inr r \<Rightarrow> return (Inr r)
           | Inl refused \<Rightarrow> bind (result_refused cf j refused) (\<lambda>s. return (Inl s)))))"

section \<open>An item\<close>

definition integrate :: "integrator_config \<Rightarrow> integration_job \<Rightarrow> queue \<Rightarrow> cycle_step io" where
  "integrate cf j q =
     bind (attempt_of (roster_at (ij_mirror j) (ij_x j) (ic_roster_path cf) (qu_roster q))) (\<lambda>ro.
     case ro of
       Inl _ \<Rightarrow> return (Step_blocked ''roster'')
     | Inr ro \<Rightarrow>
         bind (pin_result cf j ro) (\<lambda>pinned.
         case pinned of
           Inl s \<Rightarrow> return s
         | Inr r \<Rightarrow>
             if rr_r r = ij_x j then observe_and_close cf j r []
             else bind (privilege_gate j r) (\<lambda>skip.
               case skip of Some s \<Rightarrow> return s | None \<Rightarrow> check_and_publish cf j r (ry_checks ro))))"

definition held_elsewhere :: "integration_job \<Rightarrow> result_record option" where
  "held_elsewhere j = find (\<lambda>r. rr_authority_expires_at r \<noteq> None \<and> rr_t0 r \<noteq> ij_x j) (qi_results (ij_item j))"

definition open_job :: "integrator_config \<Rightarrow> string \<Rightarrow> queue_item \<Rightarrow> string \<Rightarrow> integration_job io" where
  "open_job cf project i x =
     bind (host_fun (\<lambda>h. mirror_dir h (ic_state_dir cf) (qi_repository i))) (\<lambda>mirror.
     bind (fetch_refs mirror [case qi_candidate_ref i of Some ref \<Rightarrow> ''+'' @ ref @ '':'' @ ref | None \<Rightarrow> qi_candidate i]) (\<lambda>_.
     return \<lparr>ij_project = project, ij_item = i, ij_mirror = mirror, ij_x = x\<rparr>))"

definition item_cycle :: "integrator_config \<Rightarrow> string \<Rightarrow> queue \<Rightarrow> queue_item \<times> string \<Rightarrow> cycle_step io" where
  "item_cycle cf project q ix =
     bind (open_job cf project (fst ix) (snd ix)) (\<lambda>j.
     case held_elsewhere j of
       Some held \<Rightarrow> observe_and_close cf j held (unwrap_or (rr_authority_expires_at held) [])
     | None \<Rightarrow> integrate cf j q)"

section \<open>A revert\<close>

definition revert_worktree_key :: "revert_item \<Rightarrow> string \<Rightarrow> string" where
  "revert_worktree_key r x = ''revert-'' @ ri_id r @ ''-'' @ take 12 x"

definition compute_revert :: "integrator_config \<Rightarrow> revert_item \<Rightarrow> string \<Rightarrow> string \<Rightarrow> mechanical io" where
  "compute_revert cf r url x =
     bind (host_fun (\<lambda>h. mirror_dir h (ic_state_dir cf) url)) (\<lambda>mirror.
     compute_mechanical mirror (path_join (path_join (ic_state_dir cf) ''worktrees'') (revert_worktree_key r x))
       (''revert/'' @ revert_worktree_key r x)
       \<lparr>sp_x = x, sp_r = rt_r (ri_target r), sp_t0 = rt_t0 (ri_target r), sp_c = rt_c (ri_target r), sp_task = ri_id r\<rparr>)"

definition candidate_of :: "revert_item \<Rightarrow> string \<Rightarrow> string \<Rightarrow> string \<Rightarrow> revert_candidate" where
  "candidate_of r x commit tree = \<lparr>rv_t0 = x, rv_commit = commit, rv_tree = tree,
     rv_ref = ''refs/agent-coordinator/candidates/reverts/'' @ ri_id r @ ''/'' @ x\<rparr>"

definition record_candidate ::
  "integrator_config \<Rightarrow> string \<Rightarrow> revert_item \<Rightarrow> string \<Rightarrow> revert_candidate \<Rightarrow> cycle_step io" where
  "record_candidate cf project r url c =
     bind (host_fun (\<lambda>h. mirror_dir h (ic_state_dir cf) url)) (\<lambda>mirror.
     bind (attempt_of (push_create_only mirror url (rv_commit c) (rv_ref c))) (\<lambda>pushed.
     case pushed of
       Inl _ \<Rightarrow> return (Step_blocked ''revert'')
     | Inr _ \<Rightarrow>
         bind (post_candidate project (ri_id r) c) (\<lambda>reply.
         return (case reply of
             Inr _ \<Rightarrow> Step_revert_candidate (ri_id r)
           | Inl refused \<Rightarrow> if rf_code refused = CANDIDATE_CONFLICT then Step_blocked CANDIDATE_CONFLICT
               else Step_refused (rf_code refused)))))"

definition unmechanical_evidence :: "revert_item \<Rightarrow> string \<Rightarrow> mechanical \<Rightarrow> string" where
  "unmechanical_evidence r x m =
     (case m of
        Conflicting paths \<Rightarrow> ''the mechanical revert of '' @ rt_r (ri_target r) @ '' conflicts on target tip '' @ x
          @ '' in: '' @ join '', '' paths
      | Not_in_history \<Rightarrow> ''R '' @ rt_r (ri_target r) @ '' is not in the target history at '' @ x
      | Already_undone \<Rightarrow> ''R '' @ rt_r (ri_target r) @ '' is already undone on '' @ x
      | Clean commit tree \<Rightarrow> ''the revert of '' @ rt_r (ri_target r) @ '' on '' @ x @ '' is '' @ commit)"

definition revert_step :: "integrator_config \<Rightarrow> string \<Rightarrow> revert_item \<Rightarrow> string \<Rightarrow> cycle_step io" where
  "revert_step cf project r x =
     (case ri_repository r of
        None \<Rightarrow> return (Step_blocked ''revert'')
      | Some url \<Rightarrow>
          bind (attempt_of (compute_revert cf r url x)) (\<lambda>m.
          case m of
            Inl _ \<Rightarrow> return (Step_blocked ''revert'')
          | Inr m \<Rightarrow>
              (case m of
                 Clean commit tree \<Rightarrow> record_candidate cf project r url (candidate_of r x commit tree)
               | _ \<Rightarrow> not_mechanical project (ri_id r) x ''conflict'' (unmechanical_evidence r x m))))"

definition revert_cycle :: "integrator_config \<Rightarrow> string \<Rightarrow> revert_item \<times> string \<Rightarrow> cycle_step io" where
  "revert_cycle cf project rx =
     bind (revert_step cf project (fst rx) (snd rx)) (\<lambda>s.
     return (case s of Step_refused code \<Rightarrow> Step_blocked code | _ \<Rightarrow> s))"

section \<open>A cycle\<close>

text \<open>The last step taken and whether it ended the cycle: skipped work lets the next subject have its turn.\<close>

fun first_done :: "('a \<Rightarrow> cycle_step io) \<Rightarrow> 'a list \<Rightarrow> cycle_step \<Rightarrow> (cycle_step \<times> bool) io" where
  "first_done f [] previous = return (previous, False)"
| "first_done f (a # as) previous =
     bind (or_failed (f a)) (\<lambda>s. if skipped s then first_done f as s else return (s, True))"

definition with_tip :: "(string \<times> (cycle_step + string)) list \<Rightarrow> ('a \<Rightarrow> target option) \<Rightarrow> 'a \<Rightarrow> ('a \<times> string) option" where
  "with_tip ws t a = (case t a of None \<Rightarrow> None | Some tg \<Rightarrow> map_option (Pair a) (watched_tip ws (target_text tg)))"

definition cycle :: "integrator_config \<Rightarrow> string \<Rightarrow> cycle_step io" where
  "cycle cf project =
     bind (read_queue project) (\<lambda>reply.
     case reply of
       Inl refused \<Rightarrow> return (Step_refused (rf_code refused))
     | Inr q \<Rightarrow>
         bind (watch_targets cf project q) (\<lambda>ws.
         bind (first_done (revert_cycle cf project) (List.map_filter (with_tip ws revert_target_of) (qu_reverts q))
           (unwrap_or (first_held ws) Step_idle)) (\<lambda>(s, ended).
         if ended then return s
         else bind (first_done (item_cycle cf project q)
                (List.map_filter (with_tip ws (\<lambda>i. Some (item_target i))) (qu_items q)) s) (\<lambda>(s, ended). return s))))"

end
