(* ===== verification/Integrator_Frames.thy ===== *)
theory Integrator_Frames
  imports Integrator
begin

text \<open>
  What the parts of a cycle may do besides the two acts that matter most: pushing to a target and blaming an author.
  Everything else any program of the integrator does is an ordinary act.
\<close>

definition blames :: "act \<Rightarrow> bool" where
  "blames a \<longleftrightarrow> (case a of
      Revise_posted p s reason e c x \<Rightarrow> reason = ''check_failed''
    | Unmechanical_posted p s t reason e x \<Rightarrow> reason = ''check_failed''
    | _ \<Rightarrow> False)"

definition target_push :: "act \<Rightarrow> bool" where
  "target_push a \<longleftrightarrow> (case a of Ran d args i e r \<Rightarrow> pushes args | _ \<Rightarrow> False)"

definition wide :: "(act \<Rightarrow> bool) \<Rightarrow> bool" where
  "wide A \<longleftrightarrow> (\<forall>a. \<not> blames a \<and> \<not> target_push a \<longrightarrow> A a)"

lemma wideD: "wide A \<Longrightarrow> \<not> blames a \<Longrightarrow> \<not> target_push a \<Longrightarrow> A a"
  by (simp add: wide_def)

lemma wide_tolerant [simp]: "wide A \<Longrightarrow> tolerant A"
  by (simp add: tolerant_def wide_def blames_def target_push_def)

lemma wide_targets [simp]: "wide (\<lambda>a. \<not> target_push a)" "wide (\<lambda>a. \<not> blames a)"
  by (simp_all add: wide_def)

text \<open>Asking anything ordinary.\<close>

lemma wide_ask: "wide A \<Longrightarrow> (\<And>r. \<not> blames (mk r) \<and> \<not> target_push (mk r)) \<Longrightarrow> adds A (ask f mk)"
  unfolding wide_def by (intro adds_ask) blast

lemmas ordinary_defs = blames_def target_push_def

section \<open>Calls, mirrors, state\<close>

lemma adds_calls [adds_intros]:
  assumes w: "wide A"
  shows "adds A (read_queue p)" "adds A (post_result p nr)" "adds A (record_receipt p rc)" "adds A (record_progress p r pr)"
    "adds A (push_authority p x)" "adds A (post_observation p ob)" "adds A (post_candidate p x c)" "adds A (post_report p rp)"
    "adds A (human_ship p x fs)" "adds A (branch_rules u b)" "adds A (check_runs u s cs)" "adds A (rerun_failed_jobs u n)"
    "adds A (rerun_job u cr)"
  unfolding read_queue_def post_result_def record_receipt_def record_progress_def push_authority_def
    post_observation_def post_candidate_def post_report_def human_ship_def branch_rules_def check_runs_def
    rerun_failed_jobs_def rerun_job_def
  by (intro adds_or wide_ask w; simp add: ordinary_defs)+

lemma adds_blaming [adds_intros]:
  assumes w: "wide A" and "reason \<noteq> ''check_failed''"
  shows "adds A (post_revise p s reason e c)" "adds A (post_unmechanical p s t reason e)"
  unfolding post_revise_def post_unmechanical_def
  by (intro adds_or wide_ask w; simp add: ordinary_defs assms)+

lemma adds_run [adds_intros]:
  assumes t: "tolerant A"
  shows "adds A (run_env d args e)" "adds A (run d args)" "adds A (text_env d args e)" "adds A (text_of d args)"
    "adds A (exit_flag d args)" "adds A (nul_list_env d args e)"
proof -
  show r: "adds A (run_env d args e)" for d args e
    unfolding run_env_def using t by (intro adds_git) (simp_all add: hooks_off_def)
  show r2: "adds A (run d args)" unfolding run_def by (rule r)
  show t1: "adds A (text_env d args e)" for e unfolding text_env_def by (intro adds_intros r)
  show "adds A (text_of d args)" unfolding text_of_def by (rule t1)
  show "adds A (exit_flag d args)" unfolding exit_flag_def by (intro adds_intros r2)
  show "adds A (nul_list_env d args e)" unfolding nul_list_env_def by (intro adds_intros r)
qed

lemma adds_mirror [adds_intros]:
  assumes w: "wide A"
  shows "adds A (remote_url u)" "adds A (exists p)" "adds A (fetch_refs m rs)" "adds A (ls_remote m u ref)"
    "adds A (mirror_ancestor m x y)" "adds A (merges_cleanly m x y)" "adds A (landing_range m x y)"
    "adds A (commits_between m x y)" "adds A (changed_files m x)" "adds A (blob_at m x pt)" "adds A (file_at m x pt)"
    "adds A (git_reads_of m)"
proof -
  have t: "tolerant A" using w by simp
  show "adds A (exists p)" unfolding exists_def by (intro wide_ask w) (simp add: ordinary_defs)
  show u: "adds A (remote_url u)" unfolding remote_url_def by (intro adds_intros)
  show "adds A (git_reads_of m)" by (simp add: adds_def git_reads_of_def)
  show b: "adds A (blob_at m x pt)" unfolding blob_at_def by (intro adds_intros t)
  show "adds A (file_at m x pt)" unfolding file_at_def by (intro adds_intros t b)
  show "adds A (fetch_refs m rs)" "adds A (ls_remote m u ref)" "adds A (mirror_ancestor m x y)"
    "adds A (merges_cleanly m x y)" "adds A (landing_range m x y)" "adds A (commits_between m x y)" "adds A (changed_files m x)"
    unfolding fetch_refs_def ls_remote_def mirror_ancestor_def merges_cleanly_def landing_range_def commits_between_def changed_files_def
    by (intro adds_intros t u)+
qed

lemma adds_worktrees [adds_intros]:
  assumes w: "wide A"
  shows "adds A (ensure_mirror m u)" "adds A (remove_worktree m d b)" "adds A (ensure_worktree m d b x)"
    "adds A (push_create_only m u s ref)"
proof -
  have t: "tolerant A" using w by simp
  show "adds A (ensure_mirror m u)"
    unfolding ensure_mirror_def by (intro adds_bind adds_if adds_pure adds_mirror adds_run wide_ask w t) (simp add: ordinary_defs)
  show rw: "adds A (remove_worktree m d b)"
    unfolding remove_worktree_def
    by (intro adds_bind adds_if adds_pure adds_mirror adds_run adds_attempt adds_sum wide_ask w t) (simp add: ordinary_defs)
  show "adds A (ensure_worktree m d b x)" unfolding ensure_worktree_def by (intro adds_intros w t rw)
  show "adds A (push_create_only m u s ref)" unfolding push_create_only_def by (intro adds_intros w t)
qed

lemma adds_mechanical [adds_intros]:
  assumes w: "wide A"
  shows "adds A (compute_mechanical m d b sp)"
proof -
  have t: "tolerant A" using w by simp
  show ?thesis
    unfolding compute_mechanical_def in_history_def revert_in_def revert_args_def range_commit_def commit_revert_def
    by (intro adds_intros w t; simp add: adds_pure split: mechanical.split sum.split)
qed

lemma adds_loop [adds_intros]:
  assumes w: "wide A"
  shows "adds A save_loop" "adds A (change_loop f)" "adds A (freeze k x)" "adds A (tip_move k m y)" "adds A (freeze_reason k)"
    "adds A (ruleset_episode k)" "adds A (end_ruleset_episode k)" "adds A (rerun_of k n)" "adds A (record_rerun k n i)"
    "adds A (published_of k)" "adds A (record_published k pb)" "adds A (record_tip k y)"
proof -
  show s: "adds A save_loop" unfolding save_loop_def
    by (intro adds_bind adds_pure wide_ask w) (simp add: ordinary_defs)
  show c: "adds A (change_loop f)" for f unfolding change_loop_def by (intro adds_intros)
  show f: "adds A (freeze k x)" for k x unfolding freeze_def by (intro adds_intros c s)
  have d: "adds A (ask ho_date Dated)" by (intro wide_ask w) (simp add: ordinary_defs)
  show "adds A (tip_move k m y)" "adds A (freeze_reason k)"
    "adds A (ruleset_episode k)" "adds A (end_ruleset_episode k)" "adds A (rerun_of k n)" "adds A (record_rerun k n i)"
    "adds A (published_of k)" "adds A (record_published k pb)" "adds A (record_tip k y)"
    unfolding tip_move_def freeze_reason_def ruleset_episode_def end_ruleset_episode_def rerun_of_def record_rerun_def
      published_of_def record_published_def record_tip_def
    by (intro adds_bind adds_pure adds_if adds_option adds_sum adds_let adds_attempt adds_mirror w c s f d)+
qed

section \<open>Gates and watch\<close>

lemma adds_tip [adds_intros]:
  "(\<And>x. adds A (f x)) \<Longrightarrow> adds A g \<Longrightarrow> (\<And>x. adds A (h x)) \<Longrightarrow>
    adds A (case m of Frozen_at x \<Rightarrow> f x | Unchanged \<Rightarrow> g | Forward x \<Rightarrow> h x)"
  by (cases m) simp_all

lemma adds_gates [adds_intros]:
  assumes w: "wide A"
  shows "adds A (failed e)" "adds A (report_best_effort p r)" "adds A (gate_findings m x y rq)" "adds A (privilege_gate j rr)"
    "adds A (classify_move p m t x y)" "adds A (watch_targets cf p q)" "adds A (roster_at m x y sr)"
proof -
  show f: "adds A (failed e)" for e unfolding failed_def by (intro adds_intros)
  show r: "adds A (report_best_effort p r)" for p r unfolding report_best_effort_def by (intro adds_intros w)
  show g: "adds A (gate_findings m x y rq)" for m x y rq unfolding gate_findings_def by (intro adds_intros w)
  show "adds A (privilege_gate j rr)" unfolding privilege_gate_def by (intro adds_intros w g)
  show c: "adds A (classify_move p m t x y)" for p m t x y
    unfolding classify_move_def out_of_band_def own_range_def record_human_ship_def by (intro adds_intros w r)
  show "adds A (watch_targets cf p q)"
    unfolding watch_targets_def watch_status_def watch_target_def watchdog_def missing_rules_def ruleset_frozen_def
      monitor_tip_def observe_target_def rewrite_frozen_def
    by (intro adds_intros w r c f)
  show "adds A (roster_at m x y sr)"
    unfolding roster_at_def file_checks_def roster_entry_def by (intro adds_intros w)
qed

section \<open>Results\<close>

lemma adds_discard [adds_intros]:
  assumes w: "wide A"
  shows "adds A (discard_local cf j)"
  unfolding discard_local_def remove_file_def
  by (intro adds_bind adds_pure adds_for_each adds_worktrees wide_ask w) (simp add: ordinary_defs)

lemma adds_back [adds_intros]:
  assumes w: "wide A" and "reason \<noteq> ''check_failed''"
  shows "adds A (revise cf j reason e ci)" "adds A (not_mechanical p x t reason e)"
  unfolding revise_def not_mechanical_def by (intro adds_intros assms)+

lemma adds_tick [adds_intros]: "wide A \<Longrightarrow> adds A tick"
  unfolding tick_def by (intro wide_ask) (simp_all add: ordinary_defs)

lemma adds_saving [adds_intros]:
  assumes w: "wide A"
  shows "adds A (lock_intent p)" "adds A (load_intent p)" "adds A (save_intent p i e)" "adds A (stored p)"
    "adds A (mark_published p i)" "adds A (record_observation p i x e)" "adds A (observe_intent p i u e)"
    "adds A (settled_by p i y)" "adds A (load_prepared p)" "adds A (remaining au)" "adds A (elapsed_since n)" "adds A (valid_for n)"
proof -
  have t: "tolerant A" using w by simp
  show s: "adds A (stored p)" by (simp add: adds_def stored_def)
  show l: "adds A (lock_intent p)" unfolding lock_intent_def
    by (intro adds_bind adds_pure wide_ask w) (simp add: ordinary_defs)
  show ld: "adds A (load_intent p)" unfolding load_intent_def
    by (intro adds_bind adds_pure s wide_ask w) (simp add: ordinary_defs)
  show sv: "adds A (save_intent p i e)" for i e unfolding save_intent_def
  proof (intro adds_bind wide_ask w)
    show "adds A (case r of Not_saved \<Rightarrow> fail ''durably save integration intent''
      | Saved_only \<Rightarrow> fail ''append integration journal event'' | Saved_logged \<Rightarrow> return ())" for r
      by (cases r) (auto intro: adds_intros)
  qed (simp add: ordinary_defs)
  show m: "adds A (mark_published p i)" for i unfolding mark_published_def by (intro adds_intros sv)
  show o': "adds A (record_observation p i x e)" for i x e unfolding record_observation_def by (intro adds_intros sv)
  show "adds A (observe_intent p i u e)" unfolding observe_intent_def by (intro adds_intros o' t)
  show "adds A (settled_by p i y)" unfolding settled_by_def by (intro adds_intros m)
  show "adds A (load_prepared p)" unfolding load_prepared_def by (intro adds_intros l ld)
  show e: "adds A (elapsed_since n)" for n unfolding elapsed_since_def by (intro adds_intros w)
  show "adds A (remaining au)" "adds A (valid_for n)" unfolding remaining_def valid_for_def by (intro adds_intros e w)+
qed

lemma adds_validate [adds_intros]:
  assumes t: "tolerant A"
  shows "adds A (validate_git_result i)" "adds A (validate_intent_checkout i u)" "adds A (materialize_result_checkout i u)"
    "adds A (ensure_same_prepare_request i q)" "adds A (update_isolated_ref c r s)" "adds A (new_intent q)"
    "adds A (create_integration_result i)"
  using assms
  unfolding validate_git_result_def validate_intent_checkout_def materialize_result_checkout_def ensure_same_prepare_request_def
    update_isolated_ref_def new_intent_def create_integration_result_def create_merge_def
  by (intro adds_intros; simp)+

lemma adds_prepare [adds_intros]:
  assumes w: "wide A"
  shows "adds A (prepare_integration q)"
proof -
  have t: "tolerant A" using w by simp
  show ?thesis
    unfolding prepare_integration_def finish_preparation_def record_result_def by (intro adds_intros w t)
qed

lemma adds_results [adds_intros]:
  assumes w: "wide A"
  shows "adds A (compute_result cf j ro)" "adds A (revise_conflict cf j)" "adds A (revise_reverted cf j cs)"
    "adds A (pin_result cf j ro)" "adds A (observe_and_close cf j r nonce)" "adds A (open_job cf p i x)"
    "adds A (revert_cycle cf p rx)"
proof -
  have t: "tolerant A" using w by simp
  show c: "adds A (compute_result cf j ro)" unfolding compute_result_def prepare_job_def by (intro adds_intros w)
  have says: "adds A (says b m)" if "adds A m" for b m unfolding says_def by (intro adds_intros that)
  have l: "adds A (landed m x b p)" for m x b p unfolding landed_def by (intro adds_intros says w)
  have n: "adds A (newest_landing m x b n ps)" for m x b n ps
  proof (induction ps arbitrary: n)
    case (Cons p ps)
    then show ?case by (auto intro!: adds_bind adds_if adds_option adds_pure l says adds_mirror w)
  qed (simp add: adds_pure)
  show rc: "adds A (revise_conflict cf j)"
    unfolding revise_conflict_def landing_result_def by (intro adds_intros n w) simp
  show rr: "adds A (revise_reverted cf j cs)" for cs
    unfolding revise_reverted_def history_disputed_def by (intro adds_intros w) simp
  show "adds A (pin_result cf j ro)" unfolding pin_result_def result_refused_def by (intro adds_intros c rc rr w)
  show "adds A (observe_and_close cf j r nonce)"
    unfolding observe_and_close_def ancestry_of_def by (intro adds_intros w)
  show "adds A (open_job cf p i x)" unfolding open_job_def by (intro adds_intros w)
  have nm: "adds A (not_mechanical a b c ''conflict'' e)" for a b c e by (intro adds_intros w) simp
  have rec: "adds A (record_candidate cf a b c d)" for a b c d
    unfolding record_candidate_def by (intro adds_intros w)
  have cr: "adds A (compute_revert cf a b c)" for a b c unfolding compute_revert_def by (intro adds_intros w)
  have st: "adds A (revert_step cf a b c)" for a b c unfolding revert_step_def
    by (intro adds_bind adds_option adds_pure adds_sum adds_attempt cr; simp split: mechanical.split add: nm rec)
  show "adds A (revert_cycle cf p rx)" unfolding revert_cycle_def by (intro adds_bind st adds_pure)
qed

lemma adds_refresh [adds_intros]: "wide A \<Longrightarrow> adds A (refresh_target j r x)"
  unfolding refresh_target_def by (cases x) (simp_all, auto intro!: adds_intros)

lemma adds_target_failure [adds_intros]: "wide A \<Longrightarrow> adds A (target_failure j c x b)"
  unfolding target_failure_def by (intro adds_intros)

lemma adds_checks [adds_intros]:
  assumes w: "wide A"
  shows "adds A (report_flaky j r v cs)" "adds A (request_reruns j r ns)" "adds A (attribute_check j r c)"
    "adds A (post_receipt j r x)" "adds A (report_progress j r rs wanted)" "adds A (authority_budget g n)"
proof -
  show "adds A (report_flaky j r v cs)" unfolding report_flaky_def by (intro adds_intros w)
  show "adds A (request_reruns j r ns)"
    by (induction ns) (auto intro!: adds_bind adds_sum adds_pure adds_if adds_attempt adds_calls adds_loop adds_gates w)
  show "adds A (attribute_check j r c)" unfolding attribute_check_def target_state_def
    by (intro adds_intros w)
  show "adds A (post_receipt j r x)" unfolding post_receipt_def by (intro adds_intros w)
  show "adds A (report_progress j r rs wanted)" unfolding report_progress_def by (intro adds_intros w)
  have d: "adds A (ask ho_date Dated)" by (intro wide_ask w) (simp add: ordinary_defs)
  show "adds A (authority_budget g n)" unfolding authority_budget_def by (intro adds_bind adds_pure adds_saving d w)
qed

end
