(* ===== verification/Integrator_Safety.thy ===== *)
theory Integrator_Safety
  imports Integrator_Frames Publication_Safety
begin

text \<open>
  What must have happened earlier in a cycle before an act that matters. The programs of the cycle are followed
  along the acts of this cycle alone, so evidence of an earlier cycle never counts.
\<close>

section \<open>Programs along the acts of a cycle\<close>

text \<open>The acts with \<open>B\<close> all come after acts that satisfy \<open>G\<close>.\<close>

definition guarded :: "(act \<Rightarrow> bool) \<Rightarrow> (act \<Rightarrow> history \<Rightarrow> bool) \<Rightarrow> history \<Rightarrow> bool" where
  "guarded B G zs \<longleftrightarrow> (\<forall>a s. suffix (a # s) zs \<and> B a \<longrightarrow> G a s)"

lemma guarded_Nil [simp]: "guarded B G []"
  by (simp add: guarded_def)

lemma guarded_Cons [simp]: "guarded B G (a # zs) \<longleftrightarrow> (B a \<longrightarrow> G a zs) \<and> guarded B G zs"
  by (auto simp: guarded_def suffix_Cons)

lemma steady_guarded [simp]: "steady (\<lambda>a. \<not> B a) (guarded B G)"
  by (simp add: steady_def)

text \<open>
  \<open>leads h base J P m Q\<close>: on the host \<open>h\<close>, from acts \<open>zs\<close> after \<open>base\<close> with \<open>J zs\<close> and \<open>P zs\<close>, the program keeps
  \<open>J\<close> also when it fails, and a result \<open>a\<close> comes with \<open>Q a\<close>.
\<close>

definition leads ::
  "host \<Rightarrow> history \<Rightarrow> (history \<Rightarrow> bool) \<Rightarrow> (history \<Rightarrow> bool) \<Rightarrow> 'a io \<Rightarrow> ('a \<Rightarrow> history \<Rightarrow> bool) \<Rightarrow> bool" where
  "leads h base J P m Q \<longleftrightarrow> (\<forall>w r v zs. wo_host w = h \<and> wo_trace w = zs @ base \<and> J zs \<and> P zs \<and> m w = (r, v) \<longrightarrow>
     wo_host v = h \<and> (\<exists>ys. wo_trace v = ys @ base \<and> suffix zs ys \<and> J ys \<and> (\<forall>a. r = Inr a \<longrightarrow> Q a ys)))"

lemma leadsI:
  assumes "\<And>(w :: world) r v zs. wo_host w = h \<Longrightarrow> wo_trace w = zs @ base \<Longrightarrow> J zs \<Longrightarrow> P zs \<Longrightarrow> m w = (r, v) \<Longrightarrow>
    wo_host v = h \<and> (\<exists>ys. wo_trace v = ys @ base \<and> suffix zs ys \<and> J ys \<and> (\<forall>a. r = Inr a \<longrightarrow> Q a ys))"
  shows "leads h base J P m Q"
  unfolding leads_def by (intro allI impI, elim conjE) (rule assms)

lemma leadsD:
  assumes "leads h base J P m Q" "wo_host w = h" "wo_trace w = zs @ base" "J zs" "P zs" "m w = (r, v)"
  obtains ys where "wo_host v = h" "wo_trace v = ys @ base" "suffix zs ys" "J ys" "\<And>a. r = Inr a \<Longrightarrow> Q a ys"
proof -
  have "wo_host v = h \<and> (\<exists>ys. wo_trace v = ys @ base \<and> suffix zs ys \<and> J ys \<and> (\<forall>a. r = Inr a \<longrightarrow> Q a ys))"
    using assms(1) [unfolded leads_def, rule_format, of w zs r v] assms(2-) by simp
  with that show thesis by auto
qed

lemma leads_bind:
  assumes m: "leads h base J P m Q" and f: "\<And>a. leads h base J (Q a) (f a) R"
  shows "leads h base J P (bind m f) R"
proof (rule leadsI)
  fix w :: world and r v zs
  assume w: "wo_host w = h" "wo_trace w = zs @ base" "J zs" "P zs" and run: "bind m f w = (r, v)"
  obtain r1 v1 where m1: "m w = (r1, v1)" by (cases "m w")
  obtain ys where ys: "wo_host v1 = h" "wo_trace v1 = ys @ base" "suffix zs ys" "J ys" "\<And>a. r1 = Inr a \<Longrightarrow> Q a ys"
    using leadsD [OF m w m1] by blast
  show "wo_host v = h \<and> (\<exists>ys. wo_trace v = ys @ base \<and> suffix zs ys \<and> J ys \<and> (\<forall>a. r = Inr a \<longrightarrow> R a ys))"
  proof (cases r1)
    case (Inl e)
    with run m1 ys show ?thesis by (auto simp: bind_def)
  next
    case (Inr a)
    with run m1 have fa: "f a v1 = (r, v)" by (simp add: bind_def)
    from leadsD [OF f ys(1,2,4) ys(5) [OF Inr] fa] ys(3) show ?thesis
      using suffix_order.trans by metis
  qed
qed

lemma leads_conseq:
  assumes "leads h base J P m Q" and "\<And>zs. J zs \<Longrightarrow> P' zs \<Longrightarrow> P zs" and "\<And>a zs. J zs \<Longrightarrow> Q a zs \<Longrightarrow> Q' a zs"
  shows "leads h base J P' m Q'"
  unfolding leads_def
proof (intro allI impI)
  fix w r v zs
  assume "wo_host w = h \<and> wo_trace w = zs @ base \<and> J zs \<and> P' zs \<and> m w = (r, v)"
  then have w: "wo_host w = h" "wo_trace w = zs @ base" "J zs" "P zs" "m w = (r, v)" using assms(2) by auto
  from leadsD [OF assms(1) w] assms(3)
  show "wo_host v = h \<and> (\<exists>ys. wo_trace v = ys @ base \<and> suffix zs ys \<and> J ys \<and> (\<forall>a. r = Inr a \<longrightarrow> Q' a ys))"
    by metis
qed

lemma leads_pre: "leads h base J P m Q \<Longrightarrow> (\<And>zs. J zs \<Longrightarrow> P' zs \<Longrightarrow> P zs) \<Longrightarrow> leads h base J P' m Q"
  by (rule leads_conseq)

lemma leads_post: "leads h base J P m Q \<Longrightarrow> (\<And>a zs. J zs \<Longrightarrow> Q a zs \<Longrightarrow> Q' a zs) \<Longrightarrow> leads h base J P m Q'"
  by (rule leads_conseq)

lemma leads_return: "(\<And>zs. J zs \<Longrightarrow> P zs \<Longrightarrow> Q a zs) \<Longrightarrow> leads h base J P (return a) Q"
  by (rule leadsI) (auto simp: return_def)

lemma leads_fails: "leads h base J P (fail e) Q" "leads h base J P (raise x) Q"
  by (rule leadsI, auto simp: fail_def raise_def)+

lemma leads_ensure: "leads h base J P (ensure_io b e) (\<lambda>_ zs. P zs \<and> b)"
  by (rule leadsI) (cases b; auto simp: ensure_io_def return_def fail_def)

lemma leads_of_option: "leads h base J P (of_option e x) (\<lambda>a zs. P zs \<and> x = Some a)"
  by (rule leadsI) (cases x; auto simp: of_option_def return_def fail_def)

lemma leads_host_fun: "leads h base J P (host_fun f) (\<lambda>a zs. P zs \<and> a = f h)"
  by (rule leadsI) (auto simp: host_fun_def)

lemma leads_ask:
  assumes "\<And>r zs. J zs \<Longrightarrow> P zs \<Longrightarrow> J (mk r # zs) \<and> Q r (mk r # zs)"
  shows "leads h base J P (ask f mk) Q"
  by (rule leadsI) (use assms in \<open>fastforce simp: ask_def Let_def suffix_Cons\<close>)

lemma leads_if: "(b \<Longrightarrow> leads h base J P m Q) \<Longrightarrow> (\<not> b \<Longrightarrow> leads h base J P n Q) \<Longrightarrow> leads h base J P (if b then m else n) Q"
  by simp

lemma leads_option:
  "(x = None \<Longrightarrow> leads h base J P m Q) \<Longrightarrow> (\<And>a. x = Some a \<Longrightarrow> leads h base J P (f a) Q)
    \<Longrightarrow> leads h base J P (case x of None \<Rightarrow> m | Some a \<Rightarrow> f a) Q"
  by (cases x) simp_all

lemma leads_sum:
  "(\<And>e. x = Inl e \<Longrightarrow> leads h base J P (f e) Q) \<Longrightarrow> (\<And>a. x = Inr a \<Longrightarrow> leads h base J P (g a) Q)
    \<Longrightarrow> leads h base J P (case x of Inl e \<Rightarrow> f e | Inr a \<Rightarrow> g a) Q"
  by (cases x) simp_all

lemma leads_either:
  "(\<And>e. leads h base J (P (Inl e)) (f e) Q) \<Longrightarrow> (\<And>a. leads h base J (P (Inr a)) (g a) Q)
    \<Longrightarrow> leads h base J (P x) (case x of Inl e \<Rightarrow> f e | Inr a \<Rightarrow> g a) Q"
  by (cases x) simp_all

lemma leads_const: "(b \<Longrightarrow> leads h base J P m Q) \<Longrightarrow> leads h base J (\<lambda>zs. P zs \<and> b) m Q"
  by (cases b, simp, rule leadsI, simp)

text \<open>What is known whenever the program starts may be used for it.\<close>

lemma leads_known: "(\<And>zs. J zs \<Longrightarrow> P zs \<Longrightarrow> b) \<Longrightarrow> (b \<Longrightarrow> leads h base J P m Q) \<Longrightarrow> leads h base J P m Q"
proof (cases b)
  case False
  assume "\<And>zs. J zs \<Longrightarrow> P zs \<Longrightarrow> b"
  with False have "\<not> (J zs \<and> P zs)" for zs by metis
  then have "J zs = (J zs \<and> \<not> P zs)" for zs by blast
  then show "leads h base J P m Q" unfolding leads_def by metis
qed simp

text \<open>A program that does nothing with \<open>B\<close> keeps what it cannot change; a relation of its result adds to it.\<close>

lemma leads_frame:
  assumes "adds A m" and "steady A J" and "steady A P"
  shows "leads h base J P m (\<lambda>_. P)"
proof (rule leadsI)
  fix w :: world and r v zs
  assume w: "wo_host w = h" "wo_trace w = zs @ base" "J zs" "P zs" and run: "m w = (r, v)"
  obtain new where new: "wo_trace v = new @ wo_trace w" "\<forall>a \<in> set new. A a" "wo_host v = wo_host w"
    by (rule addsD [OF assms(1) run])
  then have "J (new @ zs)" "P (new @ zs)" using w steadyD assms(2,3) by blast+
  with new w show "wo_host v = h \<and> (\<exists>ys. wo_trace v = ys @ base \<and> suffix zs ys \<and> J ys \<and> (\<forall>a. r = Inr a \<longrightarrow> P ys))"
    by (auto simp: suffix_def intro!: exI [of _ "new @ zs"])
qed

lemma leads_result:
  assumes "leads h base J P m Q" and "\<And>w a v. m w = (Inr a, v) \<Longrightarrow> wo_host w = h \<Longrightarrow> V a"
  shows "leads h base J P m (\<lambda>a zs. Q a zs \<and> V a)"
proof (rule leadsI)
  fix w :: world and r v zs
  assume w: "wo_host w = h" "wo_trace w = zs @ base" "J zs" "P zs" and run: "m w = (r, v)"
  from leadsD [OF assms(1) w run] assms(2) [of w _ v] run w(1)
  show "wo_host v = h \<and> (\<exists>ys. wo_trace v = ys @ base \<and> suffix zs ys \<and> J ys \<and> (\<forall>a. r = Inr a \<longrightarrow> Q a ys \<and> V a))"
    by metis
qed

text \<open>After an attempt, what nothing can undo is still known.\<close>

abbreviation lasting_fact :: "(history \<Rightarrow> bool) \<Rightarrow> bool" where
  "lasting_fact P \<equiv> steady (\<lambda>_. True) P"

lemma lasting_suffix: "lasting_fact P \<Longrightarrow> suffix zs ys \<Longrightarrow> P zs \<Longrightarrow> P ys"
  using steadyD [of "\<lambda>_. True" P zs] by (auto simp: suffix_def)

lemma steady_weaken: "lasting_fact P \<Longrightarrow> steady A P"
  by (simp add: steady_def)

lemma leads_keeps:
  assumes "leads h base J P' m Q" and "lasting_fact P" and "\<And>zs. P' zs \<Longrightarrow> P zs"
  shows "leads h base J P' m (\<lambda>_. P)"
proof (rule leadsI)
  fix w :: world and r v zs
  assume w: "wo_host w = h" "wo_trace w = zs @ base" "J zs" "P' zs" and run: "m w = (r, v)"
  from leadsD [OF assms(1) w run] lasting_suffix [OF assms(2) _ assms(3) [OF w(4)]]
  show "wo_host v = h \<and> (\<exists>ys. wo_trace v = ys @ base \<and> suffix zs ys \<and> J ys \<and> (\<forall>a. r = Inr a \<longrightarrow> P ys))"
    by metis
qed

lemma leads_attempt:
  assumes "leads h base J P m Q" and "lasting_fact P"
  shows "leads h base J P (attempt_of m) (\<lambda>r zs. P zs \<and> (\<forall>a. r = Inr a \<longrightarrow> Q a zs))"
proof (rule leadsI)
  fix w :: world and r v zs
  assume w: "wo_host w = h" "wo_trace w = zs @ base" "J zs" "P zs" and run: "attempt_of m w = (r, v)"
  obtain r1 where m1: "m w = (r1, v)" and r: "r = Inr r1" using run by (auto simp: attempt_of_def split: prod.splits)
  from leadsD [OF assms(1) w m1] lasting_suffix [OF assms(2)] w(4) r
  show "wo_host v = h \<and> (\<exists>ys. wo_trace v = ys @ base \<and> suffix zs ys \<and> J ys
      \<and> (\<forall>a. r = Inr a \<longrightarrow> P ys \<and> (\<forall>b. a = Inr b \<longrightarrow> Q b ys)))"
    by (metis sum.inject(2))
qed

lemma leads_traverse:
  assumes "\<And>x. x \<in> set xs \<Longrightarrow> leads h base J P (f x) (\<lambda>y zs. P zs \<and> V x y zs)" and "lasting_fact P"
    and "\<And>x y. lasting_fact (V x y)"
  shows "leads h base J P (traverse f xs) (\<lambda>ys zs. P zs \<and> list_all2 (\<lambda>x y. V x y zs) xs ys)"
  using assms(1)
proof (induction xs)
  case Nil
  show ?case by (auto intro: leads_return)
next
  case (Cons x xs)
  have fx: "leads h base J P (f x) (\<lambda>y zs. P zs \<and> V x y zs)" using Cons.prems by simp
  have rest: "leads h base J (\<lambda>zs. P zs \<and> V x y zs) (traverse f xs)
      (\<lambda>ys zs. (P zs \<and> list_all2 (\<lambda>x y. V x y zs) xs ys) \<and> V x y zs)" for y
    unfolding leads_def
  proof (intro allI impI)
    fix w r v zs
    assume a: "wo_host w = h \<and> wo_trace w = zs @ base \<and> J zs \<and> (P zs \<and> V x y zs) \<and> traverse f xs w = (r, v)"
    have "leads h base J P (traverse f xs) (\<lambda>ys zs. P zs \<and> list_all2 (\<lambda>x y. V x y zs) xs ys)"
      using Cons by simp
    from leadsD [OF this, of w zs r v] a lasting_suffix [OF assms(3), of zs _ x y]
    show "wo_host v = h \<and> (\<exists>ys. wo_trace v = ys @ base \<and> suffix zs ys \<and> J ys
       \<and> (\<forall>a. r = Inr a \<longrightarrow> (P ys \<and> list_all2 (\<lambda>x y. V x y ys) xs a) \<and> V x y ys))"
      by metis
  qed
  show ?case
    by (simp, rule leads_bind [OF fx], rule leads_bind [OF rest], rule leads_return) auto
qed

text \<open>Acts of this cycle.\<close>

lemma steady_did [simp]: "steady A (\<lambda>zs. a \<in> set zs)"
  by (simp add: steady_def)

lemma steady_ex [simp]: "(\<And>x. steady A (P x)) \<Longrightarrow> steady A (\<lambda>zs. \<exists>x. P x zs)"
  by (auto simp: steady_def)

lemma steady_disj [simp]: "steady A P \<Longrightarrow> steady A Q \<Longrightarrow> steady A (\<lambda>zs. P zs \<or> Q zs)"
  by (auto simp: steady_def)

lemma steady_imp [simp]: "steady A P \<Longrightarrow> steady A (\<lambda>zs. b \<longrightarrow> P zs)"
  by (auto simp: steady_def)

lemma steady_list_all2 [simp]:
  assumes "\<And>x y. steady A (V x y)"
  shows "steady A (\<lambda>zs. list_all2 (\<lambda>x y. V x y zs) xs ys)"
  unfolding steady_def
proof (intro allI impI, elim conjE)
  fix a zs assume "A a" "list_all2 (\<lambda>x y. V x y zs) xs ys"
  then show "list_all2 (\<lambda>x y. V x y (a # zs)) xs ys"
    by (elim list_all2_mono) (use assms in \<open>simp add: steady_def\<close>)
qed

lemma list_all2_source: "list_all2 R xs ys \<Longrightarrow> y \<in> set ys \<Longrightarrow> \<exists>x \<in> set xs. R x y"
  by (induction rule: list_all2_induct) auto

lemma leads_or_abort:
  assumes "leads h base J P (ask f mk) (\<lambda>r. Q r)"
  shows "leads h base J P (or_abort (ask f mk)) (\<lambda>a. Q (Inr a))"
  unfolding or_abort_def
  by (rule leads_bind [OF assms], rule leads_sum; rule leads_fails leads_return; simp)

lemma leads_or_fail:
  assumes "leads h base J P (ask f mk) (\<lambda>r. Q r)"
  shows "leads h base J P (or_fail (ask f mk)) (\<lambda>a. Q (Inr a))"
  unfolding or_fail_def
  by (rule leads_bind [OF assms], rule leads_sum; rule leads_fails leads_return; simp)

lemma leads_first_done:
  assumes f: "\<And>a. a \<in> set as \<Longrightarrow> leads h base J P (f a) (\<lambda>_ _. True)" and P: "lasting_fact P"
  shows "leads h base J P (first_done f as previous) (\<lambda>_. P)"
  using f
proof (induction as arbitrary: previous)
  case Nil
  show ?case by (auto intro: leads_return)
next
  case (Cons a as)
  have fa: "leads h base J P (attempt_of (f a)) (\<lambda>r zs. P zs \<and> True)"
    by (rule leads_post [OF leads_attempt [OF _ P]], rule Cons.prems) auto
  have "leads h base J (\<lambda>zs. P zs \<and> True) (failed e) (\<lambda>_. P)" for e
    unfolding failed_def by (intro leads_if leads_fails leads_return) simp
  then have one: "leads h base J P (or_failed (f a)) (\<lambda>_. P)"
    unfolding or_failed_def by (intro leads_bind [OF fa] leads_sum leads_return) auto
  show ?case
    by (simp, rule leads_bind [OF one], rule leads_if, rule Cons.IH, rule Cons.prems, simp, rule leads_return, simp)
qed

text \<open>A program without acts \<open>B\<close>, and a call that is none.\<close>

lemma leads_calm:
  assumes "adds (\<lambda>a. \<not> B a) m" and "lasting_fact P"
  shows "leads h base (guarded B G) P m (\<lambda>_. P)"
  by (rule leads_frame [OF assms(1) steady_guarded]) (rule steady_weaken [OF assms(2)])

lemma leads_asked:
  assumes "lasting_fact P" and "\<And>r. \<not> B (mk r)"
  shows "leads h base (guarded B G) P (ask f mk) (\<lambda>x zs. P zs \<and> mk x \<in> set zs)"
  by (rule leads_ask) (use assms in \<open>auto simp: steady_def\<close>)

lemmas leads_service = leads_or_abort [OF leads_asked]

lemma leads_check_runs:
  assumes "lasting_fact P" and "\<And>r. \<not> B (Runs_read url sha wanted r)"
  shows "leads h base (guarded B G) P (check_runs url sha wanted) (\<lambda>runs zs. P zs \<and> Runs_read url sha wanted (Inr runs) \<in> set zs)"
  unfolding check_runs_def by (rule leads_or_fail [OF leads_asked]) (use assms in simp_all)

section \<open>Values\<close>

lemma roster_required:
  assumes "roster_at m x path sr w = (Inr ro, v)"
  shows "set (sr_required sr) \<subseteq> ro_identity ` set (ry_checks ro)"
  using assms by (auto simp: roster_at_def io_simps list_all_iff)

lemma open_job_names: "open_job cf project i x w = (Inr j, v) \<Longrightarrow> ij_project j = project \<and> ij_item j = i"
  by (auto simp: open_job_def io_simps)

lemma with_tip_item: "ix \<in> set (List.map_filter (with_tip ws t) xs) \<Longrightarrow> fst ix \<in> set xs"
  by (auto simp: List.map_filter_def with_tip_def split: option.splits)

end
