(* ===== verification/Integrator_Push.thy ===== *)
theory Integrator_Push
  imports Integrator_Safety
begin

text \<open>
  The push of a result to its target: whatever the service, the checks, Git and the clocks answer, a cycle pushes
  only what every gate has let through in this very cycle.
\<close>

section \<open>What justifies a push\<close>

text \<open>The job's item is in the queue of this cycle, and the checks wanted include those the service requires.\<close>

definition rostered :: "string \<Rightarrow> queue_item \<Rightarrow> roster_check list \<Rightarrow> history \<Rightarrow> bool" where
  "rostered project i wanted zs \<longleftrightarrow> (\<exists>q. Queue_read project (Inr (Inr q)) \<in> set zs \<and> i \<in> set (qu_items q)
     \<and> set (sr_required (qu_roster q)) \<subseteq> ro_identity ` set wanted)"

text \<open>The privilege gate found nothing to ask about, or its report on this very result was allowed.\<close>

definition gate_open :: "host \<Rightarrow> history \<Rightarrow> integration_job \<Rightarrow> result_record \<Rightarrow> history \<Rightarrow> bool" where
  "gate_open h base j r zs \<longleftrightarrow>
     (\<exists>ys. suffix ys zs \<and> findings (reads_at h (ys @ base) (ij_mirror j)) (ij_x j) (rr_r r) (map pc_path (rr_roster r)) = Some (Inr []))
     \<or> (\<exists>rec. Report_posted (ij_project j) (gate_report j r) (Inr (Inr rec)) \<in> set zs \<and> rp_allowed rec)"

text \<open>The latest run of every wanted check on the result passed, among the runs read in this cycle.\<close>

definition checks_passed :: "string \<Rightarrow> string \<Rightarrow> roster_check list \<Rightarrow> history \<Rightarrow> bool" where
  "checks_passed url sha wanted zs \<longleftrightarrow> (\<exists>runs. Runs_read url sha wanted (Inr runs) \<in> set zs
     \<and> (\<forall>c \<in> set wanted. runs_of runs c sha \<noteq> [] \<and> run_outcome (last (runs_of runs c sha)) = Pass))"

definition authority_granted :: "string \<Rightarrow> result_record \<Rightarrow> history \<Rightarrow> bool" where
  "authority_granted project r zs \<longleftrightarrow> (\<exists>g. Authority_asked project (rr_id r) (Inr (Inr g)) \<in> set zs \<and> gt_granted g
     \<and> gt_r g = Some (rr_r r) \<and> gt_t0 g = Some (rr_t0 r))"

definition pushes_result :: "act \<Rightarrow> result_record \<Rightarrow> bool" where
  "pushes_result a r \<longleftrightarrow> (\<exists>i remote out. a = Ran (it_checkout i) (push_args i (rr_r r) remote) None [] out
     \<and> it_expected_target i = rr_t0 r \<and> it_last_observed i = Some (rr_t0 r))"

definition justified :: "host \<Rightarrow> history \<Rightarrow> string \<Rightarrow> act \<Rightarrow> history \<Rightarrow> bool" where
  "justified h base project a zs \<longleftrightarrow> (\<exists>j r wanted. ij_project j = project \<and> pushes_result a r
     \<and> rostered project (ij_item j) wanted zs \<and> gate_open h base j r zs
     \<and> checks_passed (qi_repository (ij_item j)) (rr_r r) wanted zs \<and> authority_granted project r zs)"

lemma lasting_evidence [simp]:
  "steady A (rostered p i wanted)" "steady A (gate_open h base j r)" "steady A (checks_passed u s wanted)"
  "steady A (authority_granted p r)"
  by (auto simp: steady_def rostered_def gate_open_def checks_passed_def authority_granted_def suffix_Cons)

section \<open>No other push\<close>

lemma adds_sent_back [adds_intros]:
  "adds (\<lambda>a. \<not> target_push a) (revise cf j reason e c)" "adds (\<lambda>a. \<not> target_push a) (revert_check_failed cf j k e)"
proof -
  have p: "adds (\<lambda>a. \<not> target_push a) (post_revise p s reason e c)" "adds (\<lambda>a. \<not> target_push a) (post_unmechanical p s t reason e)"
    for p s reason e c t
    unfolding post_revise_def post_unmechanical_def by (intro adds_or adds_ask; simp add: target_push_def)+
  show "adds (\<lambda>a. \<not> target_push a) (revise cf j reason e c)" "adds (\<lambda>a. \<not> target_push a) (revert_check_failed cf j k e)"
    unfolding revise_def revert_check_failed_def not_mechanical_def by (intro adds_intros p wide_targets)+
qed

lemma adds_attribute [adds_intros]: "adds (\<lambda>a. \<not> target_push a) (attribute cf j r cs)"
  unfolding attribute_def attribute_reproduced_def author_failed_def Let_def
  by (intro adds_intros wide_targets)

section \<open>The publication\<close>

lemma settled_none: "settled_by p i result w = (Inr None, v) \<Longrightarrow> it_last_observed i = Some (it_expected_target i)"
  by (auto simp: settled_by_def io_simps split: if_splits)

lemma observed_intent: "observe_intent p i u e w = (Inr j, v) \<Longrightarrow> it_expected_target j = it_expected_target i"
  by (auto simp: observe_intent_def record_observation_def io_simps Let_def)

lemma authorized_names:
  "authorize_only r authority (context_of i result tree) w = (Inr a, v) \<Longrightarrow> result = rr_r r \<and> it_expected_target i = rr_t0 r"
  by (auto simp: authorize_only_def context_of_def io_simps split: if_splits)

lemma leads_push_result:
  assumes "it_expected_target i = rr_t0 r" "it_last_observed i = Some (rr_t0 r)" and P: "lasting_fact P"
    and G: "\<And>zs a. P zs \<Longrightarrow> pushes_result a r \<Longrightarrow> G a zs"
  shows "leads h base (guarded target_push G) P (push_result p i u authority (rr_r r)) (\<lambda>_ _. True)"
proof -
  let ?j = "i\<lparr>it_phase := Push_intent, it_revision := it_revision i + 1\<rparr>"
  have push: "leads h base (guarded target_push G) P (git_raw (it_checkout ?j) (push_args ?j (rr_r r) remote) None []) (\<lambda>_. P)"
    for remote
    unfolding git_raw_def
  proof (rule leads_or_fail, rule leads_ask)
    fix out zs assume "guarded target_push G zs" "P zs"
    moreover have "pushes_result (Ran (it_checkout ?j) (push_args ?j (rr_r r) remote) None [] out) r"
      unfolding pushes_result_def using assms(1,2) by (intro exI [of _ ?j] exI [of _ remote] exI [of _ out]) simp
    ultimately show "guarded target_push G (Ran (it_checkout ?j) (push_args ?j (rr_r r) remote) None [] out # zs)
        \<and> P (Ran (it_checkout ?j) (push_args ?j (rr_r r) remote) None [] out # zs)"
      using G P by (simp add: steady_def)
  qed
  show ?thesis unfolding push_result_def Let_def
    by (rule leads_bind [OF leads_calm], intro adds_intros wide_targets, rule P,
        rule leads_bind [OF leads_calm], intro adds_intros wide_tolerant wide_targets, rule P,
        rule leads_bind [OF leads_calm], intro adds_intros wide_targets, rule P,
        rule leads_if, rule leads_post [OF leads_calm], intro adds_intros wide_targets, rule P, simp,
        rule leads_bind [OF push], rule leads_post [OF leads_calm], intro adds_intros wide_targets, rule P, simp)
qed

lemma leads_settled:
  assumes "lasting_fact P"
  shows "leads h base (guarded target_push G) P (settled_by p i result)
    (\<lambda>s zs. P zs \<and> (s = None \<longrightarrow> it_last_observed i = Some (it_expected_target i)))"
  by (rule leads_result [OF leads_calm [OF _ assms]], intro adds_intros wide_targets) (auto dest: settled_none)

lemma leads_observed:
  assumes "lasting_fact P"
  shows "leads h base (guarded target_push G) P (observe_intent p i u e)
    (\<lambda>j zs. P zs \<and> it_expected_target j = it_expected_target i)"
  by (rule leads_result [OF leads_calm [OF _ assms]], intro adds_intros wide_targets) (auto dest: observed_intent)

lemma leads_validated:
  assumes "lasting_fact P"
  shows "leads h base (guarded target_push G) P (validate_intent_checkout i u) (\<lambda>_. P)"
    "leads h base (guarded target_push G) P (validate_git_result i) (\<lambda>_. P)"
  by (rule leads_calm [OF _ assms], intro adds_intros wide_tolerant wide_targets)+

lemma leads_publish_authorized:
  assumes e: "it_expected_target i = rr_t0 r" and P: "lasting_fact P"
    and G: "\<And>zs a. P zs \<Longrightarrow> pushes_result a r \<Longrightarrow> G a zs"
  shows "leads h base (guarded target_push G) P (publish_authorized p i u authority (rr_r r)) (\<lambda>_ _. True)"
proof -
  have push: "leads h base (guarded target_push G) P
      (bind (remaining authority) (\<lambda>left. bind (ensure_io (TWO_SECONDS < left) e) (\<lambda>_. push_result p j u authority (rr_r r)))) (\<lambda>_ _. True)"
    if "it_expected_target j = rr_t0 r" "it_last_observed j = Some (it_expected_target j)" for j e
    by (rule leads_bind [OF leads_calm [OF _ P]], intro adds_intros wide_targets, rule leads_bind [OF leads_ensure],
        rule leads_pre [OF leads_push_result [OF _ _ P G]]) (use that in auto)
  show ?thesis unfolding publish_authorized_def
    by (rule leads_bind [OF leads_validated(1) [OF P]], rule leads_bind [OF leads_validated(2) [OF P]],
        rule leads_bind [OF leads_observed [OF P]], rule leads_const, rule leads_bind [OF leads_settled [OF P]],
        rule leads_const, rule leads_option, rule push) (use e in \<open>auto intro: leads_return\<close>)
qed

lemma leads_publish_prepared:
  assumes P: "lasting_fact P" and G: "\<And>zs a. P zs \<Longrightarrow> pushes_result a r \<Longrightarrow> G a zs"
  shows "leads h base (guarded target_push G) P (publish_prepared p u (authorize_only r authority)) (\<lambda>_ _. True)"
proof -
  have authorized: "leads h base (guarded target_push G) P
      (bind (authorize_only r authority (context_of j result tree)) (\<lambda>a. publish_authorized p j u a result)) (\<lambda>_ _. True)"
    for j result tree
  proof (rule leads_bind)
    show "leads h base (guarded target_push G) P (authorize_only r authority (context_of j result tree))
        (\<lambda>_ zs. P zs \<and> (result = rr_r r \<and> it_expected_target j = rr_t0 r))"
    proof (rule leads_result [OF leads_calm [OF _ P]])
      show "adds (\<lambda>a. \<not> target_push a) (authorize_only r authority (context_of j result tree))"
        unfolding authorize_only_def by (intro adds_intros)
    qed (rule authorized_names)
    show "leads h base (guarded target_push G) (\<lambda>zs. P zs \<and> (result = rr_r r \<and> it_expected_target j = rr_t0 r))
        (publish_authorized p j u a result) (\<lambda>_ _. True)" for a
      by (rule leads_const) (auto intro: leads_publish_authorized [OF _ P G])
  qed
  show ?thesis unfolding publish_prepared_def
    by (rule leads_bind [OF leads_calm [OF _ P]], intro adds_intros wide_targets,
        rule leads_bind [OF leads_validated(1) [OF P]], rule leads_bind [OF leads_validated(2) [OF P]],
        rule leads_bind [OF leads_observed [OF P]], rule leads_const, rule leads_bind [OF leads_of_option], rule leads_const,
        rule leads_bind [OF leads_settled [OF P]], rule leads_const, rule leads_option, rule leads_if, rule leads_return, simp,
        rule leads_if, rule leads_return, simp, rule leads_bind [OF leads_of_option], rule leads_const, rule authorized,
        rule leads_return, simp)
qed

section \<open>The gates\<close>

lemma judge_passes: "judge os n \<notin> {Rerun, Reproduced, Undecided} \<Longrightarrow> os \<noteq> [] \<and> last os = Pass"
  by (auto simp: judge_def Let_def split: if_splits check_outcome.splits)

lemma attribute_none:
  assumes "attribute cf j r checks w = (Inr None, v)" and "c \<in> set checks"
  shows "ca_attempts c \<noteq> [] \<and> run_outcome (deciding c) = Pass"
proof -
  have "judged (wo_loop w) r c \<notin> {Rerun, Reproduced, Undecided}"
    using assms by (auto simp: attribute_def io_simps pick_def filter_empty_conv split: if_splits)
  from judge_passes [OF this [unfolded judged_def]] show ?thesis
    by (auto simp: outcomes_def deciding_def last_map)
qed

lemma completed_latest:
  assumes "completed_attempts runs sha c = Some a"
  shows "runs_of runs c sha \<noteq> [] \<and> deciding a = last (runs_of runs c sha)"
proof -
  let ?mine = "runs_of runs c sha"
  have m: "?mine \<noteq> []" "cr_conclusion (last ?mine) \<noteq> None" "ca_attempts a = filter (\<lambda>r. cr_conclusion r \<noteq> None) ?mine"
    using assms by (auto simp: completed_attempts_def Let_def split: if_splits)
  obtain ys l where l: "?mine = ys @ [l]" using m(1) by (cases ?mine rule: rev_cases) auto
  with m(2,3) have "ca_attempts a = filter (\<lambda>r. cr_conclusion r \<noteq> None) ys @ [l]" by simp
  with l show ?thesis by (simp add: deciding_def)
qed

lemma leads_checks_gate:
  assumes P: "lasting_fact P"
  shows "leads h base (guarded target_push G) P (checks_gate cf j r wanted)
    (\<lambda>g zs. P zs \<and> (g = None \<longrightarrow> checks_passed (qi_repository (ij_item j)) (rr_r r) wanted zs))"
proof -
  let ?read = "\<lambda>runs zs. P zs \<and> Runs_read (qi_repository (ij_item j)) (rr_r r) wanted (Inr runs) \<in> set zs"
  have read: "leads h base (guarded target_push G) P (check_runs (qi_repository (ij_item j)) (rr_r r) wanted) ?read"
    by (rule leads_check_runs [OF P]) (simp add: target_push_def)
  have calm: "leads h base (guarded target_push G) (?read runs) m (\<lambda>_. ?read runs)"
    if "adds (\<lambda>a. \<not> target_push a) m" for m :: "'b io" and runs
    by (rule leads_calm [OF that]) (simp add: P)
  have calm2: "leads h base (guarded target_push G) (?read runs) m (\<lambda>_. ?read runs)"
    if "adds (\<lambda>a. \<not> target_push a) m" for m :: "'c io" and runs
    by (rule leads_calm [OF that]) (simp add: P)
  have judged: "leads h base (guarded target_push G) (?read runs) (attribute cf j r checks)
      (\<lambda>g zs. ?read runs zs \<and> (g = None \<longrightarrow> (\<forall>c \<in> set checks. run_outcome (deciding c) = Pass)))" for runs checks
    by (rule leads_result [OF leads_calm]) (auto simp: P intro: adds_attribute dest: attribute_none)
  have passed: "checks_passed (qi_repository (ij_item j)) (rr_r r) wanted zs"
    if "?read runs zs" "attempts_by_check runs wanted (rr_r r) = Some checks"
      "\<forall>c \<in> set checks. run_outcome (deciding c) = Pass" for runs checks zs
  proof -
    have "\<exists>a \<in> set checks. completed_attempts runs (rr_r r) c = Some a" if "c \<in> set wanted" for c
      using \<open>attempts_by_check runs wanted (rr_r r) = Some checks\<close> that
      by (auto simp: attempts_by_check_Some list_all2_conv_all_nth in_set_conv_nth)
    with that completed_latest show ?thesis unfolding checks_passed_def by metis
  qed
  show ?thesis unfolding checks_gate_def
    by (rule leads_bind [OF read], rule leads_bind [OF calm], intro adds_intros wide_targets, rule leads_option,
        rule leads_return, simp, rule leads_bind [OF leads_calm], intro adds_intros, simp add: P, rule leads_if,
        rule leads_return, simp, rule leads_bind [OF leads_calm], intro adds_intros wide_targets, simp add: P,
        rule leads_post [OF judged]) (use passed in blast)
qed

end
