(* ===== verification/Integrator_Properties.thy ===== *)
theory Integrator_Properties
  imports Integrator_Push
begin

text \<open>
  Whole cycles of the integrator: the evidence behind every push to a target.
\<close>

section \<open>The gate\<close>



section \<open>From the authority to the push\<close>








end
