(* ===== verification/Integrator_Blame.thy ===== *)
theory Integrator_Blame
  imports Integrator_Safety
begin

text \<open>
  Sending a subject back because a check failed: only with the failure reproduced on the result and a newer pass of
  the same check on the target, both read in the same cycle.
\<close>

section \<open>The evidence\<close>

text \<open>The check failed twice or more on the result, and its latest run there failed.\<close>

definition failure_reproduced :: "string \<Rightarrow> string \<Rightarrow> roster_check list \<Rightarrow> check_attempts \<Rightarrow> history \<Rightarrow> bool" where
  "failure_reproduced url sha wanted c zs \<longleftrightarrow> (\<exists>runs. Runs_read url sha wanted (Inr runs) \<in> set zs
     \<and> ca_check c \<in> set wanted \<and> completed_attempts runs sha (ca_check c) = Some c
     \<and> 2 \<le> length (failures c) \<and> run_outcome (deciding c) = Fail)"

text \<open>The same check passed on the target tip, in a run started after the first of those failures.\<close>

definition passes_on_target :: "host \<Rightarrow> string \<Rightarrow> string \<Rightarrow> check_attempts \<Rightarrow> history \<Rightarrow> bool" where
  "passes_on_target h url x c zs \<longleftrightarrow> (\<exists>runs p. Runs_read url x [ca_check c] (Inr runs) \<in> set zs
     \<and> p \<in> set runs \<and> is_run_of p (ca_check c) x \<and> run_outcome p = Pass
     \<and> fresh_since (ho_time h) (first_failure_started (ho_time h) c) p)"



lemma lasting_blame [simp]:
  "steady A (failure_reproduced u s wanted c)" "steady A (passes_on_target h u x c)"
  by (auto simp: steady_def failure_reproduced_def passes_on_target_def)

section \<open>Publishing blames nobody\<close>


section \<open>Attribution\<close>











section \<open>Whole cycles\<close>







end
