(* ===== verification/Loop_Safety.thy ===== *)
theory Loop_Safety
  imports Integrator
begin

text \<open>
  What holds of the integrator's local state through any cycle: freezes stay, and no run of a result is rerun more
  often than allowed.
\<close>

section \<open>Keeping the local state\<close>

named_theorems keeps_intros

definition keeps :: "(world \<Rightarrow> bool) \<Rightarrow> 'a io \<Rightarrow> bool" where
  "keeps J m \<longleftrightarrow> (\<forall>w. J w \<longrightarrow> J (snd (m w)))"

text \<open>
  What every cycle keeps: acts do not matter, except that a save writes the state of the moment; nor do the parts of
  the state other than freezes and reruns. A target may be frozen that is not, and a rerun recorded below the limit.
\<close>

definition acts_apart :: "(world \<Rightarrow> bool) \<Rightarrow> bool" where
  "acts_apart J \<longleftrightarrow> (\<forall>w a. J w \<and> (\<forall>s b. a = Loop_saved s b \<longrightarrow> s = wo_loop w) \<longrightarrow> J (w\<lparr>wo_trace := a # wo_trace w\<rparr>))"

definition rest_apart :: "(world \<Rightarrow> bool) \<Rightarrow> bool" where
  "rest_apart J \<longleftrightarrow> (\<forall>w l. J w \<and> lo_reruns l = lo_reruns (wo_loop w) \<and> lo_frozen l = lo_frozen (wo_loop w)
     \<longrightarrow> J (w\<lparr>wo_loop := l\<rparr>))"

definition frozen_at :: "loop_state \<Rightarrow> string \<Rightarrow> string \<Rightarrow> loop_state" where
  "frozen_at s key reason = s\<lparr>lo_frozen := (lo_frozen s)(key \<mapsto> reason)\<rparr>"

definition rerun_at :: "loop_state \<Rightarrow> string \<Rightarrow> int \<Rightarrow> int \<Rightarrow> loop_state" where
  "rerun_at s result run_id n = s\<lparr>lo_reruns := (lo_reruns s)(rerun_key result run_id \<mapsto>
     \<lparr>rn_attempt = n, rn_count = rn_count (rerun_in s result run_id) + 1\<rparr>)\<rparr>"

definition sturdy :: "(world \<Rightarrow> bool) \<Rightarrow> bool" where
  "sturdy J \<longleftrightarrow> acts_apart J \<and> rest_apart J
     \<and> (\<forall>w key reason. J w \<and> lo_frozen (wo_loop w) key = None \<longrightarrow> J (w\<lparr>wo_loop := frozen_at (wo_loop w) key reason\<rparr>))
     \<and> (\<forall>w result i n. J w \<and> rn_count (rerun_in (wo_loop w) result i) < MAX_RERUNS
          \<longrightarrow> J (w\<lparr>wo_loop := rerun_at (wo_loop w) result i n\<rparr>))"

lemma sturdy_acts: "sturdy J \<Longrightarrow> J w \<Longrightarrow> (\<And>s b. a = Loop_saved s b \<Longrightarrow> s = wo_loop w) \<Longrightarrow> J (w\<lparr>wo_trace := a # wo_trace w\<rparr>)"
  unfolding sturdy_def acts_apart_def by blast

lemma sturdy_rest:
  "sturdy J \<Longrightarrow> J w \<Longrightarrow> lo_reruns l = lo_reruns (wo_loop w) \<Longrightarrow> lo_frozen l = lo_frozen (wo_loop w) \<Longrightarrow> J (w\<lparr>wo_loop := l\<rparr>)"
  by (simp add: sturdy_def rest_apart_def)

lemma sturdy_freeze:
  "sturdy J \<Longrightarrow> J w \<Longrightarrow> lo_frozen (wo_loop w) key = None \<Longrightarrow> J (w\<lparr>wo_loop := frozen_at (wo_loop w) key reason\<rparr>)"
  by (simp add: sturdy_def)

lemma sturdy_rerun:
  "sturdy J \<Longrightarrow> J w \<Longrightarrow> rn_count (rerun_in (wo_loop w) result i) < MAX_RERUNS
    \<Longrightarrow> J (w\<lparr>wo_loop := rerun_at (wo_loop w) result i n\<rparr>)"
  by (simp add: sturdy_def)

lemma keepsD: "keeps J m \<Longrightarrow> J w \<Longrightarrow> m w = (r, v) \<Longrightarrow> J v"
  by (metis keeps_def snd_conv)

lemma keeps_pure [keeps_intros]:
  "keeps J (return a)" "keeps J (fail e)" "keeps J (raise x)" "keeps J (ensure_io b e)" "keeps J (of_option e y)"
  "keeps J (host_fun f)" "keeps J get_loop"
  by (auto simp: keeps_def return_def fail_def raise_def ensure_io_def of_option_def host_fun_def get_loop_def
      split: option.splits)

lemma keeps_ask: "sturdy J \<Longrightarrow> (\<And>r s b. mk r \<noteq> Loop_saved s b) \<Longrightarrow> keeps J (ask f mk)"
  unfolding keeps_def ask_def Let_def snd_conv by (intro allI impI, rule sturdy_acts) simp_all

lemma keeps_bind [keeps_intros]:
  assumes "keeps J m" and "\<And>a. keeps J (f a)"
  shows "keeps J (bind m f)"
  using assms by (auto simp: keeps_def bind_def split: prod.splits sum.splits)

lemma keeps_attempt [keeps_intros]: "keeps J m \<Longrightarrow> keeps J (attempt_of m)"
  by (auto simp: keeps_def attempt_of_def split: prod.splits)

lemma keeps_if [keeps_intros]: "(b \<Longrightarrow> keeps J m) \<Longrightarrow> (\<not> b \<Longrightarrow> keeps J n) \<Longrightarrow> keeps J (if b then m else n)"
  by simp

lemma keeps_option [keeps_intros]:
  "(x = None \<Longrightarrow> keeps J m) \<Longrightarrow> (\<And>a. x = Some a \<Longrightarrow> keeps J (f a)) \<Longrightarrow> keeps J (case x of None \<Rightarrow> m | Some a \<Rightarrow> f a)"
  by (cases x) simp_all

lemma keeps_sum [keeps_intros]:
  "(\<And>e. x = Inl e \<Longrightarrow> keeps J (f e)) \<Longrightarrow> (\<And>a. x = Inr a \<Longrightarrow> keeps J (g a)) \<Longrightarrow> keeps J (case x of Inl e \<Rightarrow> f e | Inr a \<Rightarrow> g a)"
  by (cases x) simp_all

lemma keeps_prod [keeps_intros]: "(\<And>a b. x = (a, b) \<Longrightarrow> keeps J (f a b)) \<Longrightarrow> keeps J (case x of (a, b) \<Rightarrow> f a b)"
  by (cases x) simp_all

lemma keeps_list [keeps_intros]:
  "(x = [] \<Longrightarrow> keeps J m) \<Longrightarrow> (\<And>a b. x = a # b \<Longrightarrow> keeps J (f a b)) \<Longrightarrow> keeps J (case x of [] \<Rightarrow> m | a # b \<Rightarrow> f a b)"
  by (cases x) simp_all

lemma keeps_let [keeps_intros]: "keeps J (f x) \<Longrightarrow> keeps J (Let x f)"
  by simp

lemma keeps_or [keeps_intros]: "keeps J m \<Longrightarrow> keeps J (or_fail m)" "keeps J n \<Longrightarrow> keeps J (or_abort n)"
  by (auto simp: or_fail_def or_abort_def intro!: keeps_intros)

lemma keeps_loops [keeps_intros]:
  "(\<And>x. x \<in> set xs \<Longrightarrow> keeps J (f x)) \<Longrightarrow> keeps J (for_each xs f)"
  "(\<And>x. x \<in> set ys \<Longrightarrow> keeps J (g x)) \<Longrightarrow> keeps J (traverse g ys)"
  by (induction xs, auto intro!: keeps_intros) (induction ys, auto intro!: keeps_intros)

section \<open>Git, files and the service\<close>

lemma keeps_git [keeps_intros]: "sturdy J \<Longrightarrow> keeps J (git_raw d args i e)"
  unfolding git_raw_def by (intro keeps_or keeps_ask) simp_all

lemma keeps_plumbing [keeps_intros]:
  assumes s: "sturdy J"
  shows "keeps J (git d args)" "keeps J (utf8 e x)" "keeps J (git_text d args)" "keeps J (git_ok d args)"
    "keeps J (canonicalize p)" "keeps J (run_env d args env)" "keeps J (run d args)" "keeps J (text_env d args env)"
    "keeps J (text_of d args)" "keeps J (exit_flag d args)" "keeps J (nul_list_env d args env)" "keeps J (exists p)"
    "keeps J (remote_url u)" "keeps J (git_reads_of m)" "keeps J tick" "keeps J (ask ho_date Dated)" "keeps J (stored p)"
    "keeps J (lock_intent p)" "keeps J (remove_file p)"
proof -
  note d = git_def utf8_def git_text_def git_ok_def canonicalize_def run_env_def run_def text_env_def text_of_def
    exit_flag_def nul_list_env_def exists_def remote_url_def tick_def lock_intent_def remove_file_def
  show "keeps J (git d args)" "keeps J (utf8 e x)" "keeps J (git_text d args)" "keeps J (git_ok d args)"
    "keeps J (canonicalize p)" "keeps J (run_env d args env)" "keeps J (run d args)" "keeps J (text_env d args env)"
    "keeps J (text_of d args)" "keeps J (exit_flag d args)" "keeps J (nul_list_env d args env)" "keeps J (exists p)"
    "keeps J (remote_url u)" "keeps J tick" "keeps J (ask ho_date Dated)" "keeps J (lock_intent p)" "keeps J (remove_file p)"
    unfolding d by (intro keeps_intros keeps_ask s; simp)+
  show "keeps J (git_reads_of m)" "keeps J (stored p)" by (simp_all add: keeps_def git_reads_of_def stored_def)
qed

lemma keeps_matching [keeps_intros]:
  assumes s: "sturdy J"
  shows "keeps J (canonical_local_remote p)" "keeps J (validate_remote_argument u)" "keeps J (canonical_remote_identity c u)"
    "keeps J (git_remote_argument c u)" "keeps J (url_matches c e us)" "keeps J (some_remote_matches c e ns)"
    "keeps J (ensure_remote_matches c u)"
proof -
  show l: "keeps J (canonical_local_remote p)" for p
    unfolding canonical_local_remote_def by (intro keeps_intros s)
  show v: "keeps J (validate_remote_argument u)"
    by (auto simp: validate_remote_argument_def intro!: keeps_intros)
  show c: "keeps J (canonical_remote_identity c u)" for c u
    unfolding canonical_remote_identity_def validate_remote_argument_def by (intro keeps_intros l s)
  show "keeps J (git_remote_argument c u)" unfolding git_remote_argument_def by (intro keeps_intros s)
  show u: "keeps J (url_matches c e us)" for c e us
    by (induction us) (auto intro!: keeps_bind keeps_attempt keeps_sum keeps_if keeps_pure keeps_option c s)
  show n: "keeps J (some_remote_matches c e ns)" for c e ns
    by (induction ns) (auto intro!: keeps_intros u s)
  show "keeps J (ensure_remote_matches c u)"
    unfolding ensure_remote_matches_def by (intro keeps_intros c u n s)
qed

lemma keeps_checkout [keeps_intros]:
  assumes s: "sturdy J"
  shows "keeps J (canonical_git_root p)" "keeps J (canonical_git_dir p)" "keeps J (canonical_common_git_dir p)"
    "keeps J (validate_branch c b)" "keeps J (ensure_clean c)" "keeps J (symbolic_branch c)" "keeps J (resolve_head c)"
    "keeps J (validate_full_oid n)" "keeps J (is_ancestor c a d)"
  unfolding canonical_git_root_def canonical_git_dir_def canonical_common_git_dir_def validate_branch_def
    ensure_clean_def symbolic_branch_def resolve_head_def validate_full_oid_def is_ancestor_def
  by (intro keeps_intros s)+

lemma keeps_snapshot [keeps_intros]:
  assumes s: "sturdy J"
  shows "keeps J (snapshot_unchanged c sn)" "keeps J (capture_clean_snapshot p u)" "keeps J (resolve_exact_commit c n)"
    "keeps J (ensure_ancestor c a d m)" "keeps J (ensure_related c a d)" "keeps J (tree_of c r)"
    "keeps J (locally_available_tree c r)" "keeps J (observed_line r x)" "keeps J (observe_remote_target p u b)"
proof -
  show sn: "keeps J (snapshot_unchanged c sn)" for c sn unfolding snapshot_unchanged_def by (intro keeps_intros s)
  show "keeps J (capture_clean_snapshot p u)" unfolding capture_clean_snapshot_def by (intro keeps_intros sn s)
  show "keeps J (resolve_exact_commit c n)" "keeps J (ensure_ancestor c a d m)" "keeps J (ensure_related c a d)"
    unfolding resolve_exact_commit_def ensure_ancestor_def ensure_related_def by (intro keeps_intros s)+
  show tr: "keeps J (tree_of c r)" for c r unfolding tree_of_def by (intro keeps_intros s)
  show t: "keeps J (locally_available_tree c r)" for c r unfolding locally_available_tree_def by (intro keeps_intros tr s)
  show o': "keeps J (observed_line r x)" for r x unfolding observed_line_def by (intro keeps_intros s)
  show "keeps J (observe_remote_target p u b)" unfolding observe_remote_target_def by (intro keeps_intros t o' s)
qed

section \<open>Publication\<close>

lemma keeps_intent [keeps_intros]:
  assumes s: "sturdy J"
  shows "keeps J (load_intent p)" "keeps J (save_intent p i e)" "keeps J (mark_published p i)"
    "keeps J (record_observation p i x e)" "keeps J (load_prepared p)" "keeps J (elapsed_since n)" "keeps J (remaining au)"
    "keeps J (valid_for n)"
proof -
  show l: "keeps J (load_intent p)" unfolding load_intent_def by (intro keeps_intros keeps_ask s; simp)
  show sv: "keeps J (save_intent p i e)" for i e unfolding save_intent_def
    by (intro keeps_bind keeps_ask s; simp add: keeps_pure split: save_outcome.split)
  show "keeps J (mark_published p i)" "keeps J (record_observation p i x e)" "keeps J (load_prepared p)"
    unfolding mark_published_def record_observation_def load_prepared_def by (intro keeps_intros l sv s)+
  show e: "keeps J (elapsed_since n)" for n unfolding elapsed_since_def by (intro keeps_intros s)
  show "keeps J (remaining au)" "keeps J (valid_for n)" unfolding remaining_def valid_for_def by (intro keeps_intros e s)+
qed

lemma keeps_result [keeps_intros]:
  assumes s: "sturdy J"
  shows "keeps J (validate_git_result i)" "keeps J (validate_intent_checkout i u)" "keeps J (materialize_result_checkout i u)"
    "keeps J (ensure_same_prepare_request i q)" "keeps J (update_isolated_ref c r x)" "keeps J (create_merge i)"
    "keeps J (new_intent q)"
  unfolding validate_git_result_def validate_intent_checkout_def materialize_result_checkout_def ensure_same_prepare_request_def
    update_isolated_ref_def create_merge_def new_intent_def
  by (intro keeps_intros s)+

lemma keeps_publication [keeps_intros]:
  assumes s: "sturdy J"
  shows "keeps J (observe_intent p i u e)" "keeps J (settled_by p i y)" "keeps J (prepare_integration q)"
    "keeps J (push_result p i u au res)" "keeps J (publish_authorized p i u au res)"
    "(\<And>c. keeps J (f c)) \<Longrightarrow> keeps J (publish_prepared p u f)"
proof -
  show o': "keeps J (observe_intent p i u e)" for i u e unfolding observe_intent_def by (intro keeps_intros s)
  show st: "keeps J (settled_by p i y)" for i y unfolding settled_by_def by (intro keeps_intros s)
  have cr: "keeps J (create_integration_result i)" for i unfolding create_integration_result_def by (intro keeps_intros s)
  have rr: "keeps J (record_result p i)" for p i unfolding record_result_def by (intro keeps_intros cr s)
  have fp: "keeps J (finish_preparation p i u)" for p i u unfolding finish_preparation_def by (intro keeps_intros rr s)
  show "keeps J (prepare_integration q)" unfolding prepare_integration_def by (intro keeps_intros fp s)
  show pr: "keeps J (push_result p i u au res)" for i u au res unfolding push_result_def by (intro keeps_intros o' st s)
  show pa: "keeps J (publish_authorized p i u au res)" for i u au res
    unfolding publish_authorized_def by (intro keeps_intros o' st pr s)
  show "(\<And>c. keeps J (f c)) \<Longrightarrow> keeps J (publish_prepared p u f)"
    unfolding publish_prepared_def by (intro keeps_intros o' st pa s)
qed

section \<open>Mirrors and calls\<close>

lemma keeps_mirror [keeps_intros]:
  assumes s: "sturdy J"
  shows "keeps J (ensure_mirror m u)" "keeps J (fetch_refs m rs)" "keeps J (ls_remote m u ref)" "keeps J (mirror_ancestor m x y)"
    "keeps J (merges_cleanly m x y)" "keeps J (landing_range m x y)" "keeps J (commits_between m x y)"
    "keeps J (changed_files m x)" "keeps J (blob_at m x pt)" "keeps J (file_at m x pt)" "keeps J (remove_worktree m d b)"
    "keeps J (ensure_worktree m d b x)" "keeps J (push_create_only m u x ref)" "keeps J (compute_mechanical m d b sp)"
proof -
  show "keeps J (fetch_refs m rs)" "keeps J (ls_remote m u ref)" "keeps J (mirror_ancestor m x y)"
    "keeps J (merges_cleanly m x y)" "keeps J (landing_range m x y)" "keeps J (commits_between m x y)" "keeps J (changed_files m x)"
    unfolding fetch_refs_def ls_remote_def mirror_ancestor_def merges_cleanly_def landing_range_def commits_between_def changed_files_def
    by (intro keeps_intros s)+
  show b: "keeps J (blob_at m x pt)" unfolding blob_at_def by (intro keeps_intros s)
  show "keeps J (file_at m x pt)" unfolding file_at_def by (intro keeps_intros b s)
  show "keeps J (ensure_mirror m u)" unfolding ensure_mirror_def by (intro keeps_intros keeps_ask s; simp)
  show rw: "keeps J (remove_worktree m d b)" for d b unfolding remove_worktree_def by (intro keeps_intros keeps_ask s; simp)
  show "keeps J (ensure_worktree m d b x)" unfolding ensure_worktree_def by (intro keeps_intros rw s)
  have ls: "keeps J (ls_remote m u ref)" unfolding ls_remote_def by (intro keeps_intros s)
  show "keeps J (push_create_only m u x ref)" unfolding push_create_only_def by (intro keeps_intros ls s)
  show "keeps J (compute_mechanical m d b sp)"
    unfolding compute_mechanical_def in_history_def revert_in_def revert_args_def range_commit_def commit_revert_def
    by (intro keeps_intros rw s)
qed

lemma keeps_calls [keeps_intros]:
  assumes s: "sturdy J"
  shows "keeps J (read_queue p)" "keeps J (post_result p nr)" "keeps J (record_receipt p rc)" "keeps J (record_progress p r pr)"
    "keeps J (push_authority p x)" "keeps J (post_observation p ob)" "keeps J (post_candidate p x c)" "keeps J (post_report p rp)"
    "keeps J (human_ship p x fs)" "keeps J (branch_rules u b)" "keeps J (check_runs u z cs)" "keeps J (rerun_failed_jobs u n)"
    "keeps J (rerun_job u cr)" "keeps J (post_revise p x reason e ci)" "keeps J (post_unmechanical p x t reason e)"
  unfolding read_queue_def post_result_def record_receipt_def record_progress_def push_authority_def
    post_observation_def post_candidate_def post_report_def human_ship_def branch_rules_def check_runs_def
    rerun_failed_jobs_def rerun_job_def post_revise_def post_unmechanical_def
  by (intro keeps_or keeps_ask s; simp)+

section \<open>The local state\<close>

lemma keeps_rest:
  assumes s: "sturdy J" and f: "\<And>l. lo_reruns (f l) = lo_reruns l" "\<And>l. lo_frozen (f l) = lo_frozen l"
  shows "keeps J (bind get_loop (\<lambda>l. put_loop (f l)))"
proof -
  have "J (w\<lparr>wo_loop := f (wo_loop w)\<rparr>)" if "J w" for w by (rule sturdy_rest [OF s that f])
  then show ?thesis by (simp add: keeps_def bind_def get_loop_def put_loop_def)
qed

lemma keeps_save [keeps_intros]:
  assumes s: "sturdy J"
  shows "keeps J save_loop"
proof -
  have "J (snd (save_loop w))" if "J w" for w
    using sturdy_acts [OF s that, of "Loop_saved (wo_loop w) (ho_save_loop (wo_host w) (wo_trace w))"]
    by (cases "ho_save_loop (wo_host w) (wo_trace w)") (simp_all add: save_loop_def bind_def get_loop_def ask_def Let_def ensure_io_def return_def fail_def)
  then show ?thesis by (simp add: keeps_def)
qed

lemma keeps_change [keeps_intros]:
  "sturdy J \<Longrightarrow> (\<And>l. lo_reruns (f l) = lo_reruns l) \<Longrightarrow> (\<And>l. lo_frozen (f l) = lo_frozen l) \<Longrightarrow> keeps J (change_loop f)"
  unfolding change_loop_def by (rule keeps_rest)

text \<open>A step that reads the state and then branches on it.\<close>

lemma keeps_state:
  assumes "\<And>w. J w \<Longrightarrow> J (snd (m (wo_loop w) w))"
  shows "keeps J (bind get_loop m)"
  using assms by (simp add: keeps_def bind_def get_loop_def)

lemma put_keeps:
  assumes "sturdy J" "J w" "lo_reruns l = lo_reruns (wo_loop w)" "lo_frozen l = lo_frozen (wo_loop w)" "keeps J m"
  shows "J (snd (bind (put_loop l) (\<lambda>_. m) w))"
proof -
  have "J (w\<lparr>wo_loop := l\<rparr>)" by (rule sturdy_rest [OF assms(1-4)])
  with assms(5) show ?thesis by (simp add: bind_def put_loop_def keeps_def)
qed

lemma put_keeps_last:
  assumes "sturdy J" "J w" "lo_reruns l = lo_reruns (wo_loop w)" "lo_frozen l = lo_frozen (wo_loop w)"
  shows "J (snd (put_loop l w))"
  using sturdy_rest [OF assms] by (simp add: put_loop_def)

lemma run_keeps: "keeps J m \<Longrightarrow> J w \<Longrightarrow> J (snd (m w))"
  by (simp add: keeps_def)

lemma branch_keeps: "(b \<Longrightarrow> J (snd (m w))) \<Longrightarrow> (\<not> b \<Longrightarrow> J (snd (n w))) \<Longrightarrow> J (snd ((if b then m else n) w))"
  by simp

lemma keeps_notes [keeps_intros]:
  assumes s: "sturdy J"
  shows "keeps J (ruleset_episode k)" "keeps J (end_ruleset_episode k)" "keeps J (record_published k pb)" "keeps J (record_tip k y)"
    "keeps J (freeze_reason k)" "keeps J (rerun_of k n)" "keeps J (published_of k)"
proof -
  have ep: "keeps J (bind (ask ho_date Dated) (\<lambda>millis. let name = g millis in
      bind (change_loop (\<lambda>l. l\<lparr>lo_episodes := (lo_episodes l)(k \<mapsto> name)\<rparr>)) (\<lambda>_. bind save_loop (\<lambda>_. return name))))"
    for g :: "int \<Rightarrow> string"
    by (intro keeps_intros s; simp)
  show "keeps J (ruleset_episode k)" unfolding ruleset_episode_def
  proof (rule keeps_state)
    fix w :: world assume w: "J w"
    show "J (snd ((case lo_episodes (wo_loop w) k of Some name \<Rightarrow> return name
     | None \<Rightarrow> bind (put_loop (wo_loop w\<lparr>lo_episode_seq := lo_episode_seq (wo_loop w) + 1\<rparr>)) (\<lambda>_.
         bind (ask ho_date Dated) (\<lambda>millis. let name = show_int millis @ ''-'' @ show_nat (lo_episode_seq (wo_loop w) + 1) in
         bind (change_loop (\<lambda>s. s\<lparr>lo_episodes := (lo_episodes s)(k \<mapsto> name)\<rparr>)) (\<lambda>_. bind save_loop (\<lambda>_. return name))))) w))"
    proof (cases "lo_episodes (wo_loop w) k")
      case None
      show ?thesis unfolding None option.case by (rule put_keeps [OF s w _ _ ep]) simp_all
    qed (use w in \<open>simp add: return_def\<close>)
  qed
  show "keeps J (end_ruleset_episode k)" "keeps J (record_tip k y)" unfolding end_ruleset_episode_def record_tip_def
    by (rule keeps_state, rule branch_keeps, simp add: return_def, rule put_keeps [OF s]; simp add: keeps_save [OF s])+
  show "keeps J (record_published k pb)" unfolding record_published_def Let_def
    by (rule keeps_state, rule branch_keeps, rule put_keeps_last [OF s], simp_all, rule put_keeps [OF s], simp_all)
      (intro keeps_intros s; simp)
  show "keeps J (freeze_reason k)" "keeps J (rerun_of k n)" "keeps J (published_of k)"
    unfolding freeze_reason_def rerun_of_def published_of_def by (intro keeps_intros)+
qed

text \<open>A freeze only of a target that is not frozen, in \<open>tip_move\<close>; asking Git in between changes no state.\<close>

lemma freeze_runs:
  assumes s: "sturdy J" and "J w" "lo_frozen (wo_loop w) key = None"
  shows "J (snd (freeze key reason w))"
proof -
  have "J (w\<lparr>wo_loop := frozen_at (wo_loop w) key reason\<rparr>)" by (rule sturdy_freeze [OF assms])
  with keeps_save [OF s] show ?thesis
    by (simp add: freeze_def change_loop_def bind_def get_loop_def put_loop_def frozen_at_def keeps_def)
qed

lemma ancestor_loop: "wo_loop (snd (mirror_ancestor m x y w)) = wo_loop w"
  by (simp add: mirror_ancestor_def exit_flag_def run_def run_env_def git_raw_def or_fail_def bind_def ask_def Let_def
      return_def fail_def split: sum.splits)

lemma keeps_tip_move [keeps_intros]:
  assumes s: "sturdy J"
  shows "keeps J (tip_move key mirror x)"
  unfolding tip_move_def
proof (rule keeps_state)
  fix w :: world assume w: "J w"
  have moved: "J (snd (bind (mirror_ancestor mirror p x) (\<lambda>forward. if forward then return (Forward (Some p))
      else bind (freeze key r) (\<lambda>_. return (Frozen_at r))) w))" if f: "lo_frozen (wo_loop w) key = None" for p r
  proof (cases "mirror_ancestor mirror p x w")
    case (Pair res v)
    have v: "J v" using keepsD [OF keeps_mirror(4) [OF s] w Pair] .
    have "lo_frozen (wo_loop v) key = None" using ancestor_loop [of mirror p x w] Pair f by simp
    note frozen = freeze_runs [OF s v this, of r]
    obtain q u where q: "freeze key r v = (q, u)" by (cases "freeze key r v")
    with frozen v Pair show ?thesis by (cases res; cases q) (auto simp: bind_def return_def)
  qed
  show "J (snd ((case lo_frozen (wo_loop w) key of Some reason \<Rightarrow> return (Frozen_at reason)
     | None \<Rightarrow> (case lo_tips (wo_loop w) key of None \<Rightarrow> return (Forward None)
       | Some previous \<Rightarrow> if previous = x then return Unchanged
         else bind (mirror_ancestor mirror previous x) (\<lambda>forward. if forward then return (Forward (Some previous))
           else bind (freeze key (rewrite_reason previous x)) (\<lambda>_. return (Frozen_at (rewrite_reason previous x)))))) w))"
    using w moved by (auto simp: return_def split: option.splits)
qed

section \<open>Reruns\<close>

lemma rerun_runs:
  assumes s: "sturdy J" and "J w" "rn_count (rerun_in (wo_loop w) result i) < MAX_RERUNS"
  shows "J (snd (record_rerun result i n w))"
proof -
  have "J (w\<lparr>wo_loop := rerun_at (wo_loop w) result i n\<rparr>)" by (rule sturdy_rerun [OF assms])
  with keeps_save [OF s] show ?thesis
    by (simp add: record_rerun_def change_loop_def bind_def get_loop_def put_loop_def rerun_at_def keeps_def)
qed

text \<open>Decimal run ids are distinct, so a recorded rerun leaves the counts of other runs alone.\<close>

lemma record_rerun_other:
  assumes "i \<noteq> k"
  shows "rerun_in (wo_loop (snd (record_rerun result i n w))) result k = rerun_in (wo_loop w) result k"
  using assms
  by (simp add: record_rerun_def change_loop_def save_loop_def bind_def get_loop_def put_loop_def ask_def Let_def ensure_io_def
      return_def fail_def rerun_in_def rerun_key_def show_int_inject)

lemma asked_loop:
  "wo_loop (snd (attempt_of (rerun_failed_jobs u i) w)) = wo_loop w" "wo_loop (snd (attempt_of (rerun_job u c) w)) = wo_loop w"
  by (simp_all add: attempt_of_def rerun_failed_jobs_def rerun_job_def or_fail_def bind_def ask_def Let_def return_def fail_def
      split: sum.splits)

lemma report_keeps [keeps_intros]: "sturdy J \<Longrightarrow> keeps J (report_best_effort p r)"
  unfolding report_best_effort_def by (intro keeps_intros)

lemma reruns_keep:
  assumes s: "sturdy J"
  shows "J w \<Longrightarrow> \<forall>(i, n) \<in> set ns. rn_count (rerun_in (wo_loop w) (rr_id r) i) < MAX_RERUNS \<Longrightarrow> distinct (map fst ns)
    \<Longrightarrow> J (snd (request_reruns j r ns w))"
proof (induction ns arbitrary: w)
  case Nil
  then show ?case by (simp add: return_def)
next
  case (Cons p ns)
  obtain i n where p: "p = (i, n)" by (cases p)
  let ?ask = "attempt_of (rerun_failed_jobs (qi_repository (ij_item j)) i)"
  obtain res v where a: "?ask w = (Inr res, v)" by (cases "?ask w") (auto simp: attempt_of_def split: prod.splits)
  have k: "keeps J ?ask" by (intro keeps_intros s)
  have v: "J v" "wo_loop v = wo_loop w"
    using keepsD [OF k Cons.prems(1) a] asked_loop(1) [of "qi_repository (ij_item j)" i w] a by simp_all
  show ?case
  proof (cases res)
    case (Inl e)
    have "keeps J (bind (host_fun (\<lambda>h. still_running h e)) (\<lambda>going. if going then return Step_checks_pending
        else bind (report_best_effort (ij_project j) (rerun_refused_report j r i)) (\<lambda>_. return (Step_blocked ''rerun_refused''))))"
      by (intro keeps_intros s)
    with v a Inl show ?thesis by (simp add: p bind_def [of ?ask] keeps_def)
  next
    case (Inr u)
    obtain res2 v2 where rec: "record_rerun (rr_id r) i n v = (res2, v2)" by (cases "record_rerun (rr_id r) i n v")
    have v2: "J v2" using rerun_runs [OF s v(1), of "rr_id r" i n] Cons.prems(2) v(2) rec by (simp add: p)
    have "\<forall>(k, m) \<in> set ns. rn_count (rerun_in (wo_loop v2) (rr_id r) k) < MAX_RERUNS"
    proof (intro ballI, clarify)
      fix k m assume k: "(k, m) \<in> set ns"
      then have "i \<noteq> k" using Cons.prems(3) by (auto simp: p image_iff)
      then have "rerun_in (wo_loop v2) (rr_id r) k = rerun_in (wo_loop w) (rr_id r) k"
        using record_rerun_other [of i k "rr_id r" n v] rec v(2) by simp
      with k Cons.prems(2) show "rn_count (rerun_in (wo_loop v2) (rr_id r) k) < MAX_RERUNS" by auto
    qed
    with Cons.IH [OF v2] Cons.prems(3) have "J (snd (request_reruns j r ns v2))" by (simp add: p)
    with v2 a Inr rec show ?thesis by (cases res2) (simp_all add: p bind_def)
  qed
qed

lemma latest_distinct: "distinct (map fst (latest_attempts rs))"
  using latest_attempts_sorted strict_sorted_iff by blast

lemma rerun_of_run: "bind (rerun_of result i) k w = k (rerun_in (wo_loop w) result i) w"
  by (simp add: rerun_of_def bind_def get_loop_def return_def)

lemma keeps_attribution [keeps_intros]:
  assumes s: "sturdy J"
  shows "keeps J (refresh_target j r x)" "keeps J (target_failure j c y b)" "keeps J (target_state j c)"
    "keeps J (attribute_check j r c)" "keeps J (report_flaky j r verdict cs)"
proof -
  have "J (snd (refresh_target j r (On_stale old new) w))" if w: "J w" for w old new
  proof -
    let ?n = "rerun_in (wo_loop w) (rr_id r) (cr_run_id new)"
    let ?ask = "attempt_of (rerun_job (qi_repository (ij_item j)) new)"
    obtain res v where a: "?ask w = (Inr res, v)" by (cases "?ask w") (auto simp: attempt_of_def split: prod.splits)
    have k: "keeps J ?ask" by (intro keeps_intros s)
    have v: "J v" "wo_loop v = wo_loop w"
      using keepsD [OF k w a] asked_loop(2) [of "qi_repository (ij_item j)" new w] a by simp_all
    have again: "J (snd (bind ?ask (\<lambda>reply. case reply of
          Inl e \<Rightarrow> bind (host_fun (\<lambda>h. still_running h e)) (\<lambda>going. return (if going then Wait else Unverified))
        | Inr _ \<Rightarrow> bind (record_rerun (rr_id r) (cr_run_id new) (cr_run_attempt new)) (\<lambda>_. return Wait)) w))"
      if "rn_count ?n < MAX_RERUNS"
    proof (cases res)
      case (Inl e)
      with v a show ?thesis by (simp add: bind_def host_fun_def return_def)
    next
      case (Inr u)
      obtain q t where q: "record_rerun (rr_id r) (cr_run_id new) (cr_run_attempt new) v = (q, t)"
        by (cases "record_rerun (rr_id r) (cr_run_id new) (cr_run_attempt new) v")
      have "J t" using rerun_runs [OF s v(1), of "rr_id r" "cr_run_id new" "cr_run_attempt new"] that v(2) q by simp
      with a Inr q show ?thesis by (cases q) (simp_all add: bind_def return_def)
    qed
    show ?thesis unfolding refresh_target_def target_result.case rerun_of_run
      by (rule branch_keeps, simp add: return_def w, rule branch_keeps, simp add: return_def w, rule again, simp)
  qed
  then have stale: "keeps J (refresh_target j r (On_stale old new))" for old new by (simp add: keeps_def)
  show rt: "keeps J (refresh_target j r x)" for x
  proof (cases x)
    case (On_stale old new)
    then show ?thesis by (simp add: stale)
  qed (simp_all add: refresh_target_def keeps_pure)
  show tf: "keeps J (target_failure j c y b)" for y b unfolding target_failure_def by (intro keeps_intros s)
  show ts: "keeps J (target_state j c)" unfolding target_state_def by (intro keeps_intros s)
  show "keeps J (attribute_check j r c)" unfolding attribute_check_def by (intro keeps_intros rt tf ts s)
  show "keeps J (report_flaky j r verdict cs)" unfolding report_flaky_def by (intro keeps_intros s)
qed

lemma keeps_back [keeps_intros]:
  assumes s: "sturdy J"
  shows "keeps J (discard_local cf j)" "keeps J (revise cf j reason e ci)" "keeps J (not_mechanical p x t reason e)"
    "keeps J (author_failed cf j r e)" "keeps J (attribute_reproduced cf j r cs)"
proof -
  show d: "keeps J (discard_local cf j)" unfolding discard_local_def by (intro keeps_intros s)
  show rv: "keeps J (revise cf j reason e ci)" for reason e ci unfolding revise_def by (intro keeps_intros d s)
  show nm: "keeps J (not_mechanical p x t reason e)" for p x t reason e unfolding not_mechanical_def by (intro keeps_intros s)
  show af: "keeps J (author_failed cf j r e)" for e
    unfolding author_failed_def revert_check_failed_def by (intro keeps_intros d rv nm s)
  show "keeps J (attribute_reproduced cf j r cs)" unfolding attribute_reproduced_def Let_def by (intro keeps_intros af s)
qed

text \<open>Only runs still below the limit are rerun: \<open>judge\<close> asks for no more.\<close>

lemma judged_below: "judged s r c = Rerun \<Longrightarrow> rn_count (rerun_in s (rr_id r) (cr_run_id (deciding c))) < MAX_RERUNS"
  by (auto simp: judged_def judge_def Let_def split: if_splits check_outcome.splits)

lemma picked_below:
  assumes "(i, n) \<in> set (latest_attempts (map deciding (pick s r Rerun checks)))"
  shows "rn_count (rerun_in s (rr_id r) i) < MAX_RERUNS"
proof -
  have "i \<in> cr_run_id ` deciding ` set (pick s r Rerun checks)"
    using assms latest_attempts_keys [of "map deciding (pick s r Rerun checks)"] by force
  then show ?thesis by (auto simp: pick_def dest: judged_below)
qed

lemma keeps_attribute [keeps_intros]:
  assumes s: "sturdy J"
  shows "keeps J (attribute cf j r checks)"
  unfolding attribute_def
proof (rule keeps_state, rule branch_keeps)
  fix w :: world assume w: "J w"
  let ?ns = "latest_attempts (map deciding (pick (wo_loop w) r Rerun checks))"
  have "J (snd (request_reruns j r ?ns w))"
    by (rule reruns_keep [OF s w]) (auto simp: latest_distinct dest: picked_below)
  then show "J (snd (bind (request_reruns j r ?ns) (\<lambda>st. return (Some st)) w))"
    by (auto simp: bind_def return_def split: prod.splits sum.splits)
next
  fix w :: world assume w: "J w"
  show "J (snd (bind (report_flaky j r ''flaky'' (pick (wo_loop w) r Flaky checks)) (\<lambda>_.
       bind (report_flaky j r ''no_result'' (pick (wo_loop w) r Undecided checks)) (\<lambda>_.
       if pick (wo_loop w) r Reproduced checks \<noteq> [] then
         bind (attribute_reproduced cf j r (pick (wo_loop w) r Reproduced checks)) (\<lambda>st. return (Some st))
       else return (if pick (wo_loop w) r Undecided checks \<noteq> [] then Some (Step_blocked ''no_result'') else None))) w))"
    by (rule run_keeps, intro keeps_intros s, rule w)
qed

section \<open>Watch, gates and cycles\<close>

lemma keeps_tip [keeps_intros]:
  "(\<And>x. keeps J (f x)) \<Longrightarrow> keeps J g \<Longrightarrow> (\<And>x. keeps J (h x)) \<Longrightarrow>
    keeps J (case m of Frozen_at x \<Rightarrow> f x | Unchanged \<Rightarrow> g | Forward x \<Rightarrow> h x)"
  by (cases m) simp_all

lemma keeps_gates [keeps_intros]:
  assumes s: "sturdy J"
  shows "keeps J (failed e)" "keeps J (gate_findings m x y rq)" "keeps J (privilege_gate j rr)"
    "keeps J (classify_move p m t x y)" "keeps J (watch_target cf p t)" "keeps J (watch_targets cf p q)" "keeps J (roster_at m x y sr)"
proof -
  show f: "keeps J (failed e)" for e unfolding failed_def by (intro keeps_intros)
  show g: "keeps J (gate_findings m x y rq)" for m x y rq unfolding gate_findings_def by (intro keeps_intros s)
  show "keeps J (privilege_gate j rr)" unfolding privilege_gate_def by (intro keeps_intros g s)
  show c: "keeps J (classify_move p m t x y)" for p m t x y
    unfolding classify_move_def out_of_band_def own_range_def record_human_ship_def by (intro keeps_intros s)
  show w: "keeps J (watch_target cf p t)" for t
    unfolding watch_target_def watchdog_def missing_rules_def ruleset_frozen_def monitor_tip_def observe_target_def rewrite_frozen_def
    by (intro keeps_intros s c)
  show "keeps J (watch_targets cf p q)" unfolding watch_targets_def watch_status_def by (intro keeps_intros w f s)
  show "keeps J (roster_at m x y sr)" unfolding roster_at_def file_checks_def roster_entry_def by (intro keeps_intros s)
qed

lemma keeps_results [keeps_intros]:
  assumes s: "sturdy J"
  shows "keeps J (pin_result cf j ro)" "keeps J (observe_and_close cf j r nonce)" "keeps J (open_job cf p i x)"
    "keeps J (revert_cycle cf p rx)"
proof -
  have c: "keeps J (compute_result cf j ro)" unfolding compute_result_def prepare_job_def by (intro keeps_intros s)
  have l: "keeps J (landed m x b p)" for m x b p unfolding landed_def says_def by (intro keeps_intros s)
  have n: "keeps J (newest_landing m x b n ps)" for m x b n ps
    by (induction ps arbitrary: n) (auto simp: says_def intro!: keeps_intros l s)
  have rc: "keeps J (revise_conflict cf j)" unfolding revise_conflict_def landing_result_def by (intro keeps_intros n s)
  have rr: "keeps J (revise_reverted cf j cs)" for cs
    unfolding revise_reverted_def history_disputed_def by (intro keeps_intros s)
  show "keeps J (pin_result cf j ro)" unfolding pin_result_def result_refused_def by (intro keeps_intros c rc rr s)
  show "keeps J (observe_and_close cf j r nonce)" unfolding observe_and_close_def ancestry_of_def by (intro keeps_intros s)
  show "keeps J (open_job cf p i x)" unfolding open_job_def by (intro keeps_intros s)
  have st: "keeps J (revert_step cf a b c)" for a b c unfolding revert_step_def record_candidate_def compute_revert_def
    by (intro keeps_intros s; simp split: mechanical.split; intro conjI allI impI keeps_intros s)
  show "keeps J (revert_cycle cf p rx)" unfolding revert_cycle_def by (intro keeps_intros st)
qed

lemma keeps_publish [keeps_intros]:
  assumes s: "sturdy J"
  shows "keeps J (publish cf j r)"
  unfolding publish_def try_push_def authority_budget_def authorize_only_def by (intro keeps_intros s)

lemma keeps_item [keeps_intros]:
  assumes s: "sturdy J"
  shows "keeps J (item_cycle cf p q ix)"
  unfolding item_cycle_def integrate_def check_and_publish_def checks_gate_def report_progress_def post_receipt_def
  by (intro keeps_intros s)

lemma keeps_first_done [keeps_intros]:
  assumes s: "sturdy J" and "\<And>a. keeps J (f a)"
  shows "keeps J (first_done f as previous)"
  using assms(2) by (induction as arbitrary: previous) (auto simp: or_failed_def failed_def intro!: keeps_intros s)

theorem cycle_keeps:
  assumes s: "sturdy J"
  shows "keeps J (cycle cf p)"
  unfolding cycle_def by (intro keeps_intros s)

end
