(* ===== verification/Spec2Isabelle.thy ===== *)
theory Spec2Isabelle
  imports Service_Properties Work_Properties Fencing Integration_Properties Workflow_Properties Flake Gate_Properties
    Publication_Properties Integrator_Properties Integrator_Blame Loop_Properties
begin

text \<open>
  The agent coordinator: a service that hands out work on Git repositories to agents and people, and the
  programs that carry the finished work into the target branches. This development models the core of both
  and proves what keeps them correct.

  \<^bold>\<open>The program.\<close> The service (\<^verbatim>\<open>crates/server/src\<close>) keeps its state in one SQLite database.
  A client authenticates, claims a task under a lease, renews it, records checkpoints, jobs and reservations,
  and submits a candidate; reviewers and an integrator then work on activities of the submission until the
  task is done. Every change is one write transaction with an idempotency key, under a service clock that
  must not run backwards. The tools of an agent (\<^verbatim>\<open>crates/local/src/git_workflow.rs\<close>) prepare and publish an
  integration result from a durable intent. The integrator (\<^verbatim>\<open>crates/integrator/src\<close>) does the same for a
  whole queue: it computes results, waits for checks, attributes failures, and pushes under an authority the
  service grants; its privilege gate decides which changes need a human first.

  \<^bold>\<open>The service: theories and sources.\<close>
  \<^item> Foundations: \<open>Prelude\<close> (results of fallible code, tables as row lists, saturating arithmetic),
    \<open>Rust_Text\<close> (string functions of the standard library on UTF-8 bytes), \<open>App_Error\<close> (\<^verbatim>\<open>error.rs\<close>),
    \<open>Schema\<close> (the tables of \<^verbatim>\<open>migrations\<close> as records).
  \<^item> The frame of a request: \<open>Access\<close> (\<^verbatim>\<open>auth.rs\<close>, \<^verbatim>\<open>credential_attributes.rs\<close>), \<open>Clock\<close> and
    \<open>Clock_Admin\<close> (\<^verbatim>\<open>state.rs\<close>, \<^verbatim>\<open>operator_access.rs\<close>), \<open>Mutation\<close> (\<^verbatim>\<open>mutation.rs\<close>): begin, receipts, replay,
    pauses, finish.
  \<^item> Tasks and leases (\<^verbatim>\<open>coordination.rs\<close>): \<open>Task_View\<close>, \<open>Task_Write\<close>, \<open>Dependencies\<close>, \<open>Tasks\<close>,
    \<open>Projects\<close>, \<open>Policies\<close>, \<open>Leases\<close>; \<open>Admission\<close> (\<^verbatim>\<open>admission.rs\<close>), \<open>Recovery_Evidence\<close>
    (\<^verbatim>\<open>recovery_evidence.rs\<close>), \<open>Independence\<close> (\<^verbatim>\<open>workflow.rs\<close>, \<^verbatim>\<open>reverts.rs\<close>), \<open>Jobs\<close> (\<^verbatim>\<open>jobs.rs\<close>).
  \<^item> The completion workflow (\<^verbatim>\<open>workflow.rs\<close>, \<^verbatim>\<open>autonomy.rs\<close>): \<open>Reviews\<close>, \<open>Workflow_View\<close>, \<open>Workflow_Write\<close>,
    \<open>Workflow_Policy\<close>, \<open>Workflow_Submit\<close>, \<open>Workflow_Review\<close>, \<open>Workflow_Reopen\<close>, \<open>Workflow_Integrate\<close>;
    \<open>Knowledge\<close> and \<open>Decisions\<close> (\<^verbatim>\<open>knowledge.rs\<close>).
  \<^item> \<open>System\<close> puts the 49 mutating requests together: \<open>op_valid\<close> (checks before the transaction),
    \<open>op_body\<close> (the handler), \<open>serve\<close> (the whole request), and \<open>step\<close>: a request, a reading of the clock, a
    reconciliation of it, a restart, the start-up reconciliation, or a free change of tables the handlers only read.

  \<^bold>\<open>The service: lemmas.\<close>
  A body either refuses, answers a replay without a commit, or commits through \<open>finish\<close>; the locale \<open>replay_safe\<close>
  states this contract and is interpreted on every handler. \<open>Lease_Invariant\<close>, \<open>Job_Invariant\<close> and \<open>Workflow_Invariant\<close>
  hold the invariants of the components, \<open>Lease_Handlers\<close>, \<open>Job_Handlers\<close>, \<open>Workflow_Steps\<close> and \<open>Workflow_Frames\<close> show
  that every handler keeps them and moves history only forward, and \<open>System_Invariant\<close> lifts both to all steps.
  \<open>Lock_Refinement\<close> shows that the service refines a table of generation locks, \<open>Fencing\<close> that its owner operations
  commit only for the holder. \<open>Service_Properties\<close>, \<open>Work_Properties\<close>, \<open>Workflow_Properties\<close>, \<open>Integration_Properties\<close>
  and this theory state what follows; \<open>Scenario\<close> and \<open>Workflow_Scenario\<close> are the concrete runs the theorems are
  applied to.

  \<^bold>\<open>The tools around the service.\<close>
  \<^item> \<open>Io\<close>: programs over a \<open>host\<close>, which answers every call (a Git command with its exact arguments, a file, a
    clock, the service, the checks) from the history so far. A program extends the history; a crash is a
    history cut short. \<open>Git_Text\<close>, \<open>Checkout\<close>, \<open>Publication\<close> model \<^verbatim>\<open>git_workflow.rs\<close>; \<open>Service_Types\<close> the exchange with
    the service (\<^verbatim>\<open>service.rs\<close>), \<open>Mirror\<close> (\<^verbatim>\<open>git.rs\<close>, \<^verbatim>\<open>revert.rs\<close>), \<open>Loop_State\<close> (\<^verbatim>\<open>state.rs\<close>), \<open>Integrator_Gates\<close>
    (\<^verbatim>\<open>gates.rs\<close>, \<^verbatim>\<open>landing.rs\<close>, \<^verbatim>\<open>watch.rs\<close>, \<^verbatim>\<open>roster.rs\<close>), \<open>Integrator_Checks\<close> (\<^verbatim>\<open>attribution.rs\<close>, \<^verbatim>\<open>publish.rs\<close>),
    \<open>Integrator\<close> (\<^verbatim>\<open>integrate.rs\<close>, \<^verbatim>\<open>reverts.rs\<close>), \<open>Flake\<close> (\<^verbatim>\<open>flake.rs\<close>), and \<open>Action_Refs\<close>, \<open>Local_Actions\<close>, \<open>Privilege\<close> the
    privilege gate (\<^verbatim>\<open>action_refs.rs\<close>, \<^verbatim>\<open>local_actions.rs\<close>, \<^verbatim>\<open>privilege.rs\<close>).
  \<^item> \<open>Publication_Safety\<close> follows the durable intent through every operation, \<open>Publication_Properties\<close> concludes that
    at most one push starts. \<open>Integrator_Safety\<close> follows the acts of one cycle (the judgement \<open>leads\<close>),
    \<open>Integrator_Push\<close>, \<open>Integrator_Properties\<close> and \<open>Integrator_Blame\<close> derive what preceded a push and a rejection;
    \<open>Loop_Safety\<close> follows the local state (the judgement \<open>keeps\<close>), \<open>Loop_Properties\<close> takes it through crashes and
    restarts. \<open>Scope_Closure\<close>, \<open>Line_Diff\<close> and \<open>Gate_Properties\<close> prove the gate complete, terminating and its diff
    minimal.

  \<^bold>\<open>How the code is read.\<close>
  Strings are lists of UTF-8 bytes; 64-bit times are integers with the saturation of the code written out. A
  table is its rows in rowid order, with the unique indexes checked by the inserts; foreign keys, CHECK
  constraints and triggers are not modelled, and a savepoint that fails drops its own writes. An error ends
  the transaction and leaves the database as it was. Fresh UUIDs, digests (SHA-256, the request fingerprint,
  the task digest), clocks, lower casing and the parsers of URLs, UUIDs, hexadecimal and RFC 3339 are arguments.
  Prose of messages, hints and logs, the \<^verbatim>\<open>processing\<close> column, state tokens and the bodies of listings are left out;
  of JSON answers only what other code reads is kept. In the integrator the TOML roster and SHA-256 belong to
  the host; idempotency keys, evidence texts and the sizes reports are cut to are left out; a tip shorter than
  twelve bytes, where the code would panic, is taken whole. For the gate Git is a pair of functions, read at
  one point of the history, since objects never change. A push of a result branch with a lease on absence
  cannot move a branch that exists and does not count as a push to a target. In the publication the paths of
  the intent file, its journal and the protection of files are left out, and the lock makes the operations on
  one state file exclusive.

  \<^bold>\<open>Recursion.\<close>
  Nothing runs on fuel but the launch walk, whose bound \<open>LAUNCH_WALK_CAP\<close> is the code's own. \<open>ancestors\<close> ends because every
  visited task leaves the unvisited ones; the worklist of the gate is partial and shown to end on every
  finite tree; the paged queue search ends because each page is shorter than the rest of the queue.

  \<^bold>\<open>What is not modelled.\<close>
  The routes the service serves to the integrator (\<^verbatim>\<open>integrator_authority.rs\<close>, \<^verbatim>\<open>integrator_observe.rs\<close>,
  \<^verbatim>\<open>integrator_reverts.rs\<close> and their siblings), maintenance, restore runs, imports, sign-in, accounts and passkeys,
  artifacts and objectives, telemetry, the attention queue, listings and the start-up backfill of digests.
  The tables that only those write may change freely between two steps. Where they also write a
  table the modelled operations write (the authority routes void an approval and take a released hold again,
  maintenance compacts the result of an old receipt, an import may reopen a task), the properties claim what
  those writes leave alone, or say that they speak of the modelled operations. Outside the service: the command-line,
  MCP and HTTP clients, task worktrees and the job runner, and the processes, configuration and GitHub client of
  the integrator: input and output around the modelled core.
\<close>

section \<open>The invariant\<close>

text \<open>C1. Every state the service reaches from a fresh database by requests, clock samples, reconciliations,
  restarts and changes of the tables these handlers only read satisfies the invariants of all
  components: ownership, weekly budgets, acyclic dependencies and resource capacity.\<close>

theorem system_invariant:
  assumes "reachable en srv" and "0 \<le> cf_weekly_budget (en_config en)"
  shows "system_ok (cf_weekly_budget (en_config en)) (srv_db srv)"
  by (rule reachable_ok [OF assms])

theorem system_invariant_witness:
  "system_ok 14 (srv_db (snd (serve ex_env (ex_call True ''k'' ex_now) (Create_project ''p'' ex_project_input) (ex_serving ex_db))))"
  (is "system_ok 14 (srv_db ?s)")
proof -
  have "reachable ex_env (ex_serving ex_db)" by (rule reachable.start) (simp add: ex_fresh)
  moreover have "step ex_env (ex_serving ex_db) ?s" by (rule step.request) (rule prod.collapse [symmetric])
  ultimately have "reachable ex_env ?s" by (rule reachable.next_state)
  from system_invariant [OF this] show ?thesis by simp
qed

section \<open>Ownership\<close>

text \<open>C2. Exclusive ownership: in a state that satisfies the invariant and in every later one, two active
  attempts of one task are the same, and it is the one the task names, at the task's generation; only a task
  that was closed under its attempt (done, canceled or superseded) may name none.\<close>

theorem exclusive_ownership:
  assumes "system_ok (cf_weekly_budget (en_config en)) (srv_db srv)" and "(step en)\<^sup>*\<^sup>* srv srv'"
    and "a \<in> set (attempts (srv_db srv'))" "at_state a = Active"
    and "b \<in> set (attempts (srv_db srv'))" "at_state b = Active" and "at_task a = at_task b"
  shows "a = b \<and> (\<exists>t \<in> set (tasks (srv_db srv')). tk_id t = at_task a
      \<and> (tk_current_attempt t = Some (at_id a) \<and> tk_generation t = at_generation a
         \<or> tk_current_attempt t = None \<and> closed t))"
proof -
  from steps_forward [OF assms(2)] assms(1) have ok: "leases_ok (srv_db srv')"
    by (simp add: forward_def system_ok_def)
  then obtain t where t: "t \<in> set (tasks (srv_db srv'))" "attempt_ok a t"
    using assms(3) unfolding leases_ok_def by blast
  with assms(4) active_exclusive [OF ok assms(3-7)] show ?thesis unfolding attempt_ok_def by auto
qed

theorem exclusive_ownership_witness:
  "\<exists>t \<in> set (tasks ex_owned). tk_id t = ''t'' \<and> tk_current_attempt t = Some ''a1'' \<and> tk_generation t = 1"
  using exclusive_ownership [of ex_env "ex_serving ex_owned" _ ex_attempt ex_attempt, OF _ ex_restart] ex_owned_ok
  by (simp add: ex_owned_def ex_attempt_def new_attempt_def ex_task_def new_task_def closed_def)

text \<open>C3. Fencing: an attempt that ended, or that a later generation superseded, never passes the ownership test
  of an owner operation again, in any later state and for any caller.\<close>

theorem ended_attempt_fenced:
  assumes ok: "system_ok (cf_weekly_budget (en_config en)) (srv_db srv)" and steps: "(step en)\<^sup>*\<^sup>* srv srv'"
    and a: "a \<in> set (attempts (srv_db srv))"
    and over: "at_state a \<noteq> Active \<or> (\<exists>t \<in> set (tasks (srv_db srv)). tk_id t = at_task a \<and> at_generation a < tk_generation t)"
    and m: "m_db m = srv_db srv'"
  shows "\<not> is_ok (owned m p (at_id a) gen)"
proof
  assume "is_ok (owned m p (at_id a) gen)"
  then obtain b where b: "owned m p (at_id a) gen = Inr b" by (cases "owned m p (at_id a) gen") auto
  note o = owned_Inr [OF b]
  from steps_forward [OF steps] ok have ok': "leases_ok (srv_db srv')" and fw: "leases_forward (srv_db srv) (srv_db srv')"
    by (simp_all add: forward_def system_ok_def)
  from fw a obtain c where c: "c \<in> set (attempts (srv_db srv'))" "attempt_forward a c" by (auto simp: leases_forward_def)
  have "c = b" using ok' c o(1,2) m by (auto simp: leases_ok_def attempt_forward_def dest: unique_row)
  with c(2) o(5) have act: "at_state a = Active" and gen: "at_generation b = at_generation a" and tk: "at_task b = at_task a"
    by (auto simp: attempt_forward_def)
  with over obtain t where t: "t \<in> set (tasks (srv_db srv))" "tk_id t = at_task a" "at_generation a < tk_generation t" by blast
  from fw t(1) obtain u where u: "u \<in> set (tasks (srv_db srv'))" "tk_id u = tk_id t" "tk_generation t \<le> tk_generation u"
    by (auto simp: leases_forward_def task_forward_def)
  have "tk_current_attempt u = Some (at_id a)"
    using current_row [OF ok' u(1) _ o(10) [unfolded m]] u(2) t(2) tk by simp
  with active_current [OF ok' c(1) _ u(1)] \<open>c = b\<close> o(5) u(2) t(2) tk gen have "tk_generation u = at_generation a" by simp
  with t(3) u(3) show False by simp
qed

theorem ended_attempt_fenced_witness:
  "\<not> is_ok (owned (ex_m ex_agent ex_now ex_recovering) ''p'' ''a1'' 1)"
  using ended_attempt_fenced [of ex_env "ex_serving ex_recovering" _ "ex_attempt\<lparr>at_state := Expired, at_ended_at := Some (ex_now + 700000)\<rparr>"
      "ex_m ex_agent ex_now ex_recovering" "''p''" 1, OF _ ex_restart] ex_recovering_ok
  by (simp add: ex_m_def ex_recovering_def ex_attempt_def new_attempt_def)

section \<open>Shared resources\<close>

text \<open>C10. The units held of a resource never exceed its capacity, and a producer that may still run holds its
  reservation, in every state after one that satisfies the invariant.\<close>

theorem resources_never_overcommitted:
  assumes "system_ok (cf_weekly_budget (en_config en)) (srv_db srv)" and "(step en)\<^sup>*\<^sup>* srv srv'"
  shows "(\<forall>y \<in> set (resources (srv_db srv')). held_units (srv_db srv') (rs_id y) \<le> rs_capacity y)
    \<and> (\<forall>j \<in> set (jobs (srv_db srv')). live_job j \<longrightarrow>
        (\<exists>v \<in> set (reservations (srv_db srv')). rv_id v = jb_reservation j \<and> rv_state v = Held))"
  using steps_forward [OF assms(2)] assms(1)
  by (fastforce simp: forward_def system_ok_def resources_ok_def held_def table_simps)

theorem resources_never_overcommitted_witness:
  "held_units ex_building ''r1'' \<le> 2 \<and> live_job ex_job"
proof -
  have "live_job ex_job" by (simp add: live_job_def ex_job_def unfinished_job_def)
  moreover have "ex_resource \<in> set (resources ex_building)" by (simp add: ex_building_def)
  ultimately show ?thesis
    using resources_never_overcommitted [of ex_env "ex_serving ex_building", OF _ rtranclp.rtrancl_refl] ex_building_ok
    by (force simp: ex_resource_def)
qed

text \<open>C22. The result of a finished job is final: state, exit code, input check and summary of a job in a terminal
  state never change again, whatever the reporter, its owner or an administrator sends later.\<close>

theorem terminal_results_final:
  assumes "system_ok (cf_weekly_budget (en_config en)) (srv_db srv)" and "(step en)\<^sup>*\<^sup>* srv srv'"
    and "j \<in> set (jobs (srv_db srv))" and "terminal (jb_state j)"
  shows "\<exists>k \<in> set (jobs (srv_db srv')). jb_id k = jb_id j \<and> jb_state k = jb_state j \<and> jb_exit_code k = jb_exit_code j
    \<and> jb_inputs_unchanged k = jb_inputs_unchanged j \<and> jb_summary k = jb_summary j"
  using steps_forward [OF assms(2)] assms(1,3,4)
  by (fastforce simp: forward_def jobs_forward_def job_forward_def)

definition ex_done :: db where
  "ex_done = ex_building\<lparr>jobs := [ex_job\<lparr>jb_state := Failed, jb_exit_code := Some 1\<rparr>]\<rparr>"

lemma ex_done_ok: "system_ok 14 ex_done"
  by (simp add: ex_done_def system_ok_def ex_ok_defs ex_building_def ex_resource_def ex_job_def ex_state_defs ex_attempt_defs table_simps
      live_job_def unfinished_job_def rows_def)

theorem terminal_results_final_witness:
  "\<exists>k \<in> set (jobs ex_done). jb_id k = ''j1'' \<and> jb_exit_code k = Some 1"
  using terminal_results_final [of ex_env "ex_serving ex_done" _ "ex_job\<lparr>jb_state := Failed, jb_exit_code := Some 1\<rparr>", OF _ ex_restart]
    ex_done_ok
  by (simp add: ex_done_def ex_job_def terminal_def)

section \<open>History\<close>

text \<open>What of a receipt the retention of \<^verbatim>\<open>maintenance.rs\<close> leaves: it may empty the stored result.\<close>

definition receipt_identity :: "mutation_receipt \<Rightarrow> mutation_receipt" where
  "receipt_identity r = r\<lparr>mr_result := JNull, mr_compacted_at := None\<rparr>"

text \<open>C24. Along every run of the modelled operations events are append-only, and so are receipts but for their
  result, which the retention (not an operation of the run) may compact: caller, operation, key, request,
  time and epoch of a receipt are final. Every attempt keeps its task, generation, owner, session, credential
  and start, an ended one its state; the generation of a task and the sequence of a job never decrease, and
  a finished or reconciled job keeps its result and its reconciliation.\<close>

theorem history_only_grows:
  assumes "system_ok (cf_weekly_budget (en_config en)) (srv_db srv)" and "(step en)\<^sup>*\<^sup>* srv srv'"
  shows "prefix (events (srv_db srv)) (events (srv_db srv'))
    \<and> prefix (map receipt_identity (receipts (srv_db srv))) (map receipt_identity (receipts (srv_db srv')))
    \<and> (\<forall>a \<in> set (attempts (srv_db srv)). \<exists>b \<in> set (attempts (srv_db srv')). attempt_forward a b)
    \<and> (\<forall>t \<in> set (tasks (srv_db srv)). \<exists>u \<in> set (tasks (srv_db srv')). tk_id u = tk_id t \<and> tk_generation t \<le> tk_generation u)
    \<and> (\<forall>j \<in> set (jobs (srv_db srv)). \<exists>k \<in> set (jobs (srv_db srv')). job_forward j k)"
  using steps_forward [OF assms(2)] assms(1)
  by (fastforce simp: forward_def map_mono_prefix leases_forward_def jobs_forward_def task_forward_def)

theorem history_only_grows_witness:
  "list_all (\<lambda>a. list_ex (attempt_forward a) (attempts ex_recovering)) (attempts ex_recovering)"
  using history_only_grows [of ex_env "ex_serving ex_recovering", OF _ ex_restart] ex_recovering_ok
  by (simp add: list_all_iff list_ex_iff)

end
